(* ===== verification/GoPrelude.thy ===== *)
theory GoPrelude
  imports Main "HOL-Library.Word" "HOL-Library.AList"
begin

text \<open>
  The part of the Go language and its standard library that the modelled packages use:
  byte strings and the functions of package strings on them, decimal, hexadecimal and
  base64 text, big-endian words, durations and clock readings, and association lists for
  Go maps whose size the code reads. A Go string is a \<open>string\<close>, a []byte a list of 8-bit
  words. Case mapping and white space are those of ASCII, which is what the strings functions
  compute on ASCII text.
\<close>

unbundle bit_operations_syntax

named_theorems go_simps \<open>evaluation rules for the text functions\<close>

type_synonym byte = "8 word"
type_synonym bytes = "byte list"

section \<open>Package strings\<close>

definition is_space :: "char \<Rightarrow> bool" where
  "is_space c \<longleftrightarrow> c = CHR '' '' \<or> c = CHR 0x09 \<or> c = CHR 0x0A \<or> c = CHR 0x0B \<or> c = CHR 0x0C \<or> c = CHR 0x0D"

definition TrimSpace :: "string \<Rightarrow> string" where
  "TrimSpace s = rev (dropWhile is_space (rev (dropWhile is_space s)))"

definition trim_char :: "char \<Rightarrow> string \<Rightarrow> string" where
  "trim_char q s = rev (dropWhile ((=) q) (rev (dropWhile ((=) q) s)))"

text \<open>The cases of an ASCII letter differ in bit 5.\<close>

definition lower_char :: "char \<Rightarrow> char" where
  "lower_char c = (if 65 \<le> (of_char c :: nat) \<and> (of_char c :: nat) \<le> 90 then
     (case c of Char b0 b1 b2 b3 b4 b5 b6 b7 \<Rightarrow> Char b0 b1 b2 b3 b4 True b6 b7) else c)"

definition upper_char :: "char \<Rightarrow> char" where
  "upper_char c = (if 97 \<le> (of_char c :: nat) \<and> (of_char c :: nat) \<le> 122 then
     (case c of Char b0 b1 b2 b3 b4 b5 b6 b7 \<Rightarrow> Char b0 b1 b2 b3 b4 False b6 b7) else c)"

definition ToLower :: "string \<Rightarrow> string" where
  "ToLower s = map lower_char s"

definition ToUpper :: "string \<Rightarrow> string" where
  "ToUpper s = map upper_char s"

definition EqualFold :: "string \<Rightarrow> string \<Rightarrow> bool" where
  "EqualFold s t \<longleftrightarrow> ToLower s = ToLower t"

definition HasPrefix :: "'a list \<Rightarrow> 'a list \<Rightarrow> bool" where
  "HasPrefix s p \<longleftrightarrow> take (length p) s = p"

definition HasSuffix :: "'a list \<Rightarrow> 'a list \<Rightarrow> bool" where
  "HasSuffix s p \<longleftrightarrow> HasPrefix (rev s) (rev p)"

text \<open>strings.Index and bytes.Index; None stands for -1.\<close>

fun Index :: "'a list \<Rightarrow> 'a list \<Rightarrow> nat option" where
  "Index [] p = (if p = [] then Some 0 else None)"
| "Index (x # xs) p = (if HasPrefix (x # xs) p then Some 0 else map_option Suc (Index xs p))"

definition Contains :: "'a list \<Rightarrow> 'a list \<Rightarrow> bool" where
  "Contains s p \<longleftrightarrow> Index s p \<noteq> None"

definition TrimPrefix :: "'a list \<Rightarrow> 'a list \<Rightarrow> 'a list" where
  "TrimPrefix s p = (if HasPrefix s p then drop (length p) s else s)"

definition TrimSuffix :: "'a list \<Rightarrow> 'a list \<Rightarrow> 'a list" where
  "TrimSuffix s p = rev (TrimPrefix (rev s) (rev p))"

text \<open>strings.Split with a one-byte separator; strings.SplitN with a limit of two.\<close>

fun split_on :: "'a \<Rightarrow> 'a list \<Rightarrow> 'a list list" where
  "split_on c [] = [[]]"
| "split_on c (x # xs) =
     (if x = c then [] # split_on c xs
      else (case split_on c xs of [] \<Rightarrow> [[x]] | y # ys \<Rightarrow> (x # y) # ys))"

definition cut_at :: "'a list \<Rightarrow> 'a list \<Rightarrow> ('a list \<times> 'a list) option" where
  "cut_at s p = (case Index s p of None \<Rightarrow> None | Some i \<Rightarrow> Some (take i s, drop (i + length p) s))"

text \<open>strings.Fields: the maximal runs of bytes that are not white space.\<close>

fun fields_aux :: "string \<Rightarrow> string \<Rightarrow> string list" where
  "fields_aux acc [] = (if acc = [] then [] else [rev acc])"
| "fields_aux acc (c # cs) =
     (if is_space c then (if acc = [] then fields_aux [] cs else rev acc # fields_aux [] cs)
      else fields_aux (c # acc) cs)"

definition Fields :: "string \<Rightarrow> string list" where
  "Fields s = fields_aux [] s"

fun Join :: "'a list list \<Rightarrow> 'a list \<Rightarrow> 'a list" where
  "Join [] sep = []"
| "Join [x] sep = x"
| "Join (x # y # ys) sep = x @ sep @ Join (y # ys) sep"

text \<open>strings.ReplaceAll for a two-byte pattern and a replacement text.\<close>

fun replace2 :: "'a \<Rightarrow> 'a \<Rightarrow> 'a list \<Rightarrow> 'a list \<Rightarrow> 'a list" where
  "replace2 a b r [] = []"
| "replace2 a b r [x] = [x]"
| "replace2 a b r (x # y # ys) =
     (if x = a \<and> y = b then r @ replace2 a b r ys else x # replace2 a b r (y # ys))"

section \<open>Decimal text\<close>

definition digit_char :: "nat \<Rightarrow> char" where
  "digit_char d = ''0123456789'' ! d"

fun nat_dec :: "nat \<Rightarrow> string" where
  "nat_dec n = (if n < 10 then [digit_char n] else nat_dec (n div 10) @ [digit_char (n mod 10)])"

definition int_dec :: "int \<Rightarrow> string" where
  "int_dec i = (if i < 0 then CHR ''-'' # nat_dec (nat (- i)) else nat_dec (nat i))"

definition is_digit :: "char \<Rightarrow> bool" where
  "is_digit c \<longleftrightarrow> 48 \<le> (of_char c :: nat) \<and> (of_char c :: nat) \<le> 57"

definition digit_val :: "char \<Rightarrow> nat" where
  "digit_val c = of_char c - 48"

definition dec_val :: "string \<Rightarrow> nat" where
  "dec_val s = foldl (\<lambda>n c. 10 * n + digit_val c) 0 s"

definition parse_digits :: "string \<Rightarrow> nat option" where
  "parse_digits s = (if s \<noteq> [] \<and> list_all is_digit s then Some (dec_val s) else None)"

text \<open>strconv.ParseInt(s, 10, 64): an optional sign, at least one digit, within 64 bits.\<close>

definition ParseInt64 :: "string \<Rightarrow> int option" where
  "ParseInt64 s =
     (case s of
        [] \<Rightarrow> None
      | c # cs \<Rightarrow>
          (let neg = (c = CHR ''-''); body = (if c = CHR ''-'' \<or> c = CHR ''+'' then cs else s)
           in case parse_digits body of
                None \<Rightarrow> None
              | Some n \<Rightarrow>
                  if neg then (if int n \<le> 2 ^ 63 then Some (- int n) else None)
                  else (if int n < 2 ^ 63 then Some (int n) else None)))"

text \<open>The value of a computation in int, which wraps at 64 bits.\<close>

definition wrap64 :: "int \<Rightarrow> int" where "wrap64 i = sint (word_of_int i :: 64 word)"

section \<open>Bytes, hexadecimal and base64\<close>

definition bytes_of :: "string \<Rightarrow> bytes" where
  "bytes_of s = map (\<lambda>c. word_of_nat (of_char c)) s"

definition string_of :: "bytes \<Rightarrow> string" where
  "string_of b = map (\<lambda>w. char_of (unat w)) b"

definition hex_digit :: "nat \<Rightarrow> char" where
  "hex_digit n = ''0123456789abcdef'' ! n"

definition hex_val :: "char \<Rightarrow> nat option" where
  "hex_val c = (let n = (of_char c :: nat) in
     if 48 \<le> n \<and> n \<le> 57 then Some (n - 48)
     else if 97 \<le> n \<and> n \<le> 102 then Some (n - 87)
     else if 65 \<le> n \<and> n \<le> 70 then Some (n - 55)
     else None)"

fun hex_encode :: "bytes \<Rightarrow> string" where
  "hex_encode [] = []"
| "hex_encode (b # bs) = hex_digit (unat b div 16) # hex_digit (unat b mod 16) # hex_encode bs"

fun hex_decode :: "string \<Rightarrow> bytes option" where
  "hex_decode [] = Some []"
| "hex_decode [c] = None"
| "hex_decode (c # d # cs) =
     (case (hex_val c, hex_val d) of
        (Some x, Some y) \<Rightarrow> map_option (\<lambda>bs. word_of_nat (16 * x + y) # bs) (hex_decode cs)
      | _ \<Rightarrow> None)"

definition b64_table :: string where
  "b64_table = ''ABCDEFGHIJKLMNOPQRSTUVWXYZabcdefghijklmnopqrstuvwxyz0123456789+/''"

definition b64_char :: "nat \<Rightarrow> char" where
  "b64_char n = b64_table ! n"

definition b64_val :: "char \<Rightarrow> nat option" where
  "b64_val c = (let n = (of_char c :: nat) in
     if 65 \<le> n \<and> n \<le> 90 then Some (n - 65)
     else if 97 \<le> n \<and> n \<le> 122 then Some (n - 71)
     else if 48 \<le> n \<and> n \<le> 57 then Some (n + 4)
     else if n = 43 then Some 62 else if n = 47 then Some 63 else None)"

fun b64_encode :: "bytes \<Rightarrow> string" where
  "b64_encode [] = []"
| "b64_encode [a] =
     (let n = unat a * 16 in [b64_char (n div 64), b64_char (n mod 64), CHR ''='', CHR ''=''])"
| "b64_encode [a, b] =
     (let n = (unat a * 256 + unat b) * 4
      in [b64_char (n div 4096), b64_char (n div 64 mod 64), b64_char (n mod 64), CHR ''=''])"
| "b64_encode (a # b # c # rest) =
     (let n = unat a * 65536 + unat b * 256 + unat c
      in b64_char (n div 262144) # b64_char (n div 4096 mod 64) # b64_char (n div 64 mod 64)
         # b64_char (n mod 64) # b64_encode rest)"

text \<open>base64.StdEncoding: carriage returns and line feeds are skipped, padding closes the text.\<close>

definition b64_last :: "char \<Rightarrow> char \<Rightarrow> char \<Rightarrow> char \<Rightarrow> bytes option" where
  "b64_last a b c d =
     (case (b64_val a, b64_val b) of
        (Some x, Some y) \<Rightarrow>
          if d = CHR ''='' then
            (if c = CHR ''='' then Some [word_of_nat ((x * 64 + y) div 16)]
             else (case b64_val c of None \<Rightarrow> None
                   | Some z \<Rightarrow> Some [word_of_nat ((x * 4096 + y * 64 + z) div 1024),
                                     word_of_nat ((x * 4096 + y * 64 + z) div 4 mod 256)]))
          else (case (b64_val c, b64_val d) of
                  (Some z, Some w) \<Rightarrow>
                    (let n = x * 262144 + y * 4096 + z * 64 + w
                     in Some [word_of_nat (n div 65536), word_of_nat (n div 256 mod 256),
                              word_of_nat (n mod 256)])
                | _ \<Rightarrow> None)
      | _ \<Rightarrow> None)"

fun b64_quads :: "string \<Rightarrow> bytes option" where
  "b64_quads [] = Some []"
| "b64_quads (a # b # c # d # rest) =
     (if rest = [] then b64_last a b c d
      else if d = CHR ''='' then None
      else (case b64_last a b c d of None \<Rightarrow> None
            | Some out \<Rightarrow> map_option (\<lambda>bs. out @ bs) (b64_quads rest)))"
| "b64_quads _ = None"

definition b64_decode :: "string \<Rightarrow> bytes option" where
  "b64_decode s = b64_quads (filter (\<lambda>c. c \<noteq> CHR 0x0A \<and> c \<noteq> CHR 0x0D) s)"

text \<open>The parts of a path, and path/filepath's Dir and Base of a path that does not end in a slash.\<close>

definition path_parts :: "string \<Rightarrow> string list" where "path_parts p = split_on (CHR ''/'') p"
definition path_dir :: "string \<Rightarrow> string" where "path_dir p = Join (butlast (path_parts p)) ''/''"
definition path_base :: "string \<Rightarrow> string" where "path_base p = last (path_parts p)"

section \<open>Modes of files\<close>

text \<open>
  The mode that os.Chmod and os.MkdirAll hand to the system: the nine permission bits, and the bits for
  setuid, setgid and sticky from the flags 23, 22 and 20 of os.FileMode; its bits 9 to 11 are dropped.
\<close>

definition syscall_mode :: "nat \<Rightarrow> nat" where
  "syscall_mode m =
     m mod 512 + (if odd (m div 2 ^ 23) then 2048 else 0) + (if odd (m div 2 ^ 22) then 1024 else 0)
     + (if odd (m div 2 ^ 20) then 512 else 0)"

section \<open>Big-endian words\<close>

definition put_u32 :: "32 word \<Rightarrow> bytes" where
  "put_u32 w = [ucast (drop_bit 24 w), ucast (drop_bit 16 w), ucast (drop_bit 8 w), ucast w]"

definition get_u32 :: "bytes \<Rightarrow> 32 word" where
  "get_u32 b = (case b of
     b0 # b1 # b2 # b3 # _ \<Rightarrow> push_bit 24 (ucast b0) OR push_bit 16 (ucast b1) OR push_bit 8 (ucast b2) OR ucast b3
   | _ \<Rightarrow> 0)"

definition put_u64 :: "64 word \<Rightarrow> bytes" where
  "put_u64 w = map (\<lambda>k. ucast (drop_bit k w)) [56, 48, 40, 32, 24, 16, 8, 0]"

section \<open>Clock readings and durations\<close>

text \<open>
  A clock reading is a number of nanoseconds since the Unix epoch. A time.Duration is a signed
  64-bit number of nanoseconds: time.Time.Sub saturates, unary minus wraps.
\<close>

definition max_dur :: int where "max_dur = 2 ^ 63 - 1"
definition min_dur :: int where "min_dur = - (2 ^ 63)"

definition dur_sub :: "int \<Rightarrow> int \<Rightarrow> int" where
  "dur_sub t u = (let d = t - u in if d < min_dur then min_dur else if d > max_dur then max_dur else d)"

definition dur_neg :: "int \<Rightarrow> int" where
  "dur_neg d = (if d = min_dur then min_dur else - d)"

definition second :: int where "second = 1000000000"

text \<open>time.Unix(ts, 0): the seconds are kept relative to year 1 in a signed 64-bit word that wraps.\<close>

definition time_unix :: "int \<Rightarrow> int" where
  "time_unix ts = ((ts + 62135596800 + 2 ^ 63) mod 2 ^ 64 - 2 ^ 63 - 62135596800) * second"

section \<open>Facts the components share\<close>

subsection \<open>White space and case\<close>


lemma set_dropWhile: "x \<in> set (dropWhile P xs) \<Longrightarrow> x \<in> set xs"
  by (metis UnCI set_append takeWhile_dropWhile_id)

lemma dropWhile_rev_dropWhile:
  "dropWhile P (rev (dropWhile P (rev (dropWhile P xs)))) = rev (dropWhile P (rev (dropWhile P xs)))"
proof (cases "dropWhile P xs")
  case Nil
  then show ?thesis by (simp only: rev.simps dropWhile.simps)
next
  case (Cons y ys)
  then have ny: "\<not> P y" by (metis hd_dropWhile list.sel(1) list.simps(3))
  have "dropWhile P (rev ys @ [y]) = dropWhile P (rev ys) @ [y]"
    using ny by (induction "rev ys" arbitrary: ys) (auto simp: dropWhile_append split: if_splits)
  then show ?thesis using Cons ny by simp
qed

lemma TrimSpace_idem [simp]: "TrimSpace (TrimSpace s) = TrimSpace s"
  unfolding TrimSpace_def
  by (metis dropWhile_rev_dropWhile dropWhile_idem rev_rev_ident)

lemma TrimSpace_no_space: "\<forall>c\<in>set s. \<not> is_space c \<Longrightarrow> TrimSpace s = s"
proof -
  assume a: "\<forall>c\<in>set s. \<not> is_space c"
  have 1: "dropWhile is_space s = s" using a by (cases s) auto
  have 2: "dropWhile is_space (rev s) = rev s" using a by (cases "rev s") (auto simp: rev_swap[symmetric])
  show ?thesis by (simp add: TrimSpace_def 1 2)
qed

lemma char_code_lt [simp]: "(of_char c :: nat) < 256"
  by (metis of_char_of nat_of_char_less_256)

lemma char_of_code [simp]: "char_of (of_char c :: nat) = c" by simp

lemma code_char_of [simp]: "n < 256 \<Longrightarrow> (of_char (char_of n) :: nat) = n" by simp

lemma table_nth: "map f t = map g [0..<k] \<Longrightarrow> n < k \<Longrightarrow> f (t ! n) = g n"
  by (metis (no_types, lifting) add_0 diff_zero length_map length_upt nth_map nth_upt)

lemma lower_code: "65 \<le> (of_char c :: nat) \<Longrightarrow> (of_char c :: nat) \<le> 90 \<Longrightarrow> (of_char (lower_char c) :: nat) = of_char c + 32"
proof -
  assume a: "65 \<le> (of_char c :: nat)" "(of_char c :: nat) \<le> 90"
  have "\<forall>m \<in> set [65..<91]. (of_char (lower_char (char_of m)) :: nat) = m + 32"
    by (simp add: upt_rec lower_char_def char_of_def of_char_def bit_simps)
  moreover have "(of_char c :: nat) \<in> set [65..<91]" using a unfolding set_upt atLeastLessThan_iff by linarith
  ultimately have "(of_char (lower_char (char_of (of_char c :: nat))) :: nat) = of_char c + 32" by blast
  then show ?thesis by simp
qed

lemma lower_other: "\<not> (65 \<le> (of_char c :: nat) \<and> (of_char c :: nat) \<le> 90) \<Longrightarrow> lower_char c = c"
  by (auto simp: lower_char_def)

lemma lower_lower [simp]: "lower_char (lower_char c) = lower_char c"
proof (cases "65 \<le> (of_char c :: nat) \<and> (of_char c :: nat) \<le> 90")
  case True
  then show ?thesis using lower_code [of c] by (intro lower_other) simp
next
  case False then show ?thesis by (simp add: lower_other)
qed

lemma ToLower_idem [simp]: "ToLower (ToLower s) = ToLower s"
  by (simp add: ToLower_def)

lemma length_ToLower [simp]: "length (ToLower s) = length s" by (simp add: ToLower_def)
lemma length_ToUpper [simp]: "length (ToUpper s) = length s" by (simp add: ToUpper_def)

lemma is_space_lower [simp]: "is_space (lower_char c) = is_space c"
proof (cases "65 \<le> (of_char c :: nat) \<and> (of_char c :: nat) \<le> 90")
  case True
  then have "\<not> is_space c" by (auto simp: is_space_def)
  moreover have "\<not> is_space (lower_char c)"
  proof -
    have "(of_char (lower_char c) :: nat) = of_char c + 32" using True lower_code by simp
    then have "97 \<le> (of_char (lower_char c) :: nat)" using True by simp
    then show ?thesis by (auto simp: is_space_def)
  qed
  ultimately show ?thesis by simp
next
  case False
  then have "lower_char c = c" by (auto simp: lower_char_def)
  then show ?thesis by simp
qed

lemma dropWhile_space_lower: "dropWhile is_space (map lower_char s) = map lower_char (dropWhile is_space s)"
  by (induction s) auto

lemma TrimSpace_ToLower: "TrimSpace (ToLower s) = ToLower (TrimSpace s)"
  by (simp add: TrimSpace_def ToLower_def dropWhile_space_lower rev_map)

subsection \<open>Decimal text\<close>

lemma digit_char_props:
  assumes "d < 10"
  shows "is_digit (digit_char d)" "digit_val (digit_char d) = d"
proof -
  have t: "list_all is_digit ''0123456789''" "map digit_val ''0123456789'' = [0..<10]"
    by (simp_all add: is_digit_def digit_val_def upt_rec)
  show "is_digit (digit_char d)" using assms t(1) by (simp add: digit_char_def list_all_length)
  have "map digit_val ''0123456789'' = map id [0..<10]" using t(2) by simp
  then show "digit_val (digit_char d) = d" using assms table_nth [of digit_val _ id 10 d] by (simp only: digit_char_def id_apply)
qed

declare nat_dec.simps [simp del]

lemma nat_dec_digits: "list_all is_digit (nat_dec n)"
proof (induction n rule: nat_dec.induct)
  case (1 n)
  then show ?case by (subst nat_dec.simps) (auto simp: digit_char_props)
qed

lemma nat_dec_nonempty [simp]: "nat_dec n \<noteq> []"
  by (subst nat_dec.simps) simp

lemma dec_val_snoc: "dec_val (s @ [c]) = 10 * dec_val s + digit_val c"
  by (simp add: dec_val_def)

lemma dec_val_nat_dec [simp]: "dec_val (nat_dec n) = n"
proof (induction n rule: nat_dec.induct)
  case (1 n)
  show ?case
  proof (cases "n < 10")
    case True
    then show ?thesis by (subst nat_dec.simps) (simp add: dec_val_def digit_char_props)
  next
    case False
    then show ?thesis using 1 by (subst nat_dec.simps) (simp add: dec_val_snoc digit_char_props)
  qed
qed

lemma nat_dec_inj: "nat_dec m = nat_dec n \<longleftrightarrow> m = n"
  by (metis dec_val_nat_dec)

lemma parse_digits_nat_dec [simp]: "parse_digits (nat_dec n) = Some n"
  by (simp add: parse_digits_def nat_dec_digits)

lemma is_digit_not: "is_digit c \<Longrightarrow> c \<noteq> CHR ''-'' \<and> c \<noteq> CHR ''+'' \<and> c \<noteq> CHR '':'' \<and> \<not> is_space c"
  by (auto simp: is_digit_def is_space_def)

lemma ParseInt64_int_dec: "\<bar>i\<bar> < 2 ^ 63 \<Longrightarrow> ParseInt64 (int_dec i) = Some i"
proof (cases "i < 0")
  case True
  moreover assume "\<bar>i\<bar> < 2 ^ 63"
  ultimately show ?thesis by (simp add: ParseInt64_def int_dec_def)
next
  case False
  moreover assume "\<bar>i\<bar> < 2 ^ 63"
  moreover obtain c cs where c: "nat_dec (nat i) = c # cs" by (cases "nat_dec (nat i)") auto
  moreover have "is_digit c" using nat_dec_digits [of "nat i"] c by simp
  moreover have "parse_digits (c # cs) = Some (nat i)" using c parse_digits_nat_dec by metis
  ultimately show ?thesis
    using is_digit_not [of c] by (simp add: ParseInt64_def int_dec_def)
qed

lemma int_dec_nonempty [simp]: "int_dec i \<noteq> []" by (simp add: int_dec_def)

lemma int_dec_no_space: "\<forall>c\<in>set (int_dec i). \<not> is_space c"
proof -
  have "\<And>n. \<forall>c\<in>set (nat_dec n). \<not> is_space c"
    using nat_dec_digits is_digit_not by (auto simp: list_all_iff)
  then show ?thesis by (auto simp: int_dec_def is_space_def)
qed

lemma int_dec_no_colon: "\<forall>c\<in>set (int_dec i). c \<noteq> CHR '':''"
proof -
  have "\<And>n. \<forall>c\<in>set (nat_dec n). c \<noteq> CHR '':''"
    using nat_dec_digits is_digit_not by (auto simp: list_all_iff)
  then show ?thesis by (auto simp: int_dec_def)
qed

subsection \<open>Cut at a separator\<close>

lemma append_sep_inj:
  assumes "c \<notin> set a" "c \<notin> set b"
  shows "a @ c # x = b @ c # y \<longleftrightarrow> a = b \<and> x = y"
  using assms
proof (induction a arbitrary: b)
  case Nil then show ?case by (cases b) auto
next
  case (Cons z zs) then show ?case by (cases b) auto
qed

subsection \<open>Hexadecimal\<close>

lemma unat_byte_lt [simp]: "unat (b :: byte) < 256"
  using unsigned_less [of b] by simp

lemma unat_byte_of_nat: "n < 256 \<Longrightarrow> unat (word_of_nat n :: byte) = n"
  by (simp add: unsigned_of_nat take_bit_nat_eq_self)

lemma hex_digit_props:
  assumes "n < 16"
  shows "hex_val (hex_digit n) = Some n" "lower_char (hex_digit n) = hex_digit n" "\<not> is_space (hex_digit n)"
    "hex_digit n \<notin> set '':,='' \<and> hex_digit n \<noteq> CHR 0x22"
proof -
  let ?t = "''0123456789abcdef''"
  have t: "map hex_val ?t = map Some [0..<16]" "map lower_char ?t = ?t"
    "list_all (\<lambda>c. \<not> is_space c \<and> c \<notin> set '':,='' \<and> c \<noteq> CHR 0x22) ?t"
    by (simp_all add: hex_val_def upt_rec lower_char_def is_space_def)
  show "hex_val (hex_digit n) = Some n" unfolding hex_digit_def by (rule table_nth [OF t(1) assms])
  have "length ?t = 16" by simp
  then have "lower_char (?t ! n) = map lower_char ?t ! n" using assms by (simp only: nth_map)
  then show "lower_char (hex_digit n) = hex_digit n" by (simp only: t(2) hex_digit_def)
  show "\<not> is_space (hex_digit n)" "hex_digit n \<notin> set '':,='' \<and> hex_digit n \<noteq> CHR 0x22"
    using assms t(3) by (simp_all add: hex_digit_def list_all_length)
qed

lemma length_hex_encode [simp]: "length (hex_encode b) = 2 * length b"
  by (induction b) auto

lemma byte_div_mod_lt: "unat (b :: byte) div 16 < 16" "unat b mod 16 < 16"
  using unat_byte_lt [of b] by (simp_all add: less_mult_imp_div_less)

lemma hex_round_trip [simp]: "hex_decode (hex_encode b) = Some b"
  by (induction b) (auto simp: hex_digit_props byte_div_mod_lt)

lemma hex_encode_inj: "hex_encode a = hex_encode b \<longleftrightarrow> a = b"
  by (metis hex_round_trip option.inject)

lemma hex_encode_chars: "c \<in> set (hex_encode b) \<Longrightarrow> \<exists>n<16. c = hex_digit n"
  by (induction b) (auto intro: byte_div_mod_lt)

lemma ToLower_hex_encode [simp]: "ToLower (hex_encode b) = hex_encode b"
  unfolding ToLower_def by (rule map_idI) (metis hex_encode_chars hex_digit_props)

lemma TrimSpace_hex_encode [simp]: "TrimSpace (hex_encode b) = hex_encode b"
  by (rule TrimSpace_no_space) (metis hex_encode_chars hex_digit_props)

lemma hex_encode_Nil [simp]: "hex_encode b = [] \<longleftrightarrow> b = []" by (cases b) auto

lemma length_hex_decode: "hex_decode s = Some b \<Longrightarrow> length s = 2 * length b"
  by (induction s arbitrary: b rule: hex_decode.induct) (auto split: option.splits)

lemma hex_val_bound: "hex_val c = Some n \<Longrightarrow> n < 16"
  by (auto simp: hex_val_def Let_def split: if_splits)

lemma hex_digit_hex_val: "hex_val c = Some n \<Longrightarrow> hex_digit n = lower_char c"
proof -
  assume a: "hex_val c = Some n"
  let ?m = "of_char c :: nat"
  have "\<forall>m \<in> set ([48..<58] @ [97..<103] @ [65..<71]). case hex_val (char_of m) of None \<Rightarrow> True | Some n \<Rightarrow> hex_digit n = lower_char (char_of m)"
    by (simp add: upt_rec hex_val_def hex_digit_def lower_char_def char_of_def)
  moreover have "?m \<in> set ([48..<58] @ [97..<103] @ [65..<71])"
    using a unfolding hex_val_def Let_def set_append set_upt Un_iff atLeastLessThan_iff
    by (simp split: if_split_asm)
  ultimately have "case hex_val (char_of ?m) of None \<Rightarrow> True | Some n \<Rightarrow> hex_digit n = lower_char (char_of ?m)" by blast
  with a show ?thesis by simp
qed

lemma hex_encode_decode: "hex_decode s = Some b \<Longrightarrow> hex_encode b = ToLower s"
proof (induction s arbitrary: b rule: hex_decode.induct)
  case (3 c d cs)
  then obtain x y bs where "hex_val c = Some x" "hex_val d = Some y" "hex_decode cs = Some bs"
    "b = word_of_nat (16 * x + y) # bs" by (auto split: option.splits)
  moreover from this have "x < 16" "y < 16" by (auto dest: hex_val_bound)
  moreover from this have "unat (word_of_nat (16 * x + y) :: byte) = 16 * x + y"
    by (simp only: unat_byte_of_nat)
  ultimately show ?case using 3 by (simp add: hex_digit_hex_val ToLower_def)
qed (auto simp: ToLower_def)


subsection \<open>Base64\<close>

lemma b64_char_props:
  assumes "n < 64"
  shows "b64_val (b64_char n) = Some n" "b64_char n \<noteq> CHR ''=''" "b64_char n \<noteq> CHR 0x0A"
    "b64_char n \<noteq> CHR 0x0D" "\<not> is_space (b64_char n)" "b64_char n \<noteq> CHR '',''" "b64_char n \<noteq> CHR 0x22"
proof -
  have t: "map b64_val b64_table = map Some [0..<64]" "length b64_table = 64"
    "list_all (\<lambda>c. c \<notin> set [CHR ''='', CHR 0x0A, CHR 0x0D, CHR '','', CHR 0x22] \<and> \<not> is_space c) b64_table"
    by (simp_all add: b64_table_def upt_rec b64_val_def is_space_def)
  show "b64_val (b64_char n) = Some n" unfolding b64_char_def by (rule table_nth [OF t(1) assms])
  show "b64_char n \<noteq> CHR ''=''" "b64_char n \<noteq> CHR 0x0A"
    "b64_char n \<noteq> CHR 0x0D" "\<not> is_space (b64_char n)" "b64_char n \<noteq> CHR '',''" "b64_char n \<noteq> CHR 0x22"
    using assms t(2,3) by (simp_all add: b64_char_def list_all_length)
qed

lemma byte_quot_nat:
  assumes "a < 256" "b < 256" "c < (256::nat)"
  shows "(a * 65536 + b * 256 + c) div 262144 < 64" "(a * 256 + b) * 4 div 4096 < 64" "a * 16 div 64 < 64"
  using assms by simp_all

lemmas byte3_quot = byte_quot_nat(1) [OF unat_byte_lt unat_byte_lt unat_byte_lt]
lemmas byte2_quot = byte_quot_nat(2) [OF unat_byte_lt unat_byte_lt unat_byte_lt]
lemmas byte1_quot = byte_quot_nat(3) [OF unat_byte_lt unat_byte_lt unat_byte_lt]

lemma b64_encode_chars: "c \<in> set (b64_encode b) \<Longrightarrow> c \<in> insert (CHR ''='') (b64_char ` {..<64})"
proof (induction b rule: b64_encode.induct)
  case (2 a) then show ?case using byte1_quot by (simp only: b64_encode.simps Let_def) auto
next
  case (3 a b) then show ?case using byte2_quot by (simp only: b64_encode.simps Let_def) auto
next
  case (4 a b c r) then show ?case using byte3_quot by (simp only: b64_encode.simps Let_def) auto
qed simp

lemma div_chain64:
  "(n::nat) div 262144 * 262144 + n div 4096 mod 64 * 4096 + n div 64 mod 64 * 64 + n mod 64 = n"
proof -
  define a where "a = n div 64"
  define b where "b = a div 64"
  define c where "c = b div 64"
  have e: "n div 4096 = b" "n div 262144 = c" by (simp_all add: a_def b_def c_def div_mult2_eq [symmetric])
  have 1: "a * 64 + n mod 64 = n" unfolding a_def by (rule div_mult_mod_eq)
  have 2: "b * 64 + a mod 64 = a" unfolding b_def by (rule div_mult_mod_eq)
  have 3: "c * 64 + b mod 64 = b" unfolding c_def by (rule div_mult_mod_eq)
  have "c * 262144 + b mod 64 * 4096 + a mod 64 * 64 + n mod 64
      = (c * 64 + b mod 64) * 4096 + a mod 64 * 64 + n mod 64" by (simp add: algebra_simps)
  also have "\<dots> = (b * 64 + a mod 64) * 64 + n mod 64" by (simp only: 3) (simp add: algebra_simps)
  finally show ?thesis by (simp only: e 1 2 a_def [symmetric])
qed

lemma byte_split3:
  assumes "a < 256" "b < 256" "c < (256::nat)"
  shows "(a * 65536 + b * 256 + c) div 262144 < 64" "(a * 65536 + b * 256 + c) div 65536 = a"
    "(a * 65536 + b * 256 + c) div 256 mod 256 = b" "(a * 65536 + b * 256 + c) mod 256 = c"
proof -
  have 1: "(a * 65536 + b * 256 + c) div 256 = a * 256 + b" using assms by simp
  show "(a * 65536 + b * 256 + c) div 262144 < 64" using assms by simp
  show "(a * 65536 + b * 256 + c) div 65536 = a" using assms by simp
  show "(a * 65536 + b * 256 + c) div 256 mod 256 = b" using assms by (simp add: 1)
  show "(a * 65536 + b * 256 + c) mod 256 = c" using assms by (simp add: mod_add_eq [symmetric])
qed

lemma b64_last_full:
  "b64_last (b64_char ((unat a * 65536 + unat b * 256 + unat c) div 262144))
     (b64_char ((unat a * 65536 + unat b * 256 + unat c) div 4096 mod 64))
     (b64_char ((unat a * 65536 + unat b * 256 + unat c) div 64 mod 64))
     (b64_char ((unat a * 65536 + unat b * 256 + unat c) mod 64)) = Some [a, b, c]"
proof -
  let ?n = "unat a * 65536 + unat b * 256 + unat c"
  note s = byte_split3 [OF unat_byte_lt [of a] unat_byte_lt [of b] unat_byte_lt [of c]]
  have lt: "?n div 4096 mod 64 < 64" "?n div 64 mod 64 < 64" "?n mod 64 < 64" by simp_all
  show ?thesis
    unfolding b64_last_def b64_char_props(1) [OF s(1)] b64_char_props(1) [OF lt(1)]
      b64_char_props(1) [OF lt(2)] b64_char_props(1) [OF lt(3)] option.case prod.case Let_def div_chain64
    using b64_char_props(2) [OF lt(3)] by (simp only: if_False s(2-4)) simp
qed


lemma b64_encode_Nil [simp]: "b64_encode b = [] \<longleftrightarrow> b = []"
  by (cases b rule: b64_encode.cases) (simp_all add: Let_def)

lemma b64_last_one:
  "b64_last (b64_char (unat a * 16 div 64)) (b64_char (unat a * 16 mod 64)) (CHR ''='') (CHR ''='') = Some [a]"
proof -
  have lt: "unat a * 16 mod 64 < 64" by simp
  have e: "unat a * 16 div 64 * 64 + unat a * 16 mod 64 = unat a * 16" by (rule div_mult_mod_eq)
  show ?thesis
    unfolding b64_last_def b64_char_props(1) [OF byte1_quot] b64_char_props(1) [OF lt] option.case prod.case e
    by simp
qed

lemma byte_split2:
  assumes "a < 256" "b < (256::nat)"
  shows "(a * 256 + b) * 4 div 1024 = a" "(a * 256 + b) * 4 div 4 mod 256 = b"
    "(a * 256 + b) * 4 div 4096 * 4096 + (a * 256 + b) * 4 div 64 mod 64 * 64 + (a * 256 + b) * 4 mod 64 = (a * 256 + b) * 4"
proof -
  let ?n = "(a * 256 + b) * 4"
  show "?n div 1024 = a" "?n div 4 mod 256 = b" using assms by simp_all
  have e: "?n div 4096 = ?n div 64 div 64" by (simp only: div_mult2_eq [symmetric]) simp
  have 1: "?n div 64 * 64 + ?n mod 64 = ?n" by (rule div_mult_mod_eq)
  have 2: "?n div 64 div 64 * 64 + ?n div 64 mod 64 = ?n div 64" by (rule div_mult_mod_eq)
  have "?n div 64 div 64 * 4096 + ?n div 64 mod 64 * 64 + ?n mod 64
     = (?n div 64 div 64 * 64 + ?n div 64 mod 64) * 64 + ?n mod 64"
    by (simp only: add_mult_distrib mult.assoc numeral_times_numeral semiring_norm)
  then show "?n div 4096 * 4096 + ?n div 64 mod 64 * 64 + ?n mod 64 = ?n" by (simp only: e 1 2)
qed

lemma b64_last_two:
  "b64_last (b64_char ((unat a * 256 + unat b) * 4 div 4096)) (b64_char ((unat a * 256 + unat b) * 4 div 64 mod 64))
     (b64_char ((unat a * 256 + unat b) * 4 mod 64)) (CHR ''='') = Some [a, b]"
proof -
  let ?n = "(unat a * 256 + unat b) * 4"
  have lt: "?n div 64 mod 64 < 64" "?n mod 64 < 64" by simp_all
  note s = byte_split2 [OF unat_byte_lt [of a] unat_byte_lt [of b]]
  show ?thesis
    unfolding b64_last_def b64_char_props(1) [OF byte2_quot] b64_char_props(1) [OF lt(1)]
      b64_char_props(1) [OF lt(2)] option.case prod.case s(3) s(1,2)
    using b64_char_props(2) [OF lt(2)] by simp
qed

lemma b64_quads_encode: "b64_quads (b64_encode b) = Some b"
proof (induction b rule: b64_encode.induct)
  case (2 a)
  show ?case unfolding b64_encode.simps Let_def b64_quads.simps b64_last_one by simp
next
  case (3 a b)
  show ?case unfolding b64_encode.simps Let_def b64_quads.simps b64_last_two by simp
next
  case (4 a b c r)
  have ne: "b64_char ((unat a * 65536 + unat b * 256 + unat c) mod 64) \<noteq> CHR ''=''"
    by (rule b64_char_props(2)) simp
  show ?case
    unfolding b64_encode.simps Let_def b64_quads.simps b64_last_full option.case
    using 4 ne by simp
qed simp

lemma b64_encode_char_props: "c \<in> set (b64_encode b) \<Longrightarrow> c \<noteq> CHR 0x0A \<and> c \<noteq> CHR 0x0D \<and> \<not> is_space c \<and> c \<noteq> CHR '','' \<and> c \<noteq> CHR 0x22"
proof -
  assume "c \<in> set (b64_encode b)"
  then consider "c = CHR ''=''" | n where "n < 64" "c = b64_char n"
    using b64_encode_chars by blast
  then show ?thesis
  proof cases
    case 1 then show ?thesis by (simp add: is_space_def)
  next
    case 2 then show ?thesis using b64_char_props by simp
  qed
qed

lemma b64_round_trip [simp]: "b64_decode (b64_encode b) = Some b"
proof -
  have "filter (\<lambda>c. c \<noteq> CHR 0x0A \<and> c \<noteq> CHR 0x0D) (b64_encode b) = b64_encode b"
    by (rule filter_True) (metis b64_encode_char_props)
  then show ?thesis by (simp only: b64_decode_def b64_quads_encode)
qed

lemma TrimSpace_b64_encode [simp]: "TrimSpace (b64_encode b) = b64_encode b"
  by (rule TrimSpace_no_space) (metis b64_encode_char_props)

subsection \<open>Words and byte strings\<close>

lemma length_put_u32 [simp]: "length (put_u32 w) = 4" by (simp add: put_u32_def)

lemma get_put_u32 [simp]: "get_u32 (put_u32 w @ xs) = w"
  unfolding get_u32_def put_u32_def
  apply (simp only: append.simps list.case)
  apply (rule bit_word_eqI)
  subgoal for n by (cases "24 \<le> n"; cases "16 \<le> n"; cases "8 \<le> n") (auto simp: bit_simps)
  done

lemma put_u32_inj: "put_u32 v = put_u32 w \<longleftrightarrow> v = w"
  by (metis append_Nil2 get_put_u32)

lemma string_of_bytes_of [simp]: "string_of (bytes_of s) = s"
  by (simp add: string_of_def bytes_of_def unat_byte_of_nat comp_def map_idI)

lemma bytes_of_string_of [simp]: "bytes_of (string_of b) = b"
  by (simp add: string_of_def bytes_of_def comp_def map_idI)

lemma bytes_of_inj: "bytes_of s = bytes_of t \<longleftrightarrow> s = t"
  by (metis string_of_bytes_of)

lemma length_bytes_of [simp]: "length (bytes_of s) = length s" by (simp add: bytes_of_def)
lemma length_string_of [simp]: "length (string_of b) = length b" by (simp add: string_of_def)

lemma bytes_of_append: "bytes_of (a @ b) = bytes_of a @ bytes_of b" by (simp add: bytes_of_def)

lemma dur_neg_abs: "- (2 ^ 63) < d \<Longrightarrow> (if d < 0 then dur_neg d else d) = \<bar>d\<bar>"
  by (simp add: dur_neg_def min_dur_def)

lemma dur_sub_exact: "\<bar>t - u\<bar> < 2 ^ 63 \<Longrightarrow> dur_sub t u = t - u"
  by (auto simp: dur_sub_def min_dur_def max_dur_def Let_def)

lemma time_unix_small: "\<bar>ts\<bar> < 2 ^ 62 \<Longrightarrow> time_unix ts = ts * second"
  by (simp add: time_unix_def)

lemma Index_some_iff: "Index s p \<noteq> None \<longleftrightarrow> (\<exists>a b. s = a @ p @ b)"
proof (induction s)
  case Nil then show ?case by simp
next
  case (Cons x xs)
  have h: "HasPrefix (x # xs) p \<longleftrightarrow> (\<exists>b. x # xs = p @ b)" unfolding HasPrefix_def by (metis append_take_drop_id append_eq_conv_conj)
  show ?case
  proof (cases "HasPrefix (x # xs) p")
    case True
    then have "\<exists>a b. x # xs = a @ p @ b" using h by (metis append_Nil)
    then show ?thesis using True by simp
  next
    case False
    have "(\<exists>a b. x # xs = a @ p @ b) \<longleftrightarrow> (\<exists>a b. xs = a @ p @ b)"
    proof
      assume "\<exists>a b. x # xs = a @ p @ b"
      then obtain a b where e: "x # xs = a @ p @ b" by blast
      then have "a \<noteq> []" using False h by auto
      then obtain a' where "a = x # a'" using e by (cases a) auto
      then show "\<exists>a b. xs = a @ p @ b" using e by auto
    next
      assume "\<exists>a b. xs = a @ p @ b"
      then show "\<exists>a b. x # xs = a @ p @ b" by (metis append_Cons)
    qed
    then show ?thesis using False Cons.IH by simp
  qed
qed

lemma Contains_iff: "Contains s p \<longleftrightarrow> (\<exists>a b. s = a @ p @ b)"
  unfolding Contains_def by (rule Index_some_iff)

lemma Contains_trans: "Contains s t \<Longrightarrow> Contains t u \<Longrightarrow> Contains s u"
  unfolding Contains_iff by (metis append.assoc)

lemma HasPrefix_append: "length p \<le> length xs \<Longrightarrow> HasPrefix (xs @ ys) p = HasPrefix xs p"
  by (simp add: HasPrefix_def)

lemma HasPrefix_length: "HasPrefix s p \<Longrightarrow> length p \<le> length s"
  by (metis HasPrefix_def length_take min.cobounded1)

lemma wrap64_id: "- (2 ^ 63) \<le> i \<Longrightarrow> i < 2 ^ 63 \<Longrightarrow> wrap64 i = i"
  by (simp add: wrap64_def sint_sbintrunc' signed_take_bit_int_eq_self)

end
