(* ===== verification/GoHttp.thy ===== *)
theory GoHttp
  imports GoPrelude
begin

text \<open>
  The requests and responses of package net/http as the handlers read and write them. A body is
  absent, a byte string, or a reader that fails with an error other than the size limit. Header
  names are compared without case, as the canonical keys of net/http are, and Get gives the first
  value or the empty string.
\<close>

type_synonym headers = "(string \<times> string) list"

datatype req_body = BodyNil | BodyBytes bytes | BodyFail

record request =
  r_method :: string
  r_path :: string
  r_headers :: headers
  r_body :: req_body
  r_content_length :: int

fun header_get :: "headers \<Rightarrow> string \<Rightarrow> string" where
  "header_get [] name = ''''"
| "header_get ((k, v) # hs) name = (if EqualFold k name then v else header_get hs name)"

text \<open>The first non-empty value among several header names.\<close>

fun first_header :: "headers \<Rightarrow> string list \<Rightarrow> string" where
  "first_header hs [] = ''''"
| "first_header hs (n # ns) = (if header_get hs n \<noteq> '''' then header_get hs n else first_header hs ns)"

text \<open>io.ReadAll on a body, under http.MaxBytesReader when a positive limit is given.\<close>

datatype read_error = TooLarge | ReadFailed

definition read_body :: "int \<Rightarrow> req_body \<Rightarrow> read_error + bytes" where
  "read_body limit b =
     (case b of
        BodyNil \<Rightarrow> Inr []
      | BodyBytes bs \<Rightarrow> if 0 < limit \<and> limit < int (length bs) then Inl TooLarge else Inr bs
      | BodyFail \<Rightarrow> Inl ReadFailed)"

lemma read_body_within: "read_body limit b = Inr bs \<Longrightarrow> 0 < limit \<Longrightarrow> int (length bs) \<le> limit"
  by (auto simp: read_body_def split: req_body.splits if_splits)

lemma read_body_bytes: "read_body limit b = Inr bs \<Longrightarrow> b \<noteq> BodyNil \<Longrightarrow> b = BodyBytes bs"
  by (auto simp: read_body_def split: req_body.splits if_splits)

section \<open>Response writers\<close>

definition header_set :: "string \<Rightarrow> string \<Rightarrow> headers \<Rightarrow> headers" where
  "header_set name v hs = filter (\<lambda>(k, _). \<not> EqualFold k name) hs @ [(name, v)]"

definition header_del :: "string \<Rightarrow> headers \<Rightarrow> headers" where
  "header_del name hs = filter (\<lambda>(k, _). \<not> EqualFold k name) hs"

text \<open>The headers so far, the status once it is sent, and the writes of the body in order.\<close>

record response =
  o_headers :: headers
  o_status :: "int option"
  o_body :: "bytes list"

definition out_write_header :: "int \<Rightarrow> response \<Rightarrow> response" where
  "out_write_header st w = (if o_status w = None then w\<lparr> o_status := Some st \<rparr> else w)"

definition out_write :: "bytes \<Rightarrow> response \<Rightarrow> response" where
  "out_write b w = (let w = out_write_header 200 w in w\<lparr> o_body := o_body w @ [b] \<rparr>)"

lemma EqualFold_refl [simp]: "EqualFold s s" by (simp add: EqualFold_def)

lemma header_get_del [simp]: "header_get (header_del n hs) n = ''''"
  unfolding header_del_def by (induction hs) auto

lemma header_get_del_append: "header_get (filter (\<lambda>(k, _). \<not> EqualFold k n) hs @ hs') n = header_get hs' n"
  by (induction hs) auto

lemma header_get_set [simp]: "header_get (header_set n v hs) n = v"
  by (simp add: header_set_def header_get_del_append)

end
