(* ===== verification/Contracts.thy ===== *)
theory Contracts
  imports GoPrelude
begin

text \<open>
  The interfaces between components: what a client relies on, and what it proves from that once.
  Each is interpreted on the model's definitions in the theory of the component that provides it.
\<close>

section \<open>Replay protection\<close>

text \<open>
  A guard steps through operations, each with a clock reading; an operation may consume a nonce.
  \<open>held s n t k\<close> says that nonce n, consumed at time t, is still remembered with at most k younger
  ones behind it; a guard forgets only what is older than its lifetime or pushed out by capacity.
\<close>

locale replay_guard =
  fixes step :: "'op \<Rightarrow> 's \<Rightarrow> 's"
    and at :: "'op \<Rightarrow> int"
    and consumes :: "'op \<Rightarrow> 's \<Rightarrow> string \<Rightarrow> bool"
    and ok :: "'s \<Rightarrow> bool"
    and held :: "'s \<Rightarrow> string \<Rightarrow> int \<Rightarrow> nat \<Rightarrow> bool"
    and horizon :: "'s \<Rightarrow> int"
    and capacity :: "'s \<Rightarrow> nat"
  assumes ok_step: "ok s \<Longrightarrow> ok (step x s)"
    and horizon_step: "ok s \<Longrightarrow> horizon (step x s) = horizon s"
    and capacity_step: "ok s \<Longrightarrow> capacity (step x s) = capacity s"
    and consumed_held: "ok s \<Longrightarrow> consumes x s n \<Longrightarrow> held (step x s) n (at x) 0"
    and held_refuses: "ok s \<Longrightarrow> held s n t k \<Longrightarrow> at x + horizon s < t \<Longrightarrow> \<not> consumes x s n"
    and held_step: "ok s \<Longrightarrow> held s n t k \<Longrightarrow> at x + horizon s < t \<Longrightarrow> k + 1 < capacity s
      \<Longrightarrow> held (step x s) n t (Suc k)"
begin

lemma ok_run: "ok s \<Longrightarrow> ok (fold step xs s) \<and> horizon (fold step xs s) = horizon s \<and> capacity (fold step xs s) = capacity s"
  by (induction xs arbitrary: s) (simp_all add: ok_step horizon_step capacity_step)

lemma held_run:
  "ok s \<Longrightarrow> held s n t k \<Longrightarrow> \<forall>x \<in> set xs. at x + horizon s < t \<Longrightarrow> k + length xs < capacity s
    \<Longrightarrow> held (fold step xs s) n t (k + length xs)"
proof (induction xs arbitrary: s k)
  case (Cons x xs)
  have "held (step x s) n t (Suc k)" using Cons.prems by (intro held_step) auto
  then have "held (fold step xs (step x s)) n t (Suc k + length xs)"
    using Cons.prems by (intro Cons.IH) (simp_all add: ok_step horizon_step capacity_step)
  then show ?case by simp
qed simp

text \<open>A consumed nonce is not consumed again within its lifetime and the capacity.\<close>

lemma no_replay:
  assumes "ok s" "consumes x s n" "\<forall>y \<in> set (xs @ [z]). at y + horizon s < at x" "length xs < capacity s"
  shows "\<not> consumes z (fold step xs (step x s)) n"
proof (rule held_refuses)
  show "ok (fold step xs (step x s))" using ok_run ok_step assms(1) by blast
  show "held (fold step xs (step x s)) n (at x) (0 + length xs)"
    using assms by (intro held_run consumed_held) (simp_all add: ok_step horizon_step capacity_step)
  show "at z + horizon (fold step xs (step x s)) < at x"
    using assms ok_run [OF ok_step [OF assms(1)]] by (simp add: horizon_step)
qed

end

section \<open>Frame channels\<close>

text \<open>
  A sender turns a frame into bytes, or fails; the peer reads them back. Two states are linked when
  they share what the frames are protected with; each operation keeps them linked.
\<close>

locale frame_channel =
  fixes enc :: "'f \<Rightarrow> 's \<Rightarrow> ('e + bytes) \<times> 's"
    and dec :: "bytes \<Rightarrow> 's \<Rightarrow> ('e + 'g) \<times> 's"
    and linked :: "'s \<Rightarrow> 's \<Rightarrow> bool"
    and fits :: "'f \<Rightarrow> bool"
    and view :: "'f \<Rightarrow> 's \<Rightarrow> 'g"
  assumes delivered: "linked s c \<Longrightarrow> fits f \<Longrightarrow> enc f s = (Inr out, s')
      \<Longrightarrow> fst (dec out c) = Inr (view f s) \<and> linked s' (snd (dec out c))"
    and failed: "linked s c \<Longrightarrow> enc f s = (Inl e, s') \<Longrightarrow> linked s' c"
begin

text \<open>What a sender emits of a list of frames, what the peer should see, and what it reads.\<close>

fun send :: "'f list \<Rightarrow> 's \<Rightarrow> bytes list" where
  "send [] s = []"
| "send (f # fs) s = (case enc f s of (Inl e, s') \<Rightarrow> send fs s' | (Inr out, s') \<Rightarrow> out # send fs s')"

fun views :: "'f list \<Rightarrow> 's \<Rightarrow> 'g list" where
  "views [] s = []"
| "views (f # fs) s = (case enc f s of (Inl e, s') \<Rightarrow> views fs s' | (Inr out, s') \<Rightarrow> view f s # views fs s')"

fun receive :: "bytes list \<Rightarrow> 's \<Rightarrow> ('e + 'g) list" where
  "receive [] c = []"
| "receive (b # bs) c = fst (dec b c) # receive bs (snd (dec b c))"

lemma stream_delivered: "linked s c \<Longrightarrow> list_all fits fs \<Longrightarrow> receive (send fs s) c = map Inr (views fs s)"
proof (induction fs arbitrary: s c)
  case (Cons f fs)
  obtain r s' where e: "enc f s = (r, s')" by fastforce
  show ?case
  proof (cases r)
    case (Inl x) then show ?thesis using Cons e failed by simp
  next
    case (Inr out)
    then have "fst (dec out c) = Inr (view f s) \<and> linked s' (snd (dec out c))"
      using Cons.prems e by (intro delivered) simp_all
    then show ?thesis using Cons Inr e by simp
  qed
qed simp

end

end
