(* ===== verification/Auth.thy ===== *)
theory Auth
  imports GoHttp Contracts
begin

text \<open>
  Package pkg/auth: the verifier that holds the single authorized Ed25519 key and the cache of
  consumed nonces (ed25519.go), the proof of possession asked at enrolment (registration.go), and
  the parsing and discovery of the key (metadata.go). SHA-256 and Ed25519 are parameters. The two
  mutexes of the verifier make each operation below one step on its state, and the clock reading
  that an operation takes is its argument \<open>now\<close>; nothing below assumes that readings increase.
\<close>

section \<open>State\<close>

record auth_crypto =
  sha256 :: "bytes \<Rightarrow> bytes"
  ed_verify :: "bytes \<Rightarrow> bytes \<Rightarrow> bytes \<Rightarrow> bool"
  ed_sign :: "bytes \<Rightarrow> bytes \<Rightarrow> bytes"

datatype auth_error =
    ErrMissingSignature
  | ErrMissingTimestamp
  | ErrMissingNonce
  | ErrInvalidSignature
  | ErrTimestampExpired
  | ErrReplayedNonce
  | ErrEnclaveUnenrolled
  | ErrKeyAlreadyEnrolled
  | ErrBodyHashMismatch
  | ErrBodyTooLarge
  | ErrInvalidKeyLength nat
  | ErrNonceTooLong
  | ErrTimestampFormat
  | ErrSignatureEncoding
  | ErrReadingBody
  | ErrInvalidProofOfPossession
  | ErrInvalidKeyFormat
  | ErrNoPublicKeyFound

definition PublicKeySize :: nat where "PublicKeySize = 32"
definition SignatureSize :: nat where "SignatureSize = 64"
definition DefaultMaxClockSkew :: int where "DefaultMaxClockSkew = 30 * second"
definition DefaultNonceTTL :: int where "DefaultNonceTTL = 60 * second"
definition MaxNonceCacheSize :: int where "MaxNonceCacheSize = 250000"
definition MaxNonceLength :: nat where "MaxNonceLength = 128"

type_synonym nonceEntry = "string \<times> int"

record verifier =
  publicKey :: bytes
  isEnrolled :: bool
  enrolledAt :: int
  maxClockSkew :: int
  nonceTTL :: int
  seenNonces :: "(string \<times> int) list"
  nonceOrder :: "nonceEntry list"
  lastCleanup :: int
  maxNonceCacheSize :: int

definition NewDynamicVerifier :: "int \<Rightarrow> verifier" where
  "NewDynamicVerifier now =
     \<lparr> publicKey = [], isEnrolled = False, enrolledAt = 0, maxClockSkew = DefaultMaxClockSkew,
       nonceTTL = DefaultNonceTTL, seenNonces = [], nonceOrder = [], lastCleanup = now,
       maxNonceCacheSize = MaxNonceCacheSize \<rparr>"

definition NewEd25519Verifier :: "int \<Rightarrow> bytes \<Rightarrow> int \<Rightarrow> int \<Rightarrow> verifier" where
  "NewEd25519Verifier now pubKey maxSkew ttl =
     (let maxSkew = (if maxSkew \<le> 0 then DefaultMaxClockSkew else maxSkew);
          ttl = (if ttl \<le> 0 then DefaultNonceTTL else ttl)
      in \<lparr> publicKey = pubKey, isEnrolled = (length pubKey = PublicKeySize), enrolledAt = now,
           maxClockSkew = maxSkew, nonceTTL = ttl, seenNonces = [], nonceOrder = [],
           lastCleanup = now, maxNonceCacheSize = MaxNonceCacheSize \<rparr>)"

section \<open>Key enrolment\<close>

definition EnrollKey :: "int \<Rightarrow> bytes \<Rightarrow> verifier \<Rightarrow> auth_error option \<times> verifier" where
  "EnrollKey now pubKey v =
     (if isEnrolled v then (Some ErrKeyAlreadyEnrolled, v)
      else if length pubKey \<noteq> PublicKeySize then (Some (ErrInvalidKeyLength (length pubKey)), v)
      else (None, v\<lparr> publicKey := pubKey, isEnrolled := True, enrolledAt := now \<rparr>))"

definition IsEnrolled :: "verifier \<Rightarrow> bool" where
  "IsEnrolled v = isEnrolled v"

definition GetPublicKey :: "verifier \<Rightarrow> bytes option" where
  "GetPublicKey v = (if \<not> isEnrolled v then None else Some (publicKey v))"

definition GetPublicKeyHex :: "verifier \<Rightarrow> string" where
  "GetPublicKeyHex v = (if \<not> isEnrolled v then '''' else hex_encode (publicKey v))"

definition GetPublicKeyBytes :: "verifier \<Rightarrow> bytes \<times> bool" where
  "GetPublicKeyBytes v =
     (if \<not> isEnrolled v \<or> length (publicKey v) \<noteq> PublicKeySize then (replicate 32 0, False)
      else (publicKey v, True))"

section \<open>Key text\<close>

definition ParsePublicKeyHex :: "string \<Rightarrow> auth_error + (bytes \<times> string)" where
  "ParsePublicKeyHex keyStr =
     (let clean = TrimSpace keyStr;
          openssh =
            (if HasPrefix clean ''ssh-ed25519 '' \<and> 2 \<le> length (Fields clean) then
               (case b64_decode (Fields clean ! 1) of
                  None \<Rightarrow> None
                | Some raw \<Rightarrow>
                    if length raw = 51 \<and> string_of (take 11 (drop 4 raw)) = ''ssh-ed25519'' then Some (drop 19 raw)
                    else if length raw = PublicKeySize then Some raw
                    else None)
             else None)
      in if clean = '''' then Inl ErrInvalidKeyFormat
         else (case openssh of
                 Some k \<Rightarrow> Inr (k, hex_encode k)
               | None \<Rightarrow>
                   if length clean = 64 then
                     (case hex_decode clean of
                        Some b \<Rightarrow> if length b = PublicKeySize then Inr (b, ToLower clean) else Inl ErrInvalidKeyFormat
                      | None \<Rightarrow> Inl ErrInvalidKeyFormat)
                   else Inl ErrInvalidKeyFormat))"

definition ParsePublicKey :: "string \<Rightarrow> auth_error + bytes" where
  "ParsePublicKey keyStr = map_sum id fst (ParsePublicKeyHex keyStr)"

section \<open>Key discovery\<close>

text \<open>
  The metadata server answers a request for an attribute with a transport error (None) or a status
  and a body whose reading may fail; the environment and the files are given by their contents. The
  pauses between attempts do not change the result.
\<close>

type_synonym metadata_server = "nat \<Rightarrow> string \<Rightarrow> (nat \<times> bytes option) option"

definition fetchGCPMetadataAttribute :: "metadata_server \<Rightarrow> nat \<Rightarrow> string \<Rightarrow> string \<Rightarrow> string option" where
  "fetchGCPMetadataAttribute srv attempt baseURL attributeName =
     (case srv attempt (baseURL @ ''/'' @ attributeName) of
        None \<Rightarrow> None
      | Some (status, body) \<Rightarrow>
          if status \<noteq> 200 then None
          else (case body of
                  None \<Rightarrow> None
                | Some b \<Rightarrow>
                    (let val = TrimSpace (string_of (take 4096 b))
                     in if val = '''' then None else Some val)))"

text \<open>The first candidate text that parses, with its origin.\<close>

fun first_key :: "(string \<times> string option) list \<Rightarrow> (bytes \<times> string \<times> string) option" where
  "first_key [] = None"
| "first_key ((src, val) # rest) =
     (case val of
        None \<Rightarrow> first_key rest
      | Some t \<Rightarrow>
          (case ParsePublicKeyHex t of
             Inl _ \<Rightarrow> first_key rest
           | Inr (k, h) \<Rightarrow> Some (k, h, src)))"

definition metadata_attributes :: "string list" where
  "metadata_attributes = [''cevell-auth-pub'', ''auth-pub'', ''ssh-keys'']"

definition metadata_bases :: "string list" where
  "metadata_bases =
     [''http://169.254.169.254/computeMetadata/v1/instance/attributes'',
      ''http://metadata.google.internal/computeMetadata/v1/instance/attributes'']"

definition key_files :: "string list" where
  "key_files = [''/etc/cevell/auth/auth.pub'', ''/mnt/ramdisk/auth.pub'', ''./configs/auth/auth.pub'']"

definition nonblank :: "string \<Rightarrow> string option" where
  "nonblank s = (if TrimSpace s = '''' then None else Some (TrimSpace s))"

definition key_candidates ::
  "string \<Rightarrow> metadata_server \<Rightarrow> (string \<Rightarrow> bytes option) \<Rightarrow> (string \<times> string option) list" where
  "key_candidates env srv files =
     [(''Environment Variable (CEVELL_AUTH_PUB)'', nonblank env)]
     @ concat (map (\<lambda>attempt. concat (map (\<lambda>base. map (\<lambda>attr.
         (''GCP Instance Metadata ('' @ base @ ''/'' @ attr @ '')'', fetchGCPMetadataAttribute srv attempt base attr))
         metadata_attributes) metadata_bases)) [1..<11])
     @ map (\<lambda>fp. (''Local file ('' @ fp @ '')'', case files fp of None \<Rightarrow> None | Some b \<Rightarrow> nonblank (string_of b)))
         key_files"

definition DiscoverAuthorizedPublicKey ::
  "string \<Rightarrow> metadata_server \<Rightarrow> (string \<Rightarrow> bytes option) \<Rightarrow> auth_error + (bytes \<times> string \<times> string)" where
  "DiscoverAuthorizedPublicKey env srv files =
     (case first_key (key_candidates env srv files) of
        None \<Rightarrow> Inl ErrNoPublicKeyFound
      | Some r \<Rightarrow> Inr r)"

definition NewDefaultEd25519Verifier ::
  "int \<Rightarrow> string \<Rightarrow> metadata_server \<Rightarrow> (string \<Rightarrow> bytes option) \<Rightarrow> auth_error + verifier" where
  "NewDefaultEd25519Verifier now env srv files =
     (case DiscoverAuthorizedPublicKey env srv files of
        Inl e \<Rightarrow> Inl e
      | Inr (k, _, _) \<Rightarrow> Inr (NewEd25519Verifier now k DefaultMaxClockSkew DefaultNonceTTL))"

section \<open>Canonical payloads\<close>

definition length_prefixed :: "string \<Rightarrow> string" where
  "length_prefixed field = nat_dec (length field) @ '':'' @ field @ [CHR 0x0A]"

definition BuildLengthPrefixedCanonicalWithHash ::
  "string \<Rightarrow> string \<Rightarrow> string \<Rightarrow> string \<Rightarrow> string \<Rightarrow> string \<Rightarrow> bytes" where
  "BuildLengthPrefixedCanonicalWithHash meth path requestID timestampStr nonce bodyHashHex =
     bytes_of (concat (map length_prefixed
       [ToUpper (TrimSpace meth), TrimSpace path, TrimSpace requestID, TrimSpace timestampStr,
        TrimSpace nonce, ToLower (TrimSpace bodyHashHex)]))"

definition BuildCanonicalWithHash ::
  "string \<Rightarrow> string \<Rightarrow> string \<Rightarrow> string \<Rightarrow> string \<Rightarrow> string \<Rightarrow> bytes" where
  "BuildCanonicalWithHash meth path requestID timestampStr nonce bodyHashHex =
     bytes_of (Join [ToUpper (TrimSpace meth), TrimSpace path, TrimSpace requestID,
       TrimSpace timestampStr, TrimSpace nonce, ToLower (TrimSpace bodyHashHex)] '':'')"

definition ComputeBodyHashHex :: "auth_crypto \<Rightarrow> bytes \<Rightarrow> string" where
  "ComputeBodyHashHex C body = hex_encode (sha256 C body)"

definition BuildLengthPrefixedCanonicalPayload ::
  "auth_crypto \<Rightarrow> string \<Rightarrow> string \<Rightarrow> string \<Rightarrow> string \<Rightarrow> string \<Rightarrow> bytes \<Rightarrow> bytes" where
  "BuildLengthPrefixedCanonicalPayload C meth path requestID timestampStr nonce body =
     BuildLengthPrefixedCanonicalWithHash meth path requestID timestampStr nonce (hex_encode (sha256 C body))"

definition BuildCanonicalPayload ::
  "auth_crypto \<Rightarrow> string \<Rightarrow> string \<Rightarrow> string \<Rightarrow> string \<Rightarrow> string \<Rightarrow> bytes \<Rightarrow> bytes" where
  "BuildCanonicalPayload C meth path requestID timestampStr nonce body =
     BuildCanonicalWithHash meth path requestID timestampStr nonce (hex_encode (sha256 C body))"

section \<open>Signing\<close>

definition SignPayloadWithBodyHash ::
  "auth_crypto \<Rightarrow> bytes \<Rightarrow> string \<Rightarrow> string \<Rightarrow> string \<Rightarrow> int \<Rightarrow> string \<Rightarrow> string \<Rightarrow> string" where
  "SignPayloadWithBodyHash C privKey meth path requestID ts nonce bodyHashHex =
     b64_encode (ed_sign C privKey (BuildCanonicalWithHash meth path requestID (int_dec ts) nonce bodyHashHex))"

definition SignPayload ::
  "auth_crypto \<Rightarrow> bytes \<Rightarrow> string \<Rightarrow> string \<Rightarrow> string \<Rightarrow> int \<Rightarrow> string \<Rightarrow> bytes \<Rightarrow> string" where
  "SignPayload C privKey meth path requestID ts nonce body =
     b64_encode (ed_sign C privKey (BuildCanonicalPayload C meth path requestID (int_dec ts) nonce body))"

definition SignLengthPrefixedPayload ::
  "auth_crypto \<Rightarrow> bytes \<Rightarrow> string \<Rightarrow> string \<Rightarrow> string \<Rightarrow> int \<Rightarrow> string \<Rightarrow> bytes \<Rightarrow> string" where
  "SignLengthPrefixedPayload C privKey meth path requestID ts nonce body =
     b64_encode (ed_sign C privKey
       (BuildLengthPrefixedCanonicalPayload C meth path requestID (int_dec ts) nonce body))"

section \<open>Authentication headers\<close>

record auth_headers =
  ah_sig :: string
  ah_timestamp :: string
  ah_nonce :: string
  ah_reqID :: string
  ah_bodyHash :: string

definition apply_auth_param :: "string \<Rightarrow> auth_headers \<Rightarrow> auth_headers" where
  "apply_auth_param part h =
     (case cut_at (TrimSpace part) ''='' of
        None \<Rightarrow> h
      | Some (k, v) \<Rightarrow>
          (let k = ToLower (TrimSpace k); val = trim_char (CHR 0x22) (TrimSpace v)
           in if k = ''signature'' then h\<lparr> ah_sig := val \<rparr>
              else if k = ''timestamp'' then h\<lparr> ah_timestamp := val \<rparr>
              else if k = ''nonce'' then h\<lparr> ah_nonce := val \<rparr>
              else if k = ''request_id'' then h\<lparr> ah_reqID := val \<rparr>
              else if k = ''body_sha256'' \<or> k = ''sha256'' then h\<lparr> ah_bodyHash := ToLower val \<rparr>
              else h))"

definition parse_authorization :: "string \<Rightarrow> auth_headers" where
  "parse_authorization authHeader =
     (let none = \<lparr> ah_sig = '''', ah_timestamp = '''', ah_nonce = '''', ah_reqID = '''', ah_bodyHash = '''' \<rparr>
      in if HasPrefix (ToLower authHeader) ''cevell-ed25519 '' then
           fold apply_auth_param (split_on (CHR '','') (TrimSpace (drop 15 authHeader))) none
         else if HasPrefix (ToLower authHeader) ''ed25519 '' then none\<lparr> ah_sig := TrimSpace (drop 8 authHeader) \<rparr>
         else if HasPrefix (ToLower authHeader) ''bearer '' then none\<lparr> ah_sig := TrimSpace (drop 7 authHeader) \<rparr>
         else none)"

definition ExtractAuthHeadersWithBodyHash :: "request \<Rightarrow> auth_headers" where
  "ExtractAuthHeadersWithBodyHash r =
     (let hs = r_headers r;
          a0 = header_get hs ''Authorization'';
          h = parse_authorization (if a0 = '''' then header_get hs ''authorization'' else a0);
          orElse = (\<lambda>v names. if v = '''' then first_header hs names else v)
      in \<lparr> ah_sig = orElse (ah_sig h) [''X-Signature'', ''x-signature'', ''X-Cevell-Signature'', ''x-cevell-signature''],
           ah_timestamp = orElse (ah_timestamp h)
             [''X-Cevell-Timestamp'', ''X-Timestamp'', ''x-timestamp'', ''x-cevell-timestamp''],
           ah_nonce = orElse (ah_nonce h) [''X-Cevell-Nonce'', ''X-Nonce'', ''x-nonce'', ''x-cevell-nonce''],
           ah_reqID = orElse (ah_reqID h)
             [''X-Cevell-Request-ID'', ''X-Request-ID'', ''x-request-id'', ''x-cevell-request-id''],
           ah_bodyHash = (if ah_bodyHash h = '''' then ToLower (TrimSpace (first_header hs
             [''X-Cevell-Body-SHA256'', ''X-Body-SHA256'', ''x-cevell-body-sha256'', ''x-body-sha256'']))
             else ah_bodyHash h) \<rparr>)"

definition ExtractAuthHeaders :: "request \<Rightarrow> string \<times> string \<times> string \<times> string" where
  "ExtractAuthHeaders r =
     (let h = ExtractAuthHeadersWithBodyHash r in (ah_sig h, ah_timestamp h, ah_nonce h, ah_reqID h))"

section \<open>The nonce cache\<close>

text \<open>
  The sweep removes entries from the head of the order while they are not after the cutoff; at
  saturation the oldest entries go. The reallocation of a shrunken order slice copies it unchanged.
\<close>

fun prune_expired :: "int \<Rightarrow> nonceEntry list \<Rightarrow> (string \<times> int) list \<Rightarrow> nonceEntry list \<times> (string \<times> int) list" where
  "prune_expired cutoff [] seen = ([], seen)"
| "prune_expired cutoff ((n, t) # order) seen =
     (if cutoff < t then ((n, t) # order, seen) else prune_expired cutoff order (AList.delete n seen))"

fun evict_oldest :: "nat \<Rightarrow> nonceEntry list \<Rightarrow> (string \<times> int) list \<Rightarrow> nonceEntry list \<times> (string \<times> int) list" where
  "evict_oldest cap [] seen = ([], seen)"
| "evict_oldest cap ((n, t) # order) seen =
     (if cap \<le> length seen then evict_oldest cap order (AList.delete n seen) else ((n, t) # order, seen))"

definition cache_cap :: "verifier \<Rightarrow> nat" where
  "cache_cap v = nat (if maxNonceCacheSize v \<le> 0 then MaxNonceCacheSize else maxNonceCacheSize v)"

definition sweep_cache :: "int \<Rightarrow> verifier \<Rightarrow> verifier" where
  "sweep_cache now v =
     (if second \<le> dur_sub now (lastCleanup v) then
        (let (order, seen) = prune_expired (now + dur_neg (nonceTTL v)) (nonceOrder v) (seenNonces v)
         in v\<lparr> nonceOrder := order, seenNonces := seen, lastCleanup := now \<rparr>)
      else v)"

definition record_nonce :: "int \<Rightarrow> string \<Rightarrow> verifier \<Rightarrow> verifier" where
  "record_nonce now nonce v =
     (let (order, seen) = evict_oldest (cache_cap v) (nonceOrder v) (seenNonces v)
      in v\<lparr> nonceOrder := order @ [(nonce, now)], seenNonces := AList.update nonce now seen \<rparr>)"

definition check_and_record_nonce :: "int \<Rightarrow> string \<Rightarrow> verifier \<Rightarrow> auth_error option \<times> verifier" where
  "check_and_record_nonce now nonce v =
     (let v = sweep_cache now v
      in if map_of (seenNonces v) nonce \<noteq> None then (Some ErrReplayedNonce, v)
         else (None, record_nonce now nonce v))"

section \<open>Verification of a request\<close>

text \<open>Checks shared by VerifyWithBodyHash and VerifyProofOfPossession, in their order.\<close>

definition check_fields :: "string \<Rightarrow> string \<Rightarrow> string \<Rightarrow> auth_error option" where
  "check_fields sigB64 timestampStr nonce =
     (if sigB64 = '''' then Some ErrMissingSignature
      else if timestampStr = '''' then Some ErrMissingTimestamp
      else if nonce = '''' then Some ErrMissingNonce
      else if MaxNonceLength < length nonce then Some ErrNonceTooLong
      else None)"

definition check_freshness :: "int \<Rightarrow> int \<Rightarrow> string \<Rightarrow> auth_error option" where
  "check_freshness now skew timestampStr =
     (case ParseInt64 timestampStr of
        None \<Rightarrow> Some ErrTimestampFormat
      | Some ts \<Rightarrow>
          (let diff = dur_sub now (time_unix ts);
               diff = (if diff < 0 then dur_neg diff else diff)
           in if skew < diff then Some ErrTimestampExpired else None))"

definition decode_signature :: "string \<Rightarrow> bytes option" where
  "decode_signature sigB64 =
     (case b64_decode (TrimSpace sigB64) of
        None \<Rightarrow> None
      | Some b \<Rightarrow> if length b \<noteq> SignatureSize then None else Some b)"

definition VerifyWithBodyHash ::
  "auth_crypto \<Rightarrow> int \<Rightarrow> string \<Rightarrow> string \<Rightarrow> string \<Rightarrow> string \<Rightarrow> string \<Rightarrow> string \<Rightarrow> string \<Rightarrow> verifier
     \<Rightarrow> auth_error option \<times> verifier" where
  "VerifyWithBodyHash C now meth path requestID timestampStr nonce bodyHashHex sigB64 v =
     (if \<not> isEnrolled v then (Some ErrEnclaveUnenrolled, v)
      else case check_fields sigB64 timestampStr nonce of
        Some e \<Rightarrow> (Some e, v)
      | None \<Rightarrow>
        (case check_freshness now (maxClockSkew v) timestampStr of
           Some e \<Rightarrow> (Some e, v)
         | None \<Rightarrow>
           (case decode_signature sigB64 of
              None \<Rightarrow> (Some ErrSignatureEncoding, v)
            | Some sigBytes \<Rightarrow>
                (let canonicalPrefixed = BuildLengthPrefixedCanonicalWithHash meth path requestID timestampStr nonce bodyHashHex;
                     canonicalLegacy = BuildCanonicalWithHash meth path requestID timestampStr nonce bodyHashHex
                 in if \<not> ed_verify C (publicKey v) canonicalPrefixed sigBytes
                       \<and> \<not> ed_verify C (publicKey v) canonicalLegacy sigBytes
                    then (Some ErrInvalidSignature, v)
                    else check_and_record_nonce now nonce v))))"

definition Verify ::
  "auth_crypto \<Rightarrow> int \<Rightarrow> string \<Rightarrow> string \<Rightarrow> string \<Rightarrow> string \<Rightarrow> string \<Rightarrow> bytes \<Rightarrow> string \<Rightarrow> verifier
     \<Rightarrow> auth_error option \<times> verifier" where
  "Verify C now meth path requestID timestampStr nonce body sigB64 v =
     VerifyWithBodyHash C now meth path requestID timestampStr nonce (hex_encode (sha256 C body)) sigB64 v"

definition VerifyHTTPRequest ::
  "auth_crypto \<Rightarrow> int \<Rightarrow> request \<Rightarrow> bytes \<Rightarrow> verifier \<Rightarrow> auth_error option \<times> verifier" where
  "VerifyHTTPRequest C now r body v =
     (if \<not> isEnrolled v then (Some ErrEnclaveUnenrolled, v)
      else (let (sig, timestamp, nonce, reqID) = ExtractAuthHeaders r
            in Verify C now (r_method r) (r_path r) reqID timestamp nonce body sig v))"

definition read_auth_body :: "int \<Rightarrow> req_body \<Rightarrow> auth_error + bytes" where
  "read_auth_body limit b =
     (case read_body limit b of
        Inl TooLarge \<Rightarrow> Inl ErrBodyTooLarge
      | Inl ReadFailed \<Rightarrow> Inl ErrReadingBody
      | Inr bs \<Rightarrow> Inr bs)"

definition VerifyHTTPRequestHeaderFirst ::
  "auth_crypto \<Rightarrow> int \<Rightarrow> int \<Rightarrow> request \<Rightarrow> verifier \<Rightarrow> (auth_error + bytes) \<times> verifier" where
  "VerifyHTTPRequestHeaderFirst C now limit r v =
     (if \<not> isEnrolled v then (Inl ErrEnclaveUnenrolled, v)
      else
        (let h = ExtractAuthHeadersWithBodyHash r;
             isEmptyBody = (r_body r = BodyNil \<or> r_content_length r = 0);
             claimedHash = (if ah_bodyHash h = '''' \<and> isEmptyBody then hex_encode (sha256 C []) else ah_bodyHash h)
         in if claimedHash \<noteq> '''' then
              (case VerifyWithBodyHash C now (r_method r) (r_path r) (ah_reqID h) (ah_timestamp h) (ah_nonce h)
                      claimedHash (ah_sig h) v of
                 (Some e, v) \<Rightarrow> (Inl e, v)
               | (None, v) \<Rightarrow>
                   if isEmptyBody then
                     (if ToLower claimedHash \<noteq> hex_encode (sha256 C []) then (Inl ErrBodyHashMismatch, v)
                      else (Inr [], v))
                   else (case read_auth_body limit (r_body r) of
                           Inl e \<Rightarrow> (Inl e, v)
                         | Inr body \<Rightarrow>
                             if ToLower claimedHash \<noteq> hex_encode (sha256 C body) then (Inl ErrBodyHashMismatch, v)
                             else (Inr body, v)))
            else
              (case read_auth_body limit (r_body r) of
                 Inl e \<Rightarrow> (Inl e, v)
               | Inr body \<Rightarrow>
                   (case Verify C now (r_method r) (r_path r) (ah_reqID h) (ah_timestamp h) (ah_nonce h) body
                           (ah_sig h) v of
                      (Some e, v) \<Rightarrow> (Inl e, v)
                    | (None, v) \<Rightarrow> (Inr body, v)))))"

section \<open>Proof of possession at enrolment\<close>

definition VerifyProofOfPossession ::
  "auth_crypto \<Rightarrow> int \<Rightarrow> bytes \<Rightarrow> request \<Rightarrow> bytes \<Rightarrow> verifier \<Rightarrow> auth_error option \<times> verifier" where
  "VerifyProofOfPossession C now candidate r body v =
     (if length candidate \<noteq> PublicKeySize then (Some (ErrInvalidKeyLength (length candidate)), v)
      else
        (let h = ExtractAuthHeadersWithBodyHash r
         in case check_fields (ah_sig h) (ah_timestamp h) (ah_nonce h) of
              Some e \<Rightarrow> (Some e, v)
            | None \<Rightarrow>
              (case check_freshness now (maxClockSkew v) (ah_timestamp h) of
                 Some e \<Rightarrow> (Some e, v)
               | None \<Rightarrow>
                 (case decode_signature (ah_sig h) of
                    None \<Rightarrow> (Some ErrSignatureEncoding, v)
                  | Some sigBytes \<Rightarrow>
                      (let bodyHashHex = (if ah_bodyHash h = '''' then hex_encode (sha256 C body) else ah_bodyHash h);
                           canonicalPrefixedHash = BuildLengthPrefixedCanonicalWithHash (r_method r) (r_path r)
                             (ah_reqID h) (ah_timestamp h) (ah_nonce h) bodyHashHex;
                           canonicalLegacyHash = BuildCanonicalWithHash (r_method r) (r_path r)
                             (ah_reqID h) (ah_timestamp h) (ah_nonce h) bodyHashHex;
                           canonicalPrefixed = BuildLengthPrefixedCanonicalPayload C (r_method r) (r_path r)
                             (ah_reqID h) (ah_timestamp h) (ah_nonce h) body;
                           canonicalLegacy = BuildCanonicalPayload C (r_method r) (r_path r)
                             (ah_reqID h) (ah_timestamp h) (ah_nonce h) body
                       in if \<not> ed_verify C candidate canonicalPrefixedHash sigBytes
                             \<and> \<not> ed_verify C candidate canonicalLegacyHash sigBytes
                             \<and> \<not> ed_verify C candidate canonicalPrefixed sigBytes
                             \<and> \<not> ed_verify C candidate canonicalLegacy sigBytes
                          then (Some ErrInvalidProofOfPossession, v)
                          else check_and_record_nonce now (ah_nonce h) v)))))"

section \<open>The cache invariant\<close>

definition cache_ok :: "verifier \<Rightarrow> bool" where
  "cache_ok v \<longleftrightarrow> distinct (map fst (nonceOrder v)) \<and> distinct (map fst (seenNonces v))
     \<and> set (seenNonces v) = set (nonceOrder v) \<and> length (seenNonces v) \<le> cache_cap v"

text \<open>The two representations of the cache, as the loops see them.\<close>

definition agree :: "nonceEntry list \<Rightarrow> (string \<times> int) list \<Rightarrow> bool" where
  "agree order seen \<longleftrightarrow> distinct (map fst order) \<and> distinct (map fst seen) \<and> set seen = set order"

lemma agree_length: "agree order seen \<Longrightarrow> length seen = length order"
  unfolding agree_def by (metis distinct_card distinct_map)

lemma agree_lookup: "agree order seen \<Longrightarrow> map_of seen n = map_of order n"
  unfolding agree_def by (metis map_of_inject_set)

lemma set_delete: "set (AList.delete n al) = {p \<in> set al. fst p \<noteq> n}"
  by (induction al) auto

lemma agree_delete_head: "agree ((n, t) # order) seen \<Longrightarrow> agree order (AList.delete n seen)"
  unfolding agree_def set_delete by (auto simp: distinct_delete image_iff)

lemma update_fresh: "n \<notin> fst ` set al \<Longrightarrow> AList.update n t al = al @ [(n, t)]"
  by (induction al) auto

lemma agree_prune:
  assumes "agree order seen" "prune_expired cutoff order seen = (order', seen')"
  shows "agree order' seen' \<and> (\<exists>gone. order = gone @ order' \<and> (\<forall>(n, t) \<in> set gone. t \<le> cutoff))"
  using assms
proof (induction cutoff order seen rule: prune_expired.induct)
  case (2 cutoff n t order seen)
  show ?case
  proof (cases "cutoff < t")
    case True then show ?thesis using 2 by auto
  next
    case False
    then have e: "prune_expired cutoff order (AList.delete n seen) = (order', seen')" using 2 by simp
    obtain gone where "agree order' seen'" "order = gone @ order'" "\<forall>(n, t) \<in> set gone. t \<le> cutoff"
      using 2(1) [OF False agree_delete_head [OF 2(2)] e] by blast
    then show ?thesis using False by (intro conjI exI [of _ "(n, t) # gone"]) auto
  qed
qed simp

lemma agree_evict:
  assumes "agree order seen" "evict_oldest cap order seen = (order', seen')"
  shows "agree order' seen' \<and> (\<exists>gone. order = gone @ order' \<and> (gone \<noteq> [] \<longrightarrow> length order' + 1 \<ge> cap))
    \<and> (0 < cap \<longrightarrow> length order' < cap)"
  using assms
proof (induction cap order seen rule: evict_oldest.induct)
  case (1 cap seen) then show ?case by simp
next
  case (2 cap n t order seen)
  note len = agree_length [OF 2(2)]
  show ?case
  proof (cases "cap \<le> length seen")
    case False then show ?thesis using 2 len by auto
  next
    case True
    then have e: "evict_oldest cap order (AList.delete n seen) = (order', seen')" using 2 by simp
    obtain gone where g: "agree order' seen'" "order = gone @ order'"
      "gone \<noteq> [] \<longrightarrow> length order' + 1 \<ge> cap" "0 < cap \<longrightarrow> length order' < cap"
      using 2(1) [OF True agree_delete_head [OF 2(2)] e] by blast
    have "length order' + 1 \<ge> cap" using g(2,3) True len by (cases gone) auto
    then show ?thesis using g by (intro conjI exI [of _ "(n, t) # gone"]) auto
  qed
qed

lemma agree_snoc:
  assumes "agree order seen" "map_of order n = None"
  shows "agree (order @ [(n, t)]) (AList.update n t seen)"
proof -
  have k: "n \<notin> fst ` set order" using assms(2) by (simp add: map_of_eq_None_iff)
  then have "n \<notin> fst ` set seen" using assms(1) by (simp add: agree_def)
  then have "AList.update n t seen = seen @ [(n, t)]" by (rule update_fresh)
  then show ?thesis using assms(1) k by (auto simp: agree_def)
qed


lemma cache_cap_pos [simp]: "0 < cache_cap v"
  by (simp add: cache_cap_def MaxNonceCacheSize_def)

lemma cache_ok_agree: "cache_ok v \<longleftrightarrow> agree (nonceOrder v) (seenNonces v) \<and> length (nonceOrder v) \<le> cache_cap v"
proof -
  have "cache_ok v \<longleftrightarrow> agree (nonceOrder v) (seenNonces v) \<and> length (seenNonces v) \<le> cache_cap v"
    by (simp only: cache_ok_def agree_def conj_assoc)
  then show ?thesis by (metis agree_length)
qed

lemma cache_cap_cong: "maxNonceCacheSize v = maxNonceCacheSize w \<Longrightarrow> cache_cap v = cache_cap w"
  by (simp add: cache_cap_def)

text \<open>What a sweep, a record and a check leave of the state.\<close>

definition same_key :: "verifier \<Rightarrow> verifier \<Rightarrow> bool" where
  "same_key v w \<longleftrightarrow> publicKey w = publicKey v \<and> isEnrolled w = isEnrolled v \<and> enrolledAt w = enrolledAt v
     \<and> maxClockSkew w = maxClockSkew v \<and> nonceTTL w = nonceTTL v \<and> maxNonceCacheSize w = maxNonceCacheSize v"

lemma same_key_refl [simp]: "same_key v v" by (simp add: same_key_def)

lemma same_key_trans: "same_key u v \<Longrightarrow> same_key v w \<Longrightarrow> same_key u w" by (simp add: same_key_def)

lemma same_key_cap: "same_key v w \<Longrightarrow> cache_cap w = cache_cap v" by (simp add: same_key_def cache_cap_def)

lemma sweep_facts:
  assumes "cache_ok v"
  shows "cache_ok (sweep_cache now v)" "same_key v (sweep_cache now v)"
    "\<exists>gone. nonceOrder v = gone @ nonceOrder (sweep_cache now v)
       \<and> (\<forall>(n, t) \<in> set gone. t \<le> now + dur_neg (nonceTTL v))"
proof -
  obtain order seen where p: "prune_expired (now + dur_neg (nonceTTL v)) (nonceOrder v) (seenNonces v) = (order, seen)"
    by fastforce
  obtain gone where g: "agree order seen" "nonceOrder v = gone @ order"
    "\<forall>(n, t) \<in> set gone. t \<le> now + dur_neg (nonceTTL v)"
    using agree_prune [OF _ p] assms cache_ok_agree by blast
  let ?w = "v\<lparr>nonceOrder := order, seenNonces := seen, lastCleanup := now\<rparr>"
  have sw: "sweep_cache now v = (if second \<le> dur_sub now (lastCleanup v) then ?w else v)"
    by (simp add: sweep_cache_def p)
  have c: "cache_cap ?w = cache_cap v" by (simp add: cache_cap_def)
  have l: "length (nonceOrder v) \<le> cache_cap v" using assms cache_ok_agree by blast
  have "cache_ok ?w" using g(1,2) l c by (simp add: cache_ok_agree)
  then show "cache_ok (sweep_cache now v)" using assms by (simp add: sw)
  show "same_key v (sweep_cache now v)" by (simp add: sw same_key_def)
  have "nonceOrder v = gone @ nonceOrder ?w" using g(2) by simp
  moreover have "nonceOrder v = [] @ nonceOrder v" "\<forall>(n, t) \<in> set []. t \<le> now + dur_neg (nonceTTL v)" by simp_all
  ultimately show "\<exists>gone. nonceOrder v = gone @ nonceOrder (sweep_cache now v)
       \<and> (\<forall>(n, t) \<in> set gone. t \<le> now + dur_neg (nonceTTL v))"
    unfolding sw using g(3) by (cases "second \<le> dur_sub now (lastCleanup v)") (simp_all only: if_True if_False, blast+)
qed

lemma record_facts:
  assumes "cache_ok v" "map_of (seenNonces v) n = None"
  shows "cache_ok (record_nonce now n v)" "same_key v (record_nonce now n v)"
    "\<exists>gone order. nonceOrder v = gone @ order \<and> nonceOrder (record_nonce now n v) = order @ [(n, now)]
       \<and> (gone \<noteq> [] \<longrightarrow> cache_cap v \<le> length order + 1)"
proof -
  obtain order seen where e: "evict_oldest (cache_cap v) (nonceOrder v) (seenNonces v) = (order, seen)"
    by fastforce
  have a: "agree (nonceOrder v) (seenNonces v)" using assms cache_ok_agree by blast
  obtain gone where g: "agree order seen" "nonceOrder v = gone @ order"
    "gone \<noteq> [] \<longrightarrow> length order + 1 \<ge> cache_cap v" "length order < cache_cap v"
    using agree_evict [OF a e] by auto
  have "map_of (gone @ order) n = None" using assms(2) agree_lookup [OF a] g(2) by metis
  then have "map_of order n = None" by (auto simp: map_of_eq_None_iff)
  then have s: "agree (order @ [(n, now)]) (AList.update n now seen)" by (rule agree_snoc [OF g(1)])
  have r: "record_nonce now n v = v\<lparr> nonceOrder := order @ [(n, now)], seenNonces := AList.update n now seen \<rparr>"
    by (simp add: record_nonce_def e)
  then have c: "cache_cap (record_nonce now n v) = cache_cap v" by (simp add: cache_cap_def)
  show "cache_ok (record_nonce now n v)" using s g(4) c by (simp add: cache_ok_agree r)
  show "same_key v (record_nonce now n v)" by (simp add: r same_key_def)
  show "\<exists>gone order. nonceOrder v = gone @ order \<and> nonceOrder (record_nonce now n v) = order @ [(n, now)]
       \<and> (gone \<noteq> [] \<longrightarrow> cache_cap v \<le> length order + 1)"
    unfolding r using g(2,3) by (intro exI [of _ gone] exI [of _ order]) simp
qed


text \<open>A nonce held since t, with at most k younger entries behind it.\<close>

definition held :: "verifier \<Rightarrow> string \<Rightarrow> int \<Rightarrow> nat \<Rightarrow> bool" where
  "held v n t k \<longleftrightarrow> (\<exists>xs ys. nonceOrder v = xs @ (n, t) # ys \<and> length ys \<le> k)"

lemma check_facts:
  assumes "cache_ok v"
  shows "cache_ok (snd (check_and_record_nonce now n v))" "same_key v (snd (check_and_record_nonce now n v))"
proof -
  note s = sweep_facts [OF assms, of now]
  let ?w = "sweep_cache now v"
  have e: "check_and_record_nonce now n v =
     (if map_of (seenNonces ?w) n \<noteq> None then (Some ErrReplayedNonce, ?w) else (None, record_nonce now n ?w))"
    by (simp add: check_and_record_nonce_def Let_def)
  show "cache_ok (snd (check_and_record_nonce now n v))" "same_key v (snd (check_and_record_nonce now n v))"
    unfolding e using s record_facts [OF s(1), of n now] same_key_trans [OF s(2)] by auto
qed

lemma check_accepts:
  assumes "cache_ok v" "check_and_record_nonce now n v = (None, v')"
  shows "held v' n now 0" "map_of (seenNonces (sweep_cache now v)) n = None" "map_of (seenNonces v') n = Some now"
proof -
  note s = sweep_facts [OF assms(1), of now]
  have m: "map_of (seenNonces (sweep_cache now v)) n = None" "v' = record_nonce now n (sweep_cache now v)"
    using assms(2) by (auto simp: check_and_record_nonce_def Let_def split: if_splits)
  note r = record_facts [OF s(1) m(1), of now]
  show "map_of (seenNonces (sweep_cache now v)) n = None" by (rule m(1))
  show h: "held v' n now 0" using r(3) by (auto simp: held_def m(2))
  have a: "agree (nonceOrder v') (seenNonces v')" using r(1) m(2) cache_ok_agree by blast
  obtain xs where "nonceOrder v' = xs @ [(n, now)]" using h by (auto simp: held_def)
  moreover from this have "map_of xs n = None" using a by (auto simp: agree_def map_of_eq_None_iff)
  ultimately show "map_of (seenNonces v') n = Some now" using agree_lookup [OF a] by (simp add: map_add_def)
qed

lemma append_cons_split:
  assumes "gone @ rest = xs @ p # ys" "p \<notin> set gone"
  shows "\<exists>xs'. rest = xs' @ p # ys"
  using assms by (auto simp: append_eq_append_conv2 append_eq_Cons_conv)

lemma held_sweep:
  assumes "cache_ok v" "held v n t k" "now + dur_neg (nonceTTL v) < t"
  shows "held (sweep_cache now v) n t k"
proof -
  obtain gone where g: "nonceOrder v = gone @ nonceOrder (sweep_cache now v)"
    "\<forall>(n, t) \<in> set gone. t \<le> now + dur_neg (nonceTTL v)" using sweep_facts(3) [OF assms(1)] by blast
  then have "(n, t) \<notin> set gone" using assms(3) by auto
  then show ?thesis using g(1) assms(2) append_cons_split unfolding held_def by metis
qed

lemma held_rejects:
  assumes "cache_ok v" "held v n t k" "now + dur_neg (nonceTTL v) < t"
  shows "fst (check_and_record_nonce now n v) = Some ErrReplayedNonce"
proof -
  let ?w = "sweep_cache now v"
  have "agree (nonceOrder ?w) (seenNonces ?w)" using sweep_facts(1) [OF assms(1)] cache_ok_agree by blast
  moreover have "map_of (nonceOrder ?w) n \<noteq> None"
    using held_sweep [OF assms] by (auto simp: held_def map_of_eq_None_iff)
  ultimately show ?thesis using agree_lookup by (auto simp: check_and_record_nonce_def Let_def)
qed

lemma held_check:
  assumes "cache_ok v" "held v n t k" "now + dur_neg (nonceTTL v) < t" "k + 1 < cache_cap v"
  shows "held (snd (check_and_record_nonce now m v)) n t (Suc k)"
proof -
  let ?w = "sweep_cache now v"
  note h = held_sweep [OF assms(1-3)]
  note s = sweep_facts [OF assms(1), of now]
  obtain xs ys where o: "nonceOrder ?w = xs @ (n, t) # ys" "length ys \<le> k" using h by (auto simp: held_def)
  show ?thesis
  proof (cases "map_of (seenNonces ?w) m")
    case (Some u)
    then show ?thesis using o by (auto simp: check_and_record_nonce_def Let_def held_def intro: exI le_SucI)
  next
    case None
    obtain gone order where r: "nonceOrder ?w = gone @ order" "nonceOrder (record_nonce now m ?w) = order @ [(m, now)]"
      "gone \<noteq> [] \<longrightarrow> cache_cap ?w \<le> length order + 1" using record_facts(3) [OF s(1) None] by blast
    have cap: "cache_cap ?w = cache_cap v" by (rule same_key_cap [OF s(2)])
    have len: "length (nonceOrder ?w) \<le> cache_cap v" using s(1) cap cache_ok_agree by metis
    have "\<exists>xs'. order = xs' @ (n, t) # ys"
    proof (cases "gone = []")
      case True then show ?thesis using r(1) o(1) by auto
    next
      case False
      then have "length gone \<le> 1" using r(1,3) len cap by simp
      moreover have "Suc (length ys) < length (nonceOrder ?w)"
        using False r(1,3) cap assms(4) o(2) by (cases gone) auto
      then have "xs \<noteq> []" using o(1) by auto
      ultimately obtain x xs' where "gone = [x]" "xs = x # xs'"
        using r(1) o(1) False by (cases gone; cases xs) auto
      then show ?thesis using r(1) o(1) by auto
    qed
    then obtain xs' where "order = xs' @ (n, t) # ys" by blast
    then have "nonceOrder (record_nonce now m ?w) = xs' @ (n, t) # (ys @ [(m, now)])" using r(2) by simp
    then have "held (record_nonce now m ?w) n t (Suc k)" unfolding held_def using o(2) by fastforce
    then show ?thesis using None by (simp add: check_and_record_nonce_def Let_def)
  qed
qed

section \<open>What each operation does to the cache\<close>

text \<open>The decoded signature verifies over one of the two canonical forms.\<close>

definition signed_by ::
  "auth_crypto \<Rightarrow> bytes \<Rightarrow> string \<Rightarrow> string \<Rightarrow> string \<Rightarrow> string \<Rightarrow> string \<Rightarrow> string \<Rightarrow> string \<Rightarrow> bool" where
  "signed_by C key meth path requestID timestampStr nonce bodyHashHex sigB64 \<longleftrightarrow>
     (case decode_signature sigB64 of
        None \<Rightarrow> False
      | Some sig \<Rightarrow>
          ed_verify C key (BuildLengthPrefixedCanonicalWithHash meth path requestID timestampStr nonce bodyHashHex) sig
          \<or> ed_verify C key (BuildCanonicalWithHash meth path requestID timestampStr nonce bodyHashHex) sig)"

lemma verify_intro:
  assumes "isEnrolled v" "check_fields sig ts nonce = None"
    "check_freshness now (maxClockSkew v) ts = None"
    "signed_by C (publicKey v) meth path rid ts nonce hash sig"
  shows "VerifyWithBodyHash C now meth path rid ts nonce hash sig v = check_and_record_nonce now nonce v"
  using assms unfolding VerifyWithBodyHash_def Let_def
  by (auto simp: signed_by_def split: if_splits option.splits)

lemma verify_cases:
  assumes "VerifyWithBodyHash C now meth path rid ts nonce hash sig v = (res, v')"
  obtains (failed) e where "res = Some e" "v' = v"
  | (checked) "isEnrolled v" "check_fields sig ts nonce = None"
      "check_freshness now (maxClockSkew v) ts = None"
      "signed_by C (publicKey v) meth path rid ts nonce hash sig"
      "check_and_record_nonce now nonce v = (res, v')"
proof (cases "isEnrolled v \<and> check_fields sig ts nonce = None \<and> check_freshness now (maxClockSkew v) ts = None
    \<and> signed_by C (publicKey v) meth path rid ts nonce hash sig")
  case True
  then show thesis using assms verify_intro checked by metis
next
  case False
  then have "fst (VerifyWithBodyHash C now meth path rid ts nonce hash sig v) \<noteq> None
      \<and> snd (VerifyWithBodyHash C now meth path rid ts nonce hash sig v) = v"
    unfolding VerifyWithBodyHash_def Let_def signed_by_def
    by (cases "isEnrolled v"; cases "check_fields sig ts nonce"; cases "check_freshness now (maxClockSkew v) ts";
        cases "decode_signature sig") simp_all
  then have "res \<noteq> None \<and> v' = v" using assms by simp
  then show thesis using failed by blast
qed

lemma possession_cases:
  assumes "VerifyProofOfPossession C now cand r body v = (res, v')"
  defines "h \<equiv> ExtractAuthHeadersWithBodyHash r"
  obtains (failed) e where "res = Some e" "v' = v"
  | (checked) "length cand = PublicKeySize" "check_freshness now (maxClockSkew v) (ah_timestamp h) = None"
      "check_and_record_nonce now (ah_nonce h) v = (res, v')"
      "\<exists>hash \<in> {ah_bodyHash h, hex_encode (sha256 C body)}.
         signed_by C cand (r_method r) (r_path r) (ah_reqID h) (ah_timestamp h) (ah_nonce h) hash (ah_sig h)"
proof -
  let ?f = "VerifyProofOfPossession C now cand r body v"
  let ?chk = "check_and_record_nonce now (ah_nonce h) v"
  have "(fst ?f \<noteq> None \<and> snd ?f = v) \<or> (length cand = PublicKeySize
      \<and> check_freshness now (maxClockSkew v) (ah_timestamp h) = None \<and> ?f = ?chk
      \<and> (\<exists>hash \<in> {ah_bodyHash h, hex_encode (sha256 C body)}.
         signed_by C cand (r_method r) (r_path r) (ah_reqID h) (ah_timestamp h) (ah_nonce h) hash (ah_sig h)))"
    unfolding VerifyProofOfPossession_def Let_def signed_by_def h_def [symmetric]
      BuildLengthPrefixedCanonicalPayload_def BuildCanonicalPayload_def
    by (cases "length cand = PublicKeySize"; cases "check_fields (ah_sig h) (ah_timestamp h) (ah_nonce h)";
        cases "check_freshness now (maxClockSkew v) (ah_timestamp h)"; cases "decode_signature (ah_sig h)")
      auto
  then show thesis using failed checked assms(1) by auto
qed

text \<open>
  Header-first verification either fails before any check of the verifier, or runs one check on
  some hash; success then means that this check passed and that the hash is the one of the body.
\<close>

lemma header_first_runs:
  assumes "VerifyHTTPRequestHeaderFirst C now limit r v = (res, v')"
  defines "h \<equiv> ExtractAuthHeadersWithBodyHash r"
  obtains (failed) e where "res = Inl e" "v' = v"
  | (ran) hash err where
      "VerifyWithBodyHash C now (r_method r) (r_path r) (ah_reqID h) (ah_timestamp h) (ah_nonce h) hash (ah_sig h) v
         = (err, v')"
      "\<And>body. res = Inr body \<Longrightarrow> err = None \<and> ToLower hash = hex_encode (sha256 C body)
         \<and> (body = [] \<or> read_body limit (r_body r) = Inr body)"
proof (cases "isEnrolled v")
  case False
  then show thesis using assms(1) failed by (auto simp: VerifyHTTPRequestHeaderFirst_def)
next
  case True
  let ?empty = "r_body r = BodyNil \<or> r_content_length r = 0"
  define ch where "ch = (if ah_bodyHash h = [] \<and> ?empty then hex_encode (sha256 C []) else ah_bodyHash h)"
  let ?V = "\<lambda>hash. VerifyWithBodyHash C now (r_method r) (r_path r) (ah_reqID h) (ah_timestamp h) (ah_nonce h) hash (ah_sig h) v"
  note eq = assms(1) [unfolded VerifyHTTPRequestHeaderFirst_def Let_def, folded h_def, folded ch_def]
  show thesis
  proof (cases "ch = []")
    case False
    obtain err w where w: "?V ch = (err, w)" by fastforce
    show thesis
    proof (cases err)
      case (Some e)
      then show thesis using eq w True False by (intro ran [of ch err]) auto
    next
      case None
      then show thesis using eq w True False
        by (intro ran [of ch err])
          (auto simp: read_auth_body_def split: if_split_asm sum.split_asm read_error.split_asm)
    qed
  next
    case nil: True
    show thesis
    proof (cases "read_auth_body limit (r_body r)")
      case (Inl e)
      have "(Inl e, v) = (res, v')" using eq True nil unfolding Inl by simp
      then show thesis by (intro failed [of e]) simp_all
    next
      case (Inr body)
      obtain err w where w: "?V (hex_encode (sha256 C body)) = (err, w)" by fastforce
      have rb: "read_body limit (r_body r) = Inr body"
        using Inr by (auto simp: read_auth_body_def split: sum.split_asm read_error.split_asm)
      show thesis using eq w True nil Inr rb
        by (intro ran [of "hex_encode (sha256 C body)" err]) (auto simp: Verify_def split: option.split_asm)
    qed
  qed
qed

lemma header_first_check:
  assumes "VerifyHTTPRequestHeaderFirst C now limit r v = (res, v')"
  obtains (failed) e where "res = Inl e" "v' = v"
  | (checked) err where "isEnrolled v"
      "check_and_record_nonce now (ah_nonce (ExtractAuthHeadersWithBodyHash r)) v = (err, v')"
      "\<And>b. res = Inr b \<Longrightarrow> err = None"
  using assms
proof (cases rule: header_first_runs)
  case (failed e) then show thesis using that(1) by blast
next
  case (ran hash err)
  from ran(1) show thesis
  proof (cases rule: verify_cases)
    case (failed e)
    then show thesis using that(1) ran(2) by (cases res) auto
  next
    case checked then show thesis using that(2) ran(2) by blast
  qed
qed

text \<open>
  An accepted request: the body returned is the one read, its SHA-256 is the signed hash, and
  every check of VerifyWithBodyHash passed.
\<close>

lemma header_first_accepts:
  assumes "VerifyHTTPRequestHeaderFirst C now limit r v = (Inr body, v')"
  defines "h \<equiv> ExtractAuthHeadersWithBodyHash r"
  shows "isEnrolled v \<and> check_fields (ah_sig h) (ah_timestamp h) (ah_nonce h) = None
    \<and> check_freshness now (maxClockSkew v) (ah_timestamp h) = None
    \<and> (\<exists>hash. ToLower hash = hex_encode (sha256 C body)
        \<and> signed_by C (publicKey v) (r_method r) (r_path r) (ah_reqID h) (ah_timestamp h) (ah_nonce h) hash (ah_sig h))
    \<and> check_and_record_nonce now (ah_nonce h) v = (None, v')
    \<and> (body = [] \<or> read_body limit (r_body r) = Inr body)"
  using assms(1)
proof (cases rule: header_first_runs)
  case (ran hash err)
  then have "err = None" "ToLower hash = hex_encode (sha256 C body)" "body = [] \<or> read_body limit (r_body r) = Inr body"
    by auto
  with ran(1) show ?thesis by (cases rule: verify_cases) (auto simp: h_def)
qed simp

section \<open>Runs of the verifier\<close>

text \<open>An exported operation of the verifier with its clock reading and arguments.\<close>

datatype auth_op =
    OpEnroll int bytes
  | OpVerify int string string string string string string string
  | OpRequest int request bytes
  | OpHeaderFirst int int request
  | OpPossession int bytes request bytes

fun op_time :: "auth_op \<Rightarrow> int" where
  "op_time (OpEnroll now _) = now"
| "op_time (OpVerify now _ _ _ _ _ _ _) = now"
| "op_time (OpRequest now _ _) = now"
| "op_time (OpHeaderFirst now _ _) = now"
| "op_time (OpPossession now _ _ _) = now"

fun op_result :: "auth_crypto \<Rightarrow> auth_op \<Rightarrow> verifier \<Rightarrow> auth_error option \<times> verifier" where
  "op_result C (OpEnroll now k) v = EnrollKey now k v"
| "op_result C (OpVerify now meth path rid ts nonce hash sig) v =
     VerifyWithBodyHash C now meth path rid ts nonce hash sig v"
| "op_result C (OpRequest now r body) v = VerifyHTTPRequest C now r body v"
| "op_result C (OpHeaderFirst now limit r) v =
     (case VerifyHTTPRequestHeaderFirst C now limit r v of (Inl e, v') \<Rightarrow> (Some e, v') | (Inr _, v') \<Rightarrow> (None, v'))"
| "op_result C (OpPossession now k r body) v = VerifyProofOfPossession C now k r body v"

text \<open>The nonce an operation presents; enrolment presents none.\<close>

fun op_nonce :: "auth_op \<Rightarrow> string option" where
  "op_nonce (OpEnroll _ _) = None"
| "op_nonce (OpVerify _ _ _ _ _ nonce _ _) = Some nonce"
| "op_nonce (OpRequest _ r _) = Some (ah_nonce (ExtractAuthHeadersWithBodyHash r))"
| "op_nonce (OpHeaderFirst _ _ r) = Some (ah_nonce (ExtractAuthHeadersWithBodyHash r))"
| "op_nonce (OpPossession _ _ r _) = Some (ah_nonce (ExtractAuthHeadersWithBodyHash r))"

definition op_step :: "auth_crypto \<Rightarrow> auth_op \<Rightarrow> verifier \<Rightarrow> verifier" where
  "op_step C x v = snd (op_result C x v)"

definition op_consumes :: "auth_crypto \<Rightarrow> auth_op \<Rightarrow> verifier \<Rightarrow> string \<Rightarrow> bool" where
  "op_consumes C x v n \<longleftrightarrow> fst (op_result C x v) = None \<and> op_nonce x = Some n"

definition run_ops :: "auth_crypto \<Rightarrow> auth_op list \<Rightarrow> verifier \<Rightarrow> verifier" where
  "run_ops C xs v = fold (op_step C) xs v"

text \<open>Every operation enrols, or checks its nonce once, or leaves the state as it is.\<close>

lemma op_cases:
  obtains (enroll) now k where "x = OpEnroll now k"
  | (failed) "op_step C x v = v" "fst (op_result C x v) \<noteq> None"
  | (checked) n where "op_nonce x = Some n" "op_step C x v = snd (check_and_record_nonce (op_time x) n v)"
      "fst (op_result C x v) = None \<Longrightarrow> fst (check_and_record_nonce (op_time x) n v) = None"
proof (cases x)
  case (OpEnroll now k) then show thesis by (rule enroll)
next
  case (OpVerify now meth path rid ts nonce hash sig)
  obtain res v' where e: "VerifyWithBodyHash C now meth path rid ts nonce hash sig v = (res, v')" by fastforce
  then show thesis by (cases rule: verify_cases) (use OpVerify e failed checked in \<open>auto simp: op_step_def\<close>)
next
  case (OpRequest now r body)
  let ?h = "ExtractAuthHeadersWithBodyHash r"
  show thesis
  proof (cases "isEnrolled v")
    case False then show thesis using OpRequest failed by (simp add: op_step_def VerifyHTTPRequest_def)
  next
    case True
    obtain res v' where e: "VerifyWithBodyHash C now (r_method r) (r_path r) (ah_reqID ?h) (ah_timestamp ?h)
      (ah_nonce ?h) (hex_encode (sha256 C body)) (ah_sig ?h) v = (res, v')" by fastforce
    then have "op_result C x v = (res, v')"
      using True OpRequest by (simp add: VerifyHTTPRequest_def ExtractAuthHeaders_def Let_def Verify_def)
    with e show thesis by (cases rule: verify_cases) (use OpRequest failed checked in \<open>auto simp: op_step_def\<close>)
  qed
next
  case (OpHeaderFirst now limit r)
  obtain res v' where e: "VerifyHTTPRequestHeaderFirst C now limit r v = (res, v')" by fastforce
  then have o: "op_result C x v = (case res of Inl e \<Rightarrow> Some e | Inr _ \<Rightarrow> None, v')"
    using OpHeaderFirst by (simp split: sum.split)
  from e show thesis
  proof (cases rule: header_first_check)
    case (failed e) then show thesis using o that(2) by (simp add: op_step_def)
  next
    case (checked err)
    then show thesis using o OpHeaderFirst that(3) by (cases res) (auto simp: op_step_def)
  qed
next
  case (OpPossession now k r body)
  obtain res v' where e: "VerifyProofOfPossession C now k r body v = (res, v')" by fastforce
  then show thesis by (cases rule: possession_cases) (use OpPossession e failed checked in \<open>auto simp: op_step_def\<close>)
qed

lemma enroll_keeps_cache:
  assumes "op_step C (OpEnroll now k) v = w"
  shows "nonceOrder w = nonceOrder v" "seenNonces w = seenNonces v" "nonceTTL w = nonceTTL v"
    "maxNonceCacheSize w = maxNonceCacheSize v" "cache_ok w = cache_ok v" "cache_cap w = cache_cap v"
proof -
  have "w = v \<or> w = v\<lparr> publicKey := k, isEnrolled := True, enrolledAt := now \<rparr>"
    using assms by (simp add: op_step_def EnrollKey_def split: if_split_asm)
  then show "nonceOrder w = nonceOrder v" "seenNonces w = seenNonces v" "nonceTTL w = nonceTTL v"
    "maxNonceCacheSize w = maxNonceCacheSize v" "cache_ok w = cache_ok v" "cache_cap w = cache_cap v"
    by (auto simp: cache_ok_def cache_cap_def)
qed

lemma op_step_cache:
  assumes "cache_ok v"
  shows "cache_ok (op_step C x v)" "nonceTTL (op_step C x v) = nonceTTL v" "cache_cap (op_step C x v) = cache_cap v"
proof -
  have "cache_ok (op_step C x v) \<and> nonceTTL (op_step C x v) = nonceTTL v \<and> cache_cap (op_step C x v) = cache_cap v"
  proof (cases rule: op_cases [where x = x and C = C and v = v])
    case (enroll now k) then show ?thesis using assms enroll_keeps_cache by metis
  next
    case failed then show ?thesis using assms by simp
  next
    case (checked n)
    then show ?thesis using check_facts [OF assms] same_key_cap by (metis same_key_def)
  qed
  then show "cache_ok (op_step C x v)" "nonceTTL (op_step C x v) = nonceTTL v" "cache_cap (op_step C x v) = cache_cap v"
    by blast+
qed

text \<open>The verifier is a replay guard.\<close>

interpretation vg: replay_guard "op_step C" op_time "op_consumes C" cache_ok held "\<lambda>v. dur_neg (nonceTTL v)" cache_cap
  for C
proof
  fix v x n t k
  assume ok: "cache_ok v"
  show "cache_ok (op_step C x v)" "dur_neg (nonceTTL (op_step C x v)) = dur_neg (nonceTTL v)"
    "cache_cap (op_step C x v) = cache_cap v" using op_step_cache [OF ok] by simp_all
  { assume c: "op_consumes C x v n"
    show "held (op_step C x v) n (op_time x) 0"
    proof (cases rule: op_cases [where x = x and C = C and v = v])
      case (checked m)
      then obtain v' where "check_and_record_nonce (op_time x) n v = (None, v')" "op_step C x v = v'"
        using c by (cases "check_and_record_nonce (op_time x) m v") (auto simp: op_consumes_def)
      then show ?thesis using check_accepts(1) [OF ok] by simp
    qed (use c in \<open>auto simp: op_consumes_def\<close>) }
  assume h: "held v n t k" "op_time x + dur_neg (nonceTTL v) < t"
  show "\<not> op_consumes C x v n"
  proof (cases rule: op_cases [where x = x and C = C and v = v])
    case (checked m)
    then show ?thesis using held_rejects [OF ok h] by (auto simp: op_consumes_def)
  qed (auto simp: op_consumes_def)
  assume cap: "k + 1 < cache_cap v"
  show "held (op_step C x v) n t (Suc k)"
  proof (cases rule: op_cases [where x = x and C = C and v = v])
    case (enroll now key)
    then show ?thesis using h(1) enroll_keeps_cache(1) by (fastforce simp: held_def)
  next
    case failed then show ?thesis using h(1) unfolding held_def by (metis le_SucI)
  next
    case (checked m) then show ?thesis using held_check [OF ok h cap] by simp
  qed
qed

end
