(* ===== verification/GoJson.thy ===== *)
theory GoJson
  imports GoPrelude
begin

text \<open>
  Package encoding/json: values, the decoder and the encoder. A number keeps its literal, as
  json.Number does, and is read at the type of the field it goes to. Text is a sequence of bytes; the
  decoder and the encoder replace what is not UTF-8. A value nested more than 10,000 deep does not decode.
\<close>

section \<open>Values\<close>

datatype json =
    JNull
  | JBool bool
  | JNum string
  | JStr string
  | JArr "json list"
  | JObj "(string \<times> json) list"

section \<open>Scanner\<close>

definition json_space :: "char \<Rightarrow> bool" where
  "json_space c \<longleftrightarrow> c = CHR '' '' \<or> c = CHR 0x09 \<or> c = CHR 0x0A \<or> c = CHR 0x0D"

definition skip_ws :: "string \<Rightarrow> string" where
  "skip_ws s = dropWhile json_space s"

text \<open>The UTF-8 bytes of a code point.\<close>

definition utf8 :: "nat \<Rightarrow> string" where
  "utf8 cp =
     (if cp < 0x80 then [char_of cp]
      else if cp < 0x800 then [char_of (0xC0 + cp div 64), char_of (0x80 + cp mod 64)]
      else if cp < 0x10000 then
        [char_of (0xE0 + cp div 4096), char_of (0x80 + cp div 64 mod 64), char_of (0x80 + cp mod 64)]
      else [char_of (0xF0 + cp div 262144), char_of (0x80 + cp div 4096 mod 64),
            char_of (0x80 + cp div 64 mod 64), char_of (0x80 + cp mod 64)])"

definition hex4 :: "string \<Rightarrow> nat option" where
  "hex4 s = (case map hex_val s of
     [Some a, Some b, Some c, Some d] \<Rightarrow> Some (((a * 16 + b) * 16 + c) * 16 + d)
   | _ \<Rightarrow> None)"

definition high_surrogate :: "nat \<Rightarrow> bool" where "high_surrogate u \<longleftrightarrow> 0xD800 \<le> u \<and> u < 0xDC00"
definition low_surrogate :: "nat \<Rightarrow> bool" where "low_surrogate u \<longleftrightarrow> 0xDC00 \<le> u \<and> u < 0xE000"

definition scalar :: "nat \<Rightarrow> bool" where
  "scalar u \<longleftrightarrow> u < 0xD800 \<or> 0xE000 \<le> u \<and> u < 0x110000"

definition simple_escape :: "char \<Rightarrow> char option" where
  "simple_escape c =
     (if c = CHR 0x22 \<or> c = CHR 0x5C \<or> c = CHR ''/'' then Some c
      else if c = CHR ''b'' then Some (CHR 0x08)
      else if c = CHR ''f'' then Some (CHR 0x0C)
      else if c = CHR ''n'' then Some (CHR 0x0A)
      else if c = CHR ''r'' then Some (CHR 0x0D)
      else if c = CHR ''t'' then Some (CHR 0x09)
      else None)"

text \<open>The tokens of a string after its opening quote: characters, and the code units of escapes.\<close>

datatype str_token = Raw char | Unit nat

function str_tokens :: "string \<Rightarrow> (str_token list \<times> string) option" where
  "str_tokens s =
     (case s of
        [] \<Rightarrow> None
      | c # cs \<Rightarrow>
          if c = CHR 0x22 then Some ([], cs)
          else if c = CHR 0x5C then
            (case cs of
               [] \<Rightarrow> None
             | e # r \<Rightarrow>
                 if e = CHR ''u'' then
                   (case hex4 (take 4 r) of
                      None \<Rightarrow> None
                    | Some u \<Rightarrow> map_option (map_prod ((#) (Unit u)) id) (str_tokens (drop 4 r)))
                 else
                   (case simple_escape e of
                      None \<Rightarrow> None
                    | Some x \<Rightarrow> map_option (map_prod ((#) (Raw x)) id) (str_tokens r)))
          else if (of_char c :: nat) < 0x20 then None
          else map_option (map_prod ((#) (Raw c)) id) (str_tokens cs))"
  by pat_completeness auto

termination by (relation "measure length") auto

declare str_tokens.simps [simp del]

text \<open>
  The bytes after a lead byte of UTF-8, with the bounds of the first of them; the size of the encoding at the
  front of a text, 0 where it is invalid, as utf8.DecodeRune; and a text in which the replacement character
  stands for every byte that is not part of an encoding.
\<close>

definition utf8_lead :: "nat \<Rightarrow> (nat \<times> nat \<times> nat) option" where
  "utf8_lead b =
     (if 0xC2 \<le> b \<and> b \<le> 0xDF then Some (1, 0x80, 0xBF)
      else if b = 0xE0 then Some (2, 0xA0, 0xBF)
      else if b = 0xED then Some (2, 0x80, 0x9F)
      else if 0xE1 \<le> b \<and> b \<le> 0xEF then Some (2, 0x80, 0xBF)
      else if b = 0xF0 then Some (3, 0x90, 0xBF)
      else if 0xF1 \<le> b \<and> b \<le> 0xF3 then Some (3, 0x80, 0xBF)
      else if b = 0xF4 then Some (3, 0x80, 0x8F)
      else None)"

definition byte_in :: "nat \<Rightarrow> nat \<Rightarrow> char \<Rightarrow> bool" where
  "byte_in lo hi c \<longleftrightarrow> lo \<le> of_char c \<and> of_char c \<le> hi"

definition utf8_size :: "string \<Rightarrow> nat" where
  "utf8_size s =
     (case s of
        c # d # ds \<Rightarrow>
          (case utf8_lead (of_char c) of
             None \<Rightarrow> 0
           | Some (n, lo, hi) \<Rightarrow>
               if byte_in lo hi d \<and> n - 1 \<le> length ds \<and> list_all (byte_in 0x80 0xBF) (take (n - 1) ds) then n + 1 else 0)
      | _ \<Rightarrow> 0)"

function to_valid :: "string \<Rightarrow> string" where
  "to_valid s =
     (case s of
        [] \<Rightarrow> []
      | c # cs \<Rightarrow>
          if (of_char c :: nat) < 0x80 then c # to_valid cs
          else if utf8_size s = 0 then utf8 0xFFFD @ to_valid cs
          else take (utf8_size s) s @ to_valid (drop (utf8_size s) s))"
  by pat_completeness auto

termination by (relation "measure length") auto

declare to_valid.simps [simp del]

text \<open>A surrogate pair is one code point; a lone surrogate is the replacement character.\<close>

fun join_tokens :: "str_token list \<Rightarrow> string" where
  "join_tokens [] = ''''"
| "join_tokens (Raw c # ts) = c # join_tokens ts"
| "join_tokens (Unit u # Unit v # ts) =
     (if high_surrogate u \<and> low_surrogate v
        then utf8 (0x10000 + (u - 0xD800) * 1024 + (v - 0xDC00)) @ join_tokens ts
      else utf8 (if high_surrogate u \<or> low_surrogate u then 0xFFFD else u) @ join_tokens (Unit v # ts))"
| "join_tokens (Unit u # ts) =
     utf8 (if high_surrogate u \<or> low_surrogate u then 0xFFFD else u) @ join_tokens ts"

definition scan_string :: "string \<Rightarrow> (string \<times> string) option" where
  "scan_string s = map_option (map_prod (to_valid \<circ> join_tokens) id) (str_tokens s)"

definition scan_digits :: "string \<Rightarrow> (string \<times> string) option" where
  "scan_digits s = (if takeWhile is_digit s = [] then None else Some (takeWhile is_digit s, dropWhile is_digit s))"

definition scan_int_part :: "string \<Rightarrow> (string \<times> string) option" where
  "scan_int_part s =
     (case s of
        [] \<Rightarrow> None
      | c # cs \<Rightarrow> if c = CHR ''0'' then Some ([c], cs) else scan_digits s)"

definition scan_fraction :: "string \<Rightarrow> (string \<times> string) option" where
  "scan_fraction s =
     (case s of
        [] \<Rightarrow> Some ([], [])
      | c # cs \<Rightarrow> if c = CHR ''.'' then map_option (map_prod ((#) c) id) (scan_digits cs) else Some ([], s))"

definition scan_exponent :: "string \<Rightarrow> (string \<times> string) option" where
  "scan_exponent s =
     (case s of
        [] \<Rightarrow> Some ([], [])
      | c # cs \<Rightarrow>
          if c = CHR ''e'' \<or> c = CHR ''E'' then
            (case cs of
               [] \<Rightarrow> None
             | d # ds \<Rightarrow>
                 if d = CHR ''+'' \<or> d = CHR ''-'' then map_option (map_prod (\<lambda>x. c # d # x) id) (scan_digits ds)
                 else map_option (map_prod ((#) c) id) (scan_digits cs))
          else Some ([], s))"

definition scan_number :: "string \<Rightarrow> (string \<times> string) option" where
  "scan_number s =
     (let (sign, s1) = (if HasPrefix s ''-'' then (''-'', drop 1 s) else ('''', s))
      in case scan_int_part s1 of
           None \<Rightarrow> None
         | Some (i, s2) \<Rightarrow>
             (case scan_fraction s2 of
                None \<Rightarrow> None
              | Some (f, s3) \<Rightarrow>
                  (case scan_exponent s3 of
                     None \<Rightarrow> None
                   | Some (e, s4) \<Rightarrow> Some (sign @ i @ f @ e, s4))))"

section \<open>Decoder\<close>

text \<open>
  The decoder by fuel; each call reads at least one character before it calls itself, and
  \<open>json_decode\<close> starts with more fuel than there are characters.
\<close>

fun parse_value :: "nat \<Rightarrow> string \<Rightarrow> (json \<times> string) option"
and parse_elems :: "nat \<Rightarrow> string \<Rightarrow> (json list \<times> string) option"
and parse_members :: "nat \<Rightarrow> string \<Rightarrow> ((string \<times> json) list \<times> string) option" where
  "parse_value 0 s = None"
| "parse_value (Suc n) s =
     (let s = skip_ws s in
      case s of
        [] \<Rightarrow> None
      | c # cs \<Rightarrow>
          if c = CHR 0x22 then map_option (map_prod JStr id) (scan_string cs)
          else if c = CHR ''{'' then
            (if HasPrefix (skip_ws cs) ''}'' then Some (JObj [], drop 1 (skip_ws cs))
             else map_option (map_prod JObj id) (parse_members n cs))
          else if c = CHR ''['' then
            (if HasPrefix (skip_ws cs) '']'' then Some (JArr [], drop 1 (skip_ws cs))
             else map_option (map_prod JArr id) (parse_elems n cs))
          else if HasPrefix s ''null'' then Some (JNull, drop 4 s)
          else if HasPrefix s ''true'' then Some (JBool True, drop 4 s)
          else if HasPrefix s ''false'' then Some (JBool False, drop 5 s)
          else map_option (map_prod JNum id) (scan_number s))"
| "parse_elems 0 s = None"
| "parse_elems (Suc n) s =
     (case parse_value n s of
        None \<Rightarrow> None
      | Some (v, r) \<Rightarrow>
          (let r = skip_ws r in
           if HasPrefix r '','' then map_option (map_prod ((#) v) id) (parse_elems n (drop 1 r))
           else if HasPrefix r '']'' then Some ([v], drop 1 r)
           else None))"
| "parse_members 0 s = None"
| "parse_members (Suc n) s =
     (let s = skip_ws s in
      if \<not> HasPrefix s [CHR 0x22] then None
      else (case scan_string (drop 1 s) of
              None \<Rightarrow> None
            | Some (k, r) \<Rightarrow>
                (let r = skip_ws r in
                 if \<not> HasPrefix r '':'' then None
                 else (case parse_value n (drop 1 r) of
                         None \<Rightarrow> None
                       | Some (v, r) \<Rightarrow>
                           (let r = skip_ws r in
                            if HasPrefix r '','' then map_option (map_prod ((#) (k, v)) id) (parse_members n (drop 1 r))
                            else if HasPrefix r ''}'' then Some ([(k, v)], drop 1 r)
                            else None)))))"

text \<open>Arrays and objects that are open at once, which the scanner counts; past the limit the text is an error.\<close>

fun json_depth :: "json \<Rightarrow> nat" where
  "json_depth (JArr vs) = Suc (foldr max (map json_depth vs) 0)"
| "json_depth (JObj ms) = Suc (foldr max (map (\<lambda>(k, v). json_depth v) ms) 0)"
| "json_depth _ = 0"

definition max_nesting :: nat where "max_nesting = 10000"

definition json_decode :: "bytes \<Rightarrow> json option" where
  "json_decode b =
     (case parse_value (2 * length b + 1) (string_of b) of
        Some (v, r) \<Rightarrow> if skip_ws r = '''' \<and> json_depth v \<le> max_nesting then Some v else None
      | None \<Rightarrow> None)"

section \<open>Struct fields\<close>

text \<open>
  A member goes to the field whose name it has, without regard to case; members are read in order,
  null leaves a field as it is, and a value of another type leaves the field and is an error at the
  end.
\<close>

definition members :: "string \<Rightarrow> (string \<times> json) list \<Rightarrow> json list" where
  "members name ms = map snd (filter (\<lambda>(k, _). EqualFold k name) ms)"

definition field_step :: "(json \<Rightarrow> 'a option) \<Rightarrow> 'a \<times> bool \<Rightarrow> json \<Rightarrow> 'a \<times> bool" where
  "field_step conv = (\<lambda>(x, ok) v. if v = JNull then (x, ok)
     else (case conv v of Some y \<Rightarrow> (y, ok) | None \<Rightarrow> (x, False)))"

definition get_field :: "(json \<Rightarrow> 'a option) \<Rightarrow> 'a \<Rightarrow> string \<Rightarrow> (string \<times> json) list \<Rightarrow> 'a \<times> bool" where
  "get_field conv dflt name ms = foldl (field_step conv) (dflt, True) (members name ms)"

text \<open>A pointer field is nil when it is absent or its last member is null.\<close>

definition pointer_step :: "(json \<Rightarrow> 'a option) \<Rightarrow> 'a option \<times> bool \<Rightarrow> json \<Rightarrow> 'a option \<times> bool" where
  "pointer_step conv = (\<lambda>(x, ok) v. if v = JNull then (None, ok)
     else (case conv v of Some y \<Rightarrow> (Some y, ok) | None \<Rightarrow> (x, False)))"

definition get_pointer :: "(json \<Rightarrow> 'a option) \<Rightarrow> string \<Rightarrow> (string \<times> json) list \<Rightarrow> 'a option \<times> bool" where
  "get_pointer conv name ms = foldl (pointer_step conv) (None, True) (members name ms)"

fun as_string :: "json \<Rightarrow> string option" where
  "as_string (JStr s) = Some s" | "as_string _ = None"

fun as_bool :: "json \<Rightarrow> bool option" where
  "as_bool (JBool b) = Some b" | "as_bool _ = None"

fun as_int :: "json \<Rightarrow> int option" where
  "as_int (JNum l) = ParseInt64 l" | "as_int _ = None"

text \<open>The members of the value that a struct is read from; null reads as no members.\<close>

fun as_members :: "json \<Rightarrow> (string \<times> json) list option" where
  "as_members (JObj ms) = Some ms"
| "as_members JNull = Some []"
| "as_members _ = None"

section \<open>Encoder\<close>

text \<open>
  Go escapes the characters of HTML, the two line separators and bytes that are not UTF-8; objects of maps
  have sorted keys.
\<close>

definition esc_char :: "char \<Rightarrow> string" where
  "esc_char c =
     (if c = CHR 0x22 \<or> c = CHR 0x5C then [CHR 0x5C, c]
      else if c = CHR 0x0A then [CHR 0x5C, CHR ''n'']
      else if c = CHR 0x0D then [CHR 0x5C, CHR ''r'']
      else if c = CHR 0x09 then [CHR 0x5C, CHR ''t'']
      else if c = CHR 0x08 then [CHR 0x5C, CHR ''b'']
      else if c = CHR 0x0C then [CHR 0x5C, CHR ''f'']
      else if (of_char c :: nat) < 0x20 \<or> c = CHR ''<'' \<or> c = CHR ''>'' \<or> c = CHR 0x26 then
        [CHR 0x5C, CHR ''u'', CHR ''0'', CHR ''0'', hex_digit (of_char c div 16), hex_digit (of_char c mod 16)]
      else [c])"

definition esc_rune :: "string \<Rightarrow> string" where
  "esc_rune r =
     (if r = [CHR 0xE2, CHR 0x80, CHR 0xA8] then CHR 0x5C # ''u2028''
      else if r = [CHR 0xE2, CHR 0x80, CHR 0xA9] then CHR 0x5C # ''u2029''
      else r)"

function esc_string :: "string \<Rightarrow> string" where
  "esc_string s =
     (case s of
        [] \<Rightarrow> []
      | c # cs \<Rightarrow>
          if (of_char c :: nat) < 0x80 then esc_char c @ esc_string cs
          else if utf8_size s = 0 then CHR 0x5C # ''ufffd'' @ esc_string cs
          else esc_rune (take (utf8_size s) s) @ esc_string (drop (utf8_size s) s))"
  by pat_completeness auto

termination by (relation "measure length") auto

declare esc_string.simps [simp del]

definition enc_string :: "string \<Rightarrow> string" where
  "enc_string s = [CHR 0x22] @ esc_string s @ [CHR 0x22]"

fun json_encode :: "json \<Rightarrow> string" where
  "json_encode JNull = ''null''"
| "json_encode (JBool b) = (if b then ''true'' else ''false'')"
| "json_encode (JNum l) = l"
| "json_encode (JStr s) = enc_string s"
| "json_encode (JArr vs) = ''['' @ Join (map json_encode vs) '','' @ '']''"
| "json_encode (JObj ms) = ''{'' @ Join (map (\<lambda>(k, v). enc_string k @ '':'' @ json_encode v) ms) '','' @ ''}''"

definition JInt :: "int \<Rightarrow> json" where "JInt i = JNum (int_dec i)"

section \<open>Fuel\<close>

lemma str_tokens_shorter: "str_tokens s = Some (ts, r) \<Longrightarrow> length r < length s"
proof (induction s arbitrary: ts rule: measure_induct_rule [where f = length])
  case (less s)
  show ?case using less.prems
    apply (subst (asm) str_tokens.simps)
    apply (auto split: list.splits if_splits option.splits)
      apply (drule less.IH [rotated]; simp)+
    done
qed

lemma scan_string_shorter: "scan_string s = Some (t, r) \<Longrightarrow> length r < length s"
  by (auto simp: scan_string_def dest: str_tokens_shorter)

lemma skip_ws_shorter: "length (skip_ws s) \<le> length s"
  by (simp add: skip_ws_def length_dropWhile_le)

lemma scan_digits_shorter: "scan_digits s = Some (t, r) \<Longrightarrow> length r < length s"
  apply (auto simp: scan_digits_def split: if_splits)
  by (metis append_Nil length_append length_greater_0_conv less_add_same_cancel2 takeWhile_dropWhile_id)

lemma scan_int_part_shorter: "scan_int_part s = Some (t, r) \<Longrightarrow> length r < length s"
  by (auto simp: scan_int_part_def dest: scan_digits_shorter split: list.splits if_splits)

lemma scan_fraction_shorter: "scan_fraction s = Some (t, r) \<Longrightarrow> length r \<le> length s"
  by (auto simp: scan_fraction_def dest: scan_digits_shorter split: list.splits if_splits)

lemma scan_exponent_shorter: "scan_exponent s = Some (t, r) \<Longrightarrow> length r \<le> length s"
  by (auto simp: scan_exponent_def dest!: scan_digits_shorter split: list.splits if_splits)

lemma scan_number_shorter: "scan_number s = Some (t, r) \<Longrightarrow> length r < length s"
  by (auto simp: scan_number_def split: option.splits if_splits
      dest!: scan_int_part_shorter scan_fraction_shorter scan_exponent_shorter; linarith)

lemma skip_ws_Cons: "skip_ws s = c # cs \<Longrightarrow> length cs < length s"
  using skip_ws_shorter [of s] by simp

lemma parse_shorter:
  "parse_value n s = Some (v, r) \<Longrightarrow> length r < length s"
  "parse_elems n s = Some (vs, r) \<Longrightarrow> length r < length s"
  "parse_members n s = Some (ms, r) \<Longrightarrow> length r < length s"
proof (induction n s and n s and n s arbitrary: v r and vs r and ms r
    rule: parse_value_parse_elems_parse_members.induct)
  case (2 n s)
  obtain c cs where s: "skip_ws s = c # cs" using "2.prems" by (auto simp: Let_def split: list.splits)
  have c: "length cs < length s" "length (skip_ws cs) \<le> length cs"
    using skip_ws_Cons [OF s] skip_ws_shorter by auto
  have m: "parse_members n cs = Some (ms', r') \<Longrightarrow> c = CHR ''{'' \<Longrightarrow> \<not> HasPrefix (skip_ws cs) ''}'' \<Longrightarrow> length r' < length cs" for ms' r'
    using "2.IH" s by simp
  have e: "parse_elems n cs = Some (ms', r') \<Longrightarrow> c = CHR ''['' \<Longrightarrow> \<not> HasPrefix (skip_ws cs) '']'' \<Longrightarrow> length r' < length cs" for ms' r'
    using "2.IH" s by simp
  show ?case using "2.prems" s c
    by (auto simp: Let_def split: if_splits dest!: scan_string_shorter scan_number_shorter m e)
next
  case (4 n s)
  obtain v1 r1 where v: "parse_value n s = Some (v1, r1)" using "4.prems" by (auto split: option.splits)
  have l: "length r1 < length s" "length (skip_ws r1) \<le> length r1" using "4.IH"(1) [OF v] skip_ws_shorter by auto
  have e: "parse_elems n (drop (Suc 0) (skip_ws r1)) = Some (vs', r') \<Longrightarrow> HasPrefix (skip_ws r1) '','' \<Longrightarrow> length r' < length (skip_ws r1) - 1" for vs' r'
    using "4.IH"(2) [OF v] by simp
  show ?case using "4.prems" v l by (auto simp: Let_def split: if_splits dest!: e)
next
  case (6 n s)
  obtain k r1 where k: "scan_string (drop 1 (skip_ws s)) = Some (k, r1)" and q: "HasPrefix (skip_ws s) [CHR 0x22]"
    and cl: "HasPrefix (skip_ws r1) '':''"
    using "6.prems" by (auto simp: Let_def split: option.splits if_splits)
  obtain v1 r2 where v: "parse_value n (drop 1 (skip_ws r1)) = Some (v1, r2)"
    using "6.prems" k q cl by (auto simp: Let_def split: option.splits if_splits)
  have l: "length r1 < length s" "length (skip_ws r1) \<le> length r1" "length r2 < length (skip_ws r1) - 1"
      "length (skip_ws r2) \<le> length r2"
    using "6.IH"(1) k q cl v skip_ws_shorter [of s] scan_string_shorter [OF k] skip_ws_shorter [of r1]
      skip_ws_shorter [of r2] by simp_all
  have e: "parse_members n (drop (Suc 0) (skip_ws r2)) = Some (ms', r') \<Longrightarrow> HasPrefix (skip_ws r2) '','' \<Longrightarrow> length r' < length (skip_ws r2) - 1" for ms' r'
    using "6.IH"(2) k q cl v by simp
  show ?case using "6.prems" k q cl v l by (auto simp: Let_def split: if_splits dest!: e)
qed auto

text \<open>More fuel than twice the length gives the same result.\<close>

lemma parse_fuel:
  "2 * length s < n \<Longrightarrow> 2 * length s < m \<Longrightarrow> parse_value m s = parse_value n s"
  "2 * length s + 1 < n \<Longrightarrow> 2 * length s + 1 < m \<Longrightarrow> parse_elems m s = parse_elems n s"
  "2 * length s < n \<Longrightarrow> 2 * length s < m \<Longrightarrow> parse_members m s = parse_members n s"
proof (induction n s and n s and n s arbitrary: m and m and m
    rule: parse_value_parse_elems_parse_members.induct)
  case (2 n s)
  obtain k where m: "m = Suc k" using "2.prems" by (cases m) auto
  show ?case
  proof (cases "skip_ws s")
    case Nil
    then show ?thesis by (simp add: m)
  next
    case (Cons c cs)
    have l: "length cs < length s" using skip_ws_Cons [OF Cons] .
    have "c = CHR ''{'' \<Longrightarrow> \<not> HasPrefix (skip_ws cs) ''}'' \<Longrightarrow> parse_members k cs = parse_members n cs"
      using "2.IH"(1) [OF refl Cons, of k] "2.prems" l m by simp
    moreover have "c = CHR ''['' \<Longrightarrow> \<not> HasPrefix (skip_ws cs) '']'' \<Longrightarrow> parse_elems k cs = parse_elems n cs"
      using "2.IH"(2) [OF refl Cons, of k] "2.prems" l m by simp
    ultimately show ?thesis by (simp add: m Cons Let_def)
  qed
next
  case (4 n s)
  obtain k where m: "m = Suc k" using "4.prems" by (cases m) auto
  have v: "parse_value k s = parse_value n s" using "4.IH"(1) [of k] "4.prems" m by simp
  have e: "parse_value n s = Some (v1, r1) \<Longrightarrow> HasPrefix (skip_ws r1) '','' \<Longrightarrow>
      parse_elems k (drop (Suc 0) (skip_ws r1)) = parse_elems n (drop (Suc 0) (skip_ws r1))" for v1 r1
    using "4.IH"(2) [of "(v1, r1)" v1 r1 "skip_ws r1" k] "4.prems" m parse_shorter(1) [of n s v1 r1] skip_ws_shorter [of r1] by simp
  show ?case by (auto simp: m v Let_def e split: option.splits)
next
  case (6 n s)
  obtain k where m: "m = Suc k" using "6.prems" by (cases m) auto
  have v: "parse_value k (drop (Suc 0) (skip_ws r1)) = parse_value n (drop (Suc 0) (skip_ws r1))"
    if "scan_string (drop (Suc 0) (skip_ws s)) = Some (a, r1)" "HasPrefix (skip_ws s) [CHR 0x22]" "HasPrefix (skip_ws r1) '':''" for a r1
    using "6.IH"(1) [OF refl, of "(a, r1)" a r1 "skip_ws r1" k] that "6.prems" m scan_string_shorter [OF that(1)]
      skip_ws_shorter [of s] skip_ws_shorter [of r1] by simp
  have e: "parse_members k (drop (Suc 0) (skip_ws r2)) = parse_members n (drop (Suc 0) (skip_ws r2))"
    if "scan_string (drop (Suc 0) (skip_ws s)) = Some (a, r1)" "HasPrefix (skip_ws s) [CHR 0x22]" "HasPrefix (skip_ws r1) '':''"
      "parse_value n (drop (Suc 0) (skip_ws r1)) = Some (v1, r2)" "HasPrefix (skip_ws r2) '',''" for a r1 v1 r2
    using "6.IH"(2) [OF refl, of "(a, r1)" a r1 "skip_ws r1" "(v1, r2)" v1 r2 "skip_ws r2" k] that "6.prems" m
      scan_string_shorter [OF that(1)] skip_ws_shorter [of s] skip_ws_shorter [of r1] skip_ws_shorter [of r2]
      parse_shorter(1) [OF that(4)] by simp
  show ?case by (auto simp: m v e Let_def split: option.splits)
qed auto

lemma json_decode_fuel:
  "2 * length b < n \<Longrightarrow> parse_value n (string_of b) = parse_value (2 * length b + 1) (string_of b)"
  by (rule parse_fuel(1)) simp_all

text \<open>Evaluation on a literal fuel.\<close>

lemmas parse_numeral [simp] =
  parse_value.simps(2) [of "pred_numeral k" for k, folded numeral_eq_Suc]
  parse_elems.simps(2) [of "pred_numeral k" for k, folded numeral_eq_Suc]
  parse_members.simps(2) [of "pred_numeral k" for k, folded numeral_eq_Suc]

lemma to_valid_Nil [simp]: "to_valid [] = []"
  by (simp add: to_valid.simps)

lemma to_valid_ascii [simp]: "(of_char c :: nat) < 0x80 \<Longrightarrow> to_valid (c # cs) = c # to_valid cs"
  by (subst to_valid.simps) simp

lemmas json_eval = json_decode_def max_nesting_def HasPrefix_def skip_ws_def json_space_def scan_string_def str_tokens.simps
  scan_number_def scan_int_part_def scan_digits_def scan_fraction_def scan_exponent_def is_digit_def simple_escape_def

section \<open>Values of type any\<close>

text \<open>
  A value decoded without a type: an object is a Go map, so the last of equal keys wins and the keys
  are sorted when it is encoded again; a number is a float64, which is out of range or has the text
  that the encoder gives it. The float arithmetic of the machine is the parameter \<open>F\<close>.
\<close>

record float_prims =
  float_text :: "string \<Rightarrow> string option"
  float_int :: "string \<Rightarrow> int"

fun str_less :: "string \<Rightarrow> string \<Rightarrow> bool" where
  "str_less _ [] = False"
| "str_less [] (_ # _) = True"
| "str_less (a # s) (b # t) = ((of_char a :: nat) < of_char b \<or> a = b \<and> str_less s t)"

fun map_put :: "string \<Rightarrow> json \<Rightarrow> (string \<times> json) list \<Rightarrow> (string \<times> json) list" where
  "map_put k v [] = [(k, v)]"
| "map_put k v ((k', v') # ms) =
     (if k = k' then (k, v) # ms else if str_less k k' then (k, v) # (k', v') # ms else (k', v') # map_put k v ms)"

definition go_map :: "(string \<times> json) list \<Rightarrow> (string \<times> json) list" where
  "go_map kvs = foldl (\<lambda>m (k, v). map_put k v m) [] kvs"

definition jmap :: "(string \<times> json) list \<Rightarrow> json" where "jmap kvs = JObj (go_map kvs)"

fun to_any :: "float_prims \<Rightarrow> json \<Rightarrow> json option" where
  "to_any F (JNum l) = map_option JNum (float_text F l)"
| "to_any F (JArr vs) = map_option JArr (those (map (to_any F) vs))"
| "to_any F (JObj ms) = map_option (\<lambda>ms. JObj (go_map ms)) (those (map (\<lambda>(k, v). map_option (Pair k) (to_any F v)) ms))"
| "to_any F v = Some v"

text \<open>Decoding into a map: null is the nil map.\<close>

definition as_map :: "float_prims \<Rightarrow> json \<Rightarrow> (string \<times> json) list option" where
  "as_map F v = (case to_any F v of Some (JObj ms) \<Rightarrow> Some ms | Some JNull \<Rightarrow> Some [] | _ \<Rightarrow> None)"

text \<open>Type assertions on a member of a map; a failed one gives the zero value.\<close>

definition str_at :: "string \<Rightarrow> (string \<times> json) list \<Rightarrow> string" where
  "str_at k ms = (case map_of ms k of Some (JStr s) \<Rightarrow> s | _ \<Rightarrow> '''')"

definition arr_at :: "string \<Rightarrow> (string \<times> json) list \<Rightarrow> json list option" where
  "arr_at k ms = (case map_of ms k of Some (JArr vs) \<Rightarrow> Some vs | _ \<Rightarrow> None)"

definition obj_at :: "string \<Rightarrow> (string \<times> json) list \<Rightarrow> (string \<times> json) list option" where
  "obj_at k ms = (case map_of ms k of Some (JObj xs) \<Rightarrow> Some xs | _ \<Rightarrow> None)"

lemma map_of_map_put: "map_of (map_put k v ms) = (map_of ms)(k \<mapsto> v)"
  by (induction k v ms rule: map_put.induct) (auto simp: fun_upd_twist)

text \<open>The map has the last value of each key.\<close>

lemma map_of_go_map: "map_of (go_map kvs) = map_of (rev kvs)"
proof -
  have "map_of (foldl (\<lambda>m (k, v). map_put k v m) m kvs) = map_of m ++ map_of (rev kvs)" for m
    by (induction kvs arbitrary: m) (auto simp: map_of_map_put fun_eq_iff map_add_def split: option.split)
  then show ?thesis by (simp add: go_map_def)
qed

end
