(* ===== verification/Attestation.thy ===== *)
theory Attestation
  imports GoJson
begin

text \<open>
  Package pkg/attestation: the 64-byte user data that a hardware quote commits to (binding.go), the
  in-toto document (document.go), the choice of platform and quote source (platform.go, amd.go,
  tdx.go), the AMD certificate chains (certs.go) and the GPU evidence (gpu.go). SHA-256, X.509 and
  PEM, the SEV guest library, the ioctl and the NVML query (modelled in NvmlScript) are parameters; the file system is given
  by the contents of its files. The six embedded AMD chains are a parameter as well: they are data.
\<close>

section \<open>User data\<close>

record gpu_evidence =
  ge_nonce :: string
  ge_cc_enabled :: bool
  ge_device_count :: nat
  ge_model :: string
  ge_driver :: string
  ge_architecture :: string
  ge_report :: string
  ge_chain :: string
  ge_signature :: string
  ge_devices :: "string list"

record binding_data =
  TLSKeyFingerprint :: bytes
  HPKEPublicKey :: bytes
  AuthPublicKey :: bytes

definition zero32 :: bytes where "zero32 = replicate 32 0"

definition gpu_digest :: "(bytes \<Rightarrow> bytes) \<Rightarrow> gpu_evidence option \<Rightarrow> bytes" where
  "gpu_digest sha gpuEv =
     (case gpuEv of
        Some g \<Rightarrow> if ge_report g \<noteq> '''' then sha (bytes_of (ge_report g) @ bytes_of (ge_chain g)) else zero32
      | None \<Rightarrow> zero32)"

definition ComputeCompositeUserData ::
  "(bytes \<Rightarrow> bytes) \<Rightarrow> bytes \<Rightarrow> bytes \<Rightarrow> bytes \<Rightarrow> gpu_evidence option \<Rightarrow> bytes \<Rightarrow> bytes" where
  "ComputeCompositeUserData sha tlsFP hpkePub nonce gpuEv authPub =
     tlsFP @ sha (hpkePub @ nonce @ gpu_digest sha gpuEv @ authPub)"

definition VerifyCompositeUserData ::
  "(bytes \<Rightarrow> bytes) \<Rightarrow> bytes \<Rightarrow> bytes \<Rightarrow> bytes \<Rightarrow> bytes \<Rightarrow> gpu_evidence option \<Rightarrow> bytes \<Rightarrow> bool" where
  "VerifyCompositeUserData sha userData tlsFP hpkePub nonce gpuEv authPub \<longleftrightarrow>
     userData = ComputeCompositeUserData sha tlsFP hpkePub nonce gpuEv authPub"

definition binding_Marshal :: "binding_data \<Rightarrow> bytes" where
  "binding_Marshal b = TLSKeyFingerprint b @ HPKEPublicKey b"

definition binding_MarshalComposite :: "(bytes \<Rightarrow> bytes) \<Rightarrow> binding_data \<Rightarrow> bytes \<Rightarrow> gpu_evidence option \<Rightarrow> bytes" where
  "binding_MarshalComposite sha b nonce gpuEv =
     ComputeCompositeUserData sha (TLSKeyFingerprint b) (HPKEPublicKey b) nonce gpuEv (AuthPublicKey b)"

section \<open>The attestation document\<close>

definition StatementTypeV1 :: string where "StatementTypeV1 = ''https://in-toto.io/Statement/v1''"
definition PredicateTypeConfidentialComputing :: string where
  "PredicateTypeConfidentialComputing = ''https://in-toto.io/attestation/confidential-computing/v0.1''"

definition PlatformSEVSNP :: string where "PlatformSEVSNP = ''amd-sev-snp''"
definition PlatformTDX :: string where "PlatformTDX = ''intel-tdx''"
definition PlatformNone :: string where "PlatformNone = ''none''"

text \<open>A subject with its SHA-256 digest in hexadecimal, the one entry of its digest map.\<close>

record in_toto_subject =
  sj_name :: string
  sj_sha256 :: string

record cc_predicate =
  cp_platform :: string
  cp_raw_quote :: string
  cp_certificate_chain :: string
  cp_certificate :: string
  cp_tls_fingerprint :: string
  cp_hpke_public_key :: string
  cp_authorized_public_key :: string
  cp_user_data :: string
  cp_nonce :: string
  cp_gpu_evidence :: "gpu_evidence option"

record attestation_doc =
  ad_type :: string
  ad_predicate_type :: string
  ad_subject :: "in_toto_subject list"
  ad_predicate :: cc_predicate
  ad_certificate :: string

definition nonce_array :: "(bytes \<Rightarrow> bytes) \<Rightarrow> string \<Rightarrow> bytes" where
  "nonce_array sha nonce =
     (if nonce = '''' then zero32
      else (case hex_decode nonce of
              Some raw \<Rightarrow> if length raw = 32 then raw else sha (bytes_of nonce)
            | None \<Rightarrow> sha (bytes_of nonce)))"

definition mk_subject :: "(bytes \<Rightarrow> bytes) \<Rightarrow> string \<Rightarrow> bytes \<Rightarrow> in_toto_subject" where
  "mk_subject sha name content = \<lparr> sj_name = name, sj_sha256 = hex_encode (sha content) \<rparr>"

definition quote_name :: "string \<Rightarrow> string" where
  "quote_name platform =
     (if platform = PlatformTDX then ''intel-tdx-quote''
      else if platform = PlatformSEVSNP then ''sev-guest-report''
      else ''hardware-enclave-quote'')"

definition build_subjects ::
  "(bytes \<Rightarrow> bytes) \<Rightarrow> binding_data \<Rightarrow> bytes \<Rightarrow> string \<Rightarrow> string \<Rightarrow> gpu_evidence option \<Rightarrow> in_toto_subject list" where
  "build_subjects sha binding rawQuote platform tlsCertPEM gpuEv =
     (let quote = (if rawQuote \<noteq> [] then [mk_subject sha (quote_name platform) rawQuote] else []);
          cert = (if tlsCertPEM \<noteq> '''' then [mk_subject sha ''tls-server-certificate'' (bytes_of tlsCertPEM)] else []);
          gpu = (case gpuEv of
                   Some g \<Rightarrow> if 0 < ge_device_count g \<or> ge_report g \<noteq> ''''
                     then [mk_subject sha ''nvidia-gpu-evidence'' (bytes_of (ge_report g) @ bytes_of (ge_chain g))] else []
                 | None \<Rightarrow> []);
          auth = (if AuthPublicKey binding \<noteq> zero32
                  then [mk_subject sha ''tenant-authorized-public-key'' (AuthPublicKey binding)] else []);
          subjects = quote @ cert @ gpu @ auth
      in if subjects = [] then [mk_subject sha ''system-runtime-identity'' (TLSKeyFingerprint binding)] else subjects)"

definition BuildAttestationDocumentWithEvidence ::
  "(bytes \<Rightarrow> bytes) \<Rightarrow> binding_data \<Rightarrow> bytes \<Rightarrow> string \<Rightarrow> string \<Rightarrow> string \<Rightarrow> string \<Rightarrow> gpu_evidence option
     \<Rightarrow> attestation_doc" where
  "BuildAttestationDocumentWithEvidence sha binding rawQuote certChain platform tlsCertPEM nonce gpuEv =
     \<lparr> ad_type = StatementTypeV1,
       ad_predicate_type = PredicateTypeConfidentialComputing,
       ad_subject = build_subjects sha binding rawQuote platform tlsCertPEM gpuEv,
       ad_predicate = \<lparr>
         cp_platform = platform,
         cp_raw_quote = (if rawQuote \<noteq> [] then b64_encode rawQuote else ''''),
         cp_certificate_chain = certChain,
         cp_certificate = tlsCertPEM,
         cp_tls_fingerprint = hex_encode (TLSKeyFingerprint binding),
         cp_hpke_public_key = hex_encode (HPKEPublicKey binding),
         cp_authorized_public_key = (if AuthPublicKey binding \<noteq> zero32 then hex_encode (AuthPublicKey binding) else ''''),
         cp_user_data = hex_encode (ComputeCompositeUserData sha (TLSKeyFingerprint binding) (HPKEPublicKey binding)
           (nonce_array sha nonce) gpuEv (AuthPublicKey binding)),
         cp_nonce = nonce,
         cp_gpu_evidence = gpuEv \<rparr>,
       ad_certificate = tlsCertPEM \<rparr>"

definition BuildAttestationDocument ::
  "(bytes \<Rightarrow> bytes) \<Rightarrow> binding_data \<Rightarrow> bytes \<Rightarrow> string \<Rightarrow> string \<Rightarrow> string \<Rightarrow> attestation_doc" where
  "BuildAttestationDocument sha binding rawQuote certChain platform tlsCertPEM =
     BuildAttestationDocumentWithEvidence sha binding rawQuote certChain platform tlsCertPEM '''' None"

section \<open>The machine\<close>

text \<open>Files that exist, their contents, and the matches of glob patterns.\<close>

record machine =
  m_exists :: "string \<Rightarrow> bool"
  m_read :: "string \<Rightarrow> bytes option"
  m_glob :: "string \<Rightarrow> string list"

definition read_text :: "machine \<Rightarrow> string \<Rightarrow> string option" where
  "read_text M path = map_option string_of (m_read M path)"

definition contains_any :: "string \<Rightarrow> string list \<Rightarrow> bool" where
  "contains_any s ps \<longleftrightarrow> list_ex (Contains s) ps"

definition IsIntelTDXEnvironment :: "machine \<Rightarrow> bool" where
  "IsIntelTDXEnvironment M \<longleftrightarrow>
     list_ex (m_exists M) [''/sys/devices/virtual/misc/tdx_guest'', ''/sys/devices/virtual/misc/tdx-guest'',
       ''/dev/tdx_guest'', ''/dev/tdx-guest'', ''/sys/kernel/config/tsm/report'']
     \<or> (case read_text M ''/proc/cpuinfo'' of
          None \<Rightarrow> False
        | Some content \<Rightarrow> Contains content ''GenuineIntel'' \<and> contains_any content [''tdx_guest'', ''tdx''])"

definition DetectPlatform :: "machine \<Rightarrow> string" where
  "DetectPlatform M =
     (if m_exists M ''/dev/sev-guest'' then PlatformSEVSNP
      else if IsIntelTDXEnvironment M then PlatformTDX
      else PlatformNone)"

definition IsCloudHypervisor :: "machine \<Rightarrow> bool" where
  "IsCloudHypervisor M \<longleftrightarrow>
     list_ex (\<lambda>p. case read_text M p of
         None \<Rightarrow> False
       | Some data \<Rightarrow> contains_any (ToLower data)
           [''amazon'', ''ec2'', ''nitro'', ''microsoft'', ''azure'', ''google'', ''gce''])
       [''/sys/class/dmi/id/sys_vendor'', ''/sys/class/dmi/id/bios_vendor'', ''/sys/class/dmi/id/product_name'',
        ''/sys/devices/virtual/dmi/id/sys_vendor'', ''/sys/devices/virtual/dmi/id/product_name'']"

definition DetectCPUGeneration :: "machine \<Rightarrow> string" where
  "DetectCPUGeneration M =
     (case read_text M ''/proc/cpuinfo'' of
        None \<Rightarrow> ''milan''
      | Some data \<Rightarrow>
          (let content = ToLower data; tab = [CHR 0x09]
           in if contains_any content [''genoa'', ''9004''] then ''genoa''
              else if contains_any content [''turin'', ''9005''] then ''turin''
              else if contains_any content [''milan'', ''7003''] then ''milan''
              else if Contains content (''cpu family'' @ tab @ '': 26'') then ''turin''
              else if Contains content (''cpu family'' @ tab @ '': 25'') then
                (if contains_any content (map (\<lambda>n. ''model'' @ tab @ tab @ '': '' @ n) [''16'', ''17'', ''18'', ''19''])
                 then ''genoa'' else ''milan'')
              else ''milan''))"

section \<open>AMD certificate chains\<close>

record amd_chains =
  AMDChainMilanPEM :: string
  AMDChainGenoaPEM :: string
  AMDChainTurinPEM :: string
  AMDVLEKChainMilanPEM :: string
  AMDVLEKChainGenoaPEM :: string
  AMDVLEKChainTurinPEM :: string

definition chain_family :: "string \<Rightarrow> string \<Rightarrow> string \<Rightarrow> string \<Rightarrow> string" where
  "chain_family family milan genoa turin =
     (let fam = ToLower family
      in if contains_any fam [''milan'', ''m6a'', ''c6a''] then milan
         else if contains_any fam [''genoa'', ''m7a'', ''c7a''] then genoa
         else if Contains fam ''turin'' then turin
         else milan)"

definition GetAMDVCEKChain :: "amd_chains \<Rightarrow> string \<Rightarrow> string" where
  "GetAMDVCEKChain K family = chain_family family (AMDChainMilanPEM K) (AMDChainGenoaPEM K) (AMDChainTurinPEM K)"

definition GetAMDVLEKChain :: "amd_chains \<Rightarrow> string \<Rightarrow> string" where
  "GetAMDVLEKChain K family =
     chain_family family (AMDVLEKChainMilanPEM K) (AMDVLEKChainGenoaPEM K) (AMDVLEKChainTurinPEM K)"

definition ResolveAMDVCEKChain :: "amd_chains \<Rightarrow> machine \<Rightarrow> string" where
  "ResolveAMDVCEKChain K M = GetAMDVCEKChain K (DetectCPUGeneration M)"

definition ResolveAMDVLEKChain :: "amd_chains \<Rightarrow> machine \<Rightarrow> string" where
  "ResolveAMDVLEKChain K M = GetAMDVLEKChain K (DetectCPUGeneration M)"

definition resolveDefaultAMDChain :: "amd_chains \<Rightarrow> machine \<Rightarrow> string" where
  "resolveDefaultAMDChain K M = (if IsCloudHypervisor M then ResolveAMDVLEKChain K M else ResolveAMDVCEKChain K M)"

record sev_cert_chain =
  cc_vlek :: bytes
  cc_vcek :: bytes
  cc_ask :: bytes
  cc_ark :: bytes

text \<open>X.509: the common names of issuer and subject of a certificate that parses; and PEM.\<close>

record x509_prims =
  parse_certificate :: "bytes \<Rightarrow> (string \<times> string) option"
  pem_encode :: "bytes \<Rightarrow> string"

definition fallback_chain :: "x509_prims \<Rightarrow> amd_chains \<Rightarrow> machine \<Rightarrow> bytes \<Rightarrow> bool \<Rightarrow> string" where
  "fallback_chain X K M leaf isVlek =
     (let default = (if isVlek \<or> IsCloudHypervisor M then ResolveAMDVLEKChain K M else ResolveAMDVCEKChain K M)
      in if leaf = [] then default
         else (case parse_certificate X leaf of
                 None \<Rightarrow> default
               | Some (issuer, subject) \<Rightarrow>
                   (let names = (\<lambda>p. Contains (ToLower issuer) p \<or> Contains (ToLower subject) p)
                    in if names ''vlek'' \<or> isVlek then
                         (if names ''genoa'' then AMDVLEKChainGenoaPEM K
                          else if names ''turin'' then AMDVLEKChainTurinPEM K
                          else GetAMDVLEKChain K (DetectCPUGeneration M))
                       else
                         (if names ''genoa'' then AMDChainGenoaPEM K
                          else if names ''turin'' then AMDChainTurinPEM K
                          else GetAMDVCEKChain K (DetectCPUGeneration M)))))"

definition FormatCertificateChain :: "x509_prims \<Rightarrow> amd_chains \<Rightarrow> machine \<Rightarrow> sev_cert_chain option \<Rightarrow> string" where
  "FormatCertificateChain X K M chain =
     (case chain of
        None \<Rightarrow> resolveDefaultAMDChain K M
      | Some c \<Rightarrow>
          (let isVlek = (cc_vlek c \<noteq> []);
               leaf = (if isVlek then cc_vlek c else cc_vcek c);
               pem = (\<lambda>b. if b = [] then '''' else pem_encode X b);
               buf = pem leaf @ pem (cc_ask c) @ pem (cc_ark c);
               buf = (if cc_ask c = [] \<or> cc_ark c = [] then buf @ fallback_chain X K M leaf isVlek else buf)
           in if leaf = [] \<and> buf = '''' then resolveDefaultAMDChain K M else buf))"

section \<open>Hardware reports\<close>

text \<open>The SEV guest library: the extended report of an opened device, its certificate table, the quote provider.\<close>

record sev_prims =
  sev_device :: "bytes \<Rightarrow> (bytes \<times> bytes) option"
  sev_certs :: "bytes \<Rightarrow> sev_cert_chain option option"
  sev_provider :: "bytes \<Rightarrow> bytes option"
  sev_report_size :: nat

type_synonym report = "bytes \<times> string \<times> string"

definition FetchAMDReport ::
  "x509_prims \<Rightarrow> amd_chains \<Rightarrow> sev_prims \<Rightarrow> machine \<Rightarrow> bytes \<Rightarrow> report option" where
  "FetchAMDReport X K S M data =
     (let provider = (case sev_provider S data of
            None \<Rightarrow> None
          | Some r \<Rightarrow> Some (take (sev_report_size S) r, resolveDefaultAMDChain K M, PlatformSEVSNP))
      in case sev_device S data of
           Some (rawRep, certs) \<Rightarrow>
             if sev_report_size S \<le> length rawRep then
               (let rawRep = take (sev_report_size S) rawRep;
                    chainPEM = (if certs \<noteq> [] then
                        (case sev_certs S (rawRep @ certs) of
                           Some c \<Rightarrow> FormatCertificateChain X K M c
                         | None \<Rightarrow> '''')
                      else '''');
                    chainPEM = (if chainPEM = '''' then resolveDefaultAMDChain K M else chainPEM)
                in Some (rawRep, chainPEM, PlatformSEVSNP))
             else provider
         | None \<Rightarrow> provider)"

text \<open>
  The ConfigFS interface: whether it is there after the attempts to mount and load it, and for an
  entry of a provider whether it can be created and written, who provides it, and the quote it
  gives for what was written.
\<close>

record tsm_prims =
  tsm_ready :: bool
  tsm_entry :: "string \<Rightarrow> bytes \<Rightarrow> bool"
  tsm_provider :: "string \<Rightarrow> bytes option"
  tsm_outblob :: "string \<Rightarrow> bytes \<Rightarrow> bytes option"
  tdx_ioctl :: "string \<Rightarrow> bytes \<Rightarrow> bytes option"

definition provider_matches :: "string \<Rightarrow> string \<Rightarrow> bool" where
  "provider_matches prov exp \<longleftrightarrow>
     exp = '''' \<or> Contains prov exp \<or> Contains exp prov
     \<or> ((exp = ''tdx'' \<or> exp = ''intel'') \<and> contains_any prov [''tdx'', ''intel''])
     \<or> ((exp = ''sev'' \<or> exp = ''amd'') \<and> contains_any prov [''sev'', ''amd''])"

definition fetchTSMReport :: "tsm_prims \<Rightarrow> string \<Rightarrow> bytes \<Rightarrow> bytes option" where
  "fetchTSMReport T expectedProvider data =
     (if \<not> tsm_ready T then None
      else if \<not> tsm_entry T expectedProvider data then None
      else if (case tsm_provider T expectedProvider of
                 None \<Rightarrow> False
               | Some b \<Rightarrow> \<not> provider_matches (ToLower (TrimSpace (string_of b))) (ToLower (TrimSpace expectedProvider)))
        then None
      else tsm_outblob T expectedProvider data)"

definition queryTDXDevice :: "tsm_prims \<Rightarrow> string \<Rightarrow> bytes \<Rightarrow> bytes option" where
  "queryTDXDevice T devPath data = tdx_ioctl T devPath data"

definition nonempty :: "bytes option \<Rightarrow> bytes option" where
  "nonempty r = (case r of Some b \<Rightarrow> if b = [] then None else Some b | None \<Rightarrow> None)"

text \<open>The first source that gives a quote; the platform of the error tells whether TDX is there.\<close>

definition FetchTDXReport :: "tsm_prims \<Rightarrow> machine \<Rightarrow> bytes \<Rightarrow> string + report" where
  "FetchTDXReport T M data =
     (case nonempty (fetchTSMReport T ''tdx'' data) of
        Some q \<Rightarrow> Inr (q, '''', PlatformTDX)
      | None \<Rightarrow>
        (case nonempty (fetchTSMReport T '''' data) of
           Some q \<Rightarrow> Inr (q, '''', PlatformTDX)
         | None \<Rightarrow>
           (case List.map_filter (\<lambda>dev. if m_exists M dev then nonempty (queryTDXDevice T dev data) else None)
                   [''/dev/tdx_guest'', ''/dev/tdx-guest''] of
              q # _ \<Rightarrow> Inr (q, '''', PlatformTDX)
            | [] \<Rightarrow> Inl (if IsIntelTDXEnvironment M then PlatformTDX else PlatformNone))))"

definition FetchHardwareReport ::
  "x509_prims \<Rightarrow> amd_chains \<Rightarrow> sev_prims \<Rightarrow> tsm_prims \<Rightarrow> machine \<Rightarrow> bytes \<Rightarrow> string + report" where
  "FetchHardwareReport X K S T M data =
     (let tdx = (case FetchTDXReport T M data of
            Inr (quote, chain, platform) \<Rightarrow>
              if quote \<noteq> [] then Inr (quote, chain, platform)
              else Inl (if IsIntelTDXEnvironment M then PlatformTDX else PlatformNone)
          | Inl _ \<Rightarrow> Inl (if IsIntelTDXEnvironment M then PlatformTDX else PlatformNone))
      in if m_exists M ''/dev/sev-guest'' then
           (case FetchAMDReport X K S M data of
              Some (rep, chain, platform) \<Rightarrow> if rep \<noteq> [] then Inr (rep, chain, platform) else tdx
            | None \<Rightarrow> tdx)
         else tdx)"

section \<open>GPU evidence\<close>

definition IsNVIDIAConfidentialComputingActive :: "machine \<Rightarrow> bool" where
  "IsNVIDIAConfidentialComputingActive M \<longleftrightarrow>
     m_glob M ''/proc/driver/nvidia/capabilities/*'' \<noteq> []
     \<or> m_glob M ''/dev/nvidia-caps/*'' \<noteq> []
     \<or> map_option TrimSpace (read_text M ''/sys/module/nvidia/parameters/NVreg_EnableCC'') = Some ''1''
     \<or> m_glob M ''/sys/bus/pci/drivers/nvidia/*:*'' \<noteq> []"

record nvml_result =
  nv_cc_enabled :: bool
  nv_report :: string
  nv_chain :: string
  nv_signature :: string

definition no_nvml :: nvml_result where
  "no_nvml = \<lparr> nv_cc_enabled = False, nv_report = '''', nv_chain = '''', nv_signature = '''' \<rparr>"

text \<open>The fields of the query result that the evidence uses; the process of the script is the parameter \<open>nvml\<close>.\<close>

definition queryHardwareNVIDIACC :: "(string \<Rightarrow> bytes option) \<Rightarrow> bytes \<Rightarrow> nvml_result" where
  "queryHardwareNVIDIACC nvml nonce =
     (case nvml (hex_encode nonce) of
        None \<Rightarrow> no_nvml
      | Some stdout \<Rightarrow>
          (case Option.bind (json_decode stdout) as_members of
             None \<Rightarrow> no_nvml
           | Some ms \<Rightarrow>
               (let (cc, ok1) = get_field as_bool False ''cc_enabled'' ms;
                    (rep, ok2) = get_field as_string '''' ''evidence_report'' ms;
                    (chain, ok3) = get_field as_string '''' ''certificate_chain'' ms;
                    (sig, ok4) = get_field as_string '''' ''signature'' ms;
                    ok = list_all (\<lambda>n. snd (get_field as_string '''' n ms))
                           [''model'', ''driver_version'', ''architecture'', ''error'']
                in if ok1 \<and> ok2 \<and> ok3 \<and> ok4 \<and> ok
                   then \<lparr> nv_cc_enabled = cc, nv_report = rep, nv_chain = chain, nv_signature = sig \<rparr>
                   else no_nvml)))"

definition gpu_model :: "string \<Rightarrow> (string \<times> string) option" where
  "gpu_model devID =
     (if devID \<in> {''0x2900'', ''0x2901'', ''0x2902'', ''0x2903''} then Some (''NVIDIA B200'', ''Blackwell'')
      else if devID \<in> {''0x2940'', ''0x2941''} then Some (''NVIDIA B100'', ''Blackwell'')
      else if devID \<in> {''0x2980'', ''0x2981''} then Some (''NVIDIA GB200'', ''Blackwell'')
      else if devID \<in> {''0x2330'', ''0x2331'', ''0x2322'', ''0x2324''} then Some (''NVIDIA H100 80GB HBM3'', ''Hopper'')
      else if devID \<in> {''0x27b8'', ''0x2782''} then Some (''NVIDIA L4'', ''Ada'')
      else if devID \<in> {''0x1eb8'', ''0x1eb1''} then Some (''NVIDIA Tesla T4'', ''Turing'')
      else if devID \<in> {''0x20b0'', ''0x20b2''} then Some (''NVIDIA A100'', ''Ampere'')
      else None)"

text \<open>One PCI vendor file: a device of vendor 0x10de is added, and its model where it is known.\<close>

definition scan_pci_device :: "machine \<Rightarrow> string \<Rightarrow> gpu_evidence \<Rightarrow> gpu_evidence" where
  "scan_pci_device M vf ev =
     (if map_option (\<lambda>t. ToLower (TrimSpace t)) (read_text M vf) \<noteq> Some ''0x10de'' then ev
      else (let ev = ev\<lparr> ge_devices := ge_devices ev @ [path_base (path_dir vf)] \<rparr>
            in case Option.bind (read_text M (path_dir vf @ ''/device'')) (\<lambda>t. gpu_model (ToLower (TrimSpace t))) of
                 None \<Rightarrow> ev
               | Some (model, arch) \<Rightarrow> ev\<lparr> ge_model := model, ge_architecture := arch \<rparr>))"

definition procfs_model :: "machine \<Rightarrow> gpu_evidence \<Rightarrow> gpu_evidence" where
  "procfs_model M ev =
     (case m_glob M ''/proc/driver/nvidia/gpus/*/information'' of
        [] \<Rightarrow> ev
      | p # _ \<Rightarrow>
          (case read_text M p of
             None \<Rightarrow> ev
           | Some t \<Rightarrow> foldl (\<lambda>ev line. if HasPrefix line ''Model:''
                 then ev\<lparr> ge_model := TrimSpace (TrimPrefix line ''Model:'') \<rparr> else ev) ev (split_on (CHR 0x0A) t)))"

definition driver_version :: "machine \<Rightarrow> string" where
  "driver_version M =
     (case read_text M ''/proc/driver/nvidia/version'' of
        None \<Rightarrow> ''''
      | Some t \<Rightarrow>
          (case filter (\<lambda>tok. Contains tok ''.'' \<and> (HasPrefix tok ''5'' \<or> HasPrefix tok ''6'')) (Fields t) of
             [] \<Rightarrow> '''' | tok # _ \<Rightarrow> tok))"

definition guess_architecture :: "string \<Rightarrow> string" where
  "guess_architecture model =
     (if contains_any model [''H100'', ''H200''] then ''Hopper''
      else if contains_any model [''B100'', ''B200'', ''GB200'', ''Blackwell'', ''RTX PRO 6000'', ''B40''] then ''Blackwell''
      else if contains_any model [''L4'', ''L40''] then ''Ada''
      else if Contains model ''T4'' then ''Turing''
      else if contains_any model [''A100'', ''A10''] then ''Ampere''
      else '''')"

definition CollectGPUEvidence :: "(string \<Rightarrow> bytes option) \<Rightarrow> machine \<Rightarrow> bytes \<Rightarrow> gpu_evidence" where
  "CollectGPUEvidence nvml M nonce =
     (let chars = m_glob M ''/dev/nvidia[0-9]*'';
          ev = \<lparr> ge_nonce = hex_encode nonce, ge_cc_enabled = False, ge_device_count = length chars,
                 ge_model = '''', ge_driver = '''', ge_architecture = '''', ge_report = '''', ge_chain = '''',
                 ge_signature = '''', ge_devices = chars \<rparr>;
          ev = foldl (\<lambda>ev vf. scan_pci_device M vf ev) ev (m_glob M ''/sys/bus/pci/devices/*/vendor'');
          ev = (if ge_devices ev \<noteq> [] \<and> ge_device_count ev = 0
                then ev\<lparr> ge_device_count := length (ge_devices ev) \<rparr> else ev);
          ev = procfs_model M ev;
          ev = (if driver_version M \<noteq> '''' then ev\<lparr> ge_driver := driver_version M \<rparr> else ev)
      in if ge_device_count ev = 0 then ev
         else (let ev = (if ge_architecture ev = '''' then ev\<lparr> ge_architecture := guess_architecture (ge_model ev) \<rparr> else ev);
                   nv = queryHardwareNVIDIACC nvml nonce
               in if nv_cc_enabled nv
                  then ev\<lparr> ge_cc_enabled := True, ge_report := nv_report nv, ge_chain := nv_chain nv,
                           ge_signature := nv_signature nv \<rparr>
                  else ev))"

end
