(* ===== verification/Hpke.thy ===== *)
theory Hpke
  imports GoPrelude Contracts
begin

text \<open>
  Package pkg/crypto: the HPKE payload envelope, the binary and the protobuf request envelopes, and
  the sessions that frame responses (hpke.go, hpke_proto.go, keys.go). X25519, HKDF, AES-GCM, the
  random source and the protobuf codec are parameters; what is relied on of them is \<open>aead_ok\<close>,
  \<open>dh_ok\<close> and \<open>codec_ok\<close>. Fixed-size arrays are byte lists whose length the theorems state.
\<close>

section \<open>Parameters\<close>

datatype hpke_error =
    ErrLowOrderPublicKey
  | ErrKeyAgreement
  | ErrRandom
  | ErrPayloadTooShort
  | ErrFrameTooShort
  | ErrFrameLengthMismatch nat nat
  | ErrSeqNumOverflow
  | ErrOpen
  | ErrInvalidProtoEnvelope
  | ErrUnsupportedVersion int
  | ErrUnsupportedCipherSuite
  | ErrInvalidClientKeyLen
  | ErrInvalidNonceLen
  | ErrPayloadBelowTag
  | ErrAttestationMismatch
  | ErrMarshal
  | ErrUnmarshal
  | ErrFrameTagMismatch

datatype x25519_error = LowOrderPoint | BadPoint

text \<open>The generated messages of pkg/proto/v1; enumerations are 32-bit integers on the wire.\<close>

record enc_request =
  er_version :: int
  er_suite :: int
  er_client_pub :: bytes
  er_nonce :: bytes
  er_payload :: bytes
  er_binding :: bytes
  er_request_id :: string
  er_compression :: int

record stream_frame =
  sf_seq :: "32 word"
  sf_type :: int
  sf_payload :: bytes
  sf_tag :: bytes
  sf_timestamp :: int

record hpke_prims =
  x25519 :: "bytes \<Rightarrow> bytes \<Rightarrow> x25519_error + bytes"
  base_mult :: "bytes \<Rightarrow> bytes"
  hkdf :: "bytes \<Rightarrow> bytes \<Rightarrow> string \<Rightarrow> nat \<Rightarrow> bytes"
  gcm_seal :: "bytes \<Rightarrow> bytes \<Rightarrow> bytes \<Rightarrow> bytes \<Rightarrow> bytes"
  gcm_open :: "bytes \<Rightarrow> bytes \<Rightarrow> bytes \<Rightarrow> bytes \<Rightarrow> bytes option"
  marshal_request :: "enc_request \<Rightarrow> bytes option"
  unmarshal_request :: "bytes \<Rightarrow> enc_request option"
  marshal_frame :: "stream_frame \<Rightarrow> bytes option"
  unmarshal_frame :: "bytes \<Rightarrow> stream_frame option"

text \<open>
  AES-GCM is deterministic and authenticated decryption inverts it: Open succeeds exactly on what
  Seal produces for the same key, nonce and additional data, and the tag adds 16 bytes.
\<close>

definition GCMTagLen :: nat where "GCMTagLen = 16"

definition aead_ok :: "hpke_prims \<Rightarrow> bool" where
  "aead_ok P \<longleftrightarrow> (\<forall>k n c a p. gcm_open P k n c a = Some p \<longleftrightarrow> c = gcm_seal P k n p a)
     \<and> (\<forall>k n p a. length (gcm_seal P k n p a) = length p + GCMTagLen)"

text \<open>X25519: both ends agree, and a public key has 32 bytes.\<close>

definition dh_ok :: "hpke_prims \<Rightarrow> bool" where
  "dh_ok P \<longleftrightarrow> (\<forall>a b. x25519 P a (base_mult P b) = x25519 P b (base_mult P a)) \<and> (\<forall>a. length (base_mult P a) = 32)"

text \<open>The protobuf codec: what is marshalled is unmarshalled to the same message.\<close>

definition codec_ok :: "hpke_prims \<Rightarrow> bool" where
  "codec_ok P \<longleftrightarrow> (\<forall>m b. marshal_request P m = Some b \<longrightarrow> unmarshal_request P b = Some m)
     \<and> (\<forall>f b. marshal_frame P f = Some b \<longrightarrow> unmarshal_frame P b = Some f)"

section \<open>Key agreement and payload encryption\<close>

definition Zeroize :: "bytes \<Rightarrow> bytes" where
  "Zeroize b = map (\<lambda>_. 0) b"

definition DefaultHPKEInfo :: string where "DefaultHPKEInfo = ''cevell-cvm-e2e''"

definition computeX25519SharedSecret :: "hpke_prims \<Rightarrow> bytes \<Rightarrow> bytes \<Rightarrow> hpke_error + bytes" where
  "computeX25519SharedSecret P priv pub =
     (case x25519 P priv pub of
        Inl LowOrderPoint \<Rightarrow> Inl ErrLowOrderPublicKey
      | Inl BadPoint \<Rightarrow> Inl ErrKeyAgreement
      | Inr secret \<Rightarrow> if secret = replicate 32 0 then Inl ErrLowOrderPublicKey else Inr secret)"

text \<open>The random source gives the nonce, or an error.\<close>

definition EncryptPayloadHPKEWithSenderKey ::
  "hpke_prims \<Rightarrow> bytes option \<Rightarrow> bytes \<Rightarrow> bytes \<Rightarrow> bytes \<Rightarrow> string \<Rightarrow> hpke_error + bytes" where
  "EncryptPayloadHPKEWithSenderKey P rnd senderPriv recipientPub plaintext info =
     (let info = (if info = '''' then DefaultHPKEInfo else info);
          senderPub = base_mult P senderPriv
      in case computeX25519SharedSecret P senderPriv recipientPub of
           Inl e \<Rightarrow> Inl e
         | Inr sharedSecret \<Rightarrow>
             (case rnd of
                None \<Rightarrow> Inl ErrRandom
              | Some nonce \<Rightarrow>
                  (let aesKey = hkdf P sharedSecret [] info 32
                   in Inr (senderPub @ nonce @ gcm_seal P aesKey nonce plaintext []))))"

definition EncryptPayloadHPKE ::
  "hpke_prims \<Rightarrow> bytes option \<Rightarrow> bytes option \<Rightarrow> bytes \<Rightarrow> bytes \<Rightarrow> string \<Rightarrow> hpke_error + bytes" where
  "EncryptPayloadHPKE P ephRnd rnd recipientPub plaintext info =
     (case ephRnd of
        None \<Rightarrow> Inl ErrRandom
      | Some ephPriv \<Rightarrow> EncryptPayloadHPKEWithSenderKey P rnd ephPriv recipientPub plaintext info)"

definition ExtractSenderPub :: "bytes \<Rightarrow> hpke_error + bytes" where
  "ExtractSenderPub payload = (if length payload < 32 + 12 + 16 then Inl ErrPayloadTooShort else Inr (take 32 payload))"

definition DecryptPayloadHPKEWithSenderPub ::
  "hpke_prims \<Rightarrow> bytes \<Rightarrow> bytes \<Rightarrow> string \<Rightarrow> hpke_error + (bytes \<times> bytes)" where
  "DecryptPayloadHPKEWithSenderPub P recipientPriv payload info =
     (if length payload < 32 + 12 + 16 then Inl ErrPayloadTooShort
      else
        (let ephPub = take 32 payload;
             nonce = take 12 (drop 32 payload);
             ciphertext = drop 44 payload;
             info = (if info = '''' then DefaultHPKEInfo else info)
         in case computeX25519SharedSecret P recipientPriv ephPub of
              Inl e \<Rightarrow> Inl e
            | Inr sharedSecret \<Rightarrow>
                (let aesKey = hkdf P sharedSecret [] info 32
                 in case gcm_open P aesKey nonce ciphertext [] of
                      None \<Rightarrow> Inl ErrOpen
                    | Some plaintext \<Rightarrow> Inr (plaintext, ephPub))))"

definition DecryptPayloadHPKE :: "hpke_prims \<Rightarrow> bytes \<Rightarrow> bytes \<Rightarrow> string \<Rightarrow> hpke_error + bytes" where
  "DecryptPayloadHPKE P recipientPriv payload info =
     map_sum id fst (DecryptPayloadHPKEWithSenderPub P recipientPriv payload info)"

section \<open>Sessions\<close>

text \<open>The cached response cipher is represented by the key it was built from.\<close>

record session =
  ClientEphPub :: bytes
  RequestKey :: bytes
  ResponseKey :: bytes
  ResponseIV :: bytes
  seqNum :: "32 word"
  respAEAD :: "bytes option"

definition session_Zeroize :: "session \<Rightarrow> session" where
  "session_Zeroize s =
     s\<lparr> RequestKey := Zeroize (RequestKey s), ResponseKey := Zeroize (ResponseKey s),
        ResponseIV := Zeroize (ResponseIV s), ClientEphPub := Zeroize (ClientEphPub s), respAEAD := None \<rparr>"

definition getOrInitRespAEAD :: "session \<Rightarrow> bytes \<times> session" where
  "getOrInitRespAEAD s =
     (case respAEAD s of
        Some k \<Rightarrow> (k, s)
      | None \<Rightarrow> (ResponseKey s, s\<lparr> respAEAD := Some (ResponseKey s) \<rparr>))"

definition NextSeqNum :: "session \<Rightarrow> (hpke_error + 32 word) \<times> session" where
  "NextSeqNum s =
     (if seqNum s = 0xFFFFFFFF then (Inl ErrSeqNumOverflow, s)
      else (Inr (seqNum s), s\<lparr> seqNum := seqNum s + 1 \<rparr>))"

definition computeFrameNonce :: "bytes \<Rightarrow> 32 word \<Rightarrow> bytes" where
  "computeFrameNonce baseIV seq = take 8 baseIV @ map2 (XOR) (drop 8 baseIV) (put_u32 seq)"

section \<open>Binary frames\<close>

definition FrameTypeTokenDelta :: byte where "FrameTypeTokenDelta = 1"
definition FrameTypeCompletion :: byte where "FrameTypeCompletion = 2"
definition FrameTypeStreamEnd :: byte where "FrameTypeStreamEnd = 3"
definition FrameTypeError :: byte where "FrameTypeError = 0xFF"

definition BinaryFrameHeaderLen :: nat where "BinaryFrameHeaderLen = 9"

definition EncryptFrame :: "hpke_prims \<Rightarrow> byte \<Rightarrow> bytes \<Rightarrow> session \<Rightarrow> (hpke_error + bytes) \<times> session" where
  "EncryptFrame P frameType plaintext s =
     (let (gcm, s) = getOrInitRespAEAD s
      in case NextSeqNum s of
           (Inl e, s) \<Rightarrow> (Inl e, s)
         | (Inr seq, s) \<Rightarrow>
             (let header = frameType # put_u32 seq @ put_u32 (word_of_nat (length plaintext));
                  nonce = computeFrameNonce (ResponseIV s) seq
              in (Inr (header @ gcm_seal P gcm nonce plaintext header), s)))"

definition DecryptFrame :: "hpke_prims \<Rightarrow> bytes \<Rightarrow> session \<Rightarrow> (hpke_error + (byte \<times> 32 word \<times> bytes)) \<times> session" where
  "DecryptFrame P frameBytes s =
     (if length frameBytes < BinaryFrameHeaderLen + GCMTagLen then (Inl ErrFrameTooShort, s)
      else
        (let frameType = hd frameBytes;
             seq = get_u32 (take 4 (drop 1 frameBytes));
             payloadLen = get_u32 (take 4 (drop 5 frameBytes));
             expectedTotal = BinaryFrameHeaderLen + unat payloadLen + GCMTagLen
         in if length frameBytes \<noteq> expectedTotal then (Inl (ErrFrameLengthMismatch expectedTotal (length frameBytes)), s)
            else
              (let (gcm, s) = getOrInitRespAEAD s;
                   nonce = computeFrameNonce (ResponseIV s) seq;
                   header = take BinaryFrameHeaderLen frameBytes
               in case gcm_open P gcm nonce (drop BinaryFrameHeaderLen frameBytes) header of
                    None \<Rightarrow> (Inl ErrOpen, s)
                  | Some plaintext \<Rightarrow> (Inr (frameType, seq, plaintext), s))))"

section \<open>Binary requests\<close>

definition MinBinaryRequestLen :: nat where "MinBinaryRequestLen = 32 + 12 + 16"

text \<open>Request key, response key and response IV, as both ends derive them.\<close>

definition derive_session :: "hpke_prims \<Rightarrow> bytes \<Rightarrow> bytes \<Rightarrow> bytes \<Rightarrow> session" where
  "derive_session P sharedSecret nonce clientPub =
     (let respKey = hkdf P sharedSecret nonce ''cevell-hpke-resp-aes-gcm'' 32
      in \<lparr> ClientEphPub = clientPub,
           RequestKey = hkdf P sharedSecret [] ''cevell-hpke-req-aes-gcm'' 32,
           ResponseKey = respKey,
           ResponseIV = hkdf P sharedSecret nonce ''cevell-hpke-resp-base-iv'' 12,
           seqNum = 0,
           respAEAD = Some respKey \<rparr>)"

definition UnwrapBinaryHPKERequest :: "hpke_prims \<Rightarrow> bytes \<Rightarrow> bytes \<Rightarrow> hpke_error + (bytes \<times> session)" where
  "UnwrapBinaryHPKERequest P recipientPriv rawBody =
     (if length rawBody < MinBinaryRequestLen then Inl ErrPayloadTooShort
      else
        (let clientEphPub = take 32 rawBody;
             nonce = take 12 (drop 32 rawBody);
             ciphertext = drop 44 rawBody
         in case computeX25519SharedSecret P recipientPriv clientEphPub of
              Inl e \<Rightarrow> Inl e
            | Inr sharedSecret \<Rightarrow>
                (let s = derive_session P sharedSecret nonce clientEphPub
                 in case gcm_open P (RequestKey s) nonce ciphertext [] of
                      None \<Rightarrow> Inl ErrOpen
                    | Some plaintext \<Rightarrow> Inr (plaintext, s))))"

definition EncryptBinaryHPKERequest ::
  "hpke_prims \<Rightarrow> bytes option \<Rightarrow> bytes \<Rightarrow> bytes \<Rightarrow> bytes \<Rightarrow> hpke_error + (bytes \<times> session)" where
  "EncryptBinaryHPKERequest P rnd clientPriv recipientPub plaintext =
     (let clientPub = base_mult P clientPriv
      in case computeX25519SharedSecret P clientPriv recipientPub of
           Inl e \<Rightarrow> Inl e
         | Inr sharedSecret \<Rightarrow>
             (case rnd of
                None \<Rightarrow> Inl ErrRandom
              | Some nonce \<Rightarrow>
                  (let s = derive_session P sharedSecret nonce clientPub
                   in Inr (clientPub @ nonce @ gcm_seal P (RequestKey s) nonce plaintext [], s))))"

section \<open>Protobuf requests\<close>

definition CIPHER_SUITE_DHKEM_X25519_AES256_GCM :: int where "CIPHER_SUITE_DHKEM_X25519_AES256_GCM = 1"

definition UnwrapProtoHPKERequest ::
  "hpke_prims \<Rightarrow> bytes \<Rightarrow> bytes \<Rightarrow> bytes \<Rightarrow> hpke_error + (bytes \<times> session \<times> enc_request)" where
  "UnwrapProtoHPKERequest P recipientPriv rawBody expectedBindingHash =
     (if length rawBody < 40 then Inl ErrInvalidProtoEnvelope
      else case unmarshal_request P rawBody of
        None \<Rightarrow> Inl ErrInvalidProtoEnvelope
      | Some req \<Rightarrow>
          if er_version req \<noteq> 1 then Inl (ErrUnsupportedVersion (er_version req))
          else if er_suite req \<noteq> CIPHER_SUITE_DHKEM_X25519_AES256_GCM then Inl ErrUnsupportedCipherSuite
          else if length (er_client_pub req) \<noteq> 32 then Inl ErrInvalidClientKeyLen
          else if length (er_nonce req) \<noteq> 12 then Inl ErrInvalidNonceLen
          else if length (er_payload req) < GCMTagLen then Inl ErrPayloadBelowTag
          else if expectedBindingHash \<noteq> [] \<and> er_binding req \<noteq> [] \<and> er_binding req \<noteq> expectedBindingHash
            then Inl ErrAttestationMismatch
          else (case computeX25519SharedSecret P recipientPriv (er_client_pub req) of
                  Inl e \<Rightarrow> Inl e
                | Inr sharedSecret \<Rightarrow>
                    (let s = derive_session P sharedSecret (er_nonce req) (er_client_pub req)
                     in case gcm_open P (RequestKey s) (er_nonce req) (er_payload req) [] of
                          None \<Rightarrow> Inl ErrOpen
                        | Some plaintext \<Rightarrow> Inr (plaintext, s, req))))"

definition EncryptProtoHPKERequest ::
  "hpke_prims \<Rightarrow> bytes option \<Rightarrow> bytes \<Rightarrow> bytes \<Rightarrow> bytes \<Rightarrow> bytes \<Rightarrow> string \<Rightarrow> hpke_error + (bytes \<times> session)" where
  "EncryptProtoHPKERequest P rnd clientPriv recipientPub plaintext attestationBindingHash requestID =
     (let clientPub = base_mult P clientPriv
      in case computeX25519SharedSecret P clientPriv recipientPub of
           Inl e \<Rightarrow> Inl e
         | Inr sharedSecret \<Rightarrow>
             (case rnd of
                None \<Rightarrow> Inl ErrRandom
              | Some nonce \<Rightarrow>
                  (let s = derive_session P sharedSecret nonce clientPub;
                       req = \<lparr> er_version = 1, er_suite = CIPHER_SUITE_DHKEM_X25519_AES256_GCM,
                               er_client_pub = clientPub, er_nonce = nonce,
                               er_payload = gcm_seal P (RequestKey s) nonce plaintext [],
                               er_binding = attestationBindingHash, er_request_id = requestID, er_compression = 0 \<rparr>
                   in case marshal_request P req of
                        None \<Rightarrow> Inl ErrMarshal
                      | Some protoBytes \<Rightarrow> Inr (protoBytes, s))))"

section \<open>Protobuf frames\<close>

definition FRAME_TYPE_TOKEN_DELTA :: int where "FRAME_TYPE_TOKEN_DELTA = 1"
definition FRAME_TYPE_COMPLETION :: int where "FRAME_TYPE_COMPLETION = 2"
definition FRAME_TYPE_STREAM_END :: int where "FRAME_TYPE_STREAM_END = 3"
definition FRAME_TYPE_ERROR :: int where "FRAME_TYPE_ERROR = 4"

definition computeFrameAAD :: "32 word \<Rightarrow> int \<Rightarrow> int \<Rightarrow> bytes" where
  "computeFrameAAD seq frameType timestampNs =
     put_u32 seq @ [word_of_int frameType] @ put_u64 (word_of_int timestampNs)"

definition EncryptProtoFrame ::
  "hpke_prims \<Rightarrow> int \<Rightarrow> int \<Rightarrow> bytes \<Rightarrow> session \<Rightarrow> (hpke_error + bytes) \<times> session" where
  "EncryptProtoFrame P nowNs frameType plaintext s =
     (let (gcm, s) = getOrInitRespAEAD s
      in case NextSeqNum s of
           (Inl e, s) \<Rightarrow> (Inl e, s)
         | (Inr seq, s) \<Rightarrow>
             (let aad = computeFrameAAD seq frameType nowNs;
                  nonce = computeFrameNonce (ResponseIV s) seq;
                  sealed = gcm_seal P gcm nonce plaintext aad
              in if length sealed < GCMTagLen then (Inl ErrPayloadBelowTag, s)
                 else (case marshal_frame P \<lparr> sf_seq = seq, sf_type = frameType,
                              sf_payload = take (length sealed - GCMTagLen) sealed,
                              sf_tag = drop (length sealed - GCMTagLen) sealed, sf_timestamp = nowNs \<rparr> of
                         None \<Rightarrow> (Inl ErrMarshal, s)
                       | Some protoBytes \<Rightarrow> (Inr (put_u32 (word_of_nat (length protoBytes)) @ protoBytes), s))))"

definition DecryptProtoFrame ::
  "hpke_prims \<Rightarrow> bytes \<Rightarrow> session \<Rightarrow> (hpke_error + (int \<times> 32 word \<times> bytes)) \<times> session" where
  "DecryptProtoFrame P frameBytes s =
     (if length frameBytes < 4 then (Inl ErrFrameTooShort, s)
      else
        (let protoLen = get_u32 (take 4 frameBytes)
         in if (word_of_nat (length frameBytes - 4) :: 32 word) \<noteq> protoLen
            then (Inl (ErrFrameLengthMismatch (unat protoLen) (length frameBytes - 4)), s)
            else (case unmarshal_frame P (drop 4 frameBytes) of
                    None \<Rightarrow> (Inl ErrUnmarshal, s)
                  | Some frame \<Rightarrow>
                      (let (gcm, s) = getOrInitRespAEAD s;
                           nonce = computeFrameNonce (ResponseIV s) (sf_seq frame);
                           aad = computeFrameAAD (sf_seq frame) (sf_type frame) (sf_timestamp frame)
                       in case gcm_open P gcm nonce (sf_payload frame @ sf_tag frame) aad of
                            None \<Rightarrow> (Inl ErrFrameTagMismatch, s)
                          | Some plaintext \<Rightarrow> (Inr (sf_type frame, sf_seq frame, plaintext), s)))))"

section \<open>Node keys\<close>

record key_pair =
  TLSKey :: bytes
  TLSKeyFP :: bytes
  HPKEPrivKey :: bytes
  HPKEPubKey :: bytes

text \<open>
  The ECDSA key with its SPKI encoding and the X25519 scalar come from the random source, each
  generation with its failure.
\<close>

definition GenerateNodeKeyPair ::
  "hpke_prims \<Rightarrow> (bytes \<Rightarrow> bytes) \<Rightarrow> (bytes \<times> bytes option) option \<Rightarrow> bytes option \<Rightarrow> hpke_error + key_pair" where
  "GenerateNodeKeyPair P sha tlsGen rnd =
     (case tlsGen of
        None \<Rightarrow> Inl ErrRandom
      | Some (tlsKey, spki) \<Rightarrow>
          (case spki of
             None \<Rightarrow> Inl ErrMarshal
           | Some derPub \<Rightarrow>
               (case rnd of
                  None \<Rightarrow> Inl ErrRandom
                | Some hpkePriv \<Rightarrow>
                    Inr \<lparr> TLSKey = tlsKey, TLSKeyFP = sha derPub, HPKEPrivKey = hpkePriv,
                          HPKEPubKey = base_mult P hpkePriv \<rparr>)))"

definition GenerateHPKEKeyPair :: "hpke_prims \<Rightarrow> bytes option \<Rightarrow> hpke_error + (bytes \<times> bytes)" where
  "GenerateHPKEKeyPair P rnd =
     (case rnd of None \<Rightarrow> Inl ErrRandom | Some priv \<Rightarrow> Inr (priv, base_mult P priv))"

definition key_pair_Zeroize :: "key_pair \<Rightarrow> key_pair" where
  "key_pair_Zeroize kp =
     kp\<lparr> HPKEPrivKey := Zeroize (HPKEPrivKey kp), TLSKeyFP := Zeroize (TLSKeyFP kp), TLSKey := Zeroize (TLSKey kp) \<rparr>"

section \<open>Runs of a session\<close>

text \<open>A frame to send: binary, or protobuf with the clock reading it carries.\<close>

datatype out_frame = BinFrame byte bytes | ProtoFrame int int bytes

fun encrypt_one :: "hpke_prims \<Rightarrow> out_frame \<Rightarrow> session \<Rightarrow> (hpke_error + bytes) \<times> session" where
  "encrypt_one P (BinFrame ft p) s = EncryptFrame P ft p s"
| "encrypt_one P (ProtoFrame now ft p) s = EncryptProtoFrame P now ft p s"

fun encrypt_run :: "hpke_prims \<Rightarrow> out_frame list \<Rightarrow> session \<Rightarrow> (hpke_error + bytes) list" where
  "encrypt_run P [] s = []"
| "encrypt_run P (f # fs) s = fst (encrypt_one P f s) # encrypt_run P fs (snd (encrypt_one P f s))"

text \<open>The bytes of one frame under a key, a nonce and a sequence number.\<close>

fun encode_frame :: "hpke_prims \<Rightarrow> bytes \<Rightarrow> bytes \<Rightarrow> 32 word \<Rightarrow> out_frame \<Rightarrow> hpke_error + bytes" where
  "encode_frame P key nonce seq (BinFrame ft p) =
     (let header = ft # put_u32 seq @ put_u32 (word_of_nat (length p)) in Inr (header @ gcm_seal P key nonce p header))"
| "encode_frame P key nonce seq (ProtoFrame now ft p) =
     (let sealed = gcm_seal P key nonce p (computeFrameAAD seq ft now)
      in if length sealed < GCMTagLen then Inl ErrPayloadBelowTag
         else (case marshal_frame P \<lparr> sf_seq = seq, sf_type = ft, sf_payload = take (length sealed - GCMTagLen) sealed,
                      sf_tag = drop (length sealed - GCMTagLen) sealed, sf_timestamp = now \<rparr> of
                 None \<Rightarrow> Inl ErrMarshal
               | Some b \<Rightarrow> Inr (put_u32 (word_of_nat (length b)) @ b)))"

definition session_key :: "session \<Rightarrow> bytes" where
  "session_key s = (case respAEAD s of Some k \<Rightarrow> k | None \<Rightarrow> ResponseKey s)"

lemma getOrInit_eq: "getOrInitRespAEAD s = (session_key s, s\<lparr> respAEAD := Some (session_key s) \<rparr>)"
  by (simp add: getOrInitRespAEAD_def session_key_def split: option.split)

lemma encrypt_one_eq:
  "encrypt_one P f s =
     (if seqNum s = 0xFFFFFFFF then (Inl ErrSeqNumOverflow, s\<lparr> respAEAD := Some (session_key s) \<rparr>)
      else (encode_frame P (session_key s) (computeFrameNonce (ResponseIV s) (seqNum s)) (seqNum s) f,
            s\<lparr> respAEAD := Some (session_key s), seqNum := seqNum s + 1 \<rparr>))"
  by (cases f) (simp_all add: EncryptFrame_def EncryptProtoFrame_def getOrInit_eq NextSeqNum_def Let_def
      split: option.split)

lemma session_key_after [simp]:
  "session_key (s\<lparr> respAEAD := Some k \<rparr>) = k" "session_key (s\<lparr> respAEAD := Some k, seqNum := n \<rparr>) = k"
  by (simp_all add: session_key_def)

lemma unat_Suc_seq: "seqNum s \<noteq> 0xFFFFFFFF \<Longrightarrow> unat (seqNum s + 1) = Suc (unat (seqNum s))"
proof -
  assume a: "seqNum s \<noteq> 0xFFFFFFFF"
  have "seqNum s + 1 \<noteq> 0"
  proof
    assume "seqNum s + 1 = 0"
    then have "seqNum s = - 1" by (simp add: eq_neg_iff_add_eq_0)
    then show False using a by simp
  qed
  then show ?thesis by (simp add: unatSuc add.commute)
qed

lemma unat_max_seq: "unat (0xFFFFFFFF :: 32 word) = 2 ^ 32 - 1" by simp

lemma encrypt_run_nth:
  "i < length fs \<Longrightarrow> encrypt_run P fs s ! i =
     (if unat (seqNum s) + i < 2 ^ 32 - 1
      then encode_frame P (session_key s) (computeFrameNonce (ResponseIV s) (seqNum s + word_of_nat i))
             (seqNum s + word_of_nat i) (fs ! i)
      else Inl ErrSeqNumOverflow)"
proof (induction fs arbitrary: s i)
  case (Cons f fs)
  show ?case
  proof (cases "seqNum s = 0xFFFFFFFF")
    case True
    then show ?thesis using Cons by (cases i) (simp_all add: encrypt_one_eq)
  next
    case False
    then have "unat (seqNum s) \<noteq> 2 ^ 32 - 1" by (metis unat_max_seq word_unat_eq_iff)
    moreover have "unat (seqNum s) < 2 ^ 32" using unsigned_less [of "seqNum s"] by simp
    ultimately have lt: "unat (seqNum s) < 2 ^ 32 - 1" by linarith
    show ?thesis
    proof (cases i)
      case 0 then show ?thesis using False lt by (simp add: encrypt_one_eq)
    next
      case (Suc k)
      then show ?thesis using Cons False lt unat_Suc_seq [OF False] by (simp add: encrypt_one_eq add.assoc)
    qed
  qed
qed simp

section \<open>Nonces\<close>

lemma xor_cancel: "(x :: byte) XOR a = x XOR b \<longleftrightarrow> a = b"
  by (metis xor.assoc xor_self_eq xor.left_neutral)

lemma map2_xor_inj: "length xs = length as \<Longrightarrow> length xs = length bs \<Longrightarrow>
   map2 (XOR) xs (as :: bytes) = map2 (XOR) xs bs \<longleftrightarrow> as = bs"
proof -
  assume "length xs = length as" "length xs = length bs"
  then have "length xs = length as" "length as = length bs" by simp_all
  then show ?thesis by (induction xs as bs rule: list_induct3) (simp_all add: xor_cancel)
qed

lemma frame_nonce_inj:
  assumes "length iv = 12"
  shows "computeFrameNonce iv a = computeFrameNonce iv b \<longleftrightarrow> a = b"
  using map2_xor_inj [of "drop 8 iv" "put_u32 a" "put_u32 b"] assms
  by (simp add: computeFrameNonce_def put_u32_inj)

lemma length_frame_nonce: "length iv = 12 \<Longrightarrow> length (computeFrameNonce iv seq) = 12"
  by (simp add: computeFrameNonce_def)

section \<open>Frames\<close>

lemma aead_open: "aead_ok P \<Longrightarrow> gcm_open P k n c a = Some p \<longleftrightarrow> c = gcm_seal P k n p a"
  by (simp add: aead_ok_def)

lemma aead_open_seal: "aead_ok P \<Longrightarrow> gcm_open P k n (gcm_seal P k n p a) a = Some p"
  by (simp add: aead_ok_def)

lemma aead_length: "aead_ok P \<Longrightarrow> length (gcm_seal P k n p a) = length p + GCMTagLen"
  by (simp add: aead_ok_def)

lemma EncryptFrame_eq:
  "EncryptFrame P ft p s =
     (if seqNum s = 0xFFFFFFFF then (Inl ErrSeqNumOverflow, s\<lparr> respAEAD := Some (session_key s) \<rparr>)
      else (encode_frame P (session_key s) (computeFrameNonce (ResponseIV s) (seqNum s)) (seqNum s) (BinFrame ft p),
            s\<lparr> respAEAD := Some (session_key s), seqNum := seqNum s + 1 \<rparr>))"
  using encrypt_one_eq [of P "BinFrame ft p" s] by simp

lemma EncryptProtoFrame_eq:
  "EncryptProtoFrame P now ft p s =
     (if seqNum s = 0xFFFFFFFF then (Inl ErrSeqNumOverflow, s\<lparr> respAEAD := Some (session_key s) \<rparr>)
      else (encode_frame P (session_key s) (computeFrameNonce (ResponseIV s) (seqNum s)) (seqNum s) (ProtoFrame now ft p),
            s\<lparr> respAEAD := Some (session_key s), seqNum := seqNum s + 1 \<rparr>))"
  using encrypt_one_eq [of P "ProtoFrame now ft p" s] by simp

lemma unat_length_word: "n < 2 ^ 32 \<Longrightarrow> unat (word_of_nat n :: 32 word) = n"
  by (simp add: unsigned_of_nat take_bit_nat_eq_self)

lemma get_put_u32_plain [simp]: "get_u32 (put_u32 w) = w"
  using get_put_u32 [of w "[]"] by simp

lemma DecryptFrame_encoded:
  assumes "aead_ok P" "length p < 2 ^ 32"
    and "encode_frame P (session_key c) (computeFrameNonce (ResponseIV c) seq) seq (BinFrame ft p) = Inr out"
  shows "DecryptFrame P out c = (Inr (ft, seq, p), c\<lparr> respAEAD := Some (session_key c) \<rparr>)"
proof -
  define l where "l = (word_of_nat (length p) :: 32 word)"
  define h where "h = ft # put_u32 seq @ put_u32 l"
  have out: "out = h @ gcm_seal P (session_key c) (computeFrameNonce (ResponseIV c) seq) p h"
    using assms(3) by (simp add: h_def l_def Let_def)
  have hl: "length h = 9" by (simp add: h_def)
  have parts: "hd out = ft" "take 4 (drop 1 out) = put_u32 seq" "take 4 (drop 5 out) = put_u32 l"
    by (simp_all add: out h_def drop_append)
  have cut: "take 9 out = h" "drop 9 out = gcm_seal P (session_key c) (computeFrameNonce (ResponseIV c) seq) p h"
    using hl by (simp_all add: out)
  have len: "length out = 9 + length p + GCMTagLen" using hl aead_length [OF assms(1)] by (simp add: out)
  have ul: "unat l = length p" using assms(2) unat_length_word by (simp add: l_def)
  show ?thesis
    unfolding DecryptFrame_def Let_def getOrInit_eq BinaryFrameHeaderLen_def parts cut get_put_u32_plain ul
    using len by (simp add: aead_open_seal [OF assms(1)])
qed

lemma DecryptProtoFrame_encoded:
  assumes "aead_ok P" "codec_ok P"
    and "encode_frame P (session_key c) (computeFrameNonce (ResponseIV c) seq) seq (ProtoFrame now ft p) = Inr out"
  shows "DecryptProtoFrame P out c = (Inr (ft, seq, p), c\<lparr> respAEAD := Some (session_key c) \<rparr>)"
proof -
  let ?sealed = "gcm_seal P (session_key c) (computeFrameNonce (ResponseIV c) seq) p (computeFrameAAD seq ft now)"
  let ?f = "\<lparr> sf_seq = seq, sf_type = ft, sf_payload = take (length ?sealed - GCMTagLen) ?sealed,
      sf_tag = drop (length ?sealed - GCMTagLen) ?sealed, sf_timestamp = now \<rparr>"
  obtain b where b: "marshal_frame P ?f = Some b" "out = put_u32 (word_of_nat (length b)) @ b"
    using assms(3) by (auto simp: Let_def split: if_splits option.splits)
  have u: "unmarshal_frame P b = Some ?f" using assms(2) b(1) by (simp add: codec_ok_def)
  have cut: "take 4 out = put_u32 (word_of_nat (length b))" "drop 4 out = b" "length out = 4 + length b"
    by (simp_all add: b(2))
  show ?thesis
    unfolding DecryptProtoFrame_def Let_def getOrInit_eq cut get_put_u32_plain u
    by (simp add: aead_open_seal [OF assms(1)])
qed

text \<open>Both frame formats are channels between sessions that share key and base IV.\<close>

definition sessions_linked :: "bool \<Rightarrow> session \<Rightarrow> session \<Rightarrow> bool" where
  "sessions_linked laws s c \<longleftrightarrow> laws \<and> session_key s = session_key c \<and> ResponseIV s = ResponseIV c"

lemma linked_after:
  "sessions_linked laws s c \<Longrightarrow> s' = s\<lparr> respAEAD := Some (session_key s) \<rparr>
     \<or> s' = s\<lparr> respAEAD := Some (session_key s), seqNum := seqNum s + 1 \<rparr>
   \<Longrightarrow> c' = c \<or> c' = c\<lparr> respAEAD := Some (session_key c) \<rparr> \<Longrightarrow> sessions_linked laws s' c'"
  by (auto simp: sessions_linked_def)

interpretation bf: frame_channel "\<lambda>(ft, p). EncryptFrame P ft p" "DecryptFrame P" "sessions_linked (aead_ok P)"
  "\<lambda>(ft, p). length p < 2 ^ 32" "\<lambda>(ft, p) s. (ft, seqNum s, p)" for P
proof
  fix s c s' :: session and f :: "byte \<times> bytes" and out
  obtain ft p where f: "f = (ft, p)" by (cases f)
  assume l: "sessions_linked (aead_ok P) s c" and fit: "case f of (ft, p) \<Rightarrow> length p < 2 ^ 32"
    and e: "(case f of (ft, p) \<Rightarrow> EncryptFrame P ft p) s = (Inr out, s')"
  have "EncryptFrame P ft p s = (Inr out, s')" using e f by simp
  then have o: "encode_frame P (session_key c) (computeFrameNonce (ResponseIV c) (seqNum s)) (seqNum s) (BinFrame ft p) = Inr out"
    and s': "s' = s\<lparr> respAEAD := Some (session_key s), seqNum := seqNum s + 1 \<rparr>"
    using l by (auto simp del: encode_frame.simps simp: EncryptFrame_eq sessions_linked_def split: if_splits)
  have d: "DecryptFrame P out c = (Inr (ft, seqNum s, p), c\<lparr> respAEAD := Some (session_key c) \<rparr>)"
    using l fit f by (intro DecryptFrame_encoded [OF _ _ o]) (simp_all add: sessions_linked_def)
  have "sessions_linked (aead_ok P) s' (c\<lparr> respAEAD := Some (session_key c) \<rparr>)"
    using s' by (intro linked_after [OF l]) simp_all
  then show "fst (DecryptFrame P out c) = Inr ((case f of (ft, p) \<Rightarrow> \<lambda>s. (ft, seqNum s, p)) s)
      \<and> sessions_linked (aead_ok P) s' (snd (DecryptFrame P out c))" using d f by simp
next
  fix s c s' :: session and f :: "byte \<times> bytes" and e
  assume l: "sessions_linked (aead_ok P) s c" and e: "(case f of (ft, p) \<Rightarrow> EncryptFrame P ft p) s = (Inl e, s')"
  have "s' = s\<lparr> respAEAD := Some (session_key s) \<rparr> \<or> s' = s\<lparr> respAEAD := Some (session_key s), seqNum := seqNum s + 1 \<rparr>"
    using e by (auto simp del: encode_frame.simps simp: EncryptFrame_eq split: if_splits prod.splits)
  then show "sessions_linked (aead_ok P) s' c" by (intro linked_after [OF l]) simp_all
qed

interpretation pf: frame_channel "\<lambda>(now, ft, p). EncryptProtoFrame P now ft p" "DecryptProtoFrame P"
  "sessions_linked (aead_ok P \<and> codec_ok P)" "\<lambda>_. True" "\<lambda>(now, ft, p) s. (ft, seqNum s, p)" for P
proof
  fix s c s' :: session and f :: "int \<times> int \<times> bytes" and out
  obtain now ft p where f: "f = (now, ft, p)" by (cases f)
  assume l: "sessions_linked (aead_ok P \<and> codec_ok P) s c"
    and e: "(case f of (now, ft, p) \<Rightarrow> EncryptProtoFrame P now ft p) s = (Inr out, s')"
  have "EncryptProtoFrame P now ft p s = (Inr out, s')" using e f by simp
  then have o: "encode_frame P (session_key c) (computeFrameNonce (ResponseIV c) (seqNum s)) (seqNum s) (ProtoFrame now ft p) = Inr out"
    and s': "s' = s\<lparr> respAEAD := Some (session_key s), seqNum := seqNum s + 1 \<rparr>"
    using l by (auto simp del: encode_frame.simps simp: EncryptProtoFrame_eq sessions_linked_def split: if_splits)
  have d: "DecryptProtoFrame P out c = (Inr (ft, seqNum s, p), c\<lparr> respAEAD := Some (session_key c) \<rparr>)"
    using l by (intro DecryptProtoFrame_encoded [OF _ _ o]) (simp_all add: sessions_linked_def)
  have "sessions_linked (aead_ok P \<and> codec_ok P) s' (c\<lparr> respAEAD := Some (session_key c) \<rparr>)"
    using s' by (intro linked_after [OF l]) simp_all
  then show "fst (DecryptProtoFrame P out c) = Inr ((case f of (now, ft, p) \<Rightarrow> \<lambda>s. (ft, seqNum s, p)) s)
      \<and> sessions_linked (aead_ok P \<and> codec_ok P) s' (snd (DecryptProtoFrame P out c))" using d f by simp
next
  fix s c s' :: session and f :: "int \<times> int \<times> bytes" and e
  assume l: "sessions_linked (aead_ok P \<and> codec_ok P) s c"
    and e: "(case f of (now, ft, p) \<Rightarrow> EncryptProtoFrame P now ft p) s = (Inl e, s')"
  have "s' = s\<lparr> respAEAD := Some (session_key s) \<rparr> \<or> s' = s\<lparr> respAEAD := Some (session_key s), seqNum := seqNum s + 1 \<rparr>"
    using e by (auto simp del: encode_frame.simps simp: EncryptProtoFrame_eq split: if_splits prod.splits)
  then show "sessions_linked (aead_ok P \<and> codec_ok P) s' c" by (intro linked_after [OF l]) simp_all
qed

end
