(* ===== verification/SseWriter.thy ===== *)
theory SseWriter
  imports GoHttp Hpke
begin

text \<open>
  The encrypting side of the gateway, pkg/proxy/hpke_middleware.go: the unwrapping of a request by
  content type, and the response writer that cuts the server-sent events of the engine out of the
  byte stream and seals each into a frame. Flushing has no effect on the state; the clock reading
  of a protobuf frame is the argument \<open>clk\<close>, a function of the sequence number it is taken for.
\<close>

section \<open>Requests\<close>

record hpke_context =
  hc_session :: session
  hc_protobuf :: bool
  hc_request :: "enc_request option"

datatype unwrap_error = ErrContentType | ErrUnwrapProto hpke_error | ErrUnwrapBinary hpke_error

definition UnwrapHPKERequest ::
  "hpke_prims \<Rightarrow> bytes \<Rightarrow> bytes \<Rightarrow> string \<Rightarrow> bytes \<Rightarrow> unwrap_error + (bytes \<times> hpke_context)" where
  "UnwrapHPKERequest P hpkePrivKey rawBody contentType bindingHash =
     (let ct = ToLower contentType
      in if \<not> Contains ct ''application/octet-stream'' \<and> \<not> Contains ct ''application/x-cevell-hpke''
            \<and> \<not> Contains ct ''application/x-protobuf'' then Inl ErrContentType
         else if Contains ct ''application/x-protobuf'' then
           (case UnwrapProtoHPKERequest P hpkePrivKey rawBody bindingHash of
              Inl e \<Rightarrow> Inl (ErrUnwrapProto e)
            | Inr (plaintext, s, req) \<Rightarrow>
                Inr (plaintext, \<lparr> hc_session = s, hc_protobuf = True, hc_request = Some req \<rparr>))
         else
           (case UnwrapProtoHPKERequest P hpkePrivKey rawBody bindingHash of
              Inr (plaintext, s, req) \<Rightarrow>
                Inr (plaintext, \<lparr> hc_session = s, hc_protobuf = True, hc_request = Some req \<rparr>)
            | Inl _ \<Rightarrow>
                (case UnwrapBinaryHPKERequest P hpkePrivKey rawBody of
                   Inl e \<Rightarrow> Inl (ErrUnwrapBinary e)
                 | Inr (plaintext, s) \<Rightarrow>
                     Inr (plaintext, \<lparr> hc_session = s, hc_protobuf = False, hc_request = None \<rparr>))))"

section \<open>The response writer\<close>

record writer =
  rw_out :: response
  rw_session :: "session option"
  rw_status :: int
  rw_headerWritten :: bool
  rw_isStreaming :: bool
  rw_isProtobuf :: bool
  rw_nonSSEBuf :: bytes
  rw_sseBuf :: bytes

definition newHPKEResponseWriter :: "response \<Rightarrow> session option \<Rightarrow> bool \<Rightarrow> writer" where
  "newHPKEResponseWriter w s isProtobuf =
     \<lparr> rw_out = w, rw_session = s, rw_status = 200, rw_headerWritten = False, rw_isStreaming = False,
       rw_isProtobuf = isProtobuf, rw_nonSSEBuf = [], rw_sseBuf = [] \<rparr>"

definition wire_content_type :: "bool \<Rightarrow> string" where
  "wire_content_type isProtobuf = (if isProtobuf then ''application/x-protobuf'' else ''application/octet-stream'')"

definition upstream_is_sse :: "writer \<Rightarrow> bool" where
  "upstream_is_sse rw = Contains (ToLower (header_get (o_headers (rw_out rw)) ''Content-Type'')) ''text/event-stream''"

definition set_out_header :: "string \<Rightarrow> string \<Rightarrow> writer \<Rightarrow> writer" where
  "set_out_header n v rw = rw\<lparr> rw_out := (rw_out rw)\<lparr> o_headers := header_set n v (o_headers (rw_out rw)) \<rparr> \<rparr>"

definition WriteHeader :: "int \<Rightarrow> writer \<Rightarrow> writer" where
  "WriteHeader statusCode rw =
     (let rw = rw\<lparr> rw_status := statusCode \<rparr>
      in if rw_headerWritten rw then rw
         else
           (let rw = (if upstream_is_sse rw \<or> rw_isStreaming rw then rw\<lparr> rw_isStreaming := True \<rparr> else rw);
                rw = set_out_header ''Content-Type'' (wire_content_type (rw_isProtobuf rw)) rw
            in if rw_isStreaming rw then
                 (let o' = rw_out rw;
                      o' = o'\<lparr> o_headers := header_del ''Content-Length'' (o_headers o') \<rparr>
                  in rw\<lparr> rw_out := out_write_header statusCode o', rw_headerWritten := True \<rparr>)
               else rw))"

definition maxSSEBufferSize :: nat where "maxSSEBufferSize = 1024 * 1024"

section \<open>Events\<close>

definition CRLF2 :: bytes where "CRLF2 = [13, 10, 13, 10]"
definition LF2 :: bytes where "LF2 = [10, 10]"

text \<open>Where the first complete event ends, and the length of its delimiter.\<close>

definition find_delim :: "bytes \<Rightarrow> (nat \<times> nat) option" where
  "find_delim buf =
     (case (Index buf CRLF2, Index buf LF2) of
        (Some c, None) \<Rightarrow> Some (c, 4)
      | (Some c, Some l) \<Rightarrow> if c < l then Some (c, 4) else Some (l, 2)
      | (None, Some l) \<Rightarrow> Some (l, 2)
      | (None, None) \<Rightarrow> None)"

text \<open>The event type and the data lines of a block, in the order of its lines.\<close>

fun scan_lines :: "string list \<Rightarrow> string \<times> string list \<Rightarrow> string \<times> string list" where
  "scan_lines [] acc = acc"
| "scan_lines (line # rest) (eventType, dataLines) =
     (let trimmed = TrimSpace line
      in if HasPrefix trimmed ''event:'' then scan_lines rest (TrimSpace (TrimPrefix trimmed ''event:''), dataLines)
         else if HasPrefix trimmed ''data:'' then
           scan_lines rest (eventType, dataLines @ [TrimSpace (TrimPrefix trimmed ''data:'')])
         else scan_lines rest (eventType, dataLines))"

definition block_payload :: "bytes \<Rightarrow> string option" where
  "block_payload block =
     (let normalized = replace2 (CHR 0x0D) (CHR 0x0A) [CHR 0x0A] (string_of block);
          (eventType, dataLines) = scan_lines (split_on (CHR 0x0A) normalized) ('''', [])
      in if dataLines = [] then None
         else (let payload = Join dataLines [CHR 0x0A]
               in if payload = '''' then None
                  else if eventType \<noteq> '''' then
                    Some (''event: '' @ eventType @ [CHR 0x0A] @ ''data: '' @ payload @ [CHR 0x0A, CHR 0x0A])
                  else Some payload))"

text \<open>Seal one payload and write the frame; a failed encryption is logged and drops the event.\<close>

definition encrypt_out ::
  "hpke_prims \<Rightarrow> (32 word \<Rightarrow> int) \<Rightarrow> bool \<Rightarrow> byte \<Rightarrow> int \<Rightarrow> bytes \<Rightarrow> session \<Rightarrow> (hpke_error + bytes) \<times> session" where
  "encrypt_out P clk isProtobuf binType protoType p s =
     (if isProtobuf then EncryptProtoFrame P (clk (seqNum s)) protoType p s else EncryptFrame P binType p s)"

definition writeEncryptedSSEBlock :: "hpke_prims \<Rightarrow> (32 word \<Rightarrow> int) \<Rightarrow> bytes \<Rightarrow> writer \<Rightarrow> writer" where
  "writeEncryptedSSEBlock P clk block rw =
     (case (block_payload block, rw_session rw) of
        (Some payload, Some s) \<Rightarrow>
          (let r = (if payload = ''[DONE]''
                    then encrypt_out P clk (rw_isProtobuf rw) FrameTypeStreamEnd FRAME_TYPE_STREAM_END (bytes_of ''[DONE]'') s
                    else encrypt_out P clk (rw_isProtobuf rw) FrameTypeTokenDelta FRAME_TYPE_TOKEN_DELTA (bytes_of payload) s)
           in case r of
                (Inl _, s') \<Rightarrow> rw\<lparr> rw_session := Some s' \<rparr>
              | (Inr frame, s') \<Rightarrow> rw\<lparr> rw_session := Some s', rw_out := out_write frame (rw_out rw) \<rparr>)
      | _ \<Rightarrow> rw)"

lemma write_block_buffers [simp]:
  "rw_sseBuf (writeEncryptedSSEBlock P clk block rw) = rw_sseBuf rw"
  "rw_nonSSEBuf (writeEncryptedSSEBlock P clk block rw) = rw_nonSSEBuf rw"
  "rw_isStreaming (writeEncryptedSSEBlock P clk block rw) = rw_isStreaming rw"
  "rw_headerWritten (writeEncryptedSSEBlock P clk block rw) = rw_headerWritten rw"
  "rw_isProtobuf (writeEncryptedSSEBlock P clk block rw) = rw_isProtobuf rw"
  "rw_status (writeEncryptedSSEBlock P clk block rw) = rw_status rw"
  by (auto simp: writeEncryptedSSEBlock_def Let_def split: option.split prod.split sum.split)

lemma find_delim_bound: "find_delim buf = Some (i, k) \<Longrightarrow> 0 < k"
  by (auto simp: find_delim_def split: option.splits if_splits)

function processSSEBuffer :: "hpke_prims \<Rightarrow> (32 word \<Rightarrow> int) \<Rightarrow> bool \<Rightarrow> writer \<Rightarrow> writer" where
  "processSSEBuffer P clk drainAll rw =
     (let buf = rw_sseBuf rw
      in if buf = [] then rw
         else (case find_delim buf of
                 None \<Rightarrow>
                   if drainAll \<or> maxSSEBufferSize < length buf
                   then (writeEncryptedSSEBlock P clk buf rw)\<lparr> rw_sseBuf := [] \<rparr>
                   else rw
               | Some (delimIdx, delimLen) \<Rightarrow>
                   processSSEBuffer P clk drainAll
                     (writeEncryptedSSEBlock P clk (take delimIdx buf)
                       (rw\<lparr> rw_sseBuf := drop (delimIdx + delimLen) buf \<rparr>))))"
  by pat_completeness auto

termination
  by (relation "measure (\<lambda>(P, clk, drainAll, rw). length (rw_sseBuf rw))")
    (auto dest: find_delim_bound)

declare processSSEBuffer.simps [simp del]

definition Write :: "hpke_prims \<Rightarrow> (32 word \<Rightarrow> int) \<Rightarrow> bytes \<Rightarrow> writer \<Rightarrow> nat option \<times> writer" where
  "Write P clk p rw =
     (if rw_session rw = None then (None, rw)
      else
        (let rw = (if \<not> rw_headerWritten rw \<and> upstream_is_sse rw
                   then WriteHeader (rw_status rw) (rw\<lparr> rw_isStreaming := True \<rparr>) else rw)
         in if rw_isStreaming rw
            then (Some (length p), processSSEBuffer P clk False (rw\<lparr> rw_sseBuf := rw_sseBuf rw @ p \<rparr>))
            else (Some (length p), rw\<lparr> rw_nonSSEBuf := rw_nonSSEBuf rw @ p \<rparr>)))"

definition Flush :: "hpke_prims \<Rightarrow> (32 word \<Rightarrow> int) \<Rightarrow> writer \<Rightarrow> writer" where
  "Flush P clk rw = (if rw_session rw \<noteq> None \<and> rw_isStreaming rw then processSSEBuffer P clk False rw else rw)"

section \<open>Finish\<close>

definition end_session :: "writer \<Rightarrow> writer" where
  "end_session rw = rw\<lparr> rw_session := map_option session_Zeroize (rw_session rw) \<rparr>"

definition Finish :: "hpke_prims \<Rightarrow> (32 word \<Rightarrow> int) \<Rightarrow> writer \<Rightarrow> writer" where
  "Finish P clk rw =
     (case rw_session rw of
        None \<Rightarrow> rw
      | Some s \<Rightarrow>
          if rw_isStreaming rw then end_session (processSSEBuffer P clk True rw)
          else
            (let ct = wire_content_type (rw_isProtobuf rw);
                 status = (\<lambda>st rw. rw\<lparr> rw_out := out_write_header st (rw_out rw) \<rparr>)
             in if rw_nonSSEBuf rw = [] then end_session (status (rw_status rw) (set_out_header ''Content-Type'' ct rw))
                else
                  (let (r, s) = (if 400 \<le> rw_status rw
                                 then encrypt_out P clk (rw_isProtobuf rw) FrameTypeError FRAME_TYPE_ERROR (rw_nonSSEBuf rw) s
                                 else encrypt_out P clk (rw_isProtobuf rw) FrameTypeCompletion FRAME_TYPE_COMPLETION
                                        (rw_nonSSEBuf rw) s)
                   in case r of
                        Inl _ \<Rightarrow> end_session (status 500 (set_out_header ''Content-Type'' ct (rw\<lparr> rw_session := Some s \<rparr>)))
                      | Inr frame \<Rightarrow>
                          (case encrypt_out P clk (rw_isProtobuf rw) FrameTypeStreamEnd FRAME_TYPE_STREAM_END
                                  (bytes_of ''[DONE]'') s of
                             (Inl _, s) \<Rightarrow> end_session (rw\<lparr> rw_session := Some s \<rparr>)
                           | (Inr endFrame, s) \<Rightarrow>
                               (let total = frame @ endFrame;
                                    rw = set_out_header ''Content-Type'' ct (rw\<lparr> rw_session := Some s \<rparr>);
                                    rw = set_out_header ''Content-Length'' (nat_dec (length total)) rw;
                                    rw = status (rw_status rw) rw
                                in end_session (rw\<lparr> rw_out := out_write total (rw_out rw) \<rparr>))))))"

section \<open>Where events end\<close>

lemma Index_None: "Index s p = None \<longleftrightarrow> (\<forall>i \<le> length s. \<not> HasPrefix (drop i s) p)"
proof (induction s)
  case Nil show ?case by (auto simp: HasPrefix_def)
next
  case (Cons x xs)
  show ?case
  proof (cases "HasPrefix (x # xs) p")
    case True then show ?thesis by auto
  next
    case False
    then have "(\<forall>i \<le> length (x # xs). \<not> HasPrefix (drop i (x # xs)) p) \<longleftrightarrow> (\<forall>i \<le> length xs. \<not> HasPrefix (drop i xs) p)"
      by (simp add: less_Suc_eq_le [symmetric] All_less_Suc2)
    then show ?thesis using Cons False by simp
  qed
qed

lemma Index_Some: "Index s p = Some i \<longleftrightarrow> i \<le> length s \<and> HasPrefix (drop i s) p \<and> (\<forall>j < i. \<not> HasPrefix (drop j s) p)"
proof (induction s arbitrary: i)
  case Nil show ?case by (auto simp: HasPrefix_def)
next
  case (Cons x xs)
  show ?case
  proof (cases "HasPrefix (x # xs) p")
    case True
    then show ?thesis by (cases i) auto
  next
    case False
    then show ?thesis using Cons by (cases i) (auto simp: less_Suc_eq_0_disj)
  qed
qed

lemma Index_nth:
  assumes "Index s p = Some i" "k < length p"
  shows "s ! (i + k) = p ! k"
proof -
  have "i \<le> length s" "HasPrefix (drop i s) p" using assms(1) Index_Some by blast+
  then have "take (length p) (drop i s) = p" "i \<le> length s" by (simp_all add: HasPrefix_def)
  then show ?thesis using assms(2) by (metis nth_drop nth_take)
qed

lemma HasPrefix_drop_append:
  "j + length p \<le> length xs \<Longrightarrow> HasPrefix (drop j (xs @ ys)) p = HasPrefix (drop j xs) p"
  by (simp add: HasPrefix_append)

lemma Index_append:
  assumes "Index xs p = Some i"
  shows "Index (xs @ ys) p = Some i"
proof -
  have i: "i \<le> length xs" "HasPrefix (drop i xs) p" "\<forall>j < i. \<not> HasPrefix (drop j xs) p"
    using assms Index_Some by blast+
  have l: "i + length p \<le> length xs" using HasPrefix_length [OF i(2)] i(1) by simp
  then show ?thesis using i by (simp add: Index_Some HasPrefix_drop_append del: drop_append)
qed

lemma Index_append_new:
  assumes "Index xs p = None" "Index (xs @ ys) p = Some j"
  shows "length xs < j + length p"
proof (rule ccontr)
  assume "\<not> length xs < j + length p"
  then have "HasPrefix (drop j xs) p = HasPrefix (drop j (xs @ ys)) p" "j \<le> length xs"
    by (simp_all add: HasPrefix_drop_append del: drop_append)
  then show False using assms Index_None Index_Some by metis
qed

lemma find_delim_append:
  assumes "find_delim xs = Some (i, k)"
  shows "find_delim (xs @ ys) = Some (i, k)"
proof -
  have bound: "l + length p \<le> length xs" if "Index xs p = Some l" for l and p :: bytes
  proof -
    have "l \<le> length xs" "HasPrefix (drop l xs) p" using that Index_Some by blast+
    then show ?thesis using HasPrefix_length by fastforce
  qed
  show ?thesis
  proof (cases "Index xs CRLF2")
    case c: (Some c)
    then have c': "Index (xs @ ys) CRLF2 = Some c" by (rule Index_append)
    show ?thesis
    proof (cases "Index xs LF2")
      case (Some l) then show ?thesis using assms c c' Index_append [OF Some] by (simp add: find_delim_def)
    next
      case None
      have "c < l" if "Index (xs @ ys) LF2 = Some l" for l
        using Index_append_new [OF None that] bound [OF c] by (simp add: CRLF2_def LF2_def)
      then show ?thesis using assms c c' None by (cases "Index (xs @ ys) LF2") (simp_all add: find_delim_def)
    qed
  next
    case c: None
    then obtain l where l: "Index xs LF2 = Some l" "i = l" "k = 2"
      using assms by (cases "Index xs LF2") (auto simp: find_delim_def)
    have l': "Index (xs @ ys) LF2 = Some l" by (rule Index_append [OF l(1)])
    have "\<not> c' < l" if "Index (xs @ ys) CRLF2 = Some c'" for c'
    proof
      assume lt: "c' < l"
      have "length xs < c' + 4" using Index_append_new [OF c that] by (simp add: CRLF2_def)
      then have e: "l = Suc c'" using lt bound [OF l(1)] by (simp add: LF2_def)
      have "(xs @ ys) ! (c' + 2) = CRLF2 ! 2" using that by (intro Index_nth) (simp_all add: CRLF2_def)
      moreover have "(xs @ ys) ! (l + 1) = LF2 ! 1" using l' by (intro Index_nth) (simp_all add: LF2_def)
      moreover have "l + 1 = c' + 2" using e by simp
      ultimately have "CRLF2 ! 2 = LF2 ! 1" by metis
      then show False by (simp add: CRLF2_def LF2_def)
    qed
    then show ?thesis using l l' by (cases "Index (xs @ ys) CRLF2") (simp_all add: find_delim_def)
  qed
qed

section \<open>The events of a byte stream\<close>

lemma find_delim_le: "find_delim buf = Some (i, k) \<Longrightarrow> i + k \<le> length buf \<and> 0 < k"
proof -
  assume a: "find_delim buf = Some (i, k)"
  have bound: "l + length p \<le> length buf" if "Index buf p = Some l" for l p
  proof -
    have "l \<le> length buf" "HasPrefix (drop l buf) p" using that Index_Some by blast+
    then show ?thesis using HasPrefix_length by fastforce
  qed
  have "i + 4 \<le> length buf \<and> k = 4 \<or> i + 2 \<le> length buf \<and> k = 2"
    using a bound [of CRLF2] bound [of LF2]
    by (auto simp: find_delim_def CRLF2_def LF2_def split: option.splits if_splits)
  then show ?thesis by auto
qed

lemma find_delim_Nil [simp]: "find_delim [] = None"
  by (simp add: find_delim_def CRLF2_def LF2_def)

text \<open>Reference: all complete events of a byte stream, and the incomplete rest.\<close>

function split_events :: "bytes \<Rightarrow> bytes list \<times> bytes" where
  "split_events buf =
     (case find_delim buf of
        None \<Rightarrow> ([], buf)
      | Some (i, k) \<Rightarrow> (case split_events (drop (i + k) buf) of (evs, rest) \<Rightarrow> (take i buf # evs, rest)))"
  by pat_completeness auto

termination
  by (relation "measure length") (auto dest: find_delim_le)

declare split_events.simps [simp del]

lemma split_events_none: "find_delim buf = None \<Longrightarrow> split_events buf = ([], buf)"
  by (simp add: split_events.simps)

lemma split_events_append:
  "split_events (xs @ ys) =
     (case split_events xs of (evs, rest) \<Rightarrow> (case split_events (rest @ ys) of (evs', rest') \<Rightarrow> (evs @ evs', rest')))"
proof (induction xs rule: split_events.induct)
  case (1 buf)
  show ?case
  proof (cases "find_delim buf")
    case None then show ?thesis by (simp add: split_events_none split: prod.split)
  next
    case (Some ik)
    obtain i k where ik: "ik = (i, k)" by (cases ik) auto
    note f = Some [unfolded ik]
    have le: "i + k \<le> length buf" using find_delim_le [OF f] by simp
    have IH: "split_events (drop (i + k) buf @ ys) =
       (case split_events (drop (i + k) buf) of (evs, rest) \<Rightarrow>
          (case split_events (rest @ ys) of (evs', rest') \<Rightarrow> (evs @ evs', rest')))"
      using 1 [OF Some ik [symmetric]] by simp
    have "split_events (buf @ ys) = (case split_events (drop (i + k) buf @ ys) of (evs, rest) \<Rightarrow> (take i buf # evs, rest))"
      using le by (subst split_events.simps) (simp add: find_delim_append [OF f])
    moreover have "split_events buf = (case split_events (drop (i + k) buf) of (evs, rest) \<Rightarrow> (take i buf # evs, rest))"
      by (subst split_events.simps) (simp add: f)
    ultimately show ?thesis unfolding IH by (simp split: prod.split)
  qed
qed

lemma split_rest_again: "split_events buf = (evs, rest) \<Longrightarrow> split_events rest = ([], rest)"
proof (induction buf arbitrary: evs rule: split_events.induct)
  case (1 buf)
  show ?case
  proof (cases "find_delim buf")
    case None then show ?thesis using 1(2) by (simp add: split_events_none)
  next
    case (Some ik)
    obtain i k where ik: "ik = (i, k)" by (cases ik) auto
    obtain evs' where "split_events (drop (i + k) buf) = (evs', rest)"
      using 1(2) Some ik by (subst (asm) split_events.simps) (auto split: prod.splits)
    then show ?thesis using 1(1) [OF Some ik [symmetric]] by blast
  qed
qed

lemma write_block_setbuf: "writeEncryptedSSEBlock P clk b (rw\<lparr> rw_sseBuf := x \<rparr>) = (writeEncryptedSSEBlock P clk b rw)\<lparr> rw_sseBuf := x \<rparr>"
  by (auto simp: writeEncryptedSSEBlock_def Let_def split: option.split prod.split sum.split)

lemma fold_setbuf: "fold (writeEncryptedSSEBlock P clk) es (rw\<lparr> rw_sseBuf := x \<rparr>)
    = (fold (writeEncryptedSSEBlock P clk) es rw)\<lparr> rw_sseBuf := x \<rparr>"
  by (induction es arbitrary: rw) (simp_all add: write_block_setbuf)

text \<open>The loop of the writer is a fold over the events of its buffer.\<close>

lemma process_is_fold:
  assumes "split_events (rw_sseBuf rw) = (evs, rest)" "length rest \<le> maxSSEBufferSize"
  shows "processSSEBuffer P clk False rw = (fold (writeEncryptedSSEBlock P clk) evs rw)\<lparr> rw_sseBuf := rest \<rparr>"
  using assms
proof (induction P clk "False" rw arbitrary: evs rule: processSSEBuffer.induct)
  case (1 P clk rw)
  let ?buf = "rw_sseBuf rw"
  show ?case
  proof (cases "find_delim ?buf")
    case None
    then have "evs = []" "rest = ?buf" using 1(2) by (simp_all add: split_events_none)
    then show ?thesis using None 1(3) by (subst processSSEBuffer.simps) (simp add: Let_def)
  next
    case (Some ik)
    obtain i k where ik: "ik = (i, k)" by (cases ik) auto
    have ne: "?buf \<noteq> []" using Some by auto
    obtain evs' where e: "split_events (drop (i + k) ?buf) = (evs', rest)" "evs = take i ?buf # evs'"
      using 1(2) Some ik by (subst (asm) split_events.simps) (auto split: prod.splits)
    let ?w = "writeEncryptedSSEBlock P clk (take i ?buf) (rw\<lparr> rw_sseBuf := drop (i + k) ?buf \<rparr>)"
    have "processSSEBuffer P clk False rw = processSSEBuffer P clk False ?w"
      using ne Some ik by (subst processSSEBuffer.simps) (simp add: Let_def)
    also have "\<dots> = (fold (writeEncryptedSSEBlock P clk) evs' ?w)\<lparr> rw_sseBuf := rest \<rparr>"
      using 1(1) [OF refl ne Some ik [symmetric]] e(1) 1(3) by simp
    also have "\<dots> = (fold (writeEncryptedSSEBlock P clk) evs rw)\<lparr> rw_sseBuf := rest \<rparr>"
      by (simp add: e(2) write_block_setbuf fold_setbuf)
    finally show ?thesis .
  qed
qed

section \<open>Writes\<close>

definition write_all :: "hpke_prims \<Rightarrow> (32 word \<Rightarrow> int) \<Rightarrow> bytes list \<Rightarrow> writer \<Rightarrow> writer" where
  "write_all P clk ps rw = fold (\<lambda>p rw. snd (Write P clk p rw)) ps rw"

text \<open>A writer that is streaming and has sent its header.\<close>

definition streaming :: "writer \<Rightarrow> bool" where
  "streaming rw \<longleftrightarrow> rw_session rw \<noteq> None \<and> rw_isStreaming rw \<and> rw_headerWritten rw"

lemma streaming_block [simp]: "streaming (writeEncryptedSSEBlock P clk b rw) = streaming rw"
proof -
  have "(rw_session (writeEncryptedSSEBlock P clk b rw) = None) = (rw_session rw = None)"
    by (auto simp: writeEncryptedSSEBlock_def Let_def split: option.split prod.split sum.split)
  then show ?thesis by (simp add: streaming_def)
qed

lemma streaming_fold [simp]: "streaming (fold (writeEncryptedSSEBlock P clk) bs rw) = streaming rw"
  by (induction bs arbitrary: rw) simp_all

lemma streaming_setbuf [simp]: "streaming (rw\<lparr> rw_sseBuf := x \<rparr>) = streaming rw"
  by (simp add: streaming_def)

text \<open>No prefix of the writes leaves an incomplete event above the buffer ceiling.\<close>

definition below_ceiling :: "bytes \<Rightarrow> bytes list \<Rightarrow> bool" where
  "below_ceiling buf ps \<longleftrightarrow>
     list_all (\<lambda>k. length (snd (split_events (buf @ concat (take k ps)))) \<le> maxSSEBufferSize) [0..<Suc (length ps)]"

lemma below_ceiling_iff:
  "below_ceiling buf ps \<longleftrightarrow> (\<forall>k \<le> length ps. length (snd (split_events (buf @ concat (take k ps)))) \<le> maxSSEBufferSize)"
  by (auto simp: below_ceiling_def list_all_iff less_Suc_eq_le simp del: upt_Suc)

lemma write_all_is_fold:
  assumes "streaming rw" "split_events (rw_sseBuf rw) = ([], rw_sseBuf rw)" "below_ceiling (rw_sseBuf rw) ps"
  shows "write_all P clk ps rw =
    (fold (writeEncryptedSSEBlock P clk) (fst (split_events (rw_sseBuf rw @ concat ps))) rw)
      \<lparr> rw_sseBuf := snd (split_events (rw_sseBuf rw @ concat ps)) \<rparr>"
  using assms
proof (induction ps arbitrary: rw)
  case Nil then show ?case by (simp add: write_all_def)
next
  case (Cons p ps)
  let ?buf = "rw_sseBuf rw"
  obtain evs rest where s: "split_events (?buf @ p) = (evs, rest)" by fastforce
  note below = Cons.prems(3) [unfolded below_ceiling_iff]
  have "length rest \<le> maxSSEBufferSize" using below [rule_format, of 1] s by simp
  then have "processSSEBuffer P clk False (rw\<lparr> rw_sseBuf := ?buf @ p \<rparr>)
      = (fold (writeEncryptedSSEBlock P clk) evs rw)\<lparr> rw_sseBuf := rest \<rparr>"
    using process_is_fold [of "rw\<lparr> rw_sseBuf := ?buf @ p \<rparr>" evs rest P clk] s by (simp add: fold_setbuf)
  moreover have "snd (Write P clk p rw) = processSSEBuffer P clk False (rw\<lparr> rw_sseBuf := ?buf @ p \<rparr>)"
    using Cons.prems(1) by (auto simp: Write_def streaming_def Let_def)
  ultimately have w: "snd (Write P clk p rw) = (fold (writeEncryptedSSEBlock P clk) evs rw)\<lparr> rw_sseBuf := rest \<rparr>"
    by simp
  let ?w = "snd (Write P clk p rw)"
  have app: "split_events (?buf @ p @ x) = (case split_events (rest @ x) of (evs', rest') \<Rightarrow> (evs @ evs', rest'))" for x
    using split_events_append [of "?buf @ p" x] s by simp
  have st: "streaming ?w" using Cons.prems(1) by (simp add: w)
  have again: "split_events (rw_sseBuf ?w) = ([], rw_sseBuf ?w)" using split_rest_again [OF s] by (simp add: w)
  have "below_ceiling (rw_sseBuf ?w) ps"
    unfolding below_ceiling_iff
  proof (intro allI impI)
    fix k assume "k \<le> length ps"
    then have "length (snd (split_events (?buf @ p @ concat (take k ps)))) \<le> maxSSEBufferSize"
      using below [rule_format, of "Suc k"] by simp
    then show "length (snd (split_events (rw_sseBuf ?w @ concat (take k ps)))) \<le> maxSSEBufferSize"
      unfolding app by (simp add: w split: prod.splits)
  qed
  from Cons.IH [OF st again this]
  have "write_all P clk ps ?w = (fold (writeEncryptedSSEBlock P clk) (fst (split_events (rest @ concat ps))) ?w)
      \<lparr> rw_sseBuf := snd (split_events (rest @ concat ps)) \<rparr>" by (simp add: w)
  then show ?case by (simp add: write_all_def app w fold_setbuf split: prod.split)
qed

end
