(* ===== verification/Translator.thy ===== *)
theory Translator
  imports GoJson SseWriter
begin

text \<open>
  pkg/proxy/messages_translator.go: requests and responses of the Messages interface are translated
  to and from those of chat completions, whole or as a stream of events, and a second response writer
  stands before the encrypting one. A member that occurs twice in a request is read as its last
  occurrence. Clock readings are the argument \<open>now\<close>.
\<close>

section \<open>Requests\<close>

record anthropic_message =
  am_role :: string
  am_content :: "json option"

record anthropic_thinking =
  at_type :: string
  at_budget_tokens :: int

record anthropic_tool =
  tl_name :: string
  tl_description :: string
  tl_input_schema :: json

record anthropic_request =
  ar_model :: string
  ar_messages :: "anthropic_message list"
  ar_system :: "json option"
  ar_max_tokens :: int
  ar_temperature :: "string option"
  ar_top_p :: "string option"
  ar_top_k :: "int option"
  ar_stream :: bool
  ar_thinking :: "anthropic_thinking option"
  ar_tools :: "anthropic_tool list"
  ar_tool_choice :: "json option"

text \<open>Readers of the fields; None is a value of another type.\<close>

definition as_float :: "float_prims \<Rightarrow> json \<Rightarrow> string option" where
  "as_float F v = (case v of JNum l \<Rightarrow> float_text F l | _ \<Rightarrow> None)"

definition when_ok :: "bool list \<Rightarrow> 'a \<Rightarrow> 'a option" where
  "when_ok oks x = (if list_all id oks then Some x else None)"

definition as_struct :: "((string \<times> json) list \<Rightarrow> 'a option) \<Rightarrow> json \<Rightarrow> 'a option" where
  "as_struct f v = Option.bind (as_members v) f"

definition as_list :: "(json \<Rightarrow> 'a option) \<Rightarrow> json \<Rightarrow> 'a list option" where
  "as_list f v = (case v of JArr vs \<Rightarrow> those (map f vs) | JNull \<Rightarrow> Some [] | _ \<Rightarrow> None)"

definition read_message :: "float_prims \<Rightarrow> (string \<times> json) list \<Rightarrow> anthropic_message option" where
  "read_message F ms =
     (let (role, ok1) = get_field as_string '''' ''role'' ms;
          (content, ok2) = get_pointer (to_any F) ''content'' ms
      in when_ok [ok1, ok2] \<lparr> am_role = role, am_content = content \<rparr>)"

definition read_thinking :: "(string \<times> json) list \<Rightarrow> anthropic_thinking option" where
  "read_thinking ms =
     (let (t, ok1) = get_field as_string '''' ''type'' ms;
          (b, ok2) = get_field as_int 0 ''budget_tokens'' ms
      in when_ok [ok1, ok2] \<lparr> at_type = t, at_budget_tokens = b \<rparr>)"

definition read_tool :: "float_prims \<Rightarrow> (string \<times> json) list \<Rightarrow> anthropic_tool option" where
  "read_tool F ms =
     (let (name, ok1) = get_field as_string '''' ''name'' ms;
          (desc, ok2) = get_field as_string '''' ''description'' ms;
          (schema, ok3) = get_pointer (as_map F) ''input_schema'' ms
      in when_ok [ok1, ok2, ok3]
           \<lparr> tl_name = name, tl_description = desc,
             tl_input_schema = (case schema of None \<Rightarrow> JNull | Some m \<Rightarrow> JObj m) \<rparr>)"

definition read_request :: "float_prims \<Rightarrow> (string \<times> json) list \<Rightarrow> anthropic_request option" where
  "read_request F ms =
     (let (model, ok1) = get_field as_string '''' ''model'' ms;
          (messages, ok2) = get_field (as_list (as_struct (read_message F))) [] ''messages'' ms;
          (system, ok3) = get_pointer (to_any F) ''system'' ms;
          (max_tokens, ok4) = get_field as_int 0 ''max_tokens'' ms;
          (temperature, ok5) = get_pointer (as_float F) ''temperature'' ms;
          (top_p, ok6) = get_pointer (as_float F) ''top_p'' ms;
          (top_k, ok7) = get_pointer as_int ''top_k'' ms;
          (stream, ok8) = get_field as_bool False ''stream'' ms;
          (thinking, ok9) = get_pointer (as_struct read_thinking) ''thinking'' ms;
          (tools, ok10) = get_field (as_list (as_struct (read_tool F))) [] ''tools'' ms;
          (choice, ok11) = get_pointer (to_any F) ''tool_choice'' ms;
          (_, ok12) = get_pointer (as_map F) ''metadata'' ms
      in when_ok [ok1, ok2, ok3, ok4, ok5, ok6, ok7, ok8, ok9, ok10, ok11, ok12]
           \<lparr> ar_model = model, ar_messages = messages, ar_system = system, ar_max_tokens = max_tokens,
             ar_temperature = temperature, ar_top_p = top_p, ar_top_k = top_k, ar_stream = stream,
             ar_thinking = thinking, ar_tools = tools, ar_tool_choice = choice \<rparr>)"

section \<open>From Messages to chat completions\<close>

definition blank_line :: string where "blank_line = [CHR 0x0A, CHR 0x0A]"

text \<open>The token limit: with thinking enabled the budget is added to it, and no budget means no limit.\<close>

definition token_limit :: "anthropic_request \<Rightarrow> (string \<times> json) list" where
  "token_limit req =
     (let maxTokens = ar_max_tokens req in
      case ar_thinking req of
        Some t \<Rightarrow>
          if at_type t = ''enabled'' then
            (if 0 < at_budget_tokens t then [(''max_completion_tokens'', JInt (wrap64 (at_budget_tokens t + maxTokens)))] else [])
          else if 0 < maxTokens then [(''max_tokens'', JInt maxTokens)] else []
      | None \<Rightarrow> if 0 < maxTokens then [(''max_tokens'', JInt maxTokens)] else [])"

definition text_parts :: "json list \<Rightarrow> string list" where
  "text_parts vs = List.map_filter (\<lambda>v. case v of
       JObj m \<Rightarrow> (case map_of m ''text'' of Some (JStr t) \<Rightarrow> Some t | _ \<Rightarrow> None) | _ \<Rightarrow> None) vs"

definition system_text :: "json option \<Rightarrow> string" where
  "system_text s =
     (case s of
        Some (JStr t) \<Rightarrow> t
      | Some (JArr vs) \<Rightarrow> Join (text_parts vs) blank_line
      | _ \<Rightarrow> '''')"

definition plain_message :: "string \<Rightarrow> string \<Rightarrow> json" where
  "plain_message role content = jmap [(''role'', JStr role), (''content'', JStr content)]"

definition system_message :: "json option \<Rightarrow> json list" where
  "system_message s = (if system_text s = '''' then [] else [plain_message ''system'' (system_text s)])"

text \<open>The three lists that the blocks of a message are sorted into: text, tool calls, tool results.\<close>

type_synonym sorted_blocks = "string list \<times> json list \<times> json list"

definition marshal_input :: "(string \<times> json) list option \<Rightarrow> string" where
  "marshal_input i = json_encode (case i of None \<Rightarrow> JNull | Some m \<Rightarrow> JObj m)"

definition tool_call :: "(string \<times> json) list \<Rightarrow> json" where
  "tool_call block =
     jmap [(''id'', JStr (str_at ''id'' block)), (''type'', JStr ''function''),
           (''function'', jmap [(''name'', JStr (str_at ''name'' block)),
                                (''arguments'', JStr (marshal_input (obj_at ''input'' block)))])]"

definition tool_result :: "(string \<times> json) list \<Rightarrow> json" where
  "tool_result block =
     jmap [(''role'', JStr ''tool''), (''tool_call_id'', JStr (str_at ''tool_use_id'' block)),
           (''content'', JStr (case map_of block ''content'' of
              Some (JStr s) \<Rightarrow> s
            | Some v \<Rightarrow> json_encode v
            | None \<Rightarrow> json_encode JNull))]"

definition sort_block :: "json \<Rightarrow> sorted_blocks \<Rightarrow> sorted_blocks" where
  "sort_block item = (\<lambda>(texts, calls, results).
     case item of
       JObj block \<Rightarrow>
         (let t = str_at ''type'' block in
          if t = ''text'' then
            (case map_of block ''text'' of Some (JStr s) \<Rightarrow> (texts @ [s], calls, results) | _ \<Rightarrow> (texts, calls, results))
          else if t = ''tool_use'' then (texts, calls @ [tool_call block], results)
          else if t = ''tool_result'' then (texts, calls, results @ [tool_result block])
          else (texts, calls, results))
     | _ \<Rightarrow> (texts, calls, results))"

text \<open>Tool results are sent first, then one message with the text and the tool calls.\<close>

definition convert_message :: "anthropic_message \<Rightarrow> json list" where
  "convert_message msg =
     (case am_content msg of
        Some (JStr c) \<Rightarrow> [plain_message (am_role msg) c]
      | Some (JArr items) \<Rightarrow>
          (let (texts, calls, results) = foldl (\<lambda>acc item. sort_block item acc) ([], [], []) items;
               content = (if texts = [] then [] else [(''content'', JStr (Join texts blank_line))])
           in results @
              (if calls \<noteq> [] then [jmap ([(''role'', JStr ''assistant''), (''tool_calls'', JArr calls)] @ content)]
               else if texts \<noteq> [] then [jmap ([(''role'', JStr (am_role msg))] @ content)]
               else []))
      | _ \<Rightarrow> [])"

definition convert_tool :: "anthropic_tool \<Rightarrow> json" where
  "convert_tool t =
     jmap [(''type'', JStr ''function''),
           (''function'', jmap [(''name'', JStr (tl_name t)), (''description'', JStr (tl_description t)),
                                (''parameters'', tl_input_schema t)])]"

definition convert_choice :: "json option \<Rightarrow> (string \<times> json) list" where
  "convert_choice c =
     (case c of
        Some (JStr s) \<Rightarrow> [(''tool_choice'', JStr s)]
      | Some (JObj tc) \<Rightarrow>
          (let t = str_at ''type'' tc in
           if t = ''auto'' then [(''tool_choice'', JStr ''auto'')]
           else if t = ''any'' then [(''tool_choice'', JStr ''required'')]
           else if t = ''tool'' then
             (case map_of tc ''name'' of
                Some (JStr name) \<Rightarrow> [(''tool_choice'', jmap [(''type'', JStr ''function''), (''function'', jmap [(''name'', JStr name)])])]
              | _ \<Rightarrow> [])
           else [])
      | _ \<Rightarrow> [])"

text \<open>A nil slice of messages is encoded as null.\<close>

definition openai_messages :: "anthropic_request \<Rightarrow> json list" where
  "openai_messages req = system_message (ar_system req) @ concat (map convert_message (ar_messages req))"

definition nil_or_list :: "json list \<Rightarrow> json" where "nil_or_list vs = (if vs = [] then JNull else JArr vs)"

definition openai_request :: "anthropic_request \<Rightarrow> json" where
  "openai_request req =
     jmap ([(''model'', JStr (ar_model req)), (''stream'', JBool (ar_stream req))]
       @ (case ar_temperature req of None \<Rightarrow> [] | Some t \<Rightarrow> [(''temperature'', JNum t)])
       @ (case ar_top_p req of None \<Rightarrow> [] | Some t \<Rightarrow> [(''top_p'', JNum t)])
       @ (case ar_top_k req of None \<Rightarrow> [] | Some k \<Rightarrow> [(''top_k'', JInt k)])
       @ token_limit req
       @ [(''messages'', nil_or_list (openai_messages req))]
       @ (if ar_tools req = [] then []
          else (''tools'', JArr (map convert_tool (ar_tools req))) # convert_choice (ar_tool_choice req)))"

definition ConvertAnthropicToOpenAI :: "float_prims \<Rightarrow> bytes \<Rightarrow> (bytes \<times> bool \<times> string) option" where
  "ConvertAnthropicToOpenAI F body =
     (case Option.bind (json_decode body) (as_struct (read_request F)) of
        None \<Rightarrow> None
      | Some req \<Rightarrow> Some (bytes_of (json_encode (openai_request req)), ar_stream req, ar_model req))"

definition ConvertMessagesToOpenAI :: "float_prims \<Rightarrow> bytes \<Rightarrow> (bytes \<times> bool \<times> string) option" where
  "ConvertMessagesToOpenAI F body = ConvertAnthropicToOpenAI F body"

section \<open>From chat completions to Messages\<close>

definition think_open :: string where "think_open = ''<think>''"
definition think_close :: string where "think_close = ''</think>''"

text \<open>
  The slice between the two tags; slicing panics when the closing tag comes before the end of the
  opening one, and then the result is None.
\<close>

definition ExtractThinkingFromContent :: "string \<Rightarrow> (string \<times> string) option" where
  "ExtractThinkingFromContent content =
     (case Index content think_open of
        None \<Rightarrow> Some ('''', content)
      | Some i \<Rightarrow>
          (case Index content think_close of
             None \<Rightarrow> Some (TrimSpace (drop (i + length think_open) content), TrimSpace (take i content))
           | Some j \<Rightarrow>
               if j < i + length think_open then None
               else Some (TrimSpace (take (j - (i + length think_open)) (drop (i + length think_open) content)),
                          TrimSpace (take i content @ drop (j + length think_close) content))))"

definition stop_reason :: "string \<Rightarrow> string option" where
  "stop_reason finish =
     (if finish = ''tool_calls'' then Some ''tool_use''
      else if finish = ''stop'' then Some ''end_turn''
      else if finish = ''length'' then Some ''max_tokens''
      else if finish = '''' then None
      else Some finish)"

definition tool_input :: "float_prims \<Rightarrow> string \<Rightarrow> json" where
  "tool_input F args =
     (case Option.bind (json_decode (bytes_of args)) (to_any F) of
        Some (JObj m) \<Rightarrow> JObj m
      | Some JNull \<Rightarrow> JNull
      | _ \<Rightarrow> jmap [(''raw'', JStr args)])"

definition tool_use_block :: "float_prims \<Rightarrow> json \<Rightarrow> json option" where
  "tool_use_block F item =
     (case item of
        JObj tc \<Rightarrow>
          (case obj_at ''function'' tc of
             None \<Rightarrow> None
           | Some fn \<Rightarrow> Some (jmap [(''type'', JStr ''tool_use''), (''id'', JStr (str_at ''id'' tc)),
               (''name'', JStr (str_at ''name'' fn)), (''input'', tool_input F (str_at ''arguments'' fn))]))
      | _ \<Rightarrow> None)"

text \<open>The blocks of a message, None for the panic of the tag extraction.\<close>

definition content_blocks :: "float_prims \<Rightarrow> (string \<times> json) list \<Rightarrow> json list option" where
  "content_blocks F msg =
     (let reasoning = str_at ''reasoning_content'' msg; raw = str_at ''content'' msg;
          split = (if reasoning = '''' \<and> raw \<noteq> ''''
                   then map_option (\<lambda>(t, clean). if t \<noteq> '''' then (t, clean) else (reasoning, raw)) (ExtractThinkingFromContent raw)
                   else Some (reasoning, raw))
      in case split of
           None \<Rightarrow> None
         | Some (reasoning, raw) \<Rightarrow>
             Some ((if reasoning = '''' then [] else [jmap [(''type'', JStr ''thinking''), (''thinking'', JStr reasoning)]])
               @ (if raw = '''' then [] else [jmap [(''type'', JStr ''text''), (''text'', JStr raw)]])
               @ List.map_filter (tool_use_block F) (case arr_at ''tool_calls'' msg of None \<Rightarrow> [] | Some tcs \<Rightarrow> tcs)))"

definition number_at :: "float_prims \<Rightarrow> string \<Rightarrow> (string \<times> json) list \<Rightarrow> int" where
  "number_at F k ms = (case map_of ms k of Some (JNum l) \<Rightarrow> float_int F l | _ \<Rightarrow> 0)"

definition first_choice :: "(string \<times> json) list \<Rightarrow> (string \<times> json) list option" where
  "first_choice m = (case arr_at ''choices'' m of Some (JObj c # _) \<Rightarrow> Some c | _ \<Rightarrow> None)"

definition anthropic_response ::
  "float_prims \<Rightarrow> int \<Rightarrow> (string \<times> json) list \<Rightarrow> string \<Rightarrow> json list \<Rightarrow> string option \<Rightarrow> json" where
  "anthropic_response F now resp requestedModel blocks stop =
     (let usage = (case obj_at ''usage'' resp of None \<Rightarrow> [] | Some u \<Rightarrow> u);
          msgID = str_at ''id'' resp; model = str_at ''model'' resp
      in JObj [(''id'', JStr (if msgID = '''' then ''msg_'' @ int_dec now else msgID)), (''type'', JStr ''message''),
               (''role'', JStr ''assistant''), (''content'', nil_or_list blocks),
               (''model'', JStr (if model = '''' then requestedModel else model)),
               (''stop_reason'', case stop of None \<Rightarrow> JNull | Some s \<Rightarrow> JStr s), (''stop_sequence'', JNull),
               (''usage'', JObj [(''input_tokens'', JInt (number_at F ''prompt_tokens'' usage)),
                                 (''output_tokens'', JInt (number_at F ''completion_tokens'' usage))])])"

datatype conversion = Converted bytes | NotJson | Panicked

definition ConvertOpenAIToAnthropicResponse :: "float_prims \<Rightarrow> int \<Rightarrow> bytes \<Rightarrow> string \<Rightarrow> conversion" where
  "ConvertOpenAIToAnthropicResponse F now body requestedModel =
     (case Option.bind (json_decode body) (as_map F) of
        None \<Rightarrow> NotJson
      | Some resp \<Rightarrow>
          (case first_choice resp of
             None \<Rightarrow> Converted (bytes_of (json_encode (anthropic_response F now resp requestedModel [] None)))
           | Some choice \<Rightarrow>
               (let stop = stop_reason (str_at ''finish_reason'' choice) in
                case (case obj_at ''message'' choice of None \<Rightarrow> Some [] | Some msg \<Rightarrow> content_blocks F msg) of
                  None \<Rightarrow> Panicked
                | Some blocks \<Rightarrow>
                    Converted (bytes_of (json_encode (anthropic_response F now resp requestedModel blocks stop))))))"

section \<open>The stream translator\<close>

datatype anthropic_event =
    MessageStart json
  | BlockStart nat json
  | BlockDelta nat json
  | BlockStop nat
  | MessageDelta nat
  | MessageStop

record translator =
  ast_model :: string
  ast_msgID :: string
  ast_messageStarted :: bool
  ast_currentBlock :: string
  ast_blockIndex :: nat
  ast_inThinkTag :: bool
  ast_outputTokens :: nat
  ast_inputTokens :: nat
  ast_doneEmitted :: bool

definition NewAnthropicStreamTranslator :: "int \<Rightarrow> string \<Rightarrow> translator" where
  "NewAnthropicStreamTranslator now model =
     \<lparr> ast_model = model, ast_msgID = ''msg_'' @ int_dec now, ast_messageStarted = False, ast_currentBlock = '''',
       ast_blockIndex = 0, ast_inThinkTag = False, ast_outputTokens = 0, ast_inputTokens = 0, ast_doneEmitted = False \<rparr>"

definition JNat :: "nat \<Rightarrow> json" where "JNat n = JNum (nat_dec n)"

definition sse_event :: "string \<Rightarrow> string \<Rightarrow> string" where
  "sse_event name data = ''event: '' @ name @ [CHR 0x0A] @ ''data: '' @ data @ [CHR 0x0A, CHR 0x0A]"

text \<open>The text of an event: three are formatted by hand, in the order written there, the others encoded from maps.\<close>

fun event_text :: "anthropic_event \<Rightarrow> string" where
  "event_text (MessageStart msg) =
     sse_event ''message_start'' (json_encode (jmap [(''type'', JStr ''message_start''), (''message'', msg)]))"
| "event_text (BlockStart i b) =
     sse_event ''content_block_start''
       (json_encode (jmap [(''type'', JStr ''content_block_start''), (''index'', JNat i), (''content_block'', b)]))"
| "event_text (BlockDelta i d) =
     sse_event ''content_block_delta''
       (json_encode (jmap [(''type'', JStr ''content_block_delta''), (''index'', JNat i), (''delta'', d)]))"
| "event_text (BlockStop i) =
     sse_event ''content_block_stop''
       (json_encode (JObj [(''type'', JStr ''content_block_stop''), (''index'', JNat i)]))"
| "event_text (MessageDelta n) =
     sse_event ''message_delta''
       (json_encode (JObj [(''type'', JStr ''message_delta''),
          (''delta'', JObj [(''stop_reason'', JStr ''end_turn''), (''stop_sequence'', JNull)]),
          (''usage'', JObj [(''output_tokens'', JNat n)])]))"
| "event_text MessageStop = sse_event ''message_stop'' (json_encode (JObj [(''type'', JStr ''message_stop'')]))"

definition start_message :: "translator \<Rightarrow> json" where
  "start_message ast =
     jmap [(''id'', JStr (ast_msgID ast)), (''type'', JStr ''message''), (''role'', JStr ''assistant''),
           (''content'', JArr []), (''model'', JStr (ast_model ast)), (''stop_reason'', JNull), (''stop_sequence'', JNull),
           (''usage'', jmap [(''input_tokens'', JNat (ast_inputTokens ast)), (''output_tokens'', JNat 1)])]"

text \<open>The end of the stream, the first time that it is asked for.\<close>

definition finish_stream :: "translator \<Rightarrow> anthropic_event list \<times> translator" where
  "finish_stream ast =
     (if ast_doneEmitted ast then ([], ast)
      else ((if ast_currentBlock ast = '''' then [] else [BlockStop (ast_blockIndex ast)])
              @ [MessageDelta (ast_outputTokens ast), MessageStop],
            ast\<lparr> ast_doneEmitted := True, ast_currentBlock := '''' \<rparr>))"

text \<open>A block of another kind is closed before the next one opens.\<close>

definition enter_block :: "string \<Rightarrow> json \<Rightarrow> translator \<Rightarrow> anthropic_event list \<times> translator" where
  "enter_block kind content ast =
     (if ast_currentBlock ast = kind then ([], ast)
      else (let open_block = (ast_currentBlock ast \<noteq> '''');
                next = (if open_block then ast_blockIndex ast + 1 else ast_blockIndex ast)
            in ((if open_block then [BlockStop (ast_blockIndex ast)] else []) @ [BlockStart next content],
                ast\<lparr> ast_currentBlock := kind, ast_blockIndex := next \<rparr>)))"

definition text_step :: "string \<Rightarrow> string \<Rightarrow> string \<Rightarrow> string \<Rightarrow> translator \<Rightarrow> anthropic_event list \<times> translator" where
  "text_step kind field deltaType t ast =
     (if t = '''' then ([], ast)
      else (let ast = ast\<lparr> ast_outputTokens := ast_outputTokens ast + 1 \<rparr>;
                (evs, ast) = enter_block kind (jmap [(''type'', JStr kind), (field, JStr '''')]) ast
            in (evs @ [BlockDelta (ast_blockIndex ast) (jmap [(''type'', JStr deltaType), (field, JStr t)])], ast)))"

definition tool_step :: "json \<Rightarrow> anthropic_event list \<times> translator \<Rightarrow> anthropic_event list \<times> translator" where
  "tool_step item = (\<lambda>(evs, ast).
     case item of
       JObj tc \<Rightarrow>
         (case obj_at ''function'' tc of
            None \<Rightarrow> (evs, ast)
          | Some fn \<Rightarrow>
              (let (evs1, ast) = enter_block ''tool_use''
                     (jmap [(''type'', JStr ''tool_use''), (''id'', JStr (str_at ''id'' tc)), (''name'', JStr (str_at ''name'' fn)),
                            (''input'', jmap [])]) ast;
                   args = str_at ''arguments'' fn;
                   evs2 = (if args = '''' then []
                           else [BlockDelta (ast_blockIndex ast)
                                  (jmap [(''type'', JStr ''input_json_delta''), (''partial_json'', JStr args)])])
               in (evs @ evs1 @ evs2, ast)))
     | _ \<Rightarrow> (evs, ast))"

definition tool_steps :: "json list \<Rightarrow> translator \<Rightarrow> anthropic_event list \<times> translator" where
  "tool_steps tcs ast =
     (if tcs = [] then ([], ast)
      else foldl (\<lambda>acc item. tool_step item acc) ([], ast\<lparr> ast_outputTokens := ast_outputTokens ast + 1 \<rparr>) tcs)"

text \<open>Text between the tags in the content is thinking, also across chunks.\<close>

definition remove_first :: "string \<Rightarrow> string \<Rightarrow> string" where
  "remove_first s p = (case cut_at s p of None \<Rightarrow> s | Some (a, b) \<Rightarrow> a @ b)"

definition split_think :: "string \<Rightarrow> string \<Rightarrow> translator \<Rightarrow> string \<times> string \<times> translator" where
  "split_think reasoning content ast =
     (if reasoning \<noteq> '''' \<or> content = '''' then (reasoning, content, ast)
      else (let opens = Contains content think_open;
                content = (if opens then remove_first content think_open else content);
                ast = (if opens then ast\<lparr> ast_inThinkTag := True \<rparr> else ast)
            in if \<not> ast_inThinkTag ast then (reasoning, content, ast)
               else (case cut_at content think_close of
                       Some (a, b) \<Rightarrow> (a, b, ast\<lparr> ast_inThinkTag := False \<rparr>)
                     | None \<Rightarrow> (content, '''', ast))))"

definition delta_events :: "(string \<times> json) list \<Rightarrow> translator \<Rightarrow> anthropic_event list \<times> translator" where
  "delta_events delta ast =
     (let (reasoning, content, ast) = split_think (str_at ''reasoning_content'' delta) (str_at ''content'' delta) ast;
          (e1, ast) = text_step ''thinking'' ''thinking'' ''thinking_delta'' reasoning ast;
          (e2, ast) = text_step ''text'' ''text'' ''text_delta'' content ast;
          (e3, ast) = tool_steps (case arr_at ''tool_calls'' delta of None \<Rightarrow> [] | Some tcs \<Rightarrow> tcs) ast
      in (e1 @ e2 @ e3, ast))"

definition chunk_delta :: "(string \<times> json) list \<Rightarrow> (string \<times> json) list option" where
  "chunk_delta chunk = Option.bind (first_choice chunk) (obj_at ''delta'')"

definition chunk_events :: "(string \<times> json) list \<Rightarrow> translator \<Rightarrow> anthropic_event list \<times> translator" where
  "chunk_events chunk ast =
     (let (e0, ast) = (if ast_messageStarted ast then ([], ast)
                       else ([MessageStart (start_message ast)], ast\<lparr> ast_messageStarted := True \<rparr>))
      in case chunk_delta chunk of
           None \<Rightarrow> (e0, ast)
         | Some delta \<Rightarrow> (let (e1, ast) = delta_events delta ast in (e0 @ e1, ast)))"

definition payload_events :: "float_prims \<Rightarrow> string \<Rightarrow> translator \<Rightarrow> anthropic_event list \<times> translator" where
  "payload_events F payload ast =
     (let trimmed = TrimSpace payload in
      if trimmed = ''[DONE]'' then finish_stream ast
      else if trimmed = '''' then ([], ast)
      else (case Option.bind (json_decode (bytes_of trimmed)) (as_map F) of
              None \<Rightarrow> ([], ast)
            | Some chunk \<Rightarrow> chunk_events chunk ast))"

definition ProcessOpenAIChunk :: "float_prims \<Rightarrow> string \<Rightarrow> translator \<Rightarrow> string list \<times> translator" where
  "ProcessOpenAIChunk F payload ast = (let (evs, ast) = payload_events F payload ast in (map event_text evs, ast))"

section \<open>The translating response writer\<close>

record msg_writer =
  mw_hpke :: writer
  mw_model :: string
  mw_isStreaming :: bool
  mw_headerWritten :: bool
  mw_translator :: translator
  mw_buf :: bytes
  mw_sseBuf :: bytes
  mw_status :: int

definition newMessagesResponseWriter :: "int \<Rightarrow> writer \<Rightarrow> string \<Rightarrow> msg_writer" where
  "newMessagesResponseWriter now rw model =
     \<lparr> mw_hpke = rw, mw_model = model, mw_isStreaming = False, mw_headerWritten = False,
       mw_translator = NewAnthropicStreamTranslator now model, mw_buf = [], mw_sseBuf = [], mw_status = 200 \<rparr>"

text \<open>The header of an event stream is passed on; any other header is kept back.\<close>

definition pass_header :: "msg_writer \<Rightarrow> msg_writer" where
  "pass_header mw =
     (if upstream_is_sse (mw_hpke mw)
      then mw\<lparr> mw_isStreaming := True, mw_hpke := WriteHeader (mw_status mw) (mw_hpke mw), mw_headerWritten := True \<rparr>
      else mw)"

definition mw_WriteHeader :: "int \<Rightarrow> msg_writer \<Rightarrow> msg_writer" where
  "mw_WriteHeader statusCode mw =
     (let mw = mw\<lparr> mw_status := statusCode \<rparr> in if mw_headerWritten mw then mw else pass_header mw)"

definition hpke_write :: "hpke_prims \<Rightarrow> (32 word \<Rightarrow> int) \<Rightarrow> string \<Rightarrow> msg_writer \<Rightarrow> msg_writer" where
  "hpke_write P clk s mw = mw\<lparr> mw_hpke := snd (Write P clk (bytes_of s) (mw_hpke mw)) \<rparr>"

definition data_lines :: "bytes \<Rightarrow> string list" where
  "data_lines block =
     List.map_filter (\<lambda>line. let trimmed = TrimSpace line in
         if HasPrefix trimmed ''data:'' then Some (TrimSpace (TrimPrefix trimmed ''data:'')) else None)
       (split_on (CHR 0x0A) (replace2 (CHR 0x0D) (CHR 0x0A) [CHR 0x0A] (string_of block)))"

definition done_event :: string where "done_event = ''data: [DONE]'' @ [CHR 0x0A, CHR 0x0A]"

text \<open>One event block of the engine: its events are written, and the end marker after the end.\<close>

definition forward_payload :: "float_prims \<Rightarrow> hpke_prims \<Rightarrow> (32 word \<Rightarrow> int) \<Rightarrow> string \<Rightarrow> msg_writer \<Rightarrow> msg_writer" where
  "forward_payload F P clk payload mw =
     (let (evs, ast) = ProcessOpenAIChunk F payload (mw_translator mw);
          mw = foldl (\<lambda>mw e. hpke_write P clk e mw) (mw\<lparr> mw_translator := ast \<rparr>) evs
      in if payload = ''[DONE]'' \<and> evs \<noteq> [] then hpke_write P clk done_event mw else mw)"

definition forward_block :: "float_prims \<Rightarrow> hpke_prims \<Rightarrow> (32 word \<Rightarrow> int) \<Rightarrow> bytes \<Rightarrow> msg_writer \<Rightarrow> msg_writer" where
  "forward_block F P clk block mw =
     (if data_lines block = [] then mw else forward_payload F P clk (Join (data_lines block) [CHR 0x0A]) mw)"

lemma forward_keeps_buffer [simp]: "mw_sseBuf (forward_block F P clk block mw) = mw_sseBuf mw"
proof -
  have w: "mw_sseBuf (hpke_write P clk e mw) = mw_sseBuf mw" for e mw by (simp add: hpke_write_def)
  have f: "mw_sseBuf (foldl (\<lambda>mw e. hpke_write P clk e mw) mw evs) = mw_sseBuf mw" for evs mw
    by (induction evs arbitrary: mw) (auto simp: w)
  show ?thesis by (auto simp: forward_block_def forward_payload_def Let_def w f split: prod.split)
qed

function processSSE :: "float_prims \<Rightarrow> hpke_prims \<Rightarrow> (32 word \<Rightarrow> int) \<Rightarrow> msg_writer \<Rightarrow> msg_writer" where
  "processSSE F P clk mw =
     (let buf = mw_sseBuf mw
      in if buf = [] then mw
         else (case find_delim buf of
                 None \<Rightarrow> mw
               | Some (delimIdx, delimLen) \<Rightarrow>
                   processSSE F P clk (forward_block F P clk (take delimIdx buf)
                     (mw\<lparr> mw_sseBuf := drop (delimIdx + delimLen) buf \<rparr>))))"
  by pat_completeness auto

termination
  by (relation "measure (\<lambda>(F, P, clk, mw). length (mw_sseBuf mw))") (auto dest: find_delim_bound)

declare processSSE.simps [simp del]

definition mw_Write :: "float_prims \<Rightarrow> hpke_prims \<Rightarrow> (32 word \<Rightarrow> int) \<Rightarrow> bytes \<Rightarrow> msg_writer \<Rightarrow> msg_writer" where
  "mw_Write F P clk p mw =
     (let mw = (if mw_headerWritten mw then mw else pass_header mw)
      in if mw_isStreaming mw then processSSE F P clk (mw\<lparr> mw_sseBuf := mw_sseBuf mw @ p \<rparr>)
         else mw\<lparr> mw_buf := mw_buf mw @ p \<rparr>)"

definition mw_Flush :: "float_prims \<Rightarrow> hpke_prims \<Rightarrow> (32 word \<Rightarrow> int) \<Rightarrow> msg_writer \<Rightarrow> msg_writer" where
  "mw_Flush F P clk mw =
     (if mw_isStreaming mw
      then (let mw = processSSE F P clk mw in mw\<lparr> mw_hpke := Flush P clk (mw_hpke mw) \<rparr>)
      else mw)"

text \<open>The end of the response; None is a panic of the conversion.\<close>

definition mw_Finish :: "float_prims \<Rightarrow> hpke_prims \<Rightarrow> (32 word \<Rightarrow> int) \<Rightarrow> int \<Rightarrow> msg_writer \<Rightarrow> msg_writer option" where
  "mw_Finish F P clk now mw =
     (if mw_isStreaming mw then
        (let mw = processSSE F P clk mw;
             mw = (if mw_sseBuf mw = [] then mw else (forward_block F P clk (mw_sseBuf mw) mw)\<lparr> mw_sseBuf := [] \<rparr>)
         in Some (forward_payload F P clk ''[DONE]'' mw))
      else if mw_buf mw = [] then Some mw
      else (case ConvertOpenAIToAnthropicResponse F now (mw_buf mw) (mw_model mw) of
              NotJson \<Rightarrow> Some (mw\<lparr> mw_hpke := snd (Write P clk (mw_buf mw) (mw_hpke mw)) \<rparr>)
            | Converted b \<Rightarrow> Some (mw\<lparr> mw_hpke := snd (Write P clk b (mw_hpke mw)) \<rparr>)
            | Panicked \<Rightarrow> None))"

end
