(* ===== verification/Gateway.thy ===== *)
theory Gateway
  imports Auth Attestation Translator
begin

text \<open>
  The gateway of pkg/proxy: the visibility of the endpoints (visibility.go), the enrolment of the
  tenant key (enrollment.go), the seal and the egress probe (seal\_handler.go), and the routes with the
  forwarding of inference requests (server.go). A handler is a function of what it reads from the world,
  the request, the response so far and the state of the node; it gives the response, the state and the
  effects outside the node. The inference supervisor enters by its interface, the engine behind the
  reverse proxy by its replies; the wording of errors is a parameter.
\<close>

section \<open>State and world\<close>

datatype visibility = Public | Hidden

record policy =
  vp_attestation :: visibility
  vp_certificate :: visibility
  vp_health :: visibility
  vp_probe_egress :: visibility

text \<open>What the gateway asks of the supervisor.\<close>

record supervisor =
  sv_ready :: bool
  sv_model :: string
  sv_expose :: bool
  sv_fatal :: "string option"
  sv_backend :: string
  sv_max_context :: int
  sv_active_context :: int

record model_spec =
  ms_model :: string
  ms_hf_file :: string
  ms_hf_token :: string
  ms_context_size :: int
  ms_temperature :: string
  ms_quantization :: string
  ms_bitsandbytes :: "bool option"
  ms_gguf :: "bool option"
  ms_tokenizer :: string
  ms_gpu_layers :: int
  ms_threads :: int
  ms_expose_in_health :: "bool option"
  ms_tool_call_parser :: string
  ms_enable_thinking :: "bool option"
  ms_reasoning_parser :: string

record node =
  nd_verifier :: verifier
  nd_policy :: policy
  nd_sealed :: bool
  nd_doc :: "attestation_doc option"
  nd_supervisor :: supervisor

text \<open>The replies of the engine: a response with the writes of its body, no connection, or a client that left.\<close>

datatype engine_reply = EngineReply int headers "bytes list" | EngineDown | ClientGone

text \<open>What a handler reads of the world while it runs.\<close>

record world =
  w_now :: int
  w_clk :: "32 word \<Rightarrow> int"
  w_machine :: machine
  w_nonce_param :: string
  w_slot_free :: bool
  w_egress_error :: "string option"
  w_dial :: "string \<Rightarrow> int \<Rightarrow> string option \<times> int"
  w_engine :: "request \<Rightarrow> engine_reply"
  w_load :: "model_spec \<Rightarrow> supervisor \<Rightarrow> string option \<times> supervisor"

record gateway =
  gw_crypto :: auth_crypto
  gw_prims :: hpke_prims
  gw_float :: float_prims
  gw_x509 :: x509_prims
  gw_chains :: amd_chains
  gw_sev :: sev_prims
  gw_tsm :: tsm_prims
  gw_nvml :: "string \<Rightarrow> bytes option"
  gw_keys :: key_pair
  gw_cert_pem :: string
  gw_target :: string
  gw_auth_text :: "auth_error \<Rightarrow> string"
  gw_unwrap_text :: "unwrap_error \<Rightarrow> string"
  gw_hpke_text :: "hpke_error \<Rightarrow> string"
  gw_report_text :: "string \<Rightarrow> string"
  gw_json_text :: "bytes \<Rightarrow> string"
  gw_quote :: "string \<Rightarrow> string"

text \<open>Effects outside the node.\<close>

datatype effect =
    Forward request
  | SealEgress
  | LoadModel model_spec
  | Dial string int
  | HandlerPanic

type_synonym handled = "response \<times> node \<times> effect list"
type_synonym handler = "world \<Rightarrow> request \<Rightarrow> response \<Rightarrow> node \<Rightarrow> handled"

section \<open>Replies\<close>

definition fresh_response :: response where
  "fresh_response = \<lparr> o_headers = [], o_status = None, o_body = [] \<rparr>"

definition set_header :: "string \<Rightarrow> string \<Rightarrow> response \<Rightarrow> response" where
  "set_header n v w = w\<lparr> o_headers := header_set n v (o_headers w) \<rparr>"

definition set_json :: "response \<Rightarrow> response" where
  "set_json w = set_header ''Content-Type'' ''application/json'' w"

definition write_json :: "int \<Rightarrow> json \<Rightarrow> response \<Rightarrow> response" where
  "write_json st j w = out_write (bytes_of (json_encode j @ [CHR 0x0A])) (out_write_header st w)"

definition json_error :: "int \<Rightarrow> string \<Rightarrow> response \<Rightarrow> response" where
  "json_error st text w = write_json st (JObj [(''error'', JStr text)]) (set_json w)"

text \<open>http.Error.\<close>

definition http_error :: "int \<Rightarrow> string \<Rightarrow> response \<Rightarrow> response" where
  "http_error st text w =
     out_write (bytes_of (text @ [CHR 0x0A])) (out_write_header st
       (set_header ''X-Content-Type-Options'' ''nosniff''
         (set_header ''Content-Type'' ''text/plain; charset=utf-8'' (w\<lparr> o_headers := header_del ''Content-Length'' (o_headers w) \<rparr>))))"

definition in_quotes :: "string \<Rightarrow> string" where "in_quotes s = [CHR 0x22] @ s @ [CHR 0x22]"

definition plain_error :: "string \<Rightarrow> string" where
  "plain_error text = ''{'' @ in_quotes ''error'' @ '':'' @ in_quotes text @ ''}''"

definition method_not_allowed :: "response \<Rightarrow> response" where
  "method_not_allowed w = http_error 405 (plain_error ''Method not allowed'') w"

definition auth_failed :: "gateway \<Rightarrow> auth_error \<Rightarrow> response \<Rightarrow> response" where
  "auth_failed G e w = json_error 401 (''Authentication failed: '' @ gw_auth_text G e) w"

definition header_first :: "gateway \<Rightarrow> world \<Rightarrow> request \<Rightarrow> node \<Rightarrow> (auth_error + bytes) \<times> node" where
  "header_first G W r nd =
     (let (res, v) = VerifyHTTPRequestHeaderFirst (gw_crypto G) (w_now W) 0 r (nd_verifier nd)
      in (res, nd\<lparr> nd_verifier := v \<rparr>))"

text \<open>The check of a request by its headers with an empty body.\<close>

definition no_body_auth :: "gateway \<Rightarrow> world \<Rightarrow> request \<Rightarrow> node \<Rightarrow> auth_error option \<times> node" where
  "no_body_auth G W r nd =
     (let (e, v) = VerifyHTTPRequest (gw_crypto G) (w_now W) r [] (nd_verifier nd)
      in (e, nd\<lparr> nd_verifier := v \<rparr>))"

section \<open>Visibility\<close>

definition default_policy :: policy where
  "default_policy = \<lparr> vp_attestation = Public, vp_certificate = Public, vp_health = Public, vp_probe_egress = Hidden \<rparr>"

record visibility_update =
  vu_all :: "string option"
  vu_attestation :: "string option"
  vu_certificate :: "string option"
  vu_health :: "string option"
  vu_probe_egress :: "string option"

definition parse_setting :: "string \<Rightarrow> visibility option" where
  "parse_setting val =
     (let s = ToLower (TrimSpace val)
      in if s = ''public'' then Some Public else if s = ''hidden'' then Some Hidden else None)"

text \<open>One field: an earlier error stops, an absent value changes nothing, a bad one is the error.\<close>

definition apply_setting ::
  "string \<Rightarrow> string option \<Rightarrow> (visibility \<Rightarrow> policy \<Rightarrow> policy) \<Rightarrow> policy \<times> (string \<times> string) option
     \<Rightarrow> policy \<times> (string \<times> string) option" where
  "apply_setting name val put = (\<lambda>(p, err).
     case (err, val) of
       (None, Some s) \<Rightarrow> (case parse_setting s of Some x \<Rightarrow> (put x p, None) | None \<Rightarrow> (p, Some (name, s)))
     | _ \<Rightarrow> (p, err))"

definition UpdatePolicy :: "visibility_update \<Rightarrow> policy \<Rightarrow> policy \<times> (string \<times> string) option" where
  "UpdatePolicy req p =
     (case vu_all req of
        Some s \<Rightarrow>
          apply_setting ''all'' (Some s)
            (\<lambda>x _. \<lparr> vp_attestation = x, vp_certificate = x, vp_health = x, vp_probe_egress = x \<rparr>) (p, None)
      | None \<Rightarrow>
          apply_setting ''probe_egress'' (vu_probe_egress req) (\<lambda>x p. p\<lparr> vp_probe_egress := x \<rparr>)
            (apply_setting ''health'' (vu_health req) (\<lambda>x p. p\<lparr> vp_health := x \<rparr>)
              (apply_setting ''certificate'' (vu_certificate req) (\<lambda>x p. p\<lparr> vp_certificate := x \<rparr>)
                (apply_setting ''attestation'' (vu_attestation req) (\<lambda>x p. p\<lparr> vp_attestation := x \<rparr>) (p, None)))))"

definition setting_of :: "string \<Rightarrow> policy \<Rightarrow> visibility" where
  "setting_of name p =
     (if name = ''attestation'' then vp_attestation p
      else if name = ''certificate'' then vp_certificate p
      else if name = ''health'' then vp_health p
      else if name = ''probe_egress'' then vp_probe_egress p
      else Hidden)"

definition GuardNonCritical :: "gateway \<Rightarrow> string \<Rightarrow> handler \<Rightarrow> handler" where
  "GuardNonCritical G name next W r w nd =
     (if \<not> IsEnrolled (nd_verifier nd) then
        (if name = ''attestation'' \<or> name = ''certificate'' then next W r w nd
         else (json_error 401 (''Enclave is unenrolled. Endpoint '' @ in_quotes name
             @ '' is locked down until authorized public key is provisioned at launch.'') w, nd, []))
      else if nd_sealed nd \<or> setting_of name (nd_policy nd) = Hidden then
        (case header_first G W r nd of
           (Inl e, nd) \<Rightarrow>
             (json_error 401 ((if nd_sealed nd then ''Enclave is sealed: authentication required''
                else ''Endpoint '' @ in_quotes name @ '' is hidden: authentication required'')
                @ '': '' @ gw_auth_text G e) w, nd, [])
         | (Inr body, nd) \<Rightarrow> next W (r\<lparr> r_body := BodyBytes body \<rparr>) w nd)
      else next W r w nd)"

text \<open>The settings as the policy is sent.\<close>

definition visibility_text :: "visibility \<Rightarrow> string" where
  "visibility_text v = (case v of Public \<Rightarrow> ''public'' | Hidden \<Rightarrow> ''hidden'')"

definition policy_json :: "policy \<Rightarrow> json" where
  "policy_json p =
     JObj [(''attestation'', JStr (visibility_text (vp_attestation p))), (''certificate'', JStr (visibility_text (vp_certificate p))),
           (''health'', JStr (visibility_text (vp_health p))), (''probe_egress'', JStr (visibility_text (vp_probe_egress p)))]"

definition read_update :: "bytes \<Rightarrow> visibility_update option" where
  "read_update b =
     (case Option.bind (json_decode b) as_members of
        None \<Rightarrow> None
      | Some ms \<Rightarrow>
          (let (a, ok1) = get_pointer as_string ''all'' ms;
               (t, ok2) = get_pointer as_string ''attestation'' ms;
               (c, ok3) = get_pointer as_string ''certificate'' ms;
               (h, ok4) = get_pointer as_string ''health'' ms;
               (p, ok5) = get_pointer as_string ''probe_egress'' ms
           in when_ok [ok1, ok2, ok3, ok4, ok5]
                \<lparr> vu_all = a, vu_attestation = t, vu_certificate = c, vu_health = h, vu_probe_egress = p \<rparr>))"

definition visibility_handler :: "gateway \<Rightarrow> handler" where
  "visibility_handler G W r w nd =
     (let w = set_json w in
      if \<not> IsEnrolled (nd_verifier nd) then
        (json_error 401 ''Enclave is unenrolled. Authorized public key must be registered via POST /v1/auth/register or provisioned at launch.'' w, nd, [])
      else if r_method r = ''GET'' then
        (case no_body_auth G W r nd of
           (Some e, nd) \<Rightarrow> (auth_failed G e w, nd, [])
         | (None, nd) \<Rightarrow> (write_json 200 (policy_json (nd_policy nd)) w, nd, []))
      else if r_method r = ''POST'' then
        (case header_first G W r nd of
           (Inl e, nd) \<Rightarrow> (auth_failed G e w, nd, [])
         | (Inr body, nd) \<Rightarrow>
             (case read_update body of
                None \<Rightarrow> (json_error 400 (''Invalid JSON payload: '' @ gw_json_text G body) w, nd, [])
              | Some req \<Rightarrow>
                  (case UpdatePolicy req (nd_policy nd) of
                     (p, Some (name, val)) \<Rightarrow>
                       (json_error 400 (''invalid visibility setting for '' @ name @ '': '' @ gw_quote G val
                          @ '' (must be 'public' or 'hidden')'') w, nd\<lparr> nd_policy := p \<rparr>, [])
                   | (p, None) \<Rightarrow>
                       (write_json 200 (jmap [(''status'', JStr ''updated''), (''policy'', policy_json p)]) w,
                        nd\<lparr> nd_policy := p \<rparr>, []))))
      else (method_not_allowed w, nd, []))"

section \<open>Seal and egress probe\<close>

definition SealAuthGuard :: "gateway \<Rightarrow> handler \<Rightarrow> handler" where
  "SealAuthGuard G next W r w nd =
     (if nd_sealed nd then
        (case header_first G W r nd of
           (Inl e, nd) \<Rightarrow>
             (json_error 401 (''Enclave is sealed: authentication required: '' @ gw_auth_text G e) w, nd, [])
         | (Inr body, nd) \<Rightarrow> next W (r\<lparr> r_body := BodyBytes body \<rparr>) w nd)
      else next W r w nd)"

definition seal_force :: "bytes \<Rightarrow> bool" where
  "seal_force body =
     (case Option.bind (json_decode body) as_members of
        None \<Rightarrow> False
      | Some ms \<Rightarrow> fst (get_field as_bool False ''force'' ms))"

definition sealed_reply :: "string \<Rightarrow> (string \<times> json) list \<Rightarrow> json" where
  "sealed_reply status extra =
     jmap ([(''status'', JStr status), (''sealed'', JBool True), (''outbound_egress'', JStr ''blocked''),
            (''inbound_policy'', JStr ''authenticated_only'')] @ extra)"

text \<open>Seconds of the clock.\<close>

definition unix_seconds :: "int \<Rightarrow> int" where "unix_seconds now = now div second"

definition seal_handler :: "gateway \<Rightarrow> handler" where
  "seal_handler G W r w nd =
     (let w = set_json w in
      if r_method r \<noteq> ''POST'' then (method_not_allowed w, nd, [])
      else if nd_sealed nd then (write_json 200 (sealed_reply ''already_sealed'' []) w, nd, [])
      else
        (case header_first G W r nd of
           (Inl e, nd) \<Rightarrow> (auth_failed G e w, nd, [])
         | (Inr body, nd) \<Rightarrow>
             if \<not> seal_force body \<and> \<not> sv_ready (nd_supervisor nd) then
               (json_error 412 ''Cannot seal: no model is loaded or inference engine is not ready. Load a model and verify working inference before sealing (or provide force: true).'' w, nd, [])
             else
               (case w_egress_error W of
                  Some e \<Rightarrow> (json_error 500 (''Seal failed: egress policy application error: '' @ e) w, nd, [SealEgress])
                | None \<Rightarrow>
                    (write_json 200 (sealed_reply ''sealed''
                       ([(''sealed_at'', JInt (unix_seconds (w_now W))), (''active_model'', JStr (sv_model (nd_supervisor nd)))]
                        @ (if seal_force body then [(''forced'', JBool True)] else []))) w,
                     nd\<lparr> nd_sealed := True \<rparr>, [SealEgress]))))"

text \<open>The target and the timeout of a probe: the values of a request that decodes, within their bounds.\<close>

definition probe_target :: "bytes \<Rightarrow> string \<times> int" where
  "probe_target body =
     (case Option.bind (json_decode body) as_members of
        None \<Rightarrow> (''1.1.1.1:443'', 3)
      | Some ms \<Rightarrow>
          (let (target, ok1) = get_field as_string '''' ''target'' ms;
               (timeout, ok2) = get_field as_int 0 ''timeout_sec'' ms
           in if \<not> ok1 \<or> \<not> ok2 then (''1.1.1.1:443'', 3)
              else (if target = '''' then ''1.1.1.1:443'' else target, if 0 < timeout \<and> timeout \<le> 10 then timeout else 3)))"

definition probe_handler :: "handler" where
  "probe_handler W r w nd =
     (let w = set_json w in
      if r_method r \<noteq> ''POST'' then (method_not_allowed w, nd, [])
      else
        (case read_body 0 (r_body r) of
           Inl _ \<Rightarrow> (json_error 400 ''Failed to read request body'' w, nd, [])
         | Inr body \<Rightarrow>
             (let (target, timeout) = probe_target body;
                  (err, latency) = w_dial W target timeout;
                  common = [(''target'', JStr target), (''latency_ms'', JInt latency), (''sealed'', JBool (nd_sealed nd))]
              in (write_json 200 (jmap (common @
                    (case err of
                       Some e \<Rightarrow> [(''egress_probe'', JStr ''blocked''), (''internet_accessible'', JBool False), (''error'', JStr e)]
                     | None \<Rightarrow> [(''egress_probe'', JStr ''success''), (''internet_accessible'', JBool True)]))) w,
                  nd, [Dial target timeout]))))"

section \<open>Enrolment\<close>

record enrollment_request =
  er_public_key :: string
  er_pop_signature :: string
  er_pop_timestamp :: int
  er_pop_nonce :: string

definition read_enrollment :: "bytes \<Rightarrow> enrollment_request option" where
  "read_enrollment b =
     (case Option.bind (json_decode b) as_members of
        None \<Rightarrow> None
      | Some ms \<Rightarrow>
          (let (k, ok1) = get_field as_string '''' ''public_key'' ms;
               (s, ok2) = get_field as_string '''' ''pop_signature'' ms;
               (t, ok3) = get_field as_int 0 ''pop_timestamp'' ms;
               (n, ok4) = get_field as_string '''' ''pop_nonce'' ms
           in when_ok [ok1, ok2, ok3, ok4]
                \<lparr> er_public_key = k, er_pop_signature = s, er_pop_timestamp = t, er_pop_nonce = n \<rparr>))"

text \<open>A signature in the body becomes the Authorization header when there is none.\<close>

definition embed_possession :: "enrollment_request \<Rightarrow> request \<Rightarrow> request" where
  "embed_possession req r =
     (if header_get (r_headers r) ''Authorization'' = '''' \<and> er_pop_signature req \<noteq> '''' then
        (let id1 = header_get (r_headers r) ''X-Cevell-Request-ID'';
             id2 = (if id1 = '''' then header_get (r_headers r) ''X-Arvex-Request-ID'' else id1);
             reqID = (if id2 = '''' then ''pop-enroll'' else id2)
         in r\<lparr> r_headers := header_set ''Authorization''
                (''Cevell-Ed25519 signature='' @ er_pop_signature req @ '', timestamp='' @ int_dec (er_pop_timestamp req)
                 @ '', nonce='' @ er_pop_nonce req @ '', request_id='' @ reqID) (r_headers r) \<rparr>)
      else r)"

definition enroll_handler :: "gateway \<Rightarrow> handler" where
  "enroll_handler G W r w nd =
     (let w = set_json w in
      if r_method r \<noteq> ''POST'' then (method_not_allowed w, nd, [])
      else if IsEnrolled (nd_verifier nd) then
        (json_error 409 ''A public key has already been registered on this CVM. Dynamic key enrollment is strictly single-key per lifecycle.'' w, nd, [])
      else
        (case read_body (1024 * 1024) (r_body r) of
           Inl TooLarge \<Rightarrow> (json_error 400 ''Failed to read request body: http: request body too large'' w, nd, [])
         | Inl ReadFailed \<Rightarrow> (json_error 400 (''Failed to read request body: '' @ gw_auth_text G ErrReadingBody) w, nd, [])
         | Inr body \<Rightarrow>
             (case read_enrollment body of
                None \<Rightarrow> (json_error 400 (''Invalid JSON payload: '' @ gw_json_text G body) w, nd, [])
              | Some req \<Rightarrow>
                  (case ParsePublicKeyHex (er_public_key req) of
                     Inl e \<Rightarrow> (json_error 400 (''Invalid public_key: '' @ gw_auth_text G e) w, nd, [])
                   | Inr (pubKey, hexStr) \<Rightarrow>
                       (case VerifyProofOfPossession (gw_crypto G) (w_now W) pubKey (embed_possession req r) body (nd_verifier nd) of
                          (Some e, v) \<Rightarrow>
                            (json_error 401 (''Proof-of-possession verification failed: '' @ gw_auth_text G e) w,
                             nd\<lparr> nd_verifier := v \<rparr>, [])
                        | (None, v) \<Rightarrow>
                            (case EnrollKey (w_now W) pubKey v of
                               (Some e, v) \<Rightarrow> (json_error 409 (gw_auth_text G e) w, nd\<lparr> nd_verifier := v \<rparr>, [])
                             | (None, v) \<Rightarrow>
                                 (write_json 200 (JObj [(''status'', JStr ''enrolled''), (''public_key'', JStr hexStr),
                                    (''enrolled_at'', JInt (unix_seconds (w_now W))),
                                    (''message'', JStr ''Authorized public key successfully enrolled. System is now locked to this tenant identity.'')]) w,
                                  nd\<lparr> nd_verifier := v,
                                      nd_doc := map_option (\<lambda>d. d\<lparr> ad_predicate := (ad_predicate d)\<lparr> cp_authorized_public_key := hexStr \<rparr> \<rparr>) (nd_doc nd) \<rparr>,
                                  [])))))))"

section \<open>Attestation, certificate and health\<close>

definition omit_empty :: "string \<Rightarrow> string \<Rightarrow> (string \<times> json) list" where
  "omit_empty k s = (if s = '''' then [] else [(k, JStr s)])"

definition evidence_json :: "gpu_evidence \<Rightarrow> json" where
  "evidence_json g =
     JObj ([(''nonce'', JStr (ge_nonce g)), (''cc_enabled'', JBool (ge_cc_enabled g)), (''device_count'', JNat (ge_device_count g))]
       @ omit_empty ''model'' (ge_model g) @ omit_empty ''driver_version'' (ge_driver g)
       @ omit_empty ''architecture'' (ge_architecture g) @ omit_empty ''evidence_report'' (ge_report g)
       @ omit_empty ''certificate_chain'' (ge_chain g) @ omit_empty ''signature'' (ge_signature g)
       @ (if ge_devices g = [] then [] else [(''devices'', JArr (map JStr (ge_devices g)))]))"

definition doc_json :: "attestation_doc \<Rightarrow> json" where
  "doc_json d =
     (let p = ad_predicate d in
      JObj ([(''_type'', JStr (ad_type d)), (''predicateType'', JStr (ad_predicate_type d)),
             (''subject'', JArr (map (\<lambda>s. JObj [(''name'', JStr (sj_name s)), (''digest'', JObj [(''sha256'', JStr (sj_sha256 s))])])
                (ad_subject d))),
             (''predicate'', JObj ([(''platform'', JStr (cp_platform p)), (''raw_quote'', JStr (cp_raw_quote p))]
                @ omit_empty ''certificate_chain'' (cp_certificate_chain p) @ omit_empty ''certificate'' (cp_certificate p)
                @ [(''tls_fingerprint'', JStr (cp_tls_fingerprint p)), (''hpke_public_key'', JStr (cp_hpke_public_key p))]
                @ omit_empty ''authorized_public_key'' (cp_authorized_public_key p) @ omit_empty ''user_data'' (cp_user_data p)
                @ omit_empty ''nonce'' (cp_nonce p)
                @ (case cp_gpu_evidence p of None \<Rightarrow> [] | Some g \<Rightarrow> [(''gpu_evidence'', evidence_json g)])))]
            @ omit_empty ''certificate'' (ad_certificate d)))"

text \<open>The document for a nonce of the client, or the platform of the error.\<close>

definition fresh_document :: "gateway \<Rightarrow> world \<Rightarrow> node \<Rightarrow> bytes \<Rightarrow> string + attestation_doc" where
  "fresh_document G W nd nonce32 =
     (let sha = sha256 (gw_crypto G); M = w_machine W;
          gpuEv = CollectGPUEvidence (gw_nvml G) M nonce32;
          authPub = fst (GetPublicKeyBytes (nd_verifier nd));
          tls = TLSKeyFP (gw_keys G); hpke = HPKEPubKey (gw_keys G);
          userData = ComputeCompositeUserData sha tls hpke nonce32 (Some gpuEv) authPub
      in case FetchHardwareReport (gw_x509 G) (gw_chains G) (gw_sev G) (gw_tsm G) M userData of
           Inl platform \<Rightarrow> Inl platform
         | Inr (rawQuote, certChain, platform) \<Rightarrow>
             (let doc = BuildAttestationDocumentWithEvidence sha
                    \<lparr> TLSKeyFingerprint = tls, HPKEPublicKey = hpke, AuthPublicKey = authPub \<rparr>
                    rawQuote certChain platform (gw_cert_pem G) (w_nonce_param W) (Some gpuEv)
              in Inr (doc\<lparr> ad_predicate := (ad_predicate doc)\<lparr> cp_user_data := hex_encode userData \<rparr> \<rparr>)))"

definition attestation_handler :: "gateway \<Rightarrow> handler" where
  "attestation_handler G W r w nd =
     (let w = set_json w; nonceHex = w_nonce_param W in
      if nonceHex \<noteq> '''' then
        (if \<not> w_slot_free W then
           (json_error 429 ''Too many concurrent attestation requests. Please retry shortly.'' w, nd, [])
         else
           (case hex_decode nonceHex of
              None \<Rightarrow> (http_error 400 (plain_error ''Invalid nonce: must be 32 bytes (64 hex characters)'') w, nd, [])
            | Some nonce \<Rightarrow>
                if length nonce \<noteq> 32 then
                  (http_error 400 (plain_error ''Invalid nonce: must be 32 bytes (64 hex characters)'') w, nd, [])
                else
                  (case fresh_document G W nd nonce of
                     Inl platform \<Rightarrow>
                       (json_error 503 (''Hardware attestation unavailable: '' @ gw_report_text G platform) w, nd, [])
                   | Inr doc \<Rightarrow> (write_json 200 (doc_json doc) w, nd, []))))
      else
        (case nd_doc nd of
           Some doc \<Rightarrow> (write_json 200 (doc_json doc) w, nd, [])
         | None \<Rightarrow>
             (json_error 503 ''Hardware attestation report is unavailable (hardware or driver not detected)'' w, nd, [])))"

definition certificate_handler :: "gateway \<Rightarrow> handler" where
  "certificate_handler G W r w nd =
     (write_json 200 (JObj [(''certificate'', JStr (gw_cert_pem G))]) (set_json w), nd, [])"

text \<open>The model is shown when it is exposed, or to a request that authenticates.\<close>

definition health_handler :: "gateway \<Rightarrow> handler" where
  "health_handler G W r w nd =
     (let w = set_json w; sv = nd_supervisor nd;
          (showModel, nd) = (if sv_expose sv then (True, nd)
             else (let (e, nd) = no_body_auth G W r nd in (e = None, nd)));
          common = [(''node'', JStr ''cevell-cvm''), (''platform'', JStr (DetectPlatform (w_machine W))),
                    (''backend'', JStr (sv_backend sv)), (''target'', JStr (gw_target G))];
          model = (if showModel then [(''model'', JStr (sv_model sv))] else [])
      in case sv_fatal sv of
           Some e \<Rightarrow>
             (write_json 503 (jmap (common @ [(''status'', JStr ''fatal_hardware_error''), (''error'', JStr e),
                (''ready'', JBool False)] @ model)) w, nd, [])
         | None \<Rightarrow>
             (write_json 200 (jmap (common @ [(''status'', JStr ''ok''), (''ready'', JBool (sv_ready sv))] @ model)) w, nd, []))"

section \<open>Models\<close>

definition read_spec :: "float_prims \<Rightarrow> bytes \<Rightarrow> model_spec option" where
  "read_spec F b =
     (case Option.bind (json_decode b) as_members of
        None \<Rightarrow> None
      | Some ms \<Rightarrow>
          (let (model, ok1) = get_field as_string '''' ''model'' ms;
               (hf_file, ok2) = get_field as_string '''' ''hf_file'' ms;
               (hf_token, ok3) = get_field as_string '''' ''hf_token'' ms;
               (context_size, ok4) = get_field as_int 0 ''context_size'' ms;
               (temperature, ok5) = get_field (as_float F) ''0'' ''temperature'' ms;
               (quantization, ok6) = get_field as_string '''' ''quantization'' ms;
               (bitsandbytes, ok7) = get_pointer as_bool ''bitsandbytes'' ms;
               (gguf, ok8) = get_pointer as_bool ''gguf'' ms;
               (tokenizer, ok9) = get_field as_string '''' ''tokenizer'' ms;
               (gpu_layers, ok10) = get_field as_int 0 ''gpu_layers'' ms;
               (threads, ok11) = get_field as_int 0 ''threads'' ms;
               (expose, ok12) = get_pointer as_bool ''expose_in_health'' ms;
               (tool_parser, ok13) = get_field as_string '''' ''tool_call_parser'' ms;
               (thinking, ok14) = get_pointer as_bool ''enable_thinking'' ms;
               (reasoning, ok15) = get_field as_string '''' ''reasoning_parser'' ms
           in when_ok [ok1, ok2, ok3, ok4, ok5, ok6, ok7, ok8, ok9, ok10, ok11, ok12, ok13, ok14, ok15]
                \<lparr> ms_model = model, ms_hf_file = hf_file, ms_hf_token = hf_token, ms_context_size = context_size,
                  ms_temperature = temperature, ms_quantization = quantization, ms_bitsandbytes = bitsandbytes,
                  ms_gguf = gguf, ms_tokenizer = tokenizer, ms_gpu_layers = gpu_layers, ms_threads = threads,
                  ms_expose_in_health = expose, ms_tool_call_parser = tool_parser, ms_enable_thinking = thinking,
                  ms_reasoning_parser = reasoning \<rparr>))"

definition is_binary_content :: "request \<Rightarrow> bool" where
  "is_binary_content r =
     contains_any (ToLower (header_get (r_headers r) ''Content-Type'')) [''application/octet-stream'', ''application/x-cevell-hpke'']"

text \<open>
  A model load up to the call of the supervisor, which runs for minutes: the request is refused, or
  admitted with its specification.
\<close>

definition load_admission :: "gateway \<Rightarrow> world \<Rightarrow> request \<Rightarrow> response \<Rightarrow> node \<Rightarrow> handled + (model_spec \<times> node)" where
  "load_admission G W r w nd =
     (let w = set_json w in
      if r_method r \<noteq> ''POST'' then Inl (method_not_allowed w, nd, [])
      else if nd_sealed nd then
        Inl (json_error 403 ''Enclave is sealed: model loading is disabled. Terminate and launch a new CVM to load a different model.'' w, nd, [])
      else
        (case header_first G W r nd of
           (Inl e, nd) \<Rightarrow> Inl (auth_failed G e w, nd, [])
         | (Inr body, nd) \<Rightarrow>
             (case (if is_binary_content r
                    then map_sum id fst (UnwrapBinaryHPKERequest (gw_prims G) (HPKEPrivKey (gw_keys G)) body)
                    else Inr body) of
                Inl e \<Rightarrow> Inl (json_error 400 (''Failed to unwrap HPKE payload: '' @ gw_hpke_text G e) w, nd, [])
              | Inr plain \<Rightarrow>
                  (case read_spec (gw_float G) plain of
                     None \<Rightarrow> Inl (http_error 400 (plain_error ''Invalid JSON payload'') w, nd, [])
                   | Some spec \<Rightarrow> Inr (spec, nd)))))"

definition load_status :: "string \<Rightarrow> int" where
  "load_status e = (if contains_any e [''exceeds maximum viable context length'', ''invalid'', ''required''] then 400 else 500)"

definition load_completion :: "world \<Rightarrow> model_spec \<Rightarrow> response \<Rightarrow> node \<Rightarrow> handled" where
  "load_completion W spec w nd =
     (let w = set_json w in
      case w_load W spec (nd_supervisor nd) of
        (Some e, sv) \<Rightarrow>
          (json_error (load_status e) (''Failed to load model: '' @ e) w, nd\<lparr> nd_supervisor := sv \<rparr>, [LoadModel spec])
      | (None, sv) \<Rightarrow>
          (write_json 200 (jmap [(''status'', JStr ''ready''), (''model'', JStr (sv_model sv)), (''backend'', JStr (sv_backend sv)),
             (''max_context'', JInt (sv_max_context sv)), (''active_context'', JInt (sv_active_context sv))]) w,
           nd\<lparr> nd_supervisor := sv \<rparr>, [LoadModel spec]))"

definition load_handler :: "gateway \<Rightarrow> handler" where
  "load_handler G W r w nd =
     (case load_admission G W r w nd of
        Inl h \<Rightarrow> h
      | Inr (spec, nd) \<Rightarrow> load_completion W spec w nd)"

definition models_handler :: "gateway \<Rightarrow> handler" where
  "models_handler G W r w nd =
     (let w = set_json w in
      if r_method r \<noteq> ''GET'' then (method_not_allowed w, nd, [])
      else
        (case no_body_auth G W r nd of
           (Some e, nd) \<Rightarrow> (auth_failed G e w, nd, [])
         | (None, nd) \<Rightarrow>
             (let sv = nd_supervisor nd;
                  entries = (if sv_model sv = '''' then []
                    else [jmap [(''id'', JStr (sv_model sv)), (''object'', JStr ''model''), (''created'', JInt (unix_seconds (w_now W))),
                            (''owned_by'', JStr ''cevell-cvm''), (''max_context'', JInt (sv_max_context sv)),
                            (''active_context'', JInt (sv_active_context sv))]])
              in (write_json 200 (jmap [(''object'', JStr ''list''), (''data'', nil_or_list entries)]) w, nd, []))))"

section \<open>Inference\<close>

definition any_prefix :: "string \<Rightarrow> string list \<Rightarrow> bool" where
  "any_prefix s ps \<longleftrightarrow> list_ex (HasPrefix s) ps"

definition is_messages :: "request \<Rightarrow> bool" where "is_messages r = HasPrefix (r_path r) ''/v1/messages''"

definition is_inference :: "request \<Rightarrow> bool" where
  "is_inference r \<longleftrightarrow>
     any_prefix (r_path r) [''/v1/chat/completions'', ''/v1/completions'', ''/v1/embeddings'', ''/tokenize'', ''/detokenize'']
     \<or> is_messages r"

definition root_requires_auth :: "request \<Rightarrow> node \<Rightarrow> bool" where
  "root_requires_auth r nd \<longleftrightarrow> nd_sealed nd \<or> any_prefix (r_path r) [''/v1/'', ''/tokenize'', ''/detokenize'']"

definition root_auth :: "gateway \<Rightarrow> world \<Rightarrow> request \<Rightarrow> response \<Rightarrow> node \<Rightarrow> handled + (bytes \<times> node)" where
  "root_auth G W r w nd =
     (if \<not> IsEnrolled (nd_verifier nd) then
        Inl (json_error 401 ''Enclave is unenrolled. System is locked down until authorized public key is registered via POST /v1/auth/register or provisioned at launch.'' w, nd, [])
      else if root_requires_auth r nd then
        (case header_first G W r nd of
           (Inl e, nd) \<Rightarrow> Inl (auth_failed G e w, nd, [])
         | (Inr body, nd) \<Rightarrow> Inr (body, nd))
      else
        (case read_body 0 (r_body r) of
           Inl _ \<Rightarrow> Inl (http_error 400 (plain_error ''Failed to read request body'') w, nd, [])
         | Inr body \<Rightarrow> Inr (body, nd)))"

definition binding_hash :: "gateway \<Rightarrow> node \<Rightarrow> bytes" where
  "binding_hash G nd =
     (case nd_doc nd of
        None \<Rightarrow> []
      | Some d \<Rightarrow>
          (let ud = cp_user_data (ad_predicate d) in if ud = '''' then [] else sha256 (gw_crypto G) (bytes_of ud)))"

text \<open>The payload of an inference request, its session, and the model of a Messages request.\<close>

definition open_inference ::
  "gateway \<Rightarrow> request \<Rightarrow> bytes \<Rightarrow> response \<Rightarrow> node \<Rightarrow> response + (bytes \<times> hpke_context \<times> string option)" where
  "open_inference G r body w nd =
     (let ct = header_get (r_headers r) ''Content-Type'' in
      if \<not> contains_any (ToLower ct) [''application/octet-stream'', ''application/x-cevell-hpke'', ''application/x-protobuf''] then
        Inl (json_error 415 (''Unsupported media type '' @ gw_quote G ct
          @ '': inference endpoints strictly require mandatory binary HPKE with Content-Type: application/x-protobuf or application/octet-stream'') w)
      else
        (case UnwrapHPKERequest (gw_prims G) (HPKEPrivKey (gw_keys G)) body ct (binding_hash G nd) of
           Inl e \<Rightarrow> Inl (json_error 400 (''Failed to unwrap binary HPKE payload: '' @ gw_unwrap_text G e) w)
         | Inr (plain, ctx) \<Rightarrow>
             if \<not> sv_ready (nd_supervisor nd) then
               Inl (json_error 503 ''No model is currently loaded. Please load a model using POST /v1/models/load with an authorized Ed25519 signature.'' w)
             else if is_messages r then
               (case ConvertMessagesToOpenAI (gw_float G) plain of
                  None \<Rightarrow> Inl (json_error 400 (''Invalid Messages request payload: parsing Anthropic request JSON: '' @ gw_json_text G plain) w)
                | Some (converted, _, model) \<Rightarrow> Inr (converted, ctx, Some model))
             else Inr (plain, ctx, None)))"

definition engine_request :: "request \<Rightarrow> bytes \<Rightarrow> request" where
  "engine_request r plain =
     r\<lparr> r_path := (if is_messages r then ''/v1/chat/completions'' else r_path r),
        r_body := BodyBytes plain, r_content_length := int (length plain),
        r_headers := header_set ''Content-Type'' ''application/json''
          (header_set ''Content-Length'' (nat_dec (length plain)) (r_headers r)) \<rparr>"

text \<open>The relay of the engine's headers: a Retry-After is added to a refusal that has none.\<close>

definition relayed_headers :: "int \<Rightarrow> headers \<Rightarrow> headers" where
  "relayed_headers st hs =
     (if (st = 429 \<or> st = 503) \<and> header_get hs ''Retry-After'' = '''' then header_set ''Retry-After'' ''1'' hs else hs)"

definition engine_busy :: json where
  "engine_busy = JObj [(''error'', JStr ''Inference engine temporarily unavailable or overloaded. Please retry.'')]"

definition add_headers :: "headers \<Rightarrow> writer \<Rightarrow> writer" where
  "add_headers hs rw = rw\<lparr> rw_out := (rw_out rw)\<lparr> o_headers := o_headers (rw_out rw) @ hs \<rparr> \<rparr>"

definition busy_headers :: "writer \<Rightarrow> writer" where
  "busy_headers rw = set_out_header ''Retry-After'' ''1'' (set_out_header ''Content-Type'' ''application/json'' rw)"

definition busy_body :: bytes where "busy_body = bytes_of (json_encode engine_busy @ [CHR 0x0A])"

text \<open>The reply of the engine through the encrypting writer.\<close>

definition relay :: "gateway \<Rightarrow> world \<Rightarrow> engine_reply \<Rightarrow> writer \<Rightarrow> writer" where
  "relay G W reply rw =
     (let write = (\<lambda>rw b. snd (Write (gw_prims G) (w_clk W) b rw)) in
      case reply of
        EngineReply st hs parts \<Rightarrow> foldl write (WriteHeader st (add_headers (relayed_headers st hs) rw)) parts
      | EngineDown \<Rightarrow> write (WriteHeader 503 (busy_headers rw)) busy_body
      | ClientGone \<Rightarrow> rw)"

definition relay_messages :: "gateway \<Rightarrow> world \<Rightarrow> engine_reply \<Rightarrow> msg_writer \<Rightarrow> msg_writer" where
  "relay_messages G W reply mw =
     (let write = (\<lambda>mw b. mw_Write (gw_float G) (gw_prims G) (w_clk W) b mw);
          on_hpke = (\<lambda>f mw. mw\<lparr> mw_hpke := f (mw_hpke mw) \<rparr>)
      in case reply of
           EngineReply st hs parts \<Rightarrow> foldl write (mw_WriteHeader st (on_hpke (add_headers (relayed_headers st hs)) mw)) parts
         | EngineDown \<Rightarrow> write (mw_WriteHeader 503 (on_hpke busy_headers mw)) busy_body
         | ClientGone \<Rightarrow> mw)"

text \<open>The deferred end: the translating writer, then the encrypting one unless the first panics.\<close>

definition forward_inference ::
  "gateway \<Rightarrow> world \<Rightarrow> request \<Rightarrow> bytes \<times> hpke_context \<times> string option \<Rightarrow> response \<Rightarrow> response \<times> effect list" where
  "forward_inference G W r = (\<lambda>(plain, ctx, model) w.
     let fwd = engine_request r plain;
         rw = newHPKEResponseWriter w (Some (hc_session ctx)) (hc_protobuf ctx);
         finish = (\<lambda>rw. rw_out (Finish (gw_prims G) (w_clk W) rw))
     in case model of
          None \<Rightarrow> (finish (relay G W (w_engine W fwd) rw), [Forward fwd])
        | Some m \<Rightarrow>
            (let mw = relay_messages G W (w_engine W fwd) (newMessagesResponseWriter (w_now W) rw m)
             in case mw_Finish (gw_float G) (gw_prims G) (w_clk W) (w_now W) mw of
                  Some mw \<Rightarrow> (finish (mw_hpke mw), [Forward fwd])
                | None \<Rightarrow> (rw_out (mw_hpke mw), [Forward fwd, HandlerPanic])))"

definition root_handler :: "gateway \<Rightarrow> handler" where
  "root_handler G W r w nd =
     (case root_auth G W r w nd of
        Inl h \<Rightarrow> h
      | Inr (body, nd) \<Rightarrow>
          if \<not> is_inference r then (http_error 404 ''404 page not found'' w, nd, [])
          else
            (case open_inference G r body w nd of
               Inl w \<Rightarrow> (w, nd, [])
             | Inr payload \<Rightarrow>
                 (let (w, effs) = forward_inference G W r payload w in (w, nd, effs))))"

section \<open>Routes\<close>

datatype endpoint =
    AttestationEP | CertificateEP | HealthEP | SealEP | ProbeEP | EnrollEP | VisibilityEP | LoadEP | ModelsEP | RootEP

definition endpoint_of :: "string \<Rightarrow> endpoint" where
  "endpoint_of p =
     (if p \<in> {''/v1/attestation'', ''/.well-known/cevell-attestation'', ''/.well-known/attestation''} then AttestationEP
      else if p \<in> {''/v1/attestation/certificate'', ''/.well-known/cevell-certificate''} then CertificateEP
      else if p \<in> {''/v1/health'', ''/health''} then HealthEP
      else if p = ''/v1/system/seal'' then SealEP
      else if p = ''/v1/system/probe-egress'' then ProbeEP
      else if p \<in> {''/v1/auth/register'', ''/v1/auth/enroll''} then EnrollEP
      else if p = ''/v1/admin/visibility'' then VisibilityEP
      else if p = ''/v1/models/load'' then LoadEP
      else if p = ''/v1/models'' then ModelsEP
      else RootEP)"

definition handler_of :: "gateway \<Rightarrow> endpoint \<Rightarrow> handler" where
  "handler_of G e =
     (case e of
        AttestationEP \<Rightarrow> GuardNonCritical G ''attestation'' (attestation_handler G)
      | CertificateEP \<Rightarrow> GuardNonCritical G ''certificate'' (certificate_handler G)
      | HealthEP \<Rightarrow> GuardNonCritical G ''health'' (health_handler G)
      | SealEP \<Rightarrow> seal_handler G
      | ProbeEP \<Rightarrow> GuardNonCritical G ''probe_egress'' probe_handler
      | EnrollEP \<Rightarrow> enroll_handler G
      | VisibilityEP \<Rightarrow> visibility_handler G
      | LoadEP \<Rightarrow> load_handler G
      | ModelsEP \<Rightarrow> models_handler G
      | RootEP \<Rightarrow> root_handler G)"

definition route :: "gateway \<Rightarrow> world \<Rightarrow> request \<Rightarrow> node \<Rightarrow> handled" where
  "route G W r nd = handler_of G (endpoint_of (r_path r)) W r fresh_response nd"

text \<open>The node at start: the verifier given or discovered, the policy given or the default.\<close>

record server_config =
  sc_key_pair :: "key_pair option"
  sc_verifier :: "verifier option"
  sc_policy :: "policy option"
  sc_doc :: "attestation_doc option"
  sc_supervisor :: "supervisor option"

definition idle_supervisor :: supervisor where
  "idle_supervisor = \<lparr> sv_ready = False, sv_model = '''', sv_expose = False, sv_fatal = None, sv_backend = '''',
     sv_max_context = 0, sv_active_context = 0 \<rparr>"

datatype setup_error = NoKeyPair | NoVerifier auth_error

definition SetupProxyRoutes ::
  "int \<Rightarrow> string \<Rightarrow> metadata_server \<Rightarrow> (string \<Rightarrow> bytes option) \<Rightarrow> server_config \<Rightarrow> setup_error + node" where
  "SetupProxyRoutes now env srv files cfg =
     (if sc_key_pair cfg = None then Inl NoKeyPair
      else
        (case (case sc_verifier cfg of Some v \<Rightarrow> Inr v | None \<Rightarrow> NewDefaultEd25519Verifier now env srv files) of
           Inl e \<Rightarrow> Inl (NoVerifier e)
         | Inr v \<Rightarrow>
             Inr \<lparr> nd_verifier = v,
                    nd_policy = (case sc_policy cfg of Some p \<Rightarrow> p | None \<Rightarrow> default_policy),
                    nd_sealed = False, nd_doc = sc_doc cfg,
                    nd_supervisor = (case sc_supervisor cfg of Some s \<Rightarrow> s | None \<Rightarrow> idle_supervisor) \<rparr>))"

end
