(* ===== verification/AuthSafety.thy ===== *)
theory AuthSafety
  imports Auth
begin

text \<open>
  The properties of the verifier of pkg/auth: authenticity of accepted requests, replay protection,
  the single-key invariant, canonical forms, key text, and what enrolment checks.
\<close>

section \<open>Freshness\<close>

lemma dur_abs:
  "(let diff = dur_sub now u in if diff < 0 then dur_neg diff else diff) =
     (if now - u \<le> - (2 ^ 63) then - (2 ^ 63) else if 2 ^ 63 \<le> now - u then 2 ^ 63 - 1 else \<bar>now - u\<bar>)"
  by (simp add: dur_sub_def dur_neg_def min_dur_def max_dur_def Let_def)

lemma freshness_iff:
  assumes "0 \<le> skew" "skew < 2 ^ 63 - 1"
  shows "check_freshness now skew s = None \<longleftrightarrow>
    (\<exists>ts. ParseInt64 s = Some ts \<and> (\<bar>now - time_unix ts\<bar> \<le> skew \<or> now + 2 ^ 63 \<le> time_unix ts))"
proof (cases "ParseInt64 s")
  case None then show ?thesis by (simp add: check_freshness_def)
next
  case (Some ts)
  let ?d = "(let diff = dur_sub now (time_unix ts) in if diff < 0 then dur_neg diff else diff)"
  have "check_freshness now skew s = (if skew < ?d then Some ErrTimestampExpired else None)"
    using Some by (simp add: check_freshness_def Let_def)
  then show ?thesis using assms Some unfolding dur_abs by auto
qed

text \<open>
  C10: the freshness check accepts a timestamp exactly when it parses as a 64-bit decimal and is
  within the allowed skew of the clock, or is at least 2^63 nanoseconds (292 years) ahead of it:
  the difference then saturates at the smallest duration, whose negation is itself negative.
\<close>

theorem freshness_exact:
  assumes "0 \<le> skew" "skew < 2 ^ 63 - 1"
  shows "check_freshness now skew s = None \<longleftrightarrow>
    (\<exists>ts. ParseInt64 s = Some ts \<and> (\<bar>now - time_unix ts\<bar> \<le> skew \<or> now + 2 ^ 63 \<le> time_unix ts))"
  by (rule freshness_iff [OF assms])

theorem freshness_exact_witness:
  "check_freshness (1700000000 * second) DefaultMaxClockSkew ''1700000010'' = None
   \<and> check_freshness (1700000000 * second) DefaultMaxClockSkew ''17000000000'' = None"
proof -
  have p: "ParseInt64 ''1700000010'' = Some 1700000010" "ParseInt64 ''17000000000'' = Some 17000000000"
    by (simp_all add: ParseInt64_def parse_digits_def is_digit_def dec_val_def digit_val_def)
  have s: "0 \<le> DefaultMaxClockSkew" "DefaultMaxClockSkew < 2 ^ 63 - 1"
    by (simp_all add: DefaultMaxClockSkew_def second_def)
  show ?thesis unfolding freshness_exact [OF s] p
    by (simp add: time_unix_def second_def DefaultMaxClockSkew_def)
qed

section \<open>Authenticity\<close>

text \<open>A request over fixed texts, and a signature scheme that accepts one signature.\<close>

definition sample_crypto :: auth_crypto where
  "sample_crypto = \<lparr> sha256 = (\<lambda>_. replicate 32 0), ed_verify = (\<lambda>k m s. s = replicate 64 1),
     ed_sign = (\<lambda>k m. replicate 64 1) \<rparr>"

definition sample_sig :: string where
  "sample_sig = b64_encode (replicate 64 1)"

definition sample_request :: "string \<Rightarrow> string \<Rightarrow> bytes \<Rightarrow> request" where
  "sample_request ts nonce body =
     \<lparr> r_method = ''POST'', r_path = ''/v1/seal'',
       r_headers = [(''X-Signature'', sample_sig), (''X-Timestamp'', ts), (''X-Nonce'', nonce)],
       r_body = BodyBytes body, r_content_length = int (length body) \<rparr>"

lemma sample_headers:
  "ts \<noteq> '''' \<Longrightarrow> nonce \<noteq> '''' \<Longrightarrow> ExtractAuthHeadersWithBodyHash (sample_request ts nonce body) =
     \<lparr> ah_sig = sample_sig, ah_timestamp = ts, ah_nonce = nonce, ah_reqID = '''', ah_bodyHash = '''' \<rparr>"
  by (simp add: ExtractAuthHeadersWithBodyHash_def sample_request_def EqualFold_def ToLower_def lower_char_def
      parse_authorization_def HasPrefix_def TrimSpace_def sample_sig_def)

lemma sample_decodes: "decode_signature sample_sig = Some (replicate 64 1)"
  by (simp add: decode_signature_def sample_sig_def SignatureSize_def)

text \<open>
  C1: a request that header-first verification accepts comes from the holder of the enrolled key:
  the key is enrolled, the signature decodes to 64 bytes and verifies over a canonical form whose
  body hash is the SHA-256 of the bytes handed to the handler, the timestamp passed the freshness
  check, the nonce was not in the swept cache and is in it afterwards, and a positive limit bounds
  the body.
\<close>

theorem accepted_request_authentic:
  assumes "cache_ok v" "VerifyHTTPRequestHeaderFirst C now limit r v = (Inr body, v')"
  shows "let h = ExtractAuthHeadersWithBodyHash r in
    isEnrolled v
    \<and> (\<exists>sig. decode_signature (ah_sig h) = Some sig \<and> length sig = SignatureSize
        \<and> (\<exists>hash. ToLower hash = ComputeBodyHashHex C body
            \<and> (ed_verify C (publicKey v) (BuildLengthPrefixedCanonicalWithHash (r_method r) (r_path r) (ah_reqID h)
                  (ah_timestamp h) (ah_nonce h) hash) sig
             \<or> ed_verify C (publicKey v) (BuildCanonicalWithHash (r_method r) (r_path r) (ah_reqID h)
                  (ah_timestamp h) (ah_nonce h) hash) sig)))
    \<and> check_freshness now (maxClockSkew v) (ah_timestamp h) = None
    \<and> ah_nonce h \<noteq> '''' \<and> length (ah_nonce h) \<le> MaxNonceLength
    \<and> map_of (seenNonces (sweep_cache now v)) (ah_nonce h) = None
    \<and> map_of (seenNonces v') (ah_nonce h) = Some now
    \<and> (limit \<le> 0 \<or> int (length body) \<le> limit)"
proof -
  let ?h = "ExtractAuthHeadersWithBodyHash r"
  note a = header_first_accepts [OF assms(2)]
  obtain hash where hash: "ToLower hash = hex_encode (sha256 C body)"
    "signed_by C (publicKey v) (r_method r) (r_path r) (ah_reqID ?h) (ah_timestamp ?h) (ah_nonce ?h) hash (ah_sig ?h)"
    using a by blast
  obtain sig where sig: "decode_signature (ah_sig ?h) = Some sig"
    using hash(2) by (auto simp: signed_by_def split: option.splits)
  have len: "length sig = SignatureSize"
    using sig by (auto simp: decode_signature_def split: option.splits if_splits)
  have nonce: "ah_nonce ?h \<noteq> ''''" "length (ah_nonce ?h) \<le> MaxNonceLength"
    using a by (auto simp: check_fields_def split: if_splits)
  have size: "limit \<le> 0 \<or> int (length body) \<le> limit"
    using a read_body_within [of limit "r_body r" body] by (cases "0 < limit") auto
  have "map_of (seenNonces (sweep_cache now v)) (ah_nonce ?h) = None" "map_of (seenNonces v') (ah_nonce ?h) = Some now"
    using a check_accepts(2,3) [OF assms(1)] by blast+
  then show ?thesis
    using a hash sig len nonce size unfolding Let_def signed_by_def ComputeBodyHashHex_def by auto
qed

lemma sample_accepted:
  assumes "isEnrolled v" "ts \<noteq> ''''" "nonce \<noteq> ''''" "length nonce \<le> 128" "body \<noteq> []"
    "check_freshness now (maxClockSkew v) ts = None"
  shows "VerifyHTTPRequestHeaderFirst sample_crypto now 0 (sample_request ts nonce body) v
    = (case check_and_record_nonce now nonce v of (None, v') \<Rightarrow> (Inr body, v') | (Some e, v') \<Rightarrow> (Inl e, v'))"
proof -
  let ?r = "sample_request ts nonce body"
  have "signed_by sample_crypto (publicKey v) (r_method ?r) (r_path ?r) '''' ts nonce hash sample_sig" for hash
    by (simp add: signed_by_def sample_decodes sample_crypto_def)
  moreover have "check_fields sample_sig ts nonce = None"
    using assms by (simp add: check_fields_def sample_sig_def MaxNonceLength_def)
  ultimately have "VerifyWithBodyHash sample_crypto now (r_method ?r) (r_path ?r) '''' ts nonce hash sample_sig v
      = check_and_record_nonce now nonce v" for hash
    using assms by (intro verify_intro) auto
  moreover have "read_auth_body 0 (r_body ?r) = Inr body" "r_body ?r \<noteq> BodyNil" "r_content_length ?r \<noteq> 0"
    using assms(5) by (simp_all add: read_auth_body_def read_body_def sample_request_def)
  ultimately show ?thesis
    using assms unfolding VerifyHTTPRequestHeaderFirst_def Let_def sample_headers [OF assms(2,3)]
    by (simp add: Verify_def)
qed

definition sample_verifier :: verifier where
  "sample_verifier = NewEd25519Verifier 0 (replicate 32 9) 0 0"

lemma sample_verifier_eq:
  "sample_verifier = \<lparr> publicKey = replicate 32 9, isEnrolled = True, enrolledAt = 0, maxClockSkew = 30 * second,
     nonceTTL = 60 * second, seenNonces = [], nonceOrder = [], lastCleanup = 0, maxNonceCacheSize = 250000 \<rparr>"
  by (simp add: sample_verifier_def NewEd25519Verifier_def PublicKeySize_def DefaultMaxClockSkew_def
      DefaultNonceTTL_def MaxNonceCacheSize_def)

lemma sample_verifier_ok: "cache_ok sample_verifier"
  by (simp add: sample_verifier_eq cache_ok_def)

lemma sample_fresh: "check_freshness (10 * second) (30 * second) ''0'' = None"
  by (simp add: check_freshness_def ParseInt64_def parse_digits_def is_digit_def dec_val_def digit_val_def
      time_unix_def second_def dur_sub_def min_dur_def max_dur_def)

definition sample_after :: verifier where
  "sample_after = sample_verifier\<lparr> seenNonces := [(''n1'', 10 * second)], nonceOrder := [(''n1'', 10 * second)],
     lastCleanup := 10 * second \<rparr>"

lemma sample_check: "check_and_record_nonce (10 * second) ''n1'' sample_verifier = (None, sample_after)"
  by (simp add: check_and_record_nonce_def sweep_cache_def record_nonce_def sample_verifier_eq sample_after_def
      cache_cap_def dur_sub_def min_dur_def max_dur_def second_def Let_def)

lemma sample_run:
  "VerifyHTTPRequestHeaderFirst sample_crypto (10 * second) 0 (sample_request ''0'' ''n1'' [1, 2]) sample_verifier
     = (Inr [1, 2], sample_after)"
  using sample_accepted [of sample_verifier "''0''" "''n1''" "[1, 2]" "10 * second"] sample_fresh sample_check
  by (simp add: sample_verifier_eq)

theorem accepted_request_authentic_witness:
  "publicKey sample_verifier = replicate 32 9
   \<and> map_of (seenNonces sample_after) (ah_nonce (ExtractAuthHeadersWithBodyHash (sample_request ''0'' ''n1'' [1, 2])))
      = Some (10 * second)"
  using accepted_request_authentic [OF sample_verifier_ok sample_run]
  by (simp add: Let_def) (simp add: sample_verifier_eq)

section \<open>Replay\<close>

text \<open>
  C2: from a verifier with an empty cache, whatever operations ran before: after an operation that
  was accepted with a nonce, no later operation with the same nonce is accepted, as long as all
  clock readings since are less than the cache lifetime after it and fewer operations than the
  capacity came between. Clock readings need not increase, and the operations may be mixed.
\<close>

theorem nonce_not_replayed:
  assumes "nonceOrder v0 = []" "seenNonces v0 = []" "0 < nonceTTL v0"
    and "op_consumes C x (run_ops C before v0) n"
    and "\<forall>y \<in> set (between @ [z]). op_time y < op_time x + nonceTTL v0"
    and "length between < cache_cap v0"
  shows "\<not> op_consumes C z (run_ops C (before @ x # between) v0) n"
proof -
  have ok0: "cache_ok v0" using assms(1,2) by (simp add: cache_ok_def)
  let ?v = "run_ops C before v0"
  have ok: "cache_ok ?v" "dur_neg (nonceTTL ?v) = dur_neg (nonceTTL v0)" "cache_cap ?v = cache_cap v0"
    using vg.ok_run [OF ok0, of C before] by (simp_all add: run_ops_def)
  have neg: "dur_neg (nonceTTL v0) = - nonceTTL v0" using assms(3) by (simp add: dur_neg_def min_dur_def)
  have "\<not> op_consumes C z (fold (op_step C) between (op_step C x ?v)) n"
    using assms(4-6) ok neg by (intro vg.no_replay) auto
  then show ?thesis by (simp add: run_ops_def)
qed

theorem nonce_not_replayed_witness:
  "\<not> op_consumes sample_crypto (OpHeaderFirst (50 * second) 0 (sample_request ''0'' ''n1'' [3]))
      (run_ops sample_crypto [OpHeaderFirst (10 * second) 0 (sample_request ''0'' ''n1'' [1, 2])] sample_verifier) ''n1''"
proof -
  have c: "op_consumes sample_crypto (OpHeaderFirst (10 * second) 0 (sample_request ''0'' ''n1'' [1, 2]))
      (run_ops sample_crypto [] sample_verifier) ''n1''"
    using sample_run by (simp add: op_consumes_def run_ops_def sample_headers)
  show ?thesis
    using nonce_not_replayed [of sample_verifier sample_crypto _ "[]" "''n1''" "[]", OF _ _ _ c]
    by (simp add: sample_verifier_eq second_def)
qed

text \<open>
  C9: in every run of the verifier from an empty cache the map and the order slice hold the same
  nonces, each once, and never more of them than the capacity.
\<close>

theorem nonce_cache_bounded:
  assumes "nonceOrder v0 = []" "seenNonces v0 = []"
  shows "let v = run_ops C xs v0 in distinct (map fst (seenNonces v)) \<and> distinct (map fst (nonceOrder v))
    \<and> set (seenNonces v) = set (nonceOrder v)
    \<and> int (length (seenNonces v)) \<le> (if maxNonceCacheSize v0 \<le> 0 then MaxNonceCacheSize else maxNonceCacheSize v0)"
proof -
  have "cache_ok v0" using assms(1,2) by (simp add: cache_ok_def)
  then have "cache_ok (run_ops C xs v0)" "cache_cap (run_ops C xs v0) = cache_cap v0"
    using vg.ok_run unfolding run_ops_def by auto
  then show ?thesis by (auto simp: Let_def cache_ok_def cache_cap_def MaxNonceCacheSize_def split: if_splits)
qed

theorem nonce_cache_bounded_witness:
  "length (seenNonces (run_ops sample_crypto
     [OpHeaderFirst (10 * second) 0 (sample_request ''0'' ''n1'' [1, 2])] sample_verifier)) \<le> 250000"
  using nonce_cache_bounded [of sample_verifier sample_crypto
     "[OpHeaderFirst (10 * second) 0 (sample_request ''0'' ''n1'' [1, 2])]"]
  by (simp add: sample_verifier_eq Let_def)

text \<open>
  A nonce is compared before its white space is trimmed, while both canonical forms trim it. So
  an accepted signed request is accepted again when its nonce is sent with spaces around it, which
  a quoted parameter of the Authorization header keeps, if the padded nonce is not yet in the cache
  and not too long: the signature of the first request is the signature of the second.
\<close>

theorem padded_nonce_replays:
  assumes "VerifyWithBodyHash C now meth path rid ts nonce hash sig v = (None, v')"
    and "TrimSpace padded = TrimSpace nonce" "padded \<noteq> ''''" "length padded \<le> MaxNonceLength"
    and "isEnrolled w" "publicKey w = publicKey v" "check_freshness now' (maxClockSkew w) ts = None"
    and "map_of (seenNonces (sweep_cache now' w)) padded = None"
  shows "fst (VerifyWithBodyHash C now' meth path rid ts padded hash sig w) = None"
  using assms(1)
proof (cases rule: verify_cases)
  case checked
  have "signed_by C (publicKey w) meth path rid ts padded hash sig"
    using checked(4)
    unfolding signed_by_def BuildLengthPrefixedCanonicalWithHash_def BuildCanonicalWithHash_def assms(2,6) .
  moreover have "check_fields sig ts padded = None"
    using checked(2) assms(3,4) by (auto simp: check_fields_def split: if_splits)
  ultimately have "VerifyWithBodyHash C now' meth path rid ts padded hash sig w = check_and_record_nonce now' padded w"
    using assms(5,7) by (intro verify_intro)
  then show ?thesis using assms(8) by (simp add: check_and_record_nonce_def Let_def)
qed simp

lemma sample_verify:
  "VerifyWithBodyHash sample_crypto (10 * second) ''POST'' ''/v1/seal'' '''' ''0'' ''n1'' '''' sample_sig sample_verifier
     = (None, sample_after)"
proof -
  have "signed_by sample_crypto (publicKey sample_verifier) ''POST'' ''/v1/seal'' '''' ''0'' ''n1'' '''' sample_sig"
    by (simp add: signed_by_def sample_decodes sample_crypto_def)
  then show ?thesis using sample_check sample_fresh
    by (subst verify_intro) (simp_all add: check_fields_def sample_sig_def MaxNonceLength_def sample_verifier_eq)
qed

theorem padded_nonce_replays_witness:
  "fst (VerifyWithBodyHash sample_crypto (10 * second) ''POST'' ''/v1/seal'' '''' ''0'' ''n1 '' '''' sample_sig sample_after)
     = None"
  by (rule padded_nonce_replays [OF sample_verify])
    (simp_all add: TrimSpace_def is_space_def MaxNonceLength_def sample_after_def sample_verifier_eq sample_fresh [unfolded second_def, simplified]
      sweep_cache_def second_def dur_sub_def min_dur_def max_dur_def)

section \<open>The single key\<close>

lemma op_step_key:
  assumes "isEnrolled v"
  shows "isEnrolled (op_step C x v) \<and> publicKey (op_step C x v) = publicKey v"
proof -
  have s: "isEnrolled (sweep_cache now w) = isEnrolled w \<and> publicKey (sweep_cache now w) = publicKey w" for now w
    by (simp add: sweep_cache_def split: prod.split)
  have r: "isEnrolled (record_nonce now n w) = isEnrolled w \<and> publicKey (record_nonce now n w) = publicKey w" for now n w
    by (simp add: record_nonce_def split: prod.split)
  show ?thesis
  proof (cases rule: op_cases [where x = x and C = C and v = v])
    case (enroll now k) then show ?thesis using assms by (simp add: op_step_def EnrollKey_def)
  next
    case failed then show ?thesis using assms by simp
  next
    case (checked n) then show ?thesis using assms s r by (simp add: check_and_record_nonce_def Let_def)
  qed
qed

text \<open>
  C6: the single-key invariant. Once a key is enrolled, no run of operations changes it or revokes
  it, and every further enrolment fails with ErrKeyAlreadyEnrolled and leaves the verifier as it is.
\<close>

theorem enrolled_key_is_final:
  assumes "isEnrolled v"
  shows "GetPublicKey (run_ops C xs v) = Some (publicKey v)
    \<and> EnrollKey now k (run_ops C xs v) = (Some ErrKeyAlreadyEnrolled, run_ops C xs v)"
proof -
  have "isEnrolled (fold (op_step C) xs v) \<and> publicKey (fold (op_step C) xs v) = publicKey v"
    using assms by (induction xs arbitrary: v) (simp_all add: op_step_key)
  then show ?thesis by (simp add: run_ops_def GetPublicKey_def EnrollKey_def)
qed

theorem enrolled_key_is_final_witness:
  "GetPublicKey (run_ops sample_crypto [OpEnroll 1 (replicate 32 5)] sample_verifier) = Some (replicate 32 9)"
proof -
  have e: "isEnrolled sample_verifier" "publicKey sample_verifier = replicate 32 9" by (simp_all add: sample_verifier_eq)
  show ?thesis
    using enrolled_key_is_final [OF e(1), of sample_crypto "[OpEnroll 1 (replicate 32 5)]" 0 "[]"] e(2) by simp
qed

text \<open>
  Fail closed. A verifier without a key answers every verification with ErrEnclaveUnenrolled,
  whatever the request, and consumes nothing; only enrolment ends this state, with a 32-byte key.
\<close>

theorem unenrolled_refuses:
  "let v = NewDynamicVerifier t in
     VerifyWithBodyHash C now meth path rid ts nonce hash sig v = (Some ErrEnclaveUnenrolled, v)
   \<and> VerifyHTTPRequest C now r body v = (Some ErrEnclaveUnenrolled, v)
   \<and> VerifyHTTPRequestHeaderFirst C now limit r v = (Inl ErrEnclaveUnenrolled, v)
   \<and> GetPublicKey v = None \<and> GetPublicKeyHex v = '''' \<and> snd (GetPublicKeyBytes v) = False
   \<and> (fst (EnrollKey now k v) = None) = (length k = 32)
   \<and> IsEnrolled (snd (EnrollKey now k v)) = (length k = 32)"
  by (simp add: NewDynamicVerifier_def VerifyWithBodyHash_def VerifyHTTPRequest_def
      VerifyHTTPRequestHeaderFirst_def GetPublicKey_def GetPublicKeyHex_def GetPublicKeyBytes_def
      EnrollKey_def IsEnrolled_def PublicKeySize_def)

section \<open>Canonical forms\<close>

lemma length_prefixed_inj: "length_prefixed a @ x = length_prefixed b @ y \<longleftrightarrow> a = b \<and> x = y"
proof
  assume e: "length_prefixed a @ x = length_prefixed b @ y"
  have nc: "CHR '':'' \<notin> set (nat_dec n)" for n
    using nat_dec_digits [of n] by (auto simp: list_all_iff dest: is_digit_not)
  have "nat_dec (length a) @ CHR '':'' # (a @ CHR 0x0A # x) = nat_dec (length b) @ CHR '':'' # (b @ CHR 0x0A # y)"
    using e by (simp add: length_prefixed_def)
  then have "nat_dec (length a) = nat_dec (length b)" "a @ CHR 0x0A # x = b @ CHR 0x0A # y"
    using append_sep_inj [OF nc nc] by blast+
  moreover from this have "length a = length b" by (simp add: nat_dec_inj)
  ultimately show "a = b \<and> x = y" by simp
qed simp

lemma length_prefixed_concat_inj:
  "length as = length bs \<Longrightarrow> concat (map length_prefixed as) = concat (map length_prefixed bs) \<longleftrightarrow> as = bs"
proof (induction as arbitrary: bs)
  case (Cons a as)
  then obtain b bs' where "bs = b # bs'" by (cases bs) auto
  then show ?case using Cons by (simp add: length_prefixed_inj)
qed simp

text \<open>
  The length-prefixed canonical form determines the six fields up to the white space and the
  case that it normalises, so no delimiter inside a field can move a boundary; the colon-delimited
  form, which verification accepts as well, does not: a colon in the request id also reads as the
  end of the path.
\<close>

theorem length_prefixed_canonical_injective:
  "(BuildLengthPrefixedCanonicalWithHash m p i t n h = BuildLengthPrefixedCanonicalWithHash m' p' i' t' n' h' \<longleftrightarrow>
     ToUpper (TrimSpace m) = ToUpper (TrimSpace m') \<and> TrimSpace p = TrimSpace p' \<and> TrimSpace i = TrimSpace i'
     \<and> TrimSpace t = TrimSpace t' \<and> TrimSpace n = TrimSpace n' \<and> ToLower (TrimSpace h) = ToLower (TrimSpace h'))
   \<and> BuildCanonicalWithHash m ''/v1/models'' ''load:7'' t n h = BuildCanonicalWithHash m ''/v1/models:load'' ''7'' t n h"
proof
  show "BuildLengthPrefixedCanonicalWithHash m p i t n h = BuildLengthPrefixedCanonicalWithHash m' p' i' t' n' h' \<longleftrightarrow>
     ToUpper (TrimSpace m) = ToUpper (TrimSpace m') \<and> TrimSpace p = TrimSpace p' \<and> TrimSpace i = TrimSpace i'
     \<and> TrimSpace t = TrimSpace t' \<and> TrimSpace n = TrimSpace n' \<and> ToLower (TrimSpace h) = ToLower (TrimSpace h')"
    unfolding BuildLengthPrefixedCanonicalWithHash_def bytes_of_inj
    by (subst length_prefixed_concat_inj) simp_all
  show "BuildCanonicalWithHash m ''/v1/models'' ''load:7'' t n h = BuildCanonicalWithHash m ''/v1/models:load'' ''7'' t n h"
    by (simp add: BuildCanonicalWithHash_def TrimSpace_def is_space_def)
qed

text \<open>A key pair of the signature scheme: signatures have 64 bytes and verify.\<close>

definition key_pair :: "auth_crypto \<Rightarrow> bytes \<Rightarrow> bytes \<Rightarrow> bool" where
  "key_pair C priv pub \<longleftrightarrow> (\<forall>m. ed_verify C pub m (ed_sign C priv m) \<and> length (ed_sign C priv m) = SignatureSize)"

text \<open>
  What SignPayload and SignLengthPrefixedPayload produce is accepted by Verify of the matching
  key: any method, path, request id and body, a timestamp within the skew, and a non-empty nonce of
  at most 128 bytes that is not in the cache after the sweep.
\<close>

theorem signed_payload_verifies:
  assumes "key_pair C priv (publicKey v)" "isEnrolled v"
    and "\<bar>ts\<bar> < 2 ^ 62" "\<bar>now - ts * second\<bar> \<le> maxClockSkew v" "maxClockSkew v < 2 ^ 63 - 1"
    and "nonce \<noteq> ''''" "length nonce \<le> MaxNonceLength" "map_of (seenNonces (sweep_cache now v)) nonce = None"
  shows "fst (Verify C now meth path rid (int_dec ts) nonce body (SignPayload C priv meth path rid ts nonce body) v) = None
    \<and> fst (Verify C now meth path rid (int_dec ts) nonce body
         (SignLengthPrefixedPayload C priv meth path rid ts nonce body) v) = None"
proof -
  have p: "ParseInt64 (int_dec ts) = Some ts" using assms(3) by (intro ParseInt64_int_dec) simp
  have f: "check_freshness now (maxClockSkew v) (int_dec ts) = None"
    using assms(3-5) time_unix_small [OF assms(3)] by (subst freshness_iff) (auto simp: p)
  have d: "decode_signature (b64_encode (ed_sign C priv m)) = Some (ed_sign C priv m)"
    "b64_encode (ed_sign C priv m) \<noteq> ''''" "ed_verify C (publicKey v) m (ed_sign C priv m)" for m
  proof -
    have "length (ed_sign C priv m) = SignatureSize" using assms(1) by (simp add: key_pair_def)
    then show "decode_signature (b64_encode (ed_sign C priv m)) = Some (ed_sign C priv m)"
      "b64_encode (ed_sign C priv m) \<noteq> ''''" by (auto simp: decode_signature_def SignatureSize_def)
    show "ed_verify C (publicKey v) m (ed_sign C priv m)" using assms(1) by (simp add: key_pair_def)
  qed
  have c: "check_fields (b64_encode (ed_sign C priv m)) (int_dec ts) nonce = None" for m
    using d(2) assms(6,7) by (simp add: check_fields_def)
  have n: "fst (check_and_record_nonce now nonce v) = None"
    using assms(8) by (simp add: check_and_record_nonce_def Let_def)
  have "signed_by C (publicKey v) meth path rid (int_dec ts) nonce (hex_encode (sha256 C body))
      (SignPayload C priv meth path rid ts nonce body)"
    "signed_by C (publicKey v) meth path rid (int_dec ts) nonce (hex_encode (sha256 C body))
      (SignLengthPrefixedPayload C priv meth path rid ts nonce body)"
    by (simp_all add: signed_by_def d SignPayload_def SignLengthPrefixedPayload_def BuildCanonicalPayload_def
        BuildLengthPrefixedCanonicalPayload_def)
  then show ?thesis
    unfolding Verify_def using assms(2) f n
    by (subst (1 2) verify_intro) (simp_all add: c SignPayload_def SignLengthPrefixedPayload_def)
qed

theorem signed_payload_verifies_witness:
  "fst (Verify sample_crypto (10 * second) ''GET'' ''/v1/models'' '''' (int_dec 12) ''n2'' []
     (SignPayload sample_crypto [1] ''GET'' ''/v1/models'' '''' 12 ''n2'' []) sample_verifier) = None"
proof -
  have k: "key_pair sample_crypto [1] (publicKey sample_verifier)"
    by (simp add: key_pair_def sample_crypto_def SignatureSize_def)
  show ?thesis
    using signed_payload_verifies [OF k, of 12 "10 * second" "''n2''" "''GET''" "''/v1/models''" "''''" "[]"]
    by (simp add: sample_verifier_eq sweep_cache_def second_def MaxNonceLength_def dur_sub_def min_dur_def max_dur_def)
qed

section \<open>Key text and discovery\<close>

lemma parse_key_normal:
  assumes "ParsePublicKeyHex s = Inr (k, h)"
  shows "length k = PublicKeySize \<and> h = hex_encode k"
  using assms unfolding ParsePublicKeyHex_def Let_def
  by (auto simp: PublicKeySize_def split: if_splits option.splits dest: hex_encode_decode)

lemma parse_hex_key:
  assumes "length k = PublicKeySize"
  shows "ParsePublicKeyHex (hex_encode k) = Inr (k, hex_encode k)"
proof -
  have "CHR ''s'' \<notin> set (hex_encode k)"
  proof
    assume "CHR ''s'' \<in> set (hex_encode k)"
    then obtain n where "n < 16" "CHR ''s'' = hex_digit n" using hex_encode_chars by blast
    then have "hex_val (CHR ''s'') = Some n" using hex_digit_props(1) by simp
    then show False by (simp add: hex_val_def)
  qed
  then have "\<not> HasPrefix (hex_encode k) ''ssh-ed25519 ''"
    by (metis HasPrefix_def in_set_takeD list.set_intros(1))
  moreover have "k \<noteq> []" using assms by (auto simp: PublicKeySize_def)
  ultimately show ?thesis using assms by (simp add: ParsePublicKeyHex_def PublicKeySize_def Let_def)
qed

text \<open>
  A key text that parses, in either notation, gives 32 key bytes and their lower-case
  hexadecimal text, and the hexadecimal text of a 32-byte key parses to that key.
\<close>

theorem key_text_round_trip:
  "(\<forall>s. case ParsePublicKeyHex s of Inl _ \<Rightarrow> True | Inr (k, h) \<Rightarrow> length k = 32 \<and> h = hex_encode k)
   \<and> (length key = 32) = (ParsePublicKey (hex_encode key) = Inr key)"
proof
  show "\<forall>s. case ParsePublicKeyHex s of Inl _ \<Rightarrow> True | Inr (k, h) \<Rightarrow> length k = 32 \<and> h = hex_encode k"
    using parse_key_normal by (auto simp: PublicKeySize_def split: sum.split)
  have "length key = 32 \<Longrightarrow> ParsePublicKey (hex_encode key) = Inr key"
    using parse_hex_key [of key] by (simp add: ParsePublicKey_def PublicKeySize_def)
  moreover have "ParsePublicKey (hex_encode key) = Inr key \<Longrightarrow> length key = 32"
    using parse_key_normal [of "hex_encode key"]
    by (cases "ParsePublicKeyHex (hex_encode key)") (auto simp: ParsePublicKey_def PublicKeySize_def)
  ultimately show "(length key = 32) = (ParsePublicKey (hex_encode key) = Inr key)" by blast
qed

lemma first_key_normal: "first_key cs = Some (k, h, src) \<Longrightarrow> length k = PublicKeySize \<and> h = hex_encode k"
  by (induction cs rule: first_key.induct) (auto split: option.splits sum.splits dest: parse_key_normal)

text \<open>
  Key discovery gives a verifier that is enrolled with a 32-byte key and an empty cache, or an
  error; a parsing value of the environment variable wins over the metadata server and the files.
\<close>

theorem discovered_key_enrolled:
  "(case NewDefaultEd25519Verifier now env srv files of
      Inl e \<Rightarrow> e = ErrNoPublicKeyFound
    | Inr v \<Rightarrow> isEnrolled v \<and> length (publicKey v) = 32 \<and> maxClockSkew v = 30 * second \<and> cache_ok v)
   \<and> (case ParsePublicKeyHex (TrimSpace env) of
        Inl _ \<Rightarrow> True
      | Inr (k, _) \<Rightarrow> NewDefaultEd25519Verifier now env srv files = Inr (NewEd25519Verifier now k DefaultMaxClockSkew DefaultNonceTTL))"
proof
  have n: "isEnrolled (NewEd25519Verifier now k DefaultMaxClockSkew DefaultNonceTTL)
      \<and> publicKey (NewEd25519Verifier now k DefaultMaxClockSkew DefaultNonceTTL) = k
      \<and> maxClockSkew (NewEd25519Verifier now k DefaultMaxClockSkew DefaultNonceTTL) = 30 * second
      \<and> cache_ok (NewEd25519Verifier now k DefaultMaxClockSkew DefaultNonceTTL)"
    if "length k = PublicKeySize" for k
    using that by (simp add: NewEd25519Verifier_def cache_ok_def DefaultMaxClockSkew_def second_def)
  show "case NewDefaultEd25519Verifier now env srv files of
      Inl e \<Rightarrow> e = ErrNoPublicKeyFound
    | Inr v \<Rightarrow> isEnrolled v \<and> length (publicKey v) = 32 \<and> maxClockSkew v = 30 * second \<and> cache_ok v"
  proof (cases "first_key (key_candidates env srv files)")
    case None then show ?thesis by (simp add: NewDefaultEd25519Verifier_def DiscoverAuthorizedPublicKey_def)
  next
    case (Some r)
    obtain k h src where r: "r = (k, h, src)" by (cases r) auto
    then have "length k = PublicKeySize" using Some first_key_normal by blast
    then show ?thesis using n [of k] Some r
      by (simp add: NewDefaultEd25519Verifier_def DiscoverAuthorizedPublicKey_def PublicKeySize_def)
  qed
  show "case ParsePublicKeyHex (TrimSpace env) of
        Inl _ \<Rightarrow> True
      | Inr (k, _) \<Rightarrow> NewDefaultEd25519Verifier now env srv files = Inr (NewEd25519Verifier now k DefaultMaxClockSkew DefaultNonceTTL)"
  proof (cases "ParsePublicKeyHex (TrimSpace env)")
    case (Inr r)
    have "ParsePublicKeyHex '''' = Inl ErrInvalidKeyFormat" by (simp add: ParsePublicKeyHex_def TrimSpace_def)
    then have "TrimSpace env \<noteq> ''''" using Inr by auto
    then show ?thesis using Inr
      by (cases r) (simp add: NewDefaultEd25519Verifier_def DiscoverAuthorizedPublicKey_def key_candidates_def nonblank_def)
  qed simp
qed

section \<open>Proof of possession\<close>

definition sample_enrolment :: request where
  "sample_enrolment = \<lparr> r_method = ''POST'', r_path = ''/v1/enroll'',
     r_headers = [(''X-Signature'', sample_sig), (''X-Timestamp'', ''0''), (''X-Nonce'', ''n1''), (''X-Body-SHA256'', ''ab'')],
     r_body = BodyBytes [1], r_content_length = 1 \<rparr>"

lemma sample_enrolment_headers:
  "ExtractAuthHeadersWithBodyHash sample_enrolment =
     \<lparr> ah_sig = sample_sig, ah_timestamp = ''0'', ah_nonce = ''n1'', ah_reqID = '''', ah_bodyHash = ''ab'' \<rparr>"
proof -
  have "sample_sig \<noteq> ''''" by (simp add: sample_sig_def)
  then show ?thesis
    by (simp add: ExtractAuthHeadersWithBodyHash_def sample_enrolment_def EqualFold_def ToLower_def lower_char_def
      parse_authorization_def HasPrefix_def TrimSpace_def is_space_def)
qed

text \<open>
  When a request for enrolment claims a body hash in its headers and its signature covers that
  claim, the proof of possession does not depend on the body at all: the claimed hash is never
  compared with the hash of the body, so any body passes (or is refused as a replay) alike.
\<close>

theorem possession_ignores_body:
  assumes "ah_bodyHash (ExtractAuthHeadersWithBodyHash r) \<noteq> ''''"
    and "signed_by C cand (r_method r) (r_path r) (ah_reqID (ExtractAuthHeadersWithBodyHash r))
      (ah_timestamp (ExtractAuthHeadersWithBodyHash r)) (ah_nonce (ExtractAuthHeadersWithBodyHash r))
      (ah_bodyHash (ExtractAuthHeadersWithBodyHash r)) (ah_sig (ExtractAuthHeadersWithBodyHash r))"
  shows "VerifyProofOfPossession C now cand r body v = VerifyProofOfPossession C now cand r body' v"
proof -
  obtain sig where "decode_signature (ah_sig (ExtractAuthHeadersWithBodyHash r)) = Some sig"
    using assms(2) by (auto simp: signed_by_def split: option.splits)
  then show ?thesis using assms unfolding VerifyProofOfPossession_def Let_def signed_by_def
    by (auto split: option.split)
qed

theorem possession_ignores_body_witness:
  "VerifyProofOfPossession sample_crypto 0 (replicate 32 9) sample_enrolment [1] sample_verifier
     = VerifyProofOfPossession sample_crypto 0 (replicate 32 9) sample_enrolment [2] sample_verifier"
proof (rule possession_ignores_body)
  show "ah_bodyHash (ExtractAuthHeadersWithBodyHash sample_enrolment) \<noteq> ''''"
    by (simp add: sample_enrolment_headers)
qed (simp add: sample_enrolment_headers signed_by_def sample_decodes, simp add: sample_crypto_def)

end
