(* ===== verification/HpkeSafety.thy ===== *)
theory HpkeSafety
  imports Hpke
begin

text \<open>
  The properties of pkg/crypto: nonce discipline and delivery of frames, exactness of what is
  accepted, round trips and acceptance conditions of the request envelopes.
\<close>

section \<open>Sample parameters\<close>

text \<open>
  Parameters that satisfy the laws, for the witnesses: key agreement by addition of normalised
  scalars, a cipher that appends a checksum, and codecs of the messages the code builds.
\<close>

definition norm32 :: "bytes \<Rightarrow> bytes" where
  "norm32 a = take 32 (a @ replicate 32 0)"

definition sample_tag :: "bytes \<Rightarrow> bytes \<Rightarrow> bytes \<Rightarrow> bytes" where
  "sample_tag k n a = replicate 15 0 @ [sum_list k + sum_list n + sum_list a]"

definition sample_prims :: hpke_prims where
  "sample_prims = \<lparr>
     x25519 = (\<lambda>a b. Inr (map2 (+) (norm32 a) (norm32 b))),
     base_mult = norm32,
     hkdf = (\<lambda>secret salt info n. take n (secret @ replicate 32 0)),
     gcm_seal = (\<lambda>k n p a. p @ sample_tag k n a),
     gcm_open = (\<lambda>k n c a. if 16 \<le> length c \<and> drop (length c - 16) c = sample_tag k n a
                 then Some (take (length c - 16) c) else None),
     marshal_request = (\<lambda>m. if er_version m = 1 \<and> er_suite m = 1 \<and> length (er_client_pub m) = 32
        \<and> length (er_nonce m) = 12 \<and> er_binding m = [] \<and> er_request_id m = '''' \<and> er_compression m = 0
        then Some (er_client_pub m @ er_nonce m @ er_payload m) else None),
     unmarshal_request = (\<lambda>b. Some \<lparr> er_version = 1, er_suite = 1, er_client_pub = take 32 b,
        er_nonce = take 12 (drop 32 b), er_payload = drop 44 b, er_binding = [], er_request_id = '''',
        er_compression = 0 \<rparr>),
     marshal_frame = (\<lambda>f. if 0 \<le> sf_type f \<and> sf_type f < 256 \<and> sf_timestamp f = 0 \<and> length (sf_tag f) = 16
        then Some (put_u32 (sf_seq f) @ [word_of_int (sf_type f)] @ sf_tag f @ sf_payload f) else None),
     unmarshal_frame = (\<lambda>b. Some \<lparr> sf_seq = get_u32 (take 4 b), sf_type = uint (b ! 4),
        sf_payload = drop 21 b, sf_tag = take 16 (drop 5 b), sf_timestamp = 0 \<rparr>) \<rparr>"

lemma norm32_idem [simp]: "norm32 (norm32 a) = norm32 a" "length (norm32 a) = 32"
  by (simp_all add: norm32_def)

lemma map2_add_comm: "map2 (+) (as :: bytes) bs = map2 (+) bs as"
  by (induction as bs rule: list_induct2') (simp_all add: add.commute)

lemma sample_aead_ok: "aead_ok sample_prims"
proof -
  have t: "length (sample_tag k n a) = 16" for k n a by (simp add: sample_tag_def)
  have "(16 \<le> length c \<and> drop (length c - 16) c = sample_tag k n a \<and> take (length c - 16) c = p)
     \<longleftrightarrow> c = p @ sample_tag k n a" for k n a p c
  proof
    assume "16 \<le> length c \<and> drop (length c - 16) c = sample_tag k n a \<and> take (length c - 16) c = p"
    then show "c = p @ sample_tag k n a" by (metis append_take_drop_id)
  qed (simp add: t)
  moreover have "gcm_open sample_prims k n c a = Some p \<longleftrightarrow>
     16 \<le> length c \<and> drop (length c - 16) c = sample_tag k n a \<and> take (length c - 16) c = p" for k n c a p
    by (auto simp: sample_prims_def)
  moreover have "gcm_seal sample_prims k n p a = p @ sample_tag k n a" for k n p a by (simp add: sample_prims_def)
  ultimately show ?thesis by (simp only: aead_ok_def GCMTagLen_def t length_append simp_thms)
qed

lemma sample_dh_ok: "dh_ok sample_prims"
  by (simp add: dh_ok_def sample_prims_def) (metis map2_add_comm)

lemma sample_codec_ok: "codec_ok sample_prims"
proof -
  have 1: "marshal_request sample_prims m = Some b \<Longrightarrow> unmarshal_request sample_prims b = Some m" for m b
    by (auto simp: sample_prims_def split: if_splits)
  have 2: "marshal_frame sample_prims f = Some b \<Longrightarrow> unmarshal_frame sample_prims b = Some f" for f b
  proof -
    assume m: "marshal_frame sample_prims f = Some b"
    then have c: "0 \<le> sf_type f" "sf_type f < 256" "sf_timestamp f = 0" "length (sf_tag f) = 16"
      and b: "b = put_u32 (sf_seq f) @ [word_of_int (sf_type f)] @ sf_tag f @ sf_payload f"
      by (auto simp: sample_prims_def split: if_splits)
    have "b ! 4 = word_of_int (sf_type f)" by (simp add: b nth_append)
    moreover have "uint (word_of_int (sf_type f) :: byte) = sf_type f"
      using c by (simp add: unsigned_of_int take_bit_int_eq_self)
    ultimately show ?thesis using c by (simp add: sample_prims_def b)
  qed
  show ?thesis using 1 2 by (simp add: codec_ok_def)
qed

definition sample_session :: session where
  "sample_session = \<lparr> ClientEphPub = replicate 32 1, RequestKey = replicate 32 2, ResponseKey = replicate 32 3,
     ResponseIV = replicate 12 4, seqNum = 0, respAEAD = Some (replicate 32 3) \<rparr>"

section \<open>Nonce discipline\<close>

text \<open>
  C4: whatever frames a session sends, binary or protobuf, the i-th is sealed under the session key
  with the nonce of the i-th sequence number after the current one and carries that number; two
  frames never share a nonce; and when the 32-bit counter is used up every further frame is refused.
\<close>

theorem frames_use_fresh_nonces:
  assumes "length (ResponseIV s) = 12" "i < length fs" "j < length fs" "i \<noteq> j"
  defines "num \<equiv> \<lambda>k. seqNum s + word_of_nat k"
  defines "nonce \<equiv> \<lambda>k. computeFrameNonce (ResponseIV s) (num k)"
  shows "encrypt_run P fs s ! i =
      (if unat (seqNum s) + i < 2 ^ 32 - 1 then encode_frame P (session_key s) (nonce i) (num i) (fs ! i)
       else Inl ErrSeqNumOverflow)
    \<and> (max i j < 2 ^ 32 \<longrightarrow> nonce i \<noteq> nonce j)"
proof
  show "encrypt_run P fs s ! i =
      (if unat (seqNum s) + i < 2 ^ 32 - 1 then encode_frame P (session_key s) (nonce i) (num i) (fs ! i)
       else Inl ErrSeqNumOverflow)"
    unfolding nonce_def num_def by (rule encrypt_run_nth [OF assms(2)])
  have "nonce i \<noteq> nonce j" if lt: "i < 2 ^ 32" "j < 2 ^ 32"
  proof
    assume "nonce i = nonce j"
    then have "(word_of_nat i :: 32 word) = word_of_nat j"
      using frame_nonce_inj [OF assms(1)] by (simp add: nonce_def num_def)
    then have "unat (word_of_nat i :: 32 word) = unat (word_of_nat j :: 32 word)" by simp
    then show False using assms(4) unat_length_word [OF lt(1)] unat_length_word [OF lt(2)] by simp
  qed
  then show "max i j < 2 ^ 32 \<longrightarrow> nonce i \<noteq> nonce j" by simp
qed

theorem frames_use_fresh_nonces_witness:
  "encrypt_run sample_prims [BinFrame 1 [7], ProtoFrame 0 1 [8]] sample_session ! 1
     = encode_frame sample_prims (replicate 32 3) (computeFrameNonce (replicate 12 4) 1) 1 (ProtoFrame 0 1 [8])"
proof -
  have l: "length (ResponseIV sample_session) = 12" by (simp add: sample_session_def)
  show ?thesis
    using frames_use_fresh_nonces [OF l, of 1 "[BinFrame 1 [7], ProtoFrame 0 1 [8]]" 0 sample_prims]
    by (simp add: sample_session_def session_key_def del: encode_frame.simps encrypt_run.simps)
qed

section \<open>Frames\<close>

text \<open>
  C7: every frame a session emits is read back by a peer session with the same response key and
  base IV, independently of the other frames: same type, same payload, and the sequence number is
  its position. Binary payloads are below the 32-bit length field.
\<close>

theorem frames_delivered:
  assumes "aead_ok P" "codec_ok P" "session_key c = session_key s" "ResponseIV c = ResponseIV s"
    and "i < length fs" "encrypt_run P fs s ! i = Inr out"
  shows "case fs ! i of
      BinFrame ft p \<Rightarrow> 2 ^ 32 \<le> length p \<or> fst (DecryptFrame P out c) = Inr (ft, seqNum s + word_of_nat i, p)
    | ProtoFrame now ft p \<Rightarrow> fst (DecryptProtoFrame P out c) = Inr (ft, seqNum s + word_of_nat i, p)"
proof -
  have e: "encode_frame P (session_key c) (computeFrameNonce (ResponseIV c) (seqNum s + word_of_nat i))
      (seqNum s + word_of_nat i) (fs ! i) = Inr out"
    using encrypt_run_nth [OF assms(5), of P s] assms(3,4,6) by (simp split: if_splits)
  show ?thesis
  proof (cases "fs ! i")
    case (BinFrame ft p)
    then show ?thesis using DecryptFrame_encoded [OF assms(1) _ e [unfolded BinFrame]] by (cases "length p < 2 ^ 32") simp_all
  next
    case (ProtoFrame now ft p)
    then show ?thesis using DecryptProtoFrame_encoded [OF assms(1,2) e [unfolded ProtoFrame]] by simp
  qed
qed

lemma sample_bin_out:
  "\<exists>out. encrypt_run sample_prims [BinFrame 1 [7]] sample_session ! 0 = Inr out"
  by (subst encrypt_run_nth) (simp_all add: sample_session_def Let_def)

theorem frames_delivered_witness:
  "\<exists>out. fst (DecryptFrame sample_prims out sample_session) = Inr (1, 0, [7])"
proof -
  obtain out where "encrypt_run sample_prims [BinFrame 1 [7]] sample_session ! 0 = Inr out"
    using sample_bin_out by blast
  then have "fst (DecryptFrame sample_prims out sample_session) = Inr (1, 0, [7])"
    using frames_delivered [OF sample_aead_ok sample_codec_ok refl refl, of 0 "[BinFrame 1 [7]]" sample_session out]
    by (simp add: sample_session_def)
  then show ?thesis by blast
qed

lemma put_get_u32: "length b = 4 \<Longrightarrow> put_u32 (get_u32 b) = b"
proof -
  assume "length b = 4"
  then obtain b0 b1 b2 b3 where b: "b = [b0, b1, b2, b3]" by (auto simp: length_Suc_conv numeral_eq_Suc)
  show ?thesis unfolding b get_u32_def put_u32_def list.case
    by (intro list.inject [THEN iffD2] conjI refl; rule bit_word_eqI; auto simp: bit_simps dest: bit_imp_le_length)
qed

text \<open>
  A binary frame is accepted only if it is bit for bit the frame that a session with this key
  and base IV would have made from the type, sequence number and payload it yields: nothing in the
  header or the body can be altered, cut or extended.
\<close>

theorem accepted_frame_is_exact:
  assumes "aead_ok P" "fst (DecryptFrame P b c) = Inr (ft, seq, p)"
  shows "encode_frame P (session_key c) (computeFrameNonce (ResponseIV c) seq) seq (BinFrame ft p) = Inr b"
proof -
  let ?nonce = "computeFrameNonce (ResponseIV c) (get_u32 (take 4 (drop 1 b)))"
  note a = assms(2) [unfolded DecryptFrame_def Let_def getOrInit_eq BinaryFrameHeaderLen_def GCMTagLen_def prod.case]
  have len: "25 \<le> length b" by (rule ccontr) (use a in simp)
  define pl where "pl = unat (get_u32 (take 4 (drop 5 b)))"
  define sq where "sq = get_u32 (take 4 (drop 1 b))"
  define op where "op = gcm_open P (session_key c) (computeFrameNonce (ResponseIV c) sq) (drop 9 b) (take 9 b)"
  note a' = a [folded pl_def sq_def]
  have exp: "length b = 9 + pl + 16"
  proof (rule ccontr)
    assume "length b \<noteq> 9 + pl + 16"
    then show False using a' len by (simp only: if_True if_False not_False_eq_True fst_conv split: if_split_asm) simp_all
  qed
  have "op = Some p \<and> ft = hd b \<and> seq = sq"
  proof -
    have "\<not> length b < 9 + 16" using len by simp
    then have "fst (case op of None \<Rightarrow> (Inl ErrOpen, c\<lparr>respAEAD := Some (session_key c)\<rparr>)
        | Some plaintext \<Rightarrow> (Inr (hd b, sq, plaintext), c\<lparr>respAEAD := Some (session_key c)\<rparr>)) = Inr (ft, seq, p)"
      using a' exp by (simp add: op_def)
    then show ?thesis by (cases op) simp_all
  qed
  then have o: "gcm_open P (session_key c) ?nonce (drop 9 b) (take 9 b) = Some p"
    and ft: "ft = hd b" and seq: "seq = get_u32 (take 4 (drop 1 b))"
    by (simp_all only: op_def sq_def)
  have d: "drop 9 b = gcm_seal P (session_key c) ?nonce p (take 9 b)" using o aead_open [OF assms(1)] by blast
  have "length (drop 9 b) = length p + 16" using d aead_length [OF assms(1)] by (simp add: GCMTagLen_def)
  then have "length p = pl" using exp by simp
  then have lp: "length p = unat (get_u32 (take 4 (drop 5 b)))" by (simp only: pl_def)
  have l4: "length (take 4 (drop 1 b)) = 4" "length (take 4 (drop 5 b)) = 4" using len by simp_all
  have "take (1 + (4 + 4)) b = take 1 b @ take 4 (drop 1 b) @ take 4 (drop 5 b)"
    by (simp only: take_add drop_drop) simp
  moreover have "take 1 b = [hd b]" using len by (cases b) auto
  ultimately have h: "take 9 b = ft # put_u32 seq @ put_u32 (word_of_nat (length p))"
    unfolding lp of_nat_unat ucast_id seq ft put_get_u32 [OF l4(1)] put_get_u32 [OF l4(2)] by simp
  have "b = take 9 b @ gcm_seal P (session_key c) ?nonce p (take 9 b)" by (metis d append_take_drop_id)
  then show ?thesis unfolding h by (simp add: seq)
qed

lemma sample_frame_accepted:
  "fst (DecryptFrame sample_prims ([1, 0, 0, 0, 0, 0, 0, 0, 1] @ [7] @
      sample_tag (replicate 32 3) (computeFrameNonce (replicate 12 4) 0) [1, 0, 0, 0, 0, 0, 0, 0, 1]) sample_session)
    = Inr (1, 0, [7])"
proof -
  have e: "encode_frame sample_prims (session_key sample_session) (computeFrameNonce (ResponseIV sample_session) 0) 0
      (BinFrame 1 [7]) = Inr ([1, 0, 0, 0, 0, 0, 0, 0, 1] @ [7] @
      sample_tag (replicate 32 3) (computeFrameNonce (replicate 12 4) 0) [1, 0, 0, 0, 0, 0, 0, 0, 1])"
    by (simp add: sample_session_def session_key_def put_u32_def Let_def sample_prims_def)
  show ?thesis using DecryptFrame_encoded [OF sample_aead_ok _ e] by simp
qed

theorem accepted_frame_is_exact_witness:
  "encode_frame sample_prims (session_key sample_session) (computeFrameNonce (ResponseIV sample_session) 0) 0
     (BinFrame 1 [7])
   = Inr ([1, 0, 0, 0, 0, 0, 0, 0, 1] @ [7] @
       sample_tag (replicate 32 3) (computeFrameNonce (replicate 12 4) 0) [1, 0, 0, 0, 0, 0, 0, 0, 1])"
  by (rule accepted_frame_is_exact [OF sample_aead_ok sample_frame_accepted])

text \<open>
  The answer to a frame does not depend on the frames received before: neither format compares
  the sequence number with an expected one, so a frame that was accepted once is accepted again and
  in any order (the comment of DecryptProtoFrame says that it validates the sequence number).
\<close>

theorem frame_order_unchecked:
  "fst (DecryptFrame P b (snd (DecryptFrame P b' c))) = fst (DecryptFrame P b c)
   \<and> fst (DecryptProtoFrame P b (snd (DecryptProtoFrame P b' c))) = fst (DecryptProtoFrame P b c)"
proof -
  let ?d = "c\<lparr> respAEAD := Some (session_key c) \<rparr>"
  have k: "session_key ?d = session_key c" "\<And>w y. ResponseIV (w\<lparr> respAEAD := y \<rparr>) = ResponseIV w"
    by (simp_all add: session_key_def)
  have 1: "snd (DecryptFrame P x c) = c \<or> snd (DecryptFrame P x c) = ?d" for x
    unfolding DecryptFrame_def Let_def getOrInit_eq prod.case
    by (simp only: snd_conv split: if_split option.split) blast
  have 2: "snd (DecryptProtoFrame P x c) = c \<or> snd (DecryptProtoFrame P x c) = ?d" for x
    unfolding DecryptProtoFrame_def Let_def getOrInit_eq prod.case
    by (simp only: snd_conv split: if_split option.split) blast
  have 3: "fst (DecryptFrame P x ?d) = fst (DecryptFrame P x c)" for x
    unfolding DecryptFrame_def Let_def getOrInit_eq prod.case k
    by (simp only: fst_conv if_distrib [of fst] option.case_distrib [of fst])
  have 4: "fst (DecryptProtoFrame P x ?d) = fst (DecryptProtoFrame P x c)" for x
    unfolding DecryptProtoFrame_def Let_def getOrInit_eq prod.case k
    by (simp only: fst_conv if_distrib [of fst] option.case_distrib [of fst])
  show ?thesis using 1 [of b'] 2 [of b'] 3 [of b] 4 [of b] by metis
qed

text \<open>
  A session that was zeroized does not refuse to encrypt: the cached cipher is gone, so the next
  frame builds one from the erased key. The frame is then readable with a session made of zero
  bytes only, whatever the keys were.
\<close>

theorem zeroized_session_leaks:
  assumes "aead_ok P" "length (ResponseKey s) = 32" "length (ResponseIV s) = 12" "seqNum s \<noteq> 0xFFFFFFFF"
    and "length p < 2 ^ 32" "ResponseKey z = replicate 32 0" "ResponseIV z = replicate 12 0" "respAEAD z = None"
  shows "\<exists>out. fst (EncryptFrame P ft p (session_Zeroize s)) = Inr out
    \<and> fst (DecryptFrame P out z) = Inr (ft, seqNum s, p)"
proof -
  let ?s = "session_Zeroize s"
  have k: "session_key ?s = session_key z" "ResponseIV ?s = ResponseIV z" "seqNum ?s = seqNum s"
    using assms by (simp_all add: session_Zeroize_def Zeroize_def session_key_def map_replicate_const)
  obtain out where o: "encode_frame P (session_key z) (computeFrameNonce (ResponseIV z) (seqNum s)) (seqNum s) (BinFrame ft p) = Inr out"
    by (simp add: Let_def)
  then have "fst (EncryptFrame P ft p ?s) = Inr out" using assms(4) k by (simp add: EncryptFrame_eq del: encode_frame.simps)
  moreover have "fst (DecryptFrame P out z) = Inr (ft, seqNum s, p)"
    using DecryptFrame_encoded [OF assms(1,5) o] by simp
  ultimately show ?thesis by blast
qed

theorem zeroized_session_leaks_witness:
  "\<exists>out. fst (EncryptFrame sample_prims 1 [7] (session_Zeroize sample_session)) = Inr out
    \<and> fst (DecryptFrame sample_prims out (session_Zeroize sample_session)) = Inr (1, 0, [7])"
proof -
  have s: "length (ResponseKey sample_session) = 32" "length (ResponseIV sample_session) = 12"
    "seqNum sample_session = 0" "ResponseKey (session_Zeroize sample_session) = replicate 32 0"
    "ResponseIV (session_Zeroize sample_session) = replicate 12 0" "respAEAD (session_Zeroize sample_session) = None"
    by (simp_all add: sample_session_def session_Zeroize_def Zeroize_def)
  show ?thesis
    using zeroized_session_leaks [OF sample_aead_ok s(1,2) _ _ s(4-6), of "[7]" 1] by (simp add: s(3))
qed

section \<open>Requests\<close>

lemma binary_round:
  assumes "aead_ok P" "dh_ok P" "length nonce = 12"
    and "EncryptBinaryHPKERequest P (Some nonce) clientPriv (base_mult P nodePriv) plaintext = Inr (out, cs)"
  shows "UnwrapBinaryHPKERequest P nodePriv out = Inr (plaintext, cs)
    \<and> ExtractSenderPub out = Inr (ClientEphPub cs) \<and> seqNum cs = 0"
proof -
  let ?pub = "base_mult P clientPriv"
  have lp: "length ?pub = 32" using assms(2) by (simp add: dh_ok_def)
  obtain secret where sec: "computeX25519SharedSecret P clientPriv (base_mult P nodePriv) = Inr secret"
    using assms(4) by (auto simp: EncryptBinaryHPKERequest_def Let_def split: sum.splits)
  define s where "s = derive_session P secret nonce ?pub"
  have e: "out = ?pub @ nonce @ gcm_seal P (RequestKey s) nonce plaintext []" "cs = s"
    using assms(4) sec by (auto simp: EncryptBinaryHPKERequest_def Let_def s_def)
  have sec': "computeX25519SharedSecret P nodePriv ?pub = Inr secret"
    using sec assms(2) by (simp add: computeX25519SharedSecret_def dh_ok_def)
  have cut: "take 32 out = ?pub" "take 12 (drop 32 out) = nonce" "drop 44 out = gcm_seal P (RequestKey s) nonce plaintext []"
    using lp assms(3) by (simp_all add: e(1))
  have len: "\<not> length out < 60" using lp assms(3) aead_length [OF assms(1)] by (simp add: e(1) GCMTagLen_def)
  have "UnwrapBinaryHPKERequest P nodePriv out = Inr (plaintext, cs)"
    unfolding UnwrapBinaryHPKERequest_def Let_def cut sec' sum.case s_def [symmetric] aead_open_seal [OF assms(1)] e(2)
    using len by (simp add: MinBinaryRequestLen_def)
  moreover have "ClientEphPub cs = ?pub" "seqNum cs = 0" by (simp_all add: e(2) s_def derive_session_def Let_def)
  ultimately show ?thesis using len cut by (simp add: ExtractSenderPub_def)
qed

text \<open>
  C8: a binary request made for the public key of a node is unwrapped by the private key to the
  same plaintext, and both ends then hold equal sessions: same keys, same base IV, counter at zero.
\<close>

theorem binary_request_round_trip:
  assumes "aead_ok P" "dh_ok P" "length nonce = 12"
    and "EncryptBinaryHPKERequest P (Some nonce) clientPriv (base_mult P nodePriv) plaintext = Inr (out, cs)"
  shows "UnwrapBinaryHPKERequest P nodePriv out = Inr (plaintext, cs)
    \<and> ExtractSenderPub out = Inr (ClientEphPub cs) \<and> seqNum cs = 0"
  by (rule binary_round [OF assms])

lemma zero_neq_three_byte: "(3 :: byte) \<noteq> 0" by simp

lemma sample_secret: "\<exists>secret. computeX25519SharedSecret sample_prims [1] (norm32 [2]) = Inr secret"
proof -
  have "map2 (+) (norm32 [1]) (norm32 [2]) ! 0 = (3 :: byte)" by (simp add: norm32_def nth_append)
  then have "map2 (+) (norm32 [1]) (norm32 [2]) \<noteq> replicate 32 (0 :: byte)"
    by (metis nth_replicate zero_less_numeral zero_neq_three_byte)
  then show ?thesis by (simp add: computeX25519SharedSecret_def sample_prims_def)
qed

lemma binary_accepted:
  assumes "aead_ok P" "UnwrapBinaryHPKERequest P nodePriv raw = Inr (plaintext, s)"
  shows "\<exists>secret. x25519 P nodePriv (ClientEphPub s) = Inr secret \<and> secret \<noteq> replicate 32 0
    \<and> s = derive_session P secret (take 12 (drop 32 raw)) (take 32 raw)
    \<and> raw = ClientEphPub s @ take 12 (drop 32 raw) @ gcm_seal P (RequestKey s) (take 12 (drop 32 raw)) plaintext []
    \<and> drop 44 raw = gcm_seal P (RequestKey s) (take 12 (drop 32 raw)) plaintext []"
proof -
  let ?n = "take 12 (drop 32 raw)"
  obtain secret where sec: "computeX25519SharedSecret P nodePriv (take 32 raw) = Inr secret"
    using assms(2) by (auto simp: UnwrapBinaryHPKERequest_def Let_def split: if_splits sum.splits)
  define t where "t = derive_session P secret ?n (take 32 raw)"
  have o: "gcm_open P (RequestKey t) ?n (drop 44 raw) [] = Some plaintext" and st: "s = t"
    using assms(2) sec by (auto simp: UnwrapBinaryHPKERequest_def Let_def t_def split: if_splits option.splits)
  have pub: "ClientEphPub s = take 32 raw" by (simp add: st t_def derive_session_def Let_def)
  have "raw = take 32 raw @ ?n @ drop 12 (drop 32 raw)" by (simp only: append_take_drop_id)
  then have raw: "raw = take 32 raw @ ?n @ drop 44 raw" by simp
  have d: "drop 44 raw = gcm_seal P (RequestKey s) ?n plaintext []" using o aead_open [OF assms(1)] st by blast
  then have "raw = ClientEphPub s @ ?n @ gcm_seal P (RequestKey s) ?n plaintext []" using raw pub by metis
  moreover have "x25519 P nodePriv (ClientEphPub s) = Inr secret \<and> secret \<noteq> replicate 32 0"
    using sec unfolding pub computeX25519SharedSecret_def by (auto split: sum.splits x25519_error.splits if_splits)
  ultimately show ?thesis using st t_def d by blast
qed

text \<open>
  A binary request is accepted only if it is the client's public key, the nonce and the sealed
  plaintext, under the request key that the agreement with that public key gives; the agreement did
  not end in the all-zero secret of a low-order point.
\<close>

theorem accepted_binary_request:
  assumes "aead_ok P" "UnwrapBinaryHPKERequest P nodePriv raw = Inr (plaintext, s)"
  shows "\<exists>secret. x25519 P nodePriv (ClientEphPub s) = Inr secret \<and> secret \<noteq> replicate 32 0
    \<and> s = derive_session P secret (take 12 (drop 32 raw)) (take 32 raw)
    \<and> raw = ClientEphPub s @ take 12 (drop 32 raw) @ gcm_seal P (RequestKey s) (take 12 (drop 32 raw)) plaintext []
    \<and> drop 44 raw = gcm_seal P (RequestKey s) (take 12 (drop 32 raw)) plaintext []"
  by (rule binary_accepted [OF assms])

lemma sample_binary:
  "\<exists>out cs. EncryptBinaryHPKERequest sample_prims (Some (replicate 12 5)) [1] (base_mult sample_prims [2]) [9, 9]
     = Inr (out, cs)"
proof -
  have b: "base_mult sample_prims [2] = norm32 [2]" by (simp add: sample_prims_def)
  obtain secret where "computeX25519SharedSecret sample_prims [1] (norm32 [2]) = Inr secret"
    using sample_secret by blast
  then show ?thesis unfolding b by (simp add: EncryptBinaryHPKERequest_def Let_def)
qed

theorem binary_request_round_trip_witness:
  "\<exists>out cs. UnwrapBinaryHPKERequest sample_prims [2] out = Inr ([9, 9], cs) \<and> seqNum cs = 0"
proof -
  obtain out cs where e: "EncryptBinaryHPKERequest sample_prims (Some (replicate 12 5)) [1] (base_mult sample_prims [2]) [9, 9]
     = Inr (out, cs)" using sample_binary by blast
  show ?thesis using binary_request_round_trip [OF sample_aead_ok sample_dh_ok _ e] by auto
qed

theorem accepted_binary_request_witness:
  "\<exists>raw s. UnwrapBinaryHPKERequest sample_prims [2] raw = Inr ([9, 9], s) \<and>
     raw = ClientEphPub s @ take 12 (drop 32 raw) @ gcm_seal sample_prims (RequestKey s) (take 12 (drop 32 raw)) [9, 9] []"
proof -
  obtain raw s where e: "EncryptBinaryHPKERequest sample_prims (Some (replicate 12 5)) [1] (base_mult sample_prims [2]) [9, 9]
     = Inr (raw, s)" using sample_binary by blast
  have u: "UnwrapBinaryHPKERequest sample_prims [2] raw = Inr ([9, 9], s)"
    using binary_round [OF sample_aead_ok sample_dh_ok _ e] by simp
  have "raw = ClientEphPub s @ take 12 (drop 32 raw) @ gcm_seal sample_prims (RequestKey s) (take 12 (drop 32 raw)) [9, 9] []"
    using accepted_binary_request [OF sample_aead_ok u] by (elim exE conjE)
  with u show ?thesis by (intro exI conjI)
qed

lemma proto_accepted:
  assumes "aead_ok P" "UnwrapProtoHPKERequest P nodePriv raw expected = Inr (plaintext, s, req)"
  shows "unmarshal_request P raw = Some req \<and> er_version req = 1
    \<and> er_suite req = CIPHER_SUITE_DHKEM_X25519_AES256_GCM
    \<and> length (er_client_pub req) = 32 \<and> length (er_nonce req) = 12
    \<and> (expected = [] \<or> er_binding req = [] \<or> er_binding req = expected)
    \<and> (\<exists>secret. x25519 P nodePriv (er_client_pub req) = Inr secret \<and> secret \<noteq> replicate 32 0
        \<and> s = derive_session P secret (er_nonce req) (er_client_pub req)
        \<and> er_payload req = gcm_seal P (RequestKey s) (er_nonce req) plaintext [])"
proof -
  have l: "\<not> length raw < 40"
  proof
    assume "length raw < 40" then show False using assms(2) by (simp add: UnwrapProtoHPKERequest_def)
  qed
  obtain m where m: "unmarshal_request P raw = Some m"
  proof (cases "unmarshal_request P raw")
    case None then show thesis using assms(2) l by (simp add: UnwrapProtoHPKERequest_def)
  qed
  note a = assms(2) [unfolded UnwrapProtoHPKERequest_def m option.case Let_def if_not_P [OF l]]
  have c1: "er_version m = 1" by (rule ccontr) (use a in simp)
  have c2: "er_suite m = CIPHER_SUITE_DHKEM_X25519_AES256_GCM" by (rule ccontr) (use a c1 in simp)
  have c3: "length (er_client_pub m) = 32" by (rule ccontr) (use a c1 c2 in simp)
  have c4: "length (er_nonce m) = 12" by (rule ccontr) (use a c1 c2 c3 in simp)
  have c5: "\<not> length (er_payload m) < GCMTagLen" by (rule notI) (use a c1 c2 c3 c4 in simp)
  have c6: "\<not> (expected \<noteq> [] \<and> er_binding m \<noteq> [] \<and> er_binding m \<noteq> expected)"
    by (rule notI) (use a c1 c2 c3 c4 c5 in simp)
  have a2: "(case computeX25519SharedSecret P nodePriv (er_client_pub m) of
       Inl e \<Rightarrow> Inl e
     | Inr secret \<Rightarrow> (case gcm_open P (RequestKey (derive_session P secret (er_nonce m) (er_client_pub m))) (er_nonce m) (er_payload m) [] of
         None \<Rightarrow> Inl ErrOpen
       | Some pt \<Rightarrow> Inr (pt, derive_session P secret (er_nonce m) (er_client_pub m), m))) = Inr (plaintext, s, req)"
    using a unfolding c1 c2 c3 c4 if_not_P [OF c5] if_not_P [OF c6] by (simp only: simp_thms if_False)
  obtain secret where sec: "computeX25519SharedSecret P nodePriv (er_client_pub m) = Inr secret"
    using a2 by (cases "computeX25519SharedSecret P nodePriv (er_client_pub m)") simp_all
  have o: "gcm_open P (RequestKey (derive_session P secret (er_nonce m) (er_client_pub m))) (er_nonce m) (er_payload m) []
      = Some plaintext" "s = derive_session P secret (er_nonce m) (er_client_pub m)" "req = m"
    using a2 unfolding sec sum.case
    by (cases "gcm_open P (RequestKey (derive_session P secret (er_nonce m) (er_client_pub m))) (er_nonce m) (er_payload m) []"; simp)+
  note c = c1 c2 c3 c4
  have "x25519 P nodePriv (er_client_pub m) = Inr secret \<and> secret \<noteq> replicate 32 0"
    using sec unfolding computeX25519SharedSecret_def by (auto split: sum.splits x25519_error.splits if_splits)
  moreover have "er_payload m = gcm_seal P (RequestKey s) (er_nonce m) plaintext []"
    using o aead_open [OF assms(1)] by blast
  ultimately show ?thesis using m c c6 o(2,3) by blast
qed

text \<open>
  A protobuf request is accepted only with version 1, the one supported cipher suite, a 32-byte
  client key, a 12-byte nonce and the sealed plaintext of the agreement with that key; and when the
  node has an attestation binding and the request names one, they are equal. A request that names
  none is accepted without the comparison.
\<close>

theorem accepted_proto_request:
  assumes "aead_ok P" "UnwrapProtoHPKERequest P nodePriv raw expected = Inr (plaintext, s, req)"
  shows "unmarshal_request P raw = Some req \<and> er_version req = 1
    \<and> er_suite req = CIPHER_SUITE_DHKEM_X25519_AES256_GCM
    \<and> length (er_client_pub req) = 32 \<and> length (er_nonce req) = 12
    \<and> (expected = [] \<or> er_binding req = [] \<or> er_binding req = expected)
    \<and> (\<exists>secret. x25519 P nodePriv (er_client_pub req) = Inr secret \<and> secret \<noteq> replicate 32 0
        \<and> s = derive_session P secret (er_nonce req) (er_client_pub req)
        \<and> er_payload req = gcm_seal P (RequestKey s) (er_nonce req) plaintext [])"
  by (rule proto_accepted [OF assms])

lemma proto_round:
  assumes "aead_ok P" "dh_ok P" "codec_ok P" "length nonce = 12"
    and "EncryptProtoHPKERequest P (Some nonce) clientPriv (base_mult P nodePriv) plaintext binding rid = Inr (out, cs)"
    and "40 \<le> length out"
  shows "\<exists>req. UnwrapProtoHPKERequest P nodePriv out expected =
      (if expected \<noteq> [] \<and> binding \<noteq> [] \<and> binding \<noteq> expected then Inl ErrAttestationMismatch
       else Inr (plaintext, cs, req)) \<and> er_request_id req = rid"
proof -
  let ?pub = "base_mult P clientPriv"
  have lp: "length ?pub = 32" using assms(2) by (simp add: dh_ok_def)
  obtain secret where sec: "computeX25519SharedSecret P clientPriv (base_mult P nodePriv) = Inr secret"
    using assms(5) by (auto simp: EncryptProtoHPKERequest_def Let_def split: sum.splits)
  define s where "s = derive_session P secret nonce ?pub"
  define m where "m = \<lparr> er_version = 1, er_suite = CIPHER_SUITE_DHKEM_X25519_AES256_GCM,
      er_client_pub = ?pub, er_nonce = nonce, er_payload = gcm_seal P (RequestKey s) nonce plaintext [],
      er_binding = binding, er_request_id = rid, er_compression = 0 \<rparr>"
  have e: "marshal_request P m = Some out" "cs = s"
    using assms(5) sec unfolding EncryptProtoHPKERequest_def Let_def
    by (auto simp: s_def m_def split: option.splits)
  have u: "unmarshal_request P out = Some m" using assms(3) e(1) by (simp add: codec_ok_def)
  have sec': "computeX25519SharedSecret P nodePriv ?pub = Inr secret"
    using sec assms(2) by (simp add: computeX25519SharedSecret_def dh_ok_def)
  have f: "er_version m = 1" "er_suite m = CIPHER_SUITE_DHKEM_X25519_AES256_GCM" "er_client_pub m = ?pub"
    "er_nonce m = nonce" "er_payload m = gcm_seal P (RequestKey s) nonce plaintext []" "er_binding m = binding"
    "er_request_id m = rid" by (simp_all add: m_def)
  have t: "\<not> length (gcm_seal P (RequestKey s) nonce plaintext []) < GCMTagLen" using aead_length [OF assms(1)] by simp
  have "UnwrapProtoHPKERequest P nodePriv out expected =
      (if expected \<noteq> [] \<and> binding \<noteq> [] \<and> binding \<noteq> expected then Inl ErrAttestationMismatch else Inr (plaintext, cs, m))"
    unfolding UnwrapProtoHPKERequest_def u option.case f sec' sum.case Let_def s_def [symmetric]
      aead_open_seal [OF assms(1)] e(2) using assms(4,6) lp t by simp
  then show ?thesis using f(7) by blast
qed

text \<open>
  A protobuf request made for the public key of a node is unwrapped by the private key to the
  same plaintext with equal sessions at both ends, unless the binding it names differs from the
  node's, which gives ErrAttestationMismatch.
\<close>

theorem proto_request_round_trip:
  assumes "aead_ok P" "dh_ok P" "codec_ok P" "length nonce = 12"
    and "EncryptProtoHPKERequest P (Some nonce) clientPriv (base_mult P nodePriv) plaintext binding rid = Inr (out, cs)"
    and "40 \<le> length out"
  shows "\<exists>req. UnwrapProtoHPKERequest P nodePriv out expected =
      (if expected \<noteq> [] \<and> binding \<noteq> [] \<and> binding \<noteq> expected then Inl ErrAttestationMismatch
       else Inr (plaintext, cs, req)) \<and> er_request_id req = rid"
  by (rule proto_round [OF assms])

lemma sample_proto:
  "\<exists>out cs. EncryptProtoHPKERequest sample_prims (Some (replicate 12 5)) [1] (base_mult sample_prims [2]) [9, 9] [] ''''
     = Inr (out, cs) \<and> 40 \<le> length out"
proof -
  have b: "base_mult sample_prims x = norm32 x" for x by (simp add: sample_prims_def)
  obtain secret where s: "computeX25519SharedSecret sample_prims [1] (norm32 [2]) = Inr secret"
    using sample_secret by blast
  let ?k = "RequestKey (derive_session sample_prims secret (replicate 12 5) (norm32 [1]))"
  have "marshal_request sample_prims \<lparr>er_version = 1, er_suite = CIPHER_SUITE_DHKEM_X25519_AES256_GCM,
        er_client_pub = norm32 [1], er_nonce = replicate 12 5, er_payload = gcm_seal sample_prims ?k (replicate 12 5) [9, 9] [],
        er_binding = [], er_request_id = '''', er_compression = 0\<rparr>
      = Some (norm32 [1] @ replicate 12 5 @ gcm_seal sample_prims ?k (replicate 12 5) [9, 9] [])"
    by (simp add: sample_prims_def CIPHER_SUITE_DHKEM_X25519_AES256_GCM_def)
  then show ?thesis by (simp add: EncryptProtoHPKERequest_def b s Let_def)
qed

theorem proto_request_round_trip_witness:
  "\<exists>out cs req. UnwrapProtoHPKERequest sample_prims [2] out [] = Inr ([9, 9], cs, req)"
proof -
  obtain out cs where o: "EncryptProtoHPKERequest sample_prims (Some (replicate 12 5)) [1] (base_mult sample_prims [2]) [9, 9] [] ''''
     = Inr (out, cs)" "40 \<le> length out" using sample_proto by blast
  show ?thesis
    using proto_request_round_trip [OF sample_aead_ok sample_dh_ok sample_codec_ok _ o(1,2), of "[]"] by auto
qed

theorem accepted_proto_request_witness:
  "\<exists>raw req. unmarshal_request sample_prims raw = Some req \<and> length (er_client_pub req) = 32"
proof -
  obtain out cs where o: "EncryptProtoHPKERequest sample_prims (Some (replicate 12 5)) [1] (base_mult sample_prims [2]) [9, 9] [] ''''
     = Inr (out, cs)" "40 \<le> length out" using sample_proto by blast
  obtain req where "UnwrapProtoHPKERequest sample_prims [2] out [] = Inr ([9, 9], cs, req)"
    using proto_round [OF sample_aead_ok sample_dh_ok sample_codec_ok _ o(1,2), of "[]"] by auto
  from accepted_proto_request [OF sample_aead_ok this] show ?thesis by blast
qed

text \<open>
  The payload envelope round-trips: what is encrypted for a public key, with an explicit or an
  ephemeral sender key, decrypts with the private key under the same context, where an empty context
  stands for the default one, and names the sender's public key.
\<close>

theorem payload_round_trip:
  assumes "aead_ok P" "dh_ok P" "length nonce = 12"
    and "EncryptPayloadHPKEWithSenderKey P (Some nonce) senderPriv (base_mult P priv) plaintext info = Inr out"
    and "info' = info \<or> {info, info'} = {'''', DefaultHPKEInfo}"
  shows "DecryptPayloadHPKEWithSenderPub P priv out info' = Inr (plaintext, base_mult P senderPriv)
    \<and> EncryptPayloadHPKE P (Some senderPriv) (Some nonce) (base_mult P priv) plaintext info = Inr out"
proof -
  let ?pub = "base_mult P senderPriv"
  define ctx where "ctx = (if info = '''' then DefaultHPKEInfo else info)"
  have ctx': "ctx = (if info' = '''' then DefaultHPKEInfo else info')"
    using assms(5) by (auto simp: ctx_def doubleton_eq_iff DefaultHPKEInfo_def)
  have lp: "length ?pub = 32" using assms(2) by (simp add: dh_ok_def)
  obtain secret where sec: "computeX25519SharedSecret P senderPriv (base_mult P priv) = Inr secret"
    using assms(4) by (auto simp: EncryptPayloadHPKEWithSenderKey_def Let_def split: sum.splits)
  define k where "k = hkdf P secret [] ctx 32"
  have out: "out = ?pub @ nonce @ gcm_seal P k nonce plaintext []"
    using assms(4) sec by (simp add: EncryptPayloadHPKEWithSenderKey_def Let_def k_def ctx_def)
  have sec': "computeX25519SharedSecret P priv ?pub = Inr secret"
    using sec assms(2) by (simp add: computeX25519SharedSecret_def dh_ok_def)
  have cut: "take 32 out = ?pub" "take 12 (drop 32 out) = nonce" "drop 44 out = gcm_seal P k nonce plaintext []"
    using lp assms(3) by (simp_all add: out)
  have len: "\<not> length out < 32 + 12 + 16" using lp assms(3) aead_length [OF assms(1)] by (simp add: out GCMTagLen_def)
  have "DecryptPayloadHPKEWithSenderPub P priv out info' = Inr (plaintext, ?pub)"
    unfolding DecryptPayloadHPKEWithSenderPub_def Let_def cut sec' sum.case ctx' [symmetric] k_def [symmetric]
      aead_open_seal [OF assms(1)] using len by simp
  then show ?thesis using assms(4) by (simp add: EncryptPayloadHPKE_def)
qed

theorem payload_round_trip_witness:
  "\<exists>out. DecryptPayloadHPKEWithSenderPub sample_prims [2] out '''' = Inr ([9], norm32 [1])"
proof -
  have b: "base_mult sample_prims x = norm32 x" for x by (simp add: sample_prims_def)
  obtain secret where s: "computeX25519SharedSecret sample_prims [1] (norm32 [2]) = Inr secret"
    using sample_secret by blast
  then obtain out where "EncryptPayloadHPKEWithSenderKey sample_prims (Some (replicate 12 5)) [1] (base_mult sample_prims [2]) [9]
      DefaultHPKEInfo = Inr out" by (simp add: EncryptPayloadHPKEWithSenderKey_def b Let_def)
  then show ?thesis
    using payload_round_trip [OF sample_aead_ok sample_dh_ok, of "replicate 12 5" "[1]" "[2]" "[9]" DefaultHPKEInfo out "''''"]
    by (auto simp: b)
qed

end
