(* ===== verification/SseSafety.thy ===== *)
theory SseSafety
  imports SseWriter HpkeSafety
begin

text \<open>
  The properties of the encrypting response writer and of request unwrapping: the client reads the
  events of the engine's stream, in order and however it was cut into writes; a plain response
  becomes two frames; nothing is accepted that was not sealed.
\<close>

section \<open>What the client reads\<close>

text \<open>A client opens frames of the format it negotiated; binary types read as integers.\<close>

definition open_frame :: "hpke_prims \<Rightarrow> bool \<Rightarrow> bytes \<Rightarrow> session \<Rightarrow> (hpke_error + (int \<times> 32 word \<times> bytes)) \<times> session" where
  "open_frame P isProtobuf b c =
     (if isProtobuf then DecryptProtoFrame P b c
      else (case DecryptFrame P b c of (r, c') \<Rightarrow> (map_sum id (\<lambda>(t, n, p). (uint t, n, p)) r, c')))"

fun read_frames :: "hpke_prims \<Rightarrow> bool \<Rightarrow> bytes list \<Rightarrow> session \<Rightarrow> (hpke_error + (int \<times> 32 word \<times> bytes)) list" where
  "read_frames P isProtobuf [] c = []"
| "read_frames P isProtobuf (b # bs) c =
     fst (open_frame P isProtobuf b c) # read_frames P isProtobuf bs (snd (open_frame P isProtobuf b c))"

text \<open>The encrypting side of the writer is a frame channel to such a client.\<close>

interpretation wf: frame_channel "\<lambda>(bt, pt, p). encrypt_out P clk isProtobuf bt pt p" "open_frame P isProtobuf"
  "sessions_linked (aead_ok P \<and> codec_ok P)" "\<lambda>(bt, pt, p). length p < 2 ^ 32"
  "\<lambda>(bt, pt, p) s. (if isProtobuf then pt else uint bt, seqNum s, p)" for P clk isProtobuf
proof
  fix s c s' :: session and f :: "byte \<times> int \<times> bytes" and out
  obtain bt pt p where f: "f = (bt, pt, p)" by (cases f)
  assume l: "sessions_linked (aead_ok P \<and> codec_ok P) s c" and fit: "case f of (bt, pt, p) \<Rightarrow> length p < 2 ^ 32"
    and e: "(case f of (bt, pt, p) \<Rightarrow> encrypt_out P clk isProtobuf bt pt p) s = (Inr out, s')"
  have lb: "sessions_linked (aead_ok P) s c" using l by (simp add: sessions_linked_def)
  show "fst (open_frame P isProtobuf out c) =
      Inr ((case f of (bt, pt, p) \<Rightarrow> \<lambda>s. (if isProtobuf then pt else uint bt, seqNum s, p)) s)
      \<and> sessions_linked (aead_ok P \<and> codec_ok P) s' (snd (open_frame P isProtobuf out c))"
  proof (cases isProtobuf)
    case True
    then show ?thesis
      using pf.delivered [OF l, of "(clk (seqNum s), pt, p)" out s'] e f by (simp add: encrypt_out_def open_frame_def)
  next
    case False
    then show ?thesis
      using bf.delivered [OF lb, of "(bt, p)" out s'] e f fit l
      by (auto simp: encrypt_out_def open_frame_def sessions_linked_def split: prod.split)
  qed
next
  fix s c s' :: session and f :: "byte \<times> int \<times> bytes" and e
  assume l: "sessions_linked (aead_ok P \<and> codec_ok P) s c"
    and e: "(case f of (bt, pt, p) \<Rightarrow> encrypt_out P clk isProtobuf bt pt p) s = (Inl e, s')"
  have lb: "sessions_linked (aead_ok P) s c" using l by (simp add: sessions_linked_def)
  obtain bt pt p where f: "f = (bt, pt, p)" by (cases f)
  show "sessions_linked (aead_ok P \<and> codec_ok P) s' c"
  proof (cases isProtobuf)
    case True
    then show ?thesis using pf.failed [OF l, of "(clk (seqNum s), pt, p)" e s'] e f by (simp add: encrypt_out_def)
  next
    case False
    then show ?thesis using bf.failed [OF lb, of "(bt, p)" e s'] e f l
      by (simp add: encrypt_out_def sessions_linked_def)
  qed
qed

lemma read_frames_receive: "read_frames P isProtobuf bs c = wf.receive P isProtobuf bs c"
  by (induction bs arbitrary: c) simp_all

text \<open>The frame that a block of the stream becomes, if any.\<close>

definition frame_of_block :: "bytes \<Rightarrow> (byte \<times> int \<times> bytes) option" where
  "frame_of_block block = map_option (\<lambda>payload.
     if payload = ''[DONE]'' then (FrameTypeStreamEnd, FRAME_TYPE_STREAM_END, bytes_of payload)
     else (FrameTypeTokenDelta, FRAME_TYPE_TOKEN_DELTA, bytes_of payload)) (block_payload block)"

lemma write_block_emits:
  assumes "rw_session rw = Some s"
  shows "writeEncryptedSSEBlock P clk block rw =
    (case frame_of_block block of
       None \<Rightarrow> rw
     | Some (bt, pt, p) \<Rightarrow>
         (case encrypt_out P clk (rw_isProtobuf rw) bt pt p s of
            (Inl _, s') \<Rightarrow> rw\<lparr> rw_session := Some s' \<rparr>
          | (Inr frame, s') \<Rightarrow> rw\<lparr> rw_session := Some s', rw_out := out_write frame (rw_out rw) \<rparr>))"
  using assms by (simp add: writeEncryptedSSEBlock_def frame_of_block_def Let_def split: option.split)

lemma out_write_body [simp]: "o_body (out_write b w) = o_body w @ [b]"
  by (simp add: out_write_def out_write_header_def Let_def)

lemma fold_blocks_emit:
  assumes "rw_session rw = Some s"
  shows "o_body (rw_out (fold (writeEncryptedSSEBlock P clk) blocks rw)) =
    o_body (rw_out rw) @ wf.send P clk (rw_isProtobuf rw) (List.map_filter frame_of_block blocks) s"
  using assms
proof (induction blocks arbitrary: rw s)
  case Nil then show ?case by (simp add: map_filter_simps)
next
  case (Cons b bs)
  show ?case
  proof (cases "frame_of_block b")
    case None
    then have "writeEncryptedSSEBlock P clk b rw = rw" using write_block_emits [OF Cons.prems] by simp
    then show ?thesis using Cons None by (simp add: map_filter_simps)
  next
    case (Some f)
    obtain bt pt p where f: "f = (bt, pt, p)" by (cases f)
    obtain r s' where e: "encrypt_out P clk (rw_isProtobuf rw) bt pt p s = (r, s')" by fastforce
    show ?thesis
    proof (cases r)
      case (Inl x)
      then have "writeEncryptedSSEBlock P clk b rw = rw\<lparr> rw_session := Some s' \<rparr>"
        using write_block_emits [OF Cons.prems, of P clk b] Some f e by simp
      then show ?thesis using Cons.IH [of "rw\<lparr> rw_session := Some s' \<rparr>" s'] Some f e Inl by (simp add: map_filter_simps)
    next
      case (Inr frame)
      then have w: "writeEncryptedSSEBlock P clk b rw = rw\<lparr> rw_session := Some s', rw_out := out_write frame (rw_out rw) \<rparr>"
        using write_block_emits [OF Cons.prems, of P clk b] Some f e by simp
      show ?thesis using Cons.IH [of "rw\<lparr> rw_session := Some s', rw_out := out_write frame (rw_out rw) \<rparr>" s'] Some f e Inr w
        by (simp add: map_filter_simps)
    qed
  qed
qed

text \<open>Frames numbered from the current counter.\<close>

fun number_frames :: "bool \<Rightarrow> 32 word \<Rightarrow> (byte \<times> int \<times> bytes) list \<Rightarrow> (int \<times> 32 word \<times> bytes) list" where
  "number_frames isProtobuf n [] = []"
| "number_frames isProtobuf n ((bt, pt, p) # fs) =
     (if isProtobuf then pt else uint bt, n, p) # number_frames isProtobuf (n + 1) fs"

text \<open>Marshalling succeeds on the frames the writer builds, at the clock readings it takes.\<close>

definition frames_marshal :: "hpke_prims \<Rightarrow> (32 word \<Rightarrow> int) \<Rightarrow> bool" where
  "frames_marshal P clk \<longleftrightarrow>
     (\<forall>n pt p tag. 0 \<le> pt \<longrightarrow> pt < 2 ^ 31 \<longrightarrow> length tag = GCMTagLen \<longrightarrow>
        marshal_frame P \<lparr> sf_seq = n, sf_type = pt, sf_payload = p, sf_tag = tag, sf_timestamp = clk n \<rparr> \<noteq> None)"

lemma encrypt_out_succeeds:
  assumes "seqNum s \<noteq> 0xFFFFFFFF" "aead_ok P" "isProtobuf \<longrightarrow> frames_marshal P clk" "0 \<le> pt" "pt < 2 ^ 31"
  shows "\<exists>out. encrypt_out P clk isProtobuf bt pt p s =
    (Inr out, s\<lparr> respAEAD := Some (session_key s), seqNum := seqNum s + 1 \<rparr>)"
proof (cases isProtobuf)
  case True
  let ?sealed = "gcm_seal P (session_key s) (computeFrameNonce (ResponseIV s) (seqNum s)) p
      (computeFrameAAD (seqNum s) pt (clk (seqNum s)))"
  have "\<not> length ?sealed < GCMTagLen" "length (drop (length ?sealed - GCMTagLen) ?sealed) = GCMTagLen"
    using aead_length [OF assms(2)] by simp_all
  moreover obtain b where "marshal_frame P \<lparr> sf_seq = seqNum s, sf_type = pt,
      sf_payload = take (length ?sealed - GCMTagLen) ?sealed,
      sf_tag = drop (length ?sealed - GCMTagLen) ?sealed, sf_timestamp = clk (seqNum s) \<rparr> = Some b"
    using assms True calculation(2) unfolding frames_marshal_def by (metis not_None_eq)
  ultimately show ?thesis using True assms(1) by (simp add: encrypt_out_def EncryptProtoFrame_eq Let_def)
next
  case False
  then show ?thesis using assms(1) by (simp add: encrypt_out_def EncryptFrame_eq Let_def)
qed

lemma views_numbered:
  assumes "aead_ok P" "isProtobuf \<longrightarrow> frames_marshal P clk"
    "list_all (\<lambda>(bt, pt, p). 0 \<le> pt \<and> pt < 2 ^ 31) fs" "unat (seqNum s) + length fs < 2 ^ 32"
  shows "wf.views P clk isProtobuf fs s = number_frames isProtobuf (seqNum s) fs"
  using assms(3,4)
proof (induction fs arbitrary: s)
  case (Cons f fs)
  obtain bt pt p where f: "f = (bt, pt, p)" by (cases f)
  have "unat (seqNum s) < 2 ^ 32 - 1" using Cons.prems(2) by simp
  then have n: "seqNum s \<noteq> 0xFFFFFFFF" by auto
  obtain out where e: "encrypt_out P clk isProtobuf bt pt p s =
      (Inr out, s\<lparr> respAEAD := Some (session_key s), seqNum := seqNum s + 1 \<rparr>)"
    using encrypt_out_succeeds [OF n assms(1,2)] Cons.prems(1) f by fastforce
  show ?case using Cons f e unat_Suc_seq [OF n] by simp
qed simp

section \<open>Streams\<close>

lemma finish_streaming:
  assumes "streaming rw" "split_events (rw_sseBuf rw) = ([], rw_sseBuf rw)"
  shows "rw_out (Finish P clk rw) =
    rw_out (if rw_sseBuf rw = [] then rw else writeEncryptedSSEBlock P clk (rw_sseBuf rw) rw)"
proof -
  obtain s where s: "rw_session rw = Some s" "rw_isStreaming rw" using assms(1) by (auto simp: streaming_def)
  have d: "find_delim (rw_sseBuf rw) = None"
  proof (rule ccontr)
    assume "find_delim (rw_sseBuf rw) \<noteq> None"
    then show False using assms(2) by (subst (asm) split_events.simps) (auto split: prod.splits)
  qed
  then have "processSSEBuffer P clk True rw = (if rw_sseBuf rw = [] then rw
      else (writeEncryptedSSEBlock P clk (rw_sseBuf rw) rw)\<lparr> rw_sseBuf := [] \<rparr>)"
    by (subst processSSEBuffer.simps) (simp add: Let_def)
  then show ?thesis using s by (simp add: Finish_def end_session_def)
qed

lemma fold_session: "rw_session rw \<noteq> None \<Longrightarrow> rw_session (fold (writeEncryptedSSEBlock P clk) bs rw) \<noteq> None"
proof (induction bs arbitrary: rw)
  case (Cons b bs)
  have "rw_session (writeEncryptedSSEBlock P clk b rw) \<noteq> None"
    using Cons.prems by (auto simp: writeEncryptedSSEBlock_def Let_def split: option.split prod.split sum.split)
  then show ?case using Cons by simp
qed simp

lemma stream_body:
  assumes "streaming rw" "rw_session rw = Some s" "rw_sseBuf rw = []" "below_ceiling [] ps"
    and "split_events (concat ps) = (evs, rest)"
  shows "o_body (rw_out (Finish P clk (write_all P clk ps rw))) = o_body (rw_out rw) @
    wf.send P clk (rw_isProtobuf rw) (List.map_filter frame_of_block (evs @ (if rest = [] then [] else [rest]))) s"
proof -
  have w: "write_all P clk ps rw = (fold (writeEncryptedSSEBlock P clk) evs rw)\<lparr> rw_sseBuf := rest \<rparr>"
    using write_all_is_fold [of rw ps P clk] assms by (simp add: split_events_none)
  let ?w = "write_all P clk ps rw"
  have "streaming ?w" "split_events (rw_sseBuf ?w) = ([], rw_sseBuf ?w)"
    using assms(1) split_rest_again [OF assms(5)] by (simp_all add: w)
  then have "rw_out (Finish P clk ?w) = rw_out (if rest = [] then ?w else writeEncryptedSSEBlock P clk rest ?w)"
    using finish_streaming by (simp add: w)
  also have "\<dots> = rw_out (fold (writeEncryptedSSEBlock P clk) (evs @ (if rest = [] then [] else [rest])) rw)"
    by (simp add: w write_block_setbuf)
  finally show ?thesis by (simp only: fold_blocks_emit [OF assms(2)])
qed

lemma frame_types: "List.map_filter frame_of_block bs = fs \<Longrightarrow> list_all (\<lambda>(bt, pt, p). 0 \<le> pt \<and> pt < 2 ^ 31) fs"
  by (auto simp: list_all_iff map_filter_def frame_of_block_def FRAME_TYPE_STREAM_END_def FRAME_TYPE_TOKEN_DELTA_def
      split: if_splits option.splits)

text \<open>
  C5: a streaming response, in either format: whatever writes the engine's stream arrives in, the
  client opens exactly one frame per event that carries data, in order, with consecutive sequence
  numbers, the type of a token delta or of the end of the stream and the payload of the event; the
  incomplete event at the end is sent by Finish. Payloads are below 2^32 bytes, the counter does not
  run out, and no incomplete event outgrows the buffer ceiling.
\<close>

theorem event_stream_delivered:
  assumes "aead_ok P" "codec_ok P" "rw_isProtobuf rw \<longrightarrow> frames_marshal P clk"
    and "streaming rw" "rw_session rw = Some s" "rw_sseBuf rw = []"
    and "session_key c = session_key s" "ResponseIV c = ResponseIV s"
    and "below_ceiling [] ps" "split_events (concat ps) = (evs, rest)"
    and "List.map_filter frame_of_block (evs @ (if rest = [] then [] else [rest])) = fs"
    and "list_all (\<lambda>(bt, pt, p). length p < 2 ^ 32) fs" "unat (seqNum s) + length fs < 2 ^ 32"
  shows "read_frames P (rw_isProtobuf rw)
      (drop (length (o_body (rw_out rw))) (o_body (rw_out (Finish P clk (write_all P clk ps rw))))) c
    = map Inr (number_frames (rw_isProtobuf rw) (seqNum s) fs)"
proof -
  have "drop (length (o_body (rw_out rw))) (o_body (rw_out (Finish P clk (write_all P clk ps rw))))
      = wf.send P clk (rw_isProtobuf rw) fs s"
    using stream_body [OF assms(4-6,9,10), of P clk] assms(11) by simp
  moreover have "wf.receive P (rw_isProtobuf rw) (wf.send P clk (rw_isProtobuf rw) fs s) c
      = map Inr (wf.views P clk (rw_isProtobuf rw) fs s)"
    using assms by (intro wf.stream_delivered) (simp_all add: sessions_linked_def)
  moreover have "wf.views P clk (rw_isProtobuf rw) fs s = number_frames (rw_isProtobuf rw) (seqNum s) fs"
    using views_numbered [OF assms(1,3) frame_types [OF assms(11)] assms(13)] .
  ultimately show ?thesis by (simp add: read_frames_receive)
qed

definition sample_writer :: writer where
  "sample_writer = WriteHeader 200 (newHPKEResponseWriter
     \<lparr> o_headers = [(''Content-Type'', ''text/event-stream'')], o_status = None, o_body = [] \<rparr> (Some sample_session) False)"

lemma sample_writer_streaming: "streaming sample_writer" "rw_session sample_writer = Some sample_session"
  "rw_sseBuf sample_writer = []" "rw_isProtobuf sample_writer = False"
proof -
  have "Contains (ToLower ''text/event-stream'') ''text/event-stream''"
    by (simp add: Contains_def ToLower_def lower_char_def HasPrefix_def)
  then show "streaming sample_writer" "rw_session sample_writer = Some sample_session"
  "rw_sseBuf sample_writer = []" "rw_isProtobuf sample_writer = False"
    by (simp_all add: sample_writer_def newHPKEResponseWriter_def WriteHeader_def upstream_is_sse_def streaming_def
        set_out_header_def Let_def)
qed

text \<open>The stream "data: a", an empty line, "data: b", cut inside the first event.\<close>

definition sample_chunks :: "bytes list" where
  "sample_chunks = [[100, 97, 116], [97, 58, 32, 97, 10], [10, 100, 97, 116, 97, 58, 32, 98]]"

lemma sample_split:
  "split_events (concat sample_chunks) = ([[100, 97, 116, 97, 58, 32, 97]], [100, 97, 116, 97, 58, 32, 98])"
  by (simp add: sample_chunks_def split_events.simps find_delim_def CRLF2_def LF2_def HasPrefix_def)

lemma sample_below: "below_ceiling [] sample_chunks"
  by (simp add: below_ceiling_def sample_chunks_def split_events.simps find_delim_def CRLF2_def LF2_def HasPrefix_def
      upt_rec maxSSEBufferSize_def)

lemma sample_frames:
  "List.map_filter frame_of_block [[100, 97, 116, 97, 58, 32, 97], [100, 97, 116, 97, 58, 32, 98]]
    = [(FrameTypeTokenDelta, FRAME_TYPE_TOKEN_DELTA, [97]), (FrameTypeTokenDelta, FRAME_TYPE_TOKEN_DELTA, [98])]"
proof -
  have s: "string_of [100, 97, 116, 97, 58, 32, 97] = ''data: a''" "string_of [100, 97, 116, 97, 58, 32, 98] = ''data: b''"
    by (simp_all add: string_of_def char_of_def bit_simps)
  show ?thesis
    by (simp add: map_filter_simps frame_of_block_def block_payload_def s HasPrefix_def TrimSpace_def TrimPrefix_def
        is_space_def bytes_of_def Let_def)
qed

theorem event_stream_delivered_witness:
  "read_frames sample_prims False
     (drop (length (o_body (rw_out sample_writer)))
       (o_body (rw_out (Finish sample_prims (\<lambda>_. 0) (write_all sample_prims (\<lambda>_. 0) sample_chunks sample_writer))))) sample_session
   = [Inr (1, 0, [97]), Inr (1, 1, [98])]"
proof -
  note e = event_stream_delivered [OF sample_aead_ok sample_codec_ok _ sample_writer_streaming(1-3) refl refl
      sample_below sample_split, of "\<lambda>_. 0"
      "[(FrameTypeTokenDelta, FRAME_TYPE_TOKEN_DELTA, [97]), (FrameTypeTokenDelta, FRAME_TYPE_TOKEN_DELTA, [98])]"]
  show ?thesis
    using e sample_frames by (simp add: sample_writer_streaming(4) FrameTypeTokenDelta_def sample_session_def)
qed

text \<open>
  The state of a streaming writer does not depend on how the engine's bytes were cut into
  writes, as long as no incomplete event outgrows the buffer ceiling: same frames, same buffer, same
  session.
\<close>

theorem writes_regroup:
  assumes "streaming rw" "find_delim (rw_sseBuf rw) = None" "concat ps = concat qs"
    and "below_ceiling (rw_sseBuf rw) ps" "below_ceiling (rw_sseBuf rw) qs"
  shows "write_all P clk ps rw = write_all P clk qs rw"
  using write_all_is_fold [OF assms(1) _ assms(4), of P clk] write_all_is_fold [OF assms(1) _ assms(5), of P clk]
    assms(2,3) split_events_none by simp

theorem writes_regroup_witness:
  "write_all sample_prims (\<lambda>_. 0) sample_chunks sample_writer
     = write_all sample_prims (\<lambda>_. 0) [concat sample_chunks] sample_writer"
proof (rule writes_regroup)
  show "below_ceiling (rw_sseBuf sample_writer) [concat sample_chunks]"
    using sample_split
    by (simp add: below_ceiling_def sample_writer_streaming upt_rec maxSSEBufferSize_def split_events_none)
qed (simp_all add: sample_writer_streaming sample_below)

section \<open>Plain responses\<close>

definition frame_kind :: "int \<Rightarrow> byte \<times> int" where
  "frame_kind status =
     (if 400 \<le> status then (FrameTypeError, FRAME_TYPE_ERROR) else (FrameTypeCompletion, FRAME_TYPE_COMPLETION))"

lemma finish_plain_out:
  assumes "aead_ok P" "rw_isProtobuf rw \<longrightarrow> frames_marshal P clk"
    and "\<not> rw_isStreaming rw" "rw_session rw = Some s" "rw_nonSSEBuf rw = body" "body \<noteq> []"
    and "unat (seqNum s) + 2 < 2 ^ 32"
  shows "\<exists>f1 f2 s'. wf.send P clk (rw_isProtobuf rw)
        [(fst (frame_kind (rw_status rw)), snd (frame_kind (rw_status rw)), body),
         (FrameTypeStreamEnd, FRAME_TYPE_STREAM_END, bytes_of ''[DONE]'')] s = [f1, f2]
    \<and> rw_session (Finish P clk rw) = Some (session_Zeroize s')
    \<and> o_body (rw_out (Finish P clk rw)) = o_body (rw_out rw) @ [f1 @ f2]
    \<and> header_get (o_headers (rw_out (Finish P clk rw))) ''Content-Length'' = nat_dec (length (f1 @ f2))
    \<and> (o_status (rw_out rw) = None \<longrightarrow> o_status (rw_out (Finish P clk rw)) = Some (rw_status rw))"
proof -
  obtain bt pt where k: "frame_kind (rw_status rw) = (bt, pt)" by fastforce
  have pt: "0 \<le> pt" "pt < 2 ^ 31" and kind: "(bt, pt) = (if 400 \<le> rw_status rw then (FrameTypeError, FRAME_TYPE_ERROR)
      else (FrameTypeCompletion, FRAME_TYPE_COMPLETION))"
    using k by (auto simp: frame_kind_def FRAME_TYPE_ERROR_def FRAME_TYPE_COMPLETION_def split: if_splits)
  let ?s1 = "s\<lparr> respAEAD := Some (session_key s), seqNum := seqNum s + 1 \<rparr>"
  have "unat (seqNum s) < 2 ^ 32 - 1" using assms(7) by simp
  then have n: "seqNum s \<noteq> 0xFFFFFFFF" by auto
  have "unat (seqNum s + 1) < 2 ^ 32 - 1" using unat_Suc_seq [OF n] assms(7) by simp
  then have n1: "seqNum ?s1 \<noteq> 0xFFFFFFFF" by auto
  obtain f1 where f1: "encrypt_out P clk (rw_isProtobuf rw) bt pt body s = (Inr f1, ?s1)"
    using encrypt_out_succeeds [OF n assms(1,2) pt] by blast
  obtain f2 s2 where f2: "encrypt_out P clk (rw_isProtobuf rw) FrameTypeStreamEnd FRAME_TYPE_STREAM_END (bytes_of ''[DONE]'') ?s1
      = (Inr f2, s2)"
  proof -
    have e: "0 \<le> FRAME_TYPE_STREAM_END" "FRAME_TYPE_STREAM_END < 2 ^ 31" by (simp_all add: FRAME_TYPE_STREAM_END_def)
    show thesis using encrypt_out_succeeds [OF n1 assms(1,2) e] that by blast
  qed
  have b: "(if 400 \<le> rw_status rw then encrypt_out P clk (rw_isProtobuf rw) FrameTypeError FRAME_TYPE_ERROR body s
      else encrypt_out P clk (rw_isProtobuf rw) FrameTypeCompletion FRAME_TYPE_COMPLETION body s) = (Inr f1, ?s1)"
    using f1 kind by (auto split: if_splits)
  define w where "w = set_out_header ''Content-Length'' (nat_dec (length (f1 @ f2)))
      (set_out_header ''Content-Type'' (wire_content_type (rw_isProtobuf rw)) (rw\<lparr> rw_session := Some s2 \<rparr>))"
  have fin: "Finish P clk rw = end_session (w\<lparr> rw_out := out_write (f1 @ f2) (out_write_header (rw_status w) (rw_out w)) \<rparr>)"
    using assms(3-6) b f2 unfolding Finish_def Let_def w_def
    by (cases "400 \<le> rw_status rw") simp_all
  have send: "wf.send P clk (rw_isProtobuf rw) [(bt, pt, body), (FrameTypeStreamEnd, FRAME_TYPE_STREAM_END, bytes_of ''[DONE]'')] s
      = [f1, f2]" using f1 f2 by simp
  have "rw_status w = rw_status rw" "o_body (rw_out w) = o_body (rw_out rw)" "o_status (rw_out w) = o_status (rw_out rw)"
    "rw_session w = Some s2" "header_get (o_headers (rw_out w)) ''Content-Length'' = nat_dec (length (f1 @ f2))"
    by (simp_all add: w_def set_out_header_def)
  then show ?thesis using send unfolding fin k
    by (intro exI [of _ f1] exI [of _ f2] exI [of _ s2])
      (simp add: end_session_def out_write_def out_write_header_def Let_def)
qed

text \<open>
  A plain response with a body becomes one write of two frames, which the client opens as the
  whole body, of type completion or, from status 400 on, error, and the end of the stream; the
  Content-Length header is the length of that write, the status is the engine's, and the keys of the
  session are erased.
\<close>

theorem plain_response_delivered:
  assumes "aead_ok P" "codec_ok P" "rw_isProtobuf rw \<longrightarrow> frames_marshal P clk"
    and "\<not> rw_isStreaming rw" "rw_session rw = Some s" "rw_nonSSEBuf rw = body" "body \<noteq> []" "length body < 2 ^ 32"
    and "session_key c = session_key s" "ResponseIV c = ResponseIV s" "unat (seqNum s) + 2 < 2 ^ 32"
  defines "fin \<equiv> Finish P clk rw"
  shows "\<exists>f1 f2. o_body (rw_out fin) = o_body (rw_out rw) @ [f1 @ f2]
    \<and> read_frames P (rw_isProtobuf rw) [f1, f2] c =
        map Inr (number_frames (rw_isProtobuf rw) (seqNum s)
          [(if 400 \<le> rw_status rw then FrameTypeError else FrameTypeCompletion,
            if 400 \<le> rw_status rw then FRAME_TYPE_ERROR else FRAME_TYPE_COMPLETION, body),
           (FrameTypeStreamEnd, FRAME_TYPE_STREAM_END, bytes_of ''[DONE]'')])
    \<and> header_get (o_headers (rw_out fin)) ''Content-Length'' = nat_dec (length (f1 @ f2))
    \<and> (o_status (rw_out rw) = None \<longrightarrow> o_status (rw_out fin) = Some (rw_status rw))
    \<and> (\<exists>s'. rw_session fin = Some (session_Zeroize s'))"
proof -
  let ?k = "frame_kind (rw_status rw)"
  let ?fs = "[(fst ?k, snd ?k, body), (FrameTypeStreamEnd, FRAME_TYPE_STREAM_END, bytes_of ''[DONE]'')]"
  obtain f1 f2 s' where o: "wf.send P clk (rw_isProtobuf rw) ?fs s = [f1, f2]"
    "rw_session (Finish P clk rw) = Some (session_Zeroize s')"
    "o_body (rw_out (Finish P clk rw)) = o_body (rw_out rw) @ [f1 @ f2]"
    "header_get (o_headers (rw_out (Finish P clk rw))) ''Content-Length'' = nat_dec (length (f1 @ f2))"
    "o_status (rw_out rw) = None \<longrightarrow> o_status (rw_out (Finish P clk rw)) = Some (rw_status rw)"
    using finish_plain_out [OF assms(1,3-7,11)] by metis
  have "wf.receive P (rw_isProtobuf rw) (wf.send P clk (rw_isProtobuf rw) ?fs s) c = map Inr (wf.views P clk (rw_isProtobuf rw) ?fs s)"
    using assms(1,2,8-10) by (intro wf.stream_delivered) (simp_all add: sessions_linked_def)
  moreover have "wf.views P clk (rw_isProtobuf rw) ?fs s = number_frames (rw_isProtobuf rw) (seqNum s) ?fs"
    using assms(11) by (intro views_numbered [OF assms(1,3)])
      (simp_all add: frame_kind_def FRAME_TYPE_ERROR_def FRAME_TYPE_COMPLETION_def FRAME_TYPE_STREAM_END_def)
  ultimately have r: "read_frames P (rw_isProtobuf rw) [f1, f2] c = map Inr (number_frames (rw_isProtobuf rw) (seqNum s) ?fs)"
    unfolding read_frames_receive o(1) by simp
  have k: "fst ?k = (if 400 \<le> rw_status rw then FrameTypeError else FrameTypeCompletion)"
    "snd ?k = (if 400 \<le> rw_status rw then FRAME_TYPE_ERROR else FRAME_TYPE_COMPLETION)"
    by (simp_all add: frame_kind_def)
  show ?thesis
    unfolding fin_def by (intro exI [of _ f1] exI [of _ f2] conjI o(3-5) r [unfolded k] exI [of _ s'] o(2))
qed

definition sample_plain :: writer where
  "sample_plain = (newHPKEResponseWriter \<lparr> o_headers = [], o_status = None, o_body = [] \<rparr> (Some sample_session) False)
     \<lparr> rw_nonSSEBuf := [123, 125] \<rparr>"

theorem plain_response_delivered_witness:
  "\<exists>f1 f2. o_body (rw_out (Finish sample_prims (\<lambda>_. 0) sample_plain)) = [f1 @ f2]
    \<and> read_frames sample_prims False [f1, f2] sample_session
        = [Inr (2, 0, [123, 125]), Inr (3, 1, bytes_of ''[DONE]'')]"
proof -
  have p: "rw_isProtobuf sample_plain = False" "\<not> rw_isStreaming sample_plain" "rw_session sample_plain = Some sample_session"
    "rw_nonSSEBuf sample_plain = [123, 125]" "rw_status sample_plain = 200" "o_body (rw_out sample_plain) = []"
    by (simp_all add: sample_plain_def newHPKEResponseWriter_def)
  have s: "unat (seqNum sample_session) + 2 < 2 ^ 32" "seqNum sample_session = 0" by (simp_all add: sample_session_def)
  show ?thesis
    using plain_response_delivered [OF sample_aead_ok sample_codec_ok _ p(2-4) _ _ refl refl s(1), of "\<lambda>_. 0"]
    by (auto simp: p s(2) FrameTypeCompletion_def FrameTypeStreamEnd_def)
qed

section \<open>Requests\<close>

lemma sample_unwrap:
  obtains raw ctx where "raw \<noteq> []" "hc_protobuf ctx"
    "UnwrapHPKERequest sample_prims [2] raw ''application/x-protobuf'' [] = Inr ([9, 9], ctx)"
proof -
  obtain out cs where o: "EncryptProtoHPKERequest sample_prims (Some (replicate 12 5)) [1] (base_mult sample_prims [2]) [9, 9] [] ''''
     = Inr (out, cs)" "40 \<le> length out" using sample_proto by blast
  obtain req where "UnwrapProtoHPKERequest sample_prims [2] out [] = Inr ([9, 9], cs, req)"
    using proto_round [OF sample_aead_ok sample_dh_ok sample_codec_ok _ o(1,2), of "[]"] by auto
  moreover have "Contains (ToLower ''application/x-protobuf'') ''application/x-protobuf''"
    by (simp add: Contains_def ToLower_def lower_char_def HasPrefix_def)
  ultimately have "UnwrapHPKERequest sample_prims [2] out ''application/x-protobuf'' [] =
      Inr ([9, 9], \<lparr> hc_session = cs, hc_protobuf = True, hc_request = Some req \<rparr>)"
    by (simp add: UnwrapHPKERequest_def Let_def)
  then show thesis using o(2) by (intro that [of out "\<lparr> hc_session = cs, hc_protobuf = True, hc_request = Some req \<rparr>"]) auto
qed

text \<open>
  No plaintext is accepted: whatever the content type, a request body that UnwrapHPKERequest
  accepts carries the plaintext sealed under the request key of the session it returns, the content
  type is one of the three encrypted ones, and a body labelled as protobuf is read as protobuf only.
\<close>

theorem unwrapped_request_sealed:
  assumes "aead_ok P" "UnwrapHPKERequest P nodePriv raw ct binding = Inr (plaintext, ctx)"
  shows "(\<exists>nonce. if hc_protobuf ctx
            then \<exists>req. hc_request ctx = Some req \<and> unmarshal_request P raw = Some req \<and> nonce = er_nonce req
                   \<and> er_payload req = gcm_seal P (RequestKey (hc_session ctx)) nonce plaintext []
            else drop 44 raw = gcm_seal P (RequestKey (hc_session ctx)) nonce plaintext [])
    \<and> (\<exists>t \<in> {''application/octet-stream'', ''application/x-cevell-hpke'', ''application/x-protobuf''}.
         Contains (ToLower ct) t)
    \<and> (Contains (ToLower ct) ''application/x-protobuf'' \<longrightarrow> hc_protobuf ctx)"
proof -
  let ?ct = "ToLower ct"
  have known: "Contains ?ct ''application/octet-stream'' \<or> Contains ?ct ''application/x-cevell-hpke''
      \<or> Contains ?ct ''application/x-protobuf''"
    using assms(2) by (auto simp: UnwrapHPKERequest_def Let_def split: if_splits)
  consider (proto) s req where "UnwrapProtoHPKERequest P nodePriv raw binding = Inr (plaintext, s, req)"
      "ctx = \<lparr> hc_session = s, hc_protobuf = True, hc_request = Some req \<rparr>"
    | (binary) s where "UnwrapBinaryHPKERequest P nodePriv raw = Inr (plaintext, s)"
      "ctx = \<lparr> hc_session = s, hc_protobuf = False, hc_request = None \<rparr>"
      "\<not> Contains ?ct ''application/x-protobuf''"
    using assms(2) by (auto simp: UnwrapHPKERequest_def Let_def split: if_splits sum.splits prod.splits)
  then show ?thesis
  proof cases
    case proto
    have "unmarshal_request P raw = Some req"
      "er_payload req = gcm_seal P (RequestKey s) (er_nonce req) plaintext []"
      using proto_accepted [OF assms(1) proto(1)] by auto
    then show ?thesis using proto(2) known by auto
  next
    case binary
    have "drop 44 raw = gcm_seal P (RequestKey s) (take 12 (drop 32 raw)) plaintext []"
      using binary_accepted [OF assms(1) binary(1)] by blast
    then show ?thesis using binary(2,3) known by auto
  qed
qed

theorem unwrapped_request_sealed_witness:
  "\<exists>raw ctx. UnwrapHPKERequest sample_prims [2] raw ''application/x-protobuf'' [] = Inr ([9, 9], ctx) \<and> hc_protobuf ctx"
proof -
  obtain raw ctx where u: "hc_protobuf ctx" "UnwrapHPKERequest sample_prims [2] raw ''application/x-protobuf'' [] = Inr ([9, 9], ctx)"
    using sample_unwrap by metis
  then show ?thesis using unwrapped_request_sealed [OF sample_aead_ok u(2)] by blast
qed

end
