(* ===== verification/AttestationSafety.thy ===== *)
theory AttestationSafety
  imports Attestation
begin

text \<open>
  What the attestation document and the hardware reports promise: the user data commits to its
  parts, a built document verifies, a report comes from the hardware for the data asked for, a
  certificate chain is complete, and GPU evidence is that of the query.
\<close>

section \<open>What a document commits to\<close>

text \<open>The evidence bytes that the user data commits to, if any.\<close>

definition committed_evidence :: "gpu_evidence option \<Rightarrow> bytes option" where
  "committed_evidence gpuEv =
     (case gpuEv of
        Some g \<Rightarrow> if ge_report g \<noteq> '''' then Some (bytes_of (ge_report g @ ge_chain g)) else None
      | None \<Rightarrow> None)"

text \<open>Two texts with one digest, or a text whose digest is all zero.\<close>

definition broken_hash :: "(bytes \<Rightarrow> bytes) \<Rightarrow> bytes list \<Rightarrow> bool" where
  "broken_hash sha xs \<longleftrightarrow> (\<exists>x\<in>set xs. sha x = zero32 \<or> (\<exists>y\<in>set xs. x \<noteq> y \<and> sha x = sha y))"

definition preimages :: "(bytes \<Rightarrow> bytes) \<Rightarrow> bytes \<Rightarrow> bytes \<Rightarrow> gpu_evidence option \<Rightarrow> bytes \<Rightarrow> bytes list" where
  "preimages sha hpkePub nonce gpuEv authPub =
     (hpkePub @ nonce @ gpu_digest sha gpuEv @ authPub)
     # (case committed_evidence gpuEv of Some e \<Rightarrow> [e] | None \<Rightarrow> [])"

lemma gpu_digest_committed:
  "gpu_digest sha g = (case committed_evidence g of Some e \<Rightarrow> sha e | None \<Rightarrow> zero32)"
  by (auto simp: gpu_digest_def committed_evidence_def bytes_of_append split: option.splits)

lemma length_gpu_digest: "(\<And>x. length (sha x) = 32) \<Longrightarrow> length (gpu_digest sha g) = 32"
  by (simp add: gpu_digest_committed zero32_def split: option.splits)

lemma digest_commits:
  assumes "gpu_digest sha g = gpu_digest sha h" and "committed_evidence g \<noteq> committed_evidence h"
  shows "broken_hash sha (preimages sha a b g c @ preimages sha a' b' h c')"
  using assms
  by (auto simp: gpu_digest_committed broken_hash_def preimages_def split: option.splits)

text \<open>
  C11: the 64 bytes of user data determine the TLS fingerprint, and also the HPKE key, the nonce, the
  tenant key and the evidence bytes, unless the hash is broken on the texts at hand: two claims that
  both verify against one quote are the same claim.
\<close>

theorem user_data_commits:
  assumes "\<And>x. length (sha x) = 32"
    and "length tls = 32" "length hpke = 32" "length nonce = 32" "length auth = 32"
    and "length tls' = 32" "length hpke' = 32" "length nonce' = 32" "length auth' = 32"
    and "VerifyCompositeUserData sha ud tls hpke nonce g auth"
    and "VerifyCompositeUserData sha ud tls' hpke' nonce' g' auth'"
  shows "tls = tls' \<and>
    (hpke = hpke' \<and> nonce = nonce' \<and> auth = auth' \<and> committed_evidence g = committed_evidence g'
     \<or> broken_hash sha (preimages sha hpke nonce g auth @ preimages sha hpke' nonce' g' auth'))"
proof -
  let ?p = "hpke @ nonce @ gpu_digest sha g @ auth" and ?q = "hpke' @ nonce' @ gpu_digest sha g' @ auth'"
  have e: "tls = tls'" "sha ?p = sha ?q"
    using assms by (auto simp: VerifyCompositeUserData_def ComputeCompositeUserData_def)
  show ?thesis
  proof (cases "?p = ?q")
    case True
    then have "hpke = hpke'" "nonce = nonce'" "gpu_digest sha g = gpu_digest sha g'" "auth = auth'"
      using assms length_gpu_digest [of sha] by auto
    then show ?thesis using e(1) digest_commits by blast
  next
    case False
    then show ?thesis using e by (auto simp: broken_hash_def preimages_def)
  qed
qed

lemma user_data_commits_witness:
  "zero32 = zero32 \<and>
    (replicate 32 1 = replicate 32 (1::byte) \<and> zero32 = zero32 \<and> zero32 = zero32
       \<and> committed_evidence None = committed_evidence None
     \<or> broken_hash (\<lambda>x. replicate 32 7) (preimages (\<lambda>x. replicate 32 7) (replicate 32 1) zero32 None zero32
         @ preimages (\<lambda>x. replicate 32 7) (replicate 32 1) zero32 None zero32))"
  by (rule user_data_commits [of "\<lambda>x. replicate 32 7" zero32 "replicate 32 1" zero32 zero32 zero32 "replicate 32 1" zero32 zero32
        "ComputeCompositeUserData (\<lambda>x. replicate 32 7) zero32 (replicate 32 1) zero32 None zero32" None None])
    (simp_all add: VerifyCompositeUserData_def zero32_def)

text \<open>
  Which parts of the evidence are not committed. Bytes may move between the report and the
  certificate chain, the chain of an empty report is free, and whether confidential computing is
  enabled, the model, the driver and the devices are free; a report is committed also with
  confidential computing disabled.
\<close>

theorem evidence_not_committed:
  "r \<noteq> '''' \<Longrightarrow> r' \<noteq> '''' \<Longrightarrow> r @ c = r' @ c' \<Longrightarrow>
     VerifyCompositeUserData sha ud tls hpke nonce (Some (g\<lparr> ge_report := r, ge_chain := c \<rparr>)) auth
     = VerifyCompositeUserData sha ud tls hpke nonce
         (Some (g\<lparr> ge_report := r', ge_chain := c', ge_cc_enabled := cc, ge_model := m, ge_driver := d,
                   ge_devices := ds, ge_device_count := n, ge_signature := s \<rparr>)) auth
     \<and> VerifyCompositeUserData sha ud tls hpke nonce (Some (g\<lparr> ge_report := '''', ge_chain := c \<rparr>)) auth
       = VerifyCompositeUserData sha ud tls hpke nonce None auth
     \<and> committed_evidence (Some (g\<lparr> ge_report := r, ge_cc_enabled := False \<rparr>)) \<noteq> None"
  by (simp add: VerifyCompositeUserData_def ComputeCompositeUserData_def gpu_digest_committed committed_evidence_def)

section \<open>A verifier's reading of a document\<close>

text \<open>
  A client decodes the fields, takes an empty tenant key for zero, rebuilds the nonce and checks the
  user data; then it compares the subjects with the digests of the parts it can recompute.
\<close>

definition document_verifies :: "(bytes \<Rightarrow> bytes) \<Rightarrow> attestation_doc \<Rightarrow> bool" where
  "document_verifies sha doc \<longleftrightarrow>
     (let p = ad_predicate doc in
      case (hex_decode (cp_user_data p), hex_decode (cp_tls_fingerprint p), hex_decode (cp_hpke_public_key p),
            if cp_authorized_public_key p = '''' then Some zero32 else hex_decode (cp_authorized_public_key p)) of
        (Some ud, Some tls, Some hpke, Some auth) \<Rightarrow>
          VerifyCompositeUserData sha ud tls hpke (nonce_array sha (cp_nonce p)) (cp_gpu_evidence p) auth
      | _ \<Rightarrow> False)"

definition subject_digest :: "attestation_doc \<Rightarrow> string \<Rightarrow> string option" where
  "subject_digest doc name = map_option sj_sha256 (find (\<lambda>s. sj_name s = name) (ad_subject doc))"

lemma quote_name_cases: "quote_name p \<in> {''intel-tdx-quote'', ''sev-guest-report'', ''hardware-enclave-quote''}"
  by (simp add: quote_name_def)

lemma built_verifies:
  assumes "length (TLSKeyFingerprint b) = 32" "length (HPKEPublicKey b) = 32" "length (AuthPublicKey b) = 32"
  shows "document_verifies sha (BuildAttestationDocumentWithEvidence sha b quote chain platform cert nonce g)"
proof -
  let ?auth = "if AuthPublicKey b \<noteq> zero32 then hex_encode (AuthPublicKey b) else ''''"
  have a: "(if ?auth = '''' then Some zero32 else hex_decode ?auth) = Some (AuthPublicKey b)"
    using assms by (auto simp: zero32_def)
  have "AuthPublicKey b \<noteq> []" using assms by auto
  then show ?thesis
    by (simp add: document_verifies_def BuildAttestationDocumentWithEvidence_def a VerifyCompositeUserData_def Let_def
        del: if_image_distrib)
qed

text \<open>
  A built document is consistent in itself: its fields verify against its user data, it has a
  subject, and the digests of its subjects are those of the quote, the certificate, the evidence and
  the tenant key that it carries.
\<close>

theorem built_document_verifies:
  fixes sha b quote chain platform cert nonce g
  assumes "length (TLSKeyFingerprint b) = 32" "length (HPKEPublicKey b) = 32" "length (AuthPublicKey b) = 32"
  defines "doc \<equiv> BuildAttestationDocumentWithEvidence sha b quote chain platform cert nonce g"
  shows "document_verifies sha doc \<and> ad_subject doc \<noteq> []
    \<and> (quote \<noteq> [] \<longrightarrow> b64_decode (cp_raw_quote (ad_predicate doc)) = Some quote
         \<and> subject_digest doc (quote_name platform) = Some (hex_encode (sha quote)))
    \<and> (cert \<noteq> '''' \<longrightarrow> subject_digest doc ''tls-server-certificate'' = Some (hex_encode (sha (bytes_of cert))))
    \<and> (AuthPublicKey b \<noteq> zero32 \<longrightarrow>
         subject_digest doc ''tenant-authorized-public-key'' = Some (hex_encode (sha (AuthPublicKey b))))
    \<and> (\<forall>e. committed_evidence g = Some e \<longrightarrow> subject_digest doc ''nvidia-gpu-evidence'' = Some (hex_encode (sha e)))"
proof -
  have v: "document_verifies sha doc" unfolding doc_def by (rule built_verifies [OF assms(1-3)])
  show ?thesis using v quote_name_cases [of platform]
    by (auto simp: doc_def BuildAttestationDocumentWithEvidence_def build_subjects_def Let_def subject_digest_def
        mk_subject_def committed_evidence_def bytes_of_append split: option.splits)
qed

definition sample_binding :: binding_data where
  "sample_binding = \<lparr> TLSKeyFingerprint = replicate 32 1, HPKEPublicKey = replicate 32 2, AuthPublicKey = replicate 32 3 \<rparr>"

definition sample_sha :: "bytes \<Rightarrow> bytes" where
  "sample_sha x = word_of_nat (length x) # replicate 31 (sum_list x)"

definition sample_evidence :: gpu_evidence where
  "sample_evidence = \<lparr> ge_nonce = '''', ge_cc_enabled = True, ge_device_count = 1, ge_model = '''', ge_driver = '''',
     ge_architecture = '''', ge_report = ''abc'', ge_chain = ''de'', ge_signature = '''', ge_devices = [] \<rparr>"

lemma built_document_verifies_witness:
  "document_verifies sample_sha (BuildAttestationDocumentWithEvidence sample_sha sample_binding [5, 6] '''' PlatformTDX
     ''cert'' ''n'' (Some sample_evidence))
   \<and> b64_decode (cp_raw_quote (ad_predicate (BuildAttestationDocumentWithEvidence sample_sha sample_binding [5, 6] ''''
       PlatformTDX ''cert'' ''n'' (Some sample_evidence)))) = Some [5, 6]"
  using built_document_verifies [of sample_binding sample_sha "[5, 6]" "''''" PlatformTDX "''cert''" "''n''" "Some sample_evidence"]
  by (simp add: sample_binding_def)

lemma evidence_not_committed_witness:
  "VerifyCompositeUserData sample_sha zero32 zero32 zero32 zero32 (Some (sample_evidence\<lparr> ge_report := ''abc'', ge_chain := ''de'' \<rparr>)) zero32
   = VerifyCompositeUserData sample_sha zero32 zero32 zero32 zero32
       (Some (sample_evidence\<lparr> ge_report := ''a'', ge_chain := ''bcde'', ge_cc_enabled := False, ge_model := ''x'', ge_driver := ''y'',
                   ge_devices := [], ge_device_count := 9, ge_signature := ''z'' \<rparr>)) zero32"
  using evidence_not_committed [where r = "''abc''" and r' = "''a''" and c = "''de''" and c' = "''bcde''" and cc = False
     and m = "''x''" and d = "''y''" and ds = "[]" and n = 9 and s = "''z''"
     and sha = sample_sha and ud = zero32 and tls = zero32 and hpke = zero32 and nonce = zero32 and auth = zero32
     and g = sample_evidence] by simp

section \<open>Hardware reports\<close>

text \<open>Where the reports of the two platforms come from.\<close>

definition sev_report :: "sev_prims \<Rightarrow> bytes \<Rightarrow> bytes \<Rightarrow> bool" where
  "sev_report S data rep \<longleftrightarrow>
     (\<exists>raw certs. sev_device S data = Some (raw, certs) \<and> sev_report_size S \<le> length raw \<and> rep = take (sev_report_size S) raw)
     \<or> (\<exists>raw. sev_provider S data = Some raw \<and> rep = take (sev_report_size S) raw)"

definition tdx_devices :: "string list" where "tdx_devices = [''/dev/tdx_guest'', ''/dev/tdx-guest'']"

definition tdx_quote :: "tsm_prims \<Rightarrow> machine \<Rightarrow> bytes \<Rightarrow> bytes \<Rightarrow> bool" where
  "tdx_quote T M data q \<longleftrightarrow>
     q \<noteq> [] \<and> (fetchTSMReport T ''tdx'' data = Some q \<or> fetchTSMReport T '''' data = Some q
       \<or> (\<exists>dev\<in>set tdx_devices. m_exists M dev \<and> queryTDXDevice T dev data = Some q))"

lemma nonempty_Some [simp]: "nonempty r = Some q \<longleftrightarrow> r = Some q \<and> q \<noteq> []"
  by (auto simp: nonempty_def split: option.splits)

lemma nonempty_None: "nonempty r = None \<longleftrightarrow> r = None \<or> r = Some []"
  by (auto simp: nonempty_def split: option.splits)

lemma FetchAMDReport_source:
  "FetchAMDReport X K S M data = Some (rep, chain, p) \<Longrightarrow> sev_report S data rep \<and> p = PlatformSEVSNP"
  by (auto simp: FetchAMDReport_def sev_report_def Let_def split: option.splits if_splits)

lemma FetchTDXReport_source:
  "FetchTDXReport T M data = Inr (q, chain, p) \<Longrightarrow> tdx_quote T M data q \<and> p = PlatformTDX \<and> chain = ''''"
  by (auto simp: FetchTDXReport_def tdx_quote_def tdx_devices_def List.map_filter_def
      split: option.splits list.splits if_splits)

lemma FetchTDXReport_none:
  "FetchTDXReport T M data = Inl p \<Longrightarrow> \<not> tdx_quote T M data q \<and> p = (if IsIntelTDXEnvironment M then PlatformTDX else PlatformNone)"
  by (auto simp: FetchTDXReport_def tdx_quote_def tdx_devices_def List.map_filter_def
      split: option.splits list.splits if_splits dest: nonempty_None [THEN iffD1])

text \<open>
  A report is never empty and was given for exactly the user data asked for: by the SEV device or
  quote provider, at the size of a report and with its platform, when the device file is there; or
  else by the TSM interface or a TDX device, with platform TDX and no chain.
\<close>

theorem hardware_report_source:
  "FetchHardwareReport X K S T M data = Inr (rep, chain, platform) \<Longrightarrow>
     rep \<noteq> [] \<and>
     (platform = PlatformSEVSNP \<and> m_exists M ''/dev/sev-guest'' \<and> sev_report S data rep
      \<or> platform = PlatformTDX \<and> chain = '''' \<and> tdx_quote T M data rep)"
  by (auto simp: FetchHardwareReport_def Let_def split: option.splits if_splits sum.splits
      dest!: FetchAMDReport_source FetchTDXReport_source)

text \<open>
  There is no report only when every source fails; the error is then about TDX or about no
  platform at all, never about SEV-SNP, also when the SEV device is there and
  \<open>DetectPlatform\<close> names SEV-SNP.
\<close>

theorem hardware_report_unavailable:
  "FetchHardwareReport X K S T M data = Inl platform \<longleftrightarrow>
     platform = (if IsIntelTDXEnvironment M then PlatformTDX else PlatformNone)
     \<and> (\<nexists>q. tdx_quote T M data q)
     \<and> (m_exists M ''/dev/sev-guest'' \<longrightarrow>
          DetectPlatform M = PlatformSEVSNP
          \<and> (FetchAMDReport X K S M data = None
             \<or> (\<exists>chain. FetchAMDReport X K S M data = Some ([], chain, PlatformSEVSNP))))"
proof (cases "FetchTDXReport T M data")
  case (Inl e)
  then have "\<nexists>q. tdx_quote T M data q" using FetchTDXReport_none by blast
  moreover have "e = (if IsIntelTDXEnvironment M then PlatformTDX else PlatformNone)"
    using FetchTDXReport_none [OF Inl] by blast
  ultimately show ?thesis using Inl FetchAMDReport_source [of X K S M data]
    by (cases "FetchAMDReport X K S M data") (auto simp: FetchHardwareReport_def Let_def DetectPlatform_def split: if_splits)
next
  case (Inr r)
  obtain q chain p where r: "r = (q, chain, p)" by (cases r)
  have q: "tdx_quote T M data q" "q \<noteq> []" using FetchTDXReport_source Inr r by (auto simp: tdx_quote_def)
  have "FetchHardwareReport X K S T M data \<noteq> Inl platform"
    by (simp add: FetchHardwareReport_def Let_def Inr r q(2) split: option.split)
  then show ?thesis using q(1) by blast
qed

text \<open>
  The second TSM query accepts any provider, so a quote of an SEV guest is labelled with platform
  TDX and has no certificate chain when the SEV device does not give a report.
\<close>

theorem foreign_quote_labelled_tdx:
  assumes "tsm_ready T" and "tsm_entry T ''tdx'' data" and "tsm_entry T '''' data"
    and "tsm_provider T ''tdx'' = Some (bytes_of ''sev_guest'')" and "tsm_outblob T '''' data = Some quote" and "quote \<noteq> []"
    and "\<not> m_exists M ''/dev/sev-guest''"
  shows "FetchHardwareReport X K S T M data = Inr (quote, '''', PlatformTDX)"
proof -
  have "\<not> provider_matches (ToLower (TrimSpace ''sev_guest'')) (ToLower (TrimSpace ''tdx''))"
    by (simp add: provider_matches_def TrimSpace_def is_space_def ToLower_def lower_char_def Contains_def
        HasPrefix_def contains_any_def)
  then have "fetchTSMReport T ''tdx'' data = None" using assms by (simp add: fetchTSMReport_def)
  moreover have "fetchTSMReport T '''' data = Some quote"
    using assms by (auto simp: fetchTSMReport_def provider_matches_def TrimSpace_def ToLower_def split: option.splits)
  ultimately show ?thesis using assms by (simp add: FetchHardwareReport_def FetchTDXReport_def nonempty_def)
qed

definition sample_machine :: "string list \<Rightarrow> machine" where
  "sample_machine paths = \<lparr> m_exists = (\<lambda>p. p \<in> set paths), m_read = (\<lambda>_. None), m_glob = (\<lambda>_. []) \<rparr>"

definition sample_sev :: sev_prims where
  "sample_sev = \<lparr> sev_device = (\<lambda>d. Some (d @ [9], [])), sev_certs = (\<lambda>_. None), sev_provider = (\<lambda>_. None),
     sev_report_size = 2 \<rparr>"

definition sample_tsm :: tsm_prims where
  "sample_tsm = \<lparr> tsm_ready = True, tsm_entry = (\<lambda>_ _. True), tsm_provider = (\<lambda>_. Some (bytes_of ''sev_guest'')),
     tsm_outblob = (\<lambda>_ d. Some (7 # d)), tdx_ioctl = (\<lambda>_ _. None) \<rparr>"

definition sample_chains :: amd_chains where
  "sample_chains = \<lparr> AMDChainMilanPEM = ''m'', AMDChainGenoaPEM = ''g'', AMDChainTurinPEM = ''t'',
     AMDVLEKChainMilanPEM = ''vm'', AMDVLEKChainGenoaPEM = ''vg'', AMDVLEKChainTurinPEM = ''vt'' \<rparr>"

definition sample_x509 :: x509_prims where
  "sample_x509 = \<lparr> parse_certificate = (\<lambda>_. None), pem_encode = string_of \<rparr>"

lemma sample_sev_report:
  "FetchHardwareReport X K sample_sev T (sample_machine [''/dev/sev-guest'']) [3, 4] =
     Inr ([3, 4], resolveDefaultAMDChain K (sample_machine [''/dev/sev-guest'']), PlatformSEVSNP)"
  by (simp add: FetchHardwareReport_def FetchAMDReport_def sample_sev_def sample_machine_def)

lemma hardware_report_source_witness:
  "[3, 4] \<noteq> ([] :: bytes) \<and>
   (PlatformSEVSNP = PlatformSEVSNP \<and> m_exists (sample_machine [''/dev/sev-guest'']) ''/dev/sev-guest'' \<and> sev_report sample_sev [3, 4] [3, 4]
    \<or> PlatformSEVSNP = PlatformTDX \<and> resolveDefaultAMDChain sample_chains (sample_machine [''/dev/sev-guest'']) = ''''
        \<and> tdx_quote sample_tsm (sample_machine [''/dev/sev-guest'']) [3, 4] [3, 4])"
  by (rule hardware_report_source [OF sample_sev_report])

lemma foreign_quote_labelled_tdx_witness:
  "FetchHardwareReport sample_x509 sample_chains sample_sev sample_tsm (sample_machine []) [3, 4] = Inr ([7, 3, 4], '''', PlatformTDX)"
  by (rule foreign_quote_labelled_tdx) (simp_all add: sample_tsm_def sample_machine_def)

section \<open>Certificate chains\<close>

definition vlek_chains :: "amd_chains \<Rightarrow> string set" where
  "vlek_chains K = {AMDVLEKChainMilanPEM K, AMDVLEKChainGenoaPEM K, AMDVLEKChainTurinPEM K}"

definition vcek_chains :: "amd_chains \<Rightarrow> string set" where
  "vcek_chains K = {AMDChainMilanPEM K, AMDChainGenoaPEM K, AMDChainTurinPEM K}"

lemma chain_family_in: "chain_family f m g t \<in> {m, g, t}"
  by (simp add: chain_family_def Let_def)

lemma resolved_chains:
  "GetAMDVLEKChain K f \<in> vlek_chains K" "GetAMDVCEKChain K f \<in> vcek_chains K"
  "ResolveAMDVLEKChain K M \<in> vlek_chains K" "ResolveAMDVCEKChain K M \<in> vcek_chains K"
  using chain_family_in
  by (auto simp: GetAMDVLEKChain_def GetAMDVCEKChain_def ResolveAMDVLEKChain_def ResolveAMDVCEKChain_def
      vlek_chains_def vcek_chains_def)

lemma embedded_chains:
  "AMDVLEKChainGenoaPEM K \<in> vlek_chains K" "AMDVLEKChainTurinPEM K \<in> vlek_chains K"
  "AMDChainGenoaPEM K \<in> vcek_chains K" "AMDChainTurinPEM K \<in> vcek_chains K"
  by (simp_all add: vlek_chains_def vcek_chains_def)

lemma default_chain_in: "resolveDefaultAMDChain K M \<in> vlek_chains K \<union> vcek_chains K"
  using resolved_chains by (simp add: resolveDefaultAMDChain_def)

lemma fallback_chain_in:
  "fallback_chain X K M leaf v \<in> vlek_chains K \<union> vcek_chains K"
  "v \<Longrightarrow> fallback_chain X K M leaf v \<in> vlek_chains K"
  by (simp_all add: fallback_chain_def Let_def resolved_chains embedded_chains split: option.split)

text \<open>
  A chain with leaf, intermediate and root is sent as it is, the VLEK preferred to the VCEK; a
  chain without intermediate or root is completed by one of the six embedded chains, one of the VLEK
  chains when the leaf is a VLEK; and without a chain one of the embedded chains is sent.
\<close>

theorem certificate_chain_completed:
  "FormatCertificateChain X K M None \<in> vlek_chains K \<union> vcek_chains K
   \<and> (let leaf = (if cc_vlek c \<noteq> [] then cc_vlek c else cc_vcek c);
          pem = (\<lambda>b. if b = [] then '''' else pem_encode X b) in
      (leaf \<noteq> [] \<and> cc_ask c \<noteq> [] \<and> cc_ark c \<noteq> [] \<longrightarrow>
         FormatCertificateChain X K M (Some c) = pem_encode X leaf @ pem_encode X (cc_ask c) @ pem_encode X (cc_ark c))
      \<and> (cc_ask c = [] \<or> cc_ark c = [] \<longrightarrow>
           (\<exists>E \<in> vlek_chains K \<union> vcek_chains K.
              FormatCertificateChain X K M (Some c) = pem leaf @ pem (cc_ask c) @ pem (cc_ark c) @ E
              \<and> (cc_vlek c \<noteq> [] \<longrightarrow> E \<in> vlek_chains K))))"
  (is "_ \<and> ?rest")
proof
  show "FormatCertificateChain X K M None \<in> vlek_chains K \<union> vcek_chains K"
    using default_chain_in by (simp add: FormatCertificateChain_def)
  let ?leaf = "if cc_vlek c \<noteq> [] then cc_vlek c else cc_vcek c"
  let ?E = "fallback_chain X K M ?leaf (cc_vlek c \<noteq> [])"
  show ?rest
  proof (cases "cc_ask c = [] \<or> cc_ark c = []")
    case False
    then show ?thesis by (simp add: FormatCertificateChain_def Let_def)
  next
    case True
    show ?thesis
    proof (cases "?leaf = [] \<and> (if cc_ask c = [] then '''' else pem_encode X (cc_ask c)) = ''''
        \<and> (if cc_ark c = [] then '''' else pem_encode X (cc_ark c)) = '''' \<and> ?E = ''''")
      case e: True
      then show ?thesis using True default_chain_in [of K M]
        by (auto simp: FormatCertificateChain_def Let_def split: if_splits)
    next
      case e: False
      then show ?thesis using True fallback_chain_in(1) [of X K M ?leaf "cc_vlek c \<noteq> []"]
          fallback_chain_in(2) [of "cc_vlek c \<noteq> []" X K M ?leaf]
        by (auto simp: FormatCertificateChain_def Let_def intro!: bexI [of _ ?E])
    qed
  qed
qed

lemma certificate_chain_completed_witness:
  "FormatCertificateChain sample_x509 sample_chains (sample_machine [])
     (Some \<lparr> cc_vlek = [], cc_vcek = [65], cc_ask = [66], cc_ark = [67] \<rparr>) = string_of [65, 66, 67]"
  using certificate_chain_completed [of sample_x509 sample_chains "sample_machine []"
      "\<lparr> cc_vlek = [], cc_vcek = [65], cc_ask = [66], cc_ark = [67] \<rparr>"]
  by (simp add: sample_x509_def string_of_def)

lemma hardware_report_unavailable_witness:
  "FetchHardwareReport sample_x509 sample_chains sample_sev (sample_tsm\<lparr> tsm_ready := False \<rparr>) (sample_machine []) [3, 4]
     = Inl PlatformNone"
proof -
  have "\<not> IsIntelTDXEnvironment (sample_machine [])"
    by (simp add: IsIntelTDXEnvironment_def sample_machine_def read_text_def)
  moreover have "\<nexists>q. tdx_quote (sample_tsm\<lparr> tsm_ready := False \<rparr>) (sample_machine []) [3, 4] q"
    by (simp add: tdx_quote_def fetchTSMReport_def sample_machine_def)
  moreover have "\<not> m_exists (sample_machine []) ''/dev/sev-guest''" by (simp add: sample_machine_def)
  ultimately show ?thesis by (simp add: hardware_report_unavailable)
qed

section \<open>GPU evidence\<close>

definition evidence_core :: "gpu_evidence \<Rightarrow> string \<times> bool \<times> string \<times> string \<times> string" where
  "evidence_core ev = (ge_nonce ev, ge_cc_enabled ev, ge_report ev, ge_chain ev, ge_signature ev)"

lemma foldl_keeps: "(\<And>s x. f (g s x) = f s) \<Longrightarrow> f (foldl g s xs) = f s"
  by (induction xs arbitrary: s) auto

lemma scan_pci_core: "evidence_core (scan_pci_device M vf ev) = evidence_core ev"
  by (simp add: scan_pci_device_def Let_def evidence_core_def split: option.split)

lemma procfs_core: "evidence_core (procfs_model M ev) = evidence_core ev"
  unfolding procfs_model_def
  by (auto split: list.split option.split intro!: foldl_keeps [where f = evidence_core]) (simp add: evidence_core_def)

text \<open>
  The evidence carries the nonce asked for; its report, chain and signature are those that the
  query for this nonce gave together with confidential computing enabled, or empty; and without a
  device there is no report, so the user data is that of a machine without evidence.
\<close>

theorem gpu_evidence_from_query:
  "let ev = CollectGPUEvidence nvml M nonce; nv = queryHardwareNVIDIACC nvml nonce in
     ge_nonce ev = hex_encode nonce
     \<and> (if ge_cc_enabled ev
          then 0 < ge_device_count ev \<and> nv_cc_enabled nv
               \<and> ge_report ev = nv_report nv \<and> ge_chain ev = nv_chain nv \<and> ge_signature ev = nv_signature nv
          else ge_report ev = '''' \<and> ge_chain ev = '''' \<and> ge_signature ev = ''''
               \<and> ComputeCompositeUserData sha tls hpke n (Some ev) auth = ComputeCompositeUserData sha tls hpke n None auth)"
proof -
  define ev0 where "ev0 = \<lparr> ge_nonce = hex_encode nonce, ge_cc_enabled = False,
      ge_device_count = length (m_glob M ''/dev/nvidia[0-9]*''), ge_model = '''', ge_driver = '''', ge_architecture = '''',
      ge_report = '''', ge_chain = '''', ge_signature = '''', ge_devices = m_glob M ''/dev/nvidia[0-9]*'' \<rparr>"
  define ev1 where "ev1 = foldl (\<lambda>ev vf. scan_pci_device M vf ev) ev0 (m_glob M ''/sys/bus/pci/devices/*/vendor'')"
  define ev2 where "ev2 = (if ge_devices ev1 \<noteq> [] \<and> ge_device_count ev1 = 0
      then ev1\<lparr> ge_device_count := length (ge_devices ev1) \<rparr> else ev1)"
  define ev3 where "ev3 = procfs_model M ev2"
  define ev4 where "ev4 = (if driver_version M \<noteq> '''' then ev3\<lparr> ge_driver := driver_version M \<rparr> else ev3)"
  have "evidence_core ev1 = evidence_core ev0"
    unfolding ev1_def by (rule foldl_keeps) (rule scan_pci_core)
  then have "evidence_core ev4 = (hex_encode nonce, False, '''', '''', '''')"
    using procfs_core [of M ev2] by (auto simp: ev4_def ev3_def ev2_def ev0_def evidence_core_def)
  then have core: "ge_nonce ev4 = hex_encode nonce" "\<not> ge_cc_enabled ev4" "ge_report ev4 = ''''" "ge_chain ev4 = ''''"
      "ge_signature ev4 = ''''"
    by (simp_all add: evidence_core_def)
  have c: "CollectGPUEvidence nvml M nonce =
      (if ge_device_count ev4 = 0 then ev4
       else (let ev = (if ge_architecture ev4 = '''' then ev4\<lparr> ge_architecture := guess_architecture (ge_model ev4) \<rparr> else ev4);
                 nv = queryHardwareNVIDIACC nvml nonce
             in if nv_cc_enabled nv
                then ev\<lparr> ge_cc_enabled := True, ge_report := nv_report nv, ge_chain := nv_chain nv,
                         ge_signature := nv_signature nv \<rparr>
                else ev))"
    unfolding CollectGPUEvidence_def ev4_def ev3_def ev2_def ev1_def ev0_def Let_def by (rule refl)
  show ?thesis
    by (simp add: c core Let_def ComputeCompositeUserData_def gpu_digest_def)
qed

end
