(* ===== verification/TranslatorSafety.thy ===== *)
theory TranslatorSafety
  imports Translator HpkeSafety
begin

text \<open>
  What the translation promises: the events of a stream form one message (its text is for StreamText), requests
  keep their parameters and their texts; and where it does not: the end of a stream is not guarded,
  tool calls are merged, the status of the engine is lost, and a closing tag first makes it panic.
\<close>

definition sample_float :: float_prims where
  "sample_float = \<lparr> float_text = Some, float_int = (\<lambda>_. 0) \<rparr>"

section \<open>The grammar of an event stream\<close>

text \<open>
  What a client of the Messages interface accepts: a start, blocks numbered from zero that open, have
  deltas and close one after another, then the final delta and the stop.
\<close>

datatype phase = NotStarted | Idle nat | InBlock nat | Stopping | Ended

inductive stream_step :: "phase \<Rightarrow> anthropic_event \<Rightarrow> phase \<Rightarrow> bool" where
  start: "stream_step NotStarted (MessageStart m) (Idle 0)"
| block_open: "stream_step (Idle n) (BlockStart n b) (InBlock n)"
| delta: "stream_step (InBlock n) (BlockDelta n d) (InBlock n)"
| block_close: "stream_step (InBlock n) (BlockStop n) (Idle (Suc n))"
| final: "stream_step (Idle n) (MessageDelta k) Stopping"
| stop: "stream_step Stopping MessageStop Ended"

inductive stream_run :: "phase \<Rightarrow> anthropic_event list \<Rightarrow> phase \<Rightarrow> bool" where
  Nil [intro!]: "stream_run p [] p"
| Cons: "stream_step p e q \<Longrightarrow> stream_run q es r \<Longrightarrow> stream_run p (e # es) r"

inductive_simps stream_step_simps [simp]:
  "stream_step p (MessageStart m) q" "stream_step p (BlockStart i b) q" "stream_step p (BlockDelta i d) q"
  "stream_step p (BlockStop i) q" "stream_step p (MessageDelta k) q" "stream_step p MessageStop q"

inductive_simps stream_run_simps [simp]: "stream_run p [] q" "stream_run p (e # es) q"

lemma stream_run_append: "stream_run p (es @ fs) r \<longleftrightarrow> (\<exists>q. stream_run p es q \<and> stream_run q fs r)"
  by (induction es arbitrary: p) auto

text \<open>Where a stream stands after the events of a translator.\<close>

definition phase_of :: "translator \<Rightarrow> phase" where
  "phase_of ast =
     (if ast_doneEmitted ast then Ended
      else if \<not> ast_messageStarted ast then NotStarted
      else if ast_currentBlock ast = '''' then Idle (ast_blockIndex ast)
      else InBlock (ast_blockIndex ast))"

definition translator_ok :: "translator \<Rightarrow> bool" where
  "translator_ok ast \<longleftrightarrow> \<not> ast_doneEmitted ast
     \<and> (\<not> ast_messageStarted ast \<longrightarrow> ast_currentBlock ast = '''' \<and> ast_blockIndex ast = 0)"

definition live :: "translator \<Rightarrow> bool" where
  "live ast \<longleftrightarrow> ast_messageStarted ast \<and> \<not> ast_doneEmitted ast"

lemma enter_block_run:
  assumes "live ast" "kind \<noteq> ''''" "enter_block kind c ast = (evs, ast')"
  shows "stream_run (phase_of ast) evs (InBlock (ast_blockIndex ast')) \<and> live ast' \<and> ast_currentBlock ast' = kind"
  using assms by (auto simp: enter_block_def live_def phase_of_def Let_def split: if_splits)

lemma in_block_phase: "live ast \<Longrightarrow> ast_currentBlock ast \<noteq> '''' \<Longrightarrow> phase_of ast = InBlock (ast_blockIndex ast)"
  by (simp add: phase_of_def live_def)

lemma text_step_run:
  assumes "live ast" "kind \<noteq> ''''" "text_step kind field dt t ast = (evs, ast')"
  shows "stream_run (phase_of ast) evs (phase_of ast') \<and> live ast'"
proof (cases "t = ''''")
  case True then show ?thesis using assms by (simp add: text_step_def)
next
  case False
  let ?a = "ast\<lparr> ast_outputTokens := ast_outputTokens ast + 1 \<rparr>"
  obtain es a where e: "enter_block kind (jmap [(''type'', JStr kind), (field, JStr '''')]) ?a = (es, a)"
    by fastforce
  have "live ?a" "phase_of ?a = phase_of ast" using assms(1) by (simp_all add: live_def phase_of_def)
  with enter_block_run [OF _ assms(2) e] in_block_phase [of a] assms False e show ?thesis
    by (auto simp: text_step_def stream_run_append)
qed

lemma tool_step_run:
  assumes "stream_run p evs (phase_of ast)" "live ast" "tool_step item (evs, ast) = (evs', ast')"
  shows "stream_run p evs' (phase_of ast') \<and> live ast'"
proof (cases "\<exists>tc fn. item = JObj tc \<and> obj_at ''function'' tc = Some fn")
  case False
  then show ?thesis using assms by (auto simp: tool_step_def split: json.splits option.splits)
next
  case True
  then obtain tc fn where i: "item = JObj tc" "obj_at ''function'' tc = Some fn" by blast
  obtain es a where e: "enter_block ''tool_use''
      (jmap [(''type'', JStr ''tool_use''), (''id'', JStr (str_at ''id'' tc)), (''name'', JStr (str_at ''name'' fn)),
             (''input'', jmap [])]) ast = (es, a)" by fastforce
  with enter_block_run [OF assms(2) _ e] in_block_phase [of a] assms i show ?thesis
    by (auto simp: tool_step_def stream_run_append Let_def split: if_splits)
qed

lemma tool_steps_run:
  assumes "live ast" "tool_steps tcs ast = (evs, ast')"
  shows "stream_run (phase_of ast) evs (phase_of ast') \<and> live ast'"
proof -
  have fold: "stream_run p (fst (foldl (\<lambda>acc item. tool_step item acc) (es, a) tcs)) (phase_of (snd (foldl (\<lambda>acc item. tool_step item acc) (es, a) tcs)))
      \<and> live (snd (foldl (\<lambda>acc item. tool_step item acc) (es, a) tcs))"
    if "stream_run p es (phase_of a)" "live a" for p es a tcs
    using that
  proof (induction tcs arbitrary: es a)
    case (Cons item tcs)
    obtain es' a' where "tool_step item (es, a) = (es', a')" by fastforce
    then show ?case using Cons tool_step_run by (metis foldl_Cons)
  qed simp
  let ?a = "ast\<lparr> ast_outputTokens := ast_outputTokens ast + 1 \<rparr>"
  have "live ?a" "phase_of ?a = phase_of ast" using assms(1) by (simp_all add: live_def phase_of_def)
  then show ?thesis using fold [of "phase_of ast" "[]" ?a tcs] assms by (auto simp: tool_steps_def split: if_splits)
qed

lemma split_think_state:
  "split_think r c ast = (r', c', ast') \<Longrightarrow> phase_of ast' = phase_of ast \<and> live ast' = live ast"
  by (auto simp: split_think_def phase_of_def live_def Let_def split: if_splits option.splits)

lemma delta_events_run:
  assumes "live ast" "delta_events delta ast = (evs, ast')"
  shows "stream_run (phase_of ast) evs (phase_of ast') \<and> live ast'"
proof -
  obtain r c a0 where s: "split_think (str_at ''reasoning_content'' delta) (str_at ''content'' delta) ast = (r, c, a0)"
    by (metis prod_cases3)
  obtain e1 a1 where t1: "text_step ''thinking'' ''thinking'' ''thinking_delta'' r a0 = (e1, a1)" by fastforce
  obtain e2 a2 where t2: "text_step ''text'' ''text'' ''text_delta'' c a1 = (e2, a2)" by fastforce
  obtain e3 a3 where t3: "tool_steps (case arr_at ''tool_calls'' delta of None \<Rightarrow> [] | Some tcs \<Rightarrow> tcs) a2 = (e3, a3)"
    by fastforce
  have e: "evs = e1 @ e2 @ e3" "ast' = a3" using assms(2) s t1 t2 t3 by (simp_all add: delta_events_def)
  note p0 = split_think_state [OF s]
  have p1: "stream_run (phase_of a0) e1 (phase_of a1) \<and> live a1" using text_step_run [OF _ _ t1] p0 assms(1) by simp
  have p2: "stream_run (phase_of a1) e2 (phase_of a2) \<and> live a2" using text_step_run [OF _ _ t2] p1 by simp
  have p3: "stream_run (phase_of a2) e3 (phase_of a3) \<and> live a3" using tool_steps_run [OF _ t3] p2 by simp
  show ?thesis unfolding e stream_run_append using p0 p1 p2 p3 by metis
qed

lemma chunk_events_run:
  assumes "translator_ok ast" "chunk_events chunk ast = (evs, ast')"
  shows "stream_run (phase_of ast) evs (phase_of ast') \<and> live ast'"
proof -
  obtain e0 a0 where s: "(if ast_messageStarted ast then ([], ast)
      else ([MessageStart (start_message ast)], ast\<lparr> ast_messageStarted := True \<rparr>)) = (e0, a0)" by fastforce
  have p0: "stream_run (phase_of ast) e0 (phase_of a0) \<and> live a0"
    using s assms(1) by (auto simp: translator_ok_def live_def phase_of_def split: if_splits)
  show ?thesis
  proof (cases "chunk_delta chunk")
    case None then show ?thesis using s p0 assms(2) by (simp add: chunk_events_def)
  next
    case (Some delta)
    obtain e1 a1 where d: "delta_events delta a0 = (e1, a1)" by fastforce
    then have "evs = e0 @ e1" "ast' = a1" using Some s assms(2) by (simp_all add: chunk_events_def)
    then show ?thesis using p0 delta_events_run [OF _ d] by (auto simp: stream_run_append)
  qed
qed

section \<open>Whole streams\<close>

definition parse_chunk :: "float_prims \<Rightarrow> string \<Rightarrow> (string \<times> json) list option" where
  "parse_chunk F payload =
     (let t = TrimSpace payload in
      if t = ''[DONE]'' \<or> t = '''' then None else Option.bind (json_decode (bytes_of t)) (as_map F))"

fun stream_events :: "float_prims \<Rightarrow> string list \<Rightarrow> translator \<Rightarrow> anthropic_event list \<times> translator" where
  "stream_events F [] ast = ([], ast)"
| "stream_events F (p # ps) ast =
     (let (e, a) = payload_events F p ast; (es, b) = stream_events F ps a in (e @ es, b))"

lemma stream_events_append:
  "stream_events F (ps @ qs) ast =
     (let (e, a) = stream_events F ps ast; (es, b) = stream_events F qs a in (e @ es, b))"
  by (induction ps arbitrary: ast) (auto simp: Let_def split: prod.split)

lemma payload_events_eq:
  "TrimSpace p \<noteq> ''[DONE]'' \<Longrightarrow>
     payload_events F p ast = (case parse_chunk F p of None \<Rightarrow> ([], ast) | Some chunk \<Rightarrow> chunk_events chunk ast)"
  by (simp add: payload_events_def parse_chunk_def Let_def)

lemma TrimSpace_done [simp]: "TrimSpace ''[DONE]'' = ''[DONE]''"
  by (simp add: TrimSpace_def is_space_def)

lemma payload_done [simp]: "payload_events F ''[DONE]'' ast = finish_stream ast"
  by (simp add: payload_events_def)

lemma payload_run:
  assumes "translator_ok ast" "TrimSpace p \<noteq> ''[DONE]''" "payload_events F p ast = (evs, ast')"
  shows "stream_run (phase_of ast) evs (phase_of ast') \<and> translator_ok ast'
    \<and> (if parse_chunk F p = None then evs = [] \<and> ast' = ast else live ast')"
  using assms chunk_events_run [OF assms(1)]
  by (auto simp: payload_events_eq translator_ok_def live_def split: option.splits)

lemma stream_events_run:
  assumes "translator_ok ast" "\<forall>p\<in>set ps. TrimSpace p \<noteq> ''[DONE]''" "stream_events F ps ast = (evs, ast')"
  shows "stream_run (phase_of ast) evs (phase_of ast') \<and> translator_ok ast'
    \<and> (live ast' \<longleftrightarrow> live ast \<or> (\<exists>p\<in>set ps. parse_chunk F p \<noteq> None))
    \<and> ((\<forall>p\<in>set ps. parse_chunk F p = None) \<longrightarrow> evs = [] \<and> ast' = ast)"
  using assms
proof (induction ps arbitrary: ast evs ast')
  case Nil then show ?case by auto
next
  case (Cons p ps)
  obtain e a where p: "payload_events F p ast = (e, a)" by fastforce
  obtain es b where q: "stream_events F ps a = (es, b)" by fastforce
  have e: "evs = e @ es" "ast' = b" using Cons.prems(3) p q by auto
  have "TrimSpace p \<noteq> ''[DONE]''" using Cons.prems(2) by simp
  note r = payload_run [OF Cons.prems(1) this p]
  have "stream_run (phase_of a) es (phase_of b) \<and> translator_ok b
    \<and> (live b \<longleftrightarrow> live a \<or> (\<exists>p\<in>set ps. parse_chunk F p \<noteq> None))
    \<and> ((\<forall>p\<in>set ps. parse_chunk F p = None) \<longrightarrow> es = [] \<and> b = a)"
    using Cons.IH [OF _ _ q] r Cons.prems(2) by simp
  moreover have "live ast \<Longrightarrow> live a" using r by (auto split: if_splits)
  ultimately show ?case using r unfolding e stream_run_append by (auto split: if_splits)
qed

lemma finish_run:
  "live ast \<Longrightarrow> finish_stream ast = (evs, ast') \<Longrightarrow> stream_run (phase_of ast) evs Ended \<and> ast_doneEmitted ast'"
  by (auto simp: finish_stream_def live_def phase_of_def)

lemma finish_again: "ast_doneEmitted ast \<Longrightarrow> stream_events F (replicate k ''[DONE]'') ast = ([], ast)"
  by (induction k) (auto simp: finish_stream_def)

lemma new_translator_ok: "translator_ok (NewAnthropicStreamTranslator now model)"
  "phase_of (NewAnthropicStreamTranslator now model) = NotStarted"
  by (simp_all add: NewAnthropicStreamTranslator_def translator_ok_def phase_of_def)

text \<open>
  C13: the events translated from any sequence of payloads with a chunk among them, ended by one or
  more end markers, form one message: a start, blocks numbered from zero that open and close one
  after another around their deltas, the final delta, and the stop, once.
\<close>

theorem translated_stream_well_formed:
  assumes "\<forall>p\<in>set ps. TrimSpace p \<noteq> ''[DONE]''" and "\<exists>p\<in>set ps. parse_chunk F p \<noteq> None"
  shows "stream_run NotStarted
    (fst (stream_events F (ps @ replicate (Suc k) ''[DONE]'') (NewAnthropicStreamTranslator now model))) Ended"
proof -
  let ?n = "NewAnthropicStreamTranslator now model"
  obtain e a where p: "stream_events F ps ?n = (e, a)" by fastforce
  obtain e' b where f: "finish_stream a = (e', b)" by fastforce
  note r = stream_events_run [OF new_translator_ok(1) assms(1) p]
  have "live a" using r assms(2) by blast
  note q = finish_run [OF this f]
  have "fst (stream_events F (ps @ replicate (Suc k) ''[DONE]'') ?n) = e @ e'"
    using p f finish_again [of b F k] q by (simp add: stream_events_append)
  then show ?thesis using r q new_translator_ok(2) by (auto simp: stream_run_append)
qed

lemma sample_chunk: "parse_chunk F ''{}'' = Some []"
  by (simp add: parse_chunk_def TrimSpace_def is_space_def json_eval as_map_def go_map_def)

lemma translated_stream_well_formed_witness:
  "stream_run NotStarted
    (fst (stream_events sample_float ([''x'', ''{}''] @ replicate (Suc 1) ''[DONE]'') (NewAnthropicStreamTranslator 7 ''m''))) Ended"
  by (rule translated_stream_well_formed) (simp_all add: sample_chunk TrimSpace_def is_space_def)

lemma stream_step_det: "stream_step p e q \<Longrightarrow> stream_step p e r \<Longrightarrow> q = r"
  by (cases e) auto

lemma stream_run_det: "stream_run p es q \<Longrightarrow> stream_run p es r \<Longrightarrow> q = r"
proof (induction p es q arbitrary: r rule: stream_run.induct)
  case (Cons p e q es s)
  then obtain q' where "stream_step p e q'" "stream_run q' es r" by auto
  then show ?case using Cons stream_step_det by blast
qed simp

lemma nothing_after_end: "stream_run p es Ended \<Longrightarrow> fs \<noteq> [] \<Longrightarrow> \<not> stream_run p (es @ fs) r"
  by (cases fs; cases "hd fs") (auto simp: stream_run_append dest: stream_run_det)

lemma finish_state: "finish_stream ast = (evs, ast') \<Longrightarrow> ast_messageStarted ast' = ast_messageStarted ast"
  by (auto simp: finish_stream_def split: if_splits)

text \<open>The text of the deltas of a kind.\<close>

definition delta_text :: "string \<Rightarrow> string \<Rightarrow> anthropic_event \<Rightarrow> string" where
  "delta_text dt field e =
     (case e of BlockDelta i (JObj m) \<Rightarrow> if str_at ''type'' m = dt then str_at field m else '''' | _ \<Rightarrow> '''')"

definition emitted :: "string \<Rightarrow> string \<Rightarrow> anthropic_event list \<Rightarrow> string" where
  "emitted dt field evs = concat (map (delta_text dt field) evs)"

lemma emitted_simps [simp]:
  "emitted dt f [] = ''''" "emitted dt f (es @ fs) = emitted dt f es @ emitted dt f fs"
  "emitted dt f (BlockStart i b # es) = emitted dt f es" "emitted dt f (BlockStop i # es) = emitted dt f es"
  "emitted dt f (MessageStart b # es) = emitted dt f es" "emitted dt f (MessageDelta n # es) = emitted dt f es"
  "emitted dt f (MessageStop # es) = emitted dt f es"
  "emitted dt f (BlockDelta i d # es) = delta_text dt f (BlockDelta i d) @ emitted dt f es"
  by (simp_all add: emitted_def delta_text_def)

lemma delta_text_simps [simp]:
  "delta_text ''text_delta'' ''text'' (BlockDelta i (jmap [(''type'', JStr ''text_delta''), (''text'', JStr t)])) = t"
  "delta_text ''thinking_delta'' ''thinking'' (BlockDelta i (jmap [(''type'', JStr ''text_delta''), (''text'', JStr t)])) = ''''"
  "delta_text ''text_delta'' ''text'' (BlockDelta i (jmap [(''type'', JStr ''thinking_delta''), (''thinking'', JStr t)])) = ''''"
  "delta_text ''thinking_delta'' ''thinking'' (BlockDelta i (jmap [(''type'', JStr ''thinking_delta''), (''thinking'', JStr t)])) = t"
  "delta_text ''text_delta'' ''text'' (BlockDelta i (jmap [(''type'', JStr ''input_json_delta''), (''partial_json'', JStr t)])) = ''''"
  "delta_text ''thinking_delta'' ''thinking'' (BlockDelta i (jmap [(''type'', JStr ''input_json_delta''), (''partial_json'', JStr t)])) = ''''"
  by (simp_all add: delta_text_def jmap_def go_map_def str_at_def)

lemma enter_block_emits:
  "enter_block kind c ast = (evs, ast') \<Longrightarrow> emitted dt f evs = '''' \<and> ast_inThinkTag ast' = ast_inThinkTag ast"
  by (auto simp: enter_block_def Let_def split: if_splits)

lemma text_step_emits:
  "text_step ''text'' ''text'' ''text_delta'' t ast = (evs, ast') \<Longrightarrow>
     emitted ''text_delta'' ''text'' evs = t \<and> emitted ''thinking_delta'' ''thinking'' evs = ''''
     \<and> ast_inThinkTag ast' = ast_inThinkTag ast"
  "text_step ''thinking'' ''thinking'' ''thinking_delta'' t ast = (evs, ast') \<Longrightarrow>
     emitted ''text_delta'' ''text'' evs = '''' \<and> emitted ''thinking_delta'' ''thinking'' evs = t
     \<and> ast_inThinkTag ast' = ast_inThinkTag ast"
  by (auto simp: text_step_def split: if_splits prod.splits dest: enter_block_emits)

lemma tool_step_emits:
  "tool_step item (es, ast) = (evs, ast') \<Longrightarrow>
     emitted ''text_delta'' ''text'' evs = emitted ''text_delta'' ''text'' es
     \<and> emitted ''thinking_delta'' ''thinking'' evs = emitted ''thinking_delta'' ''thinking'' es
     \<and> ast_inThinkTag ast' = ast_inThinkTag ast"
  by (auto simp: tool_step_def Let_def split: json.splits option.splits prod.splits if_splits dest: enter_block_emits)

lemma tool_steps_emit:
  assumes "tool_steps tcs ast = (evs, ast')"
  shows "emitted ''text_delta'' ''text'' evs = '''' \<and> emitted ''thinking_delta'' ''thinking'' evs = ''''
    \<and> ast_inThinkTag ast' = ast_inThinkTag ast"
proof -
  have fold: "foldl (\<lambda>acc item. tool_step item acc) (es, a) tcs = (evs, a') \<Longrightarrow>
      emitted ''text_delta'' ''text'' evs = emitted ''text_delta'' ''text'' es
      \<and> emitted ''thinking_delta'' ''thinking'' evs = emitted ''thinking_delta'' ''thinking'' es
      \<and> ast_inThinkTag a' = ast_inThinkTag a" for es a a'
  proof (induction tcs arbitrary: es a)
    case (Cons item tcs)
    obtain es1 a1 where "tool_step item (es, a) = (es1, a1)" by fastforce
    then show ?case using Cons tool_step_emits by fastforce
  qed simp
  show ?thesis using assms fold by (fastforce simp: tool_steps_def split: if_splits)
qed

definition chunk_field :: "string \<Rightarrow> (string \<times> json) list \<Rightarrow> string" where
  "chunk_field k chunk = (case chunk_delta chunk of None \<Rightarrow> '''' | Some d \<Rightarrow> str_at k d)"

lemma chunk_emits:
  assumes "\<not> ast_inThinkTag ast" "\<not> Contains (chunk_field ''content'' chunk) think_open" "chunk_events chunk ast = (evs, ast')"
  shows "emitted ''text_delta'' ''text'' evs = chunk_field ''content'' chunk
    \<and> emitted ''thinking_delta'' ''thinking'' evs = chunk_field ''reasoning_content'' chunk \<and> \<not> ast_inThinkTag ast'"
proof -
  let ?s = "if ast_messageStarted ast then ([], ast) else ([MessageStart (start_message ast)], ast\<lparr> ast_messageStarted := True \<rparr>)"
  obtain e0 a0 where s: "?s = (e0, a0)" by fastforce
  then have s0: "\<not> ast_inThinkTag a0" "emitted dt f e0 = ''''" for dt f using assms(1) by (auto split: if_splits)
  show ?thesis
  proof (cases "chunk_delta chunk")
    case None then show ?thesis using s s0 assms(3) by (simp add: chunk_events_def chunk_field_def)
  next
    case (Some d)
    have t: "split_think (str_at ''reasoning_content'' d) (str_at ''content'' d) a0 = (str_at ''reasoning_content'' d, str_at ''content'' d, a0)"
      using assms(2) Some s0(1) by (auto simp: split_think_def chunk_field_def)
    obtain e1 a1 where t1: "text_step ''thinking'' ''thinking'' ''thinking_delta'' (str_at ''reasoning_content'' d) a0 = (e1, a1)" by fastforce
    obtain e2 a2 where t2: "text_step ''text'' ''text'' ''text_delta'' (str_at ''content'' d) a1 = (e2, a2)" by fastforce
    obtain e3 a3 where t3: "tool_steps (case arr_at ''tool_calls'' d of None \<Rightarrow> [] | Some tcs \<Rightarrow> tcs) a2 = (e3, a3)" by fastforce
    have "evs = e0 @ e1 @ e2 @ e3" "ast' = a3"
      using assms(3) Some s t t1 t2 t3 by (simp_all add: chunk_events_def delta_events_def)
    then show ?thesis
      using text_step_emits(2) [OF t1] text_step_emits(1) [OF t2] tool_steps_emit [OF t3] s0 Some
      by (simp add: chunk_field_def)
  qed
qed

definition payload_field :: "float_prims \<Rightarrow> string \<Rightarrow> string \<Rightarrow> string" where
  "payload_field F k p = (case parse_chunk F p of None \<Rightarrow> '''' | Some chunk \<Rightarrow> chunk_field k chunk)"

lemma payload_emits:
  assumes "\<not> ast_inThinkTag ast" "TrimSpace p \<noteq> ''[DONE]''" "\<not> Contains (payload_field F ''content'' p) think_open"
    "payload_events F p ast = (evs, ast')"
  shows "emitted ''text_delta'' ''text'' evs = payload_field F ''content'' p
    \<and> emitted ''thinking_delta'' ''thinking'' evs = payload_field F ''reasoning_content'' p \<and> \<not> ast_inThinkTag ast'"
proof (cases "parse_chunk F p")
  case None
  then show ?thesis using assms by (simp add: payload_events_eq payload_field_def)
next
  case (Some chunk)
  then show ?thesis using chunk_emits [OF assms(1)] assms(2,3,4) by (simp add: payload_events_eq payload_field_def)
qed

text \<open>
  The end is not guarded: an end marker before any chunk gives a final delta and a stop without
  a start, and a chunk with text after the end gives a block again, which no client accepts.
\<close>

theorem stream_end_not_guarded:
  assumes "parse_chunk F p = Some chunk" and "chunk_delta chunk = Some d" and "TrimSpace p \<noteq> ''[DONE]''"
    and "str_at ''content'' d \<noteq> ''''"
    and "\<not> Contains (str_at ''content'' d) think_open"
  shows "\<not> stream_run NotStarted (fst (stream_events F [p, ''[DONE]'', p] (NewAnthropicStreamTranslator now model))) r
    \<and> \<not> stream_run NotStarted (fst (stream_events F [''[DONE]''] (NewAnthropicStreamTranslator now model))) r"
proof
  let ?n = "NewAnthropicStreamTranslator now model"
  obtain e a where p: "payload_events F p ?n = (e, a)" by fastforce
  obtain e' b where f: "finish_stream a = (e', b)" by fastforce
  note r = payload_run [OF new_translator_ok(1) assms(3) p]
  have "live a" using r assms(1) by simp
  note q = finish_run [OF this f]
  have "payload_events F p b = chunk_events chunk b" using assms(1,3) by (simp add: payload_events_eq)
  then have "fst (stream_events F [p, ''[DONE]'', p] ?n) = (e @ e') @ fst (chunk_events chunk b)"
    using p f by (simp split: prod.split)
  moreover have "stream_run NotStarted (e @ e') Ended" using r q new_translator_ok(2) by (auto simp: stream_run_append)
  moreover have "fst (chunk_events chunk b) \<noteq> []"
  proof -
    have "payload_field F ''content'' p = str_at ''content'' d" "chunk_field ''content'' chunk = str_at ''content'' d"
      using assms(1,2) by (simp_all add: payload_field_def chunk_field_def)
    moreover have "\<not> ast_inThinkTag ?n" by (simp add: NewAnthropicStreamTranslator_def)
    ultimately have "\<not> ast_inThinkTag b"
      using payload_emits [OF _ assms(3) _ p] assms(5) f by (auto simp: finish_stream_def split: if_splits)
    then show ?thesis
      using chunk_emits [of b chunk "fst (chunk_events chunk b)" "snd (chunk_events chunk b)"] assms(4,5)
        \<open>chunk_field ''content'' chunk = str_at ''content'' d\<close> by auto
  qed
  ultimately show "\<not> stream_run NotStarted (fst (stream_events F [p, ''[DONE]'', p] ?n)) r"
    using nothing_after_end by metis
  show "\<not> stream_run NotStarted (fst (stream_events F [''[DONE]''] ?n)) r"
    by (simp add: finish_stream_def NewAnthropicStreamTranslator_def)
qed

definition quoted :: "string \<Rightarrow> string" where "quoted s = [CHR 0x22] @ s @ [CHR 0x22]"

definition text_payload :: "string \<Rightarrow> string" where
  "text_payload t = ''{'' @ quoted ''choices'' @ '':[{'' @ quoted ''delta'' @ '':{'' @ quoted ''content'' @ '':'' @ quoted t @ ''}}]}''"

lemma text_payload_chunk:
  "parse_chunk F (text_payload ''hi'') = Some [(''choices'', JArr [JObj [(''delta'', JObj [(''content'', JStr ''hi'')])]])]"
  by (simp add: parse_chunk_def text_payload_def quoted_def TrimSpace_def is_space_def json_eval as_map_def go_map_def)

lemma text_payload_delta:
  "chunk_delta [(''choices'', JArr [JObj [(''delta'', JObj [(''content'', JStr ''hi'')])]])] = Some [(''content'', JStr ''hi'')]"
  by (simp add: chunk_delta_def first_choice_def arr_at_def obj_at_def)

lemma text_payload_facts:
  "TrimSpace (text_payload ''hi'') \<noteq> ''[DONE]''" "str_at ''content'' [(''content'', JStr ''hi'')] = ''hi''"
  "\<not> Contains ''hi'' think_open"
  by (simp_all add: text_payload_def quoted_def TrimSpace_def is_space_def str_at_def Contains_def HasPrefix_def think_open_def)

lemma stream_end_not_guarded_witness:
  "\<not> stream_run NotStarted (fst (stream_events sample_float [text_payload ''hi'', ''[DONE]'', text_payload ''hi''] (NewAnthropicStreamTranslator 7 ''m''))) Ended
   \<and> \<not> stream_run NotStarted (fst (stream_events sample_float [''[DONE]''] (NewAnthropicStreamTranslator 7 ''m''))) Ended"
  by (rule stream_end_not_guarded [OF text_payload_chunk text_payload_delta])
    (simp_all add: text_payload_facts)

section \<open>Tool calls\<close>

text \<open>
  While a tool call is open, the delta of another tool call with a name and an identifier of its
  own is appended to the open block: the events do not depend on the name and the identifier.
\<close>

theorem parallel_tool_calls_merged:
  assumes "ast_currentBlock ast = ''tool_use''" and "obj_at ''function'' tc = Some fn" and "obj_at ''function'' tc' = Some fn'"
    and "str_at ''arguments'' fn = str_at ''arguments'' fn'"
  shows "tool_steps [JObj tc] ast = tool_steps [JObj tc'] ast
    \<and> (\<forall>i b. BlockStart i b \<notin> set (fst (tool_steps [JObj tc] ast)))"
  using assms by (simp add: tool_steps_def tool_step_def enter_block_def Let_def)

lemma parallel_tool_calls_merged_witness:
  "let ast = (NewAnthropicStreamTranslator 7 ''m'')\<lparr> ast_messageStarted := True, ast_currentBlock := ''tool_use'' \<rparr>;
       call = (\<lambda>name. [(''id'', JStr name), (''function'', JObj [(''name'', JStr name), (''arguments'', JStr ''x'')])])
   in tool_steps [JObj (call ''a'')] ast = tool_steps [JObj (call ''b'')] ast"
  unfolding Let_def
  by (rule parallel_tool_calls_merged [where fn = "[(''name'', JStr ''a''), (''arguments'', JStr ''x'')]"
        and fn' = "[(''name'', JStr ''b''), (''arguments'', JStr ''x'')]", THEN conjunct1]) (simp_all add: obj_at_def str_at_def)

section \<open>The status of the engine\<close>

text \<open>A plain response through the translating writer, from its header to its end.\<close>

definition translate_plain ::
  "float_prims \<Rightarrow> hpke_prims \<Rightarrow> (32 word \<Rightarrow> int) \<Rightarrow> int \<Rightarrow> int \<Rightarrow> bytes list \<Rightarrow> msg_writer \<Rightarrow> msg_writer option" where
  "translate_plain F P clk now status parts mw =
     mw_Finish F P clk now (foldl (\<lambda>mw p. mw_Write F P clk p mw) (mw_WriteHeader status mw) parts)"

lemma mw_write_plain:
  "\<not> upstream_is_sse (mw_hpke mw) \<Longrightarrow> \<not> mw_isStreaming mw \<Longrightarrow>
     foldl (\<lambda>mw p. mw_Write F P clk p mw) mw parts = mw\<lparr> mw_buf := mw_buf mw @ concat parts \<rparr>"
proof (induction parts arbitrary: mw)
  case (Cons p parts)
  have "mw_Write F P clk p mw = mw\<lparr> mw_buf := mw_buf mw @ p \<rparr>"
    using Cons.prems by (simp add: mw_Write_def pass_header_def)
  then show ?case using Cons by simp
qed simp

text \<open>
  The status of a plain response of the engine is lost: what reaches the encrypting writer does
  not depend on it, and that writer keeps status 200, so an error of the engine arrives as a
  completion; and a JSON error becomes a message without content.
\<close>

theorem engine_status_lost:
  assumes "\<not> upstream_is_sse rw" and "\<not> rw_isStreaming rw" and "rw_status rw = 200"
  shows "map_option mw_hpke (translate_plain F P clk now status parts (newMessagesResponseWriter now rw model))
     = map_option mw_hpke (translate_plain F P clk now status' parts (newMessagesResponseWriter now rw model))
   \<and> (\<forall>mw. translate_plain F P clk now status parts (newMessagesResponseWriter now rw model) = Some mw
        \<longrightarrow> rw_status (mw_hpke mw) = 200)
   \<and> ConvertOpenAIToAnthropicResponse F now (bytes_of (''{'' @ quoted ''error'' @ '':'' @ quoted ''overloaded'' @ ''}'')) model
     = Converted (bytes_of (json_encode (anthropic_response F now [(''error'', JStr ''overloaded'')] model [] None)))"
proof -
  let ?n = "\<lambda>st. (newMessagesResponseWriter now rw model)\<lparr> mw_status := st \<rparr>"
  have p: "translate_plain F P clk now st parts (newMessagesResponseWriter now rw model)
      = mw_Finish F P clk now (?n st\<lparr> mw_buf := concat parts \<rparr>)" for st
  proof -
    have h: "mw_WriteHeader st (newMessagesResponseWriter now rw model) = ?n st"
      using assms(1) by (simp add: mw_WriteHeader_def pass_header_def newMessagesResponseWriter_def)
    have "\<not> upstream_is_sse (mw_hpke (?n st))" "\<not> mw_isStreaming (?n st)" "mw_buf (?n st) = []"
      using assms(1) by (simp_all add: newMessagesResponseWriter_def)
    then show ?thesis unfolding translate_plain_def h using mw_write_plain [of "?n st" F P clk parts] by simp
  qed
  have w: "rw_status (snd (Write P clk b rw)) = 200" for b
    using assms by (simp add: Write_def)
  have s: "mw_isStreaming (?n st) = False" "mw_hpke (?n st) = rw" for st by (simp_all add: newMessagesResponseWriter_def)
  have f: "mw_Finish F P clk now (?n st\<lparr> mw_buf := b \<rparr>) =
      (if b = [] then Some (?n st\<lparr> mw_buf := b \<rparr>)
       else (case ConvertOpenAIToAnthropicResponse F now b model of
              NotJson \<Rightarrow> Some (?n st\<lparr> mw_buf := b, mw_hpke := snd (Write P clk b rw) \<rparr>)
            | Converted c \<Rightarrow> Some (?n st\<lparr> mw_buf := b, mw_hpke := snd (Write P clk c rw) \<rparr>)
            | Panicked \<Rightarrow> None))" for st b
    by (simp add: mw_Finish_def newMessagesResponseWriter_def split: conversion.split)
  have e: "json_decode (bytes_of (''{'' @ quoted ''error'' @ '':'' @ quoted ''overloaded'' @ ''}'')) = Some (JObj [(''error'', JStr ''overloaded'')])"
    by (simp add: json_eval quoted_def)
  have c: "ConvertOpenAIToAnthropicResponse F now (bytes_of (''{'' @ quoted ''error'' @ '':'' @ quoted ''overloaded'' @ ''}'')) model
     = Converted (bytes_of (json_encode (anthropic_response F now [(''error'', JStr ''overloaded'')] model [] None)))"
    unfolding ConvertOpenAIToAnthropicResponse_def e by (simp add: as_map_def go_map_def first_choice_def arr_at_def)
  show ?thesis unfolding p f using c w assms(3) s by (auto split: conversion.splits)
qed

lemma engine_status_lost_witness:
  "map_option mw_hpke (translate_plain sample_float sample_prims (\<lambda>_. 0) 7 503 [bytes_of ''busy''] (newMessagesResponseWriter 7
       (newHPKEResponseWriter \<lparr> o_headers = [], o_status = None, o_body = [] \<rparr> None False) ''m''))
   = map_option mw_hpke (translate_plain sample_float sample_prims (\<lambda>_. 0) 7 200 [bytes_of ''busy''] (newMessagesResponseWriter 7
       (newHPKEResponseWriter \<lparr> o_headers = [], o_status = None, o_body = [] \<rparr> None False) ''m''))"
  by (rule engine_status_lost [THEN conjunct1])
    (simp_all add: newHPKEResponseWriter_def upstream_is_sse_def Contains_def HasPrefix_def ToLower_def)

section \<open>Thinking tags\<close>

text \<open>
  A completion whose content closes the thinking tag before it opens one makes the conversion
  panic on a slice, so the response is never finished.
\<close>

theorem closing_tag_first_panics:
  assumes "Option.bind (json_decode body) (as_map F) = Some resp" and "first_choice resp = Some choice"
    and "obj_at ''message'' choice = Some msg" and "str_at ''reasoning_content'' msg = ''''" and "str_at ''content'' msg = c"
    and "Index c think_close = Some j" and "Index c think_open = Some i" and "j < i"
    and "\<not> mw_isStreaming mw" and "mw_buf mw = body" and "body \<noteq> []"
  shows "ExtractThinkingFromContent c = None \<and> mw_Finish F P clk now mw = None"
proof -
  have "c \<noteq> ''''" using assms(7) by (auto simp: think_open_def)
  moreover have x: "ExtractThinkingFromContent c = None" using assms(6,7,8) by (simp add: ExtractThinkingFromContent_def)
  ultimately have "ConvertOpenAIToAnthropicResponse F now body (mw_model mw) = Panicked"
    using assms(1-5) by (simp add: ConvertOpenAIToAnthropicResponse_def content_blocks_def)
  then show ?thesis using assms(9-11) x by (simp add: mw_Finish_def)
qed

definition panic_body :: string where
  "panic_body = ''{'' @ quoted ''choices'' @ '':[{'' @ quoted ''message'' @ '':{'' @ quoted ''content'' @ '':''
     @ quoted ''a</think><think>'' @ ''}}]}''"

lemma closing_tag_first_panics_witness:
  "ExtractThinkingFromContent ''a</think><think>'' = None
   \<and> mw_Finish sample_float sample_prims (\<lambda>_. 0) 7 ((newMessagesResponseWriter 7 (newHPKEResponseWriter \<lparr> o_headers = [], o_status = None, o_body = [] \<rparr> None False) ''m'')\<lparr> mw_buf := bytes_of panic_body \<rparr>) = None"
proof (rule closing_tag_first_panics [where choice = "[(''message'', JObj [(''content'', JStr ''a</think><think>'')])]"
      and msg = "[(''content'', JStr ''a</think><think>'')]" and i = 9 and j = 1])
  show "Option.bind (json_decode (bytes_of panic_body)) (as_map sample_float)
      = Some [(''choices'', JArr [JObj [(''message'', JObj [(''content'', JStr ''a</think><think>'')])]])]"
    by (simp add: panic_body_def quoted_def json_eval as_map_def go_map_def)
qed (simp_all add: first_choice_def arr_at_def obj_at_def str_at_def HasPrefix_def think_open_def think_close_def
    newMessagesResponseWriter_def panic_body_def bytes_of_def)

section \<open>Requests\<close>

text \<open>A plain conversation: every content is text.\<close>

definition plain_texts :: "anthropic_request \<Rightarrow> (string \<times> string) list option" where
  "plain_texts req = those (map (\<lambda>m. case am_content m of Some (JStr t) \<Rightarrow> Some (am_role m, t) | _ \<Rightarrow> None) (ar_messages req))"

lemma convert_plain:
  "those (map (\<lambda>m. case am_content m of Some (JStr t) \<Rightarrow> Some (am_role m, t) | _ \<Rightarrow> None) ms) = Some rts \<Longrightarrow>
     concat (map convert_message ms) = map (\<lambda>(r, t). plain_message r t) rts"
  by (induction ms arbitrary: rts) (auto simp: convert_message_def split: option.splits json.splits)

lemma token_limit_keys:
  "map_of (rev (token_limit req)) = map_of (token_limit req)"
  "k \<noteq> ''max_tokens'' \<Longrightarrow> k \<noteq> ''max_completion_tokens'' \<Longrightarrow> map_of (token_limit req) k = None"
  by (simp_all add: token_limit_def Let_def split: option.split)

lemma optional_key:
  "map_of (rev (case x of None \<Rightarrow> [] | Some t \<Rightarrow> [(k, f t)])) k' = (if k' = k then map_option f x else None)"
  by (cases x) auto

lemma choice_shape: "\<exists>v. convert_choice c = [] \<or> convert_choice c = [(''tool_choice'', v)]"
proof (cases "\<exists>tc. c = Some (JObj tc)")
  case True
  then obtain tc where c: "c = Some (JObj tc)" by blast
  have n: "\<exists>v. (case map_of tc ''name'' of Some (JStr name) \<Rightarrow> [(''tool_choice'', jmap [(''type'', JStr ''function''), (''function'', jmap [(''name'', JStr name)])])]
              | _ \<Rightarrow> []) = [] \<or> (case map_of tc ''name'' of Some (JStr name) \<Rightarrow> [(''tool_choice'', jmap [(''type'', JStr ''function''), (''function'', jmap [(''name'', JStr name)])])]
              | _ \<Rightarrow> []) = [(''tool_choice'', v)]"
    by (cases "map_of tc ''name''"; cases "the (map_of tc ''name'')") simp_all
  show ?thesis using n unfolding convert_choice_def Let_def c by simp
next
  case False
  then show ?thesis unfolding convert_choice_def by (cases c; cases "the c") simp_all
qed

lemma choice_keys:
  "k \<noteq> ''tool_choice'' \<Longrightarrow> map_of (rev (convert_choice c)) k = None"
  using choice_shape [of c] by auto

lemma request_lookup:
  assumes "openai_request req = JObj m"
  shows "map_of m = map_of (rev ([(''model'', JStr (ar_model req)), (''stream'', JBool (ar_stream req))]
       @ (case ar_temperature req of None \<Rightarrow> [] | Some t \<Rightarrow> [(''temperature'', JNum t)])
       @ (case ar_top_p req of None \<Rightarrow> [] | Some t \<Rightarrow> [(''top_p'', JNum t)])
       @ (case ar_top_k req of None \<Rightarrow> [] | Some k \<Rightarrow> [(''top_k'', JInt k)])
       @ token_limit req
       @ [(''messages'', nil_or_list (openai_messages req))]
       @ (if ar_tools req = [] then []
          else (''tools'', JArr (map convert_tool (ar_tools req))) # convert_choice (ar_tool_choice req))))"
  using assms unfolding openai_request_def jmap_def json.inject by (metis map_of_go_map)

text \<open>
  A converted request carries the model, the streaming flag, the sampling parameters and the
  limit of the request under their own names, and the messages of a plain conversation are those of
  the request in order with their roles, after the system text; but with thinking enabled and no
  budget, a limit that was set is dropped.
\<close>

theorem request_converted:
  assumes "openai_request req = JObj m"
  shows "map_of m ''model'' = Some (JStr (ar_model req)) \<and> map_of m ''stream'' = Some (JBool (ar_stream req))
     \<and> map_of m ''temperature'' = map_option JNum (ar_temperature req)
     \<and> map_of m ''top_p'' = map_option JNum (ar_top_p req) \<and> map_of m ''top_k'' = map_option JInt (ar_top_k req)
     \<and> (ar_thinking req = None \<and> 0 < ar_max_tokens req \<longrightarrow> map_of m ''max_tokens'' = Some (JInt (ar_max_tokens req)))
     \<and> (\<forall>rts. plain_texts req = Some rts \<longrightarrow>
          map_of m ''messages'' = Some (nil_or_list (system_message (ar_system req) @ map (\<lambda>(r, t). plain_message r t) rts)))
     \<and> (\<forall>t. ar_thinking req = Some t \<and> at_type t = ''enabled'' \<and> at_budget_tokens t \<le> 0 \<longrightarrow>
          map_of m ''max_tokens'' = None \<and> map_of m ''max_completion_tokens'' = None)"
proof -
  note l = request_lookup [OF assms]
  have "map_of m ''messages'' = Some (nil_or_list (openai_messages req))"
    by (simp add: l token_limit_keys choice_keys optional_key map_add_def)
  then have "plain_texts req = Some rts \<Longrightarrow>
      map_of m ''messages'' = Some (nil_or_list (system_message (ar_system req) @ map (\<lambda>(r, t). plain_message r t) rts))" for rts
    unfolding plain_texts_def by (simp add: openai_messages_def convert_plain)
  moreover have "map_of m ''max_tokens'' = map_of (token_limit req) ''max_tokens''"
    by (cases "map_of (token_limit req) ''max_tokens''") (simp_all add: l token_limit_keys choice_keys optional_key map_add_def)
  moreover have "map_of m ''max_completion_tokens'' = map_of (token_limit req) ''max_completion_tokens''"
    by (cases "map_of (token_limit req) ''max_completion_tokens''")
      (simp_all add: l token_limit_keys choice_keys optional_key map_add_def)
  moreover have "map_of m ''model'' = Some (JStr (ar_model req)) \<and> map_of m ''stream'' = Some (JBool (ar_stream req))
     \<and> map_of m ''temperature'' = map_option JNum (ar_temperature req)
     \<and> map_of m ''top_p'' = map_option JNum (ar_top_p req) \<and> map_of m ''top_k'' = map_option JInt (ar_top_k req)"
    by (simp add: l token_limit_keys choice_keys optional_key map_add_def) (simp split: option.split)
  ultimately show ?thesis by (simp add: token_limit_def Let_def)
qed

definition sample_messages :: anthropic_request where
  "sample_messages = \<lparr> ar_model = ''m'', ar_messages = [\<lparr> am_role = ''user'', am_content = Some (JStr ''hi'') \<rparr>],
     ar_system = None, ar_max_tokens = 100, ar_temperature = None, ar_top_p = None, ar_top_k = None, ar_stream = False,
     ar_thinking = Some \<lparr> at_type = ''enabled'', at_budget_tokens = 0 \<rparr>, ar_tools = [], ar_tool_choice = None \<rparr>"

lemma request_converted_witness:
  "\<exists>m. openai_request sample_messages = JObj m \<and> map_of m ''max_tokens'' = None \<and> map_of m ''max_completion_tokens'' = None
     \<and> map_of m ''messages'' = Some (JArr [plain_message ''user'' ''hi''])"
proof -
  obtain m where m: "openai_request sample_messages = JObj m" by (simp add: openai_request_def jmap_def)
  have "system_message None = []" by (simp add: system_message_def system_text_def)
  then show ?thesis using m request_converted [OF m]
    by (simp add: sample_messages_def plain_texts_def nil_or_list_def)
qed

end
