(* ===== verification/GatewaySafety.thy ===== *)
theory GatewaySafety
  imports Gateway AuthSafety SseSafety AttestationSafety TranslatorSafety
begin

text \<open>
  What holds of the gateway's handlers one request at a time: what each endpoint may change, that the engine
  is reached by authenticated and sealed requests only and by each once, the lockdown before enrolment, and
  what a sealed node answers. The sample node at the end carries the witnesses.
\<close>


section \<open>What a handler does to the state\<close>

text \<open>The verifier after at most k operations at one clock reading.\<close>

definition ops_within :: "auth_crypto \<Rightarrow> int \<Rightarrow> nat \<Rightarrow> verifier \<Rightarrow> verifier \<Rightarrow> bool" where
  "ops_within C now k v v' \<longleftrightarrow> (\<exists>ops. v' = run_ops C ops v \<and> (\<forall>x \<in> set ops. op_time x = now) \<and> length ops \<le> k)"

lemma ops_none [simp, intro]: "ops_within C now k v v"
  unfolding ops_within_def by (intro exI [of _ "[]"]) (simp add: run_ops_def)

lemma ops_one [intro]: "op_time x = now \<Longrightarrow> 0 < k \<Longrightarrow> ops_within C now k v (op_step C x v)"
  unfolding ops_within_def by (intro exI [of _ "[x]"]) (simp add: run_ops_def)

lemma ops_trans: "ops_within C now j u v \<Longrightarrow> ops_within C now k v w \<Longrightarrow> j + k \<le> n \<Longrightarrow> ops_within C now n u w"
  unfolding ops_within_def
proof (elim exE conjE)
  fix xs ys
  assume "j + k \<le> n" "v = run_ops C xs u" "w = run_ops C ys v" "\<forall>x\<in>set xs. op_time x = now"
    "\<forall>x\<in>set ys. op_time x = now" "length xs \<le> j" "length ys \<le> k"
  then show "\<exists>ops. w = run_ops C ops u \<and> (\<forall>x \<in> set ops. op_time x = now) \<and> length ops \<le> n"
    by (intro exI [of _ "xs @ ys"]) (auto simp: run_ops_def)
qed

lemma ops_mono: "ops_within C now j u v \<Longrightarrow> j \<le> k \<Longrightarrow> ops_within C now k u v"
  by (rule ops_trans [OF _ ops_none [of _ _ 0]]) simp_all

text \<open>A node that differs in its verifier only, by at most k operations.\<close>

definition verifier_only :: "gateway \<Rightarrow> world \<Rightarrow> nat \<Rightarrow> node \<Rightarrow> node \<Rightarrow> bool" where
  "verifier_only G W k nd nd' \<longleftrightarrow>
     nd' = nd\<lparr> nd_verifier := nd_verifier nd' \<rparr> \<and> ops_within (gw_crypto G) (w_now W) k (nd_verifier nd) (nd_verifier nd')"

lemma verifier_only_refl [simp, intro]: "verifier_only G W k nd nd"
  by (simp add: verifier_only_def)

lemma verifier_only_trans:
  assumes "verifier_only G W j a b" "verifier_only G W k b c" "j + k \<le> n"
  shows "verifier_only G W n a c"
proof -
  have "c = a\<lparr> nd_verifier := nd_verifier c \<rparr>"
    using assms(1,2) unfolding verifier_only_def by (metis node.surjective node.update_convs(1))
  then show ?thesis using assms ops_trans unfolding verifier_only_def by blast
qed

lemma verifier_only_fields:
  "verifier_only G W k nd nd' \<Longrightarrow> nd_policy nd' = nd_policy nd \<and> nd_sealed nd' = nd_sealed nd \<and> nd_doc nd' = nd_doc nd
     \<and> nd_supervisor nd' = nd_supervisor nd"
  unfolding verifier_only_def by (metis node.ext_inject node.surjective node.update_convs(1))

lemma header_first_op:
  assumes "header_first G W r nd = (res, nd')"
  shows "verifier_only G W 1 nd nd'"
    and "nd_verifier nd' = op_step (gw_crypto G) (OpHeaderFirst (w_now W) 0 r) (nd_verifier nd)"
    and "(\<exists>body. res = Inr body) \<longleftrightarrow> fst (op_result (gw_crypto G) (OpHeaderFirst (w_now W) 0 r) (nd_verifier nd)) = None"
proof -
  obtain v where h: "VerifyHTTPRequestHeaderFirst (gw_crypto G) (w_now W) 0 r (nd_verifier nd) = (res, v)" "nd' = nd\<lparr> nd_verifier := v \<rparr>"
    using assms by (auto simp: header_first_def split: prod.splits)
  then show o: "nd_verifier nd' = op_step (gw_crypto G) (OpHeaderFirst (w_now W) 0 r) (nd_verifier nd)"
    "(\<exists>body. res = Inr body) \<longleftrightarrow> fst (op_result (gw_crypto G) (OpHeaderFirst (w_now W) 0 r) (nd_verifier nd)) = None"
    by (cases res; simp add: op_step_def)+
  show "verifier_only G W 1 nd nd'"
    unfolding verifier_only_def o(1) using h(2) o(1) by auto
qed

lemma no_body_op:
  assumes "no_body_auth G W r nd = (e, nd')"
  shows "verifier_only G W 1 nd nd'"
    and "nd_verifier nd' = op_step (gw_crypto G) (OpRequest (w_now W) r []) (nd_verifier nd)"
    and "e = fst (op_result (gw_crypto G) (OpRequest (w_now W) r []) (nd_verifier nd))"
proof -
  obtain v where h: "VerifyHTTPRequest (gw_crypto G) (w_now W) r [] (nd_verifier nd) = (e, v)" "nd' = nd\<lparr> nd_verifier := v \<rparr>"
    using assms by (auto simp: no_body_auth_def split: prod.splits)
  then show o: "nd_verifier nd' = op_step (gw_crypto G) (OpRequest (w_now W) r []) (nd_verifier nd)"
    "e = fst (op_result (gw_crypto G) (OpRequest (w_now W) r []) (nd_verifier nd))"
    by (simp_all add: op_step_def)
  show "verifier_only G W 1 nd nd'"
    unfolding verifier_only_def o(1) using h(2) o(1) by auto
qed

lemmas handler_splits = prod.splits sum.splits option.splits if_splits

lemma guard_cases:
  assumes "GuardNonCritical G name h W r w nd = (w', nd', effs)"
  obtains (passed) "h W r w nd = (w', nd', effs)"
      "\<not> IsEnrolled (nd_verifier nd) \<and> (name = ''attestation'' \<or> name = ''certificate'')
       \<or> IsEnrolled (nd_verifier nd) \<and> \<not> nd_sealed nd \<and> setting_of name (nd_policy nd) = Public"
  | (authenticated) body nd1 where "IsEnrolled (nd_verifier nd)" "nd_sealed nd \<or> setting_of name (nd_policy nd) = Hidden"
      "header_first G W r nd = (Inr body, nd1)" "h W (r\<lparr> r_body := BodyBytes body \<rparr>) w nd1 = (w', nd', effs)"
  | (refused) e where "header_first G W r nd = (Inl e, nd')" "effs = []" "\<exists>t. w' = json_error 401 t w"
  | (locked) "\<not> IsEnrolled (nd_verifier nd)" "nd' = nd" "effs = []" "\<exists>t. w' = json_error 401 t w"
proof (cases "IsEnrolled (nd_verifier nd) \<and> (nd_sealed nd \<or> setting_of name (nd_policy nd) = Hidden)")
  case True
  obtain res nd1 where h: "header_first G W r nd = (res, nd1)" by fastforce
  with True assms show thesis
    by (cases res) (auto simp: GuardNonCritical_def intro: refused authenticated)
next
  case False
  have "setting_of name (nd_policy nd) \<noteq> Hidden \<Longrightarrow> setting_of name (nd_policy nd) = Public"
    by (cases "setting_of name (nd_policy nd)") auto
  then show thesis using False assms passed locked by (auto simp: GuardNonCritical_def split: if_splits)
qed

lemma attestation_frame: "attestation_handler G W r w nd = (w', nd', effs) \<Longrightarrow> nd' = nd \<and> effs = []"
  by (auto simp: attestation_handler_def Let_def split: handler_splits)

lemma certificate_frame: "certificate_handler G W r w nd = (w', nd', effs) \<Longrightarrow> nd' = nd \<and> effs = []"
  by (simp add: certificate_handler_def)

lemma health_frame: "health_handler G W r w nd = (w', nd', effs) \<Longrightarrow> verifier_only G W 1 nd nd' \<and> effs = []"
  by (auto simp: health_handler_def Let_def split: handler_splits dest: no_body_op(1))

lemma probe_frame: "probe_handler W r w nd = (w', nd', effs) \<Longrightarrow> nd' = nd \<and> (\<forall>e \<in> set effs. \<exists>t n. e = Dial t n)"
  by (auto simp: probe_handler_def Let_def split: handler_splits)

lemma models_frame: "models_handler G W r w nd = (w', nd', effs) \<Longrightarrow> verifier_only G W 1 nd nd' \<and> effs = []"
  by (auto simp: models_handler_def Let_def split: handler_splits dest: no_body_op(1))

text \<open>A node whose verifier went through at most k operations, with the rest as given.\<close>

lemma verifier_only_put: "verifier_only G W k nd nd1 \<Longrightarrow> ops_within (gw_crypto G) (w_now W) k (nd_verifier nd) (nd_verifier nd1)"
  by (simp add: verifier_only_def)

text \<open>What one request may change: the operations of the verifier and the four other parts of the node.\<close>

datatype part = PolicyPart | SealPart | DocPart | SupervisorPart

definition touches :: "gateway \<Rightarrow> world \<Rightarrow> nat \<Rightarrow> part set \<Rightarrow> node \<Rightarrow> node \<Rightarrow> bool" where
  "touches G W k parts nd nd' \<longleftrightarrow>
     ops_within (gw_crypto G) (w_now W) k (nd_verifier nd) (nd_verifier nd')
     \<and> (PolicyPart \<in> parts \<or> nd_policy nd' = nd_policy nd) \<and> (nd_sealed nd' = nd_sealed nd \<or> SealPart \<in> parts \<and> nd_sealed nd')
     \<and> (DocPart \<in> parts \<or> nd_doc nd' = nd_doc nd) \<and> (SupervisorPart \<in> parts \<or> nd_supervisor nd' = nd_supervisor nd)"

lemma touches_verifier: "verifier_only G W k nd nd' \<Longrightarrow> touches G W k {} nd nd'"
  using verifier_only_fields verifier_only_put unfolding touches_def by blast

lemma visibility_frame:
  assumes "visibility_handler G W r w nd = (w', nd', effs)"
  shows "touches G W 1 {PolicyPart} nd nd' \<and> effs = []"
proof -
  consider (none) "nd' = nd" | (get) e where "no_body_auth G W r nd = (e, nd')"
    | (post) res nd1 where "header_first G W r nd = (res, nd1)" "nd' = nd1 \<or> (\<exists>p. nd' = nd1\<lparr> nd_policy := p \<rparr>)"
    using assms unfolding visibility_handler_def Let_def by (cases "IsEnrolled (nd_verifier nd)"; cases "r_method r = ''GET''") (auto split: handler_splits)
  then have "touches G W 1 {PolicyPart} nd nd'"
  proof cases
    case none then show ?thesis by (simp add: touches_def)
  next
    case get then show ?thesis using touches_verifier [OF no_body_op(1)] by (force simp: touches_def)
  next
    case post then show ?thesis using touches_verifier [OF header_first_op(1) [OF post(1)]] by (auto simp: touches_def)
  qed
  moreover have "effs = []" using assms unfolding visibility_handler_def Let_def by (auto split: handler_splits)
  ultimately show ?thesis by simp
qed

lemma touches_refl [simp, intro]: "touches G W k parts nd nd"
  by (simp add: touches_def)

lemma touches_mono: "touches G W j ps nd nd' \<Longrightarrow> j \<le> k \<Longrightarrow> ps \<subseteq> qs \<Longrightarrow> touches G W k qs nd nd'"
  unfolding touches_def using ops_mono by blast

lemma touches_trans:
  "touches G W j ps a b \<Longrightarrow> touches G W k qs b c \<Longrightarrow> j + k \<le> n \<Longrightarrow> touches G W n (ps \<union> qs) a c"
  unfolding touches_def using ops_trans [of "gw_crypto G" "w_now W" j "nd_verifier a" "nd_verifier b" k "nd_verifier c" n]
  by (elim conjE; intro conjI) auto

lemma auth_touches:
  "header_first G W r nd = (res, nd') \<Longrightarrow> touches G W (Suc 0) {} nd nd'"
  "no_body_auth G W r nd = (e, nd') \<Longrightarrow> touches G W (Suc 0) {} nd nd'"
  using header_first_op(1) no_body_op(1) touches_verifier by fastforce+

lemma seal_frame:
  assumes "seal_handler G W r w nd = (w', nd', effs)"
  shows "touches G W 1 {SealPart} nd nd'"
proof -
  have "nd' = nd \<or> (\<exists>res nd1. header_first G W r nd = (res, nd1) \<and> (nd' = nd1 \<or> nd' = nd1\<lparr> nd_sealed := True \<rparr>))"
    using assms unfolding seal_handler_def Let_def by (auto split: handler_splits)
  then show ?thesis
    by (auto dest!: header_first_op(1) touches_verifier simp: touches_def)
qed

lemma possession_ops:
  assumes "VerifyProofOfPossession C now k r body v = (e, v')"
  shows "ops_within C now 1 v v'"
proof -
  have "v' = op_step C (OpPossession now k r body) v" using assms by (simp add: op_step_def)
  then show ?thesis by auto
qed

lemma enroll_ops:
  assumes "EnrollKey now k v = (e, v')"
  shows "ops_within C now 1 v v'"
proof -
  have "v' = op_step C (OpEnroll now k) v" using assms by (simp add: op_step_def)
  then show ?thesis by auto
qed

section \<open>The status of a reply\<close>

lemma status_headers [simp]: "o_status (set_header n v w) = o_status w" "o_status (set_json w) = o_status w"
  by (simp_all add: set_header_def set_json_def)

lemma status_replies [simp]:
  assumes "o_status w = None"
  shows "o_status (write_json st j w) = Some st" "o_status (json_error st t w) = Some st"
    "o_status (http_error st t w) = Some st" "o_status (method_not_allowed w) = Some 405" "o_status (auth_failed G e w) = Some 401"
  using assms by (simp_all add: write_json_def json_error_def http_error_def out_write_def out_write_header_def Let_def
      method_not_allowed_def auth_failed_def set_header_def set_json_def)

lemma status_fresh [simp]: "o_status fresh_response = None" by (simp add: fresh_response_def)

lemma enroll_cases:
  assumes h: "enroll_handler G W r w nd = (w', nd', effs)" and w: "o_status w = None"
  obtains (refused) "nd' = nd" "effs = []" "o_status w' \<in> {Some 405, Some 409, Some 400}"
  | (rejected) body req k e v where "\<not> IsEnrolled (nd_verifier nd)"
      "VerifyProofOfPossession (gw_crypto G) (w_now W) k (embed_possession req r) body (nd_verifier nd) = (Some e, v)"
      "nd' = nd\<lparr> nd_verifier := v \<rparr>" "effs = []" "o_status w' = Some 401"
  | (raced) body req k e v v' where "\<not> IsEnrolled (nd_verifier nd)"
      "VerifyProofOfPossession (gw_crypto G) (w_now W) k (embed_possession req r) body (nd_verifier nd) = (None, v)"
      "EnrollKey (w_now W) k v = (Some e, v')" "effs = []" "nd' = nd\<lparr> nd_verifier := v' \<rparr>" "o_status w' = Some 409"
  | (enrolled) body req k hex v v' where "\<not> IsEnrolled (nd_verifier nd)" "r_method r = ''POST''"
      "read_body (1024 * 1024) (r_body r) = Inr body" "read_enrollment body = Some req"
      "ParsePublicKeyHex (er_public_key req) = Inr (k, hex)"
      "VerifyProofOfPossession (gw_crypto G) (w_now W) k (embed_possession req r) body (nd_verifier nd) = (None, v)"
      "EnrollKey (w_now W) k v = (None, v')" "effs = []" "o_status w' = Some 200"
      "nd' = nd\<lparr> nd_verifier := v', nd_doc := map_option (\<lambda>d. d\<lparr> ad_predicate := (ad_predicate d)\<lparr> cp_authorized_public_key := hex \<rparr> \<rparr>) (nd_doc nd) \<rparr>"
proof (cases "r_method r = ''POST'' \<and> \<not> IsEnrolled (nd_verifier nd)")
  case False
  then show ?thesis using h w refused by (auto simp: enroll_handler_def Let_def split: if_splits)
next
  case True
  note h = h [unfolded enroll_handler_def Let_def]
  show ?thesis
  proof (cases "read_body (1024 * 1024) (r_body r)")
    case (Inl e) then show ?thesis using h w True refused by (cases e) auto
  next
    case b: (Inr body)
    show ?thesis
    proof (cases "read_enrollment body")
      case None then show ?thesis using h w True b refused by auto
    next
      case q: (Some req)
      show ?thesis
      proof (cases "ParsePublicKeyHex (er_public_key req)")
        case Inl then show ?thesis using h w True b q refused by auto
      next
        case k: (Inr p)
        obtain key hex where p: "p = (key, hex)" by fastforce
        obtain e v where v: "VerifyProofOfPossession (gw_crypto G) (w_now W) key (embed_possession req r) body (nd_verifier nd) = (e, v)"
          by fastforce
        obtain e' v' where v': "EnrollKey (w_now W) key v = (e', v')" by fastforce
        have n: "\<not> IsEnrolled (nd_verifier nd)" "r_method r = ''POST''" using True by auto
        show ?thesis
        proof (cases e)
          case (Some x)
          show ?thesis by (rule rejected [OF n(1) v [unfolded Some]]) (use h w n b q k p v Some in auto)
        next
          case None
          show ?thesis
          proof (cases e')
            case (Some x)
            show ?thesis by (rule raced [OF n(1) v [unfolded None] v' [unfolded Some]]) (use h w n b q k p v None v' Some in auto)
          next
            case n': None
            show ?thesis
              by (rule enrolled [OF n b q k [unfolded p] v [unfolded None] v' [unfolded n']]) (use h w n b q k p v None v' n' in auto)
          qed
        qed
      qed
    qed
  qed
qed

lemma enroll_frame:
  assumes "enroll_handler G W r w nd = (w', nd', effs)"
  and "o_status w = None"
  shows "touches G W 2 {DocPart} nd nd' \<and> effs = []"
  using assms
proof (cases rule: enroll_cases)
  case refused then show ?thesis by simp
next
  case (rejected body req k e v)
  then show ?thesis using ops_mono [OF possession_ops [OF rejected(2)], of 2] by (simp add: touches_def)
next
  case (raced body req k e v v')
  then show ?thesis using ops_trans [OF possession_ops [OF raced(2)] enroll_ops [OF raced(3)], of 2] by (simp add: touches_def)
next
  case (enrolled body req k hex v v')
  then show ?thesis using ops_trans [OF possession_ops [OF enrolled(6)] enroll_ops [OF enrolled(7)], of 2] by (simp add: touches_def)
qed

lemma load_admission_frame:
  "load_admission G W r w nd = Inl (w', nd', effs) \<Longrightarrow> touches G W 1 {} nd nd' \<and> effs = []"
  "load_admission G W r w nd = Inr (spec, nd') \<Longrightarrow> touches G W 1 {} nd nd' \<and> \<not> nd_sealed nd"
  unfolding load_admission_def Let_def
  by (auto split: handler_splits dest: auth_touches)

lemma load_completion_frame:
  "load_completion W spec w nd = (w', nd', effs) \<Longrightarrow> touches G W 0 {SupervisorPart} nd nd' \<and> effs = [LoadModel spec]"
  unfolding load_completion_def Let_def by (auto simp: touches_def split: handler_splits)

lemma load_frame:
  assumes "load_handler G W r w nd = (w', nd', effs)"
  shows "touches G W 1 {SupervisorPart} nd nd' \<and> (effs = [] \<or> (\<exists>spec. effs = [LoadModel spec] \<and> \<not> nd_sealed nd))"
proof (cases "load_admission G W r w nd")
  case (Inl h)
  then show ?thesis using assms load_admission_frame(1) [of G W r w nd w' nd' effs] touches_mono [of G W 1 "{}" nd nd' 1]
    by (auto simp: load_handler_def)
next
  case (Inr p)
  obtain spec nd1 where p: "p = (spec, nd1)" by fastforce
  have c: "load_completion W spec w nd1 = (w', nd', effs)" using assms Inr p by (simp add: load_handler_def)
  show ?thesis
    using load_admission_frame(2) [OF Inr [unfolded p]] load_completion_frame [OF c]
      touches_trans [of G W 1 "{}" nd nd1 0 "{SupervisorPart}" nd' 1] by auto
qed

lemma root_auth_frame:
  "root_auth G W r w nd = Inl (w', nd', effs) \<Longrightarrow> touches G W 1 {} nd nd' \<and> effs = []"
  "root_auth G W r w nd = Inr (body, nd') \<Longrightarrow> touches G W 1 {} nd nd' \<and> IsEnrolled (nd_verifier nd)
     \<and> (root_requires_auth r nd \<longrightarrow> header_first G W r nd = (Inr body, nd'))"
  unfolding root_auth_def by (auto split: handler_splits dest: auth_touches)

lemma root_cases:
  assumes "root_handler G W r w nd = (w', nd', effs)"
  obtains (refused) "root_auth G W r w nd = Inl (w', nd', effs)"
  | (answered) body where "root_auth G W r w nd = Inr (body, nd')" "effs = []"
  | (forwarded) body payload where "root_auth G W r w nd = Inr (body, nd')" "is_inference r"
      "open_inference G r body w nd' = Inr payload" "forward_inference G W r payload w = (w', effs)"
  using assms unfolding root_handler_def Let_def by (auto split: handler_splits)

lemma root_frame: "root_handler G W r w nd = (w', nd', effs) \<Longrightarrow> touches G W 1 {} nd nd'"
  by (erule root_cases) (auto dest: root_auth_frame)

section \<open>The footprint of an endpoint\<close>

lemma guard_touches:
  assumes g: "GuardNonCritical G name h W r w nd = (w', nd', effs)"
    and h: "\<And>r nd. h W r w nd = (w', nd', effs) \<Longrightarrow> touches G W k ps nd nd'"
  shows "touches G W (Suc k) ps nd nd'"
  using g
proof (cases rule: guard_cases)
  case passed then show ?thesis using h touches_mono by (metis le_SucI order_refl subset_refl)
next
  case (authenticated body nd1)
  show ?thesis using touches_trans [OF auth_touches(1) [OF authenticated(3)] h [OF authenticated(4)]] by simp
next
  case (refused e) then show ?thesis using auth_touches(1) touches_mono by (metis Suc_le_mono empty_subsetI zero_le)
next
  case locked then show ?thesis by simp
qed

definition parts_of :: "endpoint \<Rightarrow> part set" where
  "parts_of e = (case e of VisibilityEP \<Rightarrow> {PolicyPart} | SealEP \<Rightarrow> {SealPart} | EnrollEP \<Rightarrow> {DocPart} | LoadEP \<Rightarrow> {SupervisorPart} | _ \<Rightarrow> {})"

lemma route_touches:
  assumes "route G W r nd = (w, nd', effs)"
  shows "touches G W 2 (parts_of (endpoint_of (r_path r))) nd nd'"
proof (cases "endpoint_of (r_path r)")
  case AttestationEP
  then have "touches G W (Suc 0) {} nd nd'"
    using assms by (intro guard_touches [of G "''attestation''"]) (auto simp: route_def handler_of_def dest: attestation_frame)
  then show ?thesis using AttestationEP by (auto simp: parts_of_def elim: touches_mono)
next
  case CertificateEP
  then have "touches G W (Suc 0) {} nd nd'"
    using assms by (intro guard_touches [of G "''certificate''"]) (auto simp: route_def handler_of_def dest: certificate_frame)
  then show ?thesis using CertificateEP by (auto simp: parts_of_def elim: touches_mono)
next
  case HealthEP
  then have "touches G W (Suc 1) {} nd nd'"
    using assms by (intro guard_touches [of G "''health''"]) (auto simp: route_def handler_of_def dest!: health_frame touches_verifier)
  then show ?thesis using HealthEP by (simp add: parts_of_def numeral_2_eq_2)
next
  case ProbeEP
  then have "touches G W (Suc 0) {} nd nd'"
    using assms by (intro guard_touches [of G "''probe_egress''"]) (auto simp: route_def handler_of_def dest: probe_frame)
  then show ?thesis using ProbeEP by (auto simp: parts_of_def elim: touches_mono)
next
  case SealEP then show ?thesis using assms by (auto simp: route_def handler_of_def parts_of_def elim: touches_mono dest!: seal_frame)
next
  case EnrollEP then show ?thesis using assms by (auto simp: route_def handler_of_def parts_of_def dest!: enroll_frame)
next
  case VisibilityEP
  then show ?thesis using assms by (auto simp: route_def handler_of_def parts_of_def elim: touches_mono dest!: visibility_frame)
next
  case LoadEP then show ?thesis using assms by (auto simp: route_def handler_of_def parts_of_def elim: touches_mono dest!: load_frame)
next
  case ModelsEP
  then show ?thesis using assms
    by (auto simp: route_def handler_of_def parts_of_def elim: touches_mono dest!: models_frame touches_verifier)
next
  case RootEP then show ?thesis using assms by (auto simp: route_def handler_of_def parts_of_def elim: touches_mono dest!: root_frame)
qed

lemma guard_effects:
  assumes g: "GuardNonCritical G name h W r w nd = (w', nd', effs)" and e: "e \<in> set effs"
    and h: "\<And>r nd. h W r w nd = (w', nd', effs) \<Longrightarrow> P e"
  shows "P e"
  using g by (cases rule: guard_cases) (use e h in auto)

definition effect_endpoint :: "effect \<Rightarrow> endpoint" where
  "effect_endpoint e = (case e of Forward _ \<Rightarrow> RootEP | SealEgress \<Rightarrow> SealEP | LoadModel _ \<Rightarrow> LoadEP | Dial _ _ \<Rightarrow> ProbeEP | HandlerPanic \<Rightarrow> RootEP)"

lemma seal_effects: "seal_handler G W r w nd = (w', nd', effs) \<Longrightarrow> set effs \<subseteq> {SealEgress}"
  unfolding seal_handler_def Let_def by (auto split: handler_splits)

lemma forward_effects:
  "forward_inference G W r payload w = (w', effs) \<Longrightarrow> set effs \<subseteq> {Forward (engine_request r (fst payload)), HandlerPanic}"
  unfolding forward_inference_def Let_def by (auto split: handler_splits)

lemma route_effects:
  assumes "route G W r nd = (w, nd', effs)" and e: "e \<in> set effs"
  shows "effect_endpoint e = endpoint_of (r_path r)"
proof (cases "endpoint_of (r_path r)")
  case RootEP
  have "root_handler G W r fresh_response nd = (w, nd', effs)" using assms RootEP by (simp add: route_def handler_of_def)
  then show ?thesis
  proof (cases rule: root_cases)
    case (forwarded body payload)
    then show ?thesis using e RootEP forward_effects [OF forwarded(4)] by (auto simp: effect_endpoint_def)
  qed (use e in \<open>auto dest: root_auth_frame(1)\<close>)
next
  case AttestationEP
  then show ?thesis using assms by (auto simp: route_def handler_of_def dest: attestation_frame elim!: guard_effects)
next
  case CertificateEP
  then show ?thesis using assms by (auto simp: route_def handler_of_def dest: certificate_frame elim!: guard_effects)
next
  case HealthEP
  then show ?thesis using assms by (auto simp: route_def handler_of_def dest: health_frame elim!: guard_effects)
next
  case ProbeEP
  then show ?thesis using assms by (auto simp: route_def handler_of_def effect_endpoint_def dest!: probe_frame elim!: guard_effects)
next
  case SealEP then show ?thesis using assms by (auto simp: route_def handler_of_def effect_endpoint_def dest!: seal_effects)
next
  case EnrollEP then show ?thesis using assms by (auto simp: route_def handler_of_def dest!: enroll_frame)
next
  case VisibilityEP then show ?thesis using assms by (auto simp: route_def handler_of_def dest!: visibility_frame)
next
  case LoadEP then show ?thesis using assms by (auto simp: route_def handler_of_def effect_endpoint_def dest!: load_frame)
next
  case ModelsEP then show ?thesis using assms by (auto simp: route_def handler_of_def dest!: models_frame)
qed

text \<open>
  C21: each request changes only the part of the node its endpoint owns: the visibility endpoint the policy,
  the seal endpoint the seal (and only closing it), the enrolment the document, the model load the
  supervisor; the verifier moves by at most two of its own operations, at the time of the request; and
  every effect outside the node comes from the one endpoint that may have it.
\<close>

theorem endpoint_footprint:
  "case route G W r nd of (w, nd', effs) \<Rightarrow>
     let ep = endpoint_of (r_path r) in
     (ep = VisibilityEP \<or> nd_policy nd' = nd_policy nd) \<and> (ep = EnrollEP \<or> nd_doc nd' = nd_doc nd)
     \<and> (ep = LoadEP \<or> nd_supervisor nd' = nd_supervisor nd)
     \<and> (nd_sealed nd' = nd_sealed nd \<or> ep = SealEP \<and> nd_sealed nd')
     \<and> ops_within (gw_crypto G) (w_now W) 2 (nd_verifier nd) (nd_verifier nd')
     \<and> list_all (\<lambda>e. effect_endpoint e = ep) effs"
proof -
  obtain w nd' effs where r: "route G W r nd = (w, nd', effs)" by (cases "route G W r nd")
  have p: "PolicyPart \<in> parts_of ep \<longleftrightarrow> ep = VisibilityEP" "DocPart \<in> parts_of ep \<longleftrightarrow> ep = EnrollEP"
    "SupervisorPart \<in> parts_of ep \<longleftrightarrow> ep = LoadEP" "SealPart \<in> parts_of ep \<longleftrightarrow> ep = SealEP" for ep
    by (cases ep; simp add: parts_of_def)+
  show ?thesis
    using route_touches [OF r] route_effects [OF r] r by (simp add: touches_def p Let_def list_all_iff)
qed

section \<open>Authenticated forwarding\<close>

lemma HasPrefix_trans: "HasPrefix s t \<Longrightarrow> HasPrefix t u \<Longrightarrow> HasPrefix s u"
  unfolding HasPrefix_def by (metis append_take_drop_id append_Nil2 append_eq_append_conv_if append_take_drop_id append.assoc length_append
      linorder_not_le min.absorb_iff1 nat_le_linear not_add_less1 take_take)

lemma inference_requires_auth:
  assumes "is_inference r"
  shows "root_requires_auth r nd"
proof -
  have "HasPrefix t ''/v1/''" if "t \<in> {''/v1/chat/completions'', ''/v1/completions'', ''/v1/embeddings'', ''/v1/messages''}" for t
    using that by (elim insertE) (simp_all add: HasPrefix_def)
  then show ?thesis
    using assms HasPrefix_trans [of "r_path r" _ "''/v1/''"]
    unfolding is_inference_def is_messages_def root_requires_auth_def any_prefix_def list_ex_iff by auto
qed

definition forwards :: "gateway \<Rightarrow> world \<Rightarrow> request \<Rightarrow> node \<Rightarrow> bool" where
  "forwards G W r nd \<longleftrightarrow> (\<exists>fwd. Forward fwd \<in> set (snd (snd (route G W r nd))))"

lemma forward_facts:
  assumes "route G W r nd = (w, nd', effs)" "Forward fwd \<in> set effs"
  shows "is_inference r \<and> IsEnrolled (nd_verifier nd) \<and>
    (\<exists>body plain ctx model. header_first G W r nd = (Inr body, nd') \<and>
       open_inference G r body fresh_response nd' = Inr (plain, ctx, model) \<and> fwd = engine_request r plain)"
proof -
  have "endpoint_of (r_path r) = RootEP" using route_effects [OF assms] by (simp add: effect_endpoint_def)
  then have "root_handler G W r fresh_response nd = (w, nd', effs)" using assms(1) by (simp add: route_def handler_of_def)
  then show ?thesis
  proof (cases rule: root_cases)
    case refused then show ?thesis using assms(2) by (auto dest: root_auth_frame(1))
  next
    case answered then show ?thesis using assms(2) by simp
  next
    case (forwarded body payload)
    then show ?thesis using root_auth_frame(2) [OF forwarded(1)] inference_requires_auth [OF forwarded(2)]
        forward_effects [OF forwarded(4)] assms(2) by (cases payload) auto
  qed
qed

section \<open>Replay protection of the gateway\<close>

text \<open>A handled request as an operation on the node.\<close>

definition node_after :: "gateway \<Rightarrow> world \<times> request \<Rightarrow> node \<Rightarrow> node" where
  "node_after G = (\<lambda>(W, r) nd. fst (snd (route G W r nd)))"

definition request_time :: "world \<times> request \<Rightarrow> int" where "request_time x = w_now (fst x)"

definition request_nonce :: "request \<Rightarrow> string" where
  "request_nonce r = ah_nonce (ExtractAuthHeadersWithBodyHash r)"

definition forwards_with :: "gateway \<Rightarrow> world \<times> request \<Rightarrow> node \<Rightarrow> string \<Rightarrow> bool" where
  "forwards_with G = (\<lambda>(W, r) nd n. forwards G W r nd \<and> n = request_nonce r)"

definition node_held :: "node \<Rightarrow> string \<Rightarrow> int \<Rightarrow> nat \<Rightarrow> bool" where
  "node_held nd n t k = held (nd_verifier nd) n t (2 * k)"

lemma held_mono: "held v n t j \<Longrightarrow> j \<le> k \<Longrightarrow> held v n t k"
  unfolding held_def using le_trans by blast

lemma forwards_consumes:
  assumes "forwards G W r nd"
  shows "op_consumes (gw_crypto G) (OpHeaderFirst (w_now W) 0 r) (nd_verifier nd) (request_nonce r)"
    and "nd_verifier (fst (snd (route G W r nd))) = op_step (gw_crypto G) (OpHeaderFirst (w_now W) 0 r) (nd_verifier nd)"
proof -
  obtain w nd' effs where r: "route G W r nd = (w, nd', effs)" by (cases "route G W r nd")
  obtain fwd where f: "Forward fwd \<in> set effs" using assms r by (auto simp: forwards_def)
  obtain body where h: "header_first G W r nd = (Inr body, nd')" using forward_facts [OF r f] by blast
  show "op_consumes (gw_crypto G) (OpHeaderFirst (w_now W) 0 r) (nd_verifier nd) (request_nonce r)"
    using header_first_op(3) [OF h] by (simp add: op_consumes_def request_nonce_def)
  show "nd_verifier (fst (snd (route G W r nd))) = op_step (gw_crypto G) (OpHeaderFirst (w_now W) 0 r) (nd_verifier nd)"
    using header_first_op(2) [OF h] r by simp
qed

lemma route_ops: "ops_within (gw_crypto G) (w_now W) 2 (nd_verifier nd) (nd_verifier (node_after G (W, r) nd))"
proof -
  obtain w nd' effs where r: "route G W r nd = (w, nd', effs)" by (cases "route G W r nd")
  then show ?thesis using route_touches [OF r] by (simp add: node_after_def touches_def)
qed

interpretation gr: replay_guard "node_after G" request_time "forwards_with G" "\<lambda>nd. cache_ok (nd_verifier nd)" node_held
  "\<lambda>nd. dur_neg (nonceTTL (nd_verifier nd))" "\<lambda>nd. cache_cap (nd_verifier nd) div 2" for G
proof
  fix nd :: node and x :: "world \<times> request" and n t k
  assume ok: "cache_ok (nd_verifier nd)"
  obtain W r where x: "x = (W, r)" by fastforce
  obtain ops where ops: "nd_verifier (node_after G x nd) = fold (op_step (gw_crypto G)) ops (nd_verifier nd)"
    "\<forall>y \<in> set ops. op_time y = w_now W" "length ops \<le> 2"
    using route_ops [of G W nd r] x unfolding ops_within_def run_ops_def by blast
  show "cache_ok (nd_verifier (node_after G x nd))"
    "dur_neg (nonceTTL (nd_verifier (node_after G x nd))) = dur_neg (nonceTTL (nd_verifier nd))"
    "cache_cap (nd_verifier (node_after G x nd)) div 2 = cache_cap (nd_verifier nd) div 2"
    using vg.ok_run [OF ok, of "gw_crypto G" ops] ops(1) by simp_all
  { assume "forwards_with G x nd n"
    then have f: "forwards G W r nd" "n = request_nonce r" using x by (simp_all add: forwards_with_def)
    show "node_held (node_after G x nd) n (request_time x) 0"
      using vg.consumed_held [OF ok forwards_consumes(1) [OF f(1)]] forwards_consumes(2) [OF f(1)] f(2) x
      by (simp add: node_held_def node_after_def request_time_def) }
  assume h: "node_held nd n t k" "request_time x + dur_neg (nonceTTL (nd_verifier nd)) < t"
  show "\<not> forwards_with G x nd n"
    using vg.held_refuses [OF ok h(1) [unfolded node_held_def]] h(2) forwards_consumes(1) x
    by (fastforce simp: forwards_with_def request_time_def)
  assume "k + 1 < cache_cap (nd_verifier nd) div 2"
  then have "held (fold (op_step (gw_crypto G)) ops (nd_verifier nd)) n t (2 * k + length ops)"
    using h ops(2,3) x by (intro vg.held_run [OF ok h(1) [unfolded node_held_def]]) (auto simp: request_time_def)
  then show "node_held (node_after G x nd) n t (Suc k)"
    using held_mono ops(1,3) by (simp add: node_held_def)
qed

definition serve :: "gateway \<Rightarrow> (world \<times> request) list \<Rightarrow> node \<Rightarrow> node" where
  "serve G xs nd = fold (node_after G) xs nd"

text \<open>
  C16: an inference request is forwarded to the engine once: after a node with an empty nonce cache served
  any requests and forwarded one, no later request with the same nonce is forwarded, to whatever path and
  under whatever signature, while the clock is within the lifetime and fewer requests came between than
  half the capacity of the cache (a request costs the cache at most two entries).
\<close>

theorem inference_forwarded_once:
  assumes "nonceOrder (nd_verifier nd) = []" "seenNonces (nd_verifier nd) = []" "0 < nonceTTL (nd_verifier nd)"
    and "forwards G W r (serve G before nd)"
    and "\<forall>y \<in> set (between @ [(W', r')]). w_now (fst y) < w_now W + nonceTTL (nd_verifier nd)"
    and "length between < cache_cap (nd_verifier nd) div 2" and "request_nonce r' = request_nonce r"
  shows "\<not> forwards G W' r' (serve G (before @ (W, r) # between) nd)"
proof -
  have ok0: "cache_ok (nd_verifier nd)" using assms(1,2) by (simp add: cache_ok_def)
  note ok = gr.ok_run [OF ok0, of G before]
  have neg: "dur_neg (nonceTTL (nd_verifier nd)) = - nonceTTL (nd_verifier nd)" using assms(3) by (simp add: dur_neg_def min_dur_def)
  have "\<not> forwards_with G (W', r') (fold (node_after G) between (node_after G (W, r) (fold (node_after G) before nd))) (request_nonce r)"
    using assms(4-6) ok neg by (intro gr.no_replay) (auto simp: forwards_with_def serve_def request_time_def)
  then show ?thesis using assms(7) by (simp add: forwards_with_def serve_def)
qed

text \<open>
  C15: the path to the engine: whatever request the engine receives came from a request to an inference path
  that the verifier accepted by its headers with the key enrolled (so its nonce is used up), whose body is
  an HPKE envelope this node opens, while the supervisor is ready; the engine gets the opened payload, or
  its conversion for the Messages API, as JSON, and nothing else of the body.
\<close>

theorem forwarded_request_authenticated:
  assumes "route G W r nd = (w, nd', effs)" "Forward fwd \<in> set effs"
  shows "\<exists>body plain ctx payload. is_inference r \<and> IsEnrolled (nd_verifier nd)
    \<and> fst (VerifyHTTPRequestHeaderFirst (gw_crypto G) (w_now W) 0 r (nd_verifier nd)) = Inr body
    \<and> op_consumes (gw_crypto G) (OpHeaderFirst (w_now W) 0 r) (nd_verifier nd) (request_nonce r)
    \<and> UnwrapHPKERequest (gw_prims G) (HPKEPrivKey (gw_keys G)) body (header_get (r_headers r) ''Content-Type'') (binding_hash G nd)
        = Inr (plain, ctx)
    \<and> sv_ready (nd_supervisor nd) \<and> fwd = engine_request r payload
    \<and> (if is_messages r then map_option fst (ConvertMessagesToOpenAI (gw_float G) plain) = Some payload else payload = plain)"
proof -
  obtain body plain ctx model where f: "is_inference r" "IsEnrolled (nd_verifier nd)" "header_first G W r nd = (Inr body, nd')"
    "open_inference G r body fresh_response nd' = Inr (plain, ctx, model)" "fwd = engine_request r plain"
    using forward_facts [OF assms] by blast
  have same: "nd_doc nd' = nd_doc nd" "nd_supervisor nd' = nd_supervisor nd"
    using verifier_only_fields [OF header_first_op(1) [OF f(3)]] by simp_all
  have v: "fst (VerifyHTTPRequestHeaderFirst (gw_crypto G) (w_now W) 0 r (nd_verifier nd)) = Inr body"
    using f(3) by (auto simp: header_first_def split: prod.splits)
  have c: "op_consumes (gw_crypto G) (OpHeaderFirst (w_now W) 0 r) (nd_verifier nd) (request_nonce r)"
    using assms by (intro forwards_consumes(1)) (auto simp: forwards_def)
  have o: "\<exists>raw. UnwrapHPKERequest (gw_prims G) (HPKEPrivKey (gw_keys G)) body (header_get (r_headers r) ''Content-Type'') (binding_hash G nd')
        = Inr (raw, ctx) \<and> sv_ready (nd_supervisor nd') \<and>
        (if is_messages r then map_option fst (ConvertMessagesToOpenAI (gw_float G) raw) = Some plain else plain = raw)"
    using f(4) unfolding open_inference_def Let_def by (auto split: handler_splits)
  have b: "binding_hash G nd' = binding_hash G nd" using same(1) by (simp add: binding_hash_def)
  show ?thesis using o unfolding b same(2) using f(1,2,5) v c by blast
qed

section \<open>Lockdown before enrolment\<close>

lemma unenrolled_refused:
  assumes "\<not> IsEnrolled (nd_verifier nd)"
  shows "\<exists>e. header_first G W r nd = (Inl e, nd)" "\<exists>e. no_body_auth G W r nd = (Some e, nd)"
proof -
  have e: "\<not> isEnrolled (nd_verifier nd)" using assms by (simp add: IsEnrolled_def)
  show "\<exists>e. header_first G W r nd = (Inl e, nd)"
    using e by (simp add: header_first_def VerifyHTTPRequestHeaderFirst_def Let_def)
  show "\<exists>e. no_body_auth G W r nd = (Some e, nd)"
    using e by (simp add: no_body_auth_def VerifyHTTPRequest_def)
qed

text \<open>
  C20: before a key is enrolled the node is locked down: every request but one for the attestation, the
  certificate or the enrolment is refused with 401 or 405, changes nothing of the node and reaches neither
  the engine, the supervisor, the firewall nor the network (the node is not sealed then, since sealing needs
  an authenticated request).
\<close>

theorem unenrolled_locked_down:
  assumes "\<not> IsEnrolled (nd_verifier nd)" "\<not> nd_sealed nd"
    and "endpoint_of (r_path r) \<notin> {AttestationEP, CertificateEP, EnrollEP}"
  shows "case route G W r nd of (w, nd', effs) \<Rightarrow> o_status w \<in> {Some 401, Some 405} \<and> nd' = nd \<and> effs = []"
proof -
  obtain e1 e2 where e: "header_first G W r nd = (Inl e1, nd)" "no_body_auth G W r nd = (Some e2, nd)"
    using unenrolled_refused [OF assms(1)] by blast
  show ?thesis
    using assms e by (cases "endpoint_of (r_path r)")
      (simp_all add: route_def handler_of_def GuardNonCritical_def seal_handler_def visibility_handler_def
        load_handler_def load_admission_def models_handler_def root_handler_def root_auth_def Let_def)
qed

section \<open>The sealed node\<close>

text \<open>A request was accepted by its headers, or by its headers over an empty body.\<close>

definition authenticated :: "gateway \<Rightarrow> world \<Rightarrow> request \<Rightarrow> node \<Rightarrow> bool" where
  "authenticated G W r nd \<longleftrightarrow>
     (\<exists>x \<in> {OpHeaderFirst (w_now W) 0 r, OpRequest (w_now W) r []}.
        op_consumes (gw_crypto G) x (nd_verifier nd) (request_nonce r))"

lemma authenticatedI:
  "header_first G W r nd = (Inr body, nd') \<Longrightarrow> authenticated G W r nd"
  "no_body_auth G W r nd = (None, nd') \<Longrightarrow> authenticated G W r nd"
  using header_first_op(3) no_body_op(3) unfolding authenticated_def op_consumes_def request_nonce_def by fastforce+

definition accepted_status :: "response \<Rightarrow> bool" where
  "accepted_status w \<longleftrightarrow> (\<exists>st. o_status w = Some st \<and> st < 400)"

lemma guard_authenticates:
  assumes "GuardNonCritical G name h W r w nd = (w', nd', effs)" "o_status w = None"
    and "IsEnrolled (nd_verifier nd)" "nd_sealed nd" "accepted_status w' \<or> effs \<noteq> []"
  shows "authenticated G W r nd"
  using assms(1) by (cases rule: guard_cases) (use assms in \<open>auto simp: accepted_status_def intro: authenticatedI\<close>)

lemma seal_effects_authenticate:
  "seal_handler G W r w nd = (w', nd', effs) \<Longrightarrow> effs \<noteq> [] \<Longrightarrow> authenticated G W r nd"
  unfolding seal_handler_def Let_def by (auto split: handler_splits intro: authenticatedI)

text \<open>
  C19: on a sealed node every request that gets an answer below 400, or has any effect outside the node,
  was authenticated with the enrolled key, with the one exception of a POST to the seal endpoint, which
  says that the node is sealed already.
\<close>

theorem sealed_node_authenticates:
  assumes "route G W r nd = (w, nd', effs)" "nd_sealed nd" "IsEnrolled (nd_verifier nd)"
    and "accepted_status w \<or> effs \<noteq> []" "endpoint_of (r_path r) \<noteq> SealEP"
  shows "authenticated G W r nd"
proof (cases "endpoint_of (r_path r)")
  case RootEP
  then have "root_handler G W r fresh_response nd = (w, nd', effs)" using assms(1) by (simp add: route_def handler_of_def)
  then show ?thesis
  proof (cases rule: root_cases)
    case refused
    then show ?thesis using assms(2-4) unfolding root_auth_def root_requires_auth_def
      by (auto simp: accepted_status_def split: handler_splits)
  next
    case (answered body)
    then have "header_first G W r nd = (Inr body, nd')"
      using root_auth_frame(2) [OF answered(1)] assms(2) by (simp add: root_requires_auth_def)
    then show ?thesis by (rule authenticatedI)
  next
    case (forwarded body payload)
    then have "header_first G W r nd = (Inr body, nd')"
      using root_auth_frame(2) [OF forwarded(1)] assms(2) by (simp add: root_requires_auth_def)
    then show ?thesis by (rule authenticatedI)
  qed
next
  case LoadEP
  then show ?thesis using assms(1,2,4)
    by (auto simp: route_def handler_of_def load_handler_def load_admission_def Let_def accepted_status_def split: if_splits)
next
  case EnrollEP
  then show ?thesis using assms(1,3,4)
    by (auto simp: route_def handler_of_def enroll_handler_def Let_def accepted_status_def split: if_splits)
next
  case ModelsEP
  then show ?thesis using assms(1,4)
    by (auto simp: route_def handler_of_def models_handler_def Let_def accepted_status_def split: handler_splits intro: authenticatedI)
next
  case VisibilityEP
  then show ?thesis using assms(1,3,4) authenticatedI
    by (cases "no_body_auth G W r nd"; cases "header_first G W r nd"; cases "r_method r = ''GET''"; cases "r_method r = ''POST''")
      (auto simp: route_def handler_of_def visibility_handler_def Let_def accepted_status_def split: option.splits sum.splits)
qed (use assms guard_authenticates in \<open>auto simp: route_def handler_of_def\<close>)

section \<open>A sample node\<close>

definition demo_gateway :: gateway where
  "demo_gateway = \<lparr> gw_crypto = sample_crypto, gw_prims = sample_prims, gw_float = sample_float, gw_x509 = sample_x509,
     gw_chains = sample_chains, gw_sev = sample_sev, gw_tsm = sample_tsm, gw_nvml = (\<lambda>_. None),
     gw_keys = \<lparr> TLSKey = [], TLSKeyFP = [], HPKEPrivKey = [2], HPKEPubKey = [] \<rparr>, gw_cert_pem = '''', gw_target = '''',
     gw_auth_text = (\<lambda>_. ''refused''), gw_unwrap_text = (\<lambda>_. ''''), gw_hpke_text = (\<lambda>_. ''''), gw_report_text = (\<lambda>_. ''''),
     gw_json_text = (\<lambda>_. ''''), gw_quote = id \<rparr>"

definition demo_world :: "int \<Rightarrow> world" where
  "demo_world now = \<lparr> w_now = now, w_clk = (\<lambda>_. 0), w_machine = sample_machine [], w_nonce_param = '''', w_slot_free = True,
     w_egress_error = None, w_dial = (\<lambda>_ _. (None, 0)), w_engine = (\<lambda>_. ClientGone), w_load = (\<lambda>_ sv. (None, sv)) \<rparr>"

definition demo_supervisor :: supervisor where
  "demo_supervisor = idle_supervisor\<lparr> sv_ready := True, sv_model := ''m'' \<rparr>"

definition demo_node :: "bool \<Rightarrow> node" where
  "demo_node sealed = \<lparr> nd_verifier = sample_verifier, nd_policy = default_policy, nd_sealed = sealed, nd_doc = None,
     nd_supervisor = demo_supervisor \<rparr>"

definition demo_request :: "string \<Rightarrow> bytes \<Rightarrow> request" where
  "demo_request path body =
     \<lparr> r_method = ''POST'', r_path = path,
       r_headers = [(''X-Signature'', sample_sig), (''X-Timestamp'', ''0''), (''X-Nonce'', ''n1''), (''Content-Type'', ''application/x-protobuf'')],
       r_body = BodyBytes body, r_content_length = int (length body) \<rparr>"

lemma demo_headers:
  "ExtractAuthHeadersWithBodyHash (demo_request path body) =
     \<lparr> ah_sig = sample_sig, ah_timestamp = ''0'', ah_nonce = ''n1'', ah_reqID = '''', ah_bodyHash = '''' \<rparr>"
  by (simp add: ExtractAuthHeadersWithBodyHash_def demo_request_def EqualFold_def ToLower_def lower_char_def
      parse_authorization_def HasPrefix_def TrimSpace_def sample_sig_def)

lemma demo_accepted:
  assumes "body \<noteq> []"
  shows "VerifyHTTPRequestHeaderFirst sample_crypto (10 * second) 0 (demo_request path body) sample_verifier = (Inr body, sample_after)"
proof -
  let ?r = "demo_request path body"
  have e: "isEnrolled sample_verifier" "maxClockSkew sample_verifier = 30 * second" by (simp_all add: sample_verifier_eq)
  have "signed_by sample_crypto (publicKey sample_verifier) (r_method ?r) (r_path ?r) '''' ''0'' ''n1'' hash sample_sig" for hash
    by (simp add: signed_by_def sample_decodes) (simp add: sample_crypto_def)
  moreover have "check_fields sample_sig ''0'' ''n1'' = None" by (simp add: check_fields_def sample_sig_def MaxNonceLength_def)
  ultimately have "VerifyWithBodyHash sample_crypto (10 * second) (r_method ?r) (r_path ?r) '''' ''0'' ''n1'' hash sample_sig sample_verifier
      = (None, sample_after)" for hash
    using e sample_fresh sample_check by (subst verify_intro) auto
  moreover have "read_auth_body 0 (r_body ?r) = Inr body" "r_body ?r \<noteq> BodyNil" "r_content_length ?r \<noteq> 0"
    using assms by (simp_all add: read_auth_body_def read_body_def demo_request_def)
  ultimately show ?thesis
    using e unfolding VerifyHTTPRequestHeaderFirst_def Let_def demo_headers by (simp add: Verify_def)
qed

lemma demo_header_first:
  "body \<noteq> [] \<Longrightarrow> header_first demo_gateway (demo_world (10 * second)) (demo_request path body) (demo_node sealed)
     = (Inr body, (demo_node sealed)\<lparr> nd_verifier := sample_after \<rparr>)"
  using demo_accepted [of body path] by (simp add: header_first_def demo_gateway_def demo_world_def demo_node_def)

lemma demo_forward:
  obtains raw w nd where "raw \<noteq> []"
    "route demo_gateway (demo_world (10 * second)) (demo_request ''/v1/embeddings'' raw) (demo_node sealed)
       = (w, nd, [Forward (engine_request (demo_request ''/v1/embeddings'' raw) [9, 9])])"
proof -
  obtain raw ctx where u: "raw \<noteq> []" "hc_protobuf ctx"
    "UnwrapHPKERequest sample_prims [2] raw ''application/x-protobuf'' [] = Inr ([9, 9], ctx)"
    by (rule sample_unwrap)
  let ?r = "demo_request ''/v1/embeddings'' raw" and ?nd = "(demo_node sealed)\<lparr> nd_verifier := sample_after \<rparr>"
  have p: "r_path ?r = ''/v1/embeddings''" by (simp add: demo_request_def)
  have i: "is_inference ?r" "\<not> is_messages ?r"
    by (simp_all add: is_inference_def is_messages_def any_prefix_def p HasPrefix_def)
  have "IsEnrolled (nd_verifier (demo_node sealed))" by (simp add: demo_node_def sample_verifier_eq IsEnrolled_def)
  then have a: "root_auth demo_gateway (demo_world (10 * second)) ?r fresh_response (demo_node sealed) = Inr (raw, ?nd)"
    using inference_requires_auth [OF i(1)] demo_header_first [OF u(1)] by (simp add: root_auth_def)
  have ct: "header_get (r_headers ?r) ''Content-Type'' = ''application/x-protobuf''"
    by (simp add: demo_request_def EqualFold_def ToLower_def lower_char_def)
  have "contains_any (ToLower ''application/x-protobuf'') [''application/octet-stream'', ''application/x-cevell-hpke'', ''application/x-protobuf'']"
    by (simp add: contains_any_def Contains_def ToLower_def lower_char_def HasPrefix_def)
  then have o: "open_inference demo_gateway ?r raw fresh_response ?nd = Inr ([9, 9], ctx, None)"
    using u i(2) unfolding open_inference_def Let_def ct
    by (simp add: demo_gateway_def demo_node_def binding_hash_def demo_supervisor_def)
  obtain w where f: "forward_inference demo_gateway (demo_world (10 * second)) ?r ([9, 9], ctx, None) fresh_response
      = (w, [Forward (engine_request ?r [9, 9])])" by (simp add: forward_inference_def Let_def)
  have "endpoint_of (r_path ?r) = RootEP" by (simp add: endpoint_of_def p)
  then have "route demo_gateway (demo_world (10 * second)) ?r (demo_node sealed) = (w, ?nd, [Forward (engine_request ?r [9, 9])])"
    using a o f i(1) by (simp add: route_def handler_of_def root_handler_def)
  then show thesis by (rule that [OF u(1)])
qed

theorem forwarded_request_authenticated_witness:
  "\<exists>raw body. fst (VerifyHTTPRequestHeaderFirst sample_crypto (10 * second) 0 (demo_request ''/v1/embeddings'' raw) sample_verifier) = Inr body"
proof -
  obtain raw w nd where r: "route demo_gateway (demo_world (10 * second)) (demo_request ''/v1/embeddings'' raw) (demo_node True)
       = (w, nd, [Forward (engine_request (demo_request ''/v1/embeddings'' raw) [9, 9])])" by (rule demo_forward)
  show ?thesis using forwarded_request_authenticated [OF r] by (fastforce simp: demo_gateway_def demo_world_def demo_node_def)
qed

theorem sealed_node_authenticates_witness:
  "\<exists>raw. authenticated demo_gateway (demo_world (10 * second)) (demo_request ''/v1/embeddings'' raw) (demo_node True)"
proof -
  obtain raw w nd where r: "route demo_gateway (demo_world (10 * second)) (demo_request ''/v1/embeddings'' raw) (demo_node True)
       = (w, nd, [Forward (engine_request (demo_request ''/v1/embeddings'' raw) [9, 9])])" by (rule demo_forward)
  have "authenticated demo_gateway (demo_world (10 * second)) (demo_request ''/v1/embeddings'' raw) (demo_node True)"
    by (rule sealed_node_authenticates [OF r])
      (simp_all add: demo_node_def sample_verifier_eq IsEnrolled_def demo_request_def endpoint_of_def)
  then show ?thesis by blast
qed

theorem inference_forwarded_once_witness:
  "\<exists>raw. forwards demo_gateway (demo_world (10 * second)) (demo_request ''/v1/embeddings'' raw) (demo_node False)
    \<and> \<not> forwards demo_gateway (demo_world (50 * second)) (demo_request ''/v1/completions'' [1])
          (serve demo_gateway [(demo_world (10 * second), demo_request ''/v1/embeddings'' raw)] (demo_node False))"
proof -
  obtain raw w nd where r: "route demo_gateway (demo_world (10 * second)) (demo_request ''/v1/embeddings'' raw) (demo_node False)
       = (w, nd, [Forward (engine_request (demo_request ''/v1/embeddings'' raw) [9, 9])])" by (rule demo_forward)
  then have f: "forwards demo_gateway (demo_world (10 * second)) (demo_request ''/v1/embeddings'' raw) (serve demo_gateway [] (demo_node False))"
    by (simp add: forwards_def serve_def)
  have "\<not> forwards demo_gateway (demo_world (50 * second)) (demo_request ''/v1/completions'' [1])
          (serve demo_gateway ([] @ (demo_world (10 * second), demo_request ''/v1/embeddings'' raw) # []) (demo_node False))"
    by (rule inference_forwarded_once [OF _ _ _ f])
      (simp_all add: demo_node_def sample_verifier_eq demo_world_def second_def cache_cap_def request_nonce_def demo_headers)
  then show ?thesis using f by (auto simp: serve_def)
qed

theorem unenrolled_locked_down_witness:
  "case route demo_gateway (demo_world 0) (demo_request ''/v1/embeddings'' [1])
      ((demo_node False)\<lparr> nd_verifier := sample_verifier\<lparr> isEnrolled := False \<rparr> \<rparr>) of
    (w, nd, effs) \<Rightarrow> o_status w \<in> {Some 401, Some 405} \<and> effs = []"
  using unenrolled_locked_down [of "(demo_node False)\<lparr> nd_verifier := sample_verifier\<lparr> isEnrolled := False \<rparr> \<rparr>"
      "demo_request ''/v1/embeddings'' [1]" demo_gateway "demo_world 0"]
  by (auto simp: IsEnrolled_def demo_node_def demo_request_def endpoint_of_def split: prod.splits)

end
