(* ===== verification/GatewayRuns.thy ===== *)
theory GatewayRuns
  imports GatewaySafety
begin

text \<open>
  Runs of the node with model loads under way: the seal is final and is set in one way only. The last
  section holds what the handlers do beside their documentation.
\<close>

section \<open>Runs of the node\<close>

text \<open>
  A model load runs for minutes between its admission and its end, and other requests are handled
  meanwhile: the system holds the node and the loads under way. The supervisor also changes by itself.
\<close>

record system =
  sys_node :: node
  sys_loading :: "model_spec list"

datatype event =
    Handled endpoint "effect list"
  | Admitted model_spec
  | Completed model_spec
  | SupervisorMoved

inductive gateway_step :: "gateway \<Rightarrow> system \<Rightarrow> event \<Rightarrow> system \<Rightarrow> bool" for G where
  handled: "endpoint_of (r_path r) \<noteq> LoadEP \<Longrightarrow> route G W r (sys_node s) = (w, nd, effs)
    \<Longrightarrow> gateway_step G s (Handled (endpoint_of (r_path r)) effs) (s\<lparr> sys_node := nd \<rparr>)"
| refused: "load_admission G W r w (sys_node s) = Inl (w', nd, effs)
    \<Longrightarrow> gateway_step G s (Handled LoadEP effs) (s\<lparr> sys_node := nd \<rparr>)"
| admitted: "load_admission G W r w (sys_node s) = Inr (spec, nd)
    \<Longrightarrow> gateway_step G s (Admitted spec) (s\<lparr> sys_node := nd, sys_loading := sys_loading s @ [spec] \<rparr>)"
| completed: "sys_loading s = xs @ spec # ys \<Longrightarrow> load_completion W spec w (sys_node s) = (w', nd, effs)
    \<Longrightarrow> gateway_step G s (Completed spec) (s\<lparr> sys_node := nd, sys_loading := xs @ ys \<rparr>)"
| supervised: "gateway_step G s SupervisorMoved (s\<lparr> sys_node := (sys_node s)\<lparr> nd_supervisor := sv \<rparr> \<rparr>)"

inductive gateway_run :: "gateway \<Rightarrow> system \<Rightarrow> event list \<Rightarrow> system \<Rightarrow> bool" for G where
  run_nil: "gateway_run G s [] s"
| run_cons: "gateway_step G s e s1 \<Longrightarrow> gateway_run G s1 es s2 \<Longrightarrow> gateway_run G s (e # es) s2"

inductive_cases run_nilE: "gateway_run G s [] s'"
inductive_cases run_consE: "gateway_run G s (e # es) s'"

definition is_completed :: "event \<Rightarrow> bool" where "is_completed e \<longleftrightarrow> (\<exists>spec. e = Completed spec)"

definition loads_model :: "event \<Rightarrow> bool" where
  "loads_model e = (case e of Handled _ effs \<Rightarrow> (\<exists>spec. LoadModel spec \<in> set effs) | Admitted _ \<Rightarrow> True | _ \<Rightarrow> False)"

lemma step_touches:
  assumes "gateway_step G s e s'"
  obtains k ps W where "touches G W k ps (sys_node s) (sys_node s')" | "\<exists>sv. sys_node s' = (sys_node s)\<lparr> nd_supervisor := sv \<rparr>"
  using assms
proof cases
  case (handled r W w nd effs) then show thesis using route_touches [OF handled(4)] that(1) by simp
next
  case (refused W r w w' nd effs) then show thesis using load_admission_frame(1) [OF refused(3)] that(1) by auto
next
  case (admitted W r w spec nd) then show thesis using load_admission_frame(2) [OF admitted(3)] that(1) by auto
next
  case (completed xs spec ys W w w' nd effs) then show thesis using load_completion_frame [OF completed(4), of G] that(1) completed(2) by fastforce
next
  case (supervised sv) then show thesis using that(2) by auto
qed

lemma step_sealed:
  assumes "gateway_step G s e s'" "nd_sealed (sys_node s)"
  shows "nd_sealed (sys_node s') \<and> \<not> loads_model e
    \<and> length (sys_loading s') + (if is_completed e then 1 else 0) = length (sys_loading s)"
proof -
  have "nd_sealed (sys_node s')"
    using assms(1) by (rule step_touches) (use assms(2) in \<open>auto simp: touches_def\<close>)
  moreover from assms(1) have "\<not> loads_model e
    \<and> length (sys_loading s') + (if is_completed e then 1 else 0) = length (sys_loading s)"
  proof cases
    case (handled r W w nd effs)
    have "LoadModel spec \<notin> set effs" for spec
      using route_effects [OF handled(4), of "LoadModel spec"] handled(3) by (auto simp: effect_endpoint_def)
    then show ?thesis using handled by (simp add: loads_model_def is_completed_def)
  next
    case (refused W r w w' nd effs)
    then show ?thesis using load_admission_frame(1) [OF refused(3)] by (simp add: loads_model_def is_completed_def)
  next
    case (admitted W r w spec nd) then show ?thesis using load_admission_frame(2) [OF admitted(3)] assms(2) by simp
  qed (auto simp: loads_model_def is_completed_def)
  ultimately show ?thesis by simp
qed

text \<open>
  C17: the seal is final. In every run from a sealed node, whatever requests come in whatever order and
  however the supervisor moves, the node stays sealed, no model load is admitted, and only the loads that
  were under way when it was sealed can still complete, each once.
\<close>

theorem sealed_forever:
  assumes "gateway_run G s es s'" "nd_sealed (sys_node s)"
  shows "nd_sealed (sys_node s') \<and> list_all (\<lambda>e. \<not> loads_model e) es
    \<and> length (filter is_completed es) + length (sys_loading s') = length (sys_loading s)"
  using assms
proof (induction rule: gateway_run.induct)
  case (run_cons s e s1 es s2)
  then show ?case using step_sealed [OF run_cons.hyps(1) run_cons.prems] by auto
qed simp

text \<open>A route that seals the node: what the request and the world of that very call were.\<close>

lemma route_seals:
  assumes "route G W r n = (w, nd, effs)" "\<not> nd_sealed n" "nd_sealed nd"
  shows "endpoint_of (r_path r) = SealEP \<and> effs = [SealEgress] \<and> r_method r = ''POST'' \<and> w_egress_error W = None \<and>
    o_status w = Some 200 \<and>
    (\<exists>body. fst (VerifyHTTPRequestHeaderFirst (gw_crypto G) (w_now W) 0 r (nd_verifier n)) = Inr body \<and>
       (seal_force body \<or> sv_ready (nd_supervisor n)))"
proof -
  have "SealPart \<in> parts_of (endpoint_of (r_path r))"
    using route_touches [OF assms(1)] assms(2,3) by (auto simp: touches_def)
  then have ep: "endpoint_of (r_path r) = SealEP" by (cases "endpoint_of (r_path r)") (simp_all add: parts_of_def)
  then have h: "seal_handler G W r fresh_response n = (w, nd, effs)" using assms(1) by (simp add: route_def handler_of_def)
  obtain res nd1 where a: "header_first G W r n = (res, nd1)" by fastforce
  have same: "nd_supervisor nd1 = nd_supervisor n" "nd_sealed nd1 = nd_sealed n"
    using verifier_only_fields [OF header_first_op(1) [OF a]] by simp_all
  obtain body where b: "effs = [SealEgress] \<and> r_method r = ''POST'' \<and> w_egress_error W = None \<and> o_status w = Some 200
      \<and> res = Inr body \<and> (seal_force body \<or> sv_ready (nd_supervisor n))"
    using h a same assms(2,3) unfolding seal_handler_def Let_def
    by (auto split: if_splits sum.splits option.splits
      simp: write_json_def out_write_def out_write_header_def set_json_def set_header_def fresh_response_def)
  have "fst (VerifyHTTPRequestHeaderFirst (gw_crypto G) (w_now W) 0 r (nd_verifier n)) = res"
    using a by (auto simp: header_first_def split: prod.splits)
  then show ?thesis using ep b by blast
qed

text \<open>
  C18: a node becomes sealed in one way only. The step that seals it is a request to the seal endpoint, and no
  request whatever seals it unless it is a POST to that endpoint that the enrolled key signed, the firewall took
  the sealed policy during that request, and the supervisor was ready or the signed body forces it; the reply is
  then 200.
\<close>

theorem seal_requires:
  assumes "\<not> nd_sealed (sys_node s)"
  shows "(gateway_step G s e s' \<and> nd_sealed (sys_node s') \<longrightarrow>
      (\<exists>W r w. e = Handled SealEP [SealEgress] \<and> route G W r (sys_node s) = (w, sys_node s', [SealEgress]))) \<and>
    (\<forall>W r w nd effs. route G W r (sys_node s) = (w, nd, effs) \<and> nd_sealed nd \<longrightarrow>
      endpoint_of (r_path r) = SealEP \<and> r_method r = ''POST'' \<and> w_egress_error W = None \<and> o_status w = Some 200 \<and>
      (\<exists>body. fst (VerifyHTTPRequestHeaderFirst (gw_crypto G) (w_now W) 0 r (nd_verifier (sys_node s))) = Inr body \<and>
         (seal_force body \<or> sv_ready (nd_supervisor (sys_node s)))))"
proof (intro conjI allI impI)
  assume "gateway_step G s e s' \<and> nd_sealed (sys_node s')"
  then have step: "gateway_step G s e s'" and sealed: "nd_sealed (sys_node s')" by blast+
  from step show "\<exists>W r w. e = Handled SealEP [SealEgress] \<and> route G W r (sys_node s) = (w, sys_node s', [SealEgress])"
  proof cases
    case (handled r W w nd effs)
    then show ?thesis using route_seals [OF handled(4) assms] sealed by auto
  qed (use assms sealed load_admission_frame load_completion_frame in \<open>fastforce simp: touches_def\<close>)+
next
  fix W r w nd effs assume "route G W r (sys_node s) = (w, nd, effs) \<and> nd_sealed nd"
  then have "route G W r (sys_node s) = (w, nd, effs)" "nd_sealed nd" by blast+
  note seals = route_seals [OF this(1) assms this(2)]
  show "endpoint_of (r_path r) = SealEP" "r_method r = ''POST''" "w_egress_error W = None" "o_status w = Some 200"
    "\<exists>body. fst (VerifyHTTPRequestHeaderFirst (gw_crypto G) (w_now W) 0 r (nd_verifier (sys_node s))) = Inr body \<and>
       (seal_force body \<or> sv_ready (nd_supervisor (sys_node s)))" using seals by blast+
qed

definition demo_spec :: model_spec where
  "demo_spec = \<lparr> ms_model = ''m'', ms_hf_file = '''', ms_hf_token = '''', ms_context_size = 0, ms_temperature = '''', ms_quantization = '''',
     ms_bitsandbytes = None, ms_gguf = None, ms_tokenizer = '''', ms_gpu_layers = 0, ms_threads = 0, ms_expose_in_health = None,
     ms_tool_call_parser = '''', ms_enable_thinking = None, ms_reasoning_parser = '''' \<rparr>"

lemma demo_completes:
  "\<exists>nd. gateway_step demo_gateway \<lparr> sys_node = n, sys_loading = [demo_spec] \<rparr> (Completed demo_spec)
     \<lparr> sys_node = nd, sys_loading = [] \<rparr>"
proof -
  obtain w nd effs where "load_completion (demo_world 0) demo_spec fresh_response n = (w, nd, effs)"
    by (cases "load_completion (demo_world 0) demo_spec fresh_response n")
  then show ?thesis
    using gateway_step.completed [of "\<lparr> sys_node = n, sys_loading = [demo_spec] \<rparr>" "[]" demo_spec "[]"
        "demo_world 0" fresh_response w nd effs demo_gateway] by auto
qed

theorem sealed_forever_witness:
  "\<exists>s. gateway_run demo_gateway \<lparr> sys_node = demo_node True, sys_loading = [demo_spec] \<rparr> [Completed demo_spec] s
     \<and> nd_sealed (sys_node s) \<and> sys_loading s = []"
proof -
  obtain nd where "gateway_step demo_gateway \<lparr> sys_node = demo_node True, sys_loading = [demo_spec] \<rparr> (Completed demo_spec)
     \<lparr> sys_node = nd, sys_loading = [] \<rparr>" using demo_completes by blast
  then have r: "gateway_run demo_gateway \<lparr> sys_node = demo_node True, sys_loading = [demo_spec] \<rparr> [Completed demo_spec]
     \<lparr> sys_node = nd, sys_loading = [] \<rparr>" by (rule run_cons) (rule run_nil)
  have "nd_sealed nd" using sealed_forever [OF r] by (simp add: demo_node_def)
  then show ?thesis using r by (intro exI [of _ "\<lparr> sys_node = nd, sys_loading = [] \<rparr>"]) simp
qed

text \<open>The sample node seals: its supervisor is ready and the body does not decode.\<close>

lemma demo_seals:
  "\<exists>w nd. route demo_gateway (demo_world (10 * second)) (demo_request ''/v1/system/seal'' [1]) (demo_node False)
     = (w, nd, [SealEgress]) \<and> nd_sealed nd \<and> o_status w = Some 200"
proof -
  have p: "endpoint_of (r_path (demo_request ''/v1/system/seal'' [1])) = SealEP" by (simp add: demo_request_def endpoint_of_def)
  have "sv_ready (nd_supervisor (demo_node False))" "\<not> nd_sealed (demo_node False)"
    "w_egress_error (demo_world (10 * second)) = None" "r_method (demo_request ''/v1/system/seal'' [1]) = ''POST''"
    by (simp_all add: demo_node_def demo_supervisor_def demo_world_def demo_request_def)
  moreover have "nd_supervisor ((demo_node False)\<lparr> nd_verifier := sample_after \<rparr>) = nd_supervisor (demo_node False)" by simp
  ultimately show ?thesis
    unfolding route_def handler_of_def p endpoint.case seal_handler_def Let_def
    by (simp add: demo_header_first)
qed

theorem seal_requires_witness:
  "let r = demo_request ''/v1/system/seal'' [1]; W = demo_world (10 * second); s = \<lparr> sys_node = demo_node False, sys_loading = [] \<rparr> in
    \<exists>w nd body. route demo_gateway W r (sys_node s) = (w, nd, [SealEgress]) \<and> nd_sealed nd \<and> o_status w = Some 200 \<and>
      w_egress_error W = None \<and> fst (VerifyHTTPRequestHeaderFirst (gw_crypto demo_gateway) (w_now W) 0 r sample_verifier) = Inr body"
proof -
  let ?s = "\<lparr> sys_node = demo_node False, sys_loading = [] \<rparr>"
  obtain w nd where r: "route demo_gateway (demo_world (10 * second)) (demo_request ''/v1/system/seal'' [1]) (sys_node ?s)
     = (w, nd, [SealEgress])" "nd_sealed nd" using demo_seals by auto
  have u: "\<not> nd_sealed (sys_node ?s)" and v: "nd_verifier (sys_node ?s) = sample_verifier" by (simp_all add: demo_node_def)
  show ?thesis using r seal_requires [OF u, of demo_gateway] unfolding Let_def v by blast
qed

section \<open>Divergences\<close>

text \<open>A sealed node answers a POST to the seal endpoint to anyone.\<close>

lemma already_sealed_unauthenticated:
  assumes "nd_sealed nd" "endpoint_of (r_path r) = SealEP" "r_method r = ''POST''"
  shows "route G W r nd = (write_json 200 (sealed_reply ''already_sealed'' []) (set_json fresh_response), nd, [])"
  using assms by (simp add: route_def handler_of_def seal_handler_def Let_def)

text \<open>A load admitted before the seal completes after it: the model changes on a sealed node.\<close>

lemma load_outlives_seal:
  "\<exists>s1 s2. gateway_run demo_gateway \<lparr> sys_node = demo_node False, sys_loading = [demo_spec] \<rparr>
       [Handled SealEP [SealEgress]] s1 \<and> nd_sealed (sys_node s1)
     \<and> gateway_run demo_gateway s1 [Completed demo_spec] s2"
proof -
  let ?s = "\<lparr> sys_node = demo_node False, sys_loading = [demo_spec] \<rparr>"
  obtain w nd where r: "route demo_gateway (demo_world (10 * second)) (demo_request ''/v1/system/seal'' [1]) (demo_node False)
     = (w, nd, [SealEgress])" "nd_sealed nd" using demo_seals by blast
  have "endpoint_of (r_path (demo_request ''/v1/system/seal'' [1])) = SealEP" by (simp add: demo_request_def endpoint_of_def)
  then have 1: "gateway_step demo_gateway ?s (Handled SealEP [SealEgress]) (?s\<lparr> sys_node := nd \<rparr>)"
    using gateway_step.handled [of "demo_request ''/v1/system/seal'' [1]" demo_gateway "demo_world (10 * second)" ?s w nd "[SealEgress]"] r(1)
    by simp
  obtain nd2 where 2: "gateway_step demo_gateway \<lparr> sys_node = nd, sys_loading = [demo_spec] \<rparr> (Completed demo_spec)
     \<lparr> sys_node = nd2, sys_loading = [] \<rparr>" using demo_completes by blast
  show ?thesis
    using run_cons [OF 1 run_nil] run_cons [OF 2 run_nil] r(2) by (intro exI conjI) (auto simp: fun_eq_iff)
qed

text \<open>A policy update that names a bad setting after a good one is refused with 400, and the good one stays.\<close>

lemma rejected_update_applied_in_part:
  "UpdatePolicy \<lparr> vu_all = None, vu_attestation = Some ''hidden'', vu_certificate = Some ''off'', vu_health = None, vu_probe_egress = None \<rparr>
     default_policy = (default_policy\<lparr> vp_attestation := Hidden \<rparr>, Some (''certificate'', ''off''))"
  by (simp add: UpdatePolicy_def apply_setting_def parse_setting_def default_policy_def ToLower_def lower_char_def TrimSpace_def is_space_def)

text \<open>
  The document held at start is signed over the key of its start: the enrolment writes the new key into
  it and leaves the user data, so that the two documents verify together only where the hash collides.
\<close>

definition with_key :: "string \<Rightarrow> attestation_doc \<Rightarrow> attestation_doc" where
  "with_key hex d = d\<lparr> ad_predicate := (ad_predicate d)\<lparr> cp_authorized_public_key := hex \<rparr> \<rparr>"

lemma enrolment_stales_document:
  assumes "route G W r nd = (w, nd', effs)" "nd_doc nd = Some d" "nd_doc nd' \<noteq> nd_doc nd"
    and "document_verifies sha d" "cp_authorized_public_key (ad_predicate d) = ''''"
  shows "\<exists>hex. nd_doc nd' = Some (with_key hex d)
    \<and> (document_verifies sha (with_key hex d) \<longrightarrow> hex = '''' \<or> hex_decode hex = Some zero32 \<or> (\<exists>x y. x \<noteq> y \<and> sha x = sha y))"
proof -
  have "DocPart \<in> parts_of (endpoint_of (r_path r))"
    using route_touches [OF assms(1)] assms(3) by (auto simp: touches_def)
  then have "endpoint_of (r_path r) = EnrollEP" by (cases "endpoint_of (r_path r)") (simp_all add: parts_of_def)
  then have h: "enroll_handler G W r fresh_response nd = (w, nd', effs)" using assms(1) by (simp add: route_def handler_of_def)
  obtain hex where hex: "nd_doc nd' = Some (with_key hex d)"
    using h status_fresh by (cases rule: enroll_cases) (use assms(2,3) in \<open>auto simp: with_key_def\<close>)
  have "\<exists>x y. x \<noteq> y \<and> sha x = sha y" if v: "document_verifies sha (with_key hex d)" and ne: "hex \<noteq> ''''" "hex_decode hex \<noteq> Some zero32"
  proof -
    let ?p = "ad_predicate d"
    obtain ud tls hpke auth where k: "hex_decode (cp_user_data ?p) = Some ud" "hex_decode (cp_tls_fingerprint ?p) = Some tls"
      "hex_decode (cp_hpke_public_key ?p) = Some hpke" "hex_decode hex = Some auth"
      "VerifyCompositeUserData sha ud tls hpke (nonce_array sha (cp_nonce ?p)) (cp_gpu_evidence ?p) auth"
      using v ne(1) by (auto simp: document_verifies_def with_key_def Let_def split: option.splits)
    have "VerifyCompositeUserData sha ud tls hpke (nonce_array sha (cp_nonce ?p)) (cp_gpu_evidence ?p) zero32"
      using assms(4,5) k by (simp add: document_verifies_def Let_def)
    then have "sha (hpke @ nonce_array sha (cp_nonce ?p) @ gpu_digest sha (cp_gpu_evidence ?p) @ auth)
        = sha (hpke @ nonce_array sha (cp_nonce ?p) @ gpu_digest sha (cp_gpu_evidence ?p) @ zero32)"
      using k(5) by (simp add: VerifyCompositeUserData_def ComputeCompositeUserData_def)
    moreover have "auth \<noteq> zero32" using k(4) ne(2) by auto
    ultimately show ?thesis by (metis same_append_eq)
  qed
  then show ?thesis using hex by blast
qed

text \<open>
  A guarded health check uses up the nonce of the request, and the handler then checks the same headers
  again: on a sealed node, or with health hidden, the model is never shown, not to the tenant either.
\<close>

lemma nonce_of_body [simp]:
  "ExtractAuthHeadersWithBodyHash (r\<lparr> r_body := b \<rparr>) = ExtractAuthHeadersWithBodyHash r"
  by (simp add: ExtractAuthHeadersWithBodyHash_def)

lemma second_check_fails:
  assumes "cache_ok (nd_verifier nd)" "0 < nonceTTL (nd_verifier nd)" "0 < cache_cap (nd_verifier nd)"
    and h: "header_first G W r nd = (Inr body, nd1)" and n: "no_body_auth G W (r\<lparr> r_body := b \<rparr>) nd1 = (e, nd2)"
  shows "e \<noteq> None"
proof -
  let ?C = "gw_crypto G" and ?v = "nd_verifier nd"
  have "op_consumes ?C (OpHeaderFirst (w_now W) 0 r) ?v (request_nonce r)"
    using header_first_op(3) [OF h] by (simp add: op_consumes_def request_nonce_def)
  then have "\<not> op_consumes ?C (OpRequest (w_now W) (r\<lparr> r_body := b \<rparr>) []) (fold (op_step ?C) [] (op_step ?C (OpHeaderFirst (w_now W) 0 r) ?v)) (request_nonce r)"
    using assms(1-3) by (intro vg.no_replay) (simp_all add: dur_neg_def min_dur_def)
  then show ?thesis
    using no_body_op(3) [OF n] header_first_op(2) [OF h] by (simp add: op_consumes_def request_nonce_def)
qed

lemma guarded_health_hides_model:
  assumes "cache_ok (nd_verifier nd)" "0 < nonceTTL (nd_verifier nd)" "0 < cache_cap (nd_verifier nd)"
    and "IsEnrolled (nd_verifier nd)" "nd_sealed nd \<or> vp_health (nd_policy nd) = Hidden" "\<not> sv_expose (nd_supervisor nd)"
    and "endpoint_of (r_path r) = HealthEP" "route G W r nd = (w, nd', effs)" "o_status w \<noteq> Some 401"
  shows "\<exists>st kvs. w = write_json st (jmap kvs) (set_json fresh_response) \<and> ''model'' \<notin> fst ` set kvs"
proof -
  have g: "GuardNonCritical G ''health'' (health_handler G) W r fresh_response nd = (w, nd', effs)"
    using assms(7,8) by (simp add: route_def handler_of_def)
  then show ?thesis
  proof (cases rule: guard_cases)
    case passed then show ?thesis using assms(4,5) by (simp add: setting_of_def)
  next
    case (authenticated body nd1)
    obtain e nd2 where n: "no_body_auth G W (r\<lparr> r_body := BodyBytes body \<rparr>) nd1 = (e, nd2)" by fastforce
    have "e \<noteq> None" by (rule second_check_fails [OF assms(1-3) authenticated(3) n])
    moreover have "nd_supervisor nd1 = nd_supervisor nd"
      using verifier_only_fields [OF header_first_op(1) [OF authenticated(3)]] by simp
    ultimately have "health_handler G W (r\<lparr> r_body := BodyBytes body \<rparr>) fresh_response nd1 = (w, nd', effs)"
      "fst (no_body_auth G W (r\<lparr> r_body := BodyBytes body \<rparr>) nd1) \<noteq> None" "\<not> sv_expose (nd_supervisor nd1)"
      using authenticated(4) n assms(6) by simp_all
    then show ?thesis
      by (cases "sv_fatal (nd_supervisor nd1)")
        (clarsimp simp: health_handler_def Let_def split: prod.splits, intro exI conjI, rule refl, simp)+
  next
    case (refused e) then show ?thesis using assms(9) by auto
  next
    case locked then show ?thesis using assms(9) by auto
  qed
qed

end
