(* ===== verification/Firewall.thy ===== *)
theory Firewall
  imports GoPrelude
begin

text \<open>
  The node's packet filter (pkg/network/firewall.go and egress_lockdown.go): the two rule sets as data, their
  text as the code writes it, the meaning of the matches they use as nft(8) documents it, and the operations
  that apply them. The nft program itself is an argument.
\<close>

section \<open>Rules\<close>

datatype ct_state = CtNew | CtEstablished | CtRelated | CtInvalid

datatype verdict = Accept | DropIt

datatype nft_match =
    IifName string | OifName string
  | TcpSport nat | TcpDport nat | UdpSport nat | UdpDport nat
  | CtIn "ct_state list" | CtReply
  | IpDaddr string | Ip6Daddr string | IpIcmp | Ip6Icmp

type_synonym nft_rule = "nft_match list \<times> verdict"

record nft_chain =
  ch_name :: string
  ch_hook :: string
  ch_policy :: verdict
  ch_rules :: "nft_rule list"

definition sealed_outbound :: nft_chain where
  "sealed_outbound =
     \<lparr> ch_name = ''outbound_filter'', ch_hook = ''output'', ch_policy = DropIt, ch_rules =
       [([OifName ''lo''], Accept),
        ([TcpSport 443, CtIn [CtEstablished, CtRelated]], Accept),
        ([CtReply, CtIn [CtEstablished, CtRelated]], Accept),
        ([UdpSport 68, UdpDport 67], Accept),
        ([IpDaddr ''169.254.169.254''], DropIt),
        ([Ip6Daddr ''fd00:ec2::254''], DropIt)] \<rparr>"

definition default_inbound :: nft_chain where
  "default_inbound =
     \<lparr> ch_name = ''inbound_filter'', ch_hook = ''input'', ch_policy = DropIt, ch_rules =
       [([IifName ''lo''], Accept),
        ([CtIn [CtEstablished, CtRelated]], Accept),
        ([CtIn [CtInvalid]], DropIt),
        ([IpIcmp], Accept),
        ([Ip6Icmp], Accept),
        ([UdpSport 67, UdpDport 68], Accept),
        ([TcpDport 443], Accept)] \<rparr>"

definition default_forward :: nft_chain where
  "default_forward = \<lparr> ch_name = ''forward_filter'', ch_hook = ''forward'', ch_policy = DropIt,
     ch_rules = [([CtIn [CtEstablished, CtRelated]], Accept)] \<rparr>"

definition default_outbound :: nft_chain where
  "default_outbound = \<lparr> ch_name = ''outbound_filter'', ch_hook = ''output'', ch_policy = Accept, ch_rules = [] \<rparr>"

section \<open>Text\<close>

definition nl :: string where "nl = [CHR 0x0A]"
definition dquoted :: "string \<Rightarrow> string" where "dquoted s = [CHR 0x22] @ s @ [CHR 0x22]"

fun state_text :: "ct_state \<Rightarrow> string" where
  "state_text CtNew = ''new''"
| "state_text CtEstablished = ''established''"
| "state_text CtRelated = ''related''"
| "state_text CtInvalid = ''invalid''"

fun verdict_text :: "verdict \<Rightarrow> string" where
  "verdict_text Accept = ''accept''"
| "verdict_text DropIt = ''drop''"

fun match_text :: "nft_match \<Rightarrow> string" where
  "match_text (IifName n) = ''iifname '' @ dquoted n"
| "match_text (OifName n) = ''oifname '' @ dquoted n"
| "match_text (TcpSport p) = ''tcp sport { '' @ nat_dec p @ '' }''"
| "match_text (TcpDport p) = ''tcp dport { '' @ nat_dec p @ '' }''"
| "match_text (UdpSport p) = ''udp sport '' @ nat_dec p"
| "match_text (UdpDport p) = ''udp dport '' @ nat_dec p"
| "match_text (CtIn ss) = ''ct state '' @ Join (map state_text ss) '',''"
| "match_text CtReply = ''ct direction reply''"
| "match_text (IpDaddr a) = ''ip daddr '' @ a"
| "match_text (Ip6Daddr a) = ''ip6 daddr '' @ a"
| "match_text IpIcmp = ''ip protocol icmp''"
| "match_text Ip6Icmp = ''ip6 nexthdr icmpv6''"

fun rule_text :: "nft_rule \<Rightarrow> string" where
  "rule_text (ms, v) = ''        '' @ concat (map (\<lambda>m. match_text m @ '' '') ms) @ verdict_text v @ nl"

definition chain_text :: "nft_chain \<Rightarrow> string" where
  "chain_text c = ''    chain '' @ ch_name c @ '' {'' @ nl
     @ ''        type filter hook '' @ ch_hook c @ '' priority 0; policy '' @ verdict_text (ch_policy c) @ '';'' @ nl
     @ concat (map rule_text (ch_rules c)) @ ''    }'' @ nl"

definition table_text :: "nft_chain list \<Rightarrow> string" where
  "table_text cs = ''table inet firewall {'' @ nl @ concat (map chain_text cs) @ ''}'' @ nl"

definition replace_text :: "nft_chain \<Rightarrow> string" where
  "replace_text c = ''flush chain inet firewall '' @ ch_name c @ nl @ table_text [c]"

definition GenerateSealedNFTablesContent :: string where
  "GenerateSealedNFTablesContent = replace_text sealed_outbound"

definition default_nftables :: string where
  "default_nftables = table_text [default_inbound, default_forward, default_outbound]"

section \<open>Packets\<close>

datatype transport = TCP | UDP | ICMP | ICMPv6 | OtherProto

text \<open>A packet at the hook, with what connection tracking says of it. Its destination is an address in the notation of the rules.\<close>

record packet =
  pk_in :: string
  pk_out :: string
  pk_v6 :: bool
  pk_daddr :: string
  pk_transport :: transport
  pk_sport :: nat
  pk_dport :: nat
  pk_state :: ct_state
  pk_reply :: bool

fun matches :: "packet \<Rightarrow> nft_match \<Rightarrow> bool" where
  "matches p (IifName n) = (pk_in p = n)"
| "matches p (OifName n) = (pk_out p = n)"
| "matches p (TcpSport n) = (pk_transport p = TCP \<and> pk_sport p = n)"
| "matches p (TcpDport n) = (pk_transport p = TCP \<and> pk_dport p = n)"
| "matches p (UdpSport n) = (pk_transport p = UDP \<and> pk_sport p = n)"
| "matches p (UdpDport n) = (pk_transport p = UDP \<and> pk_dport p = n)"
| "matches p (CtIn ss) = List.member ss (pk_state p)"
| "matches p CtReply = pk_reply p"
| "matches p (IpDaddr a) = (\<not> pk_v6 p \<and> pk_daddr p = a)"
| "matches p (Ip6Daddr a) = (pk_v6 p \<and> pk_daddr p = a)"
| "matches p IpIcmp = (\<not> pk_v6 p \<and> pk_transport p = ICMP)"
| "matches p Ip6Icmp = (pk_v6 p \<and> pk_transport p = ICMPv6)"

text \<open>The first rule whose matches all hold decides, then the policy.\<close>

fun rules_verdict :: "nft_rule list \<Rightarrow> verdict \<Rightarrow> packet \<Rightarrow> verdict" where
  "rules_verdict [] policy p = policy"
| "rules_verdict ((ms, v) # rs) policy p = (if list_all (matches p) ms then v else rules_verdict rs policy p)"

definition chain_verdict :: "nft_chain \<Rightarrow> packet \<Rightarrow> verdict" where
  "chain_verdict c p = rules_verdict (ch_rules c) (ch_policy c) p"

section \<open>Application\<close>

datatype fw_effect = WriteConfig string string | Nft string | Conntrack | KillConnections

text \<open>
  The nft program: from the text it is given, or the contents of the file, and the rules of the kernel, its
  error or the new rules. The rules are the chains by name.
\<close>

type_synonym kernel_rules = "string \<Rightarrow> nft_chain option"
type_synonym nft = "string \<Rightarrow> kernel_rules \<Rightarrow> string + kernel_rules"

record fw_machine =
  fm_files :: "string \<Rightarrow> string option"
  fm_writable :: "string \<Rightarrow> bool"
  fm_rules :: kernel_rules

definition write_file :: "string \<Rightarrow> string \<Rightarrow> fw_machine \<Rightarrow> fw_machine" where
  "write_file path content M = (if fm_writable M path then M\<lparr> fm_files := (fm_files M)(path \<mapsto> content) \<rparr> else M)"

definition run_nft :: "nft \<Rightarrow> string option \<Rightarrow> fw_machine \<Rightarrow> string option \<times> fw_machine" where
  "run_nft nft input M =
     (case input of
        None \<Rightarrow> (Some ''no such file'', M)
      | Some t \<Rightarrow> (case nft t (fm_rules M) of Inl e \<Rightarrow> (Some e, M) | Inr rs \<Rightarrow> (None, M\<lparr> fm_rules := rs \<rparr>)))"

definition ApplySealedEgressPolicyWithConfig ::
  "nft \<Rightarrow> string \<Rightarrow> fw_machine \<Rightarrow> string option \<times> fw_machine \<times> fw_effect list" where
  "ApplySealedEgressPolicyWithConfig nft configPath M =
     (let content = GenerateSealedNFTablesContent;
          M = (if configPath \<noteq> '''' then write_file configPath content M else M);
          wrote = (if configPath \<noteq> '''' then [WriteConfig configPath content] else [])
      in case run_nft nft (Some content) M of
           (None, M) \<Rightarrow> (None, M, wrote @ [Nft content, Conntrack, KillConnections])
         | (Some e, M) \<Rightarrow>
             if configPath \<noteq> '''' then
               (case run_nft nft (fm_files M configPath) M of
                  (None, M) \<Rightarrow> (None, M, wrote @ [Nft content, Nft configPath, Conntrack, KillConnections])
                | (Some _, M) \<Rightarrow> (Some (''applying sealed egress policy: '' @ e), M, wrote @ [Nft content, Nft configPath]))
             else (Some (''applying sealed egress policy: '' @ e), M, wrote @ [Nft content]))"

definition ApplySealedEgressPolicy :: "nft \<Rightarrow> fw_machine \<Rightarrow> string option \<times> fw_machine \<times> fw_effect list" where
  "ApplySealedEgressPolicy nft M = ApplySealedEgressPolicyWithConfig nft ''/run/nftables-sealed.conf'' M"

definition writeDefaultNFTables :: "string \<Rightarrow> fw_machine \<Rightarrow> string option \<times> fw_machine" where
  "writeDefaultNFTables path M =
     (if fm_writable M path then (None, write_file path default_nftables M) else (Some ''read-only file system'', M))"

definition ApplyFirewallConfig :: "nft \<Rightarrow> string \<Rightarrow> fw_machine \<Rightarrow> string option \<times> fw_machine" where
  "ApplyFirewallConfig nft configPath M =
     (case (if fm_files M configPath = None then writeDefaultNFTables configPath M else (None, M)) of
        (Some e, M) \<Rightarrow> (Some e, M)
      | (None, M) \<Rightarrow>
          (case run_nft nft (fm_files M configPath) M of
             (Some e, M) \<Rightarrow> (Some (''applying nftables ('' @ configPath @ ''): '' @ e), M)
           | (None, M) \<Rightarrow> (None, M)))"

end
