(* ===== verification/Dhcp.thy ===== *)
theory Dhcp
  imports GoPrelude "HOL-Library.Monad_Syntax"
begin

text \<open>
  The node's DHCP client (pkg/network/interface.go): the checksum and the Ethernet, IPv4 and UDP headers it
  builds by hand, its two messages, the parser of replies with the loop over their options, and the exchange.
  Reading a byte or a slice out of range is \<open>None\<close>. A received packet is the list of its n bytes: the code
  reads them from a larger buffer, but never past n.
\<close>

section \<open>Words of the network\<close>

definition be16 :: "byte \<Rightarrow> byte \<Rightarrow> 16 word" where
  "be16 a b = word_of_nat (256 * unat a + unat b)"

definition put_u16 :: "16 word \<Rightarrow> bytes" where
  "put_u16 w = [word_of_nat (unat w div 256), word_of_nat (unat w mod 256)]"

definition htons :: "16 word \<Rightarrow> 16 word" where
  "htons v = push_bit 8 v OR drop_bit 8 v"

text \<open>The checksum: the sum of the big-endian pairs, its carries folded in, complemented.\<close>

fun add_pairs :: "32 word \<Rightarrow> bytes \<Rightarrow> 32 word" where
  "add_pairs s (a # b # r) = add_pairs (s + ucast (be16 a b)) r"
| "add_pairs s [a] = s + push_bit 8 (ucast a)"
| "add_pairs s [] = s"

lemma fold_parts: "unat ((s :: 32 word) AND 0xFFFF) = unat s mod 65536" "unat (drop_bit 16 s) = unat s div 65536"
proof -
  have "s AND 0xFFFF = take_bit 16 s" by (simp add: take_bit_eq_mask mask_eq_exp_minus_1)
  then have "unat (s AND 0xFFFF) = take_bit 16 (unat s)" by (simp only: unsigned_take_bit_eq)
  then show "unat (s AND 0xFFFF) = unat s mod 65536" by (simp add: take_bit_eq_mod)
  have "take_bit 32 (unat s) = unat s" by (rule take_bit_nat_eq_self) (use unsigned_less [of s] in simp)
  then have "unat (drop_bit 16 s) = drop_bit 16 (unat s)" by (simp add: unsigned_drop_bit_eq)
  then show "unat (drop_bit 16 s) = unat s div 65536" by (simp add: drop_bit_eq_div)
qed

lemma fold_sum: "unat (((s :: 32 word) AND 0xFFFF) + drop_bit 16 s) = unat s mod 65536 + unat s div 65536"
proof -
  have "unat s < 4294967296" using unsigned_less [of s] by simp
  then have "unat s div 65536 < 65536" by (simp add: less_mult_imp_div_less)
  then show ?thesis by (simp add: unat_word_ariths fold_parts)
qed

lemma fold_decreases: "0 < drop_bit 16 s \<Longrightarrow> unat ((s AND 0xFFFF) + drop_bit 16 s) < unat (s :: 32 word)"
proof -
  assume "0 < drop_bit 16 s"
  then have "0 < unat s div 65536" by (simp flip: fold_parts add: unat_gt_0)
  then show ?thesis using div_mult_mod_eq [of "unat s" 65536] unfolding fold_sum by linarith
qed

function fold_carries :: "32 word \<Rightarrow> 32 word" where
  "fold_carries s = (if 0 < drop_bit 16 s then fold_carries ((s AND 0xFFFF) + drop_bit 16 s) else s)"
  by pat_completeness auto
termination by (relation "measure unat") (auto intro: fold_decreases)

declare fold_carries.simps [simp del]

definition ipChecksum :: "bytes \<Rightarrow> 16 word" where
  "ipChecksum b = NOT (ucast (fold_carries (add_pairs 0 b)))"

section \<open>Frames\<close>

text \<open>copy(dst[i:], src) for a source that fits.\<close>

definition put_at :: "nat \<Rightarrow> bytes \<Rightarrow> bytes \<Rightarrow> bytes" where
  "put_at i src dst = take i dst @ src @ drop (i + length src) dst"

text \<open>The two bytes of the identification are random.\<close>

definition buildEthernetIPv4UDP :: "bytes \<Rightarrow> 16 word \<Rightarrow> bytes \<Rightarrow> bytes" where
  "buildEthernetIPv4UDP srcMAC ipID payload =
     (let n = length payload;
          frame = replicate (42 + n) 0;
          frame = put_at 0 (replicate 6 0xFF) frame;
          frame = put_at 6 (take 6 srcMAC) frame;
          frame = put_at 12 [0x08, 0x00] frame;
          frame = put_at 14 [0x45] frame;
          frame = put_at 16 (put_u16 (word_of_nat (28 + n))) frame;
          frame = put_at 18 (put_u16 ipID) frame;
          frame = put_at 22 [64, 17] frame;
          frame = put_at 30 (replicate 4 0xFF) frame;
          frame = put_at 24 (put_u16 (ipChecksum (take 20 (drop 14 frame)))) frame;
          frame = put_at 34 (put_u16 68) frame;
          frame = put_at 36 (put_u16 67) frame;
          frame = put_at 38 (put_u16 (word_of_nat (8 + n))) frame
      in put_at 42 payload frame)"

definition dhcp_cookie :: bytes where "dhcp_cookie = [0x63, 0x82, 0x53, 0x63]"

text \<open>A message of the client: the header it shares, then its options.\<close>

definition dhcp_message :: "32 word \<Rightarrow> bytes \<Rightarrow> bytes \<Rightarrow> bytes" where
  "dhcp_message xid mac options =
     (let m = replicate 300 0;
          m = put_at 0 [1, 1, 6] m;
          m = put_at 4 (put_u32 xid) m;
          m = put_at 10 [0x80] m;
          m = put_at 28 (take 6 mac) m;
          m = put_at 236 dhcp_cookie m
      in put_at 240 options m)"

definition discover :: "32 word \<Rightarrow> bytes \<Rightarrow> bytes" where
  "discover xid mac = dhcp_message xid mac [53, 1, 1, 55, 3, 1, 3, 6, 255]"

definition dhcp_request :: "32 word \<Rightarrow> bytes \<Rightarrow> bytes \<Rightarrow> bytes \<Rightarrow> bytes" where
  "dhcp_request xid mac offerIP targetServer =
     dhcp_message xid mac ([53, 1, 3, 50, 4] @ offerIP @ [54, 4] @ targetServer @ [255])"

section \<open>Replies\<close>

definition at :: "bytes \<Rightarrow> nat \<Rightarrow> byte option" where
  "at b i = (if i < length b then Some (b ! i) else None)"

definition slice :: "bytes \<Rightarrow> nat \<Rightarrow> nat \<Rightarrow> bytes option" where
  "slice b i j = (if i \<le> j \<and> j \<le> length b then Some (take (j - i) (drop i b)) else None)"

text \<open>What the replies of an exchange have said so far; an address is its four bytes.\<close>

record lease =
  ls_offer :: "bytes option"
  ls_mask :: bytes
  ls_router :: "bytes option"
  ls_server :: "bytes option"

definition no_lease :: lease where
  "no_lease = \<lparr> ls_offer = None, ls_mask = [255, 255, 255, 0], ls_router = None, ls_server = None \<rparr>"

text \<open>One option: its effect on the message type and the lease.\<close>

definition take_option :: "byte \<Rightarrow> bytes \<Rightarrow> lease \<times> byte \<Rightarrow> lease \<times> byte" where
  "take_option opt optData st =
     (case st of (l, msgType) \<Rightarrow>
        if opt = 53 \<and> length optData = 1 then (l, optData ! 0)
        else if opt = 1 \<and> length optData = 4 then (l\<lparr> ls_mask := optData \<rparr>, msgType)
        else if opt = 3 \<and> 4 \<le> length optData then (l\<lparr> ls_router := Some (take 4 optData) \<rparr>, msgType)
        else if opt = 54 \<and> 4 \<le> length optData then (l\<lparr> ls_server := Some (take 4 optData) \<rparr>, msgType)
        else (l, msgType))"

text \<open>The loop over the options.\<close>

function scan_options :: "bytes \<Rightarrow> nat \<Rightarrow> lease \<times> byte \<Rightarrow> (lease \<times> byte) option" where
  "scan_options opts i st =
     (if i < length opts then
        do { opt \<leftarrow> at opts i;
             if opt = 0 then scan_options opts (Suc i) st
             else if opt = 255 then Some st
             else if length opts \<le> i + 1 then Some st
             else do { len \<leftarrow> at opts (i + 1);
                       (let optLen = unat len in
                        if length opts < i + 2 + optLen then Some st
                        else do { optData \<leftarrow> slice opts (i + 2) (i + 2 + optLen);
                                  scan_options opts (i + (2 + optLen)) (take_option opt optData st) }) } }
      else Some st)"
  by pat_completeness auto
termination by (relation "measure (\<lambda>(opts, i, _). length opts - i)") auto

declare scan_options.simps [simp del]

datatype received = Ignored | Answer lease byte

text \<open>One packet: ignored, or an answer to this exchange.\<close>

definition read_packet :: "32 word \<Rightarrow> bytes \<Rightarrow> lease \<Rightarrow> received option" where
  "read_packet xid p l =
     (if length p < 282 then Some Ignored
      else do { b12 \<leftarrow> at p 12; b13 \<leftarrow> at p 13;
        if b12 \<noteq> 0x08 \<or> b13 \<noteq> 0x00 then Some Ignored
        else do { b14 \<leftarrow> at p 14;
          (let ipHeaderLen = unat ((b14 AND 0x0F) * 4) in
           if ipHeaderLen < 20 \<or> length p < 14 + ipHeaderLen + 8 then Some Ignored
           else do { proto \<leftarrow> at p (14 + 9);
             if proto \<noteq> 17 then Some Ignored
             else do { p0 \<leftarrow> at p (14 + ipHeaderLen + 2); p1 \<leftarrow> at p (14 + ipHeaderLen + 3);
               if be16 p0 p1 \<noteq> 68 then Some Ignored
               else (let dhcpStart = 14 + ipHeaderLen + 8 in
                 if length p < dhcpStart + 240 then Some Ignored
                 else do { x \<leftarrow> slice p (dhcpStart + 4) (dhcpStart + 8);
                   if get_u32 x \<noteq> xid then Some Ignored
                   else do { c \<leftarrow> slice p (dhcpStart + 236) (dhcpStart + 240);
                     if c \<noteq> dhcp_cookie then Some Ignored
                     else do { ip \<leftarrow> slice p (dhcpStart + 16) (dhcpStart + 20);
                       opts \<leftarrow> slice p (dhcpStart + 240) (length p);
                       (l, t) \<leftarrow> scan_options opts 0 (l\<lparr> ls_offer := Some ip \<rparr>, 0);
                       Some (Answer l t) } } }) } }) } })"

section \<open>The exchange\<close>

text \<open>The packets of one attempt, until an offer stands with a router or the wait ends.\<close>

fun attempt :: "32 word \<Rightarrow> bytes list \<Rightarrow> lease \<Rightarrow> lease option" where
  "attempt xid [] l = Some l"
| "attempt xid (p # ps) l =
     do { r \<leftarrow> read_packet xid p l;
          case r of
            Ignored \<Rightarrow> attempt xid ps l
          | Answer l' t \<Rightarrow> if t = 2 \<and> ls_router l' \<noteq> None then Some l' else attempt xid ps l' }"

definition found :: "lease \<Rightarrow> bool" where "found l \<longleftrightarrow> ls_router l \<noteq> None \<and> ls_offer l \<noteq> None"

text \<open>The attempts; with the number of times the discover frame was sent.\<close>

fun attempts :: "32 word \<Rightarrow> bytes list list \<Rightarrow> lease \<Rightarrow> (nat \<times> lease) option" where
  "attempts xid [] l = Some (0, l)"
| "attempts xid (ps # rest) l =
     do { l \<leftarrow> attempt xid ps l;
          if found l then Some (1, l)
          else do { (n, l) \<leftarrow> attempts xid rest l; Some (Suc n, l) } }"

text \<open>IPMask.Size: the number of leading ones, zero for a mask with a one after a zero.\<close>

definition mask_bits :: "bytes \<Rightarrow> bool list" where
  "mask_bits m = concat (map (\<lambda>b. map (bit b) (rev [0..<8])) m)"

definition mask_size :: "bytes \<Rightarrow> nat" where
  "mask_size m = (let bs = mask_bits m in if list_all Not (dropWhile id bs) then length (takeWhile id bs) else 0)"

datatype dhcp_result = NoInterface | NoSocket | NoOffer | BadMAC | Leased bytes nat bytes

text \<open>
  The exchange on an interface whose socket is open, over the packets received in each of the five attempts,
  with the random identifiers: the frames sent and the result. An attempt that the list does not name
  receives nothing. The reply to the request is not read.
\<close>

definition dhcp_exchange :: "bytes \<Rightarrow> 32 word \<Rightarrow> 16 word \<Rightarrow> 16 word \<Rightarrow> bytes list list \<Rightarrow> (bytes list \<times> dhcp_result) option" where
  "dhcp_exchange mac xid id1 id2 packets =
     (if length mac < 6 then Some ([], BadMAC)
      else do { (n, l) \<leftarrow> attempts xid (take 5 (packets @ replicate 5 [])) no_lease;
        (let sent = replicate n (buildEthernetIPv4UDP mac id1 (discover xid mac)) in
         case (ls_router l, ls_offer l) of
           (Some router, Some offerIP) \<Rightarrow>
             (let targetServer = (case ls_server l of Some s \<Rightarrow> s | None \<Rightarrow> router)
              in Some (sent @ [buildEthernetIPv4UDP mac id2 (dhcp_request xid mac offerIP targetServer)],
                       Leased offerIP (mask_size (ls_mask l)) router))
         | _ \<Rightarrow> Some (sent, NoOffer)) })"

text \<open>
  What the system answers on the way to the exchange: the address of the interface where it is found, the
  packet socket and its binding, four random bytes or the clock in nanoseconds, the identifications of
  the two kinds of frames, and the packets.
\<close>

record packet_env =
  pe_mac :: "bytes option"
  pe_socket :: bool
  pe_bind :: bool
  pe_random :: "32 word option"
  pe_clock :: "64 word"
  pe_ids :: "16 word \<times> 16 word"
  pe_packets :: "bytes list list"

definition dhcp_xid :: "packet_env \<Rightarrow> 32 word" where
  "dhcp_xid E = (case pe_random E of Some xid \<Rightarrow> xid | None \<Rightarrow> ucast (pe_clock E))"

definition obtainDHCP :: "packet_env \<Rightarrow> (bytes list \<times> dhcp_result) option" where
  "obtainDHCP E =
     (case pe_mac E of
        None \<Rightarrow> Some ([], NoInterface)
      | Some mac \<Rightarrow>
          if \<not> pe_socket E then Some ([], NoSocket)
          else if \<not> pe_bind E then Some ([], NoSocket)
          else dhcp_exchange mac (dhcp_xid E) (fst (pe_ids E)) (snd (pe_ids E)) (pe_packets E))"

end
