(* ===== verification/Interfaces.thy ===== *)
theory Interfaces
  imports Dhcp
begin

text \<open>
  Bringing up the network (pkg/network/interface.go): which interfaces count, and the strategies tried on
  each until one has an IPv4 address. What the system answers is the environment's.
\<close>

section \<open>Candidates\<close>

definition isExternalInterface :: "string \<Rightarrow> bool" where
  "isExternalInterface name \<longleftrightarrow>
     \<not> (name = ''lo'' \<or> HasPrefix name ''dummy'' \<or> HasPrefix name ''docker'' \<or> HasPrefix name ''veth'' \<or> HasPrefix name ''br-'')"

definition add_names :: "string list \<Rightarrow> string list \<Rightarrow> string list" where
  "add_names entries names = fold (\<lambda>n ns. if isExternalInterface n \<and> \<not> List.member ns n then ns @ [n] else ns) entries names"

text \<open>The names in /sys/class/net, those of the PCI devices, and those the kernel lists; None when a source fails.\<close>

definition findNetworkInterfaces :: "string list option \<Rightarrow> string list option \<Rightarrow> string list option \<Rightarrow> string list" where
  "findNetworkInterfaces sys pci ifaces =
     (let names = (case sys of Some es \<Rightarrow> add_names es [] | None \<Rightarrow> []);
          names = (case pci of Some ps \<Rightarrow> add_names (map path_base ps) names | None \<Rightarrow> names)
      in case ifaces of Some ns \<Rightarrow> add_names ns names | None \<Rightarrow> names)"

section \<open>One interface\<close>

datatype addr = V4 bytes | V6 bytes | NotIP

definition usable :: "addr \<Rightarrow> bool" where
  "usable a = (case a of V4 ip \<Rightarrow> at ip 0 \<noteq> Some 127 | V6 _ \<Rightarrow> False | NotIP \<Rightarrow> False)"

definition ready_addr :: "addr list \<Rightarrow> bytes option" where
  "ready_addr as = (case find usable as of Some (V4 ip) \<Rightarrow> Some ip | _ \<Rightarrow> None)"

definition ip_text :: "bytes \<Rightarrow> string" where
  "ip_text ip = Join (map (\<lambda>b. nat_dec (unat b)) ip) ''.''"

datatype net_effect = Command "string list" | MkdirAll string | WriteText string string | SendFrame bytes

text \<open>
  What the system answers for an interface: whether it exists, with its addresses and its hardware
  address; whether udhcpc succeeds, a resolver file exists and what the interface is afterwards; and
  what the raw client finds.
\<close>

record iface_env =
  ie_exists :: bool
  ie_addrs :: "addr list"
  ie_mac :: bytes
  ie_udhcpc :: bool
  ie_resolv :: bool
  ie_after :: "(bytes \<times> addr list) option"
  ie_dhcp :: packet_env

record primary_interface =
  pi_name :: string
  pi_ip :: bytes
  pi_hardware :: bytes

definition public_dns :: string where
  "public_dns = ''nameserver 1.1.1.1'' @ [CHR 0x0A] @ ''nameserver 8.8.8.8'' @ [CHR 0x0A]"

definition ip_up :: "string \<Rightarrow> net_effect" where
  "ip_up name = Command [''ip'', ''link'', ''set'', ''dev'', name, ''up'']"

text \<open>The address, the routes and the name servers of a lease.\<close>

definition configure_lease :: "string \<Rightarrow> bytes \<Rightarrow> nat \<Rightarrow> bytes \<Rightarrow> net_effect list" where
  "configure_lease name ip maskLen gateway =
     (let routed = (ip_text gateway \<noteq> ''0.0.0.0'');
          dns = (if routed then ''nameserver '' @ ip_text gateway @ [CHR 0x0A] @ public_dns else public_dns)
      in Command [''ip'', ''addr'', ''add'', ip_text ip @ ''/'' @ nat_dec maskLen, ''dev'', name]
         # (if routed then [Command [''ip'', ''route'', ''add'', ip_text gateway, ''dev'', name],
              Command [''ip'', ''route'', ''add'', ''default'', ''via'', ip_text gateway, ''dev'', name, ''onlink'']] else [])
         @ [MkdirAll ''/run'', WriteText ''/run/resolv.conf'' dns, WriteText ''/etc/resolv.conf'' dns])"

text \<open>The raw client never panics, as NetworkSafety proves, so its None is no case of its own.\<close>

definition evaluate_interface :: "iface_env \<Rightarrow> string \<Rightarrow> net_effect list \<times> primary_interface option" where
  "evaluate_interface E name =
     (let up = ip_up name;
          this = (\<lambda>mac ip. \<lparr> pi_name = name, pi_ip = ip, pi_hardware = mac \<rparr>)
      in if \<not> ie_exists E then ([up], None)
         else
           (case ready_addr (ie_addrs E) of
              Some ip \<Rightarrow> ([up], Some (this (ie_mac E) ip))
            | None \<Rightarrow>
                (let udhcpc = Command [''/bin/busybox'', ''udhcpc'', ''-i'', name, ''-n'', ''-q'', ''-t'', ''8'', ''-T'', ''3'',
                       ''-s'', ''/usr/share/udhcpc/default.script''];
                     effs = [up, udhcpc] @ (if ie_udhcpc E then MkdirAll ''/run'' #
                       (if ie_resolv E then [] else [WriteText ''/etc/resolv.conf'' public_dns]) else [])
                 in case (if ie_udhcpc E then do { (mac, as) \<leftarrow> ie_after E; ip \<leftarrow> ready_addr as; Some (this mac ip) } else None) of
                      Some p \<Rightarrow> (effs, Some p)
                    | None \<Rightarrow>
                        (case obtainDHCP (ie_dhcp E) of
                           Some (sent, Leased ip ones gateway) \<Rightarrow>
                             (effs @ [up] @ map SendFrame sent @ configure_lease name ip ones gateway, Some (this (ie_mac E) ip))
                         | Some (sent, _) \<Rightarrow> (effs @ [up] @ map SendFrame sent, None)
                         | None \<Rightarrow> (effs @ [up], None)))))"

section \<open>The loop\<close>

fun evaluate_all :: "(string \<Rightarrow> iface_env) \<Rightarrow> string list \<Rightarrow> net_effect list \<times> primary_interface option" where
  "evaluate_all E [] = ([], None)"
| "evaluate_all E (n # ns) =
     (case evaluate_interface (E n) n of
        (effs, Some p) \<Rightarrow> (effs, Some p)
      | (effs, None) \<Rightarrow> (case evaluate_all E ns of (effs', r) \<Rightarrow> (effs @ effs', r)))"

text \<open>The rounds that begin before the deadline: the candidates of each and what their interfaces answer.\<close>

fun DiscoverAndConfigureNetwork ::
  "(string list \<times> (string \<Rightarrow> iface_env)) list \<Rightarrow> net_effect list \<times> primary_interface option" where
  "DiscoverAndConfigureNetwork [] = ([], None)"
| "DiscoverAndConfigureNetwork ((names, E) # rounds) =
     (case evaluate_all E names of
        (effs, Some p) \<Rightarrow> (effs, Some p)
      | (effs, None) \<Rightarrow> (case DiscoverAndConfigureNetwork rounds of (effs', r) \<Rightarrow> (effs @ effs', r)))"

end
