(* ===== verification/NetworkSafety.thy ===== *)
theory NetworkSafety
  imports Firewall Interfaces
begin

text \<open>
  What holds of the node's network code: the checksum and the frames, the parser of DHCP replies and the
  exchange, masks, the two packet filters and the operations that apply them, and the choice of an interface.
\<close>

section \<open>The checksum\<close>

fun pairs_sum :: "bytes \<Rightarrow> nat" where
  "pairs_sum (a # b # r) = 256 * unat a + unat b + pairs_sum r"
| "pairs_sum [a] = 256 * unat a"
| "pairs_sum [] = 0"

text \<open>The ones' complement sum of RFC 1071: the sum modulo 65535, with 65535 for a positive multiple of it.\<close>

definition ones_sum :: "nat \<Rightarrow> nat" where
  "ones_sum n = (if n = 0 then 0 else (n - 1) mod 65535 + 1)"

lemma byte_le: "unat (b :: byte) \<le> 255" using unat_byte_lt [of b] by linarith

lemma be16_unat: "unat (ucast (be16 a b) :: 32 word) = 256 * unat a + unat b"
proof -
  have l: "256 * unat a + unat b < 65536" using byte_le [of a] byte_le [of b] by linarith
  then have "unat (be16 a b) = 256 * unat a + unat b" unfolding be16_def by (simp only: unsigned_of_nat) (simp add: take_bit_nat_eq_self)
  then show ?thesis using l by (simp add: unsigned_ucast_eq take_bit_nat_eq_self)
qed

lemma pairs_sum_bound: "pairs_sum b \<le> 65535 * ((length b + 1) div 2)"
proof (induction b rule: pairs_sum.induct)
  case (1 a b r)
  have "256 * unat a + unat b \<le> 65535" using byte_le [of a] byte_le [of b] by linarith
  then show ?case using 1 by simp
next
  case (2 a)
  then show ?case using byte_le [of a] by simp
qed simp

lemma add_pairs_unat: "unat s + pairs_sum b < 2 ^ 32 \<Longrightarrow> unat (add_pairs s b) = unat s + pairs_sum b"
proof (induction s b rule: add_pairs.induct)
  case (1 s a b r)
  have "unat (s + ucast (be16 a b)) = unat s + (256 * unat a + unat b)"
    using 1(2) by (simp add: unat_word_ariths be16_unat)
  then show ?case using 1 by simp
next
  case (2 s a)
  have "unat (push_bit 8 (ucast a :: 32 word)) = 256 * unat a"
    using byte_le [of a] by (simp add: push_bit_eq_mult unat_word_ariths unsigned_ucast_eq take_bit_nat_eq_self)
  then show ?case using 2 by (simp add: unat_word_ariths)
qed simp

lemma ones_sum_mod: "ones_sum (n mod 65536 + n div 65536) = ones_sum n"
proof (cases "n = 0")
  case False
  let ?m = "n mod 65536 + n div 65536"
  have n: "n = 65536 * (n div 65536) + n mod 65536" by simp
  then have m: "?m \<noteq> 0" "n = ?m + 65535 * (n div 65536)" using False by linarith+
  then have "n - 1 = (?m - 1) + 65535 * (n div 65536)" by linarith
  then have "(n - 1) mod 65535 = (?m - 1) mod 65535" by simp
  then show ?thesis using m(1) False by (simp add: ones_sum_def)
qed (simp add: ones_sum_def)

lemma ones_sum_small: "n < 65536 \<Longrightarrow> ones_sum n = n"
  by (cases "n = 0") (auto simp: ones_sum_def)

lemma fold_carries_unat: "unat (fold_carries s) = ones_sum (unat s)"
proof (induction s rule: fold_carries.induct)
  case (1 s)
  show ?case
  proof (cases "0 < drop_bit 16 s")
    case True
    then show ?thesis using 1 fold_sum [of s] by (simp add: fold_carries.simps [of s] ones_sum_mod)
  next
    case False
    then have "unat s div 65536 = 0" by (simp flip: fold_parts(2)) (metis unat_0 word_gt_0)
    then have "unat s < 65536" by (simp add: div_eq_0_iff)
    then show ?thesis using False by (simp add: fold_carries.simps [of s] ones_sum_small)
  qed
qed

lemma ones_sum_le: "ones_sum n \<le> 65535" by (auto simp: ones_sum_def less_eq_Suc_le)

lemma checksum_unat:
  assumes "length b \<le> 65536"
  shows "unat (ipChecksum b) = 65535 - ones_sum (pairs_sum b)"
proof -
  have "(length b + 1) div 2 \<le> 32768" using assms by linarith
  then have "pairs_sum b < 2 ^ 32" using pairs_sum_bound [of b] by simp
  then have "unat (add_pairs 0 b) = pairs_sum b" using add_pairs_unat [of 0 b] by simp
  then have f: "unat (fold_carries (add_pairs 0 b)) = ones_sum (pairs_sum b)" by (simp add: fold_carries_unat)
  have "unat (ucast (fold_carries (add_pairs 0 b)) :: 16 word) = ones_sum (pairs_sum b)"
    using ones_sum_le [of "pairs_sum b"] by (simp add: unsigned_ucast_eq f take_bit_nat_eq_self)
  moreover have "unat (NOT w) = 65535 - unat w" for w :: "16 word"
  proof -
    have "NOT w = - 1 - w" by (simp add: not_eq_complement)
    moreover have "unat (- 1 :: 16 word) = 65535" by (simp add: unsigned_minus_1_eq_mask mask_eq_exp_minus_1)
    ultimately show ?thesis using unat_sub [OF word_order.extremum, of w] by presburger
  qed
  ultimately show ?thesis unfolding ipChecksum_def by simp
qed

text \<open>
  The checksum of up to 65536 bytes is the complement of the ones' complement sum of RFC 1071 over
  their big-endian pairs, an odd last byte padded with zero; the 32-bit accumulator does not wrap.
\<close>

theorem checksum_is_ones_complement:
  assumes "length b \<le> 65536"
  shows "ipChecksum b = word_of_nat (65535 - ones_sum (pairs_sum b))"
  using checksum_unat [OF assms] by (metis of_nat_unat ucast_id)

lemma pairs_sum_append: "even (length a) \<Longrightarrow> pairs_sum (a @ b) = pairs_sum a + pairs_sum b"
  by (induction a rule: pairs_sum.induct) auto

lemma pairs_sum_put: "pairs_sum (put_u16 w @ r) = unat w + pairs_sum r"
proof -
  have "unat w < 65536" using unsigned_less [of w] by simp
  then have "unat w div 256 < 256" by (simp add: less_mult_imp_div_less)
  then show ?thesis by (simp only: put_u16_def append_Cons append_Nil pairs_sum.simps) (simp add: unat_byte_of_nat)
qed

lemma ones_sum_fills: "ones_sum (n + (65535 - ones_sum n)) = 65535"
proof (cases "n = 0")
  case False
  let ?q = "(n - 1) div 65535" and ?r = "(n - 1) mod 65535"
  have "n - 1 = 65535 * ?q + ?r" by simp
  moreover have "?r < 65535" by simp
  ultimately have "n + (65535 - (?r + 1)) = 65534 + 65535 * ?q + 1" using False by linarith
  moreover have "ones_sum (65534 + 65535 * k + 1) = 65535" for k :: nat by (simp add: ones_sum_def)
  ultimately show ?thesis using False by (simp add: ones_sum_def)
qed (simp add: ones_sum_def)

lemma checksum_verifies:
  assumes "even (length a)" "length a + length b \<le> 65534"
  shows "ipChecksum (a @ put_u16 (ipChecksum (a @ [0, 0] @ b)) @ b) = 0"
proof -
  let ?n = "pairs_sum a + pairs_sum b"
  have z: "pairs_sum (a @ [0, 0] @ b) = ?n" using assms(1) by (simp add: pairs_sum_append)
  then have c: "unat (ipChecksum (a @ [0, 0] @ b)) = 65535 - ones_sum ?n" using assms(2) by (simp add: checksum_unat)
  have "pairs_sum (a @ put_u16 (ipChecksum (a @ [0, 0] @ b)) @ b) = ?n + (65535 - ones_sum ?n)"
    using assms(1) c by (simp add: pairs_sum_append pairs_sum_put)
  then have "unat (ipChecksum (a @ put_u16 (ipChecksum (a @ [0, 0] @ b)) @ b)) = 65535 - ones_sum (?n + (65535 - ones_sum ?n))"
    using assms(2) by (subst checksum_unat) (simp_all add: put_u16_def)
  then show ?thesis by (simp add: ones_sum_fills unat_eq_zero)
qed

section \<open>The frames\<close>

lemma length_put_at: "i + length src \<le> length dst \<Longrightarrow> length (put_at i src dst) = length dst"
  by (simp add: put_at_def)

lemma put_at_append: "i = length a \<Longrightarrow> length src = length b \<Longrightarrow> put_at i src (a @ b @ c) = a @ src @ c"
  by (simp add: put_at_def)

lemma six_bytes: "length xs = 6 \<Longrightarrow> \<exists>a b c d e f. xs = [a, b, c, d, e, f]"
  by (simp add: numeral_eq_Suc length_Suc_conv) blast

lemma replicate_unfold: "replicate 4 x = [x, x, x, x]" "replicate 6 x = [x, x, x, x, x, x]"
  "replicate 42 x = [x, x, x, x, x, x, x, x, x, x, x, x, x, x, x, x, x, x, x, x, x, x, x, x, x, x, x, x, x, x, x, x, x, x, x, x, x, x,
     x, x, x, x]"
  by (simp_all add: numeral_eq_Suc)

text \<open>The frame, byte by byte.\<close>

lemma frame_bytes:
  assumes "6 \<le> length mac"
  shows "\<exists>csum. buildEthernetIPv4UDP mac ipID payload =
      replicate 6 0xFF @ take 6 mac @ [0x08, 0x00]
      @ ([0x45, 0] @ put_u16 (word_of_nat (28 + length payload)) @ put_u16 ipID @ [0, 0, 64, 17] @ put_u16 csum @ replicate 4 0 @ replicate 4 0xFF)
      @ put_u16 68 @ put_u16 67 @ put_u16 (word_of_nat (8 + length payload)) @ [0, 0] @ payload
    \<and> csum = ipChecksum (([0x45, 0] @ put_u16 (word_of_nat (28 + length payload)) @ put_u16 ipID @ [0, 0, 64, 17]) @ [0, 0]
        @ replicate 4 0 @ replicate 4 0xFF)"
proof -
  have "length (take 6 mac) = 6" using assms by simp
  then obtain m0 m1 m2 m3 m4 m5 where m: "take 6 mac = [m0, m1, m2, m3, m4, m5]" using six_bytes by blast
  have z: "replicate (42 + length payload) (0 :: byte) = replicate 42 0 @ replicate (length payload) 0" by (rule replicate_add)
  have p: "put_u16 w = [word_of_nat (unat w div 256), word_of_nat (unat w mod 256)]" for w by (rule put_u16_def)
  show ?thesis
    unfolding buildEthernetIPv4UDP_def Let_def z m
    by (rule exI, rule conjI) (simp_all add: put_at_def p replicate_unfold)
qed


text \<open>
  A frame the client builds from a MAC address of at least six bytes is the broadcast Ethernet
  header, an IPv4 header whose checksum verifies, a UDP header from port 68 to port 67 with both length
  fields those of the payload modulo 65536, and the payload, for every payload.
\<close>

theorem frame_valid:
  assumes "6 \<le> length mac"
  shows "let f = buildEthernetIPv4UDP mac ipID payload; n = length payload in
    length f = 42 + n \<and> take 6 f = replicate 6 0xFF \<and> take 6 (drop 6 f) = take 6 mac \<and> drop 42 f = payload \<and>
    ipChecksum (take 20 (drop 14 f)) = 0 \<and>
    be16 (f ! 16) (f ! 17) = word_of_nat (28 + n) \<and> be16 (f ! 34) (f ! 35) = 68 \<and> be16 (f ! 36) (f ! 37) = 67 \<and>
    be16 (f ! 38) (f ! 39) = word_of_nat (8 + n)"
proof -
  have be: "be16 (word_of_nat (unat w div 256)) (word_of_nat (unat w mod 256)) = w" for w :: "16 word"
  proof -
    have "unat w < 65536" using unsigned_less [of w] by simp
    then have "unat w div 256 < 256" by (simp add: less_mult_imp_div_less)
    then show ?thesis by (simp add: be16_def unat_byte_of_nat)
  qed
  have "length (take 6 mac) = 6" using assms by simp
  then obtain m0 m1 m2 m3 m4 m5 where m: "take 6 mac = [m0, m1, m2, m3, m4, m5]" using six_bytes by blast
  obtain csum where f: "buildEthernetIPv4UDP mac ipID payload =
      replicate 6 0xFF @ take 6 mac @ [0x08, 0x00]
      @ ([0x45, 0] @ put_u16 (word_of_nat (28 + length payload)) @ put_u16 ipID @ [0, 0, 64, 17] @ put_u16 csum @ replicate 4 0 @ replicate 4 0xFF)
      @ put_u16 68 @ put_u16 67 @ put_u16 (word_of_nat (8 + length payload)) @ [0, 0] @ payload"
    and c: "csum = ipChecksum (([0x45, 0] @ put_u16 (word_of_nat (28 + length payload)) @ put_u16 ipID @ [0, 0, 64, 17]) @ [0, 0]
        @ replicate 4 0 @ replicate 4 0xFF)" using frame_bytes [OF assms] by blast
  let ?h = "[0x45, 0] @ put_u16 (word_of_nat (28 + length payload)) @ put_u16 ipID @ [0, 0, 64, 17]"
  have h: "take 20 (drop 14 (buildEthernetIPv4UDP mac ipID payload)) = ?h @ put_u16 csum @ (replicate 4 0 @ replicate 4 0xFF)"
    unfolding f m by (simp add: put_u16_def)
  have "ipChecksum (take 20 (drop 14 (buildEthernetIPv4UDP mac ipID payload))) = 0"
    unfolding h c by (rule checksum_verifies) (simp_all add: put_u16_def)
  moreover have "be16 0 68 = 68" "be16 0 67 = 67" by (simp_all add: be16_def)
  ultimately show ?thesis unfolding Let_def
    by (simp add: f m put_u16_def be replicate_unfold del: of_nat_add of_nat_Suc)
qed


section \<open>Replies\<close>

lemma at_in [simp]: "i < length b \<Longrightarrow> at b i = Some (b ! i)" by (simp add: at_def)

lemma slice_in [simp]: "i \<le> j \<Longrightarrow> j \<le> length b \<Longrightarrow> slice b i j = Some (take (j - i) (drop i b))" by (simp add: slice_def)







text \<open>What a server writes: its options, each a type, a length and that many bytes, closed by the end option.\<close>

definition put_options :: "(byte \<times> bytes) list \<Rightarrow> bytes" where
  "put_options os = concat (map (\<lambda>(t, d). t # word_of_nat (length d) # d) os)"

definition writable_option :: "byte \<times> bytes \<Rightarrow> bool" where
  "writable_option o' \<longleftrightarrow> fst o' \<noteq> 0 \<and> fst o' \<noteq> 255 \<and> length (snd o') < 256"

lemma scan_one:
  assumes "writable_option (t, d)"
  shows "scan_options (pre @ (t # word_of_nat (length d) # d) @ rest) (length pre) st =
    scan_options (pre @ (t # word_of_nat (length d) # d) @ rest) (length (pre @ (t # word_of_nat (length d) # d))) (take_option t d st)"
  using assms
  by (subst scan_options.simps) (simp add: writable_option_def nth_append Let_def unat_byte_of_nat)

lemma scan_written:
  assumes "list_all writable_option os"
  shows "scan_options (pre @ put_options os @ 255 # rest) (length pre) st = Some (fold (\<lambda>(t, d). take_option t d) os st)"
  using assms
proof (induction os arbitrary: pre st)
  case Nil
  then show ?case by (subst scan_options.simps) (simp add: put_options_def nth_append)
next
  case (Cons o' os)
  obtain t d where o': "o' = (t, d)" by fastforce
  have p: "put_options (o' # os) = (t # word_of_nat (length d) # d) @ put_options os" by (simp add: put_options_def o')
  show ?case
    using Cons.prems scan_one [of t d pre "put_options os @ 255 # rest" st]
      Cons.IH [of "pre @ (t # word_of_nat (length d) # d)" "take_option t d st"]
    by (simp add: p [unfolded o'] o')
qed

text \<open>
  A reply: an Ethernet frame with an IPv4 header without options, a UDP datagram to port 68 and a BOOTP
  message with the exchange's identifier, whose other fields are free.
\<close>

record reply_fields =
  rf_ethernet :: bytes
  rf_ip8 :: bytes
  rf_ip10 :: bytes
  rf_sport :: bytes
  rf_udp4 :: bytes
  rf_boot4 :: bytes
  rf_boot8 :: bytes
  rf_boot216 :: bytes

definition well_sized :: "reply_fields \<Rightarrow> bool" where
  "well_sized f \<longleftrightarrow> length (rf_ethernet f) = 12 \<and> length (rf_ip8 f) = 8 \<and> length (rf_ip10 f) = 10 \<and> length (rf_sport f) = 2 \<and>
     length (rf_udp4 f) = 4 \<and> length (rf_boot4 f) = 4 \<and> length (rf_boot8 f) = 8 \<and> length (rf_boot216 f) = 216"

definition reply_frame :: "reply_fields \<Rightarrow> 32 word \<Rightarrow> bytes \<Rightarrow> bytes \<Rightarrow> bytes" where
  "reply_frame f xid yiaddr options =
     rf_ethernet f @ [0x08, 0x00, 0x45] @ rf_ip8 f @ [17] @ rf_ip10 f @ rf_sport f @ [0, 68] @ rf_udp4 f
     @ rf_boot4 f @ put_u32 xid @ rf_boot8 f @ yiaddr @ rf_boot216 f @ dhcp_cookie @ options"

lemma length_reply: "well_sized f \<Longrightarrow> length y = 4 \<Longrightarrow> length (reply_frame f xid y opts) = 282 + length opts"
  by (simp add: reply_frame_def well_sized_def dhcp_cookie_def)

lemma reply_slices:
  assumes "well_sized f" "length y = 4"
  shows "reply_frame f xid y opts ! 12 = 0x08" "reply_frame f xid y opts ! 13 = 0x00" "reply_frame f xid y opts ! 14 = 0x45"
    "reply_frame f xid y opts ! 23 = 17" "reply_frame f xid y opts ! 36 = 0" "reply_frame f xid y opts ! 37 = 68"
    "take 4 (drop 46 (reply_frame f xid y opts)) = put_u32 xid" "take 4 (drop 58 (reply_frame f xid y opts)) = y"
    "take 4 (drop 278 (reply_frame f xid y opts)) = dhcp_cookie" "drop 282 (reply_frame f xid y opts) = opts"
  using assms by (simp_all add: reply_frame_def well_sized_def dhcp_cookie_def nth_append put_u32_def [THEN arg_cong [where f = length]])

lemma reply_received:
  assumes "well_sized f" "length y = 4" "list_all writable_option os"
  shows "read_packet xid (reply_frame f xid y (put_options os @ 255 # pad)) l =
    (case fold (\<lambda>(t, d). take_option t d) os (l\<lparr> ls_offer := Some y \<rparr>, 0) of (l', t) \<Rightarrow> Some (Answer l' t))"
proof -
  let ?p = "reply_frame f xid y (put_options os @ 255 # pad)"
  note n = length_reply [OF assms(1,2), of xid "put_options os @ 255 # pad"]
  note s = reply_slices [OF assms(1,2), of xid "put_options os @ 255 # pad"]
  have h: "unat ((0x45 AND 0x0F :: byte) * 4) = 20" by simp
  have c: "be16 0 68 = 68" by (simp add: be16_def)
  have g: "get_u32 (put_u32 xid) = xid" using get_put_u32 [of xid "[]"] by simp
  show ?thesis
    using scan_written [OF assms(3), of "[]" pad]
    by (simp add: read_packet_def Let_def n s h c g split: prod.split)
qed


section \<open>Masks\<close>

definition prefix_mask :: "nat \<Rightarrow> bytes" where
  "prefix_mask n = map (\<lambda>i. word_of_nat (256 - 2 ^ (8 - min 8 (n - 8 * i)))) [0..<4]"

text \<open>
  For each of the 33 contiguous masks the prefix length configured is the number of its ones.
\<close>

theorem prefix_length_recovered: "list_all (\<lambda>n. mask_size (prefix_mask n) = n) [0..<33]"
  by code_simp

lemma broken_mask_is_default_route: "mask_size [255, 0, 255, 0] = 0"
  by code_simp

lemma prefix_mask_size: "n \<le> 32 \<Longrightarrow> mask_size (prefix_mask n) = n"
  using prefix_length_recovered by (simp add: list_all_iff)

section \<open>Leases\<close>

text \<open>
  What the options of a reply say (RFC 2132), the last well-formed option of a code counting: the subnet mask
  in code 1, the routers in code 3, the server in code 54, addresses being the first four bytes.
\<close>

definition last_option :: "byte \<Rightarrow> (nat \<Rightarrow> bool) \<Rightarrow> (byte \<times> bytes) list \<Rightarrow> bytes option" where
  "last_option code fits os = map_of (rev (filter (\<lambda>(t, d). fits (length d)) os)) code"

definition said_mask :: "(byte \<times> bytes) list \<Rightarrow> bytes" where
  "said_mask os = (case last_option 1 (\<lambda>n. n = 4) os of Some d \<Rightarrow> d | None \<Rightarrow> [255, 255, 255, 0])"

definition said_router :: "(byte \<times> bytes) list \<Rightarrow> bytes option" where
  "said_router os = map_option (take 4) (last_option 3 (\<lambda>n. 4 \<le> n) os)"

definition said_server :: "(byte \<times> bytes) list \<Rightarrow> bytes option" where
  "said_server os = map_option (take 4) (last_option 54 (\<lambda>n. 4 \<le> n) os)"

lemma last_option_snoc:
  "last_option code fits (os @ [(t, d)]) = (if t = code \<and> fits (length d) then Some d else last_option code fits os)"
  by (simp add: last_option_def)

lemma scanned_lease:
  fixes os :: "(byte \<times> bytes) list" and t0 :: byte
  shows "fst (fold (\<lambda>(t, d). take_option t d) os (no_lease\<lparr> ls_offer := Some y \<rparr>, t0)) =
    \<lparr> ls_offer = Some y, ls_mask = said_mask os, ls_router = said_router os, ls_server = said_server os \<rparr>"
proof (induction os rule: rev_induct)
  case Nil
  then show ?case by (simp add: no_lease_def said_mask_def said_router_def said_server_def last_option_def)
next
  case (snoc o' os)
  obtain t d where o': "o' = (t, d)" by fastforce
  obtain l m where f: "fold (\<lambda>(t, d). take_option t d) os (no_lease\<lparr> ls_offer := Some y \<rparr>, t0) = (l, m)" by fastforce
  have l: "l = \<lparr> ls_offer = Some y, ls_mask = said_mask os, ls_router = said_router os, ls_server = said_server os \<rparr>"
    using snoc by (simp add: f)
  have "fold (\<lambda>(t, d). take_option t d) (os @ [o']) (no_lease\<lparr> ls_offer := Some y \<rparr>, t0) = take_option t d (l, m)"
    by (simp add: o' f)
  moreover have "fst (take_option t d (l, m)) = \<lparr> ls_offer = Some y, ls_mask = said_mask (os @ [(t, d)]),
      ls_router = said_router (os @ [(t, d)]), ls_server = said_server (os @ [(t, d)]) \<rparr>"
    by (simp add: l take_option_def said_mask_def said_router_def said_server_def last_option_snoc)
  ultimately show ?case by (simp only: o')
qed

text \<open>
  C36: A reply laid out as DHCP prescribes, with any list of well-formed options that names a router, ends
  the exchange with a discover and a request for the offered address, and with the lease that the options say:
  the offered address, the prefix of the last subnet mask (24 bits if there is none), and the first router; the
  request names the server, or the router if no server is named. A mask of n leading ones has the prefix n.
\<close>

theorem lease_from_reply:
  assumes "6 \<le> length mac" "well_sized f" "length y = 4" "list_all writable_option os" "said_router os = Some r"
    and "pe_mac E = Some mac" "pe_socket E" "pe_bind E"
    and "pe_packets E = [reply_frame f (dhcp_xid E) y (put_options os @ 255 # pad)] # rest"
  shows "obtainDHCP E =
    Some ([buildEthernetIPv4UDP mac (fst (pe_ids E)) (discover (dhcp_xid E) mac),
           buildEthernetIPv4UDP mac (snd (pe_ids E)) (dhcp_request (dhcp_xid E) mac y (case said_server os of Some s \<Rightarrow> s | None \<Rightarrow> r))],
      Leased y (mask_size (said_mask os)) r) \<and>
    (\<forall>n\<le>32. said_mask os = prefix_mask n \<longrightarrow> mask_size (said_mask os) = n)"
proof -
  let ?p = "reply_frame f (dhcp_xid E) y (put_options os @ 255 # pad)"
  obtain l t where fold: "fold (\<lambda>(t, d). take_option t d) os (no_lease\<lparr> ls_offer := Some y \<rparr>, 0) = (l, t)" by fastforce
  have l: "l = \<lparr> ls_offer = Some y, ls_mask = said_mask os, ls_router = said_router os, ls_server = said_server os \<rparr>"
    using scanned_lease [of os y 0] by (simp add: fold)
  have "read_packet (dhcp_xid E) ?p no_lease = Some (Answer l t)"
    using reply_received [OF assms(2-4)] fold by simp
  then have "attempt (dhcp_xid E) [?p] no_lease = Some l" by simp
  then have "obtainDHCP E =
    Some ([buildEthernetIPv4UDP mac (fst (pe_ids E)) (discover (dhcp_xid E) mac),
           buildEthernetIPv4UDP mac (snd (pe_ids E)) (dhcp_request (dhcp_xid E) mac y (case said_server os of Some s \<Rightarrow> s | None \<Rightarrow> r))],
      Leased y (mask_size (said_mask os)) r)"
    using assms(1,5-9) by (simp add: l obtainDHCP_def dhcp_exchange_def found_def Let_def)
  then show ?thesis using prefix_mask_size by simp
qed

text \<open>A refusal with a router in it is taken for an offer.\<close>

definition zero_fields :: reply_fields where
  "zero_fields = \<lparr> rf_ethernet = replicate 12 0, rf_ip8 = replicate 8 0, rf_ip10 = replicate 10 0, rf_sport = replicate 2 0,
     rf_udp4 = replicate 4 0, rf_boot4 = replicate 4 0, rf_boot8 = replicate 8 0, rf_boot216 = replicate 216 0 \<rparr>"

lemma zero_fields_sized: "well_sized zero_fields" by (simp add: well_sized_def zero_fields_def)

definition open_network :: "bytes list list \<Rightarrow> packet_env" where
  "open_network packets = \<lparr> pe_mac = Some [1, 2, 3, 4, 5, 6], pe_socket = True, pe_bind = True, pe_random = Some 7, pe_clock = 0,
     pe_ids = (8, 9), pe_packets = packets \<rparr>"

lemma lease_from_reply_witness:
  "\<exists>sent. obtainDHCP (open_network
     [[reply_frame zero_fields 7 [10, 0, 0, 5] (put_options [(53, [2]), (1, [255, 255, 0, 0]), (54, [10, 0, 0, 2]), (3, [10, 0, 0, 1])] @ 255 # [])]])
   = Some (sent, Leased [10, 0, 0, 5] (mask_size [255, 255, 0, 0]) [10, 0, 0, 1])"
proof -
  let ?os = "[(53, [2]), (1, [255, 255, 0, 0]), (54, [10, 0, 0, 2]), (3, [10, 0, 0, 1])] :: (byte \<times> bytes) list"
  have r: "said_router ?os = Some [10, 0, 0, 1]" "said_mask ?os = [255, 255, 0, 0]"
    by (simp_all add: said_router_def said_mask_def last_option_def)
  have w: "list_all writable_option ?os" by (simp add: writable_option_def)
  let ?E = "open_network [[reply_frame zero_fields 7 [10, 0, 0, 5] (put_options ?os @ 255 # [])]]"
  show ?thesis
    using lease_from_reply [OF _ zero_fields_sized _ w r(1), of "[1, 2, 3, 4, 5, 6]" "[10, 0, 0, 5]" ?E "[]" "[]"] r(2)
    by (simp add: open_network_def dhcp_xid_def)
qed

lemma refusal_taken_for_offer:
  assumes "6 \<le> length mac" "well_sized f" "length y = 4" "length r = 4"
  shows "\<exists>sent. dhcp_exchange mac xid id1 id2 ([reply_frame f xid y (put_options [(53, [6]), (3, r)] @ 255 # [])] # rest)
    = Some (sent, Leased y 24 r)"
proof -
  have s: "attempt xid [reply_frame f xid y (put_options [(53, [6]), (3, r)] @ 255 # [])] no_lease
      = Some (no_lease\<lparr> ls_offer := Some y, ls_router := Some r \<rparr>)"
    using reply_received [OF assms(2,3), of "[(53, [6]), (3, r)]" xid "[]" no_lease] assms(4)
    by (simp add: writable_option_def take_option_def)
  have "mask_size [255, 255, 255, 0] = 24" by code_simp
  then show ?thesis using s assms(1) by (simp add: dhcp_exchange_def found_def no_lease_def Let_def)
qed

section \<open>The packet filter\<close>

text \<open>
  The sealed output chain accepts exactly: packets to the loopback interface, established or related
  packets that are replies or come from TCP port 443, and UDP datagrams from port 68 to port 67;
  everything else is dropped.
\<close>

theorem sealed_egress_exact:
  "chain_verdict sealed_outbound p = Accept \<longleftrightarrow>
     pk_out p = ''lo'' \<or>
     pk_state p \<in> {CtEstablished, CtRelated} \<and> (pk_reply p \<or> pk_transport p = TCP \<and> pk_sport p = 443) \<or>
     pk_transport p = UDP \<and> pk_sport p = 68 \<and> pk_dport p = 67"
  by (auto simp: chain_verdict_def sealed_outbound_def)

text \<open>
  The input chain of the default configuration accepts exactly: loopback, established and related
  packets, and, unless invalid, ICMP, DHCP answers and TCP to port 443.
\<close>

theorem default_inbound_exact:
  "chain_verdict default_inbound p = Accept \<longleftrightarrow>
     pk_in p = ''lo'' \<or> pk_state p \<in> {CtEstablished, CtRelated} \<or>
     pk_state p \<noteq> CtInvalid \<and>
       (\<not> pk_v6 p \<and> pk_transport p = ICMP \<or> pk_v6 p \<and> pk_transport p = ICMPv6 \<or>
        pk_transport p = UDP \<and> pk_sport p = 67 \<and> pk_dport p = 68 \<or> pk_transport p = TCP \<and> pk_dport p = 443)"
  by (auto simp: chain_verdict_def default_inbound_def)

text \<open>What the sealed rules let a node originate off the loopback interface: a datagram to port 67 of any address, the metadata service's too.\<close>

lemma sealed_node_originates:
  "\<exists>p. pk_state p = CtNew \<and> \<not> pk_reply p \<and> pk_out p = ''eth0'' \<and> pk_daddr p = ''169.254.169.254'' \<and> chain_verdict sealed_outbound p = Accept"
  by (rule exI [of _ "\<lparr> pk_in = '''', pk_out = ''eth0'', pk_v6 = False, pk_daddr = ''169.254.169.254'', pk_transport = UDP,
      pk_sport = 68, pk_dport = 67, pk_state = CtNew, pk_reply = False \<rparr>"]) (simp add: sealed_egress_exact)

text \<open>The two rules that drop the metadata addresses decide nothing: without them every verdict is the same.\<close>

lemma metadata_rules_idle:
  "chain_verdict (sealed_outbound\<lparr> ch_rules := take 4 (ch_rules sealed_outbound) \<rparr>) p = chain_verdict sealed_outbound p"
  by (auto simp: chain_verdict_def sealed_outbound_def)

text \<open>What is relied on of nft: when it accepts the text of the replacement, the chain written there is in force.\<close>

definition nft_replaces :: "nft \<Rightarrow> nft_chain \<Rightarrow> bool" where
  "nft_replaces nft c \<longleftrightarrow> (\<forall>rs rs'. nft (replace_text c) rs = Inr rs' \<longrightarrow> rs' (ch_name c) = Some c)"

lemma run_nft_sealed:
  assumes "nft_replaces nft sealed_outbound" "run_nft nft (Some GenerateSealedNFTablesContent) M = (None, M')"
  shows "fm_rules M' ''outbound_filter'' = Some sealed_outbound"
proof -
  obtain rs where "nft (replace_text sealed_outbound) (fm_rules M) = Inr rs" "M' = M\<lparr> fm_rules := rs \<rparr>"
    using assms(2) by (auto simp: run_nft_def GenerateSealedNFTablesContent_def split: sum.splits)
  moreover from this have "rs (ch_name sealed_outbound) = Some sealed_outbound" using assms(1) unfolding nft_replaces_def by blast
  ultimately show ?thesis by (simp add: sealed_outbound_def)
qed

lemma run_nft_None: "run_nft nft i M = (Some e, M') \<Longrightarrow> M' = M"
  by (auto simp: run_nft_def split: option.splits sum.splits)

lemma sealed_policy_in_force:
  assumes "nft_replaces nft sealed_outbound" "fm_writable M configPath \<or> fm_files M configPath = None"
    and "ApplySealedEgressPolicyWithConfig nft configPath M = (None, M', effs)"
  shows "fm_rules M' ''outbound_filter'' = Some sealed_outbound \<and>
    (\<exists>before. effs = before @ [Conntrack, KillConnections])"
proof -
  let ?w = "if configPath \<noteq> '''' then write_file configPath GenerateSealedNFTablesContent M else M"
  have r: "fm_rules ?w = fm_rules M" by (simp add: write_file_def)
  show ?thesis
  proof (cases "run_nft nft (Some GenerateSealedNFTablesContent) ?w")
    case (Pair e M1)
    show ?thesis
    proof (cases e)
      case None
      then have "M' = M1" "\<exists>before. effs = before @ [Conntrack, KillConnections]"
        using assms(3) Pair by (auto simp: ApplySealedEgressPolicyWithConfig_def Let_def)
      then show ?thesis using run_nft_sealed [OF assms(1) Pair [unfolded None]] by simp
    next
      case (Some x)
      then have m: "M1 = ?w" using Pair run_nft_None by blast
      have c: "configPath \<noteq> ''''" using assms(3) Pair Some by (auto simp: ApplySealedEgressPolicyWithConfig_def Let_def)
      obtain M2 where f: "run_nft nft (fm_files ?w configPath) ?w = (None, M2)"
        and e2: "M' = M2" "\<exists>before. effs = before @ [Conntrack, KillConnections]"
        using assms(3) Pair Some c m by (auto simp: ApplySealedEgressPolicyWithConfig_def Let_def split: prod.splits option.splits)
      have "fm_files ?w configPath = Some GenerateSealedNFTablesContent"
      proof (rule ccontr)
        assume "fm_files ?w configPath \<noteq> Some GenerateSealedNFTablesContent"
        then have "fm_files ?w configPath = None" using assms(2) c by (auto simp: write_file_def split: if_splits)
        then show False using f by (simp add: run_nft_def)
      qed
      then show ?thesis using run_nft_sealed [OF assms(1)] f e2 by simp
    qed
  qed
qed

definition chain_parser :: nft where
  "chain_parser t rs = (if t = GenerateSealedNFTablesContent then Inr (rs(''outbound_filter'' \<mapsto> sealed_outbound)) else Inl ''syntax'')"

section \<open>Interfaces\<close>

lemma add_names_ok:
  "list_all isExternalInterface ns \<and> distinct ns \<Longrightarrow>
     list_all isExternalInterface (add_names es ns) \<and> distinct (add_names es ns) \<and>
     set (add_names es ns) = set ns \<union> {e \<in> set es. isExternalInterface e}"
proof (induction es arbitrary: ns)
  case (Cons e es)
  let ?ns = "if isExternalInterface e \<and> \<not> List.member ns e then ns @ [e] else ns"
  have "add_names (e # es) ns = add_names es ?ns" by (simp add: add_names_def)
  moreover have "list_all isExternalInterface ?ns \<and> distinct ?ns" "set ?ns = set ns \<union> {x. x = e \<and> isExternalInterface e}"
    using Cons.prems by auto
  ultimately show ?case using Cons.IH [of ?ns] by auto
qed (simp add: add_names_def)

text \<open>
  The candidate interfaces are, without repetition, the external ones among the names of the three
  sources.
\<close>

theorem interfaces_exact:
  "distinct (findNetworkInterfaces sys pci ifaces) \<and>
   set (findNetworkInterfaces sys pci ifaces) =
     {n. isExternalInterface n \<and> (n \<in> set (case sys of Some es \<Rightarrow> es | None \<Rightarrow> [])
        \<or> n \<in> path_base ` set (case pci of Some ps \<Rightarrow> ps | None \<Rightarrow> []) \<or> n \<in> set (case ifaces of Some ns \<Rightarrow> ns | None \<Rightarrow> []))}"
proof -
  define a where "a = (case sys of Some es \<Rightarrow> add_names es [] | None \<Rightarrow> [])"
  define b where "b = (case pci of Some ps \<Rightarrow> add_names (map path_base ps) a | None \<Rightarrow> a)"
  have a: "list_all isExternalInterface a \<and> distinct a \<and> set a = {e \<in> set (case sys of Some es \<Rightarrow> es | None \<Rightarrow> []). isExternalInterface e}"
    using add_names_ok [of "[]"] by (cases sys) (simp_all add: a_def)
  then have b: "list_all isExternalInterface b \<and> distinct b \<and>
      set b = set a \<union> {e \<in> path_base ` set (case pci of Some ps \<Rightarrow> ps | None \<Rightarrow> []). isExternalInterface e}"
    using add_names_ok [of a] by (cases pci) (simp_all add: b_def)
  have f: "findNetworkInterfaces sys pci ifaces = (case ifaces of Some ns \<Rightarrow> add_names ns b | None \<Rightarrow> b)"
    unfolding findNetworkInterfaces_def Let_def a_def b_def by (rule refl)
  show ?thesis using a b add_names_ok [of b] unfolding f by (cases ifaces) auto
qed

lemma evaluate_all_member: "evaluate_all E ns = (effs, Some p) \<Longrightarrow> pi_name p \<in> set ns"
proof (induction ns arbitrary: effs)
  case (Cons n ns)
  obtain x r where e: "evaluate_interface (E n) n = (x, r)" by fastforce
  have "r = Some q \<Longrightarrow> pi_name q = n" for q
    using e by (auto simp: evaluate_interface_def Let_def split: if_splits option.splits dhcp_result.splits bind_splits)
  then show ?case using Cons e by (cases r) (auto split: prod.splits)
qed simp

text \<open>
  The interface the node reports as configured is one of the candidates of a round it began before
  the deadline.
\<close>

theorem configured_interface_listed:
  "DiscoverAndConfigureNetwork rounds = (effs, Some p) \<Longrightarrow> \<exists>(names, E) \<in> set rounds. pi_name p \<in> set names"
proof (induction rounds arbitrary: effs)
  case (Cons r rounds)
  obtain names E where r: "r = (names, E)" by fastforce
  obtain x q where e: "evaluate_all E names = (x, q)" by fastforce
  show ?case
  proof (cases q)
    case None
    then show ?thesis using Cons r e by (fastforce split: prod.splits)
  next
    case (Some p')
    then show ?thesis using Cons.prems r e evaluate_all_member by fastforce
  qed
qed simp


text \<open>A file that could not be overwritten is loaded in the place of the policy.\<close>

lemma stale_file_loaded:
  "\<exists>nft M M' effs. nft_replaces nft sealed_outbound \<and> ApplySealedEgressPolicyWithConfig nft ''/run/c'' M = (None, M', effs) \<and>
     fm_rules M' ''outbound_filter'' = None"
proof -
  let ?nft = "\<lambda>t rs. if t = '''' then Inr rs else Inl ''error''"
  let ?M = "\<lparr> fm_files = (\<lambda>_. Some ''''), fm_writable = (\<lambda>_. False), fm_rules = (\<lambda>_. None) \<rparr>"
  have ne: "GenerateSealedNFTablesContent \<noteq> ''''" "replace_text sealed_outbound \<noteq> ''''"
    by (simp_all add: GenerateSealedNFTablesContent_def replace_text_def)
  have "nft_replaces ?nft sealed_outbound" using ne by (simp add: nft_replaces_def)
  moreover have "ApplySealedEgressPolicyWithConfig ?nft ''/run/c'' ?M =
      (None, ?M, [WriteConfig ''/run/c'' GenerateSealedNFTablesContent, Nft GenerateSealedNFTablesContent, Nft ''/run/c'', Conntrack, KillConnections])"
    using ne by (simp add: ApplySealedEgressPolicyWithConfig_def run_nft_def write_file_def Let_def)
  ultimately show ?thesis by (intro exI conjI) (assumption | simp)+
qed

section \<open>Samples\<close>

lemma checksum_is_ones_complement_witness: "ipChecksum [0x45, 0, 1] = word_of_nat (65535 - ones_sum (69 * 256 + 256))"
  using checksum_is_ones_complement [of "[0x45, 0, 1]"] by simp

lemma frame_valid_witness: "ipChecksum (take 20 (drop 14 (buildEthernetIPv4UDP [1, 2, 3, 4, 5, 6] 7 [8]))) = 0"
  using frame_valid [of "[1, 2, 3, 4, 5, 6]" 7 "[8]"] by (simp add: Let_def)

lemma configured_interface_listed_witness:
  "\<exists>effs p. DiscoverAndConfigureNetwork [([''lo0'', ''eth0''], \<lambda>_. \<lparr> ie_exists = True, ie_addrs = [V4 [10, 0, 0, 5]], ie_mac = [],
      ie_udhcpc = False, ie_resolv = True, ie_after = None, ie_dhcp = open_network [] \<rparr>)] = (effs, Some p) \<and> pi_name p \<in> {''lo0'', ''eth0''}"
proof -
  let ?r = "[([''lo0'', ''eth0''], \<lambda>_ :: string. \<lparr> ie_exists = True, ie_addrs = [V4 [10, 0, 0, 5]], ie_mac = [] :: bytes,
      ie_udhcpc = False, ie_resolv = True, ie_after = None, ie_dhcp = open_network [] \<rparr>)]"
  obtain effs p where e: "DiscoverAndConfigureNetwork ?r = (effs, Some p)"
    by (simp add: evaluate_interface_def ready_addr_def usable_def Let_def)
  with configured_interface_listed [OF e] show ?thesis by auto
qed

end
