(* ===== verification/SealedNode.thy ===== *)
theory SealedNode
  imports GatewayRuns NetworkSafety
begin

text \<open>
  The seal endpoint on top of the packet filter: what a node that became sealed lets out.
\<close>

text \<open>Without any condition on the file: the policy is in force, or an old file that could not be overwritten was loaded.\<close>

lemma sealed_policy_or_stale:
  assumes "nft_replaces nft sealed_outbound" "ApplySealedEgressPolicyWithConfig nft configPath M = (None, M', effs)"
  shows "fm_rules M' ''outbound_filter'' = Some sealed_outbound \<or>
    (\<not> fm_writable M configPath \<and> (\<exists>old. fm_files M configPath = Some old \<and> nft old (fm_rules M) = Inr (fm_rules M')))"
proof (cases "fm_writable M configPath \<or> fm_files M configPath = None")
  case True
  then show ?thesis using sealed_policy_in_force [OF assms(1) _ assms(2)] by blast
next
  case False
  then obtain old where old: "fm_files M configPath = Some old" "\<not> fm_writable M configPath" by auto
  then have w: "(if configPath \<noteq> '''' then write_file configPath c M else M) = M" for c by (simp add: write_file_def)
  obtain e M1 where run: "run_nft nft (Some GenerateSealedNFTablesContent) M = (e, M1)" by fastforce
  show ?thesis
  proof (cases e)
    case None
    then have "M' = M1" using assms(2) run None unfolding ApplySealedEgressPolicyWithConfig_def Let_def w by simp
    then show ?thesis using run_nft_sealed [OF assms(1)] run None by blast
  next
    case (Some x)
    then have "M1 = M" using run run_nft_None by blast
    then have "nft old (fm_rules M) = Inr (fm_rules M')"
      using assms(2) run Some old unfolding ApplySealedEgressPolicyWithConfig_def Let_def w
      by (auto simp: run_nft_def split: if_splits prod.splits option.splits sum.splits)
    then show ?thesis using old by blast
  qed
qed

text \<open>
  C22: When a seal request seals the node, with the policy applied the way the handler applies it, the kernel's
  output chain is the sealed one, unless the configuration file could not be written and an older file at its
  path was loaded in its place. The sealed chain lets through exactly the loopback interface, DHCP requests, and
  packets of established or related connections that are replies or come from TCP port 443; everything else
  that the node sends is dropped.
\<close>

theorem sealed_node_egress:
  assumes "nft_replaces nft sealed_outbound"
    and "ApplySealedEgressPolicy nft M = (w_egress_error W, M', applied)"
    and "seal_handler G W r w nd = (w', nd', effs)" "\<not> nd_sealed nd" "nd_sealed nd'"
  shows "(fm_rules M' ''outbound_filter'' = Some sealed_outbound \<or>
      \<not> fm_writable M ''/run/nftables-sealed.conf'' \<and>
      (\<exists>old. fm_files M ''/run/nftables-sealed.conf'' = Some old \<and> nft old (fm_rules M) = Inr (fm_rules M'))) \<and>
    (\<forall>p. chain_verdict sealed_outbound p =
      (if pk_out p = ''lo'' \<or> pk_transport p = UDP \<and> pk_sport p = 68 \<and> pk_dport p = 67 \<or>
          pk_state p \<in> {CtEstablished, CtRelated} \<and> (pk_reply p \<or> pk_transport p = TCP \<and> pk_sport p = 443)
       then Accept else DropIt))"
proof -
  obtain res nd1 where a: "header_first G W r nd = (res, nd1)" by fastforce
  have same: "nd_sealed nd1 = nd_sealed nd" using verifier_only_fields [OF header_first_op(1) [OF a]] by simp
  have "w_egress_error W = None"
    using assms(3-5) a same by (auto simp: seal_handler_def Let_def split: if_splits sum.splits option.splits)
  then have "fm_rules M' ''outbound_filter'' = Some sealed_outbound \<or>
      \<not> fm_writable M ''/run/nftables-sealed.conf'' \<and>
      (\<exists>old. fm_files M ''/run/nftables-sealed.conf'' = Some old \<and> nft old (fm_rules M) = Inr (fm_rules M'))"
    using sealed_policy_or_stale [OF assms(1)] assms(2) unfolding ApplySealedEgressPolicy_def by simp
  moreover have "chain_verdict sealed_outbound p =
      (if pk_out p = ''lo'' \<or> pk_transport p = UDP \<and> pk_sport p = 68 \<and> pk_dport p = 67 \<or>
          pk_state p \<in> {CtEstablished, CtRelated} \<and> (pk_reply p \<or> pk_transport p = TCP \<and> pk_sport p = 443)
       then Accept else DropIt)" for p
    by (auto simp: chain_verdict_def sealed_outbound_def)
  ultimately show ?thesis by blast
qed

theorem sealed_node_egress_witness:
  "\<exists>M'. snd (ApplySealedEgressPolicy chain_parser \<lparr> fm_files = (\<lambda>_. None), fm_writable = (\<lambda>_. True), fm_rules = (\<lambda>_. None) \<rparr>) = M' \<and>
     fm_rules (fst M') ''outbound_filter'' = Some sealed_outbound"
proof -
  let ?M = "\<lparr> fm_files = (\<lambda>_. None), fm_writable = (\<lambda>_. True), fm_rules = (\<lambda>_. None) \<rparr>"
  let ?r = "demo_request ''/v1/system/seal'' [1]" and ?W = "demo_world (10 * second)"
  have n: "nft_replaces chain_parser sealed_outbound"
    by (auto simp: nft_replaces_def chain_parser_def GenerateSealedNFTablesContent_def sealed_outbound_def split: if_splits)
  obtain M' applied where p: "ApplySealedEgressPolicy chain_parser ?M = (None, M', applied)"
    by (simp add: ApplySealedEgressPolicy_def ApplySealedEgressPolicyWithConfig_def run_nft_def chain_parser_def write_file_def Let_def)
  have z: "w_egress_error ?W = None" by (simp add: demo_world_def)
  obtain w nd where r: "route demo_gateway ?W ?r (demo_node False) = (w, nd, [SealEgress])" "nd_sealed nd" using demo_seals by blast
  have "endpoint_of (r_path ?r) = SealEP" by (simp add: demo_request_def endpoint_of_def)
  then have h: "seal_handler demo_gateway ?W ?r fresh_response (demo_node False) = (w, nd, [SealEgress])"
    using r(1) by (simp add: route_def handler_of_def)
  have "\<not> nd_sealed (demo_node False)" by (simp add: demo_node_def)
  from sealed_node_egress [OF n _ h this r(2), of ?M M' applied] p z show ?thesis by auto
qed

end
