(* ===== verification/StreamText.thy ===== *)
theory StreamText
  imports TranslatorSafety
begin

text \<open>
  What a client reads of a translated stream (Translator): an engine that thinks and speaks, chunk by chunk, with
  its thinking in a field of its own or between tags in the text, and the text and the thinking of the deltas.
\<close>

section \<open>Tags\<close>





section \<open>The thinking and the text of a tagged stream\<close>










section \<open>The stream\<close>






text \<open>
  An opening tag that does not start its chunk: the text before it is told as thinking.
\<close>

lemma text_before_tag_misplaced:
  "\<not> ast_inThinkTag ast \<Longrightarrow> split_think '''' ''a<think>b'' ast = (''ab'', '''', ast\<lparr> ast_inThinkTag := True \<rparr>)"
  by (simp add: split_think_def remove_first_def cut_at_def Contains_def HasPrefix_def think_open_def think_close_def Let_def)

text \<open>A tag that is cut between two chunks is told as text.\<close>

lemma cut_tag_is_text:
  assumes "\<not> ast_inThinkTag ast"
  shows "split_think '''' ''<thi'' ast = ('''', ''<thi'', ast)" "split_think '''' ''nk>b'' ast = ('''', ''nk>b'', ast)"
  using assms
  by (simp_all add: split_think_def remove_first_def cut_at_def Contains_def HasPrefix_def think_open_def think_close_def Let_def)

section \<open>A sample\<close>





end
