(* ===== verification/GoFloat.thy ===== *)
theory GoFloat
  imports GoPrelude "HOL-Library.Log_Nat"
begin

text \<open>
  The float64 arithmetic that the sizing of contexts uses: products and conversions of finite values,
  rounded to nearest with ties to even, as integers times powers of two. The exponent is not bounded,
  since the values stay far from the limits of the format.
\<close>


text \<open>A finite float64: an integer times a power of two.\<close>

datatype f64 = F64 (f_man: int) (f_exp: int)

definition f_precision :: nat where "f_precision = 53"

text \<open>Round to nearest, ties to even, to a mantissa of 53 bits.\<close>

definition round_half_even :: "nat \<Rightarrow> nat \<Rightarrow> nat" where
  "round_half_even n k =
     (if k = 0 then n
      else (let q = n div 2 ^ k; r = n mod 2 ^ k; h = 2 ^ (k - 1)
            in if h < r \<or> r = h \<and> odd q then q + 1 else q))"

definition f_round :: "int \<Rightarrow> int \<Rightarrow> f64" where
  "f_round m e =
     (let n = nat \<bar>m\<bar>; k = floorlog 2 n - f_precision in F64 (sgn m * int (round_half_even n k)) (e + int k))"

definition f_mul :: "f64 \<Rightarrow> f64 \<Rightarrow> f64" where
  "f_mul x y = f_round (f_man x * f_man y) (f_exp x + f_exp y)"

definition f_of_int :: "int \<Rightarrow> f64" where "f_of_int n = f_round n 0"

text \<open>The conversion to an integer cuts the fraction off.\<close>

definition f_trunc :: "f64 \<Rightarrow> int" where
  "f_trunc x =
     (if 0 \<le> f_exp x then f_man x * 2 ^ nat (f_exp x)
      else sgn (f_man x) * (\<bar>f_man x\<bar> div 2 ^ nat (- f_exp x)))"

definition f_le :: "f64 \<Rightarrow> f64 \<Rightarrow> bool" where
  "f_le x y =
     (let g = min (f_exp x) (f_exp y)
      in f_man x * 2 ^ nat (f_exp x - g) \<le> f_man y * 2 ^ nat (f_exp y - g))"

definition f_less :: "f64 \<Rightarrow> f64 \<Rightarrow> bool" where "f_less x y \<longleftrightarrow> \<not> f_le y x"

definition f_zero :: f64 where "f_zero = F64 0 0"

text \<open>The decimal constants of the source, as the compiler rounds them.\<close>

definition c0_55 :: f64 where "c0_55 = F64 4953959590107546 (- 53)"
definition c0_70 :: f64 where "c0_70 = F64 6305039478318694 (- 53)"
definition c0_90 :: f64 where "c0_90 = F64 8106479329266893 (- 53)"
definition c0_92 :: f64 where "c0_92 = F64 8286623314361713 (- 53)"
definition c1_05 :: f64 where "c1_05 = F64 4728779608739021 (- 52)"
definition c8_9 :: f64 where "c8_9 = F64 5010254585449677 (- 49)"
definition c14_7 :: f64 where "c14_7 = F64 8275364315293286 (- 49)"

text \<open>A product of a constant that has at most 53 bits is within half a unit of the decimal it stands for.\<close>

definition nearest_decimal :: "f64 \<Rightarrow> int \<Rightarrow> int \<Rightarrow> bool" where
  "nearest_decimal x n d \<longleftrightarrow> f_exp x < 0 \<and> 2 ^ 52 \<le> f_man x \<and> f_man x < 2 ^ 53
     \<and> 2 * \<bar>f_man x * d - n * 2 ^ nat (- f_exp x)\<bar> \<le> d"

lemma constants_nearest:
  "nearest_decimal c0_55 55 100" "nearest_decimal c0_70 70 100" "nearest_decimal c0_90 90 100" "nearest_decimal c0_92 92 100"
  "nearest_decimal c1_05 105 100" "nearest_decimal c8_9 89 10" "nearest_decimal c14_7 147 10"
  by (simp_all add: nearest_decimal_def c0_55_def c0_70_def c0_90_def c0_92_def c1_05_def c8_9_def c14_7_def)

lemma round_half_even_le:
  assumes "n \<le> N * 2 ^ k"
  shows "round_half_even n k \<le> N"
proof (cases "n = N * 2 ^ k")
  case True then show ?thesis by (simp add: round_half_even_def Let_def)
next
  case False
  then have "n div 2 ^ k < N" using assms by (simp add: less_mult_imp_div_less)
  then show ?thesis by (auto simp: round_half_even_def Let_def)
qed

lemma floorlog_small: "n < 2 ^ p \<Longrightarrow> floorlog 2 n \<le> p"
  by (rule floorlog_leI) auto

lemma f_of_int_exact: "0 \<le> n \<Longrightarrow> n < 2 ^ 53 \<Longrightarrow> f_of_int n = F64 n 0"
proof -
  assume "0 \<le> n" "n < 2 ^ 53"
  moreover from this have "nat n < 2 ^ 53" by simp
  then have "floorlog 2 (nat n) \<le> 53" by (rule floorlog_small)
  ultimately show ?thesis by (simp add: f_of_int_def f_round_def f_precision_def round_half_even_def sgn_if)
qed

text \<open>A product with a constant up to one, cut off, is at most the factor.\<close>

lemma scaled_le:
  assumes "0 \<le> n" "n < 2 ^ 53" "0 \<le> c" "c \<le> 2 ^ 53"
  shows "0 \<le> f_trunc (f_mul (f_of_int n) (F64 c (- 53)))" "f_trunc (f_mul (f_of_int n) (F64 c (- 53))) \<le> n"
proof -
  define k where "k = floorlog 2 (nat (n * c)) - 53"
  define q where "q = round_half_even (nat (n * c)) k"
  have nc: "n * c \<ge> 0" using assms by simp
  have le: "nat (n * c) \<le> nat n * 2 ^ 53"
    using assms mult_left_mono [of c "2 ^ 53" n] by (simp add: nat_le_iff)
  have "nat n * 2 ^ 53 < 2 ^ 106"
    using assms by (simp add: nat_less_iff)
  then have "k \<le> 53" using floorlog_small [of "nat (n * c)" 106] le by (simp add: k_def)
  then have eq: "nat n * 2 ^ 53 = (nat n * 2 ^ (53 - k)) * 2 ^ k" by (simp add: power_add [symmetric])
  have q: "q \<le> nat n * 2 ^ (53 - k)" using le unfolding q_def eq by (rule round_half_even_le)
  have f: "f_mul (f_of_int n) (F64 c (- 53)) = F64 (sgn (n * c) * int q) (int k - 53)"
    using assms nc by (simp add: f_of_int_exact f_mul_def f_round_def f_precision_def Let_def k_def q_def)
  have t: "f_trunc (F64 (sgn (n * c) * int q) (int k - 53)) = (if n * c = 0 then 0 else int q div 2 ^ (53 - k))"
  proof (cases "k = 53")
    case True then show ?thesis using nc by (simp add: f_trunc_def sgn_if)
  next
    case False
    have "nat (53 - int k) = 53 - k" by simp
    then show ?thesis using False \<open>k \<le> 53\<close> nc by (auto simp: f_trunc_def sgn_if)
  qed
  have "int q \<le> int (nat n * 2 ^ (53 - k))" using q by (rule of_nat_mono)
  then have "int q div 2 ^ (53 - k) \<le> int (nat n * 2 ^ (53 - k)) div 2 ^ (53 - k)" by (rule zdiv_mono1) simp
  then have "int q div 2 ^ (53 - k) \<le> n" using assms(1) by simp
  then show "0 \<le> f_trunc (f_mul (f_of_int n) (F64 c (- 53)))" "f_trunc (f_mul (f_of_int n) (F64 c (- 53))) \<le> n"
    unfolding f t using assms(1) by (simp_all add: pos_imp_zdiv_nonneg_iff)
qed

text \<open>Evaluation of the length of a numeral in bits, and with it of the arithmetic.\<close>

lemma floorlog_eval:
  "floorlog 2 0 = 0" "floorlog 2 (Suc 0) = 1" "floorlog 2 1 = 1" "floorlog 2 (numeral n) = Suc (floorlog 2 (numeral n div 2))"
  by (simp add: floorlog_def) (subst compute_floorlog, simp add: floorlog_def)+

lemmas float_eval = f_mul_def f_of_int_def f_round_def floorlog_eval f_trunc_def f_precision_def Let_def round_half_even_def
  f_le_def f_less_def f_zero_def c0_55_def c0_70_def c0_90_def c0_92_def c1_05_def c8_9_def c14_7_def

end
