(* ===== verification/Topology.thy ===== *)
theory Topology
  imports Attestation GoFloat
begin

text \<open>
  Discovery of the hardware (pkg/hardware/topology.go). The guest is a machine as for the attestation: its
  files and directories. The two queries of nvidia-smi are parameters by their output, and so is the
  reading of a decimal as a float64.
\<close>

record topology =
  tp_cpu_cores :: int
  tp_ram_mb :: int
  tp_avx512 :: bool
  tp_avx2 :: bool
  tp_has_gpu :: bool
  tp_gpu_count :: int
  tp_devices :: "string list"
  tp_control :: "string list"
  tp_operational :: bool
  tp_model :: string
  tp_arch :: string
  tp_cc :: f64
  tp_turing :: bool
  tp_hopper :: bool
  tp_blackwell :: bool
  tp_ada :: bool
  tp_ampere :: bool
  tp_vram_total :: int
  tp_vram_per :: int
  tp_recommended :: string

text \<open>What the discovery reads besides the files: the processors, the target, and the answers of nvidia-smi.\<close>

record probe_env =
  pe_cpus :: int
  pe_gpu_locked :: bool
  pe_smi :: "string option"
  pe_smi_memory :: "string option"
  pe_parse_float :: "string \<Rightarrow> f64 option"

section \<open>Reading files\<close>

text \<open>bufio.Scanner over lines: a line that does not fit the buffer of 64 KiB ends the scan.\<close>

definition drop_cr :: "string \<Rightarrow> string" where
  "drop_cr l = (if l \<noteq> [] \<and> last l = CHR 0x0D then butlast l else l)"

definition file_lines :: "string \<Rightarrow> string list" where
  "file_lines s =
     (let ls = split_on (CHR 0x0A) s;
          ls = (if last ls = [] then butlast ls else ls)
      in map drop_cr (takeWhile (\<lambda>l. length l < 64 * 1024) ls))"

definition ram_of :: "string \<Rightarrow> int" where
  "ram_of content =
     (case find (\<lambda>l. HasPrefix l ''MemTotal:'') (file_lines content) of
        None \<Rightarrow> 0
      | Some line \<Rightarrow>
          (case Fields line of
             _ # f # _ \<Rightarrow> (case ParseInt64 f of Some kb \<Rightarrow> sgn kb * (\<bar>kb\<bar> div 1024) | None \<Rightarrow> 0)
           | _ \<Rightarrow> 0))"

definition cpu_flags :: "string \<Rightarrow> string list" where
  "cpu_flags content =
     (case find (\<lambda>l. HasPrefix l ''flags'') (file_lines content) of None \<Rightarrow> [] | Some line \<Rightarrow> Fields line)"

section \<open>Accelerators\<close>

text \<open>The families by device number: name of the family, compute capability, model.\<close>

datatype gpu_family = Blackwell | Hopper | Ada | Ampere | Turing

definition family_name :: "gpu_family \<Rightarrow> string" where
  "family_name f = (case f of Blackwell \<Rightarrow> ''Blackwell'' | Hopper \<Rightarrow> ''Hopper'' | Ada \<Rightarrow> ''Ada'' | Ampere \<Rightarrow> ''Ampere'' | Turing \<Rightarrow> ''Turing'')"

definition family_cc :: "gpu_family \<Rightarrow> f64" where
  "family_cc f =
     (case f of Blackwell \<Rightarrow> F64 10 0 | Hopper \<Rightarrow> F64 9 0 | Ada \<Rightarrow> c8_9 | Ampere \<Rightarrow> F64 8 0 | Turing \<Rightarrow> F64 15 (- 1))"

definition family_model :: "gpu_family \<Rightarrow> string" where
  "family_model f =
     (case f of Blackwell \<Rightarrow> ''NVIDIA Blackwell B200/B100'' | Hopper \<Rightarrow> ''NVIDIA H100 80GB HBM3'' | Ada \<Rightarrow> ''NVIDIA L4''
      | Ampere \<Rightarrow> ''NVIDIA A100'' | Turing \<Rightarrow> ''Tesla T4'')"

definition mark_family :: "gpu_family \<Rightarrow> topology \<Rightarrow> topology" where
  "mark_family f t =
     (case f of Blackwell \<Rightarrow> t\<lparr> tp_blackwell := True \<rparr> | Hopper \<Rightarrow> t\<lparr> tp_hopper := True \<rparr> | Ada \<Rightarrow> t\<lparr> tp_ada := True \<rparr>
      | Ampere \<Rightarrow> t\<lparr> tp_ampere := True \<rparr> | Turing \<Rightarrow> t\<lparr> tp_turing := True \<rparr>)\<lparr> tp_arch := family_name f \<rparr>"

definition device_family :: "string \<Rightarrow> gpu_family option" where
  "device_family devID =
     (if contains_any devID [''0x2900'', ''0x2901'', ''0x2902'', ''0x2903'', ''0x2940'', ''0x2941'', ''0x2980''] then Some Blackwell
      else if contains_any devID [''0x2330'', ''0x2331'', ''0x2322'', ''0x2324''] then Some Hopper
      else if contains_any devID [''0x27b8'', ''0x2782'', ''0x2684'', ''0x2704''] then Some Ada
      else if contains_any devID [''0x20b0'', ''0x20b2'', ''0x20f1'', ''0x2235''] then Some Ampere
      else if contains_any devID [''0x1eb8'', ''0x1eb0'', ''0x1eb1'', ''0x1e30'', ''0x1e04'', ''0x2182'', ''0x2184''] then Some Turing
      else None)"

definition add_new :: "string \<Rightarrow> string list \<Rightarrow> string list" where
  "add_new x xs = (if List.member xs x then xs else xs @ [x])"

text \<open>One vendor file of the PCI bus: an accelerator is counted, and its family noted where it is known.\<close>

definition pci_step :: "machine \<Rightarrow> string \<Rightarrow> string list \<times> topology \<Rightarrow> string list \<times> topology" where
  "pci_step M vFile = (\<lambda>(gpus, t).
     case read_text M vFile of
       None \<Rightarrow> (gpus, t)
     | Some text \<Rightarrow>
         (let vStr = TrimSpace text in
          if \<not> (EqualFold vStr ''0x10de'' \<or> EqualFold vStr ''0x1002'') then (gpus, t)
          else
            (let devDir = path_dir vFile; gpus = add_new (path_base devDir) gpus
             in case Option.bind (read_text M (devDir @ ''/device'')) (\<lambda>d. device_family (ToLower (TrimSpace d))) of
                  None \<Rightarrow> (gpus, t)
                | Some f \<Rightarrow>
                    (let t = (mark_family f t)\<lparr> tp_cc := family_cc f \<rparr>
                     in (gpus, if tp_model t = '''' then t\<lparr> tp_model := family_model f \<rparr> else t)))))"

definition driver_model :: "machine \<Rightarrow> topology \<Rightarrow> topology" where
  "driver_model M t =
     fold (\<lambda>line t. if HasPrefix line ''Model:'' \<and> tp_model t = '''' then t\<lparr> tp_model := TrimSpace (TrimPrefix line ''Model:'') \<rparr> else t)
       (concat (map (\<lambda>f. case read_text M f of Some text \<Rightarrow> split_on (CHR 0x0A) text | None \<Rightarrow> [])
          (m_glob M ''/proc/driver/nvidia/gpus/*/information''))) t"

text \<open>The first line of the query: capability, name, memory.\<close>

definition smi_step :: "probe_env \<Rightarrow> topology \<Rightarrow> topology" where
  "smi_step E t =
     (case pe_smi E of
        None \<Rightarrow> t
      | Some out \<Rightarrow>
          (let fields = split_on (CHR '','') (hd (split_on (CHR 0x0A) (TrimSpace out)));
               t = (case pe_parse_float E (TrimSpace (hd fields)) of
                      Some cc \<Rightarrow> if f_less f_zero cc then t\<lparr> tp_cc := cc \<rparr> else t
                    | None \<Rightarrow> t);
               t = (if 2 \<le> length fields \<and> tp_model t = '''' then t\<lparr> tp_model := TrimSpace (fields ! 1) \<rparr> else t)
           in if 3 \<le> length fields \<and> tp_vram_per t = 0 then
                (case ParseInt64 (TrimSpace (fields ! 2)) of
                   Some mb \<Rightarrow> if 0 < mb then t\<lparr> tp_vram_per := mb \<rparr> else t
                 | None \<Rightarrow> t)
              else t))"

definition cc_between :: "f64 \<Rightarrow> f64 \<Rightarrow> topology \<Rightarrow> bool" where
  "cc_between a b t \<longleftrightarrow> f_le a (tp_cc t) \<and> f_less (tp_cc t) b"

text \<open>The family by compute capability or by name.\<close>

definition family_of :: "topology \<Rightarrow> gpu_family option" where
  "family_of t =
     (let upper = ToUpper (tp_model t) in
      if f_le (F64 10 0) (tp_cc t) \<or> contains_any upper [''B100'', ''B200'', ''GB200'', ''BLACKWELL'', ''RTX PRO 6000'', ''B40''] then Some Blackwell
      else if cc_between (F64 9 0) (F64 10 0) t \<or> contains_any upper [''H100'', ''H200'', ''HOPPER'', ''GH200''] then Some Hopper
      else if cc_between c8_9 (F64 9 0) t \<or> contains_any upper [''L4'', ''L40'', ''RTX 40'', ''ADA'', ''AD102'', ''AD104''] then Some Ada
      else if cc_between (F64 8 0) c8_9 t
           \<or> contains_any upper [''A100'', ''A10'', ''A30'', ''A40'', ''RTX 30'', ''AMPERE'', ''GA100'', ''GA102''] then Some Ampere
      else if cc_between (F64 15 (- 1)) (F64 8 0) t
           \<or> contains_any upper [''T4'', ''TURING'', ''TU104'', ''TU102'', ''RTX 20'', ''GTX 16''] then Some Turing
      else None)"

definition f_is_zero :: "f64 \<Rightarrow> bool" where "f_is_zero x \<longleftrightarrow> f_man x = 0"

definition classifyArchitecture :: "topology \<Rightarrow> topology" where
  "classifyArchitecture t =
     (case family_of t of
        None \<Rightarrow> t
      | Some f \<Rightarrow>
          (let t = mark_family f t in if f_is_zero (tp_cc t) then t\<lparr> tp_cc := family_cc f \<rparr> else t))"

section \<open>Device nodes and memory\<close>

definition physical_devices :: "machine \<Rightarrow> string list" where
  "physical_devices M =
     (let nv = fold (\<lambda>m ds. if ParseInt64 (TrimPrefix (path_base m) ''nvidia'') \<noteq> None then add_new m ds else ds)
                 (m_glob M ''/dev/nvidia[0-9]*'') [];
          drm = fold add_new (m_glob M ''/dev/dri/renderD[0-9]*'') nv
      in fold add_new (m_glob M ''/dev/accel/accel[0-9]*'') drm)"

definition control_devices :: "machine \<Rightarrow> string list" where
  "control_devices M = filter (m_exists M) [''/dev/nvidiactl'', ''/dev/nvidia-uvm'', ''/dev/nvidia-modeset'', ''/dev/kfd'']"

definition heuristicVRAMPerGPU :: "string \<Rightarrow> int" where
  "heuristicVRAMPerGPU modelName =
     (let upper = ToUpper modelName in
      if contains_any upper [''B200'', ''GB200''] then 184320
      else if contains_any upper [''B100''] then 147456
      else if contains_any upper [''RTX PRO 6000'', ''RTX 6000'', ''B40''] then 49152
      else if contains_any upper [''H100'', ''H200''] then 81920
      else if contains_any upper [''A100''] then 81920
      else if contains_any upper [''L40''] then 49152
      else if contains_any upper [''L4''] then 24576
      else if contains_any upper [''T4''] then 16160
      else if contains_any upper [''V100''] then 16384
      else 16384)"

definition discoverVRAMPerGPU :: "probe_env \<Rightarrow> string \<Rightarrow> int" where
  "discoverVRAMPerGPU E modelName =
     (case Option.bind (pe_smi_memory E) (\<lambda>out. ParseInt64 (TrimSpace (hd (split_on (CHR 0x0A) (TrimSpace out))))) of
        Some mb \<Rightarrow> if 0 < mb then mb else heuristicVRAMPerGPU modelName
      | None \<Rightarrow> heuristicVRAMPerGPU modelName)"

text \<open>The count, the devices and the memory, from the PCI bus or else from the device nodes.\<close>

definition count_devices :: "probe_env \<Rightarrow> string list \<Rightarrow> string list \<Rightarrow> topology \<Rightarrow> topology" where
  "count_devices E pciGpus physical t =
     (let devs = (if pciGpus \<noteq> [] then pciGpus else physical) in
      if devs = [] then t
      else
        (let per = (if tp_vram_per t \<le> 0 then discoverVRAMPerGPU E (tp_model t) else tp_vram_per t)
         in t\<lparr> tp_devices := devs, tp_gpu_count := int (length devs), tp_has_gpu := True,
               tp_recommended := (if pe_gpu_locked E then ''vllm'' else ''llama.cpp''), tp_operational := True,
               tp_vram_per := per, tp_vram_total := wrap64 (per * int (length devs)) \<rparr>))"

definition blank_topology :: "probe_env \<Rightarrow> topology" where
  "blank_topology E =
     \<lparr> tp_cpu_cores = pe_cpus E, tp_ram_mb = 0, tp_avx512 = False, tp_avx2 = False, tp_has_gpu = False, tp_gpu_count = 0,
       tp_devices = [], tp_control = [], tp_operational = False, tp_model = '''', tp_arch = '''', tp_cc = f_zero,
       tp_turing = False, tp_hopper = False, tp_blackwell = False, tp_ada = False, tp_ampere = False,
       tp_vram_total = 0, tp_vram_per = 0, tp_recommended = (if pe_gpu_locked E then ''gpu-required'' else ''llama.cpp'') \<rparr>"

text \<open>Memory and vector instructions.\<close>

definition host_topology :: "machine \<Rightarrow> probe_env \<Rightarrow> topology" where
  "host_topology M E =
     (let flags = (case read_text M ''/proc/cpuinfo'' of Some c \<Rightarrow> cpu_flags c | None \<Rightarrow> [])
      in (blank_topology E)\<lparr> tp_ram_mb := (case read_text M ''/proc/meminfo'' of Some c \<Rightarrow> ram_of c | None \<Rightarrow> 0),
            tp_avx512 := list_ex (\<lambda>f. f = ''avx512f'' \<or> f = ''avx512_vnni'') flags, tp_avx2 := List.member flags ''avx2'' \<rparr>)"

definition DiscoverTopology :: "machine \<Rightarrow> probe_env \<Rightarrow> topology" where
  "DiscoverTopology M E =
     (let (pciGpus, t) = fold (pci_step M) (m_glob M ''/sys/bus/pci/devices/*/vendor'') ([], host_topology M E);
          t = classifyArchitecture (smi_step E (driver_model M t))
      in count_devices E pciGpus (physical_devices M) (t\<lparr> tp_control := control_devices M \<rparr>))"

end
