(* ===== verification/ContextSizing.thy ===== *)
theory ContextSizing
  imports Topology
begin

text \<open>
  The sizing of the context window (pkg/inference/context\_sizing.go): the architecture of a model from its
  configuration or its name, the largest context the hardware holds, and the decision whether to clamp.
  Integers wrap at 64 bits and a division by zero is a panic of its own. The answer of the model hub is a
  parameter.
\<close>

record arch_meta =
  am_model_id :: string
  am_layers :: int
  am_kv_heads :: int
  am_head_dim :: int
  am_native_max :: int
  am_params :: f64
  am_bytes :: f64
  am_quantized :: bool

record hf_config =
  hf_hidden_size :: int
  hf_layers :: int
  hf_heads :: int
  hf_kv_heads :: int
  hf_max_position :: int
  hf_seq_length :: int
  hf_quantization :: nat

section \<open>Paths\<close>

text \<open>path/filepath: Clean on a rooted or relative path, and Join.\<close>

definition clean_part :: "bool \<Rightarrow> string list \<Rightarrow> string \<Rightarrow> string list" where
  "clean_part rooted st part =
     (if part = '''' \<or> part = ''.'' then st
      else if part = ''..'' then
        (if st \<noteq> [] \<and> last st \<noteq> ''..'' then butlast st else if rooted then st else st @ [part])
      else st @ [part])"

definition Clean :: "string \<Rightarrow> string" where
  "Clean p =
     (let rooted = HasPrefix p ''/''; parts = foldl (clean_part rooted) [] (path_parts p);
          body = Join parts ''/''
      in if rooted then ''/'' @ body else if body = '''' then ''.'' else body)"

definition path_join :: "string list \<Rightarrow> string" where
  "path_join elems = (let es = dropWhile (\<lambda>e. e = '''') elems in if es = [] then '''' else Clean (Join es ''/''))"

definition IsAbs :: "string \<Rightarrow> bool" where "IsAbs p \<longleftrightarrow> HasPrefix p ''/''"

section \<open>The architecture of a model\<close>

definition read_hf_config :: "bytes \<Rightarrow> hf_config option" where
  "read_hf_config b =
     (case Option.bind (json_decode b) as_members of
        None \<Rightarrow> None
      | Some ms \<Rightarrow>
          (let (hidden, ok1) = get_field as_int 0 ''hidden_size'' ms;
               (layers, ok2) = get_field as_int 0 ''num_hidden_layers'' ms;
               (heads, ok3) = get_field as_int 0 ''num_attention_heads'' ms;
               (kv, ok4) = get_field as_int 0 ''num_key_value_heads'' ms;
               (maxpos, ok5) = get_field as_int 0 ''max_position_embeddings'' ms;
               (seq, ok6) = get_field as_int 0 ''seq_length'' ms;
               (sliding, ok7) = get_field as_int 0 ''sliding_window'' ms;
               (dtype, ok8) = get_field as_string '''' ''torch_dtype'' ms;
               (quant, ok9) = get_field as_members [] ''quantization_config'' ms;
               (rope, ok10) = get_field as_members [] ''rope_scaling'' ms
           in if ok1 \<and> ok2 \<and> ok3 \<and> ok4 \<and> ok5 \<and> ok6 \<and> ok7 \<and> ok8 \<and> ok9 \<and> ok10
              then Some \<lparr> hf_hidden_size = hidden, hf_layers = layers, hf_heads = heads, hf_kv_heads = kv,
                     hf_max_position = maxpos, hf_seq_length = seq, hf_quantization = length quant \<rparr>
              else None))"

definition applyHFConfigToMeta :: "hf_config \<Rightarrow> arch_meta \<Rightarrow> arch_meta" where
  "applyHFConfigToMeta cfg m =
     (let m = (if 0 < hf_layers cfg then m\<lparr> am_layers := hf_layers cfg \<rparr> else m);
          m = (if 0 < hf_heads cfg \<and> 0 < hf_hidden_size cfg \<and> 0 < hf_hidden_size cfg div hf_heads cfg
               then m\<lparr> am_head_dim := hf_hidden_size cfg div hf_heads cfg \<rparr> else m);
          m = (if 0 < hf_kv_heads cfg then m\<lparr> am_kv_heads := hf_kv_heads cfg \<rparr>
               else if 0 < hf_heads cfg then m\<lparr> am_kv_heads := hf_heads cfg \<rparr> else m);
          m = (if 0 < hf_max_position cfg then m\<lparr> am_native_max := hf_max_position cfg \<rparr>
               else if 0 < hf_seq_length cfg then m\<lparr> am_native_max := hf_seq_length cfg \<rparr> else m)
      in if 0 < hf_quantization cfg then m\<lparr> am_quantized := True, am_bytes := c0_55 \<rparr> else m)"

text \<open>The request to the model hub: the address and the headers give a status and a body, or nothing.\<close>

type_synonym hub = "string \<Rightarrow> (string \<times> string) list \<Rightarrow> (int \<times> bytes) option"

definition before_colon :: "string \<Rightarrow> string" where
  "before_colon s = (case cut_at s '':'' of Some (a, _) \<Rightarrow> a | None \<Rightarrow> s)"

definition fetchRemoteHFConfig :: "hub \<Rightarrow> string \<Rightarrow> string \<Rightarrow> hf_config option" where
  "fetchRemoteHFConfig hub repoID token =
     (let url = ''https://huggingface.co/'' @ before_colon repoID @ ''/raw/main/config.json'';
          hs = (if token = '''' then [] else [(''Authorization'', ''Bearer '' @ token)]) @ [(''User-Agent'', ''cevell-cvm-node/1.0'')]
      in case hub url hs of
           Some (st, body) \<Rightarrow> if st = 200 then read_hf_config (take (512 * 1024) body) else None
         | None \<Rightarrow> None)"

definition default_meta :: "string \<Rightarrow> arch_meta" where
  "default_meta name =
     \<lparr> am_model_id = name, am_layers = 32, am_kv_heads = 8, am_head_dim = 128, am_native_max = 4096,
       am_params = F64 7 0, am_bytes = F64 2 0, am_quantized = False \<rparr>"

definition config_candidates :: "machine \<Rightarrow> string \<Rightarrow> string list" where
  "config_candidates M name =
     (let clean = before_colon name;
          snapshots = m_glob M (path_join [''/mnt/ramdisk/cache'',
             ''models--'' @ concat (map (\<lambda>c. if c = CHR ''/'' then ''--'' else [c]) clean), ''snapshots'', ''*'', ''config.json''])
      in [name, clean, path_join [name, ''config.json''], path_join [clean, ''config.json''],
          path_join [''/opt/models'', name, ''config.json''], path_join [''/opt/models'', clean, ''config.json''],
          path_join [''/mnt/ramdisk/models'', name, ''config.json''], path_join [''/mnt/ramdisk/models'', clean, ''config.json'']]
         @ take 1 snapshots)"

definition local_config :: "machine \<Rightarrow> string \<Rightarrow> hf_config option" where
  "local_config M name =
     (case List.map_filter (\<lambda>c. Option.bind (m_read M c) read_hf_config) (config_candidates M name) of
        [] \<Rightarrow> None
      | cfg # _ \<Rightarrow> Some cfg)"

definition name_precision :: "string \<Rightarrow> f64 option" where
  "name_precision lower =
     (if contains_any lower [''awq'', ''gptq'', ''int4'', ''q4''] then Some c0_55
      else if contains_any lower [''int8'', ''q8''] then Some c1_05 else None)"

text \<open>Parameters in billions, layers, heads of the cache and their dimension, by the size in the name.\<close>

definition name_size :: "string \<Rightarrow> (f64 \<times> int \<times> int \<times> int) option" where
  "name_size lower =
     (if contains_any lower [''0.5b''] then Some (F64 1 (- 1), 24, 2, 64)
      else if contains_any lower [''1.5b'', ''1b''] then Some (F64 3 (- 1), 28, 2, 128)
      else if contains_any lower [''3b''] then Some (F64 3 0, 36, 2, 128)
      else if contains_any lower [''7b'', ''8b''] then Some (F64 15 (- 1), 32, 8, 128)
      else if contains_any lower [''14b''] then Some (c14_7, 48, 8, 128)
      else if contains_any lower [''27b'', ''32b''] then Some (F64 32 0, 64, 8, 128)
      else if contains_any lower [''70b'', ''72b''] then Some (F64 72 0, 80, 8, 128)
      else None)"

definition name_native :: "string \<Rightarrow> int option" where
  "name_native lower =
     (if contains_any lower [''-1m'', ''1m-'', '':1m''] then Some 1048576
      else if contains_any lower [''-512k'', ''512k-'', '':512k''] then Some 524288
      else if contains_any lower [''-256k'', ''256k-'', '':256k''] then Some 262144
      else if contains_any lower [''-128k'', ''128k-'', '':128k''] then Some 131072
      else if contains_any lower [''-64k'', ''64k-'', '':64k''] then Some 65536
      else if contains_any lower [''qwen2.5'', ''qwen2'', ''qwen3''] then Some 32768
      else if contains_any lower [''llama-3.1'', ''llama-3.2'', ''llama3.1'', ''llama3.2''] then Some 131072
      else if contains_any lower [''llama-3'', ''llama3''] then Some 8192
      else if contains_any lower [''mistral'', ''mixtral''] then Some 32768
      else if contains_any lower [''phi-3''] then Some 131072
      else if contains_any lower [''gemma-2''] then Some 8192
      else None)"

definition apply_name :: "string \<Rightarrow> arch_meta \<Rightarrow> arch_meta" where
  "apply_name lower m =
     (let m = (case name_precision lower of Some b \<Rightarrow> m\<lparr> am_quantized := True, am_bytes := b \<rparr> | None \<Rightarrow> m);
          m = (case name_size lower of
                 Some (p, l, h, d) \<Rightarrow> m\<lparr> am_params := p, am_layers := l, am_kv_heads := h, am_head_dim := d \<rparr>
               | None \<Rightarrow> m)
      in if am_native_max m \<le> 4096
         then (case name_native lower of Some n \<Rightarrow> m\<lparr> am_native_max := n \<rparr> | None \<Rightarrow> m) else m)"

definition InspectModelMetadata :: "machine \<Rightarrow> hub \<Rightarrow> string \<Rightarrow> string \<Rightarrow> arch_meta" where
  "InspectModelMetadata M hub name token =
     (let clean = before_colon name;
          cfg = (case local_config M name of
                   Some c \<Rightarrow> Some c
                 | None \<Rightarrow>
                     if Contains clean ''/'' \<and> \<not> IsAbs clean \<and> \<not> HasPrefix clean ''.'' then fetchRemoteHFConfig hub clean token
                     else None);
          m = (case cfg of Some c \<Rightarrow> applyHFConfigToMeta c (default_meta name) | None \<Rightarrow> default_meta name)
      in apply_name (ToLower name) m)"

section \<open>Context lengths\<close>

definition standardBuckets :: "int list" where
  "standardBuckets = [2048, 4096, 8192, 16384, 32768, 65536, 131072, 262144, 524288, 1048576]"

fun snap :: "int \<Rightarrow> int \<Rightarrow> int list \<Rightarrow> int" where
  "snap target sel [] = sel"
| "snap target sel (b # bs) = (if b \<le> target then snap target b bs else sel)"

definition alignContextLength :: "int \<Rightarrow> int \<Rightarrow> int" where
  "alignContextLength hardwareMax modelNativeMax =
     (let ceiling = (if modelNativeMax \<le> 0 then 32768 else modelNativeMax);
          target = (if ceiling < hardwareMax then ceiling else hardwareMax);
          selected = snap target 2048 standardBuckets
      in if target < 2048 then (if 1024 \<le> target then 1024 else 512) else selected)"

definition FormatContextSize :: "int \<Rightarrow> string" where
  "FormatContextSize tokens =
     (if 1048576 \<le> tokens \<and> tokens mod 1048576 = 0 then int_dec (tokens div 1048576) @ ''M''
      else if 1024 \<le> tokens then int_dec (tokens div 1024) @ ''K''
      else int_dec tokens)"

text \<open>Integer division as the language has it: towards zero, a panic for a zero divisor.\<close>

definition go_div :: "int \<Rightarrow> int \<Rightarrow> int option" where
  "go_div a b = (if b = 0 then None else Some (wrap64 (sgn a * sgn b * (\<bar>a\<bar> div \<bar>b\<bar>))))"

definition weight_mb :: "arch_meta \<Rightarrow> int" where
  "weight_mb m = f_trunc (f_mul (f_mul (am_params m) (am_bytes m)) (F64 1024 0))"

definition scaled :: "int \<Rightarrow> f64 \<Rightarrow> int" where "scaled n c = f_trunc (f_mul (f_of_int n) c)"

definition bytes_per_token :: "int \<Rightarrow> int \<Rightarrow> int \<Rightarrow> int" where
  "bytes_per_token layers heads hdim = wrap64 (2 * layers * heads * hdim * 2)"

definition heads_per_gpu :: "int \<Rightarrow> int \<Rightarrow> int" where
  "heads_per_gpu heads tp =
     (let tp = (if tp \<le> 0 then 1 else tp); k = sgn heads * (\<bar>heads\<bar> div tp) in if k \<le> 0 then 1 else k)"

definition or_default :: "int \<Rightarrow> int \<Rightarrow> int" where "or_default d x = (if x \<le> 0 then d else x)"

datatype sizing = Sized int | InsufficientRAM int int | InsufficientVRAM int int int | SizingPanic

definition sanitize_meta :: "arch_meta \<Rightarrow> arch_meta" where
  "sanitize_meta m =
     m\<lparr> am_layers := or_default 32 (am_layers m), am_kv_heads := or_default 8 (am_kv_heads m),
        am_head_dim := or_default 128 (am_head_dim m),
        am_params := (if f_le (am_params m) f_zero then F64 7 0 else am_params m),
        am_bytes := (if f_le (am_bytes m) f_zero then F64 2 0 else am_bytes m) \<rparr>"

definition CalculateMaxViableContext :: "arch_meta \<Rightarrow> topology \<Rightarrow> sizing" where
  "CalculateMaxViableContext m topo =
     (let m = sanitize_meta m; weightMB = weight_mb m in
      if \<not> tp_has_gpu topo \<or> tp_gpu_count topo \<le> 0 then
        (let total = or_default 16384 (tp_ram_mb topo);
             usable = scaled total c0_70 - weightMB - 1024
         in if usable \<le> 0 then InsufficientRAM weightMB total
            else (case go_div (wrap64 (usable * 1024 * 1024)) (bytes_per_token (am_layers m) (am_kv_heads m) (am_head_dim m)) of
                    None \<Rightarrow> SizingPanic
                  | Some maxTokens \<Rightarrow> Sized (alignContextLength maxTokens (am_native_max m))))
      else
        (let total = (if tp_vram_total topo \<le> 0 then wrap64 (tp_gpu_count topo * 16384) else tp_vram_total topo) in
         if scaled total c0_92 < weightMB then InsufficientVRAM weightMB total (tp_gpu_count topo)
         else
           (let usable = scaled total c0_90 - weightMB - wrap64 (1536 * tp_gpu_count topo);
                usable = (if usable < 512 then 512 else usable);
                perToken = bytes_per_token (am_layers m) (heads_per_gpu (am_kv_heads m) (tp_gpu_count topo)) (am_head_dim m)
            in case go_div (wrap64 (usable * 1024 * 1024)) (wrap64 (perToken * 2)) of
                 None \<Rightarrow> SizingPanic
               | Some maxTokens \<Rightarrow> Sized (alignContextLength maxTokens (am_native_max m)))))"

text \<open>Whether to clamp, and to what; None is the panic of the last division.\<close>

definition EvaluateVRAMContextBudget :: "arch_meta \<Rightarrow> topology \<Rightarrow> int \<Rightarrow> (bool \<times> int) option" where
  "EvaluateVRAMContextBudget m topo requested =
     (if 0 < requested then Some (True, requested)
      else if \<not> tp_has_gpu topo \<or> tp_gpu_count topo \<le> 0 \<or> tp_vram_total topo \<le> 0 then Some (False, 0)
      else if f_le (am_params m) f_zero \<or> am_native_max m \<le> 0 then Some (False, 0)
      else
        (let remaining = scaled (tp_vram_total topo) c0_90 - wrap64 (1536 * tp_gpu_count topo) - weight_mb m in
         if remaining \<le> 0 then Some (True, 2048)
         else
           (let perToken = bytes_per_token (or_default 32 (am_layers m)) (heads_per_gpu (am_kv_heads m) (tp_gpu_count topo))
                             (or_default 128 (am_head_dim m));
                needed = wrap64 (wrap64 (perToken * am_native_max m) * 2);
                required = sgn needed * (\<bar>needed\<bar> div (1024 * 1024))
            in if required \<le> remaining then Some (False, 0)
               else map_option (\<lambda>maxTokens. (True, alignContextLength maxTokens (am_native_max m)))
                      (go_div (wrap64 (remaining * 1024 * 1024)) (wrap64 (perToken * 2))))))"

end
