(* ===== verification/SizingSafety.thy ===== *)
theory SizingSafety
  imports ContextSizing
begin

text \<open>
  What holds of the discovered topology and of the context decision: alignment against its reference, the
  division that cannot panic, and that the chosen context fits the memory.
\<close>


section \<open>Alignment\<close>

lemma snap_powers:
  "2 ^ j \<le> t \<Longrightarrow> j \<le> m \<Longrightarrow>
    \<exists>k \<ge> j. k \<le> m \<and> snap t (2 ^ j) (map (\<lambda>k. 2 ^ k) [Suc j..<Suc m]) = 2 ^ k \<and> 2 ^ k \<le> t \<and> (k = m \<or> t < 2 * 2 ^ k)"
proof (induction "m - j" arbitrary: j)
  case 0 then show ?case by (intro exI [of _ j]) simp
next
  case (Suc d)
  then have l: "[Suc j..<Suc m] = Suc j # [Suc (Suc j)..<Suc m]" by (intro upt_conv_Cons) simp
  show ?case
  proof (cases "2 ^ Suc j \<le> t")
    case True
    have d: "d = m - Suc j" "Suc j \<le> m" using Suc.hyps(2) by simp_all
    obtain k where "Suc j \<le> k" "k \<le> m" "snap t (2 ^ Suc j) (map (\<lambda>k. 2 ^ k) [Suc (Suc j)..<Suc m]) = 2 ^ k"
      "2 ^ k \<le> t" "k = m \<or> t < 2 * 2 ^ k" using Suc.hyps(1) [OF d(1) True d(2)] by blast
    then show ?thesis using True unfolding l by (intro exI [of _ k]) (simp del: upt_Suc)
  next
    case False then show ?thesis using Suc.prems unfolding l by (intro exI [of _ j]) (simp del: upt_Suc)
  qed
qed

lemma standardBuckets_powers: "standardBuckets = map (\<lambda>k. 2 ^ k) [11..<21]"
  by (simp add: standardBuckets_def upt_rec)

definition context_target :: "int \<Rightarrow> int \<Rightarrow> int" where
  "context_target h n = min h (if n \<le> 0 then 32768 else n)"

lemma alignment:
  "context_target h n < 1024 \<and> alignContextLength h n = 512
   \<or> (\<exists>k. 10 \<le> k \<and> k \<le> 20 \<and> alignContextLength h n = 2 ^ k \<and> 2 ^ k \<le> context_target h n
        \<and> (k = 20 \<or> context_target h n < 2 * 2 ^ k))"
proof -
  let ?t = "context_target h n"
  have c: "alignContextLength h n = (if ?t < 2048 then (if 1024 \<le> ?t then 1024 else 512) else snap ?t 2048 standardBuckets)"
    by (simp add: alignContextLength_def context_target_def Let_def min_def)
  consider "?t < 1024" | "1024 \<le> ?t" "?t < 2048" | "2048 \<le> ?t" by linarith
  then show ?thesis
  proof cases
    case 2 then show ?thesis unfolding c by (intro disjI2 exI [of _ 10]) simp
  next
    case 3
    have b: "standardBuckets = 2048 # map (\<lambda>k. 2 ^ k) [Suc 11..<Suc 20]"
      by (simp add: standardBuckets_powers upt_conv_Cons)
    obtain k where "11 \<le> k" "k \<le> 20" "snap ?t (2 ^ 11) (map (\<lambda>k. 2 ^ k) [Suc 11..<Suc 20]) = 2 ^ k" "2 ^ k \<le> ?t"
      "k = 20 \<or> ?t < 2 * 2 ^ k" using snap_powers [of 11 ?t 20] 3 by auto
    then show ?thesis using 3 unfolding c b by (intro disjI2 exI [of _ k]) simp
  qed (simp add: c)
qed

text \<open>
  Alignment equals its reference: below a target of 1024 tokens the context is 512; otherwise it is the
  largest power of two up to the target, and at most 2^20. The target is the smaller of what the hardware
  holds and the native maximum (32768 if unknown).
\<close>

theorem aligned_context:
  "let t = context_target h n; c = alignContextLength h n in
     t < 1024 \<and> c = 512 \<or> (\<exists>k. 10 \<le> k \<and> k \<le> 20 \<and> c = 2 ^ k \<and> c \<le> t \<and> (k = 20 \<or> t < 2 * c))"
  using alignment [of h n] by (auto simp: Let_def)

section \<open>The budget\<close>



lemma wrap64_mult: "wrap64 (wrap64 a * b) = wrap64 (a * b)"
  by (simp only: wrap64_def of_int_mult of_int_sint scast_id)

lemma wrap64_zero [simp]: "wrap64 0 = 0" by (simp add: wrap64_def)

text \<open>
  The decision always returns: for all integers a model configuration can hold, whatever they wrap to,
  its division by the cache size is not reached with a zero divisor, since the need wraps to zero with it.
\<close>

theorem budget_never_panics: "EvaluateVRAMContextBudget m topo requested \<noteq> None"
proof -
  let ?p = "bytes_per_token (or_default 32 (am_layers m)) (heads_per_gpu (am_kv_heads m) (tp_gpu_count topo)) (or_default 128 (am_head_dim m))"
  let ?n = "wrap64 (wrap64 (?p * am_native_max m) * 2)"
  have "?n = 0" if "wrap64 (?p * 2) = 0"
  proof -
    have "?n = wrap64 (?p * am_native_max m * 2)" by (rule wrap64_mult)
    also have "?p * am_native_max m * 2 = ?p * 2 * am_native_max m" by simp
    also have "wrap64 (?p * 2 * am_native_max m) = wrap64 (wrap64 (?p * 2) * am_native_max m)" by (simp only: wrap64_mult)
    finally show ?thesis using that by simp
  qed
  then show ?thesis by (auto simp: EvaluateVRAMContextBudget_def Let_def go_div_def)
qed



text \<open>
  The cache of two streams of a context on the whole machine: for each token and layer a key and a value of two
  bytes for each component of each key-value head, on however many devices the heads lie.
\<close>

definition streams_cache :: "arch_meta \<Rightarrow> int \<Rightarrow> int" where
  "streams_cache m c = 2 * (2 * 2 * am_layers m * am_kv_heads m * am_head_dim m) * c"







definition demo_meta :: arch_meta where
  "demo_meta = (default_meta ''m'')\<lparr> am_native_max := 131072 \<rparr>"

definition demo_topology :: topology where
  "demo_topology = (blank_topology \<lparr> pe_cpus = 8, pe_gpu_locked = True, pe_smi = None, pe_smi_memory = None, pe_parse_float = (\<lambda>_. None) \<rparr>)
     \<lparr> tp_has_gpu := True, tp_gpu_count := 1, tp_vram_total := 24576 \<rparr>"

lemma demo_fields:
  "am_layers demo_meta = 32" "am_kv_heads demo_meta = 8" "am_head_dim demo_meta = 128" "am_native_max demo_meta = 131072"
  "am_params demo_meta = F64 7 0" "am_bytes demo_meta = F64 2 0"
  "tp_has_gpu demo_topology" "tp_gpu_count demo_topology = 1" "tp_vram_total demo_topology = 24576"
  by (simp_all add: demo_meta_def default_meta_def demo_topology_def blank_topology_def)

lemma demo_weight: "weight_mb demo_meta = 14336"
  by (simp add: weight_mb_def demo_fields float_eval)




text \<open>
  With several GPUs the bytes of a token are those of one device, but the memory is that of all: on eight GPUs
  with 128 GB together the context is clamped to a million tokens, whose cache takes 256 GB.
\<close>

lemma several_gpus_overcommitted:
  defines "m \<equiv> demo_meta\<lparr> am_native_max := 10485760 \<rparr>"
    and "topo \<equiv> demo_topology\<lparr> tp_gpu_count := 8, tp_vram_total := 131072 \<rparr>"
  shows "EvaluateVRAMContextBudget m topo 0 = Some (True, 1048576) \<and> streams_cache m 1048576 = 2 * (131072 * 2 ^ 20)"
proof -
  have f: "am_layers m = 32" "am_kv_heads m = 8" "am_head_dim m = 128" "am_native_max m = 10485760"
    "am_params m = F64 7 0" "am_bytes m = F64 2 0" "tp_has_gpu topo" "tp_gpu_count topo = 8" "tp_vram_total topo = 131072"
    using demo_fields by (simp_all add: m_def topo_def)
  have w: "weight_mb m = 14336" using demo_weight f by (simp add: weight_mb_def demo_fields)
  have s: "scaled 131072 c0_90 = 117964" by (simp add: scaled_def float_eval)
  have "EvaluateVRAMContextBudget m topo 0 = Some (True, 1048576)"
    by (simp add: EvaluateVRAMContextBudget_def f w s or_default_def heads_per_gpu_def
        bytes_per_token_def wrap64_id go_div_def alignContextLength_def standardBuckets_def f_le_def f_zero_def)
  then show ?thesis by (simp add: streams_cache_def f)
qed

section \<open>Sizes by name\<close>

text \<open>The row for 27b is never reached, as the name also contains 7b, and 671b is taken for 1b.\<close>

lemma size_27b_shadowed:
  assumes "Contains lower ''27b''"
  shows "\<exists>p l h d. name_size lower = Some (p, l, h, d) \<and> f_le p (F64 15 (- 1))"
proof -
  have "Contains lower ''7b''" using assms by (rule Contains_trans) (simp add: Contains_def HasPrefix_def)
  then show ?thesis by (auto simp: name_size_def contains_any_def f_le_def)
qed

lemma size_671b_misread: "name_size ''deepseek-671b'' = Some (F64 3 (- 1), 28, 2, 128)"
  by (simp add: name_size_def contains_any_def Contains_def HasPrefix_def)

text \<open>The size in the name replaces what the configuration of the model says.\<close>

lemma name_overrides_config:
  assumes "name_size (ToLower name) = Some (p, l, h, d)"
  shows "am_layers (InspectModelMetadata M hub name token) = l \<and> am_kv_heads (InspectModelMetadata M hub name token) = h
    \<and> am_head_dim (InspectModelMetadata M hub name token) = d"
  using assms by (auto simp: InspectModelMetadata_def apply_name_def Let_def split: option.split)

section \<open>Topology\<close>

lemma add_new_distinct: "distinct xs \<Longrightarrow> distinct (add_new x xs)"
  by (simp add: add_new_def)

lemma fold_distinct:
  assumes "\<And>x xs. distinct xs \<Longrightarrow> distinct (f x xs)" "distinct xs"
  shows "distinct (fold f ys xs)"
  using assms(2) by (induction ys arbitrary: xs) (simp_all add: assms(1))

lemma physical_distinct: "distinct (physical_devices M)"
  unfolding physical_devices_def Let_def
  by (intro fold_distinct add_new_distinct) (auto simp: add_new_distinct)

lemma pci_distinct: "distinct (fst (fold (pci_step M) fs (gs, t)))" if "distinct gs"
  using that
proof (induction fs arbitrary: gs t)
  case (Cons f fs)
  have "distinct (fst (pci_step M f (gs, t)))"
    using Cons.prems by (auto simp: pci_step_def Let_def add_new_distinct split: option.splits)
  then show ?case using Cons.IH by (cases "pci_step M f (gs, t)") simp
qed simp

lemma heuristic_positive: "0 < heuristicVRAMPerGPU n" "0 < discoverVRAMPerGPU E n"
  by (simp_all add: heuristicVRAMPerGPU_def discoverVRAMPerGPU_def Let_def split: option.split)

definition no_gpus :: "topology \<Rightarrow> bool" where
  "no_gpus t \<longleftrightarrow> \<not> tp_has_gpu t \<and> tp_gpu_count t = 0 \<and> tp_devices t = [] \<and> \<not> tp_operational t \<and> tp_vram_total t = 0"

lemma no_gpus_steps [simp]:
  "no_gpus (blank_topology E)" "no_gpus (t\<lparr> tp_ram_mb := a, tp_avx512 := b, tp_avx2 := c \<rparr>) = no_gpus t"
  "no_gpus (t\<lparr> tp_cc := x \<rparr>) = no_gpus t" "no_gpus (t\<lparr> tp_model := s \<rparr>) = no_gpus t"
  "no_gpus (t\<lparr> tp_vram_per := a \<rparr>) = no_gpus t" "no_gpus (t\<lparr> tp_control := ds \<rparr>) = no_gpus t"
  "no_gpus (mark_family f t) = no_gpus t"
  by (simp_all add: no_gpus_def blank_topology_def mark_family_def split: gpu_family.split)

lemma no_gpus_pci: "no_gpus (snd (pci_step M f (gs, t))) = no_gpus t"
  by (auto simp: pci_step_def Let_def split: option.split)

lemma no_gpus_scan: "no_gpus (snd (fold (pci_step M) fs (gs, t))) = no_gpus t"
proof (induction fs arbitrary: gs t)
  case (Cons f fs)
  then show ?case using no_gpus_pci [of M f gs t] by (cases "pci_step M f (gs, t)") simp
qed simp

lemma no_gpus_fold: "(\<And>x t. no_gpus (f x t) = no_gpus t) \<Longrightarrow> no_gpus (fold f xs t) = no_gpus t"
  by (induction xs arbitrary: t) simp_all

lemma no_gpus_classified: "no_gpus (classifyArchitecture (smi_step E (driver_model M t))) = no_gpus t"
proof -
  have "no_gpus (driver_model M t) = no_gpus t" unfolding driver_model_def by (rule no_gpus_fold) simp
  moreover have "no_gpus (smi_step E u) = no_gpus u" for u by (auto simp: smi_step_def Let_def split: option.split)
  moreover have "no_gpus (classifyArchitecture u) = no_gpus u" for u by (auto simp: classifyArchitecture_def Let_def split: option.split)
  ultimately show ?thesis by simp
qed

text \<open>
  C35: a discovered topology is consistent: the devices are distinct and counted, there is an accelerator
  exactly when a device is listed, and then each has memory, the total is their product, and the engine
  recommended is the one of the target.
\<close>

theorem topology_consistent:
  "let t = DiscoverTopology M E in
     tp_gpu_count t = int (length (tp_devices t)) \<and> distinct (tp_devices t)
     \<and> (tp_has_gpu t \<longleftrightarrow> tp_devices t \<noteq> []) \<and> (tp_operational t \<longleftrightarrow> tp_has_gpu t)
     \<and> (if tp_has_gpu t then 0 < tp_vram_per t \<and> tp_vram_total t = wrap64 (tp_vram_per t * tp_gpu_count t)
            \<and> tp_recommended t = (if pe_gpu_locked E then ''vllm'' else ''llama.cpp'')
        else tp_vram_total t = 0)"
proof -
  obtain gs u where s: "DiscoverTopology M E = count_devices E gs (physical_devices M) u" "no_gpus u" "distinct gs"
  proof -
    obtain gs t1 where f: "fold (pci_step M) (m_glob M ''/sys/bus/pci/devices/*/vendor'') ([], host_topology M E) = (gs, t1)" by fastforce
    have "distinct gs" using pci_distinct [of "[]" M _ "host_topology M E"] f by (metis distinct.simps(1) fst_conv)
    moreover have "no_gpus (host_topology M E)" by (simp add: host_topology_def Let_def)
    then have "no_gpus t1" using no_gpus_scan [of M _ "[]" "host_topology M E"] f by (metis snd_conv)
    moreover have d: "DiscoverTopology M E = count_devices E gs (physical_devices M)
        ((classifyArchitecture (smi_step E (driver_model M t1)))\<lparr> tp_control := control_devices M \<rparr>)"
      unfolding DiscoverTopology_def Let_def f by simp
    ultimately show thesis using no_gpus_classified [of E M t1] by (intro that [OF d]) simp_all
  qed
  show ?thesis
    using s(2,3) physical_distinct [of M] heuristic_positive(2)
    unfolding Let_def s(1) by (auto simp: count_devices_def Let_def no_gpus_def)
qed

end
