(* ===== verification/EngineArgs.thy ===== *)
theory EngineArgs
  imports Gateway ContextSizing
begin

text \<open>
  What the supervisor derives of a model specification before an engine runs
  (pkg/inference/supervisor.go): its validation, the context length, the tensor parallelism, the parsers,
  and the command lines of the two engines with their environment. Files are those of the machine.
\<close>

section \<open>Validation\<close>

text \<open>strings.ContainsAny.\<close>

definition ContainsAny :: "string \<Rightarrow> string \<Rightarrow> bool" where
  "ContainsAny s chars \<longleftrightarrow> list_ex (\<lambda>c. List.member chars c) s"

definition shell_chars :: string where
  "shell_chars = [CHR 0x00, CHR 0x0D, CHR 0x0A, CHR 0x09] @ '';`$|&><''"

definition bad_argument :: "string \<Rightarrow> bool" where
  "bad_argument s \<longleftrightarrow> HasPrefix s ''-'' \<or> ContainsAny s shell_chars"

definition validate_spec :: "model_spec \<Rightarrow> string option" where
  "validate_spec spec =
     (if TrimSpace (ms_model spec) = '''' then
        Some ''model identifier is required (e.g. 'Qwen/Qwen2.5-0.5B-Instruct' or 'model.gguf')''
      else if bad_argument (ms_model spec) then Some ''invalid model identifier: contains forbidden characters or flag prefix''
      else if ms_hf_file spec \<noteq> '''' \<and> bad_argument (ms_hf_file spec) then
        Some ''invalid hf_file parameter: contains forbidden characters or flag prefix''
      else if ms_hf_token spec \<noteq> '''' \<and> ContainsAny (ms_hf_token spec) [CHR 0x00, CHR 0x0D, CHR 0x0A] then
        Some ''invalid hf_token parameter: contains forbidden newline or null characters''
      else if ms_tokenizer spec \<noteq> '''' \<and> bad_argument (ms_tokenizer spec) then
        Some ''invalid tokenizer parameter: contains forbidden characters or flag prefix''
      else if ms_expose_in_health spec = None then
        Some ''missing required parameter 'expose_in_health': must be explicitly set to true (publicly visible on unauthenticated /v1/health) or false (confidential)''
      else None)"

section \<open>Context, parallelism and parsers\<close>

definition is_bnb :: "model_spec \<Rightarrow> bool" where
  "is_bnb spec \<longleftrightarrow> ms_bitsandbytes spec = Some True \<or> ms_quantization spec \<in> {''bitsandbytes'', ''bnb''}"

definition is_gguf :: "model_spec \<Rightarrow> bool" where
  "is_gguf spec \<longleftrightarrow> ms_gguf spec = Some True \<or> ms_quantization spec = ''gguf''
     \<or> HasSuffix (ToLower (ms_model spec)) ''.gguf'' \<or> HasSuffix (ToLower (ms_hf_file spec)) ''.gguf''"

definition model_meta :: "machine \<Rightarrow> hub \<Rightarrow> model_spec \<Rightarrow> arch_meta" where
  "model_meta M hub spec =
     (let m = InspectModelMetadata M hub (ms_model spec) (ms_hf_token spec)
      in if is_bnb spec \<or> is_gguf spec then m\<lparr> am_quantized := True, am_bytes := c0_55 \<rparr> else m)"

text \<open>The context the engine gets; the decision never panics.\<close>

definition resolve_context :: "arch_meta \<Rightarrow> topology \<Rightarrow> int \<Rightarrow> int" where
  "resolve_context m topo requested =
     (case EvaluateVRAMContextBudget m topo requested of
        Some (True, safe) \<Rightarrow>
          if 0 < safe then safe else if requested \<le> 0 then (if 0 < am_native_max m then am_native_max m else 4096) else requested
      | _ \<Rightarrow> if requested \<le> 0 then (if 0 < am_native_max m then am_native_max m else 4096) else requested)"

text \<open>The largest count of devices, from the given one down, that divides the heads.\<close>

fun divisor_from :: "nat \<Rightarrow> int \<Rightarrow> int" where
  "divisor_from 0 heads = 1"
| "divisor_from (Suc tp) heads = (if heads mod int (Suc tp) = 0 then int (Suc tp) else divisor_from tp heads)"

definition AlignTensorParallelToKVHeads :: "int \<Rightarrow> int \<Rightarrow> int" where
  "AlignTensorParallelToKVHeads gpuCount numKVHeads =
     (if gpuCount \<le> 1 then 1 else if numKVHeads \<le> 0 then gpuCount else divisor_from (nat gpuCount) numKVHeads)"

definition ResolveToolCallParser :: "string \<Rightarrow> string \<Rightarrow> string \<times> bool" where
  "ResolveToolCallParser modelName override =
     (if override \<noteq> '''' then (override, True)
      else
        (let m = ToLower modelName in
         if contains_any m [''llama-3.2'', ''llama3.2''] then (''pythonic'', True)
         else if Contains m ''llama'' then (''llama3_json'', True)
         else if contains_any m [''mistral'', ''mixtral'', ''codestral'', ''pixtral''] then (''mistral'', True)
         else if Contains m ''granite-20b'' then (''granite-20b-fc'', True)
         else if Contains m ''granite'' then (''granite'', True)
         else if Contains m ''internlm'' then (''internlm'', True)
         else if Contains m ''jamba'' then (''jamba'', True)
         else if Contains m ''deepseek'' \<and> Contains m ''llama'' then (''llama3_json'', True)
         else if contains_any m [''qwen'', ''deepseek'', ''glm'', ''kimi'', ''moonlight'', ''hermes'', ''yi'', ''chatglm''] then (''hermes'', True)
         else (''hermes'', True)))"

definition reasons_by_name :: "string \<Rightarrow> bool" where
  "reasons_by_name m \<longleftrightarrow> contains_any m [''r1'', ''reason'', ''qwq'', ''thinking'', ''marco-o1'']"

definition ResolveReasoningParser :: "string \<Rightarrow> bool option \<Rightarrow> string \<Rightarrow> string \<times> bool" where
  "ResolveReasoningParser modelName enableOverride parserOverride =
     (let named = (if parserOverride \<noteq> '''' then parserOverride else ''deepseek_r1'', True) in
      case enableOverride of
        Some False \<Rightarrow> ('''', False)
      | Some True \<Rightarrow> named
      | None \<Rightarrow> if reasons_by_name (ToLower modelName) then named else ('''', False))"

section \<open>The command line of vLLM\<close>

definition last_colon_to_slash :: "string \<Rightarrow> string" where
  "last_colon_to_slash s =
     (let r = rev s; tail = takeWhile (\<lambda>c. c \<noteq> CHR '':'') r
      in rev (drop (Suc (length tail)) r) @ ''/'' @ rev tail)"

definition model_argument :: "model_spec \<Rightarrow> string" where
  "model_argument spec =
     (let m = ms_model spec; f = ms_hf_file spec in
      if f \<noteq> '''' then (if \<not> Contains m f then TrimSuffix m ''/'' @ ''/'' @ f else m)
      else if Contains m '':'' \<and> HasSuffix (ToLower m) ''.gguf'' then last_colon_to_slash m
      else m)"

definition quantization_arguments :: "model_spec \<Rightarrow> string list" where
  "quantization_arguments spec =
     (if is_bnb spec then [''--quantization'', ''bitsandbytes'', ''--load-format'', ''bitsandbytes'']
      else if is_gguf spec then [''--quantization'', ''gguf'']
      else if ms_quantization spec \<noteq> '''' then [''--quantization'', ms_quantization spec]
      else [])"

definition is_hopper :: "topology \<Rightarrow> bool" where
  "is_hopper t \<longleftrightarrow> tp_hopper t \<or> cc_between (F64 9 0) (F64 10 0) t \<or> contains_any (ToUpper (tp_model t)) [''H100'', ''H200'']"

definition is_blackwell :: "topology \<Rightarrow> bool" where
  "is_blackwell t \<longleftrightarrow> tp_blackwell t \<or> f_le (F64 10 0) (tp_cc t)
     \<or> contains_any (ToUpper (tp_model t)) [''B100'', ''B200'', ''RTX PRO 6000'', ''BLACKWELL'', ''B40'']"

definition is_ada :: "topology \<Rightarrow> bool" where
  "is_ada t \<longleftrightarrow> tp_ada t \<or> cc_between c8_9 (F64 9 0) t \<or> contains_any (ToUpper (tp_model t)) [''L4'', ''ADA'']"

definition is_ampere :: "topology \<Rightarrow> bool" where
  "is_ampere t \<longleftrightarrow> tp_ampere t \<or> cc_between (F64 8 0) c8_9 t \<or> contains_any (ToUpper (tp_model t)) [''A100'', ''AMPERE'']"

definition flash_attention :: "topology \<Rightarrow> bool" where
  "flash_attention t \<longleftrightarrow> is_hopper t \<or> is_ada t \<or> is_ampere t
     \<or> \<not> tp_turing t \<and> \<not> is_blackwell t \<and> cc_between (F64 8 0) (F64 10 0) t"

definition attention_config :: string where
  "attention_config = ''{'' @ in_quotes ''flash_attn_version'' @ '': 2}''"

definition mode_arguments :: "model_spec \<Rightarrow> topology \<Rightarrow> string list" where
  "mode_arguments spec t =
     [''--no-enable-prefix-caching'']
     @ (if flash_attention t then [''--attention-config'', attention_config] else [])
     @ (if is_hopper t \<or> tp_turing t \<or> is_bnb spec then [''--enforce-eager''] else [])
     @ [''--dtype'', if tp_turing t then ''half'' else ''auto'']"

definition parser_arguments :: "model_spec \<Rightarrow> string list" where
  "parser_arguments spec =
     (case ResolveToolCallParser (ms_model spec) (ms_tool_call_parser spec) of
        (p, True) \<Rightarrow> [''--enable-auto-tool-choice'', ''--tool-call-parser'', p] | _ \<Rightarrow> [])
     @ (case ResolveReasoningParser (ms_model spec) (ms_enable_thinking spec) (ms_reasoning_parser spec) of
          (p, True) \<Rightarrow> [''--reasoning-parser'', p] | _ \<Rightarrow> [])"

definition tokenizer_arguments :: "model_spec \<Rightarrow> string list" where
  "tokenizer_arguments spec =
     (if ms_tokenizer spec \<noteq> '''' then [''--tokenizer'', ms_tokenizer spec]
      else if ms_gguf spec = Some True \<or> ms_quantization spec = ''gguf'' then
        (let baseRepo = before_colon (ms_model spec)
         in if HasSuffix (ToLower baseRepo) ''-gguf'' then [''--tokenizer'', take (length baseRepo - 5) baseRepo] else [])
      else [])"

definition BuildVLLMArgs :: "model_spec \<Rightarrow> topology \<Rightarrow> int \<Rightarrow> int \<Rightarrow> string list \<Rightarrow> string list" where
  "BuildVLLMArgs spec topo tensorParallel port prefixArgs =
     prefixArgs
     @ [model_argument spec, ''--host'', ''127.0.0.1'', ''--port'', int_dec port, ''--gpu-memory-utilization'', ''0.90'',
        ''--cpu-offload-gb'', ''0'', ''--tensor-parallel-size'', int_dec tensorParallel]
     @ [''--max-model-len'', if 0 < ms_context_size spec then int_dec (ms_context_size spec) else ''4096'']
     @ quantization_arguments spec @ mode_arguments spec topo @ parser_arguments spec @ tokenizer_arguments spec"

section \<open>Programs\<close>

definition findGPUInferenceBinary :: "machine \<Rightarrow> string \<times> string list" where
  "findGPUInferenceBinary M =
     (if m_exists M ''/mnt/ramdisk/vllm/bin/python3'' then
        (''/mnt/ramdisk/vllm/bin/python3'', [''-m'', ''vllm.entrypoints.cli.main'', ''serve''])
      else if m_exists M ''/mnt/ramdisk/vllm/bin/vllm'' then (''/mnt/ramdisk/vllm/bin/vllm'', [''serve''])
      else ('''', []))"

text \<open>The search of the path for a program is given by its answer.\<close>

definition findLlamaServerBinary :: "machine \<Rightarrow> string option \<Rightarrow> string" where
  "findLlamaServerBinary M lookPath =
     (case find (m_exists M) [''/usr/bin/llama-server'', ''/bin/llama-server'', ''/usr/local/bin/llama-server''] of
        Some c \<Rightarrow> c
      | None \<Rightarrow> (case lookPath of Some p \<Rightarrow> p | None \<Rightarrow> ''llama-server''))"

definition findLocalGGUF :: "machine \<Rightarrow> string \<Rightarrow> string" where
  "findLocalGGUF M modelName =
     (let cleanName = Clean modelName;
          candidates = (if HasPrefix cleanName ''/'' then [cleanName] else [])
            @ [path_join [''/opt/models'', cleanName], path_join [''/mnt/ramdisk/models'', cleanName]]
            @ (if cleanName = ''model.gguf'' \<or> cleanName = '''' then [''/opt/models/model.gguf'', ''/mnt/ramdisk/models/model.gguf''] else [])
      in case find (m_exists M) candidates of Some c \<Rightarrow> c | None \<Rightarrow> '''')"

definition cpu_model_arguments :: "machine \<Rightarrow> model_spec \<Rightarrow> string list" where
  "cpu_model_arguments M spec =
     (let m = ms_model spec in
      if m_exists M m then [''-m'', m]
      else if findLocalGGUF M m \<noteq> '''' then [''-m'', findLocalGGUF M m]
      else if ms_hf_file spec \<noteq> '''' then [''--hf-repo'', m, ''--hf-file'', ms_hf_file spec]
      else if contains_any (ToLower m) [''0.5b'', ''0_5b''] then
        [''--hf-repo'', m, ''--hf-file'', ''qwen2.5-0.5b-instruct-q4_k_m.gguf'']
      else [''--hf-repo'', m])"

definition cpu_arguments :: "machine \<Rightarrow> model_spec \<Rightarrow> topology \<Rightarrow> int \<Rightarrow> string list" where
  "cpu_arguments M spec topo port =
     (let threads = (if ms_threads spec \<le> 0 then tp_cpu_cores topo else ms_threads spec)
      in [''--host'', ''127.0.0.1'', ''--port'', int_dec port, ''-c'', int_dec (ms_context_size spec), ''-t'', int_dec threads]
         @ cpu_model_arguments M spec
         @ (if tp_has_gpu topo then [''-ngl'', int_dec (if ms_gpu_layers spec \<le> 0 then 99 else ms_gpu_layers spec)] else []))"

text \<open>The token of the hub reaches the engine in two variables of its environment.\<close>

definition token_environment :: "model_spec \<Rightarrow> string list" where
  "token_environment spec =
     (if ms_hf_token spec \<noteq> '''' then [''HF_TOKEN='' @ ms_hf_token spec, ''HUGGING_FACE_HUB_TOKEN='' @ ms_hf_token spec] else [])"

definition cpu_environment :: "model_spec \<Rightarrow> string list" where
  "cpu_environment spec =
     [''PATH=/usr/bin:/usr/sbin:/bin:/sbin'', ''HOME=/mnt/ramdisk/home'', ''LLAMA_CACHE=/mnt/ramdisk/cache'',
      ''HF_HOME=/mnt/ramdisk/cache'', ''TMPDIR=/tmp'', ''SSL_CERT_FILE=/etc/ssl/certs/ca-certificates.crt''] @ token_environment spec"

definition findCUDAHome :: "(string \<Rightarrow> bool) \<Rightarrow> string" where
  "findCUDAHome is_dir =
     (case find is_dir [''/mnt/ramdisk/vllm/lib/python3.12/site-packages/nvidia/cu13'',
         ''/mnt/ramdisk/vllm/lib/python3.12/site-packages/nvidia/cu12'', ''/usr/local/cuda''] of
        Some c \<Rightarrow> c | None \<Rightarrow> ''/usr/local/cuda'')"

definition visible_devices :: "int \<Rightarrow> string" where
  "visible_devices tensorParallel =
     (if 1 < tensorParallel then Join (map nat_dec [0..<nat tensorParallel]) '','' else ''0'')"

definition gpu_environment :: "string \<Rightarrow> string \<Rightarrow> topology \<Rightarrow> model_spec \<Rightarrow> string list" where
  "gpu_environment cuda devices topo spec =
     [''PATH='' @ cuda @ ''/bin:/mnt/ramdisk/vllm/bin:/usr/local/cuda/bin:/usr/bin:/usr/sbin:/bin:/sbin'',
      ''VIRTUAL_ENV=/mnt/ramdisk/vllm'', ''PYTHONPATH=/mnt/ramdisk/vllm/lib/python3.12/site-packages'',
      ''PYTHONEXECUTABLE=/mnt/ramdisk/vllm/bin/python3'', ''HOME=/mnt/ramdisk/home'', ''HF_HOME=/mnt/ramdisk/cache'',
      ''HF_XET_HIGH_PERFORMANCE=1'', ''TMPDIR=/mnt/ramdisk/tmp'', ''FLASHINFER_WORKSPACE_DIR=/mnt/ramdisk/tmp/flashinfer'',
      ''TORCH_HOME=/mnt/ramdisk/cache'', ''XDG_CACHE_HOME=/mnt/ramdisk/cache'', ''VLLM_CACHE_ROOT=/mnt/ramdisk/cache/vllm'',
      ''TRITON_CACHE_DIR=/mnt/ramdisk/tmp/triton'', ''TRITON_LIBCUDA_PATH=/usr/lib/x86_64-linux-gnu'',
      ''CUDA_HOME='' @ cuda, ''CUDA_PATH='' @ cuda, ''CC=/usr/bin/gcc'', ''CXX=/usr/bin/g++'',
      ''NVCC_PREPEND_FLAGS=-DCCCL_DISABLE_CTK_COMPATIBILITY_CHECK'', ''CUDA_CACHE_PATH=/mnt/ramdisk/tmp/cuda_cache'',
      ''TORCH_EXTENSIONS_DIR=/mnt/ramdisk/tmp/torch_ext'', ''SSL_CERT_FILE=/etc/ssl/certs/ca-certificates.crt'',
      ''VLLM_TARGET_DEVICE=cuda'', ''VLLM_USE_V2_MODEL_RUNNER=0'', ''VLLM_USE_FLASHINFER_SAMPLER=0'',
      ''CUDA_VISIBLE_DEVICES='' @ devices, ''CUDA_DEVICE_ORDER=PCI_BUS_ID'', ''NVIDIA_VISIBLE_DEVICES=all'',
      ''NVIDIA_DRIVER_CAPABILITIES=compute,utility'',
      ''LD_LIBRARY_PATH='' @ cuda @ ''/lib:'' @ cuda @ ''/lib64:/mnt/ramdisk/vllm/lib:/mnt/ramdisk/vllm/lib64:/usr/lib/x86_64-linux-gnu:/usr/lib64:/lib64:/lib:/usr/local/cuda/lib64:/usr/local/cuda/lib'']
     @ (if 1 < tp_gpu_count topo then [''NCCL_P2P_DISABLE=1'', ''NCCL_IB_DISABLE=1'', ''NCCL_DEBUG=INFO'', ''NCCL_BUFFSIZE=2097152''] else [])
     @ token_environment spec"

end
