(* ===== verification/Supervisor.thy ===== *)
theory Supervisor
  imports EngineArgs
begin

text \<open>
  The supervisor of the inference engine (pkg/inference/supervisor.go) as a state machine: a load in its
  stages, the processes, the goroutine that waits for the exit of each ready engine, and the liveness
  probers. The parts of the state that a mutex guards change in one step; everything else may come in
  between. Starting a process, its health and its exit are the environment's.
\<close>

section \<open>State\<close>

record sup =
  su_cmd :: "nat option"
  su_model :: string
  su_backend :: string
  su_ready :: bool
  su_port :: int
  su_topo :: topology
  su_fatal :: "string option"
  su_live :: "nat option"
  su_max_context :: int
  su_active_context :: int
  su_expose :: bool
  su_activity :: int

definition NewSupervisor :: "int \<Rightarrow> int \<Rightarrow> topology \<Rightarrow> bool \<Rightarrow> (int \<Rightarrow> string) \<Rightarrow> sup" where
  "NewSupervisor now port topo gpu_locked no_gpu_text =
     \<lparr> su_cmd = None, su_model = '''', su_backend = (if gpu_locked then ''vllm'' else ''llama.cpp''), su_ready = False,
       su_port = (if port \<le> 0 then 8000 else port), su_topo = topo,
       su_fatal = (if gpu_locked \<and> (\<not> tp_has_gpu topo \<or> tp_gpu_count topo \<le> 0) then Some (no_gpu_text (tp_gpu_count topo)) else None),
       su_live = None, su_max_context = 0, su_active_context = 0, su_expose = False, su_activity = now \<rparr>"

definition RecordActivity :: "int \<Rightarrow> sup \<Rightarrow> sup" where "RecordActivity now s = s\<lparr> su_activity := now \<rparr>"
definition SetFatalError :: "string option \<Rightarrow> sup \<Rightarrow> sup" where "SetFatalError e s = s\<lparr> su_fatal := e \<rparr>"

text \<open>What the gateway sees of it.\<close>

definition sup_view :: "sup \<Rightarrow> supervisor" where
  "sup_view s = \<lparr> sv_ready = su_ready s, sv_model = su_model s, sv_expose = su_expose s, sv_fatal = su_fatal s,
     sv_backend = su_backend s, sv_max_context = su_max_context s, sv_active_context = su_active_context s \<rparr>"

section \<open>The stages of a load\<close>

text \<open>What a load reads of its environment.\<close>

record load_env =
  le_machine :: machine
  le_probe :: probe_env
  le_hub :: hub
  le_environment :: "string option"
  le_no_gpu :: "int \<Rightarrow> string"

text \<open>First: the running engine is given up. The process given up is killed after it.\<close>

definition begin_load :: "sup \<Rightarrow> sup" where
  "begin_load s = s\<lparr> su_live := None, su_cmd := None, su_ready := False, su_fatal := None \<rparr>"

text \<open>Then the specification is checked, sized and entered, or the load ends with an error.\<close>

definition admit_spec :: "load_env \<Rightarrow> model_spec \<Rightarrow> sup \<Rightarrow> string + (model_spec \<times> arch_meta \<times> sup)" where
  "admit_spec E spec s =
     (case validate_spec spec of
        Some e \<Rightarrow> Inl e
      | None \<Rightarrow>
          (let topo = DiscoverTopology (le_machine E) (le_probe E);
               m = model_meta (le_machine E) (le_hub E) spec;
               spec = spec\<lparr> ms_context_size := resolve_context m topo (ms_context_size spec) \<rparr>
           in Inr (spec, m, s\<lparr> su_topo := topo, su_model := ms_model spec, su_max_context := am_native_max m,
                su_active_context := ms_context_size spec, su_expose := (ms_expose_in_health spec = Some True) \<rparr>)))"

text \<open>The engine is chosen and its runtime prepared: the error, or the program with its arguments and environment.\<close>

record command =
  cm_path :: string
  cm_args :: "string list"
  cm_env :: "string list"

definition choose_engine ::
  "load_env \<Rightarrow> (string \<Rightarrow> bool) \<Rightarrow> string option \<Rightarrow> model_spec \<Rightarrow> arch_meta \<Rightarrow> sup \<Rightarrow> (string + command) \<times> sup" where
  "choose_engine E is_dir lookPath spec m s =
     (let topo = su_topo s in
      if pe_gpu_locked (le_probe E) then
        (if \<not> tp_has_gpu topo \<or> tp_gpu_count topo \<le> 0 then
           (let e = le_no_gpu E (tp_gpu_count topo) in (Inl e, SetFatalError (Some e) s))
         else
           (let s = s\<lparr> su_backend := ''vllm'' \<rparr> in
            case le_environment E of
              Some e \<Rightarrow> (Inl e, s)
            | None \<Rightarrow>
                (case findGPUInferenceBinary (le_machine E) of
                   (bin, prefix) \<Rightarrow>
                     if bin = '''' then (Inl ''vLLM inference binary not found in system or /mnt/ramdisk/vllm'', s)
                     else
                       (let tp = AlignTensorParallelToKVHeads (tp_gpu_count topo) (am_kv_heads m)
                        in (Inr \<lparr> cm_path = bin, cm_args = BuildVLLMArgs spec topo tp (su_port s) prefix,
                                  cm_env = gpu_environment (findCUDAHome is_dir) (visible_devices tp) topo spec \<rparr>, s)))))
      else
        (Inr \<lparr> cm_path = findLlamaServerBinary (le_machine E) lookPath,
               cm_args = cpu_arguments (le_machine E) spec topo (su_port s), cm_env = cpu_environment spec \<rparr>,
         s\<lparr> su_backend := ''llama.cpp'' \<rparr>))"

text \<open>The end of the wait for the engine: it is ready, or it is given up if it is still the current one.\<close>

definition engine_ready :: "int \<Rightarrow> nat \<Rightarrow> sup \<Rightarrow> sup" where
  "engine_ready now prober s = RecordActivity now (s\<lparr> su_live := Some prober, su_ready := True \<rparr>)"

definition engine_gone :: "nat \<Rightarrow> sup \<Rightarrow> sup" where
  "engine_gone pid s =
     (let s = s\<lparr> su_live := None \<rparr> in if su_cmd s = Some pid then s\<lparr> su_cmd := None, su_ready := False \<rparr> else s)"

text \<open>The third failed probe in a row.\<close>

definition probe_text :: string where "probe_text = ''vLLM engine health probe failed (unresponsive)''"

definition declare_dead :: "sup \<Rightarrow> sup" where
  "declare_dead s = s\<lparr> su_ready := False, su_fatal := Some probe_text, su_cmd := None \<rparr>"

text \<open>A whole load with nothing in between: how the start and the wait go is given.\<close>

datatype wait_result = BecameReady | Failed string

definition LoadModel ::
  "load_env \<Rightarrow> (string \<Rightarrow> bool) \<Rightarrow> string option \<Rightarrow> (command \<Rightarrow> string + nat) \<Rightarrow> (nat \<Rightarrow> wait_result) \<Rightarrow> int \<Rightarrow> nat
     \<Rightarrow> model_spec \<Rightarrow> sup \<Rightarrow> string option \<times> sup" where
  "LoadModel E is_dir lookPath start wait now prober spec s =
     (let s = begin_load s in
      case admit_spec E spec s of
        Inl e \<Rightarrow> (Some e, s)
      | Inr (spec, m, s) \<Rightarrow>
          (case choose_engine E is_dir lookPath spec m s of
             (Inl e, s) \<Rightarrow> (Some e, s)
           | (Inr cmd, s) \<Rightarrow>
               (case start cmd of
                  Inl e \<Rightarrow> (Some e, s)
                | Inr pid \<Rightarrow>
                    (let s = s\<lparr> su_cmd := Some pid \<rparr> in
                     case wait pid of
                       BecameReady \<Rightarrow> (None, engine_ready now prober s)
                     | Failed e \<Rightarrow> (Some e, engine_gone pid s)))))"

section \<open>The liveness prober\<close>

text \<open>
  One prober: its failures in a row, whether a probe is under way, and how a tick and the answer of a probe
  move it. A prober that was cancelled may still finish the probe it is in.
\<close>

record prober =
  pb_id :: nat
  pb_failures :: nat
  pb_probing :: bool

datatype tick = Stop | Wait prober | Probe prober

definition prober_tick :: "int \<Rightarrow> sup \<Rightarrow> prober \<Rightarrow> tick" where
  "prober_tick now s p =
     (if \<not> su_ready s then Stop
      else if now - su_activity s < 30 * second then Wait (p\<lparr> pb_failures := 0 \<rparr>)
      else Probe (p\<lparr> pb_probing := True \<rparr>))"

definition probe_answer :: "bool \<Rightarrow> int \<Rightarrow> prober \<Rightarrow> sup \<Rightarrow> prober option \<times> sup" where
  "probe_answer ok now p s =
     (if ok then (Some (p\<lparr> pb_failures := 0, pb_probing := False \<rparr>), RecordActivity now s)
      else if 3 \<le> Suc (pb_failures p) then (None, declare_dead s)
      else (Some (p\<lparr> pb_failures := Suc (pb_failures p), pb_probing := False \<rparr>), s))"

text \<open>
  The loop of one prober by itself, over the rounds of its ticker: what was heard of the engine since the
  last tick, the time of the tick, and how a probe then would go.
\<close>

record round =
  rd_heard :: "int option"
  rd_now :: int
  rd_ok :: bool

datatype prober_result = Running prober sup | Ended sup | Dead sup

definition hear :: "int option \<Rightarrow> sup \<Rightarrow> sup" where
  "hear h s = (case h of Some t \<Rightarrow> RecordActivity t s | None \<Rightarrow> s)"

fun startLivenessProber :: "round list \<Rightarrow> prober \<Rightarrow> sup \<Rightarrow> prober_result" where
  "startLivenessProber [] p s = Running p s"
| "startLivenessProber (r # rs) p s =
     (let s = hear (rd_heard r) s in
      case prober_tick (rd_now r) s p of
        Stop \<Rightarrow> Ended s
      | Wait p \<Rightarrow> startLivenessProber rs p s
      | Probe p \<Rightarrow>
          (case probe_answer (rd_ok r) (rd_now r) p s of
             (Some p, s) \<Rightarrow> startLivenessProber rs p s
           | (None, s) \<Rightarrow> Dead s))"

section \<open>Interleavings\<close>

datatype load_stage = NoLoad | Begun model_spec "nat option" | Entered model_spec arch_meta | Waiting nat

record machine_state =
  mc_sup :: sup
  mc_stage :: load_stage
  mc_alive :: "nat set"
  mc_watched :: "nat set"
  mc_probers :: "prober list"
  mc_cancelled :: "nat set"
  mc_next :: nat

definition cancel :: "nat option \<Rightarrow> nat set \<Rightarrow> nat set" where
  "cancel live cs = (case live of Some i \<Rightarrow> insert i cs | None \<Rightarrow> cs)"

definition fresh_prober :: "nat \<Rightarrow> prober" where "fresh_prober i = \<lparr> pb_id = i, pb_failures = 0, pb_probing = False \<rparr>"

text \<open>
  The steps: a load begins (one at a time), kills the engine it gave up, is refused or entered, starts its
  engine or fails, and ends when the engine is ready or gone; an engine exits; the watcher of an exited
  engine runs; a prober ticks, or gets its answer. The engine that a load or a prober kills may outlive the
  five seconds of killProcessGroup; the one that a load gives up is waited for.
\<close>

inductive sup_step :: "machine_state \<Rightarrow> machine_state \<Rightarrow> bool" where
  load_begins: "mc_stage c = NoLoad \<Longrightarrow>
     sup_step c (c\<lparr> mc_sup := begin_load (mc_sup c), mc_stage := Begun spec (su_cmd (mc_sup c)),
       mc_cancelled := cancel (su_live (mc_sup c)) (mc_cancelled c) \<rparr>)"
| old_killed: "mc_stage c = Begun spec (Some pid) \<Longrightarrow>
     sup_step c (c\<lparr> mc_stage := Begun spec None, mc_alive := mc_alive c - {pid} \<rparr>)"
| old_survives: "mc_stage c = Begun spec (Some pid) \<Longrightarrow> sup_step c (c\<lparr> mc_stage := Begun spec None \<rparr>)"
| load_refused: "mc_stage c = Begun spec None \<Longrightarrow> admit_spec E spec (mc_sup c) = Inl e \<Longrightarrow>
     sup_step c (c\<lparr> mc_stage := NoLoad \<rparr>)"
| load_entered: "mc_stage c = Begun spec None \<Longrightarrow> admit_spec E spec (mc_sup c) = Inr (spec', m, s) \<Longrightarrow>
     sup_step c (c\<lparr> mc_sup := s, mc_stage := Entered spec' m \<rparr>)"
| engine_refused: "mc_stage c = Entered spec m \<Longrightarrow> choose_engine E is_dir path spec m (mc_sup c) = (r, s) \<Longrightarrow>
     sup_step c (c\<lparr> mc_sup := s, mc_stage := NoLoad \<rparr>)"
| engine_started: "mc_stage c = Entered spec m \<Longrightarrow> choose_engine E is_dir path spec m (mc_sup c) = (Inr cmd, s) \<Longrightarrow>
     sup_step c (c\<lparr> mc_sup := s\<lparr> su_cmd := Some (mc_next c) \<rparr>, mc_stage := Waiting (mc_next c),
       mc_alive := insert (mc_next c) (mc_alive c), mc_next := Suc (mc_next c) \<rparr>)"
| became_ready: "mc_stage c = Waiting pid \<Longrightarrow>
     sup_step c (c\<lparr> mc_sup := engine_ready now (mc_next c) (mc_sup c), mc_stage := NoLoad, mc_watched := insert pid (mc_watched c),
       mc_probers := mc_probers c @ [fresh_prober (mc_next c)],
       mc_cancelled := cancel (su_live (mc_sup c)) (mc_cancelled c), mc_next := Suc (mc_next c) \<rparr>)"
| gave_up: "mc_stage c = Waiting pid \<Longrightarrow>
     sup_step c (c\<lparr> mc_sup := engine_gone pid (mc_sup c), mc_stage := NoLoad, mc_alive := mc_alive c - {pid},
       mc_cancelled := cancel (su_live (mc_sup c)) (mc_cancelled c) \<rparr>)"
| engine_exits: "sup_step c (c\<lparr> mc_alive := mc_alive c - {pid} \<rparr>)"
| exit_noticed: "pid \<in> mc_watched c \<Longrightarrow> pid \<notin> mc_alive c \<Longrightarrow>
     sup_step c (c\<lparr> mc_sup := engine_gone pid (mc_sup c), mc_watched := mc_watched c - {pid},
       mc_cancelled := cancel (su_live (mc_sup c)) (mc_cancelled c) \<rparr>)"
| prober_ends: "mc_probers c = xs @ p # ys \<Longrightarrow> \<not> pb_probing p \<Longrightarrow> pb_id p \<in> mc_cancelled c \<or> prober_tick now (mc_sup c) p = Stop \<Longrightarrow>
     sup_step c (c\<lparr> mc_probers := xs @ ys \<rparr>)"
| prober_ticks: "mc_probers c = xs @ p # ys \<Longrightarrow> \<not> pb_probing p \<Longrightarrow>
     prober_tick now (mc_sup c) p = Wait p' \<or> prober_tick now (mc_sup c) p = Probe p' \<Longrightarrow>
     sup_step c (c\<lparr> mc_probers := xs @ p' # ys \<rparr>)"
| probe_answered: "mc_probers c = xs @ p # ys \<Longrightarrow> pb_probing p \<Longrightarrow> probe_answer ok now p (mc_sup c) = (Some p', s) \<Longrightarrow>
     sup_step c (c\<lparr> mc_sup := s, mc_probers := xs @ p' # ys \<rparr>)"
| declared_dead: "mc_probers c = xs @ p # ys \<Longrightarrow> pb_probing p \<Longrightarrow> probe_answer ok now p (mc_sup c) = (None, s) \<Longrightarrow>
     sup_step c (c\<lparr> mc_sup := s, mc_probers := xs @ ys,
       mc_alive := (case su_cmd (mc_sup c) of Some pid \<Rightarrow> mc_alive c - {pid} | None \<Rightarrow> mc_alive c) \<rparr>)"
| dead_survives: "mc_probers c = xs @ p # ys \<Longrightarrow> pb_probing p \<Longrightarrow> probe_answer ok now p (mc_sup c) = (None, s) \<Longrightarrow>
     sup_step c (c\<lparr> mc_sup := s, mc_probers := xs @ ys \<rparr>)"
| activity: "sup_step c (c\<lparr> mc_sup := RecordActivity now (mc_sup c) \<rparr>)"

definition start_state :: "sup \<Rightarrow> machine_state" where
  "start_state s = \<lparr> mc_sup = s, mc_stage = NoLoad, mc_alive = {}, mc_watched = {}, mc_probers = [], mc_cancelled = {}, mc_next = 0 \<rparr>"

inductive sup_reachable :: "sup \<Rightarrow> machine_state \<Rightarrow> bool" for s0 where
  reach_start: "sup_reachable s0 (start_state s0)"
| reach_step: "sup_reachable s0 c \<Longrightarrow> sup_step c c' \<Longrightarrow> sup_reachable s0 c'"

end
