(* ===== verification/SupervisorSafety.thy ===== *)
theory SupervisorSafety
  imports Supervisor SizingSafety
begin

text \<open>
  What holds of the engine's command line, of the supervisor in every interleaving of its goroutines, of one
  load from its start to its end, of the liveness prober, and of the load endpoint on top of them.
\<close>

section \<open>Parallelism and context\<close>

lemma divisor_from_max:
  assumes "0 < heads"
  shows "0 < n \<Longrightarrow> divisor_from n heads = int (Max {d. 1 \<le> d \<and> d \<le> n \<and> int d dvd heads})"
proof (induction n)
  case (Suc n)
  have fin: "finite {d. 1 \<le> d \<and> d \<le> k \<and> int d dvd heads}" for k :: nat by (rule finite_subset [of _ "{..k}"]) auto
  show ?case
  proof (cases "int (Suc n) dvd heads")
    case True
    then have "Max {d. 1 \<le> d \<and> d \<le> Suc n \<and> int d dvd heads} = Suc n" using fin by (intro Max_eqI) auto
    then show ?thesis using True by (simp add: dvd_eq_mod_eq_0)
  next
    case False
    then have n: "0 < n" by (cases n) auto
    have "{d. 1 \<le> d \<and> d \<le> Suc n \<and> int d dvd heads} = {d. 1 \<le> d \<and> d \<le> n \<and> int d dvd heads}"
      using False by (auto simp: le_Suc_eq)
    then show ?thesis using False Suc.IH [OF n] by (simp add: dvd_eq_mod_eq_0)
  qed
qed simp

text \<open>
  The tensor parallel size is the largest number of the node's GPUs that divides the model's key-
  value heads, all the GPUs when the heads are unknown, and one when there is at most one GPU.
\<close>

theorem tensor_parallel_optimal:
  "AlignTensorParallelToKVHeads gpus heads =
     (if gpus \<le> 1 then 1 else if heads \<le> 0 then gpus
      else int (Max {d. 1 \<le> d \<and> d \<le> nat gpus \<and> int d dvd heads}))"
  using divisor_from_max [of heads "nat gpus"] by (simp add: AlignTensorParallelToKVHeads_def)

lemma tensor_parallel_bounds:
  "1 \<le> AlignTensorParallelToKVHeads gpus heads \<and> AlignTensorParallelToKVHeads gpus heads \<le> max 1 gpus"
proof -
  have "1 \<le> divisor_from n h \<and> divisor_from n h \<le> max 1 (int n)" for n h by (induction n) auto
  from this [of "nat gpus" heads] show ?thesis by (auto simp: AlignTensorParallelToKVHeads_def max_def split: if_splits)
qed

lemma budget_positive: "EvaluateVRAMContextBudget m topo r = Some (True, c) \<Longrightarrow> 0 < c"
proof -
  assume e: "EvaluateVRAMContextBudget m topo r = Some (True, c)"
  have "0 < alignContextLength h n" for h n using alignment [of h n] by auto
  then show "0 < c" using e by (auto simp: EvaluateVRAMContextBudget_def Let_def split: if_splits)
qed

text \<open>
  Whatever the model, the hardware and the request, the context length the engine is started with is
  positive.
\<close>

theorem resolved_context_positive: "0 < resolve_context m topo requested"
  using budget_positive [of m topo requested] by (auto simp: resolve_context_def split: option.split bool.split)

section \<open>Command lines\<close>

definition engine_flags :: "string list" where
  "engine_flags = [''--host'', ''--port'', ''--gpu-memory-utilization'', ''--cpu-offload-gb'', ''--tensor-parallel-size'',
     ''--max-model-len'', ''--quantization'', ''--load-format'', ''--no-enable-prefix-caching'', ''--attention-config'',
     ''--enforce-eager'', ''--dtype'', ''--enable-auto-tool-choice'', ''--tool-call-parser'', ''--reasoning-parser'', ''--tokenizer'', ''-m'']"

definition plain_arg :: "string \<Rightarrow> bool" where "plain_arg a \<longleftrightarrow> \<not> HasPrefix a ''-'' \<or> a \<in> set engine_flags"

lemma dash_iff: "HasPrefix s ''-'' \<longleftrightarrow> (\<exists>t. s = CHR ''-'' # t)"
  by (cases s) (auto simp: HasPrefix_def)

lemma plain_flags: "list_all plain_arg engine_flags"
  by (simp add: list_all_iff plain_arg_def)

lemma plain_word: "\<not> HasPrefix a ''-'' \<Longrightarrow> plain_arg a" by (simp add: plain_arg_def)

lemma plain_int: "0 \<le> i \<Longrightarrow> plain_arg (int_dec i)"
proof -
  assume "0 \<le> i"
  then have d: "int_dec i = nat_dec (nat i)" by (simp add: int_dec_def)
  have "nat_dec (nat i) \<noteq> CHR ''-'' # t" for t
    using nat_dec_digits [of "nat i"] by (auto simp: is_digit_def list_all_iff)
  then show ?thesis unfolding d by (intro plain_word) (simp add: dash_iff)
qed

lemma not_dash_prefix: "\<not> HasPrefix m ''-'' \<Longrightarrow> m = p @ q \<Longrightarrow> \<not> HasPrefix p ''-''"
  by (auto simp: dash_iff)

lemma model_argument_plain:
  assumes "ms_model spec \<noteq> ''''" "\<not> HasPrefix (ms_model spec) ''-''"
  shows "\<not> HasPrefix (model_argument spec) ''-''"
proof -
  let ?m = "ms_model spec"
  have slash: "\<not> HasPrefix (p @ ''/'' @ f) ''-''" if "\<exists>q. ?m = p @ q" for p f
    using that not_dash_prefix [OF assms(2)] by (cases p) (auto simp: dash_iff)
  have "\<exists>q. ?m = TrimSuffix ?m ''/'' @ q"
  proof -
    have "TrimPrefix (rev ?m) (rev ''/'') = drop k (rev ?m)" if "k = (if HasPrefix (rev ?m) (rev ''/'') then 1 else 0)" for k
      using that by (simp add: TrimPrefix_def)
    then have "TrimSuffix ?m ''/'' = rev (drop (if HasPrefix (rev ?m) (rev ''/'') then 1 else 0) (rev ?m))" by (simp add: TrimSuffix_def)
    then have "TrimSuffix ?m ''/'' = take (length ?m - (if HasPrefix (rev ?m) (rev ''/'') then 1 else 0)) ?m" by (simp add: rev_drop)
    then show ?thesis by (metis append_take_drop_id)
  qed
  moreover have "\<exists>p q f. last_colon_to_slash ?m = p @ ''/'' @ f \<and> ?m = p @ q"
  proof -
    let ?t = "length (takeWhile (\<lambda>c. c \<noteq> CHR '':'') (rev ?m))"
    have "rev (drop (Suc ?t) (rev ?m)) = take (length ?m - Suc ?t) ?m" by (simp add: rev_drop)
    then show ?thesis unfolding last_colon_to_slash_def Let_def by (metis append_take_drop_id)
  qed
  ultimately show ?thesis using slash assms(2) unfolding model_argument_def Let_def by (auto split: if_splits)
qed

lemma plain_append: "list_all plain_arg (xs @ ys) \<longleftrightarrow> list_all plain_arg xs \<and> list_all plain_arg ys" by simp

lemma plain_eval: "plain_arg a = (\<not> HasPrefix a ''-'' \<or> List.member engine_flags a)"
  by (simp add: plain_arg_def)

lemma parser_words: "\<not> HasPrefix o1 ''-'' \<Longrightarrow> \<not> HasPrefix (fst (ResolveToolCallParser m o1)) ''-''"
  "\<not> HasPrefix o2 ''-'' \<Longrightarrow> \<not> HasPrefix (fst (ResolveReasoningParser m en o2)) ''-''"
  by (simp_all add: ResolveToolCallParser_def ResolveReasoningParser_def Let_def HasPrefix_def split: option.split bool.split)

lemma validated:
  assumes "validate_spec spec = None"
  shows "ms_model spec \<noteq> ''''" "\<not> bad_argument (ms_model spec)" "ms_tokenizer spec = '''' \<or> \<not> bad_argument (ms_tokenizer spec)"
    "ms_hf_file spec = '''' \<or> \<not> bad_argument (ms_hf_file spec)" "ms_expose_in_health spec \<noteq> None"
    "\<not> ContainsAny (ms_hf_token spec) [CHR 0x00, CHR 0x0D, CHR 0x0A]"
  using assms by (auto simp: validate_spec_def TrimSpace_def ContainsAny_def split: if_splits)

lemma before_colon_prefix: "\<exists>q. s = before_colon s @ q"
proof (cases "Index s '':''")
  case (Some i)
  then have "s = before_colon s @ drop i s" by (simp add: before_colon_def cut_at_def)
  then show ?thesis ..
qed (simp add: before_colon_def cut_at_def)

text \<open>
  C33: For a specification that LoadModel accepts, whose quantization and parser names do not begin with a
  dash, every argument of the vLLM command line that begins with a dash is one of the flags BuildVLLMArgs
  itself writes: no field of the request becomes a flag.
\<close>

theorem no_flag_injection:
  assumes "validate_spec spec = None" "0 \<le> tp" "0 \<le> port" "list_all plain_arg prefix"
    and "\<not> HasPrefix (ms_quantization spec) ''-''" "\<not> HasPrefix (ms_tool_call_parser spec) ''-''"
      "\<not> HasPrefix (ms_reasoning_parser spec) ''-''"
  shows "list_all plain_arg (BuildVLLMArgs spec topo tp port prefix)"
proof -
  note v = validated [OF assms(1)]
  have nd: "\<not> HasPrefix (ms_model spec) ''-''" using v(2) by (simp add: bad_argument_def)
  have w: "plain_arg ''--host''" "plain_arg ''127.0.0.1''" "plain_arg ''--port''" "plain_arg ''--gpu-memory-utilization''"
    "plain_arg ''0.90''" "plain_arg ''--cpu-offload-gb''" "plain_arg ''0''" "plain_arg ''--tensor-parallel-size''"
    "plain_arg ''--max-model-len''" "plain_arg ''4096''" "plain_arg ''--quantization''" "plain_arg ''bitsandbytes''"
    "plain_arg ''--load-format''" "plain_arg ''gguf''" "plain_arg ''--no-enable-prefix-caching''" "plain_arg ''--attention-config''"
    "plain_arg ''--enforce-eager''" "plain_arg ''--dtype''" "plain_arg ''half''" "plain_arg ''auto''"
    "plain_arg ''--enable-auto-tool-choice''" "plain_arg ''--tool-call-parser''" "plain_arg ''--reasoning-parser''" "plain_arg ''--tokenizer''"
    "plain_arg attention_config"
    by (simp_all add: plain_arg_def engine_flags_def HasPrefix_def attention_config_def)
  have m: "plain_arg (model_argument spec)" using model_argument_plain [OF v(1) nd] by (rule plain_word)
  have q: "list_all plain_arg (quantization_arguments spec)"
    using w assms(5) by (simp add: quantization_arguments_def plain_word)
  have mode: "list_all plain_arg (mode_arguments spec topo)" using w by (simp add: mode_arguments_def)
  have p: "list_all plain_arg (parser_arguments spec)"
    using w parser_words(1) [OF assms(6), of "ms_model spec"] parser_words(2) [OF assms(7), of "ms_model spec" "ms_enable_thinking spec"]
    by (auto simp: parser_arguments_def plain_word split: prod.split bool.split)
  have t: "list_all plain_arg (tokenizer_arguments spec)"
  proof -
    have d: "plain_arg (take n (before_colon (ms_model spec)))" for n
    proof -
      obtain q where "ms_model spec = before_colon (ms_model spec) @ q" using before_colon_prefix by blast
      then obtain q' where "ms_model spec = take n (before_colon (ms_model spec)) @ q'" by (metis append.assoc append_take_drop_id)
      then show ?thesis using not_dash_prefix [OF nd] plain_word by blast
    qed
    have "plain_arg (ms_tokenizer spec)" if "ms_tokenizer spec \<noteq> ''''" using v(3) that by (simp add: bad_argument_def plain_word)
    then show ?thesis using w d by (simp add: tokenizer_arguments_def Let_def)
  qed
  have i: "plain_arg (int_dec tp)" "plain_arg (int_dec port)" "0 < ms_context_size spec \<Longrightarrow> plain_arg (int_dec (ms_context_size spec))"
    using assms(2,3) plain_int by simp_all
  show ?thesis
    unfolding BuildVLLMArgs_def list_all_append using assms(4) m q mode p t i w by simp
qed

section \<open>The state of the supervisor\<close>

text \<open>The flag and the command of every state the step relation reaches.\<close>

definition sup_ok :: "machine_state \<Rightarrow> bool" where
  "sup_ok c \<longleftrightarrow>
     (mc_stage c \<noteq> NoLoad \<longrightarrow> \<not> su_ready (mc_sup c)) \<and>
     (\<forall>p. su_cmd (mc_sup c) = Some p \<longrightarrow> mc_stage c = Waiting p \<or> mc_stage c = NoLoad \<and> p \<in> mc_watched c) \<and>
     (\<forall>p. mc_stage c = Waiting p \<longrightarrow> p < mc_next c) \<and>
     (\<forall>p\<in>mc_watched c \<union> mc_alive c. p < mc_next c) \<and>
     (su_model (mc_sup c) \<noteq> '''' \<longrightarrow> \<not> bad_argument (su_model (mc_sup c)) \<and> 0 < su_active_context (mc_sup c))"

lemma begin_load_fields [simp]: "su_ready (begin_load s) = False" "su_cmd (begin_load s) = None" "su_fatal (begin_load s) = None"
  "su_live (begin_load s) = None" "su_model (begin_load s) = su_model s"
  by (simp_all add: begin_load_def)

lemma admit_spec_keeps: "admit_spec E spec s = Inr (spec', m, s') \<Longrightarrow>
    su_ready s' = su_ready s \<and> su_cmd s' = su_cmd s \<and> su_live s' = su_live s \<and> su_fatal s' = su_fatal s \<and>
    su_activity s' = su_activity s \<and> validate_spec spec = None \<and> su_model s' = ms_model spec \<and> ms_model spec' = ms_model spec \<and>
    0 < su_active_context s'"
  using resolved_context_positive by (auto simp: admit_spec_def Let_def split: option.splits)

lemma choose_engine_keeps: "choose_engine E d path spec m s = (r, s') \<Longrightarrow>
    su_ready s' = su_ready s \<and> su_cmd s' = su_cmd s \<and> su_live s' = su_live s \<and> su_model s' = su_model s \<and>
    su_activity s' = su_activity s \<and> su_active_context s' = su_active_context s \<and> su_expose s' = su_expose s \<and>
    (\<forall>c. r = Inr c \<longrightarrow> su_fatal s' = su_fatal s)"
  by (auto simp: choose_engine_def Let_def SetFatalError_def split: if_splits option.splits prod.splits)

lemma engine_gone_fields [simp]:
  "su_cmd (engine_gone p s) = (if su_cmd s = Some p then None else su_cmd s)"
  "su_ready (engine_gone p s) = (su_ready s \<and> su_cmd s \<noteq> Some p)"
  "su_live (engine_gone p s) = None" "su_model (engine_gone p s) = su_model s" "su_fatal (engine_gone p s) = su_fatal s"
  by (auto simp: engine_gone_def Let_def)

lemma engine_ready_fields [simp]: "su_cmd (engine_ready now i s) = su_cmd s" "su_ready (engine_ready now i s)"
  "su_live (engine_ready now i s) = Some i" "su_model (engine_ready now i s) = su_model s" "su_fatal (engine_ready now i s) = su_fatal s"
  by (simp_all add: engine_ready_def RecordActivity_def)

lemma RecordActivity_fields [simp]: "su_cmd (RecordActivity now s) = su_cmd s" "su_ready (RecordActivity now s) = su_ready s"
  "su_live (RecordActivity now s) = su_live s" "su_fatal (RecordActivity now s) = su_fatal s" "su_model (RecordActivity now s) = su_model s"
  by (simp_all add: RecordActivity_def)

lemma probe_answer_fields:
  "probe_answer ok now p s = (q, s') \<Longrightarrow>
     su_model s' = su_model s \<and> su_active_context s' = su_active_context s \<and> (su_ready s' \<longrightarrow> su_ready s) \<and>
     (su_cmd s' = su_cmd s \<or> su_cmd s' = None)"
  by (auto simp: probe_answer_def declare_dead_def RecordActivity_def split: if_splits)

lemma more_fields [simp]: "su_active_context (begin_load s) = su_active_context s"
  "su_active_context (engine_gone p s) = su_active_context s"
  "su_active_context (engine_ready now i s) = su_active_context s"
  "su_active_context (RecordActivity now s) = su_active_context s"
  by (simp_all add: begin_load_def engine_gone_def Let_def engine_ready_def RecordActivity_def)

lemma sup_ok_step: "sup_step c c' \<Longrightarrow> sup_ok c \<Longrightarrow> sup_ok c'"
proof (induction rule: sup_step.induct)
  case (load_entered c spec E spec' m s)
  then have k: "su_ready s = su_ready (mc_sup c)" "su_cmd s = su_cmd (mc_sup c)" "\<not> bad_argument (su_model s)" "0 < su_active_context s"
    using admit_spec_keeps [of E spec "mc_sup c" spec' m s] validated [of spec] by auto
  then show ?case using load_entered by (simp add: sup_ok_def)
next
  case (engine_refused c spec m E is_dir path r s)
  then have k: "su_ready s = su_ready (mc_sup c)" "su_cmd s = su_cmd (mc_sup c)" "su_model s = su_model (mc_sup c)"
      "su_active_context s = su_active_context (mc_sup c)"
    using choose_engine_keeps [of E is_dir path spec m "mc_sup c" r s] by auto
  then show ?case using engine_refused by (simp add: sup_ok_def)
next
  case (engine_started c spec m E is_dir path cmd s)
  then have k: "su_ready s = su_ready (mc_sup c)" "su_model s = su_model (mc_sup c)"
      "su_active_context s = su_active_context (mc_sup c)"
    using choose_engine_keeps [of E is_dir path spec m "mc_sup c" "Inr cmd" s] by auto
  then show ?case using engine_started by (auto simp: sup_ok_def less_Suc_eq)
next
  case (became_ready c pid now)
  then show ?case by (auto simp: sup_ok_def less_Suc_eq)
next
  case (gave_up c pid)
  then show ?case by (cases "su_cmd (mc_sup c)") (simp_all add: sup_ok_def ball_Un)
next
  case (probe_answered c xs p ys ok now p' s)
  have k: "su_model s = su_model (mc_sup c)" "su_active_context s = su_active_context (mc_sup c)"
      "su_ready s \<Longrightarrow> su_ready (mc_sup c)" "\<And>q. su_cmd s = Some q \<Longrightarrow> su_cmd (mc_sup c) = Some q"
    using probe_answer_fields [OF probe_answered(3)] by auto
  show ?case using probe_answered(4) k(3,4) by (simp add: sup_ok_def k(1,2)) blast
next
  case (declared_dead c xs p ys ok now s)
  have k: "su_model s = su_model (mc_sup c)" "su_active_context s = su_active_context (mc_sup c)"
      "su_ready s \<Longrightarrow> su_ready (mc_sup c)" "\<And>q. su_cmd s = Some q \<Longrightarrow> su_cmd (mc_sup c) = Some q"
    using probe_answer_fields [OF declared_dead(3)] by auto
  have a: "(case x of None \<Rightarrow> A | Some y \<Rightarrow> A - {y}) \<subseteq> A" for x and A :: "nat set" by (cases x) auto
  show ?case using declared_dead(4) k(3,4) a by (simp add: sup_ok_def k(1,2)) blast
next
  case (dead_survives c xs p ys ok now s)
  have k: "su_model s = su_model (mc_sup c)" "su_active_context s = su_active_context (mc_sup c)"
      "su_ready s \<Longrightarrow> su_ready (mc_sup c)" "\<And>q. su_cmd s = Some q \<Longrightarrow> su_cmd (mc_sup c) = Some q"
    using probe_answer_fields [OF dead_survives(3)] by auto
  show ?case using dead_survives(4) k(3,4) by (simp add: sup_ok_def k(1,2)) blast
next
  case (exit_noticed pid c)
  then show ?case by (cases "su_cmd (mc_sup c)") (auto simp add: sup_ok_def)
qed (auto simp: sup_ok_def)

lemma reachable_ok:
  assumes "sup_reachable s0 c" "su_cmd s0 = None" "\<not> su_ready s0" "su_model s0 = ''''"
  shows "sup_ok c"
  using assms(1)
proof induction
  case reach_start
  then show ?case using assms(2-) by (simp add: sup_ok_def start_state_def)
qed (rule sup_ok_step)

lemma new_supervisor_fields [simp]: "su_cmd (NewSupervisor now port topo l f) = None"
  "su_ready (NewSupervisor now port topo l f) = False" "su_model (NewSupervisor now port topo l f) = ''''"
  by (simp_all add: NewSupervisor_def)

lemma new_reachable_ok: "sup_reachable (NewSupervisor now port topo l f) c \<Longrightarrow> sup_ok c"
  by (erule reachable_ok) simp_all

text \<open>
  C27: In every state that loads, exits, watchers and probers can reach from a new supervisor, in any
  interleaving: it is ready only when no load is under way; the current command is the engine the load
  waits for or one whose exit is watched; and the model it names passed the checks, with a positive
  context length.
\<close>

theorem supervisor_invariant:
  assumes "sup_reachable (NewSupervisor now port topo l f) c"
  shows "(su_ready (mc_sup c) \<longrightarrow> mc_stage c = NoLoad) \<and>
    (\<forall>p. su_cmd (mc_sup c) = Some p \<longrightarrow> mc_stage c = Waiting p \<or> mc_stage c = NoLoad \<and> p \<in> mc_watched c) \<and>
    (su_model (mc_sup c) \<noteq> '''' \<longrightarrow> \<not> bad_argument (su_model (mc_sup c)) \<and> 0 < su_active_context (mc_sup c))"
  using new_reachable_ok [OF assms] unfolding sup_ok_def by blast

text \<open>
  C28: In every reachable state whose current engine has died, the step that notices it is enabled: the
  load gives up or the watcher of the exit runs, and after it no engine is current and the supervisor is
  not ready.
\<close>

theorem dead_engine_noticed:
  assumes "sup_reachable (NewSupervisor now port topo l f) c" "su_cmd (mc_sup c) = Some p" "p \<notin> mc_alive c"
  shows "\<exists>c'. sup_step c c' \<and> su_cmd (mc_sup c') = None \<and> \<not> su_ready (mc_sup c') \<and> mc_stage c' = NoLoad"
proof -
  consider "mc_stage c = Waiting p" | "mc_stage c = NoLoad" "p \<in> mc_watched c"
    using new_reachable_ok [OF assms(1)] assms(2) unfolding sup_ok_def by blast
  then show ?thesis
  proof cases
    case 1
    show ?thesis by (rule exI, rule conjI, rule sup_step.gave_up [OF 1]) (simp add: assms(2))
  next
    case 2
    show ?thesis by (rule exI, rule conjI, rule sup_step.exit_noticed [OF 2(2) assms(3)]) (simp add: assms(2) 2(1))
  qed
qed

section \<open>A load from its start to its end\<close>

lemma load_result:
  "case LoadModel E is_dir path start wait now prober spec s of
     (None, s') \<Rightarrow> validate_spec spec = None \<and> su_ready s' \<and> su_cmd s' \<noteq> None \<and> su_live s' = Some prober \<and>
       su_fatal s' = None \<and> su_model s' = ms_model spec \<and> su_activity s' = now \<and>
       su_expose s' = (ms_expose_in_health spec = Some True) \<and> 0 < su_active_context s'
   | (Some e, s') \<Rightarrow> \<not> su_ready s' \<and> su_cmd s' = None \<and> su_live s' = None"
proof (cases "admit_spec E spec (begin_load s)")
  case (Inl e)
  then show ?thesis by (simp add: LoadModel_def Let_def)
next
  case (Inr x)
  obtain spec' m s1 where x: "x = (spec', m, s1)" by (metis prod_cases3)
  note a = admit_spec_keeps [OF Inr [unfolded x]]
  have ex: "su_expose s1 = (ms_expose_in_health spec = Some True)"
    using Inr x by (auto simp: admit_spec_def Let_def split: option.splits)
  obtain r s2 where c: "choose_engine E is_dir path spec' m s1 = (r, s2)" by fastforce
  note k = choose_engine_keeps [OF c]
  show ?thesis
  proof (cases r)
    case (Inl e)
    then show ?thesis using Inr x c a k by (simp add: LoadModel_def Let_def)
  next
    case r: (Inr cmd)
    show ?thesis
    proof (cases "start cmd")
      case (Inl e)
      then show ?thesis using Inr x c r a k by (simp add: LoadModel_def Let_def)
    next
      case p: (Inr pid)
      show ?thesis
        using Inr x c r p a k ex
        by (cases "wait pid") (simp_all add: LoadModel_def Let_def engine_ready_def engine_gone_def RecordActivity_def)
    qed
  qed
qed

text \<open>
  A load that returns no error leaves the checked model ready, current and watched by a prober,
  without a fatal error and with the exposure the request asked for; a load that returns an error leaves
  no engine, no readiness and no prober.
\<close>

theorem load_outcome:
  "case LoadModel E is_dir path start wait now prober spec s of
     (None, s') \<Rightarrow> validate_spec spec = None \<and> su_ready s' \<and> su_cmd s' \<noteq> None \<and> su_live s' = Some prober \<and>
       su_fatal s' = None \<and> su_model s' = ms_model spec \<and> su_activity s' = now \<and>
       su_expose s' = (ms_expose_in_health spec = Some True) \<and> 0 < su_active_context s'
   | (Some e, s') \<Rightarrow> \<not> su_ready s' \<and> su_cmd s' = None \<and> su_live s' = None"
  by (rule load_result)

text \<open>The stages of a load as steps.\<close>

lemma load_enters:
  assumes "mc_stage c = NoLoad"
  shows "\<exists>a. sup_step\<^sup>*\<^sup>* c (c\<lparr> mc_sup := begin_load (mc_sup c), mc_stage := Begun spec None,
      mc_cancelled := cancel (su_live (mc_sup c)) (mc_cancelled c), mc_alive := a \<rparr>)"
proof (cases "su_cmd (mc_sup c)")
  case None
  show ?thesis
    using r_into_rtranclp [of sup_step, OF sup_step.load_begins [OF assms, of spec]] None
    by (intro exI [of _ "mc_alive c"]) simp
next
  case (Some p)
  let ?d = "c\<lparr> mc_sup := begin_load (mc_sup c), mc_stage := Begun spec (Some p),
      mc_cancelled := cancel (su_live (mc_sup c)) (mc_cancelled c) \<rparr>"
  have "sup_step c ?d" using sup_step.load_begins [OF assms, of spec] Some by simp
  moreover have "sup_step ?d (?d\<lparr> mc_stage := Begun spec None, mc_alive := mc_alive ?d - {p} \<rparr>)"
    by (rule sup_step.old_killed) simp
  ultimately have "sup_step\<^sup>*\<^sup>* c (?d\<lparr> mc_stage := Begun spec None, mc_alive := mc_alive ?d - {p} \<rparr>)" by (rule rtranclp.rtrancl_into_rtrancl [OF r_into_rtranclp])
  then show ?thesis by (intro exI [of _ "mc_alive c - {p}"]) (cases c, simp)
qed

lemma sup_trans: "sup_step\<^sup>*\<^sup>* a b \<Longrightarrow> sup_step b c \<Longrightarrow> sup_step\<^sup>*\<^sup>* a c" by (rule rtranclp.rtrancl_into_rtrancl)

text \<open>From the choice of the engine to the end of the wait.\<close>

lemma started_run:
  fixes c :: machine_state and wait :: "nat \<Rightarrow> wait_result" and now :: int
  assumes "mc_stage c = Entered spec m" "choose_engine E is_dir path spec m (mc_sup c) = (Inr cmd, s)"
  defines "s' \<equiv> (case wait (mc_next c) of
      BecameReady \<Rightarrow> engine_ready now (Suc (mc_next c)) (s\<lparr> su_cmd := Some (mc_next c) \<rparr>)
    | Failed e \<Rightarrow> engine_gone (mc_next c) (s\<lparr> su_cmd := Some (mc_next c) \<rparr>))"
  shows "\<exists>c'. sup_step\<^sup>*\<^sup>* c c' \<and> mc_sup c' = s' \<and> mc_stage c' = NoLoad"
proof -
  let ?w = "c\<lparr> mc_sup := s\<lparr> su_cmd := Some (mc_next c) \<rparr>, mc_stage := Waiting (mc_next c),
      mc_alive := insert (mc_next c) (mc_alive c), mc_next := Suc (mc_next c) \<rparr>"
  have run: "sup_step\<^sup>*\<^sup>* c ?w" using sup_step.engine_started [OF assms(1,2)] by (rule r_into_rtranclp)
  show ?thesis
  proof (cases "wait (mc_next c)")
    case BecameReady
    then show ?thesis using sup_trans [OF run sup_step.became_ready [of ?w "mc_next c" now]] unfolding s'_def by fastforce
  next
    case (Failed e)
    then show ?thesis using sup_trans [OF run sup_step.gave_up [of ?w "mc_next c"]] unfolding s'_def by fastforce
  qed
qed

text \<open>
  The two ways the development has of a load agree: the state that LoadModel returns, on every branch, is
  reached by a run of the step relation from the state it was called in. What the steps promise is for
  EngineService.
\<close>

lemma load_is_a_run:
  assumes "mc_stage c = NoLoad" "\<And>cmd. start cmd = Inr (mc_next c) \<or> (\<exists>e. start cmd = Inl e)"
    and "LoadModel E is_dir path start wait now (Suc (mc_next c)) spec (mc_sup c) = (r, s')"
  shows "\<exists>c'. sup_step\<^sup>*\<^sup>* c c' \<and> mc_sup c' = s' \<and> mc_stage c' = NoLoad"
proof -
  obtain a where run: "sup_step\<^sup>*\<^sup>* c (c\<lparr> mc_sup := begin_load (mc_sup c), mc_stage := Begun spec None,
      mc_cancelled := cancel (su_live (mc_sup c)) (mc_cancelled c), mc_alive := a \<rparr>)" (is "sup_step\<^sup>*\<^sup>* c ?b")
    using load_enters [OF assms(1), of spec] by blast
  note L = assms(3) [unfolded LoadModel_def Let_def]
  show ?thesis
  proof (cases "admit_spec E spec (begin_load (mc_sup c))")
    case (Inl e)
    have "sup_step ?b (?b\<lparr> mc_stage := NoLoad \<rparr>)" by (rule sup_step.load_refused) (use Inl in simp_all)
    moreover have "mc_sup (?b\<lparr> mc_stage := NoLoad \<rparr>) = s'" using L Inl by simp
    ultimately show ?thesis using sup_trans [OF run] by fastforce
  next
    case (Inr x)
    obtain spec' m s1 where x: "x = (spec', m, s1)" by (metis prod_cases3)
    let ?e = "?b\<lparr> mc_sup := s1, mc_stage := Entered spec' m \<rparr>"
    have "sup_step ?b ?e" by (rule sup_step.load_entered) (use Inr x in simp_all)
    then have run1: "sup_step\<^sup>*\<^sup>* c ?e" by (rule sup_trans [OF run])
    obtain q s2 where ch: "choose_engine E is_dir path spec' m s1 = (q, s2)" by fastforce
    have refuse: ?thesis if "s2 = s'"
    proof -
      have "sup_step ?e (?e\<lparr> mc_sup := s2, mc_stage := NoLoad \<rparr>)" by (rule sup_step.engine_refused) (use ch in simp_all)
      then show ?thesis using sup_trans [OF run1] that by fastforce
    qed
    show ?thesis
    proof (cases "\<exists>cmd. q = Inr cmd \<and> start cmd = Inr (mc_next c)")
      case False
      then have "s2 = s'" 
      proof (cases q)
        case (Inr cmd)
        then obtain e where "start cmd = Inl e" using False assms(2) [of cmd] by blast
        then show ?thesis using L \<open>admit_spec E spec (begin_load (mc_sup c)) = Inr x\<close> x ch Inr by simp
      qed (use L Inr x ch in simp)
      then show ?thesis by (rule refuse)
    next
      case True
      then obtain cmd where q: "q = Inr cmd" "start cmd = Inr (mc_next c)" by blast
      let ?s = "s2\<lparr> su_cmd := Some (mc_next c) \<rparr>"
      have e: "s' = (case wait (mc_next c) of BecameReady \<Rightarrow> engine_ready now (Suc (mc_next c)) ?s | Failed e \<Rightarrow> engine_gone (mc_next c) ?s)"
        using L Inr x ch q by (simp split: wait_result.splits)
      have st: "mc_stage ?e = Entered spec' m" "choose_engine E is_dir path spec' m (mc_sup ?e) = (Inr cmd, s2)" "mc_next ?e = mc_next c"
        using ch q by simp_all
      have "\<exists>c'. sup_step\<^sup>*\<^sup>* ?e c' \<and> mc_sup c' = (case wait (mc_next c) of
          BecameReady \<Rightarrow> engine_ready now (Suc (mc_next c)) ?s | Failed e \<Rightarrow> engine_gone (mc_next c) ?s) \<and> mc_stage c' = NoLoad"
        using started_run [OF st(1,2), where wait = wait and now = now] by (simp only: st(3))
      then show ?thesis unfolding e using rtranclp_trans [OF run1] by metis
    qed
  qed
qed

section \<open>The prober\<close>

text \<open>
  The specification of the loop: the rounds in which nothing was heard for thirty seconds and the probe
  failed; the engine is given up when three of them stand in a row.
\<close>

definition heard_at :: "round \<Rightarrow> int \<Rightarrow> int" where
  "heard_at r a = (case rd_heard r of Some t \<Rightarrow> t | None \<Rightarrow> a)"

fun strikes :: "int \<Rightarrow> round list \<Rightarrow> bool list" where
  "strikes a [] = []"
| "strikes a (r # rs) =
     (let a = heard_at r a; idle = (30 * second \<le> rd_now r - a)
      in (idle \<and> \<not> rd_ok r) # strikes (if idle \<and> rd_ok r then rd_now r else a) rs)"

fun third_strike :: "nat \<Rightarrow> bool list \<Rightarrow> bool" where
  "third_strike n [] = False"
| "third_strike n (b # bs) = (if b then 3 \<le> Suc n \<or> third_strike (Suc n) bs else third_strike 0 bs)"

lemma hear_fields [simp]: "su_ready (hear h s) = su_ready s" "su_activity (hear h s) = (case h of Some t \<Rightarrow> t | None \<Rightarrow> su_activity s)"
  by (simp_all add: hear_def RecordActivity_def split: option.split)

lemma prober_counts:
  "su_ready s \<Longrightarrow> (\<exists>s'. startLivenessProber rs p s = Dead s') = third_strike (pb_failures p) (strikes (su_activity s) rs)"
proof (induction rs arbitrary: p s)
  case (Cons r rs)
  let ?s = "hear (rd_heard r) s"
  have a: "su_activity ?s = heard_at r (su_activity s)" by (simp add: heard_at_def)
  have ready: "su_ready ?s" using Cons.prems by simp
  show ?case
  proof (cases "30 * second \<le> rd_now r - heard_at r (su_activity s)")
    case False
    then show ?thesis using Cons.IH [OF ready, of "p\<lparr> pb_failures := 0 \<rparr>"] a ready
      by (simp add: prober_tick_def Let_def)
  next
    case idle: True
    show ?thesis
    proof (cases "rd_ok r")
      case True
      have "su_ready (RecordActivity (rd_now r) ?s)" using ready by simp
      from Cons.IH [OF this, of "p\<lparr> pb_failures := 0, pb_probing := False \<rparr>"] True idle a ready show ?thesis
        by (simp add: prober_tick_def probe_answer_def RecordActivity_def Let_def)
    next
      case False
      then show ?thesis using Cons.IH [OF ready, of "p\<lparr> pb_failures := Suc (pb_failures p), pb_probing := False \<rparr>"] idle a ready
        by (simp add: prober_tick_def probe_answer_def Let_def)
    qed
  qed
qed simp

lemma third_strike_row:
  "n < 3 \<Longrightarrow> third_strike n bs \<longleftrightarrow>
     (\<exists>cs. bs = replicate (3 - n) True @ cs) \<or> (\<exists>as cs. bs = as @ replicate 3 True @ cs)"
proof (induction bs arbitrary: n)
  case (Cons b bs)
  have row: "(\<exists>as cs. b # bs = as @ replicate 3 True @ cs) \<longleftrightarrow>
      (\<exists>cs. b # bs = replicate 3 True @ cs) \<or> (\<exists>as cs. bs = as @ replicate 3 True @ cs)"
    by (metis append_Cons append_Nil list.exhaust list.inject)
  have start: "(\<exists>cs. b # bs = replicate (3 - k) True @ cs) \<longleftrightarrow> b \<and> (\<exists>cs. bs = replicate (2 - k) True @ cs)" if "k < 3" for k
  proof -
    have "3 - k = Suc (2 - k)" using that by simp
    then show ?thesis by auto
  qed
  have two: "\<exists>cs. bs = replicate (2 - n) True @ cs" if "bs = replicate 2 True @ cs" for cs
  proof -
    have "replicate 2 True = replicate (2 - n) True @ replicate (2 - (2 - n)) True" by (simp flip: replicate_add)
    then show ?thesis using that by (metis append.assoc)
  qed
  show ?case
  proof (cases b)
    case False
    then show ?thesis using Cons.IH [of 0] row start [of 0] start [OF Cons.prems] by simp (metis append_Nil)
  next
    case True
    show ?thesis
    proof (cases "n = 2")
      case True
      then show ?thesis using \<open>b\<close> by (simp add: numeral_2_eq_2 numeral_3_eq_3)
    next
      case False
      then have n: "Suc n < 3" "3 - Suc n = 2 - n" using Cons.prems by auto
      have "third_strike n (b # bs) = third_strike (Suc n) bs" using \<open>b\<close> n(1) by simp
      moreover have "(\<exists>cs. b # bs = replicate 3 True @ cs) \<Longrightarrow> \<exists>cs. bs = replicate (2 - n) True @ cs"
        using start [of 0] two by auto
      ultimately show ?thesis unfolding row start [OF Cons.prems] Cons.IH [OF n(1)] n(2) using \<open>b\<close> by blast
    qed
  qed
qed simp

text \<open>
  C31: The liveness prober of a ready engine gives it up exactly when three consecutive ticks each found
  it silent for thirty seconds and failing the probe; one success or any activity in between starts the
  count again.
\<close>

theorem three_strikes:
  assumes "su_ready s"
  shows "(\<exists>s'. startLivenessProber rs (fresh_prober i) s = Dead s') \<longleftrightarrow>
    (\<exists>before after. strikes (su_activity s) rs = before @ [True, True, True] @ after)"
proof -
  have "replicate 3 True = [True, True, True]" by (simp add: numeral_3_eq_3)
  then show ?thesis
    unfolding prober_counts [OF assms] using third_strike_row [of 0 "strikes (su_activity s) rs"]
    by (simp add: fresh_prober_def) (metis append_Nil)
qed

section \<open>What a load does not wait for\<close>

text \<open>A load that neither the specification nor the environment stops, from the point where the old engine is gone.\<close>

lemma valid_load_runs:
  fixes E :: load_env and c :: machine_state
  assumes "mc_stage c = Begun spec None" "validate_spec spec = None" "\<not> pe_gpu_locked (le_probe E)"
  shows "\<exists>c'. sup_step\<^sup>*\<^sup>* c c' \<and> mc_stage c' = NoLoad \<and> su_ready (mc_sup c') \<and> su_cmd (mc_sup c') = Some (mc_next c) \<and>
    mc_alive c' = insert (mc_next c) (mc_alive c) \<and> su_fatal (mc_sup c') = su_fatal (mc_sup c) \<and> mc_probers c' = mc_probers c @ [fresh_prober (Suc (mc_next c))] \<and>
    mc_watched c' = insert (mc_next c) (mc_watched c) \<and> su_live (mc_sup c') = Some (Suc (mc_next c)) \<and> su_activity (mc_sup c') = now \<and>
    mc_next c' = Suc (Suc (mc_next c))"
proof -
  obtain x where x: "admit_spec E spec (mc_sup c) = Inr x" using assms(2) by (simp add: admit_spec_def Let_def)
  obtain spec' m s1 where xs: "x = (spec', m, s1)" by (metis prod_cases3)
  note a = admit_spec_keeps [OF x [unfolded xs]]
  obtain cmd s2 where c: "choose_engine E (\<lambda>_. False) None spec' m s1 = (Inr cmd, s2)"
    using assms(3) by (simp add: choose_engine_def)
  note k = choose_engine_keeps [OF c]
  let ?e = "c\<lparr> mc_sup := s1, mc_stage := Entered spec' m \<rparr>"
  let ?w = "?e\<lparr> mc_sup := s2\<lparr> su_cmd := Some (mc_next ?e) \<rparr>, mc_stage := Waiting (mc_next ?e),
          mc_alive := insert (mc_next ?e) (mc_alive ?e), mc_next := Suc (mc_next ?e) \<rparr>"
  have "sup_step c ?e" by (rule sup_step.load_entered [OF assms(1)]) (use x xs in simp)
  moreover have "sup_step ?e ?w" by (rule sup_step.engine_started) (use c in simp_all)
  moreover note sup_step.became_ready [of ?w "mc_next c" now]
  ultimately have "sup_step\<^sup>*\<^sup>* c (?w\<lparr> mc_sup := engine_ready now (mc_next ?w) (mc_sup ?w), mc_stage := NoLoad,
      mc_watched := insert (mc_next c) (mc_watched ?w), mc_probers := mc_probers ?w @ [fresh_prober (mc_next ?w)],
      mc_cancelled := cancel (su_live (mc_sup ?w)) (mc_cancelled ?w), mc_next := Suc (mc_next ?w) \<rparr>)"
    using sup_trans [OF sup_trans [OF r_into_rtranclp]] by simp
  then show ?thesis using a k by (intro exI conjI) (assumption | simp add: engine_ready_def RecordActivity_def)+
qed

lemma late_probe_fatal:
  assumes "mc_stage c = Begun spec None" "validate_spec spec = None"
    and "mc_probers c = xs @ p # ys" "pb_probing p" "pb_failures p = 2"
  shows "\<exists>c' pid. sup_step\<^sup>*\<^sup>* c c' \<and> mc_stage c' = NoLoad \<and> su_ready (mc_sup c') \<and> su_cmd (mc_sup c') = Some pid \<and>
    pid \<in> mc_alive c' \<and> su_fatal (mc_sup c') = Some probe_text"
proof -
  have dead: "probe_answer False 0 p (mc_sup c) = (None, declare_dead (mc_sup c))"
    using assms(5) by (simp add: probe_answer_def)
  obtain d where d: "sup_step c d" "mc_stage d = Begun spec None" "su_fatal (mc_sup d) = Some probe_text"
    using sup_step.declared_dead [OF assms(3,4) dead] assms(1) by (fastforce simp: declare_dead_def)
  obtain c' where "sup_step\<^sup>*\<^sup>* d c'" "mc_stage c' = NoLoad" "su_ready (mc_sup c')" "su_cmd (mc_sup c') = Some (mc_next d)"
      "mc_next d \<in> mc_alive c'" "su_fatal (mc_sup c') = su_fatal (mc_sup d)"
    using valid_load_runs [OF d(2) assms(2), of "\<lparr> le_machine = undefined, le_probe = undefined\<lparr> pe_gpu_locked := False \<rparr>,
      le_hub = undefined, le_environment = None, le_no_gpu = undefined \<rparr>" 0] by auto
  then show ?thesis using d by (metis converse_rtranclp_into_rtranclp)
qed

lemma probe_starts:
  assumes "mc_probers c = [p]" "\<not> pb_probing p" "su_ready (mc_sup c)" "su_activity (mc_sup c) = 0"
  shows "sup_step c (c\<lparr> mc_probers := [p\<lparr> pb_probing := True \<rparr>] \<rparr>)"
  using sup_step.prober_ticks [of c "[]" p "[]" "30 * second" "p\<lparr> pb_probing := True \<rparr>"] assms
  by (simp add: prober_tick_def)

lemma failing_round:
  assumes "mc_probers c = [p]" "\<not> pb_probing p" "su_ready (mc_sup c)" "su_activity (mc_sup c) = 0" "pb_failures p < 2"
  shows "sup_step\<^sup>*\<^sup>* c (c\<lparr> mc_probers := [p\<lparr> pb_failures := Suc (pb_failures p), pb_probing := False \<rparr>] \<rparr>)"
proof -
  let ?d = "c\<lparr> mc_probers := [p\<lparr> pb_probing := True \<rparr>] \<rparr>"
  have "sup_step ?d (c\<lparr> mc_probers := [p\<lparr> pb_failures := Suc (pb_failures p), pb_probing := False \<rparr>] \<rparr>)"
    using sup_step.probe_answered [of ?d "[]" "p\<lparr> pb_probing := True \<rparr>" "[]" False 0
        "p\<lparr> pb_failures := Suc (pb_failures p), pb_probing := False \<rparr>" "mc_sup c"] assms(5)
    by (simp add: probe_answer_def)
  then show ?thesis using sup_trans [OF r_into_rtranclp [of sup_step, OF probe_starts [OF assms(1-4)]]] by simp
qed

lemma reachable_run: "sup_step\<^sup>*\<^sup>* a b \<Longrightarrow> sup_reachable s0 a \<Longrightarrow> sup_reachable s0 b"
  by (induction rule: rtranclp_induct) (auto intro: reach_step)

lemma late_probe_reachable:
  assumes "validate_spec spec = None"
  shows "\<exists>c p. sup_reachable s0 c \<and> mc_stage c = Begun spec None \<and> mc_probers c = [p] \<and> pb_probing p \<and> pb_failures p = 2"
proof -
  let ?E = "\<lparr> le_machine = undefined, le_probe = undefined\<lparr> pe_gpu_locked := False \<rparr>,
      le_hub = undefined, le_environment = None, le_no_gpu = undefined \<rparr> :: load_env"
  obtain a where b: "sup_step\<^sup>*\<^sup>* (start_state s0) a" "mc_stage a = Begun spec None" "mc_probers a = []"
    using load_enters [of "start_state s0" spec] by (fastforce simp: start_state_def)
  obtain c where c: "sup_step\<^sup>*\<^sup>* a c" "mc_stage c = NoLoad" "su_ready (mc_sup c)" "su_activity (mc_sup c) = 0"
      "mc_probers c = [fresh_prober (Suc (mc_next a))]"
    using valid_load_runs [OF b(2) assms, of ?E 0] b(3) by auto
  define p where "p = fresh_prober (Suc (mc_next a))"
  have p: "\<not> pb_probing p" "pb_failures p = 0" by (simp_all add: p_def fresh_prober_def)
  let ?c1 = "c\<lparr> mc_probers := [p\<lparr> pb_failures := 1, pb_probing := False \<rparr>] \<rparr>"
  let ?c2 = "c\<lparr> mc_probers := [p\<lparr> pb_failures := 2, pb_probing := False \<rparr>] \<rparr>"
  let ?c3 = "c\<lparr> mc_probers := [p\<lparr> pb_failures := 2, pb_probing := True \<rparr>] \<rparr>"
  have "sup_step\<^sup>*\<^sup>* c ?c1" using failing_round [of c p] c p by (simp add: p_def)
  also have "sup_step\<^sup>*\<^sup>* ?c1 ?c2"
    using failing_round [of ?c1 "p\<lparr> pb_failures := 1, pb_probing := False \<rparr>"] c by (simp add: numeral_2_eq_2)
  also have "sup_step\<^sup>*\<^sup>* ?c2 ?c3"
    using probe_starts [of ?c2 "p\<lparr> pb_failures := 2, pb_probing := False \<rparr>"] c by auto
  finally have run: "sup_step\<^sup>*\<^sup>* c ?c3" .
  obtain d where d: "sup_step\<^sup>*\<^sup>* ?c3 d" "mc_stage d = Begun spec None" "mc_probers d = mc_probers ?c3"
    using load_enters [of ?c3 spec] c(2) by fastforce
  have "sup_reachable s0 d"
    using reach_start reachable_run b(1) c(1) run d(1) by (meson rtranclp_trans)
  then show ?thesis using d by fastforce
qed

text \<open>
  A probe of the old engine that is under way when a valid load begins can fail after the load
  cleared the fatal error: the supervisor then reaches a state in which the new engine is alive, current
  and ready while the fatal error of the old one stands.
\<close>

theorem stale_fatal_error:
  assumes "validate_spec spec = None"
  shows "\<exists>c pid. sup_reachable s0 c \<and> mc_stage c = NoLoad \<and> su_ready (mc_sup c) \<and> su_cmd (mc_sup c) = Some pid \<and>
    pid \<in> mc_alive c \<and> su_fatal (mc_sup c) = Some probe_text"
proof -
  obtain b p where b: "sup_reachable s0 b" "mc_stage b = Begun spec None" "mc_probers b = [] @ p # []" "pb_probing p" "pb_failures p = 2"
    using late_probe_reachable [OF assms, of s0] by auto
  from late_probe_fatal [OF b(2) assms b(3-5)] show ?thesis using reachable_run b(1) by meson
qed

text \<open>An engine that outlives its kill is not waited for: the next one becomes ready beside it.\<close>

lemma survivor_beside_new:
  assumes "validate_spec spec = None"
  shows "\<exists>c p q. sup_reachable s0 c \<and> mc_stage c = NoLoad \<and> su_ready (mc_sup c) \<and> su_cmd (mc_sup c) = Some q \<and>
    p \<noteq> q \<and> {p, q} \<subseteq> mc_alive c"
proof -
  let ?E = "\<lparr> le_machine = undefined, le_probe = undefined\<lparr> pe_gpu_locked := False \<rparr>,
      le_hub = undefined, le_environment = None, le_no_gpu = undefined \<rparr> :: load_env"
  obtain a where a: "sup_step\<^sup>*\<^sup>* (start_state s0) a" "mc_stage a = Begun spec None"
    using load_enters [of "start_state s0" spec] by (fastforce simp: start_state_def)
  obtain b where b: "sup_step\<^sup>*\<^sup>* a b" "mc_stage b = NoLoad" "su_cmd (mc_sup b) = Some (mc_next a)" "mc_next a \<in> mc_alive b"
      "mc_next b = Suc (Suc (mc_next a))"
    using valid_load_runs [OF a(2) assms, of ?E 0] by auto
  let ?d = "b\<lparr> mc_sup := begin_load (mc_sup b), mc_stage := Begun spec (Some (mc_next a)),
      mc_cancelled := cancel (su_live (mc_sup b)) (mc_cancelled b) \<rparr>"
  have "sup_step b ?d" using sup_step.load_begins [OF b(2), of spec] b(3) by simp
  moreover have "sup_step ?d (?d\<lparr> mc_stage := Begun spec None \<rparr>)" by (rule sup_step.old_survives) simp
  ultimately have run: "sup_step\<^sup>*\<^sup>* b (?d\<lparr> mc_stage := Begun spec None \<rparr>)" by (rule sup_trans [OF r_into_rtranclp])
  obtain c where c: "sup_step\<^sup>*\<^sup>* (?d\<lparr> mc_stage := Begun spec None \<rparr>) c" "mc_stage c = NoLoad" "su_ready (mc_sup c)"
      "su_cmd (mc_sup c) = Some (mc_next b)" "mc_alive c = insert (mc_next b) (mc_alive b)"
    using valid_load_runs [of "?d\<lparr> mc_stage := Begun spec None \<rparr>" spec ?E 0, OF _ assms] by auto
  have "sup_reachable s0 c"
    using reachable_run [OF c(1) reachable_run [OF run reachable_run [OF b(1) reachable_run [OF a(1) reach_start]]]] .
  then show ?thesis using b c by (intro exI [of _ c] exI [of _ "mc_next a"] exI [of _ "mc_next b"]) simp
qed

text \<open>A load that is refused has already given up the engine that ran: even an empty request stops it.\<close>

lemma refused_load_stops_engine:
  "validate_spec spec = Some e \<Longrightarrow> LoadModel E is_dir path start wait now prober spec s = (Some e, begin_load s)"
  by (simp add: LoadModel_def admit_spec_def)

text \<open>The watcher of an engine that is no longer the current one cancels the prober of the current one.\<close>

lemma late_watcher_cancels_prober:
  assumes "mc_stage c = NoLoad" "old \<in> mc_watched c" "old \<notin> mc_alive c" "su_cmd (mc_sup c) = Some p" "p \<noteq> old"
    and "su_ready (mc_sup c)" "su_live (mc_sup c) = Some i"
  shows "\<exists>c'. sup_step c c' \<and> su_ready (mc_sup c') \<and> su_cmd (mc_sup c') = Some p \<and> su_live (mc_sup c') = None \<and> i \<in> mc_cancelled c'"
  by (rule exI, rule conjI, rule sup_step.exit_noticed [OF assms(2,3)]) (use assms in \<open>simp add: cancel_def\<close>)

text \<open>The fields of a specification that nothing checks reach the command line as they are.\<close>

lemma unchecked_quantization:
  "validate_spec spec = validate_spec (spec\<lparr> ms_quantization := q, ms_tool_call_parser := t, ms_reasoning_parser := r \<rparr>)"
  by (simp add: validate_spec_def)

section \<open>The endpoint and the supervisor\<close>

lemma written_status [simp]: "o_status (write_json st j w) = (if o_status w = None then Some st else o_status w)"
  "o_status (set_json w) = o_status w"
  by (simp_all add: write_json_def out_write_def out_write_header_def set_json_def set_header_def)

text \<open>What the endpoint relies on: after a load without error the model runs, after one with an error none does.\<close>

locale model_loader =
  fixes load :: "model_spec \<Rightarrow> 's \<Rightarrow> string option \<times> 's" and view :: "'s \<Rightarrow> supervisor" and accepts :: "model_spec \<Rightarrow> bool"
  assumes loaded: "load spec s = (None, s') \<Longrightarrow> accepts spec \<and> sv_ready (view s') \<and> sv_model (view s') = ms_model spec \<and>
      sv_fatal (view s') = None \<and> sv_expose (view s') = (ms_expose_in_health spec = Some True) \<and> 0 < sv_active_context (view s')"
    and failed: "load spec s = (Some e, s') \<Longrightarrow> \<not> sv_ready (view s')"
begin

lemma completion:
  assumes "nd_supervisor nd = view s" "w_load W spec (view s) = map_prod id view (load spec s)" "o_status w = None"
    and "load_completion W spec w nd = (w', nd', effs)"
  shows "o_status w' = Some 200 \<and> accepts spec \<and> sv_ready (nd_supervisor nd') \<and> sv_model (nd_supervisor nd') = ms_model spec \<and>
      sv_fatal (nd_supervisor nd') = None \<and> sv_expose (nd_supervisor nd') = (ms_expose_in_health spec = Some True)
    \<or> o_status w' \<in> {Some 400, Some 500} \<and> \<not> sv_ready (nd_supervisor nd')"
proof (cases "load spec s")
  case (Pair r s')
  show ?thesis
  proof (cases r)
    case None
    then show ?thesis using assms Pair loaded [of spec s s'] by (auto simp: load_completion_def Let_def)
  next
    case (Some e)
    have "load_status e \<in> {400, 500}" by (simp add: load_status_def)
    then show ?thesis using assms Pair Some failed [of spec s e s'] by (auto simp: load_completion_def json_error_def Let_def)
  qed
qed

end

lemma sup_view_fields [simp]: "sv_ready (sup_view s) = su_ready s" "sv_model (sup_view s) = su_model s"
  "sv_expose (sup_view s) = su_expose s" "sv_fatal (sup_view s) = su_fatal s" "sv_active_context (sup_view s) = su_active_context s"
  by (simp_all add: sup_view_def)

lemma load_succeeds: "LoadModel E is_dir path start wait now i spec s = (None, s') \<Longrightarrow>
    validate_spec spec = None \<and> su_ready s' \<and> su_model s' = ms_model spec \<and> su_fatal s' = None \<and>
    su_expose s' = (ms_expose_in_health spec = Some True) \<and> 0 < su_active_context s'"
  and load_fails: "LoadModel E is_dir path start wait now i spec s = (Some e, s') \<Longrightarrow> \<not> su_ready s'"
  using load_result [where E = E and spec = spec and s = s and prober = i and is_dir = is_dir and path = path and start = start and wait = wait and now = now] by simp_all

interpretation sl: model_loader "LoadModel E is_dir path start wait now i" sup_view "\<lambda>spec. validate_spec spec = None"
  by unfold_locales (auto dest: load_succeeds load_fails)

text \<open>
  C30: The load endpoint composed with the supervisor: its reply is 200 exactly for a checked
  specification whose model is then ready under the requested name and exposure with no fatal error, and
  otherwise 400 or 500 with no engine ready.
\<close>

theorem load_endpoint_outcome:
  assumes "nd_supervisor nd = sup_view s" "o_status w = None"
    and "w_load W spec (sup_view s) = map_prod id sup_view (LoadModel E is_dir path start wait now i spec s)"
    and "load_completion W spec w nd = (w', nd', effs)"
  shows "o_status w' = Some 200 \<and> validate_spec spec = None \<and> sv_ready (nd_supervisor nd') \<and>
      sv_model (nd_supervisor nd') = ms_model spec \<and> sv_fatal (nd_supervisor nd') = None \<and>
      sv_expose (nd_supervisor nd') = (ms_expose_in_health spec = Some True)
    \<or> o_status w' \<in> {Some 400, Some 500} \<and> \<not> sv_ready (nd_supervisor nd')"
  using sl.completion [OF assms(1,3,2,4)] .

section \<open>Samples\<close>

definition plain_spec :: model_spec where
  "plain_spec = \<lparr> ms_model = ''a/b'', ms_hf_file = '''', ms_hf_token = '''', ms_context_size = 0, ms_temperature = '''', ms_quantization = '''',
     ms_bitsandbytes = None, ms_gguf = None, ms_tokenizer = '''', ms_gpu_layers = 0, ms_threads = 0, ms_expose_in_health = Some False,
     ms_tool_call_parser = '''', ms_enable_thinking = None, ms_reasoning_parser = '''' \<rparr>"

lemma plain_spec_valid: "validate_spec plain_spec = None"
  by (simp add: validate_spec_def plain_spec_def bad_argument_def ContainsAny_def HasPrefix_def TrimSpace_def
      shell_chars_def is_space_def)

definition plain_env :: load_env where
  "plain_env = \<lparr> le_machine = \<lparr> m_exists = (\<lambda>_. False), m_read = (\<lambda>_. None), m_glob = (\<lambda>_. []) \<rparr>,
     le_probe = \<lparr> pe_cpus = 8, pe_gpu_locked = False, pe_smi = None, pe_smi_memory = None, pe_parse_float = (\<lambda>_. None) \<rparr>,
     le_hub = (\<lambda>_ _. None), le_environment = None, le_no_gpu = (\<lambda>_. '''') \<rparr>"

definition plain_sup :: sup where
  "plain_sup = NewSupervisor 0 0 demo_topology False (\<lambda>_. '''')"

lemma no_flag_injection_witness:
  "list_all plain_arg (BuildVLLMArgs plain_spec demo_topology 1 8000 [''serve''])"
  by (rule no_flag_injection) (simp_all add: plain_spec_valid plain_arg_def HasPrefix_def plain_spec_def [THEN arg_cong [where f = ms_quantization]]
      plain_spec_def [THEN arg_cong [where f = ms_tool_call_parser]] plain_spec_def [THEN arg_cong [where f = ms_reasoning_parser]])

lemma plain_runs: "\<exists>b p. sup_reachable plain_sup b \<and> su_ready (mc_sup b) \<and> su_cmd (mc_sup b) = Some p"
proof -
  obtain a where a: "sup_step\<^sup>*\<^sup>* (start_state plain_sup) a" "mc_stage a = Begun plain_spec None"
    using load_enters [of "start_state plain_sup" plain_spec] by (fastforce simp: start_state_def)
  obtain b where b: "sup_step\<^sup>*\<^sup>* a b" "su_ready (mc_sup b)" "su_cmd (mc_sup b) = Some (mc_next a)"
    using valid_load_runs [OF a(2) plain_spec_valid, of plain_env 0] by (auto simp: plain_env_def)
  then show ?thesis using reachable_run [OF b(1) reachable_run [OF a(1) reach_start]] by blast
qed

lemma supervisor_invariant_witness:
  "\<exists>c p. sup_reachable plain_sup c \<and> su_ready (mc_sup c) \<and> mc_stage c = NoLoad \<and> p \<in> mc_watched c"
proof -
  obtain b p where b: "sup_reachable plain_sup b" "su_ready (mc_sup b)" "su_cmd (mc_sup b) = Some p" using plain_runs by blast
  with supervisor_invariant [OF b(1) [unfolded plain_sup_def]] show ?thesis by auto
qed

lemma dead_engine_noticed_witness:
  "\<exists>c c' p. sup_reachable plain_sup c \<and> su_ready (mc_sup c) \<and> p \<notin> mc_alive c \<and> su_cmd (mc_sup c) = Some p \<and>
     sup_step c c' \<and> su_cmd (mc_sup c') = None \<and> \<not> su_ready (mc_sup c')"
proof -
  obtain b p where b: "sup_reachable plain_sup b" "su_ready (mc_sup b)" "su_cmd (mc_sup b) = Some p" using plain_runs by blast
  let ?c = "b\<lparr> mc_alive := mc_alive b - {p} \<rparr>"
  have r: "sup_reachable plain_sup ?c" by (rule reach_step [OF b(1) sup_step.engine_exits])
  have "su_cmd (mc_sup ?c) = Some p" "p \<notin> mc_alive ?c" "su_ready (mc_sup ?c)" using b by simp_all
  with dead_engine_noticed [OF r [unfolded plain_sup_def], of p] r show ?thesis by blast
qed

lemma three_strikes_witness:
  "\<exists>s'. startLivenessProber (replicate 3 \<lparr> rd_heard = None, rd_now = 30 * second, rd_ok = False \<rparr>) (fresh_prober 7)
     (plain_sup\<lparr> su_ready := True \<rparr>) = Dead s'"
proof -
  have "strikes (su_activity (plain_sup\<lparr> su_ready := True \<rparr>)) (replicate 3 \<lparr> rd_heard = None, rd_now = 30 * second, rd_ok = False \<rparr>)
      = [] @ [True, True, True] @ []"
    by (simp add: plain_sup_def NewSupervisor_def heard_at_def numeral_3_eq_3 Let_def)
  with three_strikes [of "plain_sup\<lparr> su_ready := True \<rparr>"] show ?thesis by fastforce
qed

lemma stale_fatal_error_witness:
  "\<exists>c pid. sup_reachable plain_sup c \<and> su_ready (mc_sup c) \<and> pid \<in> mc_alive c \<and> su_fatal (mc_sup c) = Some probe_text"
  using stale_fatal_error [OF plain_spec_valid, of plain_sup] by blast

definition loading_world :: "sup \<Rightarrow> world" where
  "loading_world s = \<lparr> w_now = 0, w_clk = (\<lambda>_. 0), w_machine = le_machine plain_env, w_nonce_param = '''', w_slot_free = True,
     w_egress_error = None, w_dial = (\<lambda>_ _. (None, 0)), w_engine = (\<lambda>_. ClientGone),
     w_load = (\<lambda>spec _. map_prod id sup_view
       (LoadModel plain_env (\<lambda>_. False) None (\<lambda>_. Inr 0) (\<lambda>_. BecameReady) 0 1 spec s)) \<rparr>"

lemma load_endpoint_outcome_witness:
  "\<forall>v. \<exists>w' nd' effs. load_completion (loading_world plain_sup) plain_spec fresh_response
     \<lparr> nd_verifier = v, nd_policy = default_policy, nd_sealed = False, nd_doc = None, nd_supervisor = sup_view plain_sup \<rparr> = (w', nd', effs)
     \<and> (o_status w' = Some 200 \<longleftrightarrow> sv_ready (nd_supervisor nd'))"
  (is "\<forall>v. \<exists>w' nd' effs. ?L v = (w', nd', effs) \<and> _")
proof
  fix v
  obtain w' nd' effs where e: "?L v = (w', nd', effs)" by (cases "?L v")
  with load_endpoint_outcome [OF _ _ _ e, of plain_sup plain_env "\<lambda>_. False" None "\<lambda>_. Inr 0" "\<lambda>_. BecameReady" 0 1]
  show "\<exists>w' nd' effs. ?L v = (w', nd', effs) \<and> (o_status w' = Some 200 \<longleftrightarrow> sv_ready (nd_supervisor nd'))"
    by (auto simp: fresh_response_def loading_world_def)
qed

end
