(* ===== verification/EngineService.thy ===== *)
theory EngineService
  imports SupervisorSafety
begin

text \<open>
  What the supervisor promises to its clients, stated without its flags, its stages, its processes and its
  probers: a service that rests, checks a specification, starts a model or serves one. Every step of the
  supervisor, in any interleaving, is a step of that service or leaves it as it is. Then a case in which the
  service serves a model with no engine behind it.
\<close>

section \<open>The service\<close>

text \<open>Which specifications are to be served, in words of their own.\<close>

definition harmless :: "string \<Rightarrow> bool" where
  "harmless w \<longleftrightarrow> take 1 w \<noteq> ''-'' \<and> set w \<inter> ({CHR 0x00, CHR 0x09, CHR 0x0A, CHR 0x0D} \<union> set '';`$|&<>'') = {}"

definition acceptable :: "model_spec \<Rightarrow> bool" where
  "acceptable spec \<longleftrightarrow> (\<exists>c\<in>set (ms_model spec). \<not> is_space c) \<and> harmless (ms_model spec) \<and> harmless (ms_hf_file spec) \<and>
     harmless (ms_tokenizer spec) \<and> set (ms_hf_token spec) \<inter> {CHR 0x00, CHR 0x0A, CHR 0x0D} = {} \<and> ms_expose_in_health spec \<noteq> None"

text \<open>
  A model is started or served under its name and with the exposure its request chose; the service knows the
  engine behind the model it serves, and the engines whose exit it attends to.
\<close>

datatype service = Resting | Checking model_spec | Launching string bool | Offering string bool "nat option"

definition offered :: "service \<Rightarrow> bool" where
  "offered v = (case v of Offering _ _ _ \<Rightarrow> True | _ \<Rightarrow> False)"

text \<open>
  A request ends what is served at once; only an acceptable one is launched, and only one that is not is
  refused; a launch fails, or its model is served by a new engine (or by none, when a late probe took it);
  the exit of the engine that serves ends the service, that of another does not.
\<close>

inductive service_step :: "service \<times> nat set \<Rightarrow> service \<times> nat set \<Rightarrow> bool" where
  unmoved: "service_step a a"
| requested: "v = Resting \<or> offered v \<Longrightarrow> service_step (v, W) (Checking spec, W)"
| refused: "\<not> acceptable spec \<Longrightarrow> service_step (Checking spec, W) (Resting, W)"
| accepted: "acceptable spec \<Longrightarrow> ms_expose_in_health spec = Some x \<Longrightarrow>
     service_step (Checking spec, W) (Launching (ms_model spec) x, W)"
| failed: "service_step (Launching m x, W) (Resting, W)"
| up: "p \<notin> W \<Longrightarrow> e = Some p \<or> e = None \<Longrightarrow> service_step (Launching m x, W) (Offering m x e, insert p W)"
| exited: "p \<in> W \<Longrightarrow> v' = (case v of Offering m x (Some q) \<Rightarrow> if q = p then Resting else v | _ \<Rightarrow> v) \<Longrightarrow>
     service_step (v, W) (v', W - {p})"
| unresponsive: "offered v \<Longrightarrow> service_step (v, W) (Resting, W)"

section \<open>The supervisor as a service\<close>

definition serving :: "sup \<Rightarrow> load_stage \<Rightarrow> service" where
  "serving s stage =
     (if su_ready s then Offering (su_model s) (su_expose s) (su_cmd s)
      else case stage of
        NoLoad \<Rightarrow> Resting
      | Begun spec _ \<Rightarrow> Checking spec
      | Entered _ _ \<Rightarrow> Launching (su_model s) (su_expose s)
      | Waiting _ \<Rightarrow> Launching (su_model s) (su_expose s))"

definition service_of :: "machine_state \<Rightarrow> service \<times> nat set" where
  "service_of c = (serving (mc_sup c) (mc_stage c), mc_watched c)"

lemma trimmed_blank: "TrimSpace s = '''' \<longleftrightarrow> (\<forall>c\<in>set s. is_space c)"
  by (auto simp: TrimSpace_def dropWhile_eq_Nil_conv dest: set_dropWhileD)
     (metis Un_iff set_append takeWhile_dropWhile_id set_takeWhileD)

lemma harmless_argument: "harmless w \<longleftrightarrow> \<not> bad_argument w"
proof -
  have "HasPrefix w ''-'' \<longleftrightarrow> take 1 w = ''-''" by (cases w) (auto simp: HasPrefix_def)
  moreover have "ContainsAny w shell_chars \<longleftrightarrow> set w \<inter> ({CHR 0x00, CHR 0x09, CHR 0x0A, CHR 0x0D} \<union> set '';`$|&<>'') \<noteq> {}"
    by (auto simp: ContainsAny_def shell_chars_def list_ex_iff)
  ultimately show ?thesis by (simp add: harmless_def bad_argument_def)
qed

lemma validate_acceptable: "validate_spec spec = None \<longleftrightarrow> acceptable spec"
proof -
  have "ContainsAny t [CHR 0x00, CHR 0x0D, CHR 0x0A] \<longleftrightarrow> set t \<inter> {CHR 0x00, CHR 0x0A, CHR 0x0D} \<noteq> {}" for t
    by (auto simp: ContainsAny_def list_ex_iff)
  moreover have "\<not> bad_argument ''''" by (simp add: bad_argument_def ContainsAny_def HasPrefix_def)
  ultimately show ?thesis
    by (auto simp: validate_spec_def acceptable_def harmless_argument trimmed_blank ContainsAny_def)
qed

text \<open>The engine a load waits for is not yet attended to.\<close>

lemma waited_is_new:
  assumes "sup_reachable (NewSupervisor now port topo l f) c"
  shows "mc_stage c = Waiting p \<Longrightarrow> p \<notin> mc_watched c"
  using assms
proof (induction arbitrary: p)
  case reach_start
  then show ?case by (simp add: start_state_def)
next
  case (reach_step c c')
  have "\<forall>q\<in>mc_watched c. q < mc_next c" using new_reachable_ok [OF reach_step.hyps(1)] by (simp add: sup_ok_def)
  with reach_step.hyps(2) reach_step.IH reach_step.prems show ?case by cases auto
qed

lemma exposure_kept [simp]: "su_expose (begin_load s) = su_expose s" "su_expose (engine_gone p s) = su_expose s"
  "su_expose (engine_ready now i s) = su_expose s" "su_expose (RecordActivity now s) = su_expose s"
  by (simp_all add: begin_load_def engine_gone_def Let_def engine_ready_def RecordActivity_def)

lemma admit_spec_exposes: "admit_spec E spec s = Inr (spec', m, s') \<Longrightarrow> ms_expose_in_health spec = Some (su_expose s')"
  using validated(5) [of spec] by (auto simp: admit_spec_def Let_def split: option.splits)

lemma probe_answer_service:
  assumes "probe_answer ok now p s = (q, s')"
  shows "case q of
      Some _ \<Rightarrow> su_ready s' = su_ready s \<and> su_cmd s' = su_cmd s \<and> su_model s' = su_model s \<and> su_expose s' = su_expose s
    | None \<Rightarrow> \<not> su_ready s' \<and> su_model s' = su_model s \<and> su_expose s' = su_expose s"
  using assms by (auto simp: probe_answer_def declare_dead_def split: if_splits)

lemma serving_dead:
  assumes "sup_ok c" "\<not> su_ready s'" "su_model s' = su_model (mc_sup c)" "su_expose s' = su_expose (mc_sup c)"
  shows "service_step (serving (mc_sup c) (mc_stage c), W) (serving s' (mc_stage c), W)"
proof (cases "su_ready (mc_sup c)")
  case True
  then have "mc_stage c = NoLoad" using assms(1) by (auto simp: sup_ok_def)
  then show ?thesis using True assms(2) by (auto simp: serving_def offered_def intro: unresponsive)
next
  case False
  then have "serving s' (mc_stage c) = serving (mc_sup c) (mc_stage c)" using assms(2-) by (simp add: serving_def split: load_stage.split)
  then show ?thesis by (simp add: unmoved)
qed

text \<open>
  C29: Every step that the supervisor takes in a reachable state, by a load, an exit, a watcher or a prober, is
  one of the service: a request takes what is served out of service at once; only a specification that is
  acceptable is launched, under its name and exposure, and only one that is not is refused; what becomes ready
  is the model launched, on an engine not attended to before; and the exit of the engine that serves, and no
  other, ends the service.
\<close>

theorem supervisor_refines_service:
  assumes "sup_reachable (NewSupervisor now port topo l f) c" "sup_step c c'"
  shows "service_step (service_of c) (service_of c')"
proof -
  note ok = new_reachable_ok [OF assms(1), unfolded sup_ok_def]
  note new = waited_is_new [OF assms(1)]
  show ?thesis
    using assms(2)
  proof cases
    case (load_begins spec)
    then show ?thesis using ok by (auto simp: service_of_def serving_def offered_def intro: requested)
  next
    case (load_refused spec E e)
    then have "validate_spec spec \<noteq> None" by (auto simp: admit_spec_def Let_def split: option.splits)
    then have "\<not> acceptable spec" by (simp add: validate_acceptable)
    then show ?thesis using load_refused ok by (auto simp: service_of_def serving_def intro: refused)
  next
    case (load_entered spec E spec' m s)
    then have "acceptable spec" "ms_expose_in_health spec = Some (su_expose s)" "su_model s = ms_model spec" "\<not> su_ready s"
      using admit_spec_keeps [of E spec "mc_sup c" spec' m s] admit_spec_exposes [of E spec "mc_sup c" spec' m s] validate_acceptable ok
      by auto
    then show ?thesis using load_entered ok accepted [of spec "su_expose s"] by (simp add: service_of_def serving_def)
  next
    case (engine_refused spec m E is_dir path r s)
    then have "\<not> su_ready s" using choose_engine_keeps [of E is_dir path spec m "mc_sup c" r s] ok by simp
    then show ?thesis using engine_refused ok by (simp add: service_of_def serving_def failed)
  next
    case (engine_started spec m E is_dir path cmd s)
    then have "\<not> su_ready s" "su_model s = su_model (mc_sup c)" "su_expose s = su_expose (mc_sup c)"
      using choose_engine_keeps [of E is_dir path spec m "mc_sup c" "Inr cmd" s] ok by simp_all
    then show ?thesis using engine_started ok by (simp add: service_of_def serving_def unmoved)
  next
    case (became_ready pid now)
    then have "pid \<notin> mc_watched c" "su_cmd (mc_sup c) = Some pid \<or> su_cmd (mc_sup c) = None" "\<not> su_ready (mc_sup c)"
      using new ok by (cases "su_cmd (mc_sup c)"; auto)+
    then show ?thesis using became_ready by (auto simp: service_of_def serving_def intro: up)
  next
    case (gave_up pid)
    then show ?thesis using ok by (auto simp: service_of_def serving_def intro: failed)
  next
    case (exit_noticed pid)
    have v: "serving (engine_gone pid (mc_sup c)) (mc_stage c) =
        (case serving (mc_sup c) (mc_stage c) of
           Offering m x (Some q) \<Rightarrow> if q = pid then Resting else serving (mc_sup c) (mc_stage c)
         | _ \<Rightarrow> serving (mc_sup c) (mc_stage c))"
    proof (cases "su_ready (mc_sup c)")
      case True
      then have "mc_stage c = NoLoad" using ok by auto
      then show ?thesis using True by (simp add: serving_def split: option.split)
    next
      case False
      then show ?thesis by (simp add: serving_def split: load_stage.split)
    qed
    show ?thesis unfolding service_of_def exit_noticed(1) using exited [OF exit_noticed(2) v] by simp
  next
    case (probe_answered xs p ys ok now p' s)
    then have "serving s (mc_stage c) = serving (mc_sup c) (mc_stage c)"
      using probe_answer_service [OF probe_answered(4)] by (simp add: serving_def split: load_stage.split)
    then show ?thesis using probe_answered(1) by (simp add: service_of_def unmoved)
  next
    case (declared_dead xs p ys ok now s)
    then show ?thesis using serving_dead [OF new_reachable_ok [OF assms(1)]] probe_answer_service [OF declared_dead(4)]
      by (simp add: service_of_def)
  next
    case (dead_survives xs p ys ok now s)
    then show ?thesis using serving_dead [OF new_reachable_ok [OF assms(1)]] probe_answer_service [OF dead_survives(4)]
      by (simp add: service_of_def)
  qed (simp_all add: service_of_def serving_def unmoved split: load_stage.split)
qed

lemma supervisor_refines_service_witness:
  "\<exists>c c' p m x. sup_reachable plain_sup c \<and> sup_step c c' \<and> su_cmd (mc_sup c) = Some p \<and>
     service_of c = (Offering m x (Some p), mc_watched c) \<and> service_step (service_of c) (service_of c') \<and>
     service_of c' = (Resting, mc_watched c - {p})"
proof -
  obtain b p where b: "sup_reachable plain_sup b" "su_ready (mc_sup b)" "su_cmd (mc_sup b) = Some p" using plain_runs by blast
  let ?c = "b\<lparr> mc_alive := mc_alive b - {p} \<rparr>"
  let ?d = "?c\<lparr> mc_sup := engine_gone p (mc_sup ?c), mc_watched := mc_watched ?c - {p},
      mc_cancelled := cancel (su_live (mc_sup ?c)) (mc_cancelled ?c) \<rparr>"
  have r: "sup_reachable plain_sup ?c" by (rule reach_step [OF b(1) sup_step.engine_exits])
  have w: "p \<in> mc_watched b" "mc_stage b = NoLoad" using new_reachable_ok [OF b(1) [unfolded plain_sup_def]] b(2,3) by (auto simp: sup_ok_def)
  have s: "sup_step ?c ?d" by (rule sup_step.exit_noticed) (use w in simp_all)
  have "service_of ?c = (Offering (su_model (mc_sup b)) (su_expose (mc_sup b)) (Some p), mc_watched ?c)"
    "service_of ?d = (Resting, mc_watched ?c - {p})"
    using b(2,3) w by (simp_all add: service_of_def serving_def)
  moreover have "su_cmd (mc_sup ?c) = Some p" using b(3) by simp
  ultimately show ?thesis using supervisor_refines_service [OF r [unfolded plain_sup_def] s] r s
    by (intro exI [of _ ?c] exI [of _ ?d] exI [of _ p] exI [of _ "su_model (mc_sup b)"] exI [of _ "su_expose (mc_sup b)"]) (simp only: simp_thms)
qed

section \<open>Service without an engine\<close>

text \<open>
  A probe of the old engine that fails late takes away the engine that a load is waiting for: the load then
  declares a supervisor ready that has no current engine, and no exit of the engine ever ends that.
\<close>

lemma late_probe_takes_engine:
  assumes "mc_stage c = Waiting pid" "mc_probers c = xs @ p # ys" "pb_probing p" "pb_failures p = 2"
  shows "\<exists>c'. sup_step\<^sup>*\<^sup>* c c' \<and> service_of c' = (Offering (su_model (mc_sup c)) (su_expose (mc_sup c)) None, insert pid (mc_watched c))"
proof -
  let ?d = "c\<lparr> mc_sup := declare_dead (mc_sup c), mc_probers := xs @ ys \<rparr>"
  have "probe_answer False 0 p (mc_sup c) = (None, declare_dead (mc_sup c))" using assms(4) by (simp add: probe_answer_def)
  then have "sup_step c ?d" by (rule sup_step.dead_survives [OF assms(2,3)])
  from sup_trans [OF r_into_rtranclp [of sup_step, OF this] sup_step.became_ready [of ?d pid 0]] assms(1)
  show ?thesis by (fastforce simp: service_of_def serving_def declare_dead_def)
qed

lemma unattended_service_stays:
  assumes "p \<in> mc_watched c" "p \<notin> mc_alive c" "service_of c = (Offering m x None, mc_watched c)"
  shows "\<exists>c'. sup_step c c' \<and> service_of c' = (Offering m x None, mc_watched c - {p})"
  by (rule exI, rule conjI, rule sup_step.exit_noticed [OF assms(1,2)])
     (use assms(3) in \<open>auto simp: service_of_def serving_def split: if_splits load_stage.splits\<close>)

end
