(* ===== verification/EngineRuntime.thy ===== *)
theory EngineRuntime
  imports Supervisor
begin

text \<open>
  What surrounds the engine process (pkg/inference/supervisor.go): its termination and its sandbox, the wait
  for the driver to free memory, the answer that makes it ready, the caches and library links prepared for
  it, and the provisioning of the vLLM runtime. Operations on the system are recorded as effects.
\<close>

section \<open>Processes\<close>

datatype signal = SIGTERM | SIGKILL

text \<open>
  killProcessGroup: the signals to the group of the process, with what the process does after the first and
  after the second. The last component says whether the end of the process was seen.
\<close>

definition killProcessGroup :: "nat option \<Rightarrow> bool \<Rightarrow> bool \<Rightarrow> (int \<times> signal) list \<times> bool" where
  "killProcessGroup pid ends_in_2s ends_in_3s =
     (case pid of
        None \<Rightarrow> ([], False)
      | Some p \<Rightarrow>
          if p \<le> 1 then ([], False)
          else if ends_in_2s then ([(- int p, SIGTERM), (- int p, SIGKILL)], True)
          else ([(- int p, SIGTERM), (- int p, SIGKILL)], ends_in_3s))"

record sandbox =
  sb_setpgid :: bool
  sb_credential :: "(nat \<times> nat \<times> nat list) option"
  sb_new_ipc :: bool

definition configureSandboxProcAttr :: "nat \<Rightarrow> sandbox" where
  "configureSandboxProcAttr uid =
     (let a = \<lparr> sb_setpgid = True, sb_credential = None, sb_new_ipc = False \<rparr>
      in if uid = 0 then a\<lparr> sb_credential := Some (1000, 1000, [998]), sb_new_ipc := True \<rparr> else a)"

section \<open>Memory of the devices\<close>

definition gpu_line_clear :: "string \<Rightarrow> bool" where
  "gpu_line_clear line =
     (let line = TrimSpace line in
      line = '''' \<or> (case ParseInt64 line of Some usedMB \<Rightarrow> usedMB \<le> 500 | None \<Rightarrow> True))"

definition all_clear :: "string \<Rightarrow> bool" where
  "all_clear out = list_all gpu_line_clear (split_on (CHR 0x0A) (TrimSpace out))"

datatype clearance = NotNeeded | Unknown | Cleared | TimedOut

text \<open>The polls that begin before the deadline; a poll without output ends the wait.\<close>

fun wait_clear :: "string option list \<Rightarrow> clearance" where
  "wait_clear [] = TimedOut"
| "wait_clear (None # _) = Unknown"
| "wait_clear (Some out # rest) = (if all_clear out then Cleared else wait_clear rest)"

definition SynchronizeDriverVRAMClearance :: "topology \<Rightarrow> string option list \<Rightarrow> clearance" where
  "SynchronizeDriverVRAMClearance topo polls =
     (if \<not> tp_has_gpu topo \<or> tp_gpu_count topo \<le> 0 then NotNeeded else wait_clear polls)"

section \<open>Readiness\<close>

text \<open>The answer of the health endpoint that counts as ready: the first JSON value of the body is read; a body that does not decode has no status.\<close>

definition json_first :: "bytes \<Rightarrow> json option" where
  "json_first b =
     (let s = string_of b
      in case parse_value (2 * length s + 1) (skip_ws s) of
           Some (v, r) \<Rightarrow> if json_depth v \<le> max_nesting then Some v else None
         | None \<Rightarrow> None)"

definition health_status :: "bytes \<Rightarrow> string" where
  "health_status body =
     (case Option.bind (json_first body) as_members of
        None \<Rightarrow> ''''
      | Some ms \<Rightarrow> (case map_of (rev ms) ''status'' of Some (JStr s) \<Rightarrow> s | _ \<Rightarrow> ''''))"

definition health_ready :: "int \<Rightarrow> bytes \<Rightarrow> bool" where
  "health_ready status body \<longleftrightarrow> status = 200 \<and> health_status body \<in> {''ok'', ''ready'', ''''}"

text \<open>The last two hundred lines the engine wrote.\<close>

definition append_log :: "string \<Rightarrow> string list \<Rightarrow> string list" where
  "append_log line logs = (if 200 \<le> length logs then drop 1 logs else logs) @ [line]"

section \<open>Files\<close>

text \<open>
  What the supervisor does to the machine, with the modes as the system gets them. Owners are always the user
  and group 1000 of the sandbox. RunCommand is a program with its arguments and environment, run as the node
  itself; NvidiaNodes is the call of EnsureGPUDeviceNodes (KernelModules).
\<close>

datatype fs_effect =
    NvidiaNodes | RemoveFile string | RemoveAll string | MkdirAll string nat | Chmod string nat | Chown string
  | Symlink string string | Lchown string | WriteSentinel string | Rewrite string string
  | RunCommand string "string list" "string list"

text \<open>
  The machine at one moment: what is asked of it, the entries below a directory in the order of the walk,
  each with whether it is a directory, and the error and the output of a program that fails when it is run now.
\<close>

record runtime_env =
  re_uid :: nat
  re_exists :: "string \<Rightarrow> bool"
  re_lexists :: "string \<Rightarrow> bool"
  re_is_dir :: "string \<Rightarrow> bool"
  re_glob :: "string \<Rightarrow> string list"
  re_walk :: "string \<Rightarrow> (string \<times> bool) list"
  re_read :: "string \<Rightarrow> string option"
  re_uv :: "string option"
  re_python :: "string option"
  re_run :: "string \<Rightarrow> string list \<Rightarrow> (string \<times> string) option"

definition stale_artifact :: "string \<Rightarrow> bool" where
  "stale_artifact path \<longleftrightarrow> HasSuffix path ''.lock'' \<or> HasSuffix path ''.incomplete''"

definition jit_dirs :: "string list" where
  "jit_dirs = [''/mnt/ramdisk/tmp/triton'', ''/mnt/ramdisk/tmp/cuda_cache'', ''/mnt/ramdisk/tmp/torch_ext'',
     ''/mnt/ramdisk/tmp/flashinfer'', ''/mnt/ramdisk/home/.cache/flashinfer'']"

definition cache_dirs :: "string list" where
  "cache_dirs = [''/mnt/ramdisk/tmp/triton'', ''/mnt/ramdisk/tmp/cuda_cache'', ''/mnt/ramdisk/tmp/torch_ext'',
     ''/mnt/ramdisk/tmp/flashinfer'', ''/mnt/ramdisk/home/.cache'', ''/mnt/ramdisk/home/.cache/flashinfer'',
     ''/mnt/ramdisk/cache'', ''/mnt/ramdisk/cache/vllm'']"

definition chownRecursive :: "runtime_env \<Rightarrow> string \<Rightarrow> fs_effect list" where
  "chownRecursive E as_root =
     concat (map (\<lambda>(path, dir). Chown path # (if dir then [Chmod path (syscall_mode 511)] else [])) (re_walk E as_root))"

definition own_ramdisk :: "runtime_env \<Rightarrow> fs_effect list" where
  "own_ramdisk E =
     (if re_uid E = 0
      then chownRecursive E ''/mnt/ramdisk/home'' @ chownRecursive E ''/mnt/ramdisk/tmp'' @ chownRecursive E ''/mnt/ramdisk/cache''
      else [])"

text \<open>The artifacts are those of the first environment; the trees are handed over as the second one has them.\<close>

definition purge_artifacts :: "runtime_env \<Rightarrow> fs_effect list" where
  "purge_artifacts E =
     (if re_exists E ''/mnt/ramdisk/cache''
      then map (RemoveFile \<circ> fst) (filter (\<lambda>(path, dir). \<not> dir \<and> stale_artifact path) (re_walk E ''/mnt/ramdisk/cache''))
      else [])
     @ map RemoveAll jit_dirs
     @ concat (map (\<lambda>d. [MkdirAll d (syscall_mode 511), Chmod d (syscall_mode 511)]) cache_dirs)
     @ [Chmod ''/mnt/ramdisk/tmp'' (syscall_mode 1023)]"

text \<open>The machine of an operation is a function of the effects so far.\<close>

definition cleanupStaleCacheArtifacts :: "(fs_effect list \<Rightarrow> runtime_env) \<Rightarrow> fs_effect list \<Rightarrow> fs_effect list" where
  "cleanupStaleCacheArtifacts M t = (let t = t @ purge_artifacts (M t) in t @ own_ramdisk (M t))"

definition link_unless :: "runtime_env \<Rightarrow> string \<Rightarrow> string option \<Rightarrow> fs_effect list" where
  "link_unless E link target =
     (if re_lexists E link then []
      else (case target of
          None \<Rightarrow> []
        | Some t \<Rightarrow> Symlink t link # (if re_uid E = 0 then [Lchown link] else [])))"

definition setupCUDALibrarySymlinks :: "runtime_env \<Rightarrow> string \<Rightarrow> fs_effect list" where
  "setupCUDALibrarySymlinks E cudaHome =
     (if cudaHome = '''' then []
      else
        (let libDir = path_join [cudaHome, ''lib''] in
         (if re_is_dir E libDir then
            link_unless E (path_join [cudaHome, ''lib64'']) (Some ''lib'')
            @ link_unless E (path_join [libDir, ''libcudart.so''])
                (case re_glob E (path_join [libDir, ''libcudart.so.*'']) of [] \<Rightarrow> None | m # _ \<Rightarrow> Some (path_base m))
            @ link_unless E (path_join [libDir, ''libcuda.so''])
                (find (re_exists E) [''/usr/lib/x86_64-linux-gnu/libcuda.so.1'', ''/usr/lib/wsl/lib/libcuda.so.1'',
                   ''/usr/lib64/libcuda.so.1'', ''/usr/lib/libcuda.so.1''])
          else [])
         @ (if re_is_dir E ''/mnt/ramdisk/vllm/lib'' then link_unless E ''/mnt/ramdisk/vllm/lib64'' (Some ''lib'') else [])))"

definition cuda_links :: "(fs_effect list \<Rightarrow> runtime_env) \<Rightarrow> fs_effect list \<Rightarrow> fs_effect list" where
  "cuda_links M t = t @ setupCUDALibrarySymlinks (M t) (findCUDAHome (re_is_dir (M t)))"

section \<open>The sampler\<close>

text \<open>
  patchVLLMSampler: a pattern of five literals, with white space after the first and the second, anything up
  to the nearest last literal, which is replaced wherever it occurs. \<open>match_sampler\<close> is the text after a match
  at the front.
\<close>

definition lines_of :: "string list \<Rightarrow> string" where
  "lines_of ls = Join ls [CHR 0x0A]"

definition re_space :: "char \<Rightarrow> bool" where
  "re_space c \<longleftrightarrow> c = CHR 0x09 \<or> c = CHR 0x0A \<or> c = CHR 0x0C \<or> c = CHR 0x0D \<or> c = CHR '' ''"

definition sampler_head :: string where "sampler_head = ''if k is not None:''"
definition sampler_comment :: string where "sampler_comment = ''# Apply top-k.''"
definition sampler_mask :: string where "sampler_mask = ''top_k_mask = logits_sort.size(1) - k.to(torch.long)''"
definition sampler_end :: string where
  "sampler_end = ''logits_sort.masked_fill_(top_k_mask, -float('' @ in_quotes ''inf'' @ ''))''"

definition literal :: "string \<Rightarrow> string \<Rightarrow> string option" where
  "literal p s = (if HasPrefix s p then Some (drop (length p) s) else None)"

definition spaces :: "string \<Rightarrow> string option" where
  "spaces s = (if takeWhile re_space s = [] then None else Some (dropWhile re_space s))"

definition up_to :: "string \<Rightarrow> string \<Rightarrow> string option" where
  "up_to p s = map_option (\<lambda>i. drop (i + length p) s) (Index s p)"

definition match_sampler :: "string \<Rightarrow> string option" where
  "match_sampler s =
     Option.bind (literal sampler_head s) (\<lambda>s. Option.bind (spaces s) (\<lambda>s. Option.bind (literal sampler_comment s) (\<lambda>s.
       Option.bind (spaces s) (\<lambda>s. Option.bind (literal sampler_mask s) (up_to sampler_end)))))"

definition sampler_mark :: string where "sampler_mark = ''valid_k = (k > 0)''"

definition replacement :: string where
  "replacement = lines_of [''if k is not None:'',
     ''        # Apply top-k.'',
     ''        valid_k = (k > 0) & (k < logits_sort.size(1))'',
     ''        if valid_k.any():'',
     ''            safe_k = torch.clamp(k, min=1, max=logits_sort.size(1))'',
     ''            top_k_mask = logits_sort.size(1) - safe_k.to(torch.long)  # shape: B'',
     ''            # Get all the top_k values.'',
     ''            top_k_val = logits_sort.gather(1, top_k_mask.unsqueeze(dim=1))'',
     ''            mask = (logits_sort < top_k_val) & valid_k.unsqueeze(dim=1)'',
     ''            logits_sort.masked_fill_(mask, -float('' @ in_quotes ''inf'' @ ''))'']"

lemma match_sampler_shorter: "match_sampler s = Some r \<Longrightarrow> length r < length s"
proof -
  assume "match_sampler s = Some r"
  then obtain a b c d e where m: "literal sampler_head s = Some a" "spaces a = Some b" "literal sampler_comment b = Some c"
      "spaces c = Some d" "literal sampler_mask d = Some e" "up_to sampler_end e = Some r"
    by (auto simp: match_sampler_def bind_eq_Some_conv)
  have "length a < length s"
    using m(1) by (cases s) (auto simp: literal_def HasPrefix_def sampler_head_def split: if_splits)
  moreover have "length b \<le> length a" "length d \<le> length c"
    using m(2,4) by (auto simp: spaces_def length_dropWhile_le split: if_splits)
  moreover have "length c \<le> length b" "length e \<le> length d" "length r \<le> length e"
    using m(3,5,6) by (auto simp: literal_def up_to_def split: if_splits)
  ultimately show "length r < length s" by linarith
qed

function replace_all :: "string \<Rightarrow> string" where
  "replace_all s =
     (case s of
        [] \<Rightarrow> []
      | c # cs \<Rightarrow>
          (case match_sampler s of
             Some r \<Rightarrow> replacement @ replace_all r
           | None \<Rightarrow> c # replace_all cs))"
  by pat_completeness auto

termination by (relation "measure length") (auto dest: match_sampler_shorter)

declare replace_all.simps [simp del]

definition patch_sampler :: "string \<Rightarrow> string option" where
  "patch_sampler data =
     (if Contains data sampler_mark then None
      else if list_all (\<lambda>i. match_sampler (drop i data) = None) [0..<length data] then None
      else Some (replace_all data))"

definition patchVLLMSampler :: "runtime_env \<Rightarrow> fs_effect list" where
  "patchVLLMSampler E =
     List.map_filter (\<lambda>t. map_option (Rewrite t) (Option.bind (re_read E t) patch_sampler))
       (re_glob E ''/mnt/ramdisk/vllm/lib/python*/site-packages/vllm/v1/sample/ops/topk_topp_sampler.py'')"

section \<open>The probe of the runtime\<close>

definition probe_program :: string where
  "probe_program = ''import torch; print(f'CUDA available: {torch.cuda.is_available()}, devices: {torch.cuda.device_count()}, device: {torch.cuda.get_device_name(0) if torch.cuda.is_available() else ''
     @ in_quotes ''None'' @ ''}')''"

definition probe_environment :: "string \<Rightarrow> string list" where
  "probe_environment cudaHome =
     [''PATH='' @ cudaHome @ ''/bin:/mnt/ramdisk/vllm/bin:/usr/local/cuda/bin:/usr/bin:/usr/sbin:/bin:/sbin'',
      ''VIRTUAL_ENV=/mnt/ramdisk/vllm'',
      ''PYTHONPATH=/mnt/ramdisk/vllm/lib/python3.12/site-packages'',
      ''HOME=/mnt/ramdisk/home'',
      ''TMPDIR=/mnt/ramdisk/tmp'',
      ''FLASHINFER_WORKSPACE_DIR=/mnt/ramdisk/tmp/flashinfer'',
      ''TORCH_HOME=/mnt/ramdisk/cache'',
      ''XDG_CACHE_HOME=/mnt/ramdisk/cache'',
      ''VLLM_CACHE_ROOT=/mnt/ramdisk/cache/vllm'',
      ''TRITON_LIBCUDA_PATH=/usr/lib/x86_64-linux-gnu'',
      ''CUDA_HOME='' @ cudaHome,
      ''CUDA_PATH='' @ cudaHome,
      ''CC=/usr/bin/gcc'',
      ''CXX=/usr/bin/g++'',
      ''NVCC_PREPEND_FLAGS=-DCCCL_DISABLE_CTK_COMPATIBILITY_CHECK'',
      ''VLLM_TARGET_DEVICE=cuda'',
      ''VLLM_USE_V2_MODEL_RUNNER=0'',
      ''VLLM_USE_FLASHINFER_SAMPLER=0'',
      ''CUDA_DEVICE_ORDER=PCI_BUS_ID'',
      ''NVIDIA_VISIBLE_DEVICES=all'',
      ''NVIDIA_DRIVER_CAPABILITIES=compute,utility'',
      ''LD_LIBRARY_PATH='' @ cudaHome @ ''/lib:'' @ cudaHome @ ''/lib64:/mnt/ramdisk/vllm/lib:/mnt/ramdisk/vllm/lib64:/usr/lib/x86_64-linux-gnu:/usr/lib64:/lib64:/lib:/usr/local/cuda/lib64:/usr/local/cuda/lib'']"

definition verifyCUDARuntime :: "(fs_effect list \<Rightarrow> runtime_env) \<Rightarrow> fs_effect list \<Rightarrow> fs_effect list" where
  "verifyCUDARuntime M t =
     (let python = (if re_exists (M t) ''/mnt/ramdisk/vllm/bin/python3'' then Some ''/mnt/ramdisk/vllm/bin/python3'' else re_python (M t))
      in case python of
           None \<Rightarrow> t
         | Some p \<Rightarrow>
             cuda_links M t @ [RunCommand p [''-c'', probe_program] (probe_environment (findCUDAHome (re_is_dir (M t))))])"

section \<open>The runtime of vLLM\<close>

definition sentinelPath :: string where "sentinelPath = ''/mnt/ramdisk/vllm/.vllm_installed''"
definition lockPath :: string where "lockPath = ''/etc/cevell/vllm/requirements.lock.txt''"
definition reqPath :: string where "reqPath = ''/etc/cevell/vllm/requirements.txt''"

definition venv_arguments :: "string list" where
  "venv_arguments = [''venv'', ''/mnt/ramdisk/vllm'', ''--python'', ''/usr/bin/python3'']"

definition venv_environment :: "string list" where
  "venv_environment = [''PATH=/usr/bin:/bin'', ''HOME=/mnt/ramdisk/home'', ''TMPDIR=/mnt/ramdisk/tmp'',
     ''SSL_CERT_FILE=/etc/ssl/certs/ca-certificates.crt'']"

definition pip_arguments :: "string \<Rightarrow> string list" where
  "pip_arguments installFile =
     [''pip'', ''install'', ''--python'', ''/mnt/ramdisk/vllm/bin/python3'', ''--no-cache'']
     @ (if installFile = lockPath then [''--require-hashes''] else []) @ [''-r'', installFile]"

definition pip_environment :: "string list" where
  "pip_environment =
     [''PATH=/mnt/ramdisk/vllm/bin:/usr/local/cuda/bin:/usr/bin:/bin:/sbin:/usr/sbin'',
      ''HOME=/mnt/ramdisk/home'',
      ''TMPDIR=/mnt/ramdisk/tmp'',
      ''SSL_CERT_FILE=/etc/ssl/certs/ca-certificates.crt'',
      ''NVCC_PREPEND_FLAGS=-DCCCL_DISABLE_CTK_COMPATIBILITY_CHECK'',
      ''VLLM_TARGET_DEVICE=cuda'',
      ''CUDA_DEVICE_ORDER=PCI_BUS_ID'',
      ''NVIDIA_VISIBLE_DEVICES=all'',
      ''NVIDIA_DRIVER_CAPABILITIES=compute,utility'',
      ''LD_LIBRARY_PATH=/mnt/ramdisk/vllm/lib:/mnt/ramdisk/vllm/lib64:/usr/lib/x86_64-linux-gnu:/usr/lib64:/lib64:/lib:/usr/local/cuda/lib64:/usr/local/cuda/lib'']"

text \<open>The installation, from the check of the installer on; then what follows a successful one.\<close>

definition runtime_dirs :: "runtime_env \<Rightarrow> fs_effect list" where
  "runtime_dirs E =
     [MkdirAll ''/mnt/ramdisk/vllm'' 493, MkdirAll ''/mnt/ramdisk/tmp'' (syscall_mode 1023),
      Chmod ''/mnt/ramdisk/tmp'' (syscall_mode 1023), MkdirAll ''/mnt/ramdisk/cache'' 493, MkdirAll ''/mnt/ramdisk/home'' 493]
     @ (if re_uid E = 0 then map Chown [''/mnt/ramdisk/vllm'', ''/mnt/ramdisk/tmp'', ''/mnt/ramdisk/cache'', ''/mnt/ramdisk/home''] else [])"

definition finish_install :: "(fs_effect list \<Rightarrow> runtime_env) \<Rightarrow> fs_effect list \<Rightarrow> fs_effect list" where
  "finish_install M t =
     (let t = t @ patchVLLMSampler (M t);
          t = cuda_links M t;
          t = t @ own_ramdisk (M t)
      in verifyCUDARuntime M (t @ [WriteSentinel sentinelPath]))"

definition install_packages :: "(fs_effect list \<Rightarrow> runtime_env) \<Rightarrow> string \<Rightarrow> fs_effect list \<Rightarrow> fs_effect list \<times> string option" where
  "install_packages M uv t =
     (let installFile = (if re_exists (M t) lockPath then lockPath else reqPath) in
      if \<not> re_exists (M t) installFile then
        (t, Some (''vLLM requirements file not found at '' @ installFile @ '': cannot provision runtime''))
      else
        (let pip = t @ [RunCommand uv (pip_arguments installFile) pip_environment] in
         case re_run (M t) uv (pip_arguments installFile) of
           Some (e, out) \<Rightarrow>
             (pip @ [RemoveAll ''/mnt/ramdisk/vllm''], Some (''failed to install vLLM packages: '' @ e @ '' (output: '' @ out @ '')''))
         | None \<Rightarrow> (finish_install M pip, None)))"

definition ensureVLLMEnvironment :: "(fs_effect list \<Rightarrow> runtime_env) \<Rightarrow> fs_effect list \<times> string option" where
  "ensureVLLMEnvironment M =
     (let t = cuda_links M (cleanupStaleCacheArtifacts M [NvidiaNodes]) in
      if re_exists (M t) sentinelPath \<or> re_exists (M t) ''/mnt/ramdisk/vllm/bin/vllm'' then
        (verifyCUDARuntime M (t @ patchVLLMSampler (M t)), None)
      else
        (let uv = (case re_uv (M t) of Some p \<Rightarrow> p | None \<Rightarrow> ''/usr/bin/uv'') in
         if \<not> re_exists (M t) uv then
           (t, Some (''uv package installer not found at '' @ uv @ '': vLLM runtime cannot be provisioned''))
         else
           (let t = t @ runtime_dirs (M t);
                venv = t @ [RunCommand uv venv_arguments venv_environment]
            in case re_run (M t) uv venv_arguments of
                 Some (e, _) \<Rightarrow> (venv @ [RemoveAll ''/mnt/ramdisk/vllm''], Some (''failed to create vLLM venv: '' @ e))
               | None \<Rightarrow> install_packages M uv venv)))"

end
