(* ===== verification/Hardening.thy ===== *)
theory Hardening
  imports GoPrelude "HOL-Library.Word"
begin

text \<open>
  The early preparation of the system (pkg/system/hardening.go): the table of mounts, the directories and
  their owners, the limits of the process, and the reaper of orphaned processes. Operations yield their
  system calls in order; the results that the code ignores do not appear.
\<close>

unbundle bit_operations_syntax

datatype sys_effect =
    SetEnvTo string string
  | LimitTo string nat
  | NameHost string
  | MakeDir string nat
  | MountOn string string string "64 word" string
  | ChangeMode string nat
  | ChangeOwner string nat nat
  | PutFile string string nat
  | MakeNode string nat "64 word"
  | Unlink string
  | RunProgram "string list"
  | InsertModule string string
  | HoldOpen string
  | ReleaseFile string
  | Pause int

section \<open>Filesystems and limits\<close>

definition MS_NOSUID :: "64 word" where "MS_NOSUID = 2"
definition MS_NODEV :: "64 word" where "MS_NODEV = 4"
definition MS_NOEXEC :: "64 word" where "MS_NOEXEC = 8"

record mount_entry =
  mt_source :: string
  mt_target :: string
  mt_fstype :: string
  mt_flags :: "64 word"
  mt_data :: string

definition mk_mount :: "string \<Rightarrow> string \<Rightarrow> string \<Rightarrow> 64 word \<Rightarrow> string \<Rightarrow> mount_entry" where
  "mk_mount source target fstype flags d =
     \<lparr> mt_source = source, mt_target = target, mt_fstype = fstype, mt_flags = flags, mt_data = d \<rparr>"

definition mounts :: "mount_entry list" where
  "mounts =
     [mk_mount ''proc'' ''/proc'' ''proc'' (MS_NOSUID OR MS_NODEV OR MS_NOEXEC) '''',
      mk_mount ''sysfs'' ''/sys'' ''sysfs'' (MS_NOSUID OR MS_NODEV OR MS_NOEXEC) '''',
      mk_mount ''devtmpfs'' ''/dev'' ''devtmpfs'' MS_NOSUID ''mode=0755'',
      mk_mount ''devpts'' ''/dev/pts'' ''devpts'' (MS_NOSUID OR MS_NOEXEC) ''mode=0620,ptmxmode=0666'',
      mk_mount ''configfs'' ''/sys/kernel/config'' ''configfs'' (MS_NOSUID OR MS_NODEV OR MS_NOEXEC) '''',
      mk_mount ''tmpfs'' ''/run'' ''tmpfs'' (MS_NOSUID OR MS_NODEV) ''mode=0755'',
      mk_mount ''tmpfs'' ''/tmp'' ''tmpfs'' (MS_NOSUID OR MS_NODEV) ''mode=1777'',
      mk_mount ''tmpfs'' ''/var/tmp'' ''tmpfs'' (MS_NOSUID OR MS_NODEV) ''mode=1777'',
      mk_mount ''tmpfs'' ''/dev/shm'' ''tmpfs'' (MS_NOSUID OR MS_NODEV) ''mode=1777'',
      mk_mount ''tmpfs'' ''/mnt/ramdisk'' ''tmpfs'' (MS_NOSUID OR MS_NODEV) ''mode=0777,size=85%'',
      mk_mount ''tmpfs'' ''/var/cache'' ''tmpfs'' (MS_NOSUID OR MS_NODEV) ''mode=0755'']"

definition SetHostname :: "string \<Rightarrow> sys_effect list" where
  "SetHostname name = [NameHost name]"

definition ApplyRuntimeLimits :: "sys_effect list" where
  "ApplyRuntimeLimits =
     [SetEnvTo ''PATH'' ''/usr/bin:/usr/sbin:/bin:/sbin'', SetEnvTo ''HOME'' ''/mnt/ramdisk/home'',
      LimitTo ''RLIMIT_NOFILE'' 1048576, LimitTo ''RLIMIT_NPROC'' 65536]"

definition mount_one :: "mount_entry \<Rightarrow> sys_effect list" where
  "mount_one m = [MakeDir (mt_target m) 493, MountOn (mt_source m) (mt_target m) (mt_fstype m) (mt_flags m) (mt_data m)]"

definition default_resolv :: string where
  "default_resolv = ''nameserver 169.254.169.253'' @ [CHR 0x0A] @ ''nameserver 1.1.1.1'' @ [CHR 0x0A] @
     ''nameserver 1.0.0.1'' @ [CHR 0x0A]"

definition SetupFilesystems :: "bool \<Rightarrow> sys_effect list" where
  "SetupFilesystems root =
     concat (map mount_one mounts)
     @ [ChangeMode ''/tmp'' (syscall_mode 1023), ChangeMode ''/var/tmp'' (syscall_mode 1023), ChangeMode ''/dev/shm'' (syscall_mode 1023),
        MakeDir ''/mnt/ramdisk/home'' 493, MakeDir ''/mnt/ramdisk/cache'' 493, MakeDir ''/mnt/ramdisk/models'' 493,
        MakeDir ''/mnt/ramdisk/vllm'' 493, MakeDir ''/mnt/ramdisk/tmp'' (syscall_mode 1023), ChangeMode ''/mnt/ramdisk/tmp'' (syscall_mode 1023),
        MakeDir ''/run/systemd'' 493]
     @ (if root
        then [ChangeOwner ''/mnt/ramdisk/home'' 1000 1000, ChangeOwner ''/mnt/ramdisk/cache'' 1000 1000,
              ChangeOwner ''/mnt/ramdisk/models'' 1000 1000, ChangeOwner ''/mnt/ramdisk/vllm'' 1000 1000,
              ChangeOwner ''/mnt/ramdisk/tmp'' 1000 1000]
        else [])
     @ [PutFile ''/run/resolv.conf'' default_resolv 420]"

definition BringUpLoopback :: "sys_effect list" where
  "BringUpLoopback =
     [RunProgram [''/bin/busybox'', ''ip'', ''link'', ''set'', ''lo'', ''up''],
      RunProgram [''/usr/bin/ip'', ''link'', ''set'', ''lo'', ''up'']]"

section \<open>The zombie reaper\<close>

text \<open>
  The children of process 1 as the kernel keeps them, the signal on its way to the channel of the reaper
  (one pending bit, then at most 64 entries, the rest dropped), whether the reaper is in its inner loop, the
  children that a command of the node waits for and what those commands learnt of their exit.
\<close>

record reaper =
  rp_alive :: "nat list"
  rp_zombies :: "nat list"
  rp_pending :: bool
  rp_signals :: nat
  rp_draining :: bool
  rp_awaited :: "nat list"
  rp_learnt :: "(nat \<times> bool) list"

text \<open>StartZombieReaper: only process 1 reaps.\<close>

definition StartZombieReaper :: "nat \<Rightarrow> bool" where
  "StartZombieReaper self = (self = 1)"

text \<open>One wait4(-1, WNOHANG) of the inner loop: a zombie is collected, or the loop is left.\<close>

definition reap_once :: "reaper \<Rightarrow> reaper" where
  "reap_once r =
     (case rp_zombies r of
        p # zs \<Rightarrow> r\<lparr> rp_zombies := zs \<rparr>
      | [] \<Rightarrow> r\<lparr> rp_draining := False \<rparr>)"

definition receive_signal :: "reaper \<Rightarrow> reaper" where
  "receive_signal r = r\<lparr> rp_signals := rp_signals r - 1, rp_draining := True \<rparr>"

definition deliver_signal :: "reaper \<Rightarrow> reaper" where
  "deliver_signal r = r\<lparr> rp_pending := False, rp_signals := (if rp_signals r < 64 then rp_signals r + 1 else rp_signals r) \<rparr>"

text \<open>What the reaper itself does next.\<close>

inductive reaper_step :: "reaper \<Rightarrow> reaper \<Rightarrow> bool" where
  delivers: "rp_pending r \<Longrightarrow> reaper_step r (deliver_signal r)"
| hears: "\<not> rp_draining r \<Longrightarrow> 0 < rp_signals r \<Longrightarrow> reaper_step r (receive_signal r)"
| reaps: "rp_draining r \<Longrightarrow> reaper_step r (reap_once r)"

text \<open>
  The system around it: children start, are awaited or not, and end; os/exec waits for a child that ended,
  and fails when the child is gone.
\<close>

inductive process_step :: "reaper \<Rightarrow> reaper \<Rightarrow> bool" where
  own: "reaper_step r r' \<Longrightarrow> process_step r r'"
| starts: "p \<notin> set (rp_alive r) \<Longrightarrow> p \<notin> set (rp_zombies r) \<Longrightarrow> p \<notin> set (rp_awaited r) \<Longrightarrow>
     process_step r (r\<lparr> rp_alive := p # rp_alive r, rp_awaited := (if cmd then p # rp_awaited r else rp_awaited r) \<rparr>)"
| exits: "p \<in> set (rp_alive r) \<Longrightarrow>
     process_step r (r\<lparr> rp_alive := removeAll p (rp_alive r), rp_zombies := rp_zombies r @ [p], rp_pending := True \<rparr>)"
| collected: "p \<in> set (rp_awaited r) \<Longrightarrow> p \<in> set (rp_zombies r) \<Longrightarrow>
     process_step r (r\<lparr> rp_awaited := removeAll p (rp_awaited r), rp_zombies := removeAll p (rp_zombies r),
                        rp_learnt := (p, True) # rp_learnt r \<rparr>)"
| lost: "p \<in> set (rp_awaited r) \<Longrightarrow> p \<notin> set (rp_zombies r) \<Longrightarrow> p \<notin> set (rp_alive r) \<Longrightarrow>
     process_step r (r\<lparr> rp_awaited := removeAll p (rp_awaited r), rp_learnt := (p, False) # rp_learnt r \<rparr>)"

definition fresh_reaper :: reaper where
  "fresh_reaper = \<lparr> rp_alive = [], rp_zombies = [], rp_pending = False, rp_signals = 0, rp_draining = False,
     rp_awaited = [], rp_learnt = [] \<rparr>"

end
