(* ===== verification/RuntimeSafety.thy ===== *)
theory RuntimeSafety
  imports EngineRuntime Hardening
begin

text \<open>
  What holds around the engine process: the groups that are signalled, the provisioning of the runtime, the
  patch of its sampler, and what runs as the node itself.
\<close>

lemma signalled_groups: "(g, s) \<in> set (fst (killProcessGroup pid a b)) \<Longrightarrow> g < - 1"
  by (auto simp: killProcessGroup_def split: option.splits if_splits)

section \<open>The provisioning\<close>

text \<open>Preparations neither run a program nor mark the runtime as installed.\<close>

definition quiet :: "fs_effect \<Rightarrow> bool" where
  "quiet e \<longleftrightarrow> (case e of RunCommand p as env \<Rightarrow> False | WriteSentinel p \<Rightarrow> False | _ \<Rightarrow> True)"

lemma quiet_simps [simp]:
  "quiet NvidiaNodes" "quiet (RemoveFile p)" "quiet (RemoveAll p)" "quiet (MkdirAll p m)" "quiet (Chmod p m)" "quiet (Chown p)"
  "quiet (Symlink p q)" "quiet (Lchown p)" "quiet (Rewrite p d)" "\<not> quiet (RunCommand p as env)" "\<not> quiet (WriteSentinel p)"
  by (simp_all add: quiet_def)

lemma quiet_unmarked: "list_all quiet es \<Longrightarrow> WriteSentinel p \<notin> set es"
  by (auto simp: list_all_iff)

lemma quiet_own: "list_all quiet (own_ramdisk E)"
  by (auto simp: own_ramdisk_def chownRecursive_def list_all_iff)

lemma quiet_purge: "list_all quiet (purge_artifacts E)"
  by (auto simp: purge_artifacts_def list_all_iff)

lemma quiet_link: "list_all quiet (link_unless E l t)"
  by (simp add: link_unless_def split: option.split)

lemma quiet_links: "list_all quiet (setupCUDALibrarySymlinks E h)"
  by (simp add: setupCUDALibrarySymlinks_def Let_def quiet_link)

lemma quiet_dirs: "list_all quiet (runtime_dirs E)"
  by (simp add: runtime_dirs_def)

lemma quiet_patch: "list_all quiet (patchVLLMSampler E)"
  by (auto simp: patchVLLMSampler_def list_all_iff List.map_filter_def)

lemma cleanup_quiet: "\<exists>es. cleanupStaleCacheArtifacts M t = t @ es \<and> list_all quiet es"
  by (auto simp: cleanupStaleCacheArtifacts_def Let_def quiet_own quiet_purge)

lemma links_quiet: "\<exists>es. cuda_links M t = t @ es \<and> list_all quiet es"
  by (simp add: cuda_links_def quiet_links)

lemma prepared_quiet: "list_all quiet (cuda_links M (cleanupStaleCacheArtifacts M [NvidiaNodes]))"
proof -
  obtain es where "cleanupStaleCacheArtifacts M [NvidiaNodes] = [NvidiaNodes] @ es" "list_all quiet es"
    using cleanup_quiet [of M "[NvidiaNodes]"] by blast
  then show ?thesis using links_quiet [of M "[NvidiaNodes] @ es"] by auto
qed

text \<open>The probe runs at most the one program, after preparations.\<close>

lemma verify_shape:
  "\<exists>es. verifyCUDARuntime M t = t @ es \<and> (\<forall>p. WriteSentinel p \<notin> set es)
     \<and> (re_exists (M t) ''/mnt/ramdisk/vllm/bin/python3'' \<longrightarrow>
          last es = RunCommand ''/mnt/ramdisk/vllm/bin/python3'' [''-c'', probe_program] (probe_environment (findCUDAHome (re_is_dir (M t))))
          \<and> es \<noteq> [])"
proof -
  obtain es where l: "cuda_links M t = t @ es" "list_all quiet es" using links_quiet by blast
  then have "WriteSentinel p \<notin> set es" for p by (simp add: quiet_unmarked)
  then show ?thesis by (auto simp: verifyCUDARuntime_def Let_def l(1) split: option.split)
qed

lemma finish_shape:
  "\<exists>before after. finish_install M t = t @ before @ [WriteSentinel sentinelPath] @ after \<and> list_all quiet before
     \<and> (\<forall>p. WriteSentinel p \<notin> set after)"
proof -
  obtain es where l: "cuda_links M (t @ patchVLLMSampler (M t)) = t @ patchVLLMSampler (M t) @ es" "list_all quiet es"
    using links_quiet [of M "t @ patchVLLMSampler (M t)"] by auto
  define u where "u = t @ patchVLLMSampler (M t) @ es"
  obtain after where v: "verifyCUDARuntime M (u @ own_ramdisk (M u) @ [WriteSentinel sentinelPath])
        = (u @ own_ramdisk (M u) @ [WriteSentinel sentinelPath]) @ after" "\<forall>p. WriteSentinel p \<notin> set after"
    using verify_shape [of M "u @ own_ramdisk (M u) @ [WriteSentinel sentinelPath]"] by blast
  have "finish_install M t = t @ (patchVLLMSampler (M t) @ es @ own_ramdisk (M u)) @ [WriteSentinel sentinelPath] @ after"
    using v(1) by (simp add: finish_install_def Let_def l(1) u_def)
  then show ?thesis using v(2) l(2) quiet_patch quiet_own
    by (intro exI [of _ "patchVLLMSampler (M t) @ es @ own_ramdisk (M u)"] exI [of _ after]) simp
qed

text \<open>
  When a runtime that was not there is provisioned without error, the packages were installed without error
  from the requirements file that exists, with hashes required exactly when that is the lock file, and only
  then is the runtime marked as installed, once.
\<close>

theorem runtime_provisioned:
  defines "t0 M \<equiv> cuda_links M (cleanupStaleCacheArtifacts M [NvidiaNodes])"
  assumes ok: "ensureVLLMEnvironment M = (effs, None)"
    and new: "\<not> re_exists (M (t0 M)) sentinelPath" "\<not> re_exists (M (t0 M)) ''/mnt/ramdisk/vllm/bin/vllm''"
  shows "\<exists>uv req before mid after. effs = before @ [RunCommand uv (pip_arguments req) pip_environment] @ mid @ [WriteSentinel sentinelPath] @ after
     \<and> re_run (M before) uv (pip_arguments req) = None \<and> re_exists (M before) req
     \<and> req = (if re_exists (M before) lockPath then lockPath else reqPath)
     \<and> (re_exists (M before) lockPath \<longleftrightarrow> ''--require-hashes'' \<in> set (pip_arguments req))
     \<and> (\<forall>p. WriteSentinel p \<notin> set (before @ mid @ after))"
proof -
  define uv where "uv = (case re_uv (M (t0 M)) of Some p \<Rightarrow> p | None \<Rightarrow> ''/usr/bin/uv'')"
  define t where "t = t0 M @ runtime_dirs (M (t0 M)) @ [RunCommand uv venv_arguments venv_environment]"
  define req where "req = (if re_exists (M t) lockPath then lockPath else reqPath)"
  have i: "install_packages M uv t = (effs, None)"
    using ok new unfolding ensureVLLMEnvironment_def Let_def t0_def [symmetric] uv_def [symmetric]
    by (auto simp: t_def split: if_splits option.splits)
  then have r: "re_exists (M t) req" "re_run (M t) uv (pip_arguments req) = None"
      and e: "effs = finish_install M (t @ [RunCommand uv (pip_arguments req) pip_environment])"
    unfolding install_packages_def Let_def req_def [symmetric] by (auto split: if_splits option.splits)
  obtain mid after where m: "effs = (t @ [RunCommand uv (pip_arguments req) pip_environment]) @ mid @ [WriteSentinel sentinelPath] @ after"
      "list_all quiet mid" "\<forall>p. WriteSentinel p \<notin> set after"
    using finish_shape [of M "t @ [RunCommand uv (pip_arguments req) pip_environment]"] unfolding e by blast
  have "list_all quiet (t0 M @ runtime_dirs (M (t0 M)))" using prepared_quiet quiet_dirs by (simp add: t0_def)
  then have "WriteSentinel p \<notin> set t" "WriteSentinel p \<notin> set mid" for p
    using m(2) quiet_unmarked [of _ p] by (auto simp: t_def)
  moreover have "re_exists (M t) lockPath \<longleftrightarrow> ''--require-hashes'' \<in> set (pip_arguments req)"
    by (simp add: pip_arguments_def req_def lockPath_def reqPath_def)
  ultimately show ?thesis using m r
    by (intro exI [of _ uv] exI [of _ req] exI [of _ t] exI [of _ mid] exI [of _ after]) (simp add: req_def)
qed

lemma runtime_failure_unmarked:
  assumes "ensureVLLMEnvironment M = (effs, Some e)"
  shows "WriteSentinel p \<notin> set effs"
proof -
  define t where "t = cuda_links M (cleanupStaleCacheArtifacts M [NvidiaNodes])"
  have "list_all quiet t" using prepared_quiet [of M] by (simp add: t_def)
  then have "WriteSentinel p \<notin> set t" "WriteSentinel p \<notin> set (runtime_dirs E)" for E
    by (simp_all add: quiet_unmarked quiet_dirs)
  then show ?thesis
    using assms unfolding ensureVLLMEnvironment_def install_packages_def Let_def t_def [symmetric]
    by (auto split: if_splits option.splits)
qed

text \<open>A binary without the mark is taken for an installed runtime.\<close>

lemma partial_install_accepted:
  "(\<And>t. re_exists (M t) ''/mnt/ramdisk/vllm/bin/vllm'') \<Longrightarrow> snd (ensureVLLMEnvironment M) = None"
  by (simp add: ensureVLLMEnvironment_def Let_def)

section \<open>What runs as the node\<close>

text \<open>
  The engine runs as the user of the sandbox, and the directory of the runtime belongs to that user
  (SetupFilesystems, runtime_dirs); every later load runs the Python of that directory as the node itself.
\<close>

theorem sandbox_python_runs_as_node:
  assumes "\<And>t. re_exists (M t) ''/mnt/ramdisk/vllm/bin/vllm'' \<and> re_exists (M t) ''/mnt/ramdisk/vllm/bin/python3''"
  shows "ChangeOwner ''/mnt/ramdisk/vllm'' 1000 1000 \<in> set (SetupFilesystems True)
    \<and> (\<exists>env. last (fst (ensureVLLMEnvironment M)) = RunCommand ''/mnt/ramdisk/vllm/bin/python3'' [''-c'', probe_program] env)"
proof -
  define t where "t = cuda_links M (cleanupStaleCacheArtifacts M [NvidiaNodes])"
  define u where "u = t @ patchVLLMSampler (M t)"
  obtain es where v: "verifyCUDARuntime M u = u @ es" "es \<noteq> []"
      "last es = RunCommand ''/mnt/ramdisk/vllm/bin/python3'' [''-c'', probe_program] (probe_environment (findCUDAHome (re_is_dir (M u))))"
    using verify_shape [of M u] assms by blast
  have "fst (ensureVLLMEnvironment M) = verifyCUDARuntime M u"
    using assms by (simp add: ensureVLLMEnvironment_def Let_def u_def t_def)
  then show ?thesis using v by (auto simp: SetupFilesystems_def)
qed

section \<open>The patch of the sampler\<close>

lemma replacement_marked: "\<exists>a b. replacement = a @ sampler_mark @ b"
proof -
  have "take 17 (drop 49 replacement) = sampler_mark" by (simp add: replacement_def lines_of_def in_quotes_def sampler_mark_def)
  then show ?thesis by (metis append_take_drop_id)
qed

lemma replace_all_marked:
  "i < length s \<Longrightarrow> match_sampler (drop i s) \<noteq> None \<Longrightarrow> \<exists>a b. replace_all s = a @ sampler_mark @ b"
proof (induction s arbitrary: i rule: replace_all.induct)
  case (1 s)
  obtain c cs where s: "s = c # cs" using "1.prems"(1) by (cases s) auto
  show ?case
  proof (cases "match_sampler s")
    case (Some r)
    obtain a b where "replacement = a @ sampler_mark @ b" using replacement_marked by blast
    then have "replace_all s = a @ sampler_mark @ (b @ replace_all r)" using Some by (subst replace_all.simps) (simp add: s)
    then show ?thesis by blast
  next
    case None
    then obtain j where "i = Suc j" using "1.prems" by (cases i) auto
    then obtain a b where "replace_all cs = a @ sampler_mark @ b"
      using "1.IH"(1) [OF s None, of j] "1.prems" by (auto simp: s)
    then have "replace_all s = (c # a) @ sampler_mark @ b" using None by (subst replace_all.simps) (simp add: s)
    then show ?thesis by blast
  qed
qed

text \<open>A file that was patched carries the mark, so it is never patched again, whatever it holds.\<close>

theorem patched_once: "patch_sampler d = Some d' \<Longrightarrow> patch_sampler d' = None"
  using replace_all_marked [of _ d] by (auto simp: patch_sampler_def list_all_iff Contains_iff split: if_splits)

section \<open>Readiness\<close>

text \<open>Any answer with status 200 whose body is no object counts as ready.\<close>

lemma unreadable_health_is_ready: "json_first body = None \<Longrightarrow> health_ready 200 body"
  by (simp add: health_ready_def health_status_def)

section \<open>A sample machine\<close>

definition plain_runtime :: runtime_env where
  "plain_runtime = \<lparr> re_uid = 1000, re_exists = (\<lambda>p. p \<in> {''/usr/bin/uv'', lockPath}), re_lexists = (\<lambda>_. False), re_is_dir = (\<lambda>_. False),
     re_glob = (\<lambda>_. []), re_walk = (\<lambda>_. []), re_read = (\<lambda>_. None), re_uv = None, re_python = None, re_run = (\<lambda>_ _. None) \<rparr>"

lemma runtime_provisioned_witness:
  "WriteSentinel sentinelPath \<in> set (fst (ensureVLLMEnvironment (\<lambda>_. plain_runtime)))"
proof -
  have e: "\<not> re_exists plain_runtime sentinelPath" "\<not> re_exists plain_runtime ''/mnt/ramdisk/vllm/bin/vllm''"
    "re_exists plain_runtime lockPath" "re_exists plain_runtime ''/usr/bin/uv''" "re_uv plain_runtime = None" "re_run plain_runtime = (\<lambda>_ _. None)"
    by (simp_all add: plain_runtime_def sentinelPath_def lockPath_def)
  then have "snd (ensureVLLMEnvironment (\<lambda>_. plain_runtime)) = None"
    by (simp add: ensureVLLMEnvironment_def install_packages_def Let_def)
  then have "ensureVLLMEnvironment (\<lambda>_. plain_runtime) = (fst (ensureVLLMEnvironment (\<lambda>_. plain_runtime)), None)"
    by (metis prod.collapse)
  from runtime_provisioned [OF this] e show ?thesis by fastforce
qed

end
