(* ===== verification/Config.thy ===== *)
theory Config
  imports GoPrelude GoFloat
begin

text \<open>
  The configuration of the node (pkg/config): its target, the resolution of the debug mode with its memory,
  and the node specification with its defaults and checks. The YAML library is a parameter.
\<close>

section \<open>Target\<close>

definition TargetCPU :: string where "TargetCPU = ''cpu''"
definition TargetGPU :: string where "TargetGPU = ''gpu''"

text \<open>What the build injects and what the process reads.\<close>

record config_env =
  ce_build_target :: string
  ce_build_debug :: string
  ce_debug :: string
  ce_cmdline :: "string option"

record config_state =
  cf_debug :: "bool option"
  cf_target :: string

definition SetTarget :: "string \<Rightarrow> config_state \<Rightarrow> config_state" where
  "SetTarget target s = s\<lparr> cf_target := (if EqualFold target TargetCPU then TargetCPU else TargetGPU) \<rparr>"

definition GetTarget :: "config_env \<Rightarrow> config_state \<Rightarrow> string" where
  "GetTarget E s =
     (if cf_target s \<noteq> '''' then cf_target s
      else if EqualFold (ce_build_target E) TargetCPU then TargetCPU else TargetGPU)"

definition IsGPULocked :: "config_env \<Rightarrow> config_state \<Rightarrow> bool" where
  "IsGPULocked E s \<longleftrightarrow> GetTarget E s = TargetGPU"

section \<open>Debug mode\<close>

definition SetDebugMode :: "bool \<Rightarrow> config_state \<Rightarrow> config_state" where
  "SetDebugMode enabled s = s\<lparr> cf_debug := Some enabled \<rparr>"

definition debug_word :: "string \<Rightarrow> bool option" where
  "debug_word text =
     (let val = ToLower (TrimSpace text) in
      if val = ''on'' \<or> val = ''1'' \<or> val = ''true'' then Some True
      else if val = ''off'' \<or> val = ''0'' \<or> val = ''false'' then Some False else None)"

fun debug_token :: "string list \<Rightarrow> bool option" where
  "debug_token [] = None"
| "debug_token (token # rest) =
     (let t = ToLower token in
      if t = ''debug=on'' \<or> t = ''debug=1'' then Some True
      else if t = ''debug=off'' \<or> t = ''debug=0'' then Some False
      else debug_token rest)"

text \<open>The sources in their order; the first that says something is remembered. None is the missing flag.\<close>

definition resolve_debug :: "config_env \<Rightarrow> bool option" where
  "resolve_debug E =
     (case debug_word (ce_build_debug E) of
        Some b \<Rightarrow> Some b
      | None \<Rightarrow>
          (case debug_word (ce_debug E) of
             Some b \<Rightarrow> Some b
           | None \<Rightarrow> Option.bind (ce_cmdline E) (\<lambda>c. debug_token (Fields c))))"

definition IsDebugMode :: "config_env \<Rightarrow> config_state \<Rightarrow> bool option \<times> config_state" where
  "IsDebugMode E s =
     (case cf_debug s of
        Some b \<Rightarrow> (Some b, s)
      | None \<Rightarrow> (case resolve_debug E of Some b \<Rightarrow> (Some b, SetDebugMode b s) | None \<Rightarrow> (None, s)))"

text \<open>MustIsDebugMode panics, which is None here, without a flag.\<close>

definition MustIsDebugMode :: "config_env \<Rightarrow> config_state \<Rightarrow> bool option" where
  "MustIsDebugMode E s = fst (IsDebugMode E s)"

section \<open>The node specification\<close>

record confidential_spec =
  cs_platform :: string
  cs_require_vlek :: bool
  cs_dummy_attestation :: bool

record container_spec =
  cn_name :: string
  cn_image :: string
  cn_digest :: string
  cn_entrypoint :: "string list"
  cn_command :: "string list"
  cn_environment :: "(string \<times> string) list"
  cn_ports :: "(int \<times> int) list"
  cn_requires_gpu :: bool

record workload_spec =
  wl_containers :: "container_spec list"
  wl_port :: int

record hardware_spec =
  hw_target :: string
  hw_gpu_only :: bool
  hw_vram_fraction :: f64
  hw_auto_tune :: bool

record telemetry_spec =
  tl_enabled :: bool
  tl_metrics_api_key :: string

record node_spec =
  ns_version :: string
  ns_domain :: string
  ns_debug :: "bool option"
  ns_confidential :: confidential_spec
  ns_workload :: workload_spec
  ns_hardware :: hardware_spec
  ns_telemetry :: telemetry_spec

datatype spec_error = SpecUnread string | SpecUnparsed | NoWorkload | NoName nat | NoImage string

definition LoadNodeSpec ::
  "(bytes \<Rightarrow> node_spec option) \<Rightarrow> (string \<Rightarrow> bytes option) \<Rightarrow> string \<Rightarrow> config_state \<Rightarrow> (spec_error + node_spec) \<times> config_state" where
  "LoadNodeSpec yaml files path s =
     (case files path of
        None \<Rightarrow> (Inl (SpecUnread path), s)
      | Some b \<Rightarrow>
          (case yaml b of
             None \<Rightarrow> (Inl SpecUnparsed, s)
           | Some spec \<Rightarrow>
               (let spec = (if ns_version spec = '''' then spec\<lparr> ns_version := ''v1'' \<rparr> else spec);
                    spec = (if wl_port (ns_workload spec) = 0 then spec\<lparr> ns_workload := (ns_workload spec)\<lparr> wl_port := 8000 \<rparr> \<rparr> else spec);
                    s = (case ns_debug spec of Some b \<Rightarrow> SetDebugMode b s | None \<Rightarrow> s)
                in (Inr spec, s))))"

fun check_containers :: "nat \<Rightarrow> container_spec list \<Rightarrow> spec_error option" where
  "check_containers i [] = None"
| "check_containers i (c # cs) =
     (if cn_name c = '''' then Some (NoName i)
      else if cn_image c = '''' then Some (NoImage (cn_name c))
      else check_containers (Suc i) cs)"

definition Validate :: "node_spec \<Rightarrow> spec_error option" where
  "Validate spec =
     (if wl_containers (ns_workload spec) = [] \<and> wl_port (ns_workload spec) = 0 then Some NoWorkload
      else check_containers 0 (wl_containers (ns_workload spec)))"

end
