(* ===== verification/Console.thy ===== *)
theory Console
  imports GoPrelude
begin

text \<open>
  The log of the node (pkg/system/console.go): the buffer of recent lines, the queue and the goroutine that
  writes its entries to the serial devices, and the lockdown that silences them. Loggers, the writer and
  the lockdown interleave at the points where the code gives up its locks.
\<close>

record log_entry =
  le_error :: bool
  le_msg :: string

text \<open>The lockdown: not running, its handles still to be closed, or some devices still to be removed.\<close>

datatype lockdown = Unlocked | Closing | Silencing | Removing "string list"

text \<open>The writer: idle, with an entry and the targets left, or holding the handle it is about to write to.\<close>

datatype writer_at = Sleeping | Next log_entry "string list" | Holding log_entry string "string list"

record console =
  co_debug :: bool
  co_targets :: "string list"
  co_handles :: "string set"
  co_devices :: "string set"
  co_recent :: "string list"
  co_printk :: string
  co_printers :: "log_entry list"
  co_senders :: "log_entry list"
  co_queue :: "log_entry list"
  co_writer :: writer_at
  co_lock :: lockdown
  co_written :: "(string \<times> string) list"
  co_stderr :: "string list"

definition serial_targets :: "string list" where
  "serial_targets = [''/dev/kmsg'', ''/dev/ttyS0'', ''/dev/console'']"

definition console_devices :: "string list" where
  "console_devices = [''/dev/ttyS0'', ''/dev/console'', ''/dev/tty1'', ''/dev/tty'', ''/dev/kmsg'']"

definition initial_console :: "string set \<Rightarrow> string \<Rightarrow> console" where
  "initial_console devices printk =
     \<lparr> co_debug = True, co_targets = serial_targets, co_handles = {}, co_devices = devices, co_recent = [], co_printk = printk,
       co_printers = [], co_senders = [], co_queue = [], co_writer = Sleeping, co_lock = Unlocked, co_written = [], co_stderr = [] \<rparr>"

definition appendRecentLog :: "string \<Rightarrow> string list \<Rightarrow> string list" where
  "appendRecentLog msg buf = (if 500 \<le> length buf then drop 1 buf else buf) @ [msg]"

definition entry_text :: "log_entry \<Rightarrow> string" where
  "entry_text e = (if le_error e then ''[cevell ERROR] '' else ''[cevell] '') @ le_msg e"

definition device_text :: "log_entry \<Rightarrow> string \<Rightarrow> string" where
  "device_text e target =
     (if target = ''/dev/kmsg'' then (if le_error e then ''<3>'' else ''<6>'') else '''') @ entry_text e @ [CHR 0x0A]"

text \<open>
  Log and LogError: the recent lines, and, when the console is active, a line of the standard logger to standard
  error (the console of process 1; the time that the logger puts before it is left out) and then the queue,
  which drops when it is full. A caller that has passed the check of the console is a printer, and one that has
  printed a sender.
\<close>

definition Log :: "log_entry \<Rightarrow> console \<Rightarrow> console" where
  "Log e c =
     (let c = c\<lparr> co_recent := appendRecentLog (entry_text e) (co_recent c) \<rparr>
      in if co_debug c then c\<lparr> co_printers := co_printers c @ [e] \<rparr> else c)"

definition error_line :: "log_entry \<Rightarrow> string" where
  "error_line e = entry_text e @ [CHR 0x0A]"

definition enqueue :: "log_entry \<Rightarrow> console \<Rightarrow> console" where
  "enqueue e c = (if length (co_queue c) < 2048 then c\<lparr> co_queue := co_queue c @ [e] \<rparr> else c)"

text \<open>The start of a lockdown, or the console switched on again.\<close>

definition configure :: "bool \<Rightarrow> console \<Rightarrow> console" where
  "configure debug c =
     (if debug then c\<lparr> co_debug := True, co_targets := serial_targets \<rparr>
      else c\<lparr> co_debug := False, co_targets := [], co_lock := Closing \<rparr>)"

definition close_handles :: "console \<Rightarrow> console" where
  "close_handles c = c\<lparr> co_handles := {}, co_lock := Silencing \<rparr>"

definition silence_kernel :: "console \<Rightarrow> console" where
  "silence_kernel c = c\<lparr> co_printk := ''0 0 0 0'' @ [CHR 0x0A], co_lock := Removing console_devices \<rparr>"

text \<open>The errors of the removal are ignored: only the devices of rm go away.\<close>

definition remove_device :: "string set \<Rightarrow> string \<Rightarrow> string list \<Rightarrow> console \<Rightarrow> console" where
  "remove_device rm d ds c =
     c\<lparr> co_devices := co_devices c - ({d} \<inter> rm), co_lock := (if ds = [] then Unlocked else Removing ds) \<rparr>"

fun remove_devices :: "string set \<Rightarrow> string list \<Rightarrow> console \<Rightarrow> console" where
  "remove_devices rm [] c = c"
| "remove_devices rm (d # ds) c = remove_devices rm ds (remove_device rm d ds c)"

text \<open>The whole lockdown with nothing in between.\<close>

definition ConfigureConsoleLockdown :: "string set \<Rightarrow> bool \<Rightarrow> console \<Rightarrow> console" where
  "ConfigureConsoleLockdown rm debug c =
     (if debug then configure True c
      else remove_devices rm console_devices (silence_kernel (close_handles (configure False c))))"

definition GetRecentSystemLogs :: "console \<Rightarrow> string list" where
  "GetRecentSystemLogs c = co_recent c"

text \<open>One step of the system in which the console is not switched on again.\<close>

inductive console_step :: "console \<Rightarrow> console \<Rightarrow> bool" where
  logs: "co_lock c = Unlocked \<Longrightarrow> console_step c (Log e c)"
| prints: "co_printers c = xs @ e # ys \<Longrightarrow>
     console_step c (c\<lparr> co_printers := xs @ ys, co_stderr := co_stderr c @ [error_line e], co_senders := co_senders c @ [e] \<rparr>)"
| enqueues: "co_senders c = xs @ e # ys \<Longrightarrow> console_step c (enqueue e (c\<lparr> co_senders := xs @ ys \<rparr>))"
| takes: "co_writer c = Sleeping \<Longrightarrow> co_queue c = e # q \<Longrightarrow> co_lock c = Unlocked \<Longrightarrow>
     console_step c (c\<lparr> co_queue := q, co_writer := Next e (co_targets c) \<rparr>)"
| holds: "co_writer c = Next e (t # ts) \<Longrightarrow> t \<in> co_handles c \<or> t \<in> co_devices c \<Longrightarrow>
     console_step c (c\<lparr> co_handles := insert t (co_handles c), co_writer := Holding e t ts \<rparr>)"
| skips: "co_writer c = Next e (t # ts) \<Longrightarrow> t \<notin> co_handles c \<Longrightarrow> console_step c (c\<lparr> co_writer := Next e ts \<rparr>)"
| writes: "co_writer c = Holding e t ts \<Longrightarrow> t \<in> co_handles c \<Longrightarrow>
     console_step c (c\<lparr> co_written := co_written c @ [(t, device_text e t)], co_writer := Next e ts \<rparr>)"
| write_fails: "co_writer c = Holding e t ts \<Longrightarrow>
     console_step c (c\<lparr> co_handles := co_handles c - {t}, co_writer := Next e ts \<rparr>)"
| finishes: "co_writer c = Next e [] \<Longrightarrow> console_step c (c\<lparr> co_writer := Sleeping \<rparr>)"
| locks: "co_lock c = Unlocked \<Longrightarrow> console_step c (configure False c)"
| closes: "co_lock c = Closing \<Longrightarrow> console_step c (close_handles c)"
| silences: "co_lock c = Silencing \<Longrightarrow> console_step c (silence_kernel c)"
| removes: "co_lock c = Removing (d # ds) \<Longrightarrow> console_step c (remove_device rm d ds c)"

end
