(* ===== verification/ConsoleSafety.thy ===== *)
theory ConsoleSafety
  imports Config Console "HOL-Library.Multiset"
begin

text \<open>
  The log of the node under its lockdown (Console): the invariant that bounds what a lockdown can still let
  through, the silence of a node in production, the race that it leaves; and the resolution of the debug mode
  and the checks of a specification (Config).
\<close>

section \<open>The console\<close>

fun in_flight :: "writer_at \<Rightarrow> log_entry option" where
  "in_flight Sleeping = None"
| "in_flight (Next e ts) = Some e"
| "in_flight (Holding e t ts) = Some e"

fun writes_left :: "writer_at \<Rightarrow> nat" where
  "writes_left Sleeping = 0"
| "writes_left (Next e ts) = length ts"
| "writes_left (Holding e t ts) = Suc (length ts)"

text \<open>
  Once the console is off: no line but those of the entry that the writer had taken, on the devices, and of the
  loggers that had passed the check, on standard error.
\<close>

definition console_silent :: "console \<Rightarrow> console \<Rightarrow> bool" where
  "console_silent c0 c \<longleftrightarrow> \<not> co_debug c \<and> co_targets c = [] \<and>
     (\<exists>ws. co_written c = co_written c0 @ ws \<and> length ws + writes_left (co_writer c) \<le> writes_left (co_writer c0) \<and>
        list_all (\<lambda>(t, x). \<exists>e. in_flight (co_writer c0) = Some e \<and> x = device_text e t) ws) \<and>
     (writes_left (co_writer c) = 0 \<or> in_flight (co_writer c) = in_flight (co_writer c0))"

definition errors_silent :: "console \<Rightarrow> console \<Rightarrow> bool" where
  "errors_silent c0 c \<longleftrightarrow> (\<exists>ls. co_stderr c = co_stderr c0 @ map error_line ls \<and>
     mset ls + mset (co_printers c) = mset (co_printers c0))"

lemma Log_fields [simp]: "co_debug (Log e c) = co_debug c" "co_targets (Log e c) = co_targets c" "co_written (Log e c) = co_written c"
  "co_writer (Log e c) = co_writer c"
  by (simp_all add: Log_def Let_def)

lemma enqueue_fields [simp]: "co_debug (enqueue e c) = co_debug c" "co_targets (enqueue e c) = co_targets c"
  "co_written (enqueue e c) = co_written c" "co_writer (enqueue e c) = co_writer c" "co_recent (enqueue e c) = co_recent c"
  "co_stderr (enqueue e c) = co_stderr c" "co_printers (enqueue e c) = co_printers c"
  by (simp_all add: enqueue_def)

lemma lock_fields [simp]: "co_debug (configure False c) = False" "co_targets (configure False c) = []"
  "co_written (configure b c) = co_written c" "co_writer (configure b c) = co_writer c" "co_recent (configure b c) = co_recent c"
  "co_debug (silence_kernel c) = co_debug c" "co_targets (silence_kernel c) = co_targets c"
  "co_written (silence_kernel c) = co_written c" "co_writer (silence_kernel c) = co_writer c" "co_recent (silence_kernel c) = co_recent c"
  "co_debug (close_handles c) = co_debug c" "co_targets (close_handles c) = co_targets c"
  "co_written (close_handles c) = co_written c" "co_writer (close_handles c) = co_writer c" "co_recent (close_handles c) = co_recent c"
  "co_debug (remove_device rm d ds c) = co_debug c" "co_targets (remove_device rm d ds c) = co_targets c"
  "co_written (remove_device rm d ds c) = co_written c" "co_writer (remove_device rm d ds c) = co_writer c"
  "co_recent (remove_device rm d ds c) = co_recent c"
  "co_stderr (configure b c) = co_stderr c" "co_stderr (silence_kernel c) = co_stderr c" "co_stderr (close_handles c) = co_stderr c"
  "co_stderr (remove_device rm d ds c) = co_stderr c"
  "co_printers (configure b c) = co_printers c" "co_printers (silence_kernel c) = co_printers c"
  "co_printers (close_handles c) = co_printers c" "co_printers (remove_device rm d ds c) = co_printers c"
  by (simp_all add: configure_def close_handles_def remove_device_def silence_kernel_def)

lemma silent_step: "console_step c c' \<Longrightarrow> console_silent c0 c \<Longrightarrow> console_silent c0 c'"
proof (induction rule: console_step.induct)
  case (writes c e t ts)
  obtain ws where ws: "co_written c = co_written c0 @ ws" "length ws + writes_left (co_writer c) \<le> writes_left (co_writer c0)"
      "list_all (\<lambda>(t, x). \<exists>e. in_flight (co_writer c0) = Some e \<and> x = device_text e t) ws"
    using writes(3) unfolding console_silent_def by blast
  have e: "in_flight (co_writer c0) = Some e" "\<not> co_debug c" "co_targets c = []" "writes_left (co_writer c) = Suc (length ts)"
    using writes(1,3) by (auto simp: console_silent_def)
  show ?case using ws e
    by (auto simp: console_silent_def intro: exI [of _ "ws @ [(t, device_text e t)]"])
qed (auto simp: console_silent_def)

lemma console_silent_kept:
  assumes "\<not> co_debug c0" "co_targets c0 = []" "console_step\<^sup>*\<^sup>* c0 c"
  shows "console_silent c0 c"
proof -
  have "console_silent c0 c0" using assms(1,2) by (auto simp: console_silent_def)
  with assms(3) show ?thesis by (induction rule: rtranclp_induct) (auto intro: silent_step)
qed

lemma Log_off: "\<not> co_debug c \<Longrightarrow> co_stderr (Log e c) = co_stderr c \<and> co_printers (Log e c) = co_printers c"
  by (simp add: Log_def Let_def)

lemma errors_step: "console_step c c' \<Longrightarrow> \<not> co_debug c \<Longrightarrow> errors_silent c0 c \<Longrightarrow> errors_silent c0 c'"
proof (induction rule: console_step.induct)
  case (logs c e)
  then show ?case using Log_off [of c e] by (simp add: errors_silent_def)
next
  case (prints c xs e ys)
  obtain ls where ls: "co_stderr c = co_stderr c0 @ map error_line ls" "mset ls + mset (co_printers c) = mset (co_printers c0)"
    using prints(3) by (auto simp: errors_silent_def)
  then have "mset (ls @ [e]) + mset (xs @ ys) = mset (co_printers c0)" using prints(1) by simp
  then show ?case using ls(1) unfolding errors_silent_def by (intro exI [of _ "ls @ [e]"]) simp
qed (auto simp: errors_silent_def)

lemma errors_silent_kept:
  assumes "\<not> co_debug c0" "co_targets c0 = []" "console_step\<^sup>*\<^sup>* c0 c"
  shows "errors_silent c0 c"
  using assms(3)
proof (induction rule: rtranclp_induct)
  case (step c c')
  have "\<not> co_debug c" using console_silent_kept [OF assms(1,2) step.hyps(1)] by (simp add: console_silent_def)
  then show ?case using errors_step step by blast
qed (auto simp: errors_silent_def intro: exI [of _ "[]"])

text \<open>What a lockdown cannot take back: the writes of the entry that the writer had taken, and the lines being printed.\<close>

lemma console_leaks_in_flight_only:
  assumes "\<not> co_debug c0" "co_targets c0 = []" "console_step\<^sup>*\<^sup>* c0 c"
  shows "\<exists>ws ls. co_written c = co_written c0 @ ws \<and> length ws \<le> writes_left (co_writer c0) \<and>
    list_all (\<lambda>(t, x). \<exists>e. in_flight (co_writer c0) = Some e \<and> x = device_text e t) ws \<and>
    co_stderr c = co_stderr c0 @ map error_line ls \<and> mset ls \<subseteq># mset (co_printers c0)"
proof -
  have "console_silent c0 c" "errors_silent c0 c" using assms by (rule console_silent_kept, rule errors_silent_kept)
  moreover from this(2) obtain ls where "co_stderr c = co_stderr c0 @ map error_line ls" "mset ls \<subseteq># mset (co_printers c0)"
    unfolding errors_silent_def by (metis mset_subset_eq_add_left)
  ultimately show ?thesis unfolding console_silent_def by (meson add_leD1)
qed

lemma removed_fields: "co_debug (remove_devices rm ds c) = co_debug c" "co_targets (remove_devices rm ds c) = co_targets c"
  "co_written (remove_devices rm ds c) = co_written c" "co_writer (remove_devices rm ds c) = co_writer c"
  "co_stderr (remove_devices rm ds c) = co_stderr c" "co_printers (remove_devices rm ds c) = co_printers c"
  "co_handles (remove_devices rm ds c) = co_handles c" "co_printk (remove_devices rm ds c) = co_printk c"
  "co_devices (remove_devices rm ds c) = co_devices c - (set ds \<inter> rm)"
  by (induction ds arbitrary: c) (auto simp: remove_device_def)

lemma lockdown_fields: "\<not> co_debug (ConfigureConsoleLockdown rm False c)" "co_targets (ConfigureConsoleLockdown rm False c) = []"
  "co_written (ConfigureConsoleLockdown rm False c) = co_written c" "co_writer (ConfigureConsoleLockdown rm False c) = co_writer c"
  "co_stderr (ConfigureConsoleLockdown rm False c) = co_stderr c" "co_printers (ConfigureConsoleLockdown rm False c) = co_printers c"
  "co_handles (ConfigureConsoleLockdown rm False c) = {}"
  "co_printk (ConfigureConsoleLockdown rm False c) = ''0 0 0 0'' @ [CHR 0x0A]"
  "co_devices (ConfigureConsoleLockdown rm False c) = co_devices c - (set console_devices \<inter> rm)"
  by (auto simp: ConfigureConsoleLockdown_def removed_fields close_handles_def configure_def silence_kernel_def)

text \<open>
  C38: a console that is locked down is silent, however the loggers, the writer and further lockdowns
  interleave: after the lockdown the serial devices receive only writes of the one entry that the writer had
  taken, and standard error, which is the console of process 1, only lines of loggers that had passed the check
  before. So a node that boots with debug off never writes a line to either; no handle stays open, and printk
  is off.
\<close>

theorem production_console_silent:
  assumes "console_step\<^sup>*\<^sup>* (ConfigureConsoleLockdown rm False c0) c"
  shows "\<not> co_debug c \<and> co_targets c = [] \<and>
    (\<exists>ws ls. co_written c = co_written c0 @ ws \<and> length ws \<le> writes_left (co_writer c0) \<and>
       list_all (\<lambda>(t, x). \<exists>e. in_flight (co_writer c0) = Some e \<and> x = device_text e t) ws \<and>
       co_stderr c = co_stderr c0 @ map error_line ls \<and> mset ls \<subseteq># mset (co_printers c0)) \<and>
    (c0 = initial_console devices printk \<longrightarrow> co_written c = [] \<and> co_stderr c = []) \<and>
    co_handles (ConfigureConsoleLockdown rm False c0) = {} \<and>
    co_printk (ConfigureConsoleLockdown rm False c0) = ''0 0 0 0'' @ [CHR 0x0A]"
proof -
  let ?c = "ConfigureConsoleLockdown rm False c0"
  have off: "\<not> co_debug c" "co_targets c = []"
    using console_silent_kept [OF lockdown_fields(1,2) assms] by (simp_all add: console_silent_def)
  obtain ws ls where leaks: "co_written c = co_written c0 @ ws" "length ws \<le> writes_left (co_writer c0)"
      "list_all (\<lambda>(t, x). \<exists>e. in_flight (co_writer c0) = Some e \<and> x = device_text e t) ws"
      "co_stderr c = co_stderr c0 @ map error_line ls" "mset ls \<subseteq># mset (co_printers c0)"
    using console_leaks_in_flight_only [OF lockdown_fields(1,2) assms] by (auto simp: lockdown_fields)
  moreover have "co_written c = [] \<and> co_stderr c = []" if "c0 = initial_console devices printk"
    using leaks that by (simp add: initial_console_def)
  ultimately show ?thesis using off by (auto simp: lockdown_fields)
qed

lemma production_console_silent_witness:
  "\<exists>c. console_step (ConfigureConsoleLockdown UNIV False (initial_console {''/dev/ttyS0''} ''7'')) c
    \<and> co_recent c = [''[cevell] up''] \<and> co_written c = [] \<and> co_stderr c = []"
proof -
  let ?c = "ConfigureConsoleLockdown UNIV False (initial_console {''/dev/ttyS0''} ''7'')"
  let ?d = "Log \<lparr> le_error = False, le_msg = ''up'' \<rparr> ?c"
  have c: "co_lock ?c = Unlocked" "co_recent ?c = []"
    by (simp_all add: ConfigureConsoleLockdown_def console_devices_def remove_device_def silence_kernel_def close_handles_def
        configure_def initial_console_def)
  have "console_step ?c ?d" using c(1) by (rule logs)
  moreover have "co_recent ?d = [''[cevell] up'']" by (simp add: c(2) Log_def appendRecentLog_def entry_text_def Let_def)
  ultimately show ?thesis using production_console_silent [OF r_into_rtranclp, of UNIV "initial_console {''/dev/ttyS0''} ''7''" ?d] by blast
qed

text \<open>
  The check and the line are not one step: a logger that passed the check prints on the console of process 1
  after the lockdown is complete.
\<close>

lemma error_line_after_lockdown:
  "\<exists>c0 c. co_lock c0 = Unlocked \<and> \<not> co_debug c0 \<and> console_step\<^sup>*\<^sup>* c0 c \<and> co_stderr c \<noteq> co_stderr c0"
proof -
  let ?e = "\<lparr> le_error = False, le_msg = ''m'' \<rparr>"
  let ?c = "ConfigureConsoleLockdown UNIV False (Log ?e (initial_console {} ''7''))"
  have p: "co_printers ?c = [] @ ?e # []" "co_stderr ?c = []"
    by (simp_all add: lockdown_fields Log_def Let_def initial_console_def)
  have "co_lock ?c = Unlocked"
    by (simp add: ConfigureConsoleLockdown_def console_devices_def remove_device_def)
  moreover note lockdown_fields(1)
  moreover have "console_step\<^sup>*\<^sup>* ?c (?c\<lparr> co_printers := [] @ [], co_stderr := co_stderr ?c @ [error_line ?e], co_senders := co_senders ?c @ [?e] \<rparr>)"
    by (rule r_into_rtranclp) (rule console_step.prints [OF p(1)])
  ultimately show ?thesis by (intro exI [of _ ?c] exI [of _ "?c\<lparr> co_printers := [] @ [], co_stderr := co_stderr ?c @ [error_line ?e],
      co_senders := co_senders ?c @ [?e] \<rparr>"] conjI) (assumption | simp)+
qed

lemma recent_bounded: "console_step c c' \<Longrightarrow> length (co_recent c) \<le> 500 \<Longrightarrow> length (co_recent c') \<le> 500"
  by (induction rule: console_step.induct) (auto simp: Log_def appendRecentLog_def Let_def)

text \<open>
  The lockdown can be overtaken: with an entry in flight, the writer opens a device after the handles were
  closed and before it is removed, and the line is written after the console was switched off.
\<close>

lemma line_after_lockdown:
  "\<exists>c0 c. \<not> co_debug c0 \<and> co_targets c0 = [] \<and> console_step\<^sup>*\<^sup>* c0 c \<and> co_written c \<noteq> co_written c0"
proof -
  let ?e = "\<lparr> le_error = False, le_msg = ''m'' \<rparr>"
  let ?c = "(close_handles (configure False (initial_console {''/dev/ttyS0''} ''7'')))\<lparr> co_writer := Next ?e [''/dev/ttyS0''] \<rparr>"
  let ?d = "?c\<lparr> co_handles := {''/dev/ttyS0''}, co_writer := Holding ?e ''/dev/ttyS0'' [] \<rparr>"
  let ?f = "?d\<lparr> co_written := [(''/dev/ttyS0'', device_text ?e ''/dev/ttyS0'')], co_writer := Next ?e [] \<rparr>"
  have "console_step ?c ?d"
    using console_step.holds [of ?c ?e "''/dev/ttyS0''" "[]"]
    by (simp add: close_handles_def configure_def initial_console_def)
  moreover have "console_step ?d ?f"
    using console_step.writes [of ?d ?e "''/dev/ttyS0''" "[]"] by (simp add: close_handles_def configure_def initial_console_def)
  ultimately have "console_step\<^sup>*\<^sup>* ?c ?f" by (meson r_into_rtranclp rtranclp.rtrancl_into_rtrancl)
  moreover have "co_written ?f \<noteq> co_written ?c" by (simp add: close_handles_def configure_def initial_console_def)
  ultimately show ?thesis by (intro exI [of _ ?c] exI [of _ ?f]) (simp add: close_handles_def configure_def)
qed

section \<open>Configuration\<close>

text \<open>
  The debug mode is decided once: the first source that names it, in the order build, environment and
  kernel command line, decides, no later reading changes the answer whatever these sources then say, and
  without any flag there is an error, with nothing remembered.
\<close>

theorem debug_mode_sticks:
  fixes E E' :: config_env and s :: config_state
  shows "(IsDebugMode E s = (Some b, s') \<longrightarrow> IsDebugMode E' s' = (Some b, s'))
    \<and> (cf_debug s = None \<longrightarrow> fst (IsDebugMode E s) = resolve_debug E)
    \<and> (fst (IsDebugMode E s) = None \<longleftrightarrow> cf_debug s = None \<and> resolve_debug E = None)
    \<and> (fst (IsDebugMode E s) = None \<longrightarrow> snd (IsDebugMode E s) = s)
    \<and> (debug_word (ce_build_debug E) = Some v \<longrightarrow> resolve_debug E = Some v)"
  by (auto simp: IsDebugMode_def SetDebugMode_def resolve_debug_def split: option.splits)

lemma debug_mode_sticks_witness:
  "let E = \<lparr> ce_build_target = '''', ce_build_debug = '''', ce_debug = ''ON'', ce_cmdline = Some ''debug=off'' \<rparr>;
       s = \<lparr> cf_debug = None, cf_target = '''' \<rparr>;
       s' = \<lparr> cf_debug = Some True, cf_target = '''' \<rparr>
   in IsDebugMode E s = (Some True, s') \<and> IsDebugMode (E\<lparr> ce_debug := ''off'' \<rparr>) s' = (Some True, s')"
proof -
  let ?E = "\<lparr> ce_build_target = '''', ce_build_debug = '''', ce_debug = ''ON'', ce_cmdline = Some ''debug=off'' \<rparr>"
  let ?s = "\<lparr> cf_debug = None, cf_target = '''' \<rparr>"
  let ?s' = "\<lparr> cf_debug = Some True, cf_target = '''' \<rparr>"
  have "debug_word ''ON'' = Some True" "debug_word '''' = None"
    by (simp_all add: debug_word_def TrimSpace_def ToLower_def lower_char_def is_space_def)
  then have "IsDebugMode ?E ?s = (Some True, ?s')"
    by (simp add: IsDebugMode_def resolve_debug_def SetDebugMode_def)
  then show ?thesis using debug_mode_sticks [of ?E ?s True ?s' "?E\<lparr> ce_debug := ''off'' \<rparr>"] unfolding Let_def by blast
qed

lemma debug_order:
  "cf_debug s = None \<Longrightarrow> fst (IsDebugMode E s) = resolve_debug E"
  by (auto simp: IsDebugMode_def split: option.split)

lemma unrecognised_build_flag_ignored:
  "resolve_debug (E\<lparr> ce_build_debug := ''no'' \<rparr>) = resolve_debug (E\<lparr> ce_build_debug := '''' \<rparr>)"
proof -
  have "debug_word ''no'' = None" "debug_word '''' = None"
    by (simp_all add: debug_word_def TrimSpace_def ToLower_def lower_char_def is_space_def)
  then show ?thesis by (simp add: resolve_debug_def cong: option.case_cong)
qed

lemma gpu_by_default: "cf_target s = '''' \<Longrightarrow> IsGPULocked E s \<longleftrightarrow> \<not> EqualFold (ce_build_target E) TargetCPU"
  by (simp add: IsGPULocked_def GetTarget_def TargetCPU_def TargetGPU_def)

lemma loaded_spec_defaults:
  "LoadNodeSpec yaml files path s = (Inr spec, s') \<Longrightarrow> ns_version spec \<noteq> '''' \<and> wl_port (ns_workload spec) \<noteq> 0 \<and> Validate spec \<noteq> Some NoWorkload"
proof -
  have c: "check_containers i cs \<noteq> Some NoWorkload" for i cs by (induction cs arbitrary: i) auto
  assume "LoadNodeSpec yaml files path s = (Inr spec, s')"
  then have "ns_version spec \<noteq> '''' \<and> wl_port (ns_workload spec) \<noteq> 0" by (auto simp: LoadNodeSpec_def Let_def split: option.splits if_splits)
  then show ?thesis using c by (simp add: Validate_def)
qed

lemma Validate_iff:
  "Validate spec = None \<longleftrightarrow> (wl_containers (ns_workload spec) \<noteq> [] \<or> wl_port (ns_workload spec) \<noteq> 0) \<and>
     list_all (\<lambda>c. cn_name c \<noteq> '''' \<and> cn_image c \<noteq> '''') (wl_containers (ns_workload spec))"
proof -
  have "check_containers i cs = None \<longleftrightarrow> list_all (\<lambda>c. cn_name c \<noteq> '''' \<and> cn_image c \<noteq> '''') cs" for i cs
    by (induction cs arbitrary: i) auto
  then show ?thesis by (auto simp: Validate_def)
qed

end
