(* ===== verification/HardeningSafety.thy ===== *)
theory HardeningSafety
  imports Hardening
begin

text \<open>
  The table of mounts, and the reaper of zombies: the invariant that none is forgotten, the measure that
  bounds its work, and the exit statuses that it takes from commands.
\<close>

section \<open>Mounts\<close>

text \<open>A mount is hidden when a later one is placed on a directory above its own.\<close>

fun none_hidden :: "string list \<Rightarrow> bool" where
  "none_hidden [] = True"
| "none_hidden (t # ts) = (list_all (\<lambda>u. u \<noteq> t \<and> \<not> HasPrefix t (u @ ''/'')) ts \<and> none_hidden ts)"

lemma mounts_in_order: "none_hidden (map mt_target mounts)"
  by (simp add: mounts_def mk_mount_def HasPrefix_def)

lemma mounts_nosuid: "list_all (\<lambda>m. mt_flags m AND MS_NOSUID = MS_NOSUID) mounts"
  by (simp add: mounts_def mk_mount_def MS_NOSUID_def MS_NODEV_def MS_NOEXEC_def)

lemma tmpfs_nodev: "list_all (\<lambda>m. mt_fstype m = ''tmpfs'' \<longrightarrow> mt_flags m AND MS_NODEV = MS_NODEV) mounts"
  by (simp add: mounts_def mk_mount_def MS_NOSUID_def MS_NODEV_def MS_NOEXEC_def)

text \<open>
  The temporary directories are mounted with the sticky bit, and the change of mode that follows takes it
  away: the mode of os.Chmod has no such bit where the code writes it.
\<close>

theorem sticky_bit_lost:
  assumes "p \<in> {''/tmp'', ''/var/tmp'', ''/dev/shm''}"
  shows "ChangeMode p 511 \<in> set (SetupFilesystems as_root) \<and> (\<forall>m. ChangeMode p m \<in> set (SetupFilesystems as_root) \<longrightarrow> m = 511)
    \<and> (\<exists>e\<in>set mounts. mt_target e = p \<and> mt_data e = ''mode=1777'')"
  using assms
  by (auto simp: SetupFilesystems_def syscall_mode_def mount_one_def mounts_def mk_mount_def)

section \<open>The reaper\<close>

definition no_zombie_forgotten :: "reaper \<Rightarrow> bool" where
  "no_zombie_forgotten r \<longleftrightarrow> (rp_zombies r \<noteq> [] \<longrightarrow> rp_pending r \<or> 0 < rp_signals r \<or> rp_draining r)"

lemma reaper_step_keeps: "reaper_step r r' \<Longrightarrow> no_zombie_forgotten r \<Longrightarrow> no_zombie_forgotten r'"
  by (induction rule: reaper_step.induct)
    (auto simp: no_zombie_forgotten_def deliver_signal_def receive_signal_def reap_once_def split: list.splits)

lemma process_step_keeps: "process_step r r' \<Longrightarrow> no_zombie_forgotten r \<Longrightarrow> no_zombie_forgotten r'"
  by (induction rule: process_step.induct) (auto simp: no_zombie_forgotten_def dest: reaper_step_keeps)

lemma drains: "rp_draining r \<Longrightarrow> \<exists>r'. reaper_step\<^sup>*\<^sup>* r r' \<and> rp_zombies r' = [] \<and> \<not> rp_draining r'"
proof (induction "rp_zombies r" arbitrary: r)
  case Nil
  then have "reaper_step r (r\<lparr> rp_draining := False \<rparr>)" using reaps [of r] by (simp add: reap_once_def)
  then show ?case using Nil by (intro exI [of _ "r\<lparr> rp_draining := False \<rparr>"]) auto
next
  case (Cons p zs)
  have step: "reaper_step r (r\<lparr> rp_zombies := zs \<rparr>)" using reaps [of r] Cons(2,3) by (simp add: reap_once_def split: list.splits)
  obtain r' where "reaper_step\<^sup>*\<^sup>* (r\<lparr> rp_zombies := zs \<rparr>) r'" "rp_zombies r' = []" "\<not> rp_draining r'"
    using Cons(1) [of "r\<lparr> rp_zombies := zs \<rparr>"] Cons(3) by auto
  then show ?case using step by (meson converse_rtranclp_into_rtranclp)
qed

lemma delivered: "rp_draining (deliver_signal r) = rp_draining r" "0 < rp_signals (deliver_signal r)"
  by (auto simp: deliver_signal_def)

lemma hears_then_drains:
  assumes "\<not> rp_draining r" "0 < rp_signals r"
  shows "\<exists>r'. reaper_step\<^sup>*\<^sup>* r r' \<and> rp_zombies r' = []"
proof -
  obtain r' where "reaper_step\<^sup>*\<^sup>* (receive_signal r) r'" "rp_zombies r' = []"
    using drains [of "receive_signal r"] by (auto simp: receive_signal_def)
  then show ?thesis using hears [OF assms] by (meson converse_rtranclp_into_rtranclp)
qed

lemma reaper_can_finish:
  assumes "no_zombie_forgotten r"
  shows "\<exists>r'. reaper_step\<^sup>*\<^sup>* r r' \<and> rp_zombies r' = []"
proof -
  consider "rp_zombies r = []" | "rp_draining r" | "\<not> rp_draining r" "0 < rp_signals r"
    | "\<not> rp_draining r" "rp_pending r" using assms by (auto simp: no_zombie_forgotten_def)
  then show ?thesis
  proof cases
    case 1 then show ?thesis by auto
  next
    case 2 then show ?thesis using drains by blast
  next
    case 3 then show ?thesis using hears_then_drains by blast
  next
    case 4
    then obtain r' where "reaper_step\<^sup>*\<^sup>* (deliver_signal r) r'" "rp_zombies r' = []"
      using hears_then_drains [of "deliver_signal r"] delivered [of r] 4(1) by blast
    then show ?thesis using delivers [OF 4(2)] by (meson converse_rtranclp_into_rtranclp)
  qed
qed

text \<open>The reaper cannot run on by itself: each of its steps uses up something.\<close>

definition reaper_work :: "reaper \<Rightarrow> nat" where
  "reaper_work r = 3 * of_bool (rp_pending r) + 2 * rp_signals r + length (rp_zombies r) + of_bool (rp_draining r)"

lemma reaper_step_uses: "reaper_step r r' \<Longrightarrow> reaper_work r' < reaper_work r"
  by (induction rule: reaper_step.induct)
    (auto simp: reaper_work_def deliver_signal_def receive_signal_def reap_once_def split: list.splits)

lemma reaper_stops: "wfP (reaper_step\<inverse>\<inverse>)"
proof -
  have "{(r', r). reaper_step r r'} \<subseteq> measure reaper_work" by (auto simp: reaper_step_uses)
  then have "wf {(r', r). reaper_step r r'}" by (rule wf_subset [OF wf_measure])
  then show ?thesis by (simp add: wfp_def conversep_iff)
qed

lemma reaper_stuck: "no_zombie_forgotten r \<Longrightarrow> (\<And>r'. \<not> reaper_step r r') \<Longrightarrow> rp_zombies r = []"
  using reaper_step.intros by (fastforce simp: no_zombie_forgotten_def)

text \<open>
  C39: the reaper forgets no child: in every state that a run of the system reaches, the steps of the reaper
  alone end with no zombie left; they cannot go on for ever, and while a zombie is left one of them is
  possible.
\<close>

theorem zombies_are_reaped:
  assumes "process_step\<^sup>*\<^sup>* fresh_reaper r"
  shows "(\<exists>r'. reaper_step\<^sup>*\<^sup>* r r' \<and> rp_zombies r' = []) \<and> wfP (reaper_step\<inverse>\<inverse>)
    \<and> (\<forall>r'. reaper_step\<^sup>*\<^sup>* r r' \<longrightarrow> Ex (reaper_step r') \<or> rp_zombies r' = [])"
proof -
  have "no_zombie_forgotten r" using assms
    by (induction rule: rtranclp_induct) (auto intro: process_step_keeps, simp add: fresh_reaper_def no_zombie_forgotten_def)
  moreover have "no_zombie_forgotten r'" if "reaper_step\<^sup>*\<^sup>* r r'" for r'
    using that calculation by (induction rule: rtranclp_induct) (auto intro: reaper_step_keeps)
  ultimately show ?thesis using reaper_can_finish reaper_stops reaper_stuck by metis
qed

lemma zombies_are_reaped_witness:
  "process_step\<^sup>*\<^sup>* fresh_reaper (fresh_reaper\<lparr> rp_zombies := [7], rp_pending := True \<rparr>)
   \<and> (\<exists>r'. reaper_step\<^sup>*\<^sup>* (fresh_reaper\<lparr> rp_zombies := [7], rp_pending := True \<rparr>) r' \<and> rp_zombies r' = [])"
proof -
  let ?a = "fresh_reaper\<lparr> rp_alive := [7] \<rparr>"
  let ?b = "fresh_reaper\<lparr> rp_zombies := [7], rp_pending := True \<rparr>"
  have "process_step fresh_reaper ?a" using starts [of 7 fresh_reaper False] by (simp add: fresh_reaper_def)
  moreover have "process_step ?a ?b" using exits [of 7 ?a] by (simp add: fresh_reaper_def)
  ultimately have "process_step\<^sup>*\<^sup>* fresh_reaper ?b" by (meson rtranclp.intros)
  then show ?thesis using zombies_are_reaped by blast
qed

text \<open>The reaper also takes the children that a command waits for: the command then reports a failure.\<close>

lemma reaper_steals:
  "\<exists>r. process_step\<^sup>*\<^sup>* fresh_reaper r \<and> (7, False) \<in> set (rp_learnt r)"
proof -
  let ?a = "fresh_reaper\<lparr> rp_alive := [7], rp_awaited := [7] \<rparr>"
  let ?b = "fresh_reaper\<lparr> rp_awaited := [7], rp_zombies := [7], rp_pending := True \<rparr>"
  let ?c = "deliver_signal ?b" let ?d = "receive_signal ?c" let ?e = "reap_once ?d"
  let ?f = "?e\<lparr> rp_awaited := [], rp_learnt := [(7, False)] \<rparr>"
  have "process_step fresh_reaper ?a" using starts [of 7 fresh_reaper True] by (simp add: fresh_reaper_def)
  moreover have "process_step ?a ?b" using exits [of 7 ?a] by (simp add: fresh_reaper_def)
  moreover have "process_step ?b ?c" by (rule own, rule delivers) (simp add: fresh_reaper_def)
  moreover have "process_step ?c ?d" by (rule own, rule hears) (simp_all add: deliver_signal_def fresh_reaper_def)
  moreover have "process_step ?d ?e" by (rule own, rule reaps) (simp add: receive_signal_def)
  moreover have "process_step ?e ?f"
    using lost [of 7 ?e] by (simp add: reap_once_def receive_signal_def deliver_signal_def fresh_reaper_def)
  ultimately have "process_step\<^sup>*\<^sup>* fresh_reaper ?f" by (meson rtranclp.intros)
  then show ?thesis by (intro exI [of _ ?f]) simp
qed

end
