(* ===== verification/KernelModules.thy ===== *)
theory KernelModules
  imports Hardening
begin

text \<open>
  Kernel modules and accelerator devices (pkg/system/modules.go): the preloading of drivers, the direct
  loading of the NVIDIA modules, the device nodes, the files that are held open, and the final lock. What the
  code reads of the machine depends on the system calls made so far, so each reading is a function of them.
\<close>

datatype finit_result = Inserted | AlreadyLoaded | Refused

record module_env =
  me_root :: bool
  me_exists :: "sys_effect list \<Rightarrow> string \<Rightarrow> bool"
  me_runs :: "sys_effect list \<Rightarrow> string list \<Rightarrow> bool"
  me_read :: "sys_effect list \<Rightarrow> string \<Rightarrow> string option"
  me_glob :: "sys_effect list \<Rightarrow> string \<Rightarrow> string list"
  me_open_rw :: "sys_effect list \<Rightarrow> string \<Rightarrow> bool"
  me_open_ro :: "sys_effect list \<Rightarrow> string \<Rightarrow> bool"
  me_finit :: "sys_effect list \<Rightarrow> string \<Rightarrow> string \<Rightarrow> finit_result"
  me_lock_error :: "sys_effect list \<Rightarrow> string option"

text \<open>The system calls so far and the variable nvidiaDevFiles.\<close>

record dev_state =
  ds_trace :: "sys_effect list"
  nvidiaDevFiles :: "string list"

definition emit :: "sys_effect list \<Rightarrow> dev_state \<Rightarrow> dev_state" where
  "emit es s = s\<lparr> ds_trace := ds_trace s @ es \<rparr>"

definition run_program :: "module_env \<Rightarrow> string list \<Rightarrow> dev_state \<Rightarrow> bool \<times> dev_state" where
  "run_program E args s = (me_runs E (ds_trace s) args, emit [RunProgram args] s)"

section \<open>Detection\<close>

definition swap_char :: "char \<Rightarrow> char \<Rightarrow> string \<Rightarrow> string" where
  "swap_char a b s = map (\<lambda>c. if c = a then b else c) s"

text \<open>Sscanf with %d into a uint32: the leading digits, within 32 bits.\<close>

definition scan_uint32 :: "string \<Rightarrow> nat option" where
  "scan_uint32 s =
     (let ds = takeWhile is_digit s in if ds = [] \<or> 2 ^ 32 \<le> dec_val ds then None else Some (dec_val ds))"

fun major_in :: "string \<Rightarrow> string list \<Rightarrow> nat" where
  "major_in name [] = 0"
| "major_in name (line # rest) =
     (case Fields line of
        a # b # fs \<Rightarrow>
          (if b = name \<or> b = swap_char CHR ''-'' CHR ''_'' name \<or> b = swap_char CHR ''_'' CHR ''-'' name
           then (case scan_uint32 a of Some major \<Rightarrow> major | None \<Rightarrow> major_in name rest)
           else major_in name rest)
      | _ \<Rightarrow> major_in name rest)"

definition detectMajorFromProcDevices :: "module_env \<Rightarrow> dev_state \<Rightarrow> string \<Rightarrow> nat" where
  "detectMajorFromProcDevices E s name =
     (case me_read E (ds_trace s) ''/proc/devices'' of
        None \<Rightarrow> 0
      | Some text \<Rightarrow> major_in name (split_on (CHR 0x0A) text))"

definition hasNVIDIAHardware :: "module_env \<Rightarrow> dev_state \<Rightarrow> bool \<times> nat" where
  "hasNVIDIAHardware E s =
     (if detectMajorFromProcDevices E s ''nvidia'' \<noteq> 0
      then (let n = length (me_glob E (ds_trace s) ''/proc/driver/nvidia/gpus/*'') in (True, if 0 < n then n else 1))
      else
        (let count = length [v \<leftarrow> me_glob E (ds_trace s) ''/sys/bus/pci/devices/*/vendor''.
               case me_read E (ds_trace s) v of Some text \<Rightarrow> EqualFold (TrimSpace text) ''0x10de'' | None \<Rightarrow> False]
         in if 0 < count then (True, count) else (False, 0)))"

section \<open>Device nodes\<close>

definition node_mode :: nat where "node_mode = 8624"

definition node_dev :: "64 word \<Rightarrow> 64 word \<Rightarrow> 64 word" where
  "node_dev maj mn =
     push_bit 8 (maj AND 0xfff) OR (mn AND 0xff) OR push_bit 32 (maj AND NOT 0xfff) OR push_bit 12 (mn AND NOT 0xff)"

definition uvm_dev :: "64 word \<Rightarrow> 64 word \<Rightarrow> 64 word" where
  "uvm_dev maj mn = push_bit 8 (maj AND 0xfff) OR (mn AND 0xff) OR push_bit 32 (maj AND NOT 0xfff)"

definition own_node :: "bool \<Rightarrow> string \<Rightarrow> sys_effect list" where
  "own_node root path = ChangeMode path 432 # (if root then [ChangeOwner path 0 998] else [])"

definition standard_nodes :: "nat \<Rightarrow> (string \<times> nat \<times> nat) list" where
  "standard_nodes count =
     [(''/dev/nvidiactl'', 195, 255), (''/dev/nvidia-modeset'', 195, 254)]
     @ map (\<lambda>i. (''/dev/nvidia'' @ nat_dec i, 195, i)) [0..<count]"

definition make_standard :: "bool \<Rightarrow> string \<times> nat \<times> nat \<Rightarrow> sys_effect list" where
  "make_standard root node =
     (case node of (path, major, minor) \<Rightarrow>
        MakeNode path node_mode (node_dev (word_of_nat major) (word_of_nat minor)) # own_node root path)"

definition make_uvm :: "bool \<Rightarrow> string \<Rightarrow> nat \<Rightarrow> nat \<Rightarrow> sys_effect list" where
  "make_uvm root path major minor =
     [Unlink path, MakeNode path node_mode (uvm_dev (word_of_nat major) (word_of_nat minor))] @ own_node root path"

text \<open>The search for nvidia-uvm, with its pauses between the attempts that are left.\<close>

fun detect_uvm :: "module_env \<Rightarrow> nat \<Rightarrow> dev_state \<Rightarrow> nat \<times> dev_state" where
  "detect_uvm E 0 s = (0, s)"
| "detect_uvm E (Suc k) s =
     (let m = detectMajorFromProcDevices E s ''nvidia-uvm'';
          m = (if m = 0 then detectMajorFromProcDevices E s ''nvidia_uvm'' else m)
      in if m \<noteq> 0 then (m, s) else detect_uvm E k (if 0 < k then emit [Pause 500000000] s else s))"

definition all_nodes :: "string list" where
  "all_nodes = [''/dev/nvidiactl'', ''/dev/nvidia-modeset'', ''/dev/nvidia0'', ''/dev/nvidia1'', ''/dev/nvidia2'',
     ''/dev/nvidia3'', ''/dev/nvidia4'', ''/dev/nvidia5'', ''/dev/nvidia6'', ''/dev/nvidia7'', ''/dev/nvidia-uvm'',
     ''/dev/nvidia-uvm-tools'']"

fun own_existing :: "module_env \<Rightarrow> string list \<Rightarrow> dev_state \<Rightarrow> dev_state" where
  "own_existing E [] s = s"
| "own_existing E (p # ps) s =
     own_existing E ps (if me_exists E (ds_trace s) p then emit (own_node (me_root E) p) s else s)"

definition own_caps :: "module_env \<Rightarrow> dev_state \<Rightarrow> dev_state" where
  "own_caps E s = emit (concat (map (own_node (me_root E)) (me_glob E (ds_trace s) ''/dev/nvidia-caps/*''))) s"

text \<open>At least one GPU and at most eight get their nodes.\<close>

definition node_count :: "nat \<Rightarrow> nat" where
  "node_count count = (let count = (if count \<le> 0 then 1 else count) in if 8 < count then 8 else count)"

text \<open>True is the nil error, False the missing nvidia-uvm driver.\<close>

definition make_nodes :: "module_env \<Rightarrow> nat \<Rightarrow> dev_state \<Rightarrow> bool \<times> dev_state" where
  "make_nodes E count s =
     (let root = me_root E;
          s = emit (concat (map (make_standard root) (standard_nodes (node_count count)))) s
      in case detect_uvm E 3 s of (uvmMajor, s) \<Rightarrow>
           (if uvmMajor = 0 then (False, s)
            else
              (let s = emit (make_uvm root ''/dev/nvidia-uvm'' uvmMajor 0
                             @ make_uvm root ''/dev/nvidia-uvm-tools'' uvmMajor 1) s
               in (True, own_caps E (own_existing E all_nodes s)))))"

definition make_dirs :: "dev_state \<Rightarrow> dev_state" where
  "make_dirs s = emit [MakeDir ''/dev/dri'' 493, MakeDir ''/dev/accel'' 493, MakeDir ''/dev/nvidia-caps'' 493] s"

definition EnsureGPUDeviceNodes :: "module_env \<Rightarrow> dev_state \<Rightarrow> bool \<times> dev_state" where
  "EnsureGPUDeviceNodes E s =
     (let s = make_dirs s
      in case hasNVIDIAHardware E s of (hasGPU, count) \<Rightarrow> if \<not> hasGPU then (True, s) else make_nodes E count s)"

section \<open>Loading\<close>

fun hold_files :: "module_env \<Rightarrow> string list \<Rightarrow> dev_state \<Rightarrow> dev_state" where
  "hold_files E [] s = s"
| "hold_files E (p # ps) s =
     hold_files E ps
       (if me_exists E (ds_trace s) p \<and> (me_open_rw E (ds_trace s) p \<or> me_open_ro E (ds_trace s) p)
        then (emit [HoldOpen p] s)\<lparr> nvidiaDevFiles := nvidiaDevFiles s @ [p] \<rparr>
        else s)"

definition HoldNVIDIAPersistence :: "module_env \<Rightarrow> dev_state \<Rightarrow> dev_state" where
  "HoldNVIDIAPersistence E s =
     (if nvidiaDevFiles s \<noteq> [] then s else hold_files E [''/dev/nvidiactl'', ''/dev/nvidia0''] s)"

definition InitializeGPUConfidentialComputing :: "module_env \<Rightarrow> dev_state \<Rightarrow> dev_state" where
  "InitializeGPUConfidentialComputing E s =
     (if me_exists E (ds_trace s) ''/dev/nvidiactl''
      then emit [RunProgram [''nvidia-smi'', ''-pm'', ''1''], RunProgram [''nvidia-smi'', ''conf-compute'', ''-srs'', ''1'']]
             (HoldNVIDIAPersistence E s)
      else s)"

record nv_module =
  nv_name :: string
  nv_file :: string
  nv_params :: string

definition nv_modules :: "nv_module list" where
  "nv_modules =
     [\<lparr> nv_name = ''nvidia'', nv_file = ''nvidia.ko'',
        nv_params = ''NVreg_EnableGpuFirmware=1 NVreg_OpenRmEnableUnsupportedGpus=1 NVreg_RegistryDwords=RMEnableGspOnAllGpus=1 NVreg_PreserveVideoMemoryAllocations=1'' \<rparr>,
      \<lparr> nv_name = ''nvidia_modeset'', nv_file = ''nvidia-modeset.ko'', nv_params = '''' \<rparr>,
      \<lparr> nv_name = ''nvidia_uvm'', nv_file = ''nvidia-uvm.ko'', nv_params = '''' \<rparr>]"

definition module_dirs :: "string list" where
  "module_dirs = [''/lib/modules/7.0.0-1006-aws/kernel/drivers/video'', ''/lib/modules/7.0.0-1006-aws/updates/dkms'',
     ''/usr/lib/cevell/kernel-modules'', ''/lib/modules'', ''/usr/lib/modules'']"

text \<open>The parameters reach the kernel as a C string; a NUL in them is an error before the call.\<close>

definition finitModuleSyscall :: "module_env \<Rightarrow> string \<Rightarrow> string \<Rightarrow> dev_state \<Rightarrow> finit_result \<times> dev_state" where
  "finitModuleSyscall E path params s =
     (if CHR 0x00 \<in> set params then (Refused, s)
      else (me_finit E (ds_trace s) path params, emit [InsertModule path params] s))"

fun load_from :: "module_env \<Rightarrow> nv_module \<Rightarrow> string list \<Rightarrow> dev_state \<Rightarrow> bool \<times> dev_state" where
  "load_from E m [] s = (False, s)"
| "load_from E m (d # dirs) s =
     (let path = d @ ''/'' @ nv_file m in
      if me_open_ro E (ds_trace s) path
      then (case finitModuleSyscall E path (nv_params m) s of
              (Refused, s) \<Rightarrow> load_from E m dirs s
            | (_, s) \<Rightarrow> (True, s))
      else load_from E m dirs s)"

definition load_module :: "module_env \<Rightarrow> nv_module \<Rightarrow> dev_state \<Rightarrow> dev_state" where
  "load_module E m s =
     (if me_exists E (ds_trace s) (''/sys/module/'' @ nv_name m) then s
      else (case load_from E m module_dirs s of
              (True, s) \<Rightarrow> s
            | (False, s) \<Rightarrow> emit [RunProgram [''modprobe'', nv_name m]] s))"

definition LoadDirectNVIDIAModules :: "module_env \<Rightarrow> dev_state \<Rightarrow> dev_state" where
  "LoadDirectNVIDIAModules E s = fold (load_module E) nv_modules s"

definition VerifyNVIDIAAdapterHealth :: "module_env \<Rightarrow> dev_state \<Rightarrow> bool \<times> dev_state" where
  "VerifyNVIDIAAdapterHealth E s =
     (if \<not> fst (hasNVIDIAHardware E s) then (True, s)
      else if nvidiaDevFiles s \<noteq> [] then (True, s)
      else
        (let s = (emit (map ReleaseFile (nvidiaDevFiles s)) s)\<lparr> nvidiaDevFiles := [] \<rparr>;
             s = emit [RunProgram [''rmmod'', ''nvidia_uvm''], RunProgram [''rmmod'', ''nvidia_modeset''],
                       RunProgram [''rmmod'', ''nvidia''], Pause 500000000] s;
             s = HoldNVIDIAPersistence E (snd (EnsureGPUDeviceNodes E (LoadDirectNVIDIAModules E s)));
             s = emit [RunProgram [''nvidia-smi'', ''-pm'', ''1'']] s
         in (nvidiaDevFiles s \<noteq> [], s)))"

section \<open>Preloading and lock\<close>

definition baseDrivers :: "string list" where
  "baseDrivers =
     [''ecdsa_generic'', ''ecrdsa_generic'', ''aesni-intel'', ''aesni_intel'', ''ghash-clmulni-intel'',
      ''ghash_clmulni_intel'', ''cmac'', ''ccm'', ''authenc'', ''authencesn'', ''cryptd'', ''crypto_engine'',
      ''crypto_user'', ''af_alg'', ''algif_hash'', ''algif_skcipher'', ''algif_aead'', ''algif_rng'',
      ''pkcs8_key_parser'', ''chacha20poly1305'', ''aegis128-aesni'', ''sm3_generic'', ''sm4_generic'',
      ''sev-guest'', ''tdx-guest'', ''tdx_guest'', ''tsm_report'', ''intel_rapl_msr'', ''configfs'',
      ''gve'', ''idpf'', ''virtio_net'', ''virtio_pci'', ''virtio_blk'', ''virtio_scsi'', ''virtio_balloon'',
      ''virtio_console'', ''ena'', ''ptp_vmclock'', ''i2c_piix4'', ''cpuid'', ''msr'',
      ''drm'', ''drm_buddy'', ''drm_gpuvm'', ''drm_gpusvm_helper'', ''drm_vram_helper'', ''drm_suballoc_helper'',
      ''drm_ttm_helper'', ''drm_display_helper'', ''drm_exec'', ''gpu-sched'', ''virtio-gpu'', ''i2c-nvidia-gpu'',
      ''vfio'', ''vfio_iommu_type1'', ''vfio_pci'']"

definition networkingAndSecurityDrivers :: "string list" where
  "networkingAndSecurityDrivers =
     [''overlay'', ''veth'', ''bridge'', ''br_netfilter'', ''macvlan'', ''ipvlan'', ''tap'', ''dummy'',
      ''nfnetlink'', ''nf_tables'', ''nft_compat'', ''nft_chain_nat'', ''nf_conntrack'', ''nf_defrag_ipv4'',
      ''nf_defrag_ipv6'', ''nft_ct'', ''nft_fib'', ''nft_fib_ipv4'', ''nft_fib_inet'', ''nf_nat'', ''nft_nat'',
      ''nft_masq'', ''nft_reject'', ''nft_reject_inet'', ''nft_reject_ipv4'', ''ip_tables'', ''iptable_filter'',
      ''iptable_nat'', ''x_tables'', ''xt_nat'', ''xt_conntrack'', ''xt_addrtype'', ''xt_MASQUERADE'']"

fun modprobe_all :: "module_env \<Rightarrow> string list \<Rightarrow> nat \<Rightarrow> dev_state \<Rightarrow> nat \<times> dev_state" where
  "modprobe_all E [] n s = (n, s)"
| "modprobe_all E (m # ms) n s =
     (case run_program E [''modprobe'', m] s of (ok, s) \<Rightarrow> modprobe_all E ms (if ok then n + 1 else n) s)"

text \<open>The count of loaded drivers is what the last line of the log reports.\<close>

definition PreloadDriverModules :: "module_env \<Rightarrow> dev_state \<Rightarrow> nat \<times> dev_state" where
  "PreloadDriverModules E s =
     (case modprobe_all E baseDrivers 0 s of (loadedCount, s) \<Rightarrow>
        (let s = LoadDirectNVIDIAModules E s;
             s = snd (EnsureGPUDeviceNodes E s);
             s = HoldNVIDIAPersistence E s;
             s = snd (run_program E [''nvidia-smi'', ''-pm'', ''1''] s);
             s = snd (VerifyNVIDIAAdapterHealth E s)
         in case modprobe_all E networkingAndSecurityDrivers loadedCount s of (loadedCount, s) \<Rightarrow>
              (let s = snd (EnsureGPUDeviceNodes E s)
               in (loadedCount, InitializeGPUConfidentialComputing E s))))"

definition LockKernelModules :: "module_env \<Rightarrow> dev_state \<Rightarrow> string option \<times> dev_state" where
  "LockKernelModules E s =
     (case me_lock_error E (ds_trace s) of
        Some e \<Rightarrow> (Some (''failed to lock kernel modules: '' @ e), s)
      | None \<Rightarrow> (None, emit [PutFile ''/proc/sys/kernel/modules_disabled'' (''1'' @ [CHR 0x0A]) 420] s))"

end
