(* ===== verification/ModulesSafety.thy ===== *)
theory ModulesSafety
  imports KernelModules
begin

text \<open>
  Device numbers, the locale of what an invariant of the device state has to keep, with its three
  interpretations (owned nodes, no leaked file, no phantom node), and the counts.
\<close>

section \<open>Device numbers\<close>

text \<open>The major and minor number of a device number as the kernel takes it apart (makedev(3)).\<close>

definition dev_major :: "64 word \<Rightarrow> 64 word" where
  "dev_major d = (drop_bit 8 d AND 0xfff) OR (drop_bit 32 d AND NOT 0xfff)"

definition dev_minor :: "64 word \<Rightarrow> 64 word" where
  "dev_minor d = take_bit 32 ((d AND 0xff) OR (drop_bit 12 d AND NOT 0xff))"

lemma low12: "bit (0xfff :: 64 word) n \<longleftrightarrow> n < 12"
proof -
  have m: "(0xfff :: 64 word) = mask 12" by (simp add: mask_eq_exp_minus_1)
  show ?thesis unfolding m by (subst bit_mask_iff) auto
qed

lemma low8: "bit (0xff :: 64 word) n \<longleftrightarrow> n < 8"
proof -
  have m: "(0xff :: 64 word) = mask 8" by (simp add: mask_eq_exp_minus_1)
  show ?thesis unfolding m by (subst bit_mask_iff) auto
qed

lemma bit_node_dev:
  "bit (node_dev maj mn) n \<longleftrightarrow> n < 64 \<and>
     (8 \<le> n \<and> n < 20 \<and> bit maj (n - 8) \<or> n < 8 \<and> bit mn n \<or> 44 \<le> n \<and> bit maj (n - 32) \<or> 20 \<le> n \<and> bit mn (n - 12))"
  unfolding node_dev_def by (simp only: bit_simps low12 low8) auto

lemma bits_32: "unat w < 2 ^ 32 \<Longrightarrow> 32 \<le> n \<Longrightarrow> \<not> bit (w :: 64 word) n"
proof
  assume "unat w < 2 ^ 32" "32 \<le> n" "bit w n"
  then have "bit (unat w) n" by (simp add: bit_unsigned_iff bit_imp_le_length)
  moreover have "unat w < 2 ^ n" using \<open>unat w < 2 ^ 32\<close> \<open>32 \<le> n\<close>
    by (meson less_le_trans one_le_numeral power_increasing)
  ultimately show False by (simp add: bit_iff_odd)
qed

lemma dev_major_node:
  assumes "unat maj < 2 ^ 32" "unat mn < 2 ^ 32"
  shows "dev_major (node_dev maj mn) = maj"
proof (rule bit_word_eqI)
  fix n assume n: "n < LENGTH(64)"
  show "bit (dev_major (node_dev maj mn)) n \<longleftrightarrow> bit maj n"
    using bits_32 [OF assms(1), of n] bits_32 [OF assms(2), of "20 + n"] bits_32 [OF assms(2), of "n - 4"] n
    unfolding dev_major_def by (simp only: bit_simps low12 low8) (auto simp: bit_node_dev)
qed

lemma dev_minor_node:
  assumes "unat maj < 2 ^ 32" "unat mn < 2 ^ 32"
  shows "dev_minor (node_dev maj mn) = mn"
proof (rule bit_word_eqI)
  fix n assume n: "n < LENGTH(64)"
  show "bit (dev_minor (node_dev maj mn)) n \<longleftrightarrow> bit mn n"
    using bits_32 [OF assms(2), of n] n
    unfolding dev_minor_def by (simp only: bit_simps low12 low8) (fastforce simp: bit_node_dev not_less)
qed

lemma uvm_dev_low: "unat mn < 256 \<Longrightarrow> uvm_dev maj mn = node_dev maj mn"
proof (rule bit_word_eqI)
  fix n assume mn: "unat mn < 256" and n: "n < LENGTH(64)"
  have "\<not> bit mn k" if "8 \<le> k" for k
  proof
    assume "bit mn k"
    then have "bit (unat mn) k" by (simp add: bit_unsigned_iff bit_imp_le_length)
    moreover have "unat mn < 2 ^ k" using mn power_increasing [OF that, of "2 :: nat"] by simp
    ultimately show False by (simp add: bit_iff_odd)
  qed
  then show "bit (uvm_dev maj mn) n \<longleftrightarrow> bit (node_dev maj mn) n"
    unfolding uvm_dev_def using n by (simp only: bit_simps low12 low8) (auto simp: bit_node_dev)
qed

section \<open>Invariants of the device state\<close>

text \<open>System calls that neither make a device node nor hold a file open.\<close>

fun plain_call :: "sys_effect \<Rightarrow> bool" where
  "plain_call (MakeNode p m d) = False"
| "plain_call (HoldOpen p) = False"
| "plain_call (ReleaseFile p) = False"
| "plain_call e = True"

text \<open>
  What a property of the device state has to keep, for every operation to keep it: the plain calls, the
  nodes with their owners, when there is hardware to make them for, and the files that are held.
\<close>

locale device_invariant =
  fixes E :: module_env and J :: "dev_state \<Rightarrow> bool"
  assumes plain_kept: "J s \<Longrightarrow> list_all plain_call es \<Longrightarrow> J (emit es s)"
    and standard_kept: "J s \<Longrightarrow> fst (hasNVIDIAHardware E t) \<Longrightarrow> J (emit (make_standard (me_root E) n) s)"
    and uvm_kept: "J s \<Longrightarrow> fst (hasNVIDIAHardware E t) \<Longrightarrow> J (emit (make_uvm (me_root E) p major minor) s)"
    and hold_kept: "J s \<Longrightarrow> J ((emit [HoldOpen p] s)\<lparr> nvidiaDevFiles := nvidiaDevFiles s @ [p] \<rparr>)"
begin

lemma own_plain: "list_all plain_call (own_node root p)"
  by (simp add: own_node_def)

lemma standard_all_kept: "J s \<Longrightarrow> fst (hasNVIDIAHardware E t) \<Longrightarrow> J (emit (concat (map (make_standard (me_root E)) ns)) s)"
proof (induction ns arbitrary: s)
  case Nil
  then show ?case using plain_kept [of s "[]"] by simp
next
  case (Cons n ns)
  then show ?case using Cons.IH [of "emit (make_standard (me_root E) n) s"] standard_kept by (simp add: emit_def)
qed

lemma detect_kept: "J s \<Longrightarrow> J (snd (detect_uvm E k s))"
proof (induction k arbitrary: s)
  case (Suc k)
  then show ?case by (auto simp: Let_def plain_kept)
qed simp

lemma existing_kept: "J s \<Longrightarrow> J (own_existing E ps s)"
  by (induction ps arbitrary: s) (simp_all add: plain_kept own_plain)

lemma caps_kept: "J s \<Longrightarrow> J (own_caps E s)"
  unfolding own_caps_def by (rule plain_kept) (auto simp: list_all_iff own_node_def)

lemma uvm_nodes_kept:
  "J s \<Longrightarrow> fst (hasNVIDIAHardware E t) \<Longrightarrow> J (emit (make_uvm (me_root E) p major m @ make_uvm (me_root E) q major k) s)"
  using uvm_kept [of "emit (make_uvm (me_root E) p major m) s" t q major k] uvm_kept [of s t p major m]
  by (simp add: emit_def)

lemma make_nodes_kept:
  assumes "J s" and gpu: "fst (hasNVIDIAHardware E t)" shows "J (snd (make_nodes E count s))"
proof -
  define a where "a = emit (concat (map (make_standard (me_root E)) (standard_nodes (node_count count)))) s"
  obtain major u where u: "detect_uvm E 3 a = (major, u)" by fastforce
  have "J a" unfolding a_def using assms by (rule standard_all_kept)
  then have "J u" using detect_kept [of a 3] u by simp
  then show ?thesis using u gpu
    by (simp add: make_nodes_def a_def [symmetric] Let_def caps_kept existing_kept uvm_nodes_kept del: One_nat_def)
qed

lemma nodes_kept: "J s \<Longrightarrow> J (snd (EnsureGPUDeviceNodes E s))"
  using make_nodes_kept [of "make_dirs s" "make_dirs s"]
  by (auto simp: EnsureGPUDeviceNodes_def make_dirs_def plain_kept Let_def split: prod.splits)

lemma hold_files_kept: "J s \<Longrightarrow> J (hold_files E ps s)"
  by (induction ps arbitrary: s) (simp_all add: hold_kept)

lemma held_kept: "J s \<Longrightarrow> J (HoldNVIDIAPersistence E s)"
  unfolding HoldNVIDIAPersistence_def by (simp add: hold_files_kept del: hold_files.simps)

lemma load_from_kept: "J s \<Longrightarrow> J (snd (load_from E m ds s))"
  by (induction ds arbitrary: s)
    (auto simp: finitModuleSyscall_def plain_kept Let_def split: finit_result.splits prod.splits)

lemma load_module_kept: "J s \<Longrightarrow> J (load_module E m s)"
  using load_from_kept [of s m module_dirs]
  by (auto simp: load_module_def plain_kept split: prod.splits bool.splits)

lemma direct_kept: "J s \<Longrightarrow> J (LoadDirectNVIDIAModules E s)"
  by (simp add: LoadDirectNVIDIAModules_def nv_modules_def load_module_kept)

lemma health_kept:
  assumes "J s" shows "J (snd (VerifyNVIDIAAdapterHealth E s))"
proof -
  have "(emit [] s)\<lparr> nvidiaDevFiles := [] \<rparr> = s" if "nvidiaDevFiles s = []" using that by (simp add: emit_def)
  then show ?thesis using assms
    by (auto simp: VerifyNVIDIAAdapterHealth_def Let_def intro!: plain_kept held_kept nodes_kept direct_kept)
qed

lemma modprobe_kept: "J s \<Longrightarrow> J (snd (modprobe_all E ms n s))"
  by (induction ms arbitrary: n s) (simp_all add: run_program_def plain_kept)

lemma ready_kept: "J s \<Longrightarrow> J (InitializeGPUConfidentialComputing E s)"
  by (simp add: InitializeGPUConfidentialComputing_def plain_kept held_kept)

lemma preload_kept:
  assumes "J s" shows "J (snd (PreloadDriverModules E s))"
proof -
  obtain n a where a: "modprobe_all E baseDrivers 0 s = (n, a)" by fastforce
  define b where "b = snd (VerifyNVIDIAAdapterHealth E (snd (run_program E [''nvidia-smi'', ''-pm'', ''1'']
     (HoldNVIDIAPersistence E (snd (EnsureGPUDeviceNodes E (LoadDirectNVIDIAModules E a)))))))"
  obtain m c where c: "modprobe_all E networkingAndSecurityDrivers n b = (m, c)" by fastforce
  have "J a" using modprobe_kept [OF assms, of baseDrivers 0] a by simp
  then have "J b" unfolding b_def by (simp add: run_program_def plain_kept health_kept held_kept nodes_kept direct_kept)
  then have "J c" using modprobe_kept [of b networkingAndSecurityDrivers n] c by simp
  then show ?thesis using a c by (simp add: PreloadDriverModules_def b_def [symmetric] Let_def ready_kept nodes_kept)
qed

lemma lock_kept: "J s \<Longrightarrow> J (snd (LockKernelModules E s))"
  by (simp add: LockKernelModules_def plain_kept split: option.split)

end

section \<open>The device nodes\<close>

text \<open>Each node is a character device of mode 0660 whose mode and owner are set at once.\<close>

fun nodes_owned :: "bool \<Rightarrow> sys_effect list \<Rightarrow> bool" where
  "nodes_owned root [] = True"
| "nodes_owned root (MakeNode p m d # es) = (m = node_mode \<and> HasPrefix es (own_node root p) \<and> nodes_owned root es)"
| "nodes_owned root (e # es) = nodes_owned root es"

lemma nodes_owned_append: "nodes_owned root xs \<Longrightarrow> nodes_owned root ys \<Longrightarrow> nodes_owned root (xs @ ys)"
  by (induction root xs rule: nodes_owned.induct) (auto simp: HasPrefix_append HasPrefix_length)

lemma nodes_owned_plain: "list_all plain_call es \<Longrightarrow> nodes_owned root es"
  by (induction root es rule: nodes_owned.induct) auto

interpretation owned: device_invariant E "\<lambda>s. nodes_owned (me_root E) (ds_trace s)" for E
  by unfold_locales
    (auto simp: emit_def make_standard_def make_uvm_def own_node_def HasPrefix_def
      intro!: nodes_owned_append intro: nodes_owned_plain)

lemma preload_nodes_owned:
  "nodes_owned (me_root E) (ds_trace s) \<Longrightarrow> nodes_owned (me_root E) (ds_trace (snd (PreloadDriverModules E s)))"
  by (rule owned.preload_kept)

lemma node_then_owned:
  "nodes_owned root tr \<Longrightarrow> i < length tr \<Longrightarrow> tr ! i = MakeNode p m d \<Longrightarrow>
     m = node_mode \<and> HasPrefix (drop (Suc i) tr) (own_node root p)"
proof (induction root tr arbitrary: i rule: nodes_owned.induct)
  case (1 root)
  then show ?case by simp
qed (case_tac i; auto)+

section \<open>The files held\<close>

fun held_in :: "sys_effect list \<Rightarrow> string list" where
  "held_in [] = []"
| "held_in (HoldOpen p # es) = p # held_in es"
| "held_in (e # es) = held_in es"

lemma held_in_append [simp]: "held_in (xs @ ys) = held_in xs @ held_in ys"
  by (induction xs rule: held_in.induct) auto

lemma held_in_plain [simp]: "list_all plain_call es \<Longrightarrow> held_in es = []"
  by (induction es rule: held_in.induct) auto

interpretation no_leak: device_invariant E "\<lambda>s. held_in (ds_trace s) = nvidiaDevFiles s" for E
  by unfold_locales (auto simp: emit_def make_standard_def make_uvm_def own_node_def)

section \<open>No hardware, no nodes\<close>

fun node_paths :: "sys_effect list \<Rightarrow> string list" where
  "node_paths [] = []"
| "node_paths (MakeNode p m d # es) = p # node_paths es"
| "node_paths (e # es) = node_paths es"

lemma node_paths_append [simp]: "node_paths (xs @ ys) = node_paths xs @ node_paths ys"
  by (induction xs rule: node_paths.induct) auto

lemma node_paths_plain [simp]: "list_all plain_call es \<Longrightarrow> node_paths es = []"
  by (induction es rule: node_paths.induct) auto

definition hardware_seen :: "module_env \<Rightarrow> bool" where
  "hardware_seen E \<longleftrightarrow> (\<exists>t. fst (hasNVIDIAHardware E t))"

interpretation phantom: device_invariant E "\<lambda>s. hardware_seen E \<or> node_paths (ds_trace s) = []" for E
  by unfold_locales (auto simp: emit_def hardware_seen_def)

section \<open>Counts\<close>

lemma modprobe_count: "fst (modprobe_all E ms n s) \<le> n + length ms"
proof (induction ms arbitrary: n s)
  case (Cons m ms)
  then show ?case using Cons [of n "emit [RunProgram [''modprobe'', m]] s"] Cons [of "Suc n" "emit [RunProgram [''modprobe'', m]] s"]
    by (auto simp: run_program_def intro: le_SucI dest: Suc_leD)
qed simp

lemma modprobe_grows: "n \<le> fst (modprobe_all E ms n s)"
proof (induction ms arbitrary: n s)
  case (Cons m ms)
  then show ?case using Cons [of n "emit [RunProgram [''modprobe'', m]] s"] Cons [of "Suc n" "emit [RunProgram [''modprobe'', m]] s"]
    by (auto simp: run_program_def intro: le_SucI dest: Suc_leD)
qed simp

lemma preload_count: "fst (PreloadDriverModules E s) \<le> length baseDrivers + length networkingAndSecurityDrivers"
proof -
  obtain n a where a: "modprobe_all E baseDrivers 0 s = (n, a)" by fastforce
  have n: "n \<le> length baseDrivers" using modprobe_count [of E baseDrivers 0 s] a by simp
  define b where "b = snd (VerifyNVIDIAAdapterHealth E (snd (run_program E [''nvidia-smi'', ''-pm'', ''1'']
     (HoldNVIDIAPersistence E (snd (EnsureGPUDeviceNodes E (LoadDirectNVIDIAModules E a)))))))"
  have "fst (modprobe_all E networkingAndSecurityDrivers n b) \<le> length baseDrivers + length networkingAndSecurityDrivers"
    using modprobe_count [of E networkingAndSecurityDrivers n b] n by linarith
  then show ?thesis using a by (simp add: PreloadDriverModules_def b_def [symmetric] Let_def case_prod_beta)
qed

lemma node_count_bounds: "1 \<le> node_count n \<and> node_count n \<le> 8"
  by (simp add: node_count_def)

lemma held_set: "set (nvidiaDevFiles (hold_files E ps s)) \<subseteq> set (nvidiaDevFiles s) \<union> set ps"
proof (induction ps arbitrary: s)
  case (Cons p ps)
  have "set (nvidiaDevFiles (hold_files E ps t)) \<subseteq> set (nvidiaDevFiles s) \<union> set (p # ps)"
    if "set (nvidiaDevFiles t) \<subseteq> insert p (set (nvidiaDevFiles s))" for t
    using Cons.IH [of t] that by auto
  note keep = this
  show ?case unfolding hold_files.simps by (rule keep) auto
qed simp

lemma preload_holds: "set (nvidiaDevFiles s) \<subseteq> {''/dev/nvidiactl'', ''/dev/nvidia0''} \<Longrightarrow>
    set (nvidiaDevFiles (HoldNVIDIAPersistence E s)) \<subseteq> {''/dev/nvidiactl'', ''/dev/nvidia0''}"
  using held_set [of E "[''/dev/nvidiactl'', ''/dev/nvidia0'']" s]
  by (auto simp: HoldNVIDIAPersistence_def simp del: hold_files.simps)

definition no_devices :: dev_state where
  "no_devices = \<lparr> ds_trace = [], nvidiaDevFiles = [] \<rparr>"

definition preloaded :: "module_env \<Rightarrow> sys_effect list" where
  "preloaded E = ds_trace (snd (PreloadDriverModules E no_devices))"

text \<open>
  C40: of the preloading of the drivers, whatever the machine answers: every device node is a character
  device of mode 0660 that gets its mode, and for root its owner 0:998, in the next calls; the files opened
  to hold the adapter are exactly those that nvidiaDevFiles keeps; and on a machine where no NVIDIA hardware
  shows, no device node is made at all.
\<close>

theorem preloaded_devices:
  fixes E :: module_env
  shows "(\<forall>i < length (preloaded E). \<forall>p m d. preloaded E ! i = MakeNode p m d \<longrightarrow>
            m = node_mode \<and> HasPrefix (drop (Suc i) (preloaded E)) (own_node (me_root E) p))
    \<and> held_in (preloaded E) = nvidiaDevFiles (snd (PreloadDriverModules E no_devices))
    \<and> (\<not> hardware_seen E \<longrightarrow> node_paths (preloaded E) = [])"
proof -
  have "nodes_owned (me_root E) (preloaded E)"
    unfolding preloaded_def by (rule owned.preload_kept) (simp add: no_devices_def)
  moreover have "held_in (preloaded E) = nvidiaDevFiles (snd (PreloadDriverModules E no_devices))"
    unfolding preloaded_def by (rule no_leak.preload_kept) (simp add: no_devices_def)
  moreover have "hardware_seen E \<or> node_paths (preloaded E) = []"
    unfolding preloaded_def by (rule phantom.preload_kept) (simp add: no_devices_def)
  ultimately show ?thesis using node_then_owned by blast
qed

definition cpu_machine :: module_env where
  "cpu_machine = \<lparr> me_root = True, me_exists = (\<lambda>t p. False), me_runs = (\<lambda>t a. True), me_read = (\<lambda>t p. None),
     me_glob = (\<lambda>t p. []), me_open_rw = (\<lambda>t p. False), me_open_ro = (\<lambda>t p. False), me_finit = (\<lambda>t p q. Refused),
     me_lock_error = (\<lambda>t. None) \<rparr>"

lemma preloaded_devices_witness: "\<not> hardware_seen cpu_machine \<and> node_paths (preloaded cpu_machine) = []"
proof -
  have "\<not> hardware_seen cpu_machine"
    by (simp add: hardware_seen_def hasNVIDIAHardware_def detectMajorFromProcDevices_def cpu_machine_def)
  with preloaded_devices [of cpu_machine] show ?thesis by blast
qed

text \<open>The kernel reads the numbers of a device node back from the number that Mknod is given.\<close>

theorem device_number_round_trip:
  assumes "unat maj < 2 ^ 32" "unat mn < 2 ^ 32"
  shows "dev_major (node_dev maj mn) = maj \<and> dev_minor (node_dev maj mn) = mn
    \<and> (unat mn < 256 \<longrightarrow> dev_major (uvm_dev maj mn) = maj \<and> dev_minor (uvm_dev maj mn) = mn)"
  using assms by (simp add: dev_major_node dev_minor_node uvm_dev_low)

lemma device_number_round_trip_witness: "dev_major (node_dev 195 255) = 195 \<and> dev_minor (node_dev 195 255) = 255"
  using device_number_round_trip [of 195 255] by simp

end
