(* ===== verification/NodeCert.thy ===== *)
theory NodeCert
  imports Hpke
begin

text \<open>
  The self-signed certificate of the node (pkg/crypto/cert.go, EncodeECDSAPrivateKeyPEM of pkg/crypto/keys.go):
  the template that it signs and the order of its failures. Encoding and signing are the X.509 library's.
\<close>

datatype ext_usage = ServerAuth | ClientAuth

record cert_template =
  ct_serial :: nat
  ct_organization :: "string list"
  ct_common_name :: string
  ct_not_before :: int
  ct_not_after :: int
  ct_digital_signature :: bool
  ct_ext_usage :: "ext_usage list"
  ct_basic_constraints :: bool
  ct_dns_names :: "string list"
  ct_ips :: "bytes list"

text \<open>The random serial number, the signature over a template, and the encodings of certificate and key.\<close>

record cert_prims =
  random_int :: "nat \<Rightarrow> nat option"
  create_certificate :: "cert_template \<Rightarrow> bytes \<Rightarrow> bytes option"
  marshal_ec_key :: "bytes \<Rightarrow> bytes option"
  pem_block :: "string \<Rightarrow> bytes \<Rightarrow> string"
  x509_key_pair :: "string \<Rightarrow> string \<Rightarrow> bytes option"

datatype cert_error = SerialFailed | CreateFailed | KeyEncodingFailed | KeyPairFailed

definition hour :: int where "hour = 3600 * second"

definition ip_loopback4 :: bytes where "ip_loopback4 = [127, 0, 0, 1]"
definition ip_loopback6 :: bytes where "ip_loopback6 = replicate 15 0 @ [1]"

definition EncodeECDSAPrivateKeyPEM :: "cert_prims \<Rightarrow> bytes \<Rightarrow> string option" where
  "EncodeECDSAPrivateKeyPEM C key =
     (case marshal_ec_key C key of None \<Rightarrow> None | Some der \<Rightarrow> Some (pem_block C ''EC PRIVATE KEY'' der))"

definition node_template :: "int \<Rightarrow> nat \<Rightarrow> string \<Rightarrow> bytes list \<Rightarrow> cert_template" where
  "node_template now serial domain extraIPs =
     (let domain = (if domain = '''' then ''localhost'' else domain)
      in \<lparr> ct_serial = serial, ct_organization = [''Cevell Confidential Virtual Machine''], ct_common_name = domain,
           ct_not_before = now - 1 * hour, ct_not_after = now + 48 * hour, ct_digital_signature = True,
           ct_ext_usage = [ServerAuth, ClientAuth], ct_basic_constraints = True,
           ct_dns_names = [domain, ''cevell-cvm''], ct_ips = [ip_loopback4, ip_loopback6] @ extraIPs \<rparr>)"

text \<open>The key pair that TLS serves, and the certificate as PEM.\<close>

definition GenerateSelfSignedCert ::
  "cert_prims \<Rightarrow> int \<Rightarrow> bytes \<Rightarrow> string \<Rightarrow> bytes list \<Rightarrow> cert_error + bytes \<times> string" where
  "GenerateSelfSignedCert C now key domain extraIPs =
     (case random_int C (2 ^ 128) of
        None \<Rightarrow> Inl SerialFailed
      | Some serial \<Rightarrow>
          (case create_certificate C (node_template now serial domain extraIPs) key of
             None \<Rightarrow> Inl CreateFailed
           | Some certDER \<Rightarrow>
               (let certPEM = pem_block C ''CERTIFICATE'' certDER in
                case EncodeECDSAPrivateKeyPEM C key of
                  None \<Rightarrow> Inl KeyEncodingFailed
                | Some keyPEM \<Rightarrow>
                    (case x509_key_pair C certPEM keyPEM of
                       None \<Rightarrow> Inl KeyPairFailed
                     | Some tls \<Rightarrow> Inr (tls, certPEM)))))"

end
