(* ===== verification/Boot.thy ===== *)
theory Boot
  imports Config Console KernelModules NodeCert Firewall Interfaces Supervisor
begin

text \<open>
  The boot of a node (cmd/cevell-node/main.go): the steps of runNodeSupervisor in their order, each with the
  operation of its package, until the gateway serves, the node halts, or the missing debug flag panics. What
  the steps read is the environment's; the steps of the early system carry their system calls.
\<close>

text \<open>The settings of the HTTPS server.\<close>

record http_server =
  hs_addr :: string
  hs_min_tls :: string
  hs_certificate :: bytes
  hs_read_header_timeout :: int
  hs_write_timeout :: int
  hs_idle_timeout :: int

datatype boot_event =
    ConsoleSet bool | EarlyInit "sys_effect list" | ReaperStarted bool | DriversLoaded nat dev_state | FirewallApplied
  | ModulesLocked dev_state | NetworkUp "net_effect list" "primary_interface option"
  | KeyLatched bool | KeysGenerated | CertificateMade "bytes list" | DocumentBuilt bool | AutoLoad model_spec | Serving http_server

record boot_env =
  be_config :: config_env
  be_now :: int
  be_machine :: machine
  be_probe :: probe_env
  be_nft :: nft
  be_firewall :: fw_machine
  be_modules :: module_env
  be_pid :: nat
  be_rounds :: "(string list \<times> (string \<Rightarrow> iface_env)) list"
  be_key_env :: string
  be_metadata :: metadata_server
  be_files :: "string \<Rightarrow> bytes option"
  be_sha :: "bytes \<Rightarrow> bytes"
  be_hpke :: hpke_prims
  be_tls_gen :: "(bytes \<times> bytes option) option"
  be_random :: "bytes option"
  be_cert :: cert_prims
  be_nvml :: "string \<Rightarrow> bytes option"
  be_x509 :: x509_prims
  be_chains :: amd_chains
  be_sev :: sev_prims
  be_tsm :: tsm_prims
  be_no_gpu :: "int \<Rightarrow> string"

datatype boot_result = BootPanic | BootHalted "boot_event list" | BootUp "boot_event list" node sup

definition bundled_model :: model_spec where
  "bundled_model = \<lparr> ms_model = ''/opt/models/model.gguf'', ms_hf_file = '''', ms_hf_token = '''', ms_context_size = 0,
     ms_temperature = '''', ms_quantization = '''', ms_bitsandbytes = None, ms_gguf = None, ms_tokenizer = '''',
     ms_gpu_layers = 0, ms_threads = 0, ms_expose_in_health = Some False, ms_tool_call_parser = '''',
     ms_enable_thinking = None, ms_reasoning_parser = '''' \<rparr>"

text \<open>Steps 1 and 3, with the system calls of each in their order.\<close>

definition early_init :: "bool \<Rightarrow> sys_effect list" where
  "early_init as_root = SetupFilesystems as_root @ ApplyRuntimeLimits @ SetHostname ''cevell-cvm'' @ BringUpLoopback"

definition preload_drivers :: "module_env \<Rightarrow> nat \<times> dev_state" where
  "preload_drivers M = PreloadDriverModules M \<lparr> ds_trace = early_init (me_root M), nvidiaDevFiles = [] \<rparr>"

text \<open>Step 5b: the key of the tenant, or the dynamic verifier that waits for one.\<close>

definition latch_key :: "boot_env \<Rightarrow> verifier" where
  "latch_key E =
     (case NewDefaultEd25519Verifier (be_now E) (be_key_env E) (be_metadata E) (be_files E) of
        Inl _ \<Rightarrow> NewDynamicVerifier (be_now E)
      | Inr v \<Rightarrow> v)"

text \<open>Step 8: the evidence for the keys of this boot and the document, if there is a report.\<close>

definition boot_document :: "boot_env \<Rightarrow> key_pair \<Rightarrow> verifier \<Rightarrow> string \<Rightarrow> attestation_doc option" where
  "boot_document E kp v certPEM =
     (let sha = be_sha E;
          authPub32 = fst (GetPublicKeyBytes v);
          b = \<lparr> TLSKeyFingerprint = TLSKeyFP kp, HPKEPublicKey = HPKEPubKey kp, AuthPublicKey = authPub32 \<rparr>;
          bootNonce = sha (TLSKeyFP kp @ HPKEPubKey kp);
          gpuEv = Some (CollectGPUEvidence (be_nvml E) (be_machine E) bootNonce);
          userData = ComputeCompositeUserData sha (TLSKeyFP kp) (HPKEPubKey kp) bootNonce gpuEv authPub32
      in case FetchHardwareReport (be_x509 E) (be_chains E) (be_sev E) (be_tsm E) (be_machine E) userData of
           Inl _ \<Rightarrow> None
         | Inr (rawReport, certChain, platform) \<Rightarrow>
             (let doc = BuildAttestationDocumentWithEvidence sha b rawReport certChain platform certPEM (hex_encode bootNonce) gpuEv
              in Some (doc\<lparr> ad_predicate := (ad_predicate doc)\<lparr> cp_user_data := hex_encode userData \<rparr> \<rparr>)))"

section \<open>The server\<close>

text \<open>Where the gateway forwards to, unless the configuration says it.\<close>

definition upstream_url :: "string \<Rightarrow> sup option \<Rightarrow> string" where
  "upstream_url configured sv =
     (if configured \<noteq> '''' then configured
      else ''http://127.0.0.1:'' @ int_dec (case sv of Some s \<Rightarrow> if 0 < su_port s then su_port s else 8000 | None \<Rightarrow> 8000))"

datatype start_error = NoConfig | NoCertificate | NoNodeKeys | SetupFailed setup_error

text \<open>The checks before the node listens, with the routes and the server that it then runs.\<close>

definition StartProxyServer ::
  "int \<Rightarrow> string \<Rightarrow> metadata_server \<Rightarrow> (string \<Rightarrow> bytes option) \<Rightarrow> (server_config \<times> bytes option \<times> int) option
     \<Rightarrow> start_error + node \<times> http_server" where
  "StartProxyServer now env srv files config =
     (case config of
        None \<Rightarrow> Inl NoConfig
      | Some (cfg, tlsCert, port) \<Rightarrow>
          (case tlsCert of
             None \<Rightarrow> Inl NoCertificate
           | Some tls \<Rightarrow>
               if sc_key_pair cfg = None then Inl NoNodeKeys
               else
                 (case SetupProxyRoutes now env srv files cfg of
                    Inl e \<Rightarrow> Inl (SetupFailed e)
                  | Inr nd \<Rightarrow>
                      Inr (nd, \<lparr> hs_addr = '':'' @ int_dec port, hs_min_tls = ''TLS13'', hs_certificate = tls,
                                 hs_read_header_timeout = 30 * second, hs_write_timeout = 0,
                                 hs_idle_timeout = 120 * second \<rparr>))))"

text \<open>Step 7: the addresses that the certificate names besides its own.\<close>

definition boot_ips :: "primary_interface option \<Rightarrow> bytes list" where
  "boot_ips iface = ip_loopback4 # (case iface of Some p \<Rightarrow> if pi_ip p \<noteq> [] then [pi_ip p] else [] | None \<Rightarrow> [])"

text \<open>Steps 6 to 11, with the network up.\<close>

definition start_services :: "boot_env \<Rightarrow> bool \<Rightarrow> primary_interface option \<Rightarrow> boot_event list \<Rightarrow> boot_result" where
  "start_services E gpu_locked iface evs =
     (let v = latch_key E; evs = evs @ [KeyLatched (isEnrolled v)] in
      case GenerateNodeKeyPair (be_hpke E) (be_sha E) (be_tls_gen E) (be_random E) of
        Inl _ \<Rightarrow> BootHalted evs
      | Inr kp \<Rightarrow>
          (let evs = evs @ [KeysGenerated];
               ips = boot_ips iface
           in case GenerateSelfSignedCert (be_cert E) (be_now E) (TLSKey kp) ''cevell-cvm.internal'' ips of
                Inl _ \<Rightarrow> BootHalted evs
              | Inr (tls, certPEM) \<Rightarrow>
                  (let doc = boot_document E kp v certPEM;
                       evs = evs @ [CertificateMade ips, DocumentBuilt (doc \<noteq> None)];
                       topo = DiscoverTopology (be_machine E) ((be_probe E)\<lparr> pe_gpu_locked := gpu_locked \<rparr>);
                       s = NewSupervisor (be_now E) 8000 topo gpu_locked (be_no_gpu E);
                       evs = evs @ (if \<not> gpu_locked \<and> m_exists (be_machine E) ''/opt/models/model.gguf'' then [AutoLoad bundled_model] else [])
                   in case StartProxyServer (be_now E) (be_key_env E) (be_metadata E) (be_files E)
                             (Some (\<lparr> sc_key_pair = Some kp, sc_verifier = Some v, sc_policy = None, sc_doc = doc,
                                sc_supervisor = Some (sup_view s) \<rparr>, Some tls, 443)) of
                        Inl _ \<Rightarrow> BootHalted evs
                      | Inr (nd, server) \<Rightarrow> BootUp (evs @ [Serving server]) nd s)))"

definition runNodeSupervisor :: "boot_env \<Rightarrow> config_state \<Rightarrow> boot_result" where
  "runNodeSupervisor E cf =
     (case IsDebugMode (be_config E) cf of
        (None, _) \<Rightarrow> BootPanic
      | (Some debugOn, cf) \<Rightarrow>
          (let gpu_locked = IsGPULocked (be_config E) cf;
               M = be_modules E;
               drivers = preload_drivers M;
               evs = [ConsoleSet debugOn, EarlyInit (early_init (me_root M)), ReaperStarted (StartZombieReaper (be_pid E)),
                      DriversLoaded (fst drivers) (snd drivers)]
           in case ApplyFirewallConfig (be_nft E) ''/etc/nftables.conf'' (be_firewall E) of
                (Some _, _) \<Rightarrow> BootHalted evs
              | (None, _) \<Rightarrow>
                  (let evs = evs @ [FirewallApplied] in
                   (case LockKernelModules M (snd drivers) of
                      (Some _, _) \<Rightarrow> BootHalted evs
                    | (None, locked) \<Rightarrow>
                        (case DiscoverAndConfigureNetwork (be_rounds E) of
                           (effs, iface) \<Rightarrow>
                             start_services E gpu_locked iface (evs @ [ModulesLocked locked, NetworkUp effs iface]))))))"

section \<open>The command line\<close>

datatype invocation = RunSupervisor | PrintVersion string | PrintUsage

text \<open>main: its first argument, if there is one.\<close>

definition main_dispatch :: "config_env \<Rightarrow> config_state \<Rightarrow> string list \<Rightarrow> invocation" where
  "main_dispatch E cf args =
     (case args of
        prog # a # _ \<Rightarrow>
          (if a = ''init'' then RunSupervisor
           else if a = ''version'' \<or> a = ''-v'' \<or> a = ''--version'' then PrintVersion (GetTarget E cf)
           else if a = ''help'' \<or> a = ''-h'' \<or> a = ''--help'' then PrintUsage
           else RunSupervisor)
      | _ \<Rightarrow> RunSupervisor)"

end
