(* ===== verification/BootSafety.thy ===== *)
theory BootSafety
  imports Boot GatewaySafety AttestationSafety
begin

text \<open>
  The composition of the parts at boot: the order of the lockdown and everything by which the node can be
  reached, and the attestation document of a node that came up.
\<close>

section \<open>The order of the steps\<close>

fun boot_events :: "boot_result \<Rightarrow> boot_event list" where
  "boot_events BootPanic = []"
| "boot_events (BootHalted evs) = evs"
| "boot_events (BootUp evs nd s) = evs"

text \<open>The steps by which the node can be reached, or that make and show its identity.\<close>

fun online :: "boot_event \<Rightarrow> bool" where
  "online (NetworkUp effs iface) = True"
| "online (KeyLatched e) = True"
| "online KeysGenerated = True"
| "online (CertificateMade ips) = True"
| "online (DocumentBuilt b) = True"
| "online (AutoLoad m) = True"
| "online (Serving server) = True"
| "online e = False"

lemma services_extend:
  "\<exists>es. boot_events (start_services E g iface evs) = evs @ es \<and> list_all online es"
  by (auto simp: start_services_def Let_def split: sum.splits option.splits prod.splits)

lemma split_after:
  assumes "A @ es = pre @ e # post" "\<not> list_ex online A" "online e"
  shows "set A \<subseteq> set pre"
  using assms by (auto simp: append_eq_append_conv2 list_ex_iff append_eq_Cons_conv)

text \<open>The events of a boot: what comes before the firewall, the firewall, the lock and what is online.\<close>

lemma boot_shape:
  fixes E :: boot_env
  defines "drivers \<equiv> preload_drivers (be_modules E)"
  defines "before \<equiv> \<lambda>d. [ConsoleSet d, EarlyInit (early_init (me_root (be_modules E))), ReaperStarted (StartZombieReaper (be_pid E)),
                          DriversLoaded (fst drivers) (snd drivers)]"
  shows "runNodeSupervisor E cf = BootPanic
    \<or> (\<exists>d. boot_events (runNodeSupervisor E cf) \<in> {before d, before d @ [FirewallApplied]})
    \<or> (\<exists>d M locked es. ApplyFirewallConfig (be_nft E) ''/etc/nftables.conf'' (be_firewall E) = (None, M)
         \<and> LockKernelModules (be_modules E) (snd drivers) = (None, locked) \<and> list_all online es
         \<and> boot_events (runNodeSupervisor E cf) = before d @ [FirewallApplied, ModulesLocked locked] @ es)"
proof (cases "fst (IsDebugMode (be_config E) cf)")
  case None
  then obtain cf' where "IsDebugMode (be_config E) cf = (None, cf')" by (metis prod.collapse)
  then show ?thesis by (simp add: runNodeSupervisor_def)
next
  case (Some d)
  then obtain cf' where dbg: "IsDebugMode (be_config E) cf = (Some d, cf')" by (metis prod.collapse)
  obtain r M where fw: "ApplyFirewallConfig (be_nft E) ''/etc/nftables.conf'' (be_firewall E) = (r, M)" by fastforce
  obtain l locked where lk: "LockKernelModules (be_modules E) (snd drivers) = (l, locked)" by fastforce
  obtain effs iface where net: "DiscoverAndConfigureNetwork (be_rounds E) = (effs, iface)" by fastforce
  note run = runNodeSupervisor_def dbg fw lk [unfolded drivers_def] net Let_def
  consider "r \<noteq> None" | "r = None" "l \<noteq> None" | "r = None" "l = None" by blast
  then show ?thesis
  proof cases
    case 1
    then show ?thesis by (auto simp: run before_def drivers_def)
  next
    case 2
    then show ?thesis by (auto simp: run before_def drivers_def)
  next
    case 3
    let ?pre = "before d @ [FirewallApplied, ModulesLocked locked]"
    obtain es where es: "boot_events (start_services E (IsGPULocked (be_config E) cf') iface (?pre @ [NetworkUp effs iface]))
        = (?pre @ [NetworkUp effs iface]) @ es" "list_all online es" using services_extend by blast
    have "boot_events (runNodeSupervisor E cf) = ?pre @ (NetworkUp effs iface # es)"
      using es(1) 3 by (simp add: run before_def drivers_def)
    then show ?thesis using es(2) 3 fw lk by (intro disjI2) (rule exI [of _ d], auto)
  qed
qed

text \<open>
  C26: nothing of the node is online before it is locked down: an event that brings up the network, latches
  a key, makes an identity or serves comes after the firewall was applied without error and after the
  insertion of kernel modules was disabled, as the last of the system calls so far, behind all of the
  preloading.
\<close>

theorem online_after_lockdown:
  assumes "boot_events (runNodeSupervisor E cf) = pre @ e # post" "online e"
  shows "\<exists>M locked. ApplyFirewallConfig (be_nft E) ''/etc/nftables.conf'' (be_firewall E) = (None, M)
    \<and> FirewallApplied \<in> set pre \<and> ModulesLocked locked \<in> set pre
    \<and> ds_trace locked = ds_trace (snd (preload_drivers (be_modules E)))
        @ [PutFile ''/proc/sys/kernel/modules_disabled'' (''1'' @ [CHR 0x0A]) 420]"
proof -
  have ne: "runNodeSupervisor E cf \<noteq> BootPanic" using assms(1) by auto
  have no: "\<not> online x" if "x \<in> set (boot_events (runNodeSupervisor E cf))" "boot_events (runNodeSupervisor E cf) \<in> {b, b @ [FirewallApplied]}"
      "b = [ConsoleSet d, EarlyInit i, ReaperStarted rs, DriversLoaded n ds]" for x b d i rs n ds
    using that by auto
  have "online e \<and> e \<in> set (boot_events (runNodeSupervisor E cf))" using assms by simp
  then obtain d M locked es where shape: "ApplyFirewallConfig (be_nft E) ''/etc/nftables.conf'' (be_firewall E) = (None, M)"
      "LockKernelModules (be_modules E) (snd (preload_drivers (be_modules E))) = (None, locked)"
      "boot_events (runNodeSupervisor E cf) = [ConsoleSet d, EarlyInit (early_init (me_root (be_modules E))),
         ReaperStarted (StartZombieReaper (be_pid E)), DriversLoaded (fst (preload_drivers (be_modules E)))
         (snd (preload_drivers (be_modules E))), FirewallApplied, ModulesLocked locked] @ es"
    using boot_shape [of E cf] ne no by fastforce
  have "set [ConsoleSet d, EarlyInit (early_init (me_root (be_modules E))),
         ReaperStarted (StartZombieReaper (be_pid E)), DriversLoaded (fst (preload_drivers (be_modules E)))
         (snd (preload_drivers (be_modules E))), FirewallApplied, ModulesLocked locked] \<subseteq> set pre"
    using shape(3) assms by (intro split_after [of _ es pre e post]) auto
  moreover have "ds_trace locked = ds_trace (snd (preload_drivers (be_modules E)))
        @ [PutFile ''/proc/sys/kernel/modules_disabled'' (''1'' @ [CHR 0x0A]) 420]"
    using shape(2) by (auto simp: LockKernelModules_def emit_def split: option.splits)
  ultimately show ?thesis using shape(1) by auto
qed

section \<open>The document\<close>

lemma GetPublicKeyBytes_length: "length (fst (GetPublicKeyBytes v)) = 32"
  by (simp add: GetPublicKeyBytes_def PublicKeySize_def)

text \<open>The parts of a node that runs.\<close>

lemma running_parts:
  assumes "start_services E g iface evs = BootUp evs' nd s"
  obtains kp cert where "GenerateNodeKeyPair (be_hpke E) (be_sha E) (be_tls_gen E) (be_random E) = Inr kp"
    "nd_verifier nd = latch_key E" "\<not> nd_sealed nd" "nd_doc nd = boot_document E kp (latch_key E) cert"
    "nd_policy nd = default_policy" "nd_supervisor nd = sup_view s"
  using assms by (auto simp: start_services_def StartProxyServer_def SetupProxyRoutes_def Let_def split: sum.splits option.splits prod.splits)

lemma boot_up_services:
  assumes "runNodeSupervisor E cf = BootUp evs nd s"
  obtains g iface evs' where "start_services E g iface evs' = BootUp evs nd s"
  using assms by (auto simp: runNodeSupervisor_def Let_def split: prod.splits option.splits)

lemma nonce_array_hex: "length n = 32 \<Longrightarrow> nonce_array sha (hex_encode n) = n"
proof -
  assume l: "length n = 32"
  then have "hex_encode n \<noteq> ''''" by (cases n) auto
  then show ?thesis using l by (simp add: nonce_array_def)
qed

lemma document_of_boot:
  assumes "boot_document E kp v cert = Some doc"
    and "\<And>x. length (be_sha E x) = 32" "length (TLSKeyFP kp) = 32" "length (HPKEPubKey kp) = 32"
  shows "document_verifies (be_sha E) doc
    \<and> cp_tls_fingerprint (ad_predicate doc) = hex_encode (TLSKeyFP kp)
    \<and> cp_hpke_public_key (ad_predicate doc) = hex_encode (HPKEPubKey kp)
    \<and> cp_authorized_public_key (ad_predicate doc) =
        (if fst (GetPublicKeyBytes v) = zero32 then '''' else hex_encode (fst (GetPublicKeyBytes v)))
    \<and> (\<exists>ud quote chain platform. cp_user_data (ad_predicate doc) = hex_encode ud
         \<and> FetchHardwareReport (be_x509 E) (be_chains E) (be_sev E) (be_tsm E) (be_machine E) ud = Inr (quote, chain, platform)
         \<and> (quote \<noteq> [] \<longrightarrow> b64_decode (cp_raw_quote (ad_predicate doc)) = Some quote))"
proof -
  define b where "b = \<lparr> TLSKeyFingerprint = TLSKeyFP kp, HPKEPublicKey = HPKEPubKey kp, AuthPublicKey = fst (GetPublicKeyBytes v) \<rparr>"
  define n where "n = be_sha E (TLSKeyFP kp @ HPKEPubKey kp)"
  define g where "g = Some (CollectGPUEvidence (be_nvml E) (be_machine E) n)"
  define ud where "ud = ComputeCompositeUserData (be_sha E) (TLSKeyFP kp) (HPKEPubKey kp) n g (fst (GetPublicKeyBytes v))"
  obtain quote chain platform where q: "FetchHardwareReport (be_x509 E) (be_chains E) (be_sev E) (be_tsm E) (be_machine E) ud
      = Inr (quote, chain, platform)"
    and d: "doc = (let doc = BuildAttestationDocumentWithEvidence (be_sha E) b quote chain platform cert (hex_encode n) g
              in doc\<lparr> ad_predicate := (ad_predicate doc)\<lparr> cp_user_data := hex_encode ud \<rparr> \<rparr>)"
    using assms(1) unfolding b_def n_def g_def ud_def boot_document_def Let_def by (auto split: sum.splits)
  have "nonce_array (be_sha E) (hex_encode n) = n" by (rule nonce_array_hex) (simp add: n_def assms(2))
  then have same: "doc = BuildAttestationDocumentWithEvidence (be_sha E) b quote chain platform cert (hex_encode n) g"
    unfolding d Let_def by (simp add: BuildAttestationDocumentWithEvidence_def ud_def b_def)
  have "document_verifies (be_sha E) doc" unfolding same
    by (rule built_verifies) (simp_all add: b_def assms GetPublicKeyBytes_length)
  moreover have "cp_user_data (ad_predicate doc) = hex_encode ud" unfolding d Let_def by simp
  moreover have "quote \<noteq> [] \<longrightarrow> b64_decode (cp_raw_quote (ad_predicate doc)) = Some quote"
    unfolding same by (simp add: BuildAttestationDocumentWithEvidence_def)
  ultimately show ?thesis using q
    by (auto simp: same BuildAttestationDocumentWithEvidence_def b_def)
qed

text \<open>
  C24: of a node that came up with an attestation document: the document verifies against its own fields,
  carries the keys that the boot generated and the tenant key that the verifier of the gateway holds, and
  its quote is the hardware's report on exactly that user data; the gateway starts unsealed, with the
  default policy, over the supervisor of this boot. The digest and the public keys have 32 bytes.
\<close>

theorem booted_document_verifies:
  assumes "runNodeSupervisor E cf = BootUp evs nd s" "nd_doc nd = Some doc"
    and "\<And>x. length (be_sha E x) = 32" "\<And>k. length (base_mult (be_hpke E) k) = 32"
  shows "document_verifies (be_sha E) doc \<and> \<not> nd_sealed nd \<and> nd_policy nd = default_policy \<and> nd_supervisor nd = sup_view s
    \<and> (\<exists>kp. GenerateNodeKeyPair (be_hpke E) (be_sha E) (be_tls_gen E) (be_random E) = Inr kp
         \<and> cp_tls_fingerprint (ad_predicate doc) = hex_encode (TLSKeyFP kp)
         \<and> cp_hpke_public_key (ad_predicate doc) = hex_encode (HPKEPubKey kp))
    \<and> cp_authorized_public_key (ad_predicate doc) =
        (if fst (GetPublicKeyBytes (nd_verifier nd)) = zero32 then '''' else hex_encode (fst (GetPublicKeyBytes (nd_verifier nd))))
    \<and> (\<exists>ud quote chain platform. cp_user_data (ad_predicate doc) = hex_encode ud
         \<and> FetchHardwareReport (be_x509 E) (be_chains E) (be_sev E) (be_tsm E) (be_machine E) ud = Inr (quote, chain, platform)
         \<and> (quote \<noteq> [] \<longrightarrow> b64_decode (cp_raw_quote (ad_predicate doc)) = Some quote))"
proof -
  obtain g iface evs' where "start_services E g iface evs' = BootUp evs nd s" using boot_up_services [OF assms(1)] .
  then obtain kp cert where kp: "GenerateNodeKeyPair (be_hpke E) (be_sha E) (be_tls_gen E) (be_random E) = Inr kp"
    and nd: "nd_verifier nd = latch_key E" "\<not> nd_sealed nd" "nd_doc nd = boot_document E kp (latch_key E) cert"
      "nd_policy nd = default_policy" "nd_supervisor nd = sup_view s"
    by (rule running_parts)
  have "length (TLSKeyFP kp) = 32" "length (HPKEPubKey kp) = 32"
    using kp assms(3,4) by (auto simp: GenerateNodeKeyPair_def split: option.splits)
  then show ?thesis using document_of_boot [OF _ assms(3), of kp "latch_key E" cert doc] nd kp assms(2) by simp
qed

section \<open>A boot\<close>

text \<open>A SEV-SNP machine without a GPU, with the debug mode set by the build.\<close>

definition demo_boot :: boot_env where
  "demo_boot = \<lparr>
     be_config = \<lparr> ce_build_target = ''cpu'', ce_build_debug = ''off'', ce_debug = '''', ce_cmdline = None \<rparr>,
     be_now = 0, be_machine = sample_machine [''/dev/sev-guest''],
     be_probe = \<lparr> pe_cpus = 8, pe_gpu_locked = False, pe_smi = None, pe_smi_memory = None, pe_parse_float = (\<lambda>_. None) \<rparr>,
     be_nft = (\<lambda>_ rs. Inr rs),
     be_firewall = \<lparr> fm_files = (\<lambda>_. None), fm_writable = (\<lambda>_. True), fm_rules = (\<lambda>_. None) \<rparr>,
     be_modules = \<lparr> me_root = True, me_exists = (\<lambda>t p. False), me_runs = (\<lambda>t a. True), me_read = (\<lambda>t p. None),
       me_glob = (\<lambda>t p. []), me_open_rw = (\<lambda>t p. False), me_open_ro = (\<lambda>t p. False), me_finit = (\<lambda>t p q. Refused),
       me_lock_error = (\<lambda>t. None) \<rparr>,
     be_pid = 1, be_rounds = [], be_key_env = '''', be_metadata = (\<lambda>_ _. None), be_files = (\<lambda>_. None),
     be_sha = (\<lambda>x. word_of_nat (length x) # replicate 31 (sum_list x)), be_hpke = sample_prims,
     be_tls_gen = Some ([1], Some [2]), be_random = Some (replicate 32 3), be_cert = \<lparr> random_int = (\<lambda>n. Some 5), create_certificate = (\<lambda>t k. Some [7]), marshal_ec_key = Some,
       pem_block = (\<lambda>n b. n), x509_key_pair = (\<lambda>c k. Some [8]) \<rparr>,
     be_nvml = (\<lambda>_. None), be_x509 = sample_x509, be_chains = sample_chains,
     be_sev = sample_sev, be_tsm = sample_tsm, be_no_gpu = (\<lambda>_. ''no GPU'') \<rparr>"

definition demo_config :: config_state where
  "demo_config = \<lparr> cf_debug = None, cf_target = '''' \<rparr>"

lemma demo_debug: "IsDebugMode (be_config demo_boot) demo_config = (Some False, \<lparr> cf_debug = Some False, cf_target = '''' \<rparr>)"
proof -
  have "debug_word ''off'' = Some False" by (simp add: debug_word_def TrimSpace_def ToLower_def lower_char_def is_space_def)
  then show ?thesis by (simp add: IsDebugMode_def resolve_debug_def demo_boot_def demo_config_def SetDebugMode_def)
qed

lemma demo_report:
  "2 \<le> length ud \<Longrightarrow> FetchHardwareReport sample_x509 sample_chains sample_sev sample_tsm (sample_machine [''/dev/sev-guest'']) ud =
     Inr (take 2 ud, resolveDefaultAMDChain sample_chains (sample_machine [''/dev/sev-guest'']), PlatformSEVSNP)"
  by (cases ud) (auto simp: FetchHardwareReport_def FetchAMDReport_def sample_sev_def sample_machine_def)

lemma demo_document: "length (TLSKeyFP kp) = 32 \<Longrightarrow> boot_document demo_boot kp v cert \<noteq> None"
  by (simp add: boot_document_def demo_boot_def Let_def demo_report ComputeCompositeUserData_def)

definition demo_keys :: key_pair where
  "demo_keys = \<lparr> TLSKey = [1], TLSKeyFP = be_sha demo_boot [2], HPKEPrivKey = replicate 32 3,
     HPKEPubKey = base_mult (be_hpke demo_boot) (replicate 32 3) \<rparr>"

lemma demo_key_pair:
  "GenerateNodeKeyPair (be_hpke demo_boot) (be_sha demo_boot) (be_tls_gen demo_boot) (be_random demo_boot) = Inr demo_keys"
  by (simp add: GenerateNodeKeyPair_def demo_boot_def demo_keys_def)

lemma demo_certificate: "GenerateSelfSignedCert (be_cert demo_boot) now k n ips = Inr ([8], ''CERTIFICATE'')"
  by (simp add: GenerateSelfSignedCert_def EncodeECDSAPrivateKeyPEM_def demo_boot_def)

lemma demo_services: "\<exists>evs' nd s doc. start_services demo_boot g iface evs = BootUp evs' nd s \<and> nd_doc nd = Some doc"
proof -
  obtain doc where "boot_document demo_boot demo_keys (latch_key demo_boot) ''CERTIFICATE'' = Some doc"
    using demo_document [of demo_keys] by (force simp: demo_keys_def demo_boot_def)
  then show ?thesis
    by (simp add: start_services_def StartProxyServer_def SetupProxyRoutes_def Let_def demo_key_pair demo_certificate)
qed

lemma demo_locked: "\<exists>M l. ApplyFirewallConfig (be_nft demo_boot) ''/etc/nftables.conf'' (be_firewall demo_boot) = (None, M)
    \<and> LockKernelModules (be_modules demo_boot) (snd (preload_drivers (be_modules demo_boot))) = (None, l)
    \<and> DiscoverAndConfigureNetwork (be_rounds demo_boot) = ([], None)"
proof -
  have "fst (ApplyFirewallConfig (be_nft demo_boot) ''/etc/nftables.conf'' (be_firewall demo_boot)) = None"
    by (simp add: ApplyFirewallConfig_def writeDefaultNFTables_def write_file_def run_nft_def demo_boot_def)
  moreover have "fst (LockKernelModules (be_modules demo_boot) s) = None" for s
    by (simp add: LockKernelModules_def demo_boot_def)
  moreover have "DiscoverAndConfigureNetwork (be_rounds demo_boot) = ([], None)" by (simp add: demo_boot_def)
  ultimately show ?thesis by (metis prod.collapse)
qed

lemma demo_up: "\<exists>evs nd s doc. runNodeSupervisor demo_boot demo_config = BootUp evs nd s \<and> nd_doc nd = Some doc"
proof -
  obtain M l where "ApplyFirewallConfig (be_nft demo_boot) ''/etc/nftables.conf'' (be_firewall demo_boot) = (None, M)"
    "LockKernelModules (be_modules demo_boot) (snd (preload_drivers (be_modules demo_boot))) = (None, l)"
    "DiscoverAndConfigureNetwork (be_rounds demo_boot) = ([], None)" using demo_locked by blast
  then show ?thesis using demo_services by (simp add: runNodeSupervisor_def demo_debug Let_def)
qed

lemma online_after_lockdown_witness:
  "\<exists>pre server post M locked. boot_events (runNodeSupervisor demo_boot demo_config) = pre @ Serving server # post
    \<and> ApplyFirewallConfig (be_nft demo_boot) ''/etc/nftables.conf'' (be_firewall demo_boot) = (None, M)
    \<and> FirewallApplied \<in> set pre \<and> ModulesLocked locked \<in> set pre"
proof -
  obtain evs nd s where up: "runNodeSupervisor demo_boot demo_config = BootUp evs nd s" using demo_up by blast
  then obtain g iface evs' where "start_services demo_boot g iface evs' = BootUp evs nd s" by (rule boot_up_services)
  then have "\<exists>server. Serving server \<in> set evs" by (auto simp: start_services_def Let_def split: sum.splits option.splits prod.splits)
  then obtain pre server post where "boot_events (runNodeSupervisor demo_boot demo_config) = pre @ Serving server # post"
    using up by (auto dest: split_list)
  with online_after_lockdown [OF this] show ?thesis by auto
qed

lemma booted_document_verifies_witness:
  "\<exists>evs nd s doc. runNodeSupervisor demo_boot demo_config = BootUp evs nd s \<and> nd_doc nd = Some doc
    \<and> document_verifies (be_sha demo_boot) doc \<and> \<not> nd_sealed nd"
proof -
  obtain evs nd s doc where up: "runNodeSupervisor demo_boot demo_config = BootUp evs nd s" "nd_doc nd = Some doc"
    using demo_up by blast
  have "length (be_sha demo_boot x) = 32" for x by (simp add: demo_boot_def)
  moreover have "length (base_mult (be_hpke demo_boot) k) = 32" for k
    by (simp add: demo_boot_def sample_prims_def norm32_def)
  ultimately show ?thesis using booted_document_verifies [OF up] up by blast
qed

section \<open>The server and its certificate\<close>

lemma template_valid:
  "let t = node_template now serial domain ips in
     ct_not_before t < now \<and> now < ct_not_after t \<and> ct_not_after t - ct_not_before t = 49 * hour
     \<and> ct_common_name t \<in> set (ct_dns_names t) \<and> (domain \<noteq> '''' \<longrightarrow> ct_common_name t = domain)
     \<and> set ips \<subseteq> set (ct_ips t) \<and> ip_loopback4 \<in> set (ct_ips t) \<and> ct_serial t = serial"
  by (auto simp: node_template_def hour_def second_def Let_def)

lemma boot_up_network:
  assumes "runNodeSupervisor E cf = BootUp evs nd s"
  obtains g evs' where
    "start_services E g (snd (DiscoverAndConfigureNetwork (be_rounds E))) evs' = BootUp evs nd s"
  using assms by (auto simp: runNodeSupervisor_def Let_def split: prod.splits option.splits)

lemma certificate_in_document:
  "boot_document E kp v certPEM = Some doc \<Longrightarrow> cp_certificate (ad_predicate doc) = certPEM"
  by (auto simp: boot_document_def BuildAttestationDocumentWithEvidence_def Let_def split: sum.splits)

lemma services_certificate:
  assumes "start_services E g iface evs' = BootUp evs nd s"
  shows "\<exists>kp serial der. GenerateNodeKeyPair (be_hpke E) (be_sha E) (be_tls_gen E) (be_random E) = Inr kp
    \<and> create_certificate (be_cert E) (node_template (be_now E) serial ''cevell-cvm.internal'' (boot_ips iface)) (TLSKey kp) = Some der
    \<and> nd_doc nd = boot_document E kp (latch_key E) (pem_block (be_cert E) ''CERTIFICATE'' der)"
  using assms unfolding start_services_def
  by (auto simp: StartProxyServer_def SetupProxyRoutes_def GenerateSelfSignedCert_def Let_def
      split: sum.splits option.splits prod.splits) blast

lemma services_listen:
  assumes "start_services E g iface evs' = BootUp evs nd s"
  shows "\<exists>tls. Serving \<lparr> hs_addr = '':443'', hs_min_tls = ''TLS13'', hs_certificate = tls, hs_read_header_timeout = 30 * second,
      hs_write_timeout = 0, hs_idle_timeout = 120 * second \<rparr> \<in> set evs \<and> su_port s = 8000"
proof -
  have port: "int_dec 443 = ''443''" by (simp add: int_dec_def nat_dec.simps digit_char_def)
  have sp: "su_port (NewSupervisor now 8000 topo gl ng) = 8000" for now topo gl ng by (simp add: NewSupervisor_def Let_def)
  show ?thesis using assms unfolding start_services_def
    by (auto simp: StartProxyServer_def Let_def port sp split: sum.splits option.splits prod.splits)
qed

text \<open>
  A node that came up serves TLS 1.3 on port 443 with a certificate over its generated key that is
  valid at boot and for 48 hours more, names the node, its loopback address and the address that the
  network gave it, and is the certificate in the attestation document; the engine's port is the one that
  the gateway forwards to.
\<close>

theorem booted_server:
  assumes "runNodeSupervisor E cf = BootUp evs nd s"
  shows "\<exists>kp t der server.
      GenerateNodeKeyPair (be_hpke E) (be_sha E) (be_tls_gen E) (be_random E) = Inr kp
    \<and> create_certificate (be_cert E) t (TLSKey kp) = Some der
    \<and> ct_not_before t < be_now E \<and> be_now E < ct_not_after t \<and> ct_not_after t = be_now E + 48 * hour
    \<and> ''cevell-cvm.internal'' \<in> set (ct_dns_names t) \<and> ip_loopback4 \<in> set (ct_ips t)
    \<and> (\<forall>p. snd (DiscoverAndConfigureNetwork (be_rounds E)) = Some p \<and> pi_ip p \<noteq> [] \<longrightarrow> pi_ip p \<in> set (ct_ips t))
    \<and> (\<forall>doc. nd_doc nd = Some doc \<longrightarrow> cp_certificate (ad_predicate doc) = pem_block (be_cert E) ''CERTIFICATE'' der)
    \<and> Serving server \<in> set evs \<and> hs_addr server = '':443'' \<and> hs_min_tls server = ''TLS13''
    \<and> upstream_url '''' (Some s) = ''http://127.0.0.1:8000''"
proof -
  let ?ips = "boot_ips (snd (DiscoverAndConfigureNetwork (be_rounds E)))"
  obtain g evs' where up: "start_services E g (snd (DiscoverAndConfigureNetwork (be_rounds E))) evs' = BootUp evs nd s"
    using boot_up_network [OF assms] .
  obtain kp serial der where srv:
      "GenerateNodeKeyPair (be_hpke E) (be_sha E) (be_tls_gen E) (be_random E) = Inr kp"
      "create_certificate (be_cert E) (node_template (be_now E) serial ''cevell-cvm.internal'' ?ips) (TLSKey kp) = Some der"
      "nd_doc nd = boot_document E kp (latch_key E) (pem_block (be_cert E) ''CERTIFICATE'' der)"
    using services_certificate [OF up] by blast
  obtain server where server: "Serving server \<in> set evs" "hs_addr server = '':443''" "hs_min_tls server = ''TLS13''" "su_port s = 8000"
    using services_listen [OF up] by force
  let ?t = "node_template (be_now E) serial ''cevell-cvm.internal'' ?ips"
  have t: "ct_not_before ?t < be_now E" "be_now E < ct_not_after ?t" "ct_not_after ?t = be_now E + 48 * hour"
      "''cevell-cvm.internal'' \<in> set (ct_dns_names ?t)" "ip_loopback4 \<in> set (ct_ips ?t)" "set ?ips \<subseteq> set (ct_ips ?t)"
    by (auto simp: node_template_def hour_def second_def Let_def)
  have "pi_ip p \<in> set (ct_ips ?t)" if "snd (DiscoverAndConfigureNetwork (be_rounds E)) = Some p \<and> pi_ip p \<noteq> []" for p
    using that t(6) by (simp add: boot_ips_def)
  moreover have "cp_certificate (ad_predicate doc) = pem_block (be_cert E) ''CERTIFICATE'' der" if "nd_doc nd = Some doc" for doc
    using srv(3) that certificate_in_document by simp
  moreover have "upstream_url '''' (Some s) = ''http://127.0.0.1:8000''"
    using server(4) by (simp add: upstream_url_def int_dec_def nat_dec.simps digit_char_def)
  ultimately show ?thesis using srv server t by blast
qed

lemma booted_server_witness:
  "\<exists>evs nd s server. runNodeSupervisor demo_boot demo_config = BootUp evs nd s \<and> Serving server \<in> set evs \<and> hs_addr server = '':443''"
proof -
  obtain evs nd s doc where "runNodeSupervisor demo_boot demo_config = BootUp evs nd s" using demo_up by blast
  with booted_server [OF this] show ?thesis by blast
qed

section \<open>What stops a start\<close>

lemma start_checks:
  "StartProxyServer now env srv files None = Inl NoConfig"
  "StartProxyServer now env srv files (Some (cfg, None, port)) = Inl NoCertificate"
  "sc_key_pair cfg = None \<Longrightarrow> StartProxyServer now env srv files (Some (cfg, Some tls, port)) = Inl NoNodeKeys"
  by (simp_all add: StartProxyServer_def)

end
