(* ===== verification/NodeLife.thy ===== *)
theory NodeLife
  imports BootSafety GatewayRuns
begin

text \<open>
  The life of a node from its boot through every run of its gateway: a key found at boot is final, and so is
  the document that binds it to the hardware.
\<close>

section \<open>An enrolled node\<close>

lemma ops_keep_key:
  assumes "ops_within C now k v v'" "isEnrolled v"
  shows "isEnrolled v' \<and> publicKey v' = publicKey v"
proof -
  obtain ops where "v' = fold (op_step C) ops v" using assms(1) by (auto simp: ops_within_def run_ops_def)
  then show ?thesis using assms(2) by (induction ops arbitrary: v) (simp_all add: op_step_key)
qed

text \<open>What identifies an enrolled node to its tenant: the key it checks and the document it shows.\<close>

definition same_identity :: "node \<Rightarrow> node \<Rightarrow> bool" where
  "same_identity nd nd' \<longleftrightarrow> isEnrolled (nd_verifier nd') \<and> publicKey (nd_verifier nd') = publicKey (nd_verifier nd)
     \<and> nd_doc nd' = nd_doc nd"

lemma touches_identity:
  "touches G W k ps nd nd' \<Longrightarrow> DocPart \<notin> ps \<Longrightarrow> isEnrolled (nd_verifier nd) \<Longrightarrow> same_identity nd nd'"
  using ops_keep_key by (auto simp: touches_def same_identity_def)

lemma route_identity:
  assumes "route G W r nd = (w, nd', effs)" "isEnrolled (nd_verifier nd)"
  shows "same_identity nd nd'"
proof (cases "endpoint_of (r_path r) = EnrollEP")
  case True
  then have h: "enroll_handler G W r fresh_response nd = (w, nd', effs)" using assms(1) by (simp add: route_def handler_of_def)
  have "nd' = nd" using h status_fresh by (cases rule: enroll_cases) (use assms(2) in \<open>auto simp: IsEnrolled_def\<close>)
  then show ?thesis using assms(2) by (simp add: same_identity_def)
next
  case False
  then have "DocPart \<notin> parts_of (endpoint_of (r_path r))" by (cases "endpoint_of (r_path r)") (simp_all add: parts_of_def)
  then show ?thesis using touches_identity [OF route_touches [OF assms(1)]] assms(2) by blast
qed

lemma step_identity:
  assumes "gateway_step G s e s'" "isEnrolled (nd_verifier (sys_node s))"
  shows "same_identity (sys_node s) (sys_node s')"
  using assms(1)
proof cases
  case (handled r W w nd effs) then show ?thesis using route_identity [OF handled(4) assms(2)] by simp
next
  case (refused W r w w' nd effs)
  then show ?thesis using touches_identity [OF conjunct1 [OF load_admission_frame(1) [OF refused(3)]]] assms(2) by simp
next
  case (admitted W r w spec nd)
  then show ?thesis using touches_identity [OF conjunct1 [OF load_admission_frame(2) [OF admitted(3)]]] assms(2) by simp
next
  case (completed xs spec ys W w w' nd effs)
  then show ?thesis using touches_identity [OF conjunct1 [OF load_completion_frame [OF completed(4), of G]]] assms(2) by simp
next
  case (supervised sv) then show ?thesis using assms(2) by (simp add: same_identity_def)
qed

lemma run_identity:
  "gateway_run G s es s' \<Longrightarrow> isEnrolled (nd_verifier (sys_node s)) \<Longrightarrow> same_identity (sys_node s) (sys_node s')"
proof (induction rule: gateway_run.induct)
  case (run_cons s e s1 es s2)
  then have "same_identity (sys_node s) (sys_node s1)" using step_identity by blast
  then show ?case using run_cons by (simp add: same_identity_def)
qed (simp add: same_identity_def)

section \<open>From boot to the end\<close>

lemma found_key:
  "NewDefaultEd25519Verifier now env srv files = Inr v \<Longrightarrow>
     \<exists>key. DiscoverAuthorizedPublicKey env srv files = Inr key \<and> publicKey v = fst key"
  by (auto simp: NewDefaultEd25519Verifier_def NewEd25519Verifier_def Let_def split: sum.splits prod.splits)

lemma latched_key:
  assumes "isEnrolled (latch_key E)"
  shows "\<exists>v. NewDefaultEd25519Verifier (be_now E) (be_key_env E) (be_metadata E) (be_files E) = Inr v \<and> latch_key E = v
    \<and> length (publicKey v) = 32"
  using assms discovered_key_enrolled [of "be_now E" "be_key_env E" "be_metadata E" "be_files E"]
  by (auto simp: latch_key_def NewDynamicVerifier_def split: sum.splits)

text \<open>
  C23: a node that finds its tenant's key at boot is that tenant's for life: in every run of the gateway from
  there, with requests and model loads interleaved, the verifier holds exactly the key that was found, and the
  node shows the document of its boot, which verifies and names that key. (A key of 32 zero bytes, which
  the document does not name, aside.)
\<close>

theorem booted_identity_final:
  assumes "runNodeSupervisor E cf = BootUp evs nd s" "isEnrolled (nd_verifier nd)"
    and "gateway_run G \<lparr> sys_node = nd, sys_loading = [] \<rparr> es S"
    and "\<And>x. length (be_sha E x) = 32" "\<And>k. length (base_mult (be_hpke E) k) = 32"
  shows "\<exists>key. DiscoverAuthorizedPublicKey (be_key_env E) (be_metadata E) (be_files E) = Inr key
    \<and> GetPublicKey (nd_verifier (sys_node S)) = Some (fst key)
    \<and> (\<forall>doc. nd_doc (sys_node S) = Some doc \<longrightarrow> document_verifies (be_sha E) doc
         \<and> (fst key \<noteq> zero32 \<longrightarrow> cp_authorized_public_key (ad_predicate doc) = hex_encode (fst key)))"
proof -
  obtain g iface evs' where up: "start_services E g iface evs' = BootUp evs nd s" using boot_up_services [OF assms(1)] .
  obtain kp cert where kp: "GenerateNodeKeyPair (be_hpke E) (be_sha E) (be_tls_gen E) (be_random E) = Inr kp"
    and nd: "nd_verifier nd = latch_key E" "nd_doc nd = boot_document E kp (latch_key E) cert"
    using running_parts [OF up] by metis
  have sizes: "length (TLSKeyFP kp) = 32" "length (HPKEPubKey kp) = 32"
    using kp assms(4,5) by (auto simp: GenerateNodeKeyPair_def split: option.splits)
  obtain v where v: "NewDefaultEd25519Verifier (be_now E) (be_key_env E) (be_metadata E) (be_files E) = Inr v"
      "latch_key E = v" "length (publicKey v) = 32"
    using latched_key assms(2) nd(1) by metis
  obtain key where key: "DiscoverAuthorizedPublicKey (be_key_env E) (be_metadata E) (be_files E) = Inr key"
      "publicKey v = fst key" using found_key [OF v(1)] by blast
  have same: "same_identity nd (sys_node S)" using run_identity [OF assms(3)] assms(2) by simp
  have bytes: "fst (GetPublicKeyBytes (latch_key E)) = fst key"
    using v assms(2) nd(1) key(2) by (simp add: GetPublicKeyBytes_def PublicKeySize_def)
  have "document_verifies (be_sha E) doc \<and> (fst key \<noteq> zero32 \<longrightarrow> cp_authorized_public_key (ad_predicate doc) = hex_encode (fst key))"
    if "nd_doc (sys_node S) = Some doc" for doc
    using document_of_boot [OF _ assms(4) sizes, of "latch_key E" cert doc] that same nd(2) bytes
    by (simp add: same_identity_def)
  moreover have "GetPublicKey (nd_verifier (sys_node S)) = Some (fst key)"
    using same nd(1) v(2) key(2) by (simp add: same_identity_def GetPublicKey_def)
  ultimately show ?thesis using key(1) by blast
qed

text \<open>The demonstration boot with a key in the environment.\<close>

definition tenant_boot :: boot_env where
  "tenant_boot = demo_boot\<lparr> be_key_env := hex_encode (replicate 32 9) \<rparr>"

lemma tenant_latch: "isEnrolled (latch_key tenant_boot) \<and> publicKey (latch_key tenant_boot) = replicate 32 9"
proof -
  have "ParsePublicKeyHex (TrimSpace (hex_encode (replicate 32 9))) = Inr (replicate 32 9, hex_encode (replicate 32 9))"
    using parse_hex_key [of "replicate 32 9"] by (simp add: PublicKeySize_def)
  then have "NewDefaultEd25519Verifier now (hex_encode (replicate 32 9)) srv files =
      Inr (NewEd25519Verifier now (replicate 32 9) DefaultMaxClockSkew DefaultNonceTTL)" for now srv files
    using discovered_key_enrolled [of now "hex_encode (replicate 32 9)" srv files] by (auto split: sum.splits)
  then show ?thesis
    by (simp add: latch_key_def tenant_boot_def NewEd25519Verifier_def PublicKeySize_def)
qed

lemma tenant_document: "boot_document tenant_boot = boot_document demo_boot"
  by (intro ext) (simp add: boot_document_def tenant_boot_def)

lemma tenant_fields: "be_hpke tenant_boot = be_hpke demo_boot" "be_sha tenant_boot = be_sha demo_boot"
  "be_tls_gen tenant_boot = be_tls_gen demo_boot" "be_random tenant_boot = be_random demo_boot"
  "be_cert tenant_boot = be_cert demo_boot" "be_config tenant_boot = be_config demo_boot"
  "be_nft tenant_boot = be_nft demo_boot" "be_firewall tenant_boot = be_firewall demo_boot"
  "be_modules tenant_boot = be_modules demo_boot" "be_rounds tenant_boot = be_rounds demo_boot"
  by (simp_all add: tenant_boot_def)

lemma tenant_services: "\<exists>evs' nd s doc. start_services tenant_boot g iface evs = BootUp evs' nd s \<and> nd_doc nd = Some doc
    \<and> nd_verifier nd = latch_key tenant_boot"
proof -
  obtain doc where "boot_document tenant_boot demo_keys (latch_key tenant_boot) ''CERTIFICATE'' = Some doc"
    using demo_document [of demo_keys] by (force simp: tenant_document demo_keys_def demo_boot_def)
  then show ?thesis
    by (simp add: start_services_def StartProxyServer_def SetupProxyRoutes_def Let_def tenant_fields demo_key_pair demo_certificate)
qed

lemma tenant_up: "\<exists>evs nd s doc. runNodeSupervisor tenant_boot demo_config = BootUp evs nd s \<and> nd_doc nd = Some doc
    \<and> nd_verifier nd = latch_key tenant_boot"
proof -
  obtain M l where "ApplyFirewallConfig (be_nft demo_boot) ''/etc/nftables.conf'' (be_firewall demo_boot) = (None, M)"
    "LockKernelModules (be_modules demo_boot) (snd (preload_drivers (be_modules demo_boot))) = (None, l)"
    "DiscoverAndConfigureNetwork (be_rounds demo_boot) = ([], None)" using demo_locked by blast
  then show ?thesis using tenant_services by (simp add: runNodeSupervisor_def tenant_fields demo_debug Let_def)
qed

lemma booted_identity_final_witness:
  "\<exists>evs nd s doc S. runNodeSupervisor tenant_boot demo_config = BootUp evs nd s
    \<and> gateway_run demo_gateway \<lparr> sys_node = nd, sys_loading = [] \<rparr> [SupervisorMoved] S
    \<and> GetPublicKey (nd_verifier (sys_node S)) = Some (replicate 32 9) \<and> nd_doc (sys_node S) = Some doc
    \<and> document_verifies (be_sha tenant_boot) doc"
proof -
  obtain evs nd s doc where up: "runNodeSupervisor tenant_boot demo_config = BootUp evs nd s" "nd_doc nd = Some doc"
      "nd_verifier nd = latch_key tenant_boot" using tenant_up by blast
  let ?S = "\<lparr> sys_node = nd\<lparr> nd_supervisor := idle_supervisor \<rparr>, sys_loading = [] \<rparr>"
  have run: "gateway_run demo_gateway \<lparr> sys_node = nd, sys_loading = [] \<rparr> [SupervisorMoved] ?S"
    using supervised [of demo_gateway "\<lparr> sys_node = nd, sys_loading = [] \<rparr>" idle_supervisor]
    by (auto intro!: gateway_run.intros)
  have "length (be_sha tenant_boot x) = 32" for x by (simp add: tenant_fields demo_boot_def)
  moreover have "length (base_mult (be_hpke tenant_boot) k) = 32" for k
    by (simp add: tenant_fields demo_boot_def sample_prims_def norm32_def)
  moreover have "isEnrolled (nd_verifier nd)" using up(3) tenant_latch by simp
  ultimately have "document_verifies (be_sha tenant_boot) doc"
    using booted_identity_final [OF up(1) _ run] up(2) by auto
  moreover have "GetPublicKey (nd_verifier nd) = Some (replicate 32 9)" using up(3) tenant_latch by (simp add: GetPublicKey_def)
  ultimately show ?thesis using up run by (intro exI conjI) auto
qed

end
