(* ===== verification/NvmlScript.thy ===== *)
theory NvmlScript
  imports Attestation
begin

text \<open>
  The program of pkg/attestation/gpu.go in Python (nvmlQueryScript): it asks the NVIDIA management
  library for the state of confidential computing, the certificates and the attestation report of GPU
  0, and prints a JSON object that queryHardwareNVIDIACC reads. A text of Python is a list of code
  points. The library and the host are parameters; a library answers by its functions, each of which
  the script calls at most once, so an answer is the one at the time of that call. The calls are
  recorded in their order.
\<close>

section \<open>Texts of Python\<close>

type_synonym pytext = "nat list"

definition py :: "string \<Rightarrow> pytext" where
  "py s = map of_char s"

text \<open>
  The codec utf-8 with errors ignored: a byte that starts nothing is dropped, and of a sequence that
  breaks off the bytes up to the break are dropped.
\<close>

fun utf8_ignore :: "nat list \<Rightarrow> pytext" where
  "utf8_ignore [] = []"
| "utf8_ignore (b # bs) =
     (if b < 0x80 then b # utf8_ignore bs
      else (case utf8_lead b of
              None \<Rightarrow> utf8_ignore bs
            | Some (n, lo, hi) \<Rightarrow>
                (case bs of
                   [] \<Rightarrow> []
                 | c # cs \<Rightarrow>
                     if c < lo \<or> hi < c then utf8_ignore bs
                     else if n = 1 then ((b - 0xC0) * 64 + (c - 0x80)) # utf8_ignore cs
                     else (case cs of
                             [] \<Rightarrow> []
                           | d # ds \<Rightarrow>
                               if d < 0x80 \<or> 0xBF < d then utf8_ignore cs
                               else if n = 2 then
                                 ((b - 0xE0) * 4096 + (c - 0x80) * 64 + (d - 0x80)) # utf8_ignore ds
                               else (case ds of
                                       [] \<Rightarrow> []
                                     | e # es \<Rightarrow>
                                         if e < 0x80 \<or> 0xBF < e then utf8_ignore ds
                                         else ((b - 0xF0) * 262144 + (c - 0x80) * 4096 + (d - 0x80) * 64 + (e - 0x80))
                                              # utf8_ignore es)))))"

declare utf8_ignore.simps(2) [simp del]

definition decode_ignore :: "bytes \<Rightarrow> pytext" where
  "decode_ignore b = utf8_ignore (map unat b)"

text \<open>The white space of str.strip.\<close>

definition py_space :: "nat \<Rightarrow> bool" where
  "py_space u \<longleftrightarrow> 9 \<le> u \<and> u \<le> 13 \<or> 28 \<le> u \<and> u \<le> 32 \<or> u \<in> {0x85, 0xA0, 0x1680, 0x2028, 0x2029, 0x202F, 0x205F, 0x3000}
     \<or> 0x2000 \<le> u \<and> u \<le> 0x200A"

definition py_strip :: "pytext \<Rightarrow> pytext" where
  "py_strip s = rev (dropWhile py_space (rev (dropWhile py_space s)))"

section \<open>json.dumps\<close>

text \<open>Everything outside the printable ASCII characters is escaped, beyond 16 bits by a surrogate pair.\<close>

definition unit_escape :: "nat \<Rightarrow> string" where
  "unit_escape u =
     [CHR 0x5C, CHR ''u'', hex_digit (u div 4096), hex_digit (u div 256 mod 16), hex_digit (u div 16 mod 16), hex_digit (u mod 16)]"

definition py_escape :: "nat \<Rightarrow> string" where
  "py_escape u =
     (if u = 0x22 \<or> u = 0x5C then [CHR 0x5C, char_of u]
      else if u = 0x0A then [CHR 0x5C, CHR ''n'']
      else if u = 0x0D then [CHR 0x5C, CHR ''r'']
      else if u = 0x09 then [CHR 0x5C, CHR ''t'']
      else if u = 0x0C then [CHR 0x5C, CHR ''f'']
      else if u = 0x08 then [CHR 0x5C, CHR ''b'']
      else if 0x20 \<le> u \<and> u \<le> 0x7E then [char_of u]
      else if u < 0x10000 then unit_escape u
      else unit_escape (0xD800 + (u - 0x10000) div 1024 mod 1024) @ unit_escape (0xDC00 + (u - 0x10000) mod 1024))"

definition py_quote :: "pytext \<Rightarrow> string" where
  "py_quote s = [CHR 0x22] @ concat (map py_escape s) @ [CHR 0x22]"

datatype py_value = PyBool bool | PyStr pytext

fun py_dump :: "py_value \<Rightarrow> string" where
  "py_dump (PyBool b) = (if b then ''true'' else ''false'')"
| "py_dump (PyStr s) = py_quote s"

definition py_member :: "pytext \<times> py_value \<Rightarrow> string" where
  "py_member m = py_quote (fst m) @ '': '' @ py_dump (snd m)"

definition py_dumps :: "(pytext \<times> py_value) list \<Rightarrow> string" where
  "py_dumps ms = ''{'' @ Join (map py_member ms) '', '' @ ''}''"

section \<open>The management library\<close>

datatype nvml_call =
    OpenLibrary string
  | CallInit string
  | GetHandle string nat
  | RunSmi "string list"
  | SetReady nat
  | GetState
  | GetCertificate string nat
  | GetReport string nat bytes

text \<open>
  A loaded library: its symbols, and the answers of its functions. The state is the environment, the
  feature and the mode of the developer tools; the certificate of a device is two sizes and two
  buffers, the report for a nonce a size and a buffer, each after the returned code. An error has a
  text, or the function gives no text.
\<close>

record nvml_lib =
  nl_has :: "string \<Rightarrow> bool"
  nl_error :: "int \<Rightarrow> bytes option"
  nl_init :: "string \<Rightarrow> int"
  nl_handle :: "string \<Rightarrow> nat \<Rightarrow> int \<times> nat"
  nl_state :: "int \<times> nat \<times> nat \<times> nat"
  nl_certificate :: "string \<Rightarrow> nat \<Rightarrow> int \<times> nat \<times> nat \<times> bytes \<times> bytes"
  nl_report :: "string \<Rightarrow> nat \<Rightarrow> bytes \<Rightarrow> int \<times> nat \<times> bytes"

text \<open>
  The host: what opening each library path gives, the text of Python's error for an argument that is
  not hexadecimal, and whether the process ends by itself, within the five seconds that it has.
\<close>

record nvml_host =
  nh_load :: "string \<Rightarrow> nvml_lib option"
  nh_value_error :: "string \<Rightarrow> pytext"
  nh_finishes :: bool

text \<open>
  The dictionary of the result, with the calls made so far. The entries model, driver_version,
  architecture and signature are never assigned.
\<close>

record nvml_dict =
  nd_cc :: bool
  nd_report :: string
  nd_chain :: pytext
  nd_error :: pytext
  nd_calls :: "nvml_call list"

definition new_dict :: nvml_dict where
  "new_dict = \<lparr> nd_cc = False, nd_report = '''', nd_chain = [], nd_error = [], nd_calls = [] \<rparr>"

definition called :: "nvml_call \<Rightarrow> nvml_dict \<Rightarrow> nvml_dict" where
  "called c d = d\<lparr> nd_calls := nd_calls d @ [c] \<rparr>"

definition py_items :: "nvml_dict \<Rightarrow> (pytext \<times> py_value) list" where
  "py_items d =
     [(py ''cc_enabled'', PyBool (nd_cc d)), (py ''model'', PyStr []), (py ''driver_version'', PyStr []),
      (py ''architecture'', PyStr []), (py ''evidence_report'', PyStr (py (nd_report d))),
      (py ''certificate_chain'', PyStr (nd_chain d)), (py ''signature'', PyStr []), (py ''error'', PyStr (nd_error d))]"

definition lib_paths :: "string list" where
  "lib_paths = [''/usr/lib/x86_64-linux-gnu/libnvidia-ml.so.1'', ''/usr/lib64/libnvidia-ml.so.1'',
     ''/lib64/libnvidia-ml.so.1'', ''/lib/libnvidia-ml.so.1'', ''libnvidia-ml.so.1'', ''libnvidia-ml.so'']"

fun open_library :: "(string \<Rightarrow> nvml_lib option) \<Rightarrow> string list \<Rightarrow> nvml_dict \<Rightarrow> nvml_lib option \<times> nvml_dict" where
  "open_library ld [] d = (None, d)"
| "open_library ld (p # ps) d =
     (case ld p of
        Some L \<Rightarrow> (Some L, called (OpenLibrary p) d)
      | None \<Rightarrow> open_library ld ps (called (OpenLibrary p) d))"

definition err_str :: "nvml_lib \<Rightarrow> int \<Rightarrow> pytext" where
  "err_str L code =
     (if nl_has L ''nvmlErrorString''
        then (case nl_error L code of Some t \<Rightarrow> decode_ignore t | None \<Rightarrow> py (int_dec code))
      else py (int_dec code))"

definition first_symbol :: "nvml_lib \<Rightarrow> string \<Rightarrow> string \<Rightarrow> string option" where
  "first_symbol L a b = (if nl_has L a then Some a else if nl_has L b then Some b else None)"

text \<open>Steps 2 and 3 either end the script with an error in the dictionary (Inl) or go on (Inr).\<close>

definition init_step :: "nvml_lib \<Rightarrow> nvml_dict \<Rightarrow> nvml_dict + nvml_dict" where
  "init_step L d =
     (case first_symbol L ''nvmlInit_v2'' ''nvmlInit'' of
        None \<Rightarrow> Inl (d\<lparr> nd_error := py ''nvmlInit symbol not found in libnvidia-ml.so'' \<rparr>)
      | Some f \<Rightarrow>
          (let d = called (CallInit f) d; ret = nl_init L f
           in if ret \<noteq> 0 then Inl (d\<lparr> nd_error := py ''nvmlInit failed: '' @ err_str L ret \<rparr>) else Inr d))"

definition handle_step :: "nvml_lib \<Rightarrow> nvml_dict \<Rightarrow> nvml_dict + nat \<times> nvml_dict" where
  "handle_step L d =
     (case first_symbol L ''nvmlDeviceGetHandleByIndex_v2'' ''nvmlDeviceGetHandleByIndex'' of
        None \<Rightarrow> Inl (d\<lparr> nd_error := py ''nvmlDeviceGetHandleByIndex symbol not found'' \<rparr>)
      | Some f \<Rightarrow>
          (let d = called (GetHandle f 0) d; (ret, dev) = nl_handle L f 0
           in if ret \<noteq> 0 then Inl (d\<lparr> nd_error := py ''nvmlDeviceGetHandleByIndex failed: '' @ err_str L ret \<rparr>)
              else Inr (dev, d)))"

text \<open>Step 4 ignores how both of its calls end.\<close>

definition ready_step :: "nvml_lib \<Rightarrow> nvml_dict \<Rightarrow> nvml_dict" where
  "ready_step L d =
     (let d = called (RunSmi [''nvidia-smi'', ''conf-compute'', ''-srs'', ''1'']) d
      in if nl_has L ''nvmlSystemSetConfComputeGpusReadyState'' then called (SetReady 1) d else d)"

definition state_step :: "nvml_lib \<Rightarrow> nvml_dict \<Rightarrow> nvml_dict" where
  "state_step L d =
     (if nl_has L ''nvmlSystemGetConfComputeState''
        then (let d = called GetState d; (ret, environment, ccFeature, devToolsMode) = nl_state L
              in if ret = 0 \<and> ccFeature = 1 then d\<lparr> nd_cc := True \<rparr> else d)
      else d)"

text \<open>
  A field of type c_char array reads as its bytes before the first zero, one of type c_ubyte array as
  all of its bytes, which are zero where nothing was written.
\<close>

definition char_field :: "nat \<Rightarrow> bytes \<Rightarrow> bytes" where
  "char_field n b = takeWhile (\<lambda>x. x \<noteq> 0) (take n b)"

definition ubyte_field :: "nat \<Rightarrow> bytes \<Rightarrow> bytes" where
  "ubyte_field n b = take n (b @ replicate n 0)"

definition certificate_text :: "nat \<Rightarrow> nat \<Rightarrow> bytes \<Rightarrow> bytes \<Rightarrow> pytext" where
  "certificate_text chainSize attSize chain attChain =
     (let pem = (if 0 < chainSize then decode_ignore (take (min 4096 chainSize) (char_field 4096 chain)) else []);
          att = decode_ignore (take (min 5120 attSize) (char_field 5120 attChain))
      in if 0 < attSize \<and> \<not> Contains pem att then py_strip (pem @ [10] @ att) else pem)"

definition certificate_step :: "nvml_lib \<Rightarrow> nat \<Rightarrow> nvml_dict \<Rightarrow> nvml_dict" where
  "certificate_step L dev d =
     (case first_symbol L ''nvmlDeviceGetConfComputeGpuCertificate'' ''nvmlDeviceGetConfidentialComputeGpuCertificate'' of
        None \<Rightarrow> d\<lparr> nd_error := nd_error d @ py '' [nvmlDeviceGetConfComputeGpuCertificate symbol not found]'' \<rparr>
      | Some f \<Rightarrow>
          (let d = called (GetCertificate f dev) d; (ret, chainSize, attSize, chain, attChain) = nl_certificate L f dev
           in if ret = 0
              then (let pem = certificate_text chainSize attSize chain attChain
                    in if pem \<noteq> [] then d\<lparr> nd_chain := pem, nd_cc := True \<rparr> else d)
              else d\<lparr> nd_error := nd_error d @ py '' [cert: '' @ err_str L ret @ py '']'' \<rparr>))"

text \<open>Bytes of an argument that is not hexadecimal end the try block: its error replaces the text so far.\<close>

definition nonce_field :: "bytes \<Rightarrow> bytes" where
  "nonce_field n = take 32 n @ replicate (32 - length n) 0"

definition report_step :: "nvml_host \<Rightarrow> nvml_lib \<Rightarrow> nat \<Rightarrow> string \<Rightarrow> nvml_dict \<Rightarrow> nvml_dict" where
  "report_step H L dev nonce_hex d =
     (case first_symbol L ''nvmlDeviceGetConfComputeGpuAttestationReport''
             ''nvmlDeviceGetConfidentialComputeGpuAttestationReport'' of
        None \<Rightarrow> d\<lparr> nd_error := nd_error d @ py '' [nvmlDeviceGetConfComputeGpuAttestationReport symbol not found]'' \<rparr>
      | Some f \<Rightarrow>
          (case hex_decode nonce_hex of
             None \<Rightarrow> d\<lparr> nd_error := nh_value_error H nonce_hex \<rparr>
           | Some nonce \<Rightarrow>
               (let d = called (GetReport f dev (nonce_field nonce)) d;
                    (ret, repSize, buf) = nl_report L f dev (nonce_field nonce)
                in if ret = 0 \<and> 0 < repSize
                   then d\<lparr> nd_report := b64_encode (take (min 8192 repSize) (ubyte_field 8192 buf)), nd_cc := True \<rparr>
                   else if ret \<noteq> 0 then d\<lparr> nd_error := nd_error d @ py '' [report: '' @ err_str L ret @ py '']'' \<rparr>
                   else d)))"

definition nvmlQueryScript :: "nvml_host \<Rightarrow> string \<Rightarrow> nvml_dict" where
  "nvmlQueryScript H nonce_hex =
     (case open_library (nh_load H) lib_paths new_dict of
        (None, d) \<Rightarrow> d\<lparr> nd_error := py ''libnvidia-ml.so not found'' \<rparr>
      | (Some L, d) \<Rightarrow>
          (case init_step L d of
             Inl d \<Rightarrow> d
           | Inr d \<Rightarrow>
               (case handle_step L d of
                  Inl d \<Rightarrow> d
                | Inr (dev, d) \<Rightarrow>
                    report_step H L dev nonce_hex (certificate_step L dev (state_step L (ready_step L d))))))"

text \<open>The process: its standard output, or nothing where it is killed or cannot run.\<close>

definition nvml_process :: "nvml_host \<Rightarrow> string \<Rightarrow> bytes option" where
  "nvml_process H nonce_hex =
     (if nh_finishes H then Some (bytes_of (py_dumps (py_items (nvmlQueryScript H nonce_hex)) @ [CHR 0x0A])) else None)"

end
