(* ===== verification/JsonRoundTrip.thy ===== *)
theory JsonRoundTrip
  imports GoJson
begin

text \<open>
  The decoder of encoding/json reads back what its encoder writes: strings with every escape and with the
  replacement character for what is not UTF-8, numbers by their literals, arrays and objects to any depth.
\<close>

section \<open>Strings\<close>

lemma join_unit: "\<not> high_surrogate u \<Longrightarrow> \<not> low_surrogate u \<Longrightarrow> join_tokens (Unit u # ts) = utf8 u @ join_tokens ts"
  by (cases ts rule: join_tokens.cases) auto

lemma hex4_digits:
  "a < 16 \<Longrightarrow> b < 16 \<Longrightarrow> c < 16 \<Longrightarrow> d < 16 \<Longrightarrow>
     hex4 [hex_digit a, hex_digit b, hex_digit c, hex_digit d] = Some (((a * 16 + b) * 16 + c) * 16 + d)"
  by (simp add: hex4_def hex_digit_props)

text \<open>Encodings of scalar values, and the front of a text that has a size.\<close>

lemma char_byte: "n < 256 \<Longrightarrow> (of_char (char_of n :: char) :: nat) = n"
  by (simp add: of_char_of take_bit_eq_mod)

lemma utf8_size_utf8:
  assumes "scalar u" "0x80 \<le> u"
  shows "utf8_size (utf8 u @ s) = length (utf8 u) \<and> length (utf8 u) \<noteq> 0 \<and> (\<exists>c cs. utf8 u = c # cs \<and> 0x80 \<le> (of_char c :: nat))"
proof -
  consider (two) "u < 0x800" | (three) "0x800 \<le> u" "u < 0x10000" | (four) "0x10000 \<le> u" by linarith
  then show ?thesis
  proof cases
    case two
    then have "2 \<le> u div 64" "u div 64 \<le> 31" using assms(2) by auto
    then show ?thesis using two assms(2)
      by (auto simp: utf8_def utf8_size_def char_byte utf8_lead_def byte_in_def)
  next
    case three
    define q where "q = u div 64"
    have q: "32 \<le> q" "q < 1024" "u div 4096 = q div 64" using three by (auto simp: q_def div_mult2_eq [symmetric])
    have a: "q div 64 \<le> 15" using q by auto
    have z: "q div 64 = 0 \<Longrightarrow> 0x20 \<le> q mod 64" "q div 64 = 13 \<Longrightarrow> q mod 64 \<le> 0x1F"
    proof -
      assume "q div 64 = 0" then show "0x20 \<le> q mod 64" using q by (simp add: div_eq_0_iff)
    next
      assume d: "q div 64 = 13"
      then have "u < 0xD800" using assms(1) q(3) three by (auto simp: scalar_def)
      then have "q < 864" by (simp add: q_def)
      then show "q mod 64 \<le> 0x1F" using d mult_div_mod_eq [of 64 q] by linarith
    qed
    show ?thesis using three a z
      by (auto simp: utf8_def utf8_size_def char_byte utf8_lead_def byte_in_def q(3) q_def [symmetric])
  next
    case four
    define q where "q = u div 4096"
    have q: "16 \<le> q" "q < 272" "u div 262144 = q div 64" using four assms(1) by (auto simp: q_def scalar_def div_mult2_eq [symmetric])
    have a: "q div 64 \<le> 4" using q by auto
    have z: "q div 64 = 0 \<Longrightarrow> 0x10 \<le> q mod 64" "q div 64 = 4 \<Longrightarrow> q mod 64 \<le> 0x0F"
      using q mult_div_mod_eq [of 64 q] by linarith+
    show ?thesis using four a z
      by (auto simp: utf8_def utf8_size_def char_byte utf8_lead_def byte_in_def q(3) q_def [symmetric])
  qed
qed

lemma to_valid_utf8: "scalar u \<Longrightarrow> to_valid (utf8 u @ s) = utf8 u @ to_valid s"
proof (cases "u < 0x80")
  case True
  then show ?thesis by (simp add: utf8_def char_byte)
next
  case False
  assume u: "scalar u"
  from utf8_size_utf8 [OF u, of s] False obtain c cs where
      z: "utf8_size (utf8 u @ s) = length (utf8 u)" "length (utf8 u) \<noteq> 0" "utf8 u = c # cs" "0x80 \<le> (of_char c :: nat)" by auto
  then show ?thesis by (subst to_valid.simps) simp
qed

lemma utf8_size_front:
  assumes "utf8_size s \<noteq> 0"
  shows "2 \<le> utf8_size s \<and> utf8_size s \<le> length s \<and> utf8_size (take (utf8_size s) s @ j) = utf8_size s
    \<and> list_all (\<lambda>c. 0x80 \<le> (of_char c :: nat)) (take (utf8_size s) s)"
proof -
  obtain c d ds where s: "s = c # d # ds" using assms by (auto simp: utf8_size_def split: list.splits)
  obtain n lo hi where l: "utf8_lead (of_char c) = Some (n, lo, hi)" using assms by (auto simp: s utf8_size_def split: option.splits)
  have n: "1 \<le> n" "0x80 \<le> lo" "0x80 \<le> (of_char c :: nat)" using l by (auto simp: utf8_lead_def split: if_splits)
  have k: "byte_in lo hi d" "n - 1 \<le> length ds" "list_all (byte_in 0x80 0xBF) (take (n - 1) ds)" and e: "utf8_size s = n + 1"
    using assms by (auto simp: s l utf8_size_def split: if_splits)
  obtain m where m: "n = Suc m" using n by (cases n) auto
  have t: "take (utf8_size s) s = c # d # take m ds" unfolding e m by (simp add: s)
  have "utf8_size (c # d # take m ds @ j) = n + 1" using k l by (simp add: utf8_size_def m)
  then show ?thesis using k n unfolding t unfolding e m by (auto simp: s byte_in_def list_all_iff)
qed

text \<open>A text made valid stays as it is.\<close>

lemma to_valid_front: "utf8_size s \<noteq> 0 \<Longrightarrow> to_valid (take (utf8_size s) s @ j) = take (utf8_size s) s @ to_valid j"
proof -
  assume z: "utf8_size s \<noteq> 0"
  have "s \<noteq> []" using z by (auto simp: utf8_size_def)
  then obtain c cs where c: "take (utf8_size s) s = c # cs" using z by (cases s; cases "utf8_size s") auto
  have l: "utf8_size s = length (take (utf8_size s) s)" using utf8_size_front [OF z] by simp
  have e: "utf8_size (take (utf8_size s) s @ j) = utf8_size s"
    and h: "0x80 \<le> (of_char c :: nat)" using utf8_size_front [OF z, of j] unfolding c by simp_all
  have "utf8_size (c # cs @ j) = Suc (length cs)" using e l unfolding c by simp
  then have "to_valid (c # cs @ j) = c # cs @ to_valid j" using h by (subst to_valid.simps) simp
  then show ?thesis by (simp add: c)
qed

lemma to_valid_idem [simp]: "to_valid (to_valid s) = to_valid s"
proof (induction s rule: to_valid.induct)
  case (1 s)
  have r: "scalar 0xFFFD" by (simp add: scalar_def)
  show ?case
  proof (cases s)
    case (Cons c cs)
    consider (ascii) "(of_char c :: nat) < 0x80" | (bad) "\<not> (of_char c :: nat) < 0x80" "utf8_size s = 0"
      | (rune) "\<not> (of_char c :: nat) < 0x80" "utf8_size s \<noteq> 0" by blast
    then show ?thesis
    proof cases
      case ascii
      then show ?thesis using "1.IH"(1) [OF Cons] by (simp add: Cons)
    next
      case bad
      then have "to_valid s = utf8 0xFFFD @ to_valid cs" by (subst to_valid.simps) (simp add: Cons)
      then show ?thesis using "1.IH"(2) [OF Cons bad] to_valid_utf8 [OF r] by simp
    next
      case rune
      then have "to_valid s = take (utf8_size s) s @ to_valid (drop (utf8_size s) s)" by (subst to_valid.simps) (simp add: Cons)
      then show ?thesis using "1.IH"(3) [OF Cons rune] to_valid_front [OF rune(2)] by simp
    qed
  qed simp
qed

lemma to_valid_plain: "list_all (\<lambda>c. (of_char c :: nat) < 0x80) s \<Longrightarrow> to_valid s = s"
  by (induction s) simp_all

text \<open>What the scanner makes of the next character or escape of a string.\<close>

lemma scan_raw:
  "c \<noteq> CHR 0x22 \<Longrightarrow> c \<noteq> CHR 0x5C \<Longrightarrow> 0x20 \<le> (of_char c :: nat) \<Longrightarrow> (of_char c :: nat) < 0x80 \<Longrightarrow>
     scan_string s = Some (t, r) \<Longrightarrow> scan_string (c # s) = Some (c # t, r)"
  by (subst scan_string_def, subst str_tokens.simps) (auto simp: scan_string_def)

lemma simple_ascii: "simple_escape e = Some x \<Longrightarrow> (of_char x :: nat) < 0x80"
  by (auto simp: simple_escape_def split: if_splits)

lemma scan_simple:
  "simple_escape e = Some x \<Longrightarrow> e \<noteq> CHR ''u'' \<Longrightarrow> scan_string s = Some (t, r) \<Longrightarrow>
     scan_string (CHR 0x5C # e # s) = Some (x # t, r)"
  by (frule simple_ascii) (subst scan_string_def, subst str_tokens.simps, auto simp: scan_string_def)

lemma scan_unit:
  "hex4 h = Some u \<Longrightarrow> length h = 4 \<Longrightarrow> scalar u \<Longrightarrow> \<not> high_surrogate u \<Longrightarrow> \<not> low_surrogate u \<Longrightarrow> scan_string s = Some (t, r) \<Longrightarrow>
     scan_string (CHR 0x5C # CHR ''u'' # h @ s) = Some (utf8 u @ t, r)"
  by (subst scan_string_def, subst str_tokens.simps) (auto simp: scan_string_def join_unit to_valid_utf8)

lemma scan_close: "scan_string (CHR 0x22 # r) = Some ('''', r)"
  by (simp add: scan_string_def str_tokens.simps)

lemma str_tokens_raws:
  "list_all (\<lambda>c. 0x80 \<le> (of_char c :: nat)) xs \<Longrightarrow> str_tokens (xs @ s) = map_option (map_prod ((@) (map Raw xs)) id) (str_tokens s)"
proof (induction xs)
  case Nil
  show ?case by (cases "str_tokens s") auto
next
  case (Cons x xs)
  then have "x \<noteq> CHR 0x22" "x \<noteq> CHR 0x5C" "\<not> (of_char x :: nat) < 0x20" by auto
  then have "str_tokens ((x # xs) @ s) = map_option (map_prod ((#) (Raw x)) id) (str_tokens (xs @ s))"
    by (subst str_tokens.simps) simp
  then show ?case using Cons by (cases "str_tokens s") auto
qed

lemma join_raws: "join_tokens (map Raw xs @ ts) = xs @ join_tokens ts"
  by (induction xs) simp_all

lemma scan_rune:
  assumes z: "utf8_size x \<noteq> 0" and s: "scan_string s = Some (t, r)"
  shows "scan_string (take (utf8_size x) x @ s) = Some (take (utf8_size x) x @ t, r)"
proof -
  obtain ts where "str_tokens s = Some (ts, r)" "t = to_valid (join_tokens ts)" using s by (auto simp: scan_string_def)
  then show ?thesis
    using utf8_size_front [OF z] by (simp add: scan_string_def str_tokens_raws join_raws to_valid_front [OF z])
qed

lemma hex4_byte:
  assumes "n < 256"
  shows "hex4 [CHR ''0'', CHR ''0'', hex_digit (n div 16), hex_digit (n mod 16)] = Some n"
proof -
  have z: "CHR ''0'' = hex_digit 0" by (simp add: hex_digit_def)
  show ?thesis unfolding z using assms by (subst hex4_digits) auto
qed

lemma esc_char_simple:
  "c \<in> {CHR 0x22, CHR 0x5C, CHR 0x0A, CHR 0x0D, CHR 0x09, CHR 0x08, CHR 0x0C} \<Longrightarrow>
     \<exists>e. esc_char c = [CHR 0x5C, e] \<and> simple_escape e = Some c \<and> e \<noteq> CHR ''u''"
  by (elim insertE emptyE) (simp_all add: esc_char_def simple_escape_def)

lemma esc_char_other:
  assumes "c \<notin> {CHR 0x22, CHR 0x5C, CHR 0x0A, CHR 0x0D, CHR 0x09, CHR 0x08, CHR 0x0C}"
  shows "esc_char c =
     (if (of_char c :: nat) < 0x20 \<or> c = CHR ''<'' \<or> c = CHR ''>'' \<or> c = CHR 0x26 then
        CHR 0x5C # CHR ''u'' # [CHR ''0'', CHR ''0'', hex_digit (of_char c div 16), hex_digit (of_char c mod 16)]
      else [c])"
  using assms by (simp add: esc_char_def)

lemma scan_esc_char:
  assumes s: "scan_string s = Some (t, r)"
    and c: "(of_char c :: nat) < 0x80"
  shows "scan_string (esc_char c @ s) = Some (c # t, r)"
proof -
  define n where "n = (of_char c :: nat)"
  have n: "n < 256" unfolding n_def by (rule char_code_lt)
  consider (simple) "c \<in> {CHR 0x22, CHR 0x5C, CHR 0x0A, CHR 0x0D, CHR 0x09, CHR 0x08, CHR 0x0C}"
    | (unit) "c \<notin> {CHR 0x22, CHR 0x5C, CHR 0x0A, CHR 0x0D, CHR 0x09, CHR 0x08, CHR 0x0C}"
        "n < 0x20 \<or> c = CHR ''<'' \<or> c = CHR ''>'' \<or> c = CHR 0x26"
    | (plain) "c \<notin> {CHR 0x22, CHR 0x5C, CHR 0x0A, CHR 0x0D, CHR 0x09, CHR 0x08, CHR 0x0C}"
        "\<not> (n < 0x20 \<or> c = CHR ''<'' \<or> c = CHR ''>'' \<or> c = CHR 0x26)"
    by blast
  then show ?thesis
  proof cases
    case simple
    then show ?thesis using esc_char_simple [OF simple] scan_simple [OF _ _ s] by auto
  next
    case unit
    have "n < 128" using unit(2) by (auto simp: n_def)
    then have "utf8 n = [c]" by (simp add: utf8_def n_def)
    then show ?thesis
      using scan_unit [OF hex4_byte [OF n] _ _ _ _ s] esc_char_other [OF unit(1)] unit(2) \<open>n < 128\<close>
      by (simp add: high_surrogate_def low_surrogate_def scalar_def n_def)
  next
    case plain
    have "esc_char c = [c]" using esc_char_other [OF plain(1)] plain(2) by (simp add: n_def)
    then show ?thesis using scan_raw [OF _ _ _ c s] plain by (simp add: n_def)
  qed
qed

lemma scan_esc_rune:
  assumes z: "utf8_size x \<noteq> 0" and s: "scan_string s = Some (t, r)"
  shows "scan_string (esc_rune (take (utf8_size x) x) @ s) = Some (take (utf8_size x) x @ t, r)"
proof -
  have h: "hex4 [CHR ''2'', CHR ''0'', CHR ''2'', CHR ''8''] = Some 0x2028" "hex4 [CHR ''2'', CHR ''0'', CHR ''2'', CHR ''9''] = Some 0x2029"
    by (simp_all add: hex4_def hex_val_def)
  have u: "utf8 0x2028 = [CHR 0xE2, CHR 0x80, CHR 0xA8]" "utf8 0x2029 = [CHR 0xE2, CHR 0x80, CHR 0xA9]"
    by (simp_all add: utf8_def char_of_eq_iff)
  show ?thesis
    using scan_unit [OF h(1) _ _ _ _ s] scan_unit [OF h(2) _ _ _ _ s] scan_rune [OF z s]
    by (auto simp: esc_rune_def u high_surrogate_def low_surrogate_def scalar_def)
qed

text \<open>What was escaped reads back as the text with the invalid bytes replaced.\<close>

lemma scan_esc_string: "scan_string (esc_string s @ CHR 0x22 # r) = Some (to_valid s, r)"
proof (induction s rule: esc_string.induct)
  case (1 s)
  show ?case
  proof (cases s)
    case Nil
    then show ?thesis by (subst esc_string.simps) (simp add: scan_close)
  next
    case (Cons c cs)
    consider (ascii) "(of_char c :: nat) < 0x80" | (bad) "\<not> (of_char c :: nat) < 0x80" "utf8_size s = 0"
      | (rune) "\<not> (of_char c :: nat) < 0x80" "utf8_size s \<noteq> 0" by blast
    then show ?thesis
    proof cases
      case ascii
      then have "esc_string s = esc_char c @ esc_string cs" by (subst esc_string.simps) (simp add: Cons)
      then show ?thesis using scan_esc_char [OF "1.IH"(1) [OF Cons ascii] ascii] ascii by (simp add: Cons)
    next
      case bad
      have h: "hex4 ''fffd'' = Some 0xFFFD" by (simp add: hex4_def hex_val_def)
      have "esc_string s = CHR 0x5C # ''ufffd'' @ esc_string cs" "to_valid s = utf8 0xFFFD @ to_valid cs"
        using bad by (subst esc_string.simps to_valid.simps, simp add: Cons)+
      then show ?thesis using scan_unit [OF h _ _ _ _ "1.IH"(2) [OF Cons bad]]
        by (simp add: high_surrogate_def low_surrogate_def scalar_def)
    next
      case rune
      have "esc_string s = esc_rune (take (utf8_size s) s) @ esc_string (drop (utf8_size s) s)"
          "to_valid s = take (utf8_size s) s @ to_valid (drop (utf8_size s) s)"
        using rune by (subst esc_string.simps to_valid.simps, simp add: Cons)+
      then show ?thesis using scan_esc_rune [OF rune(2) "1.IH"(3) [OF Cons rune]] by simp
    qed
  qed
qed

lemma scan_enc_string: "enc_string s @ r = CHR 0x22 # esc_string s @ CHR 0x22 # r"
  by (simp add: enc_string_def)

section \<open>Numbers\<close>

text \<open>A literal that the scanner reads to its end, and what may follow it.\<close>

definition number_ok :: "string \<Rightarrow> bool" where
  "number_ok l \<longleftrightarrow> scan_number l = Some (l, '''')"

definition number_end :: "string \<Rightarrow> bool" where
  "number_end r \<longleftrightarrow> (case r of [] \<Rightarrow> True | c # _ \<Rightarrow> \<not> is_digit c \<and> c \<notin> {CHR ''.'', CHR ''e'', CHR ''E''})"

lemma take_while_end: "number_end r \<Longrightarrow> takeWhile is_digit (s @ r) = takeWhile is_digit s"
  by (induction s) (auto simp: number_end_def split: list.splits)

lemma drop_while_end: "number_end r \<Longrightarrow> dropWhile is_digit (s @ r) = dropWhile is_digit s @ r"
  by (induction s) (auto simp: number_end_def split: list.splits)

lemma scan_digits_end: "number_end r \<Longrightarrow> scan_digits s = Some (d, s') \<Longrightarrow> scan_digits (s @ r) = Some (d, s' @ r)"
  by (auto simp: scan_digits_def take_while_end drop_while_end split: if_splits)

lemma scan_int_part_end:
  "number_end r \<Longrightarrow> scan_int_part s = Some (d, s') \<Longrightarrow> scan_int_part (s @ r) = Some (d, s' @ r)"
  using scan_digits_end [of r s d s'] by (auto simp: scan_int_part_def split: list.splits if_splits)

lemma scan_fraction_end:
  "number_end r \<Longrightarrow> scan_fraction s = Some (d, s') \<Longrightarrow> scan_fraction (s @ r) = Some (d, s' @ r)"
  by (cases s) (auto simp: scan_fraction_def number_end_def scan_digits_end split: list.splits if_splits)

lemma scan_exponent_end:
  assumes r: "number_end r" and s: "scan_exponent s = Some (d, s')"
  shows "scan_exponent (s @ r) = Some (d, s' @ r)"
proof (cases s)
  case Nil
  then show ?thesis using r s by (auto simp: scan_exponent_def number_end_def split: list.splits)
next
  case (Cons c cs)
  show ?thesis
    using s scan_digits_end [OF r, of cs] scan_digits_end [OF r, of "tl cs"]
    by (cases cs) (auto simp: Cons scan_exponent_def split: if_splits)
qed

lemma scan_number_end:
  assumes r: "number_end r" and s: "scan_number s = Some (d, s')"
  shows "scan_number (s @ r) = Some (d, s' @ r)"
proof -
  obtain sign s1 where sg: "(if HasPrefix s ''-'' then (''-'', drop 1 s) else ('''', s)) = (sign, s1)" by fastforce
  from s sg obtain i s2 f s3 e where
      i: "scan_int_part s1 = Some (i, s2)" and f: "scan_fraction s2 = Some (f, s3)"
      and e: "scan_exponent s3 = Some (e, s')" and d: "d = sign @ i @ f @ e"
    by (auto simp: scan_number_def split: option.splits)
  have "s \<noteq> ''''" using s by (auto simp: scan_number_def HasPrefix_def scan_int_part_def)
  then have "(if HasPrefix (s @ r) ''-'' then (''-'', drop 1 (s @ r)) else ('''', s @ r)) = (sign, s1 @ r)"
    using sg by (cases s) (auto simp: HasPrefix_def split: if_splits)
  then show ?thesis
    using scan_int_part_end [OF r i] scan_fraction_end [OF r f] scan_exponent_end [OF r e] d
    by (simp only: scan_number_def Let_def prod.case option.case)
qed

lemma number_first:
  assumes "number_ok l"
  shows "\<exists>c cs. l = c # cs \<and> (c = CHR ''-'' \<or> is_digit c)"
  using assms
  by (cases l) (auto simp: number_ok_def scan_number_def HasPrefix_def scan_int_part_def scan_digits_def
      is_digit_def split: if_splits option.splits)


section \<open>The decoder reads what the encoder writes\<close>

fun json_ok :: "json \<Rightarrow> bool" where
  "json_ok (JNum l) = number_ok l"
| "json_ok (JArr vs) = list_all json_ok vs"
| "json_ok (JObj ms) = list_all (\<lambda>m. json_ok (snd m)) ms"
| "json_ok _ = True"

definition enc_member :: "string \<times> json \<Rightarrow> string" where
  "enc_member m = enc_string (fst m) @ '':'' @ json_encode (snd m)"

lemma json_encode_members: "json_encode (JObj ms) = ''{'' @ Join (map enc_member ms) '','' @ ''}''"
proof -
  have "enc_member = (\<lambda>(k, v). enc_string k @ '':'' @ json_encode v)" by (auto simp: enc_member_def fun_eq_iff)
  then show ?thesis by simp
qed

lemma skip_ws_stop [simp]: "\<not> json_space c \<Longrightarrow> skip_ws (c # s) = c # s"
  by (simp add: skip_ws_def)

lemma json_encode_first:
  "json_ok j \<Longrightarrow> \<exists>c cs. json_encode j = c # cs \<and> \<not> json_space c \<and> c \<noteq> CHR ''}'' \<and> c \<noteq> CHR '']''"
proof (cases j)
  case (JNum l)
  assume "json_ok j"
  then obtain c cs where "l = c # cs" "c = CHR ''-'' \<or> is_digit c" using number_first [of l] JNum by auto
  then show ?thesis using JNum by (auto simp: json_space_def is_digit_def)
qed (auto simp: enc_string_def json_space_def)

text \<open>The value with every text made valid; no text that is UTF-8 changes.\<close>

fun valid_json :: "json \<Rightarrow> json" where
  "valid_json (JStr s) = JStr (to_valid s)"
| "valid_json (JArr vs) = JArr (map valid_json vs)"
| "valid_json (JObj ms) = JObj (map (map_prod to_valid valid_json) ms)"
| "valid_json v = v"

text \<open>What \<open>parse_value\<close> does with the encoding of one value, whatever comes after it.\<close>

definition reads :: "json \<Rightarrow> bool" where
  "reads j \<longleftrightarrow> (\<forall>n r. 2 * length (json_encode j @ r) < n \<longrightarrow> number_end r \<longrightarrow> parse_value n (json_encode j @ r) = Some (valid_json j, r))"

lemma readsD: "reads j \<Longrightarrow> 2 * length (json_encode j @ r) < n \<Longrightarrow> number_end r \<Longrightarrow> parse_value n (json_encode j @ r) = Some (valid_json j, r)"
  by (simp add: reads_def)

lemma number_end_sep [simp]: "number_end (CHR '','' # r)" "number_end (CHR '']'' # r)" "number_end (CHR ''}'' # r)" "number_end []"
  by (simp_all add: number_end_def is_digit_def)

lemma json_space_sep [simp]: "\<not> json_space (CHR '','')" "\<not> json_space (CHR '']'')" "\<not> json_space (CHR ''}'')"
  "\<not> json_space (CHR '':'')" "\<not> json_space (CHR 0x22)" "\<not> json_space (CHR ''{'')" "\<not> json_space (CHR ''['')"
  by (simp_all add: json_space_def)

lemma parse_elems_encoded:
  "vs \<noteq> [] \<Longrightarrow> \<forall>v\<in>set vs. reads v \<Longrightarrow> 2 * length (Join (map json_encode vs) '','' @ '']'' @ r) + 1 < n \<Longrightarrow>
     parse_elems n (Join (map json_encode vs) '','' @ '']'' @ r) = Some (map valid_json vs, r)"
proof (induction vs arbitrary: n)
  case (Cons v vs)
  obtain m where n: "n = Suc m" using Cons.prems(3) by (cases n) auto
  have v: "reads v" using Cons.prems(2) by simp
  show ?case
  proof (cases vs)
    case Nil
    then show ?thesis
      using readsD [OF v, of "'']'' @ r" m] Cons.prems(3) by (simp add: n HasPrefix_def)
  next
    case (Cons w ws)
    have "Join (map json_encode (v # vs)) '','' = json_encode v @ '','' @ Join (map json_encode vs) '',''"
      by (simp add: Cons)
    then show ?thesis
      using readsD [OF v, of "'','' @ Join (map json_encode vs) '','' @ '']'' @ r" m] Cons.IH [of m] Cons.prems
      by (simp add: n HasPrefix_def Cons)
  qed
qed simp

lemma parse_member:
  assumes v: "reads v" and r: "number_end r" and n: "2 * length (enc_member (k, v) @ r) < Suc n"
  shows "parse_members (Suc n) (enc_member (k, v) @ r) =
     (let r = skip_ws r in
      if HasPrefix r '','' then map_option (map_prod ((#) (to_valid k, valid_json v)) id) (parse_members n (drop 1 r))
      else if HasPrefix r ''}'' then Some ([(to_valid k, valid_json v)], drop 1 r)
      else None)"
proof -
  have e: "enc_member (k, v) @ r = CHR 0x22 # esc_string k @ CHR 0x22 # CHR '':'' # json_encode v @ r"
    by (simp add: enc_member_def enc_string_def)
  have "parse_value n (json_encode v @ r) = Some (valid_json v, r)"
    using n r by (intro readsD [OF v]) (simp_all add: enc_member_def enc_string_def)
  then show ?thesis unfolding e by (simp add: HasPrefix_def scan_esc_string)
qed

lemma parse_members_encoded:
  "ms \<noteq> [] \<Longrightarrow> \<forall>m\<in>set ms. reads (snd m) \<Longrightarrow> 2 * length (Join (map enc_member ms) '','' @ ''}'' @ r) < n \<Longrightarrow>
     parse_members n (Join (map enc_member ms) '','' @ ''}'' @ r) = Some (map (map_prod to_valid valid_json) ms, r)"
proof (induction ms arbitrary: n)
  case (Cons m ms)
  obtain k v where kv: "m = (k, v)" by fastforce
  obtain i where n: "n = Suc i" using Cons.prems(3) by (cases n) auto
  have v: "reads v" using Cons.prems(2) by (simp add: kv)
  show ?case
  proof (cases ms)
    case Nil
    then show ?thesis
      using parse_member [OF v, of "''}'' @ r" k i] Cons.prems(3) by (simp add: n kv HasPrefix_def)
  next
    case (Cons w ws)
    have "Join (map enc_member (m # ms)) '','' = enc_member m @ '','' @ Join (map enc_member ms) '',''"
      by (simp add: Cons)
    then show ?thesis
      using parse_member [OF v, of "'','' @ Join (map enc_member ms) '','' @ ''}'' @ r" k i] Cons.IH [of i] Cons.prems
      by (simp add: n kv HasPrefix_def Cons)
  qed
qed simp

lemma reads_string: "reads (JStr s)"
  unfolding reads_def
proof (intro allI impI)
  fix n r
  assume "2 * length (json_encode (JStr s) @ r) < n"
  then obtain m where "n = Suc m" by (cases n) auto
  then show "parse_value n (json_encode (JStr s) @ r) = Some (valid_json (JStr s), r)"
    by (simp add: scan_enc_string scan_esc_string)
qed

lemma reads_number:
  assumes l: "number_ok l"
  shows "reads (JNum l)"
  unfolding reads_def
proof (intro allI impI)
  fix n r
  assume "2 * length (json_encode (JNum l) @ r) < n" and r: "number_end r"
  then obtain m where n: "n = Suc m" by (cases n) auto
  obtain c cs where c: "l = c # cs" "c = CHR ''-'' \<or> is_digit c" using number_first [OF l] by blast
  have d: "\<not> json_space c" "c \<noteq> CHR 0x22" "c \<noteq> CHR ''{''" "c \<noteq> CHR ''[''" "c \<noteq> CHR ''n''" "c \<noteq> CHR ''t''" "c \<noteq> CHR ''f''"
    using c(2) by (auto simp: json_space_def is_digit_def)
  have "scan_number (c # cs @ r) = Some (c # cs, r)"
    using scan_number_end [OF r, of l l "''''"] l by (simp add: number_ok_def c)
  then show "parse_value n (json_encode (JNum l) @ r) = Some (valid_json (JNum l), r)"
    using d by (simp add: n c(1) HasPrefix_def)
qed

lemma reads_array:
  assumes vs: "\<forall>v\<in>set vs. reads v" and ok: "list_all json_ok vs"
  shows "reads (JArr vs)"
  unfolding reads_def
proof (intro allI impI)
  fix n r
  assume l: "2 * length (json_encode (JArr vs) @ r) < n"
  then obtain m where n: "n = Suc m" by (cases n) auto
  show "parse_value n (json_encode (JArr vs) @ r) = Some (valid_json (JArr vs), r)"
  proof (cases vs)
    case Nil
    then show ?thesis by (simp add: n HasPrefix_def)
  next
    case (Cons v ws)
    define t where "t = Join (map json_encode vs) '','' @ '']'' @ r"
    obtain c cs where c: "json_encode v = c # cs" "\<not> json_space c" "c \<noteq> CHR '']''"
      using json_encode_first [of v] ok Cons by auto
    then have "\<exists>cs'. t = c # cs'" by (cases ws) (auto simp: t_def Cons)
    then have "\<not> HasPrefix (skip_ws t) '']''" using c by (auto simp: HasPrefix_def)
    moreover have "parse_elems m t = Some (map valid_json vs, r)"
      unfolding t_def using vs l by (intro parse_elems_encoded) (simp_all add: n Cons)
    moreover have "json_encode (JArr vs) @ r = CHR ''['' # t" by (simp add: t_def)
    ultimately show ?thesis by (simp add: n)
  qed
qed

lemma reads_object:
  assumes ms: "\<forall>m\<in>set ms. reads (snd m)"
  shows "reads (JObj ms)"
  unfolding reads_def
proof (intro allI impI)
  fix n r
  assume l: "2 * length (json_encode (JObj ms) @ r) < n"
  then obtain m where n: "n = Suc m" by (cases n) auto
  show "parse_value n (json_encode (JObj ms) @ r) = Some (valid_json (JObj ms), r)"
  proof (cases ms)
    case Nil
    then show ?thesis by (simp add: n HasPrefix_def)
  next
    case (Cons x ws)
    define t where "t = Join (map enc_member ms) '','' @ ''}'' @ r"
    have "\<exists>cs'. t = CHR 0x22 # cs'" by (cases ws) (auto simp: t_def Cons enc_member_def enc_string_def)
    then have "\<not> HasPrefix (skip_ws t) ''}''" by (auto simp: HasPrefix_def)
    moreover have "parse_members m t = Some (map (map_prod to_valid valid_json) ms, r)"
      unfolding t_def using ms l unfolding json_encode_members by (intro parse_members_encoded) (simp_all add: n Cons)
    moreover have "json_encode (JObj ms) @ r = CHR ''{'' # t" unfolding json_encode_members by (simp add: t_def)
    ultimately show ?thesis by (simp add: n del: json_encode.simps)
  qed
qed

lemma reads_literal: "j = JNull \<or> (\<exists>b. j = JBool b) \<Longrightarrow> reads j"
  unfolding reads_def
proof (intro allI impI)
  fix n r
  assume j: "j = JNull \<or> (\<exists>b. j = JBool b)" and "2 * length (json_encode j @ r) < n"
  then obtain m where "n = Suc m" by (cases n) auto
  then show "parse_value n (json_encode j @ r) = Some (valid_json j, r)"
    using j by (auto simp: HasPrefix_def json_space_def)
qed

lemma encoded_value_reads: "json_ok j \<Longrightarrow> reads j"
proof (induction j)
  case (JArr vs)
  then show ?case by (intro reads_array) (auto simp: list_all_iff)
next
  case (JObj ms)
  then show ?case by (intro reads_object) (fastforce simp: list_all_iff snds.simps)
qed (simp_all add: reads_string reads_number reads_literal)

text \<open>
  Decoding what the encoder wrote gives the value back, with every number literal kept and every text made
  valid, white space allowed after it.
\<close>

lemma depth_valid [simp]: "json_depth (valid_json j) = json_depth j"
proof (induction j)
  case (JArr vs)
  then have "map (json_depth \<circ> valid_json) vs = map json_depth vs" by (intro map_cong) simp_all
  then show ?case by (simp only: valid_json.simps json_depth.simps map_map)
next
  case (JObj ms)
  have "map ((\<lambda>(k, v). json_depth v) \<circ> map_prod to_valid valid_json) ms = map (\<lambda>(k, v). json_depth v) ms"
    using JObj by (intro map_cong) (fastforce simp: snds.simps split: prod.split)+
  then show ?case by (simp only: valid_json.simps json_depth.simps map_map)
qed simp_all

theorem json_round_trip:
  assumes "json_ok j" "list_all json_space w" "json_depth j \<le> max_nesting"
  shows "json_decode (bytes_of (json_encode j @ w)) = Some (valid_json j)"
proof -
  have s: "number_end (c # r)" if "json_space c" for c r
    using that unfolding json_space_def by (elim disjE) (simp_all add: number_end_def is_digit_def)
  have w: "skip_ws w = ''''" "number_end w"
    using assms(2) by (simp add: skip_ws_def list_all_iff, cases w, simp_all add: s)
  have "parse_value (2 * length (json_encode j @ w) + 1) (json_encode j @ w) = Some (valid_json j, w)"
    by (rule readsD [OF encoded_value_reads [OF assms(1)]]) (simp_all add: w)
  then show ?thesis
    by (simp only: json_decode_def string_of_bytes_of length_bytes_of option.case prod.case w depth_valid assms(3) simp_thms if_True)
qed

section \<open>Decoded texts are valid\<close>

lemma scan_string_valid: "scan_string s = Some (t, r) \<Longrightarrow> to_valid t = t"
  by (auto simp: scan_string_def)

lemma parse_valid:
  "parse_value n s = Some (v, r) \<Longrightarrow> valid_json v = v"
  "parse_elems n s = Some (vs, r) \<Longrightarrow> map valid_json vs = vs"
  "parse_members n s = Some (ms, r) \<Longrightarrow> map (map_prod to_valid valid_json) ms = ms"
proof (induction n s and n s and n s arbitrary: v r and vs r and ms r
    rule: parse_value_parse_elems_parse_members.induct)
  case (2 n s)
  obtain c cs where s: "skip_ws s = c # cs" using "2.prems" by (auto simp: Let_def split: list.splits)
  have m: "parse_members n cs = Some (ms', r') \<Longrightarrow> c = CHR ''{'' \<Longrightarrow> \<not> HasPrefix (skip_ws cs) ''}'' \<Longrightarrow>
      map (map_prod to_valid valid_json) ms' = ms'" for ms' r'
    using "2.IH" s by simp
  have e: "parse_elems n cs = Some (ms', r') \<Longrightarrow> c = CHR ''['' \<Longrightarrow> \<not> HasPrefix (skip_ws cs) '']'' \<Longrightarrow> map valid_json ms' = ms'" for ms' r'
    using "2.IH" s by simp
  show ?case using "2.prems" s
    by (auto simp: Let_def split: if_splits dest!: m e dest: scan_string_valid)
next
  case (4 n s)
  obtain v1 r1 where v: "parse_value n s = Some (v1, r1)" using "4.prems" by (auto split: option.splits)
  have e: "parse_elems n (drop (Suc 0) (skip_ws r1)) = Some (vs', r') \<Longrightarrow> HasPrefix (skip_ws r1) '','' \<Longrightarrow> map valid_json vs' = vs'" for vs' r'
    using "4.IH"(2) [OF v] by simp
  show ?case using "4.prems" v "4.IH"(1) [OF v] by (auto simp: Let_def split: if_splits dest!: e)
next
  case (6 n s)
  obtain k r1 where k: "scan_string (drop 1 (skip_ws s)) = Some (k, r1)" and q: "HasPrefix (skip_ws s) [CHR 0x22]"
    and cl: "HasPrefix (skip_ws r1) '':''"
    using "6.prems" by (auto simp: Let_def split: option.splits if_splits)
  obtain v1 r2 where v: "parse_value n (drop 1 (skip_ws r1)) = Some (v1, r2)"
    using "6.prems" k q cl by (auto simp: Let_def split: option.splits if_splits)
  have l: "valid_json v1 = v1" "to_valid k = k" using "6.IH"(1) k q cl v scan_string_valid [OF k] by simp_all
  have e: "parse_members n (drop (Suc 0) (skip_ws r2)) = Some (ms', r') \<Longrightarrow> HasPrefix (skip_ws r2) '','' \<Longrightarrow>
      map (map_prod to_valid valid_json) ms' = ms'" for ms' r'
    using "6.IH"(2) k q cl v by simp
  show ?case using "6.prems" k q cl v l by (auto simp: Let_def split: if_splits dest!: e)
qed auto

theorem decoded_valid: "json_decode b = Some j \<Longrightarrow> valid_json j = j"
  unfolding json_decode_def
  by (auto simp del: parse_value.simps split: option.splits if_splits prod.splits dest: parse_valid(1))

text \<open>So is every text that a struct takes from it.\<close>

lemma get_string_valid:
  assumes "map (map_prod to_valid valid_json) ms = ms"
  shows "to_valid (fst (get_field as_string '''' name ms)) = fst (get_field as_string '''' name ms)"
proof -
  have "to_valid (fst (foldl (field_step as_string) x vs)) = fst (foldl (field_step as_string) x vs)"
    if "to_valid (fst x) = fst x" "\<forall>v\<in>set vs. valid_json v = v" for x vs
    using that
  proof (induction vs arbitrary: x)
    case (Cons v vs)
    then show ?case by (cases x; cases v) (simp_all add: field_step_def)
  qed simp
  moreover have "\<forall>v\<in>set (members name ms). valid_json v = v"
    using assms by (induction ms) (auto simp: members_def)
  ultimately show ?thesis by (simp add: get_field_def)
qed

end
