(* ===== verification/NvmlSafety.thy ===== *)
theory NvmlSafety
  imports NvmlScript JsonRoundTrip AttestationSafety
begin

text \<open>
  Properties of the NVML script: what it prints is read back exactly, for every text the library may
  give; a report in the evidence is the answer of the first GPU to the nonce of the evidence; the
  calls are made in one order. The mode of the developer tools is read and ignored.
\<close>

section \<open>Reading the output back\<close>

text \<open>Decoded texts hold scalar values only, so every one of them survives the JSON escapes.\<close>

lemma lead_scalar:
  "utf8_lead b = Some (n, lo, hi) \<Longrightarrow>
     (n = 1 \<longrightarrow> \<not> c < lo \<longrightarrow> \<not> hi < c \<longrightarrow> scalar ((b - 0xC0) * 64 + (c - 0x80)))
     \<and> (n = 2 \<longrightarrow> \<not> c < lo \<longrightarrow> \<not> hi < c \<longrightarrow> \<not> 0xBF < d \<longrightarrow> scalar ((b - 0xE0) * 4096 + (c - 0x80) * 64 + (d - 0x80)))
     \<and> (n \<noteq> 1 \<longrightarrow> n \<noteq> 2 \<longrightarrow> \<not> c < lo \<longrightarrow> \<not> hi < c \<longrightarrow> \<not> 0xBF < d \<longrightarrow> \<not> 0xBF < e \<longrightarrow>
          scalar ((b - 0xF0) * 262144 + (c - 0x80) * 4096 + (d - 0x80) * 64 + (e - 0x80)))"
  unfolding utf8_lead_def scalar_def by (simp split: if_splits) arith+

lemma utf8_ignore_scalar: "list_all scalar (utf8_ignore bs)"
proof (induction bs rule: utf8_ignore.induct)
  case (2 b bs)
  show ?case
  proof (cases "b < 0x80")
    case True
    then show ?thesis using 2(1) by (subst utf8_ignore.simps(2)) (simp, simp add: scalar_def)
  next
    case b: False
    show ?thesis
    proof (cases "utf8_lead b")
      case None
      then show ?thesis using 2(2) b None by (subst utf8_ignore.simps(2)) simp
    next
      case (Some x)
      obtain n lo hi where x: "utf8_lead b = Some (n, lo, hi)" using Some by (cases x) auto
      note IH = 2(3-8) [OF b x refl refl] and L = lead_scalar [OF x]
      show ?thesis
        by (subst utf8_ignore.simps(2)) (use b IH L in \<open>auto simp: x simp del: Nat.add_diff_assoc Nat.add_diff_assoc2 Nat.diff_add_assoc split: list.split\<close>)
    qed
  qed
qed simp

lemma decode_ignore_scalar: "u \<in> set (decode_ignore b) \<Longrightarrow> scalar u"
  using utf8_ignore_scalar [of "map unat b"] by (simp add: decode_ignore_def list_all_iff)

lemma hex4_unit:
  assumes "u < 0x10000"
  shows "hex4 [hex_digit (u div 4096), hex_digit (u div 256 mod 16), hex_digit (u div 16 mod 16), hex_digit (u mod 16)] = Some u"
proof -
  have d: "u div 256 = u div 16 div 16" "u div 4096 = u div 16 div 16 div 16" by (simp_all add: div_mult2_eq [symmetric])
  have "((u div 4096 * 16 + u div 256 mod 16) * 16 + u div 16 mod 16) * 16 + u mod 16 = u"
    unfolding d by (simp only: div_mult_mod_eq)
  then show ?thesis using assms by (subst hex4_digits) (auto simp: less_mult_imp_div_less)
qed

lemma scan_pair:
  assumes h: "hex4 a = Some u" "length a = 4" "high_surrogate u" and l: "hex4 b = Some v" "length b = 4" "low_surrogate v"
    and s: "scan_string s = Some (t, r)"
  shows "scan_string (CHR 0x5C # CHR ''u'' # a @ CHR 0x5C # CHR ''u'' # b @ s) =
     Some (utf8 (0x10000 + (u - 0xD800) * 1024 + (v - 0xDC00)) @ t, r)"
proof -
  have "scalar (0x10000 + (u - 0xD800) * 1024 + (v - 0xDC00))"
    using h(3) l(3) by (auto simp: scalar_def high_surrogate_def low_surrogate_def)
  from to_valid_utf8 [OF this] show ?thesis
    using assms
    by (subst scan_string_def, subst str_tokens.simps, simp, subst str_tokens.simps) (auto simp: scan_string_def)
qed

lemma scan_py_escape:
  assumes u: "scalar u" and s: "scan_string s = Some (t, r)"
  shows "scan_string (py_escape u @ s) = Some (utf8 u @ t, r)"
proof -
  consider (simple) "u \<in> {0x22, 0x5C, 0x0A, 0x0D, 0x09, 0x0C, 0x08}"
    | (plain) "u \<notin> {0x22, 0x5C, 0x0A, 0x0D, 0x09, 0x0C, 0x08}" "0x20 \<le> u" "u \<le> 0x7E"
    | (unit) "u \<notin> {0x22, 0x5C, 0x0A, 0x0D, 0x09, 0x0C, 0x08}" "\<not> (0x20 \<le> u \<and> u \<le> 0x7E)" "u < 0x10000"
    | (pair) "0x10000 \<le> u"
    by force
  then show ?thesis
  proof cases
    case simple
    have c: "char_of (10 :: nat) = CHR 0x0A" "char_of (13 :: nat) = CHR 0x0D" "char_of (9 :: nat) = CHR 0x09"
        "char_of (12 :: nat) = CHR 0x0C" "char_of (8 :: nat) = CHR 0x08" "char_of (34 :: nat) = CHR 0x22"
        "char_of (92 :: nat) = CHR 0x5C"
      by (simp_all add: char_of_eq_iff)
    from simple show ?thesis
      by (elim insertE emptyE) (simp_all add: py_escape_def utf8_def scan_simple [OF _ _ s] simple_escape_def c)
  next
    case plain
    have e: "char_of u \<noteq> CHR 0x22" "char_of u \<noteq> CHR 0x5C" "(of_char (char_of u) :: nat) = u"
      using plain by (auto simp: char_of_eq_iff take_bit_eq_mod)
    then show ?thesis using plain scan_raw [OF _ _ _ _ s, of "char_of u"] by (simp add: py_escape_def utf8_def)
  next
    case unit
    have "\<not> high_surrogate u" "\<not> low_surrogate u"
      using unit u by (auto simp: scalar_def high_surrogate_def low_surrogate_def)
    have e: "py_escape u = unit_escape u" using unit by (auto simp: py_escape_def)
    then show ?thesis
      using scan_unit [OF hex4_unit [OF unit(3)] _ u _ _ s] e \<open>\<not> high_surrogate u\<close> \<open>\<not> low_surrogate u\<close> by (simp add: unit_escape_def)
  next
    case pair
    define k where "k = u - 0x10000"
    have k: "u = 0x10000 + k" "k < 1048576" using pair u by (auto simp: k_def scalar_def)
    define a where "a = 0xD800 + k div 1024 mod 1024"
    define b where "b = 0xDC00 + k mod 1024"
    have ab: "high_surrogate a" "low_surrogate b" "a < 0x10000" "b < 0x10000"
      by (auto simp: a_def b_def high_surrogate_def low_surrogate_def)
    have "k div 1024 mod 1024 = k div 1024" using k by (simp add: less_mult_imp_div_less)
    then have "0x10000 + (a - 0xD800) * 1024 + (b - 0xDC00) = u" by (simp add: a_def b_def k)
    moreover have "py_escape u = unit_escape a @ unit_escape b"
      using pair by (simp add: py_escape_def a_def b_def k_def)
    ultimately show ?thesis
      using scan_pair [OF hex4_unit [OF ab(3)] _ ab(1) hex4_unit [OF ab(4)] _ ab(2) s] by (simp add: unit_escape_def)
  qed
qed

text \<open>The bytes of a text.\<close>

definition encode8 :: "pytext \<Rightarrow> string" where
  "encode8 s = concat (map utf8 s)"

lemma scan_py_text: "\<forall>u\<in>set s. scalar u \<Longrightarrow> scan_string (concat (map py_escape s) @ CHR 0x22 # r) = Some (encode8 s, r)"
  by (induction s) (simp_all add: encode8_def scan_close scan_py_escape)

fun py_ok :: "py_value \<Rightarrow> bool" where
  "py_ok (PyBool b) = True"
| "py_ok (PyStr s) = list_all scalar s"

fun py_json :: "py_value \<Rightarrow> json" where
  "py_json (PyBool b) = JBool b"
| "py_json (PyStr s) = JStr (encode8 s)"

lemma py_depth: "json_depth (JObj (map (map_prod encode8 py_json) ms)) \<le> max_nesting"
proof -
  have "json_depth (py_json v) = 0" for v by (cases v) simp_all
  then have "foldr max (map ((\<lambda>(k, v). json_depth v) \<circ> map_prod encode8 py_json) ms) 0 = 0"
    by (induction ms) (auto split: prod.split)
  then show ?thesis by (simp add: max_nesting_def)
qed

lemma parse_py_value:
  "py_ok v \<Longrightarrow> parse_value (Suc n) (CHR '' '' # py_dump v @ r) = Some (py_json v, r)"
  "py_ok v \<Longrightarrow> parse_value (Suc n) (py_dump v @ r) = Some (py_json v, r)"
  by (cases v; simp add: HasPrefix_def skip_ws_def json_space_def py_quote_def scan_py_text list_all_iff)+

lemma parse_py_members:
  "ms \<noteq> [] \<Longrightarrow> \<forall>m\<in>set ms. list_all scalar (fst m) \<and> py_ok (snd m) \<Longrightarrow> length ms < n \<Longrightarrow>
     parse_members n (Join (map py_member ms) '', '' @ ''}'' @ r) = Some (map (map_prod encode8 py_json) ms, r)
     \<and> parse_members n (CHR '' '' # Join (map py_member ms) '', '' @ ''}'' @ r) = Some (map (map_prod encode8 py_json) ms, r)"
proof (induction ms arbitrary: n)
  case (Cons m ms)
  obtain k v where kv: "m = (k, v)" by fastforce
  obtain i where n: "n = Suc (Suc i)" using Cons.prems(3) by (cases n; cases "n - 1") auto
  have ok: "\<forall>u\<in>set k. scalar u" "py_ok v" using Cons.prems(2) by (auto simp: kv list_all_iff)
  have one: "parse_members n (py_member m @ r') =
      (let r = skip_ws r' in
       if HasPrefix r '','' then map_option (map_prod ((#) (encode8 k, py_json v)) id) (parse_members (Suc i) (drop 1 r))
       else if HasPrefix r ''}'' then Some ([(encode8 k, py_json v)], drop 1 r) else None)"
    "parse_members n (CHR '' '' # py_member m @ r') = parse_members n (py_member m @ r')" for r'
    using ok by (simp_all add: n kv py_member_def py_quote_def HasPrefix_def scan_py_text parse_py_value skip_ws_def json_space_def
        del: parse_value.simps)
  show ?case
  proof (cases ms)
    case Nil
    then show ?thesis using one by (simp add: kv HasPrefix_def)
  next
    case (Cons w ws)
    have j: "Join (map py_member (m # ms)) '', '' = py_member m @ '', '' @ Join (map py_member ms) '', ''"
      by (simp add: Cons)
    have "parse_members (Suc i) (CHR '' '' # Join (map py_member ms) '', '' @ ''}'' @ r) = Some (map (map_prod encode8 py_json) ms, r)"
      using Cons.IH [of "Suc i"] Cons.prems by (simp add: n Cons)
    then show ?thesis unfolding j append_assoc one by (simp add: kv HasPrefix_def)
  qed
qed simp

lemma py_dumps_read:
  assumes ms: "ms \<noteq> []" "\<forall>m\<in>set ms. list_all scalar (fst m) \<and> py_ok (snd m)"
  shows "json_decode (bytes_of (py_dumps ms @ [CHR 0x0A])) = Some (JObj (map (map_prod encode8 py_json) ms))"
proof -
  define t where "t = Join (map py_member ms) '', '' @ ''}'' @ [CHR 0x0A]"
  have l: "length ms < length t" unfolding t_def using ms(1)
  proof (induction ms rule: list_nonempty_induct)
    case (cons x xs)
    then show ?case by (cases xs) simp_all
  qed simp
  have "\<exists>cs. t = CHR 0x22 # cs"
    using ms(1) by (cases ms; cases "tl ms") (auto simp: t_def py_member_def py_quote_def)
  then have h: "\<not> HasPrefix (skip_ws t) ''}''" by (auto simp: HasPrefix_def)
  have d: "py_dumps ms @ [CHR 0x0A] = CHR ''{'' # t" by (simp add: py_dumps_def t_def)
  have "parse_members (2 * Suc (length t)) t = Some (map (map_prod encode8 py_json) ms, [CHR 0x0A])"
    unfolding t_def by (rule conjunct1 [OF parse_py_members [OF ms]]) (use l in \<open>simp add: t_def\<close>)
  then have "parse_value (2 * Suc (length t) + 1) (CHR ''{'' # t) = Some (JObj (map (map_prod encode8 py_json) ms), [CHR 0x0A])"
    using h by simp
  then show ?thesis using py_depth [of ms]
    by (simp add: json_decode_def d skip_ws_def json_space_def del: parse_value.simps json_depth.simps)
qed

section \<open>The texts of the script\<close>

lemma encode8_py: "list_all (\<lambda>c. (of_char c :: nat) < 0x80) s \<Longrightarrow> encode8 (py s) = s"
  by (induction s) (auto simp: encode8_def py_def utf8_def)

lemma py_scalar: "list_all scalar (py s)"
proof -
  have "scalar (of_char c)" for c :: char using char_code_lt [of c] unfolding scalar_def by linarith
  then show ?thesis by (simp add: py_def list_all_iff)
qed

lemma decoded_scalar: "list_all scalar (decode_ignore b)"
  using decode_ignore_scalar by (simp add: list_all_iff)

lemma err_str_scalar: "list_all scalar (err_str L code)"
  by (simp add: err_str_def py_scalar decoded_scalar split: option.split)

lemma py_strip_scalar: "list_all scalar s \<Longrightarrow> list_all scalar (py_strip s)"
  unfolding py_strip_def list_all_iff set_rev by (metis set_dropWhileD set_rev)

lemma certificate_text_scalar: "list_all scalar (certificate_text n m c a)"
proof -
  have "scalar 10" by (simp add: scalar_def)
  then show ?thesis by (simp add: certificate_text_def Let_def decoded_scalar py_strip_scalar)
qed

lemma b64_ascii: "c \<in> set (b64_encode b) \<Longrightarrow> (of_char c :: nat) < 0x80"
proof -
  have t: "\<forall>c\<in>set b64_table. (of_char c :: nat) < 0x80" by (simp add: b64_table_def)
  have l: "length b64_table = 64" by (simp add: b64_table_def)
  assume "c \<in> set (b64_encode b)"
  then have "c = CHR ''='' \<or> c \<in> set b64_table" using b64_encode_chars [of c b] l by (auto simp: b64_char_def)
  then show ?thesis using t by auto
qed

definition texts_ok :: "nvml_dict \<Rightarrow> bool" where
  "texts_ok d \<longleftrightarrow> list_all scalar (nd_chain d) \<and> list_all scalar (nd_error d) \<and> (\<forall>c\<in>set (nd_report d). (of_char c :: nat) < 0x80)"

lemma called_keeps [simp]:
  "texts_ok (called c d) = texts_ok d" "nd_report (called c d) = nd_report d" "nd_cc (called c d) = nd_cc d"
  "nd_chain (called c d) = nd_chain d" "nd_error (called c d) = nd_error d" "nd_calls (called c d) = nd_calls d @ [c]"
  by (simp_all add: called_def texts_ok_def)

lemma texts_open: "open_library ld ps d = (r, d') \<Longrightarrow> texts_ok d \<Longrightarrow> texts_ok d'"
  by (induction ps arbitrary: d) (auto split: option.splits)

lemma texts_init: "texts_ok d \<Longrightarrow> init_step L d = Inl d' \<or> init_step L d = Inr d' \<Longrightarrow> texts_ok d'"
  by (auto simp: init_step_def Let_def texts_ok_def py_scalar err_str_scalar split: option.splits if_splits)

lemma texts_handle: "texts_ok d \<Longrightarrow> handle_step L d = Inl d' \<or> handle_step L d = Inr (dev, d') \<Longrightarrow> texts_ok d'"
  by (auto simp: handle_step_def Let_def texts_ok_def py_scalar err_str_scalar split: option.splits if_splits prod.splits)

lemma texts_ready: "texts_ok d \<Longrightarrow> texts_ok (ready_step L d)"
  by (simp add: ready_step_def Let_def)

lemma texts_state: "texts_ok d \<Longrightarrow> texts_ok (state_step L d)"
  by (auto simp: state_step_def Let_def texts_ok_def split: prod.split)

lemma texts_certificate: "texts_ok d \<Longrightarrow> texts_ok (certificate_step L dev d)"
  by (auto simp: certificate_step_def Let_def texts_ok_def py_scalar err_str_scalar certificate_text_scalar
      split: option.split prod.split)

lemma texts_report: "texts_ok d \<Longrightarrow> hex_decode h = Some n \<Longrightarrow> texts_ok (report_step H L dev h d)"
  by (auto simp: report_step_def Let_def texts_ok_def py_scalar err_str_scalar b64_ascii split: option.split prod.split)

text \<open>With a nonce in hexadecimal, every text that the script leaves can be printed.\<close>

lemma texts_script: "hex_decode h = Some n \<Longrightarrow> texts_ok (nvmlQueryScript H h)"
proof -
  assume h: "hex_decode h = Some n"
  have n: "texts_ok new_dict" by (simp add: texts_ok_def new_dict_def)
  show ?thesis
    unfolding nvmlQueryScript_def
    by (auto split: prod.split option.split sum.split
        intro!: texts_report [OF _ h] texts_certificate texts_state texts_ready
        dest: texts_open [OF _ n] texts_init [OF texts_open [OF _ n]] texts_handle [OF texts_init [OF texts_open [OF _ n]]])
      (auto simp: texts_ok_def py_scalar dest!: texts_open [OF _ n])
qed

lemma query_reads_script:
  "queryHardwareNVIDIACC (nvml_process H) nonce =
     (if nh_finishes H
      then (let d = nvmlQueryScript H (hex_encode nonce)
            in \<lparr> nv_cc_enabled = nd_cc d, nv_report = nd_report d, nv_chain = encode8 (nd_chain d), nv_signature = '''' \<rparr>)
      else no_nvml)"
proof -
  define d where "d = nvmlQueryScript H (hex_encode nonce)"
  have t: "texts_ok d" unfolding d_def by (rule texts_script) simp
  have ok: "\<forall>m\<in>set (py_items d). list_all scalar (fst m) \<and> py_ok (snd m)"
    using t py_scalar by (simp add: py_items_def texts_ok_def list_all_iff)
  have k: "map (map_prod encode8 py_json) (py_items d) =
      [(''cc_enabled'', JBool (nd_cc d)), (''model'', JStr ''''), (''driver_version'', JStr ''''),
       (''architecture'', JStr ''''), (''evidence_report'', JStr (nd_report d)),
       (''certificate_chain'', JStr (encode8 (nd_chain d))), (''signature'', JStr ''''), (''error'', JStr (encode8 (nd_error d)))]"
    using t by (simp add: py_items_def encode8_py texts_ok_def list_all_iff) (simp add: encode8_def)
  have j: "json_decode (bytes_of (py_dumps (py_items d) @ [CHR 0x0A])) = Some (JObj (map (map_prod encode8 py_json) (py_items d)))"
    by (rule py_dumps_read) (use ok in \<open>simp_all add: py_items_def\<close>)
  show ?thesis
    unfolding queryHardwareNVIDIACC_def nvml_process_def
    by (simp add: j [unfolded k] Let_def get_field_def members_def field_step_def EqualFold_def ToLower_def lower_char_def
        flip: d_def)
qed

section \<open>Where a report comes from\<close>

lemma no_report_before [simp]:
  "nd_report (ready_step L d) = nd_report d" "nd_report (state_step L d) = nd_report d"
  "nd_report (certificate_step L dev d) = nd_report d"
  by (simp_all add: ready_step_def state_step_def certificate_step_def Let_def split: option.split prod.split)

lemma open_library_found:
  "open_library ld ps d = (Some L, d') \<Longrightarrow> (\<exists>p\<in>set ps. ld p = Some L) \<and> nd_report d' = nd_report d"
  by (induction ps arbitrary: d) (auto split: option.splits)

lemma open_library_none: "open_library ld ps d = (None, d') \<Longrightarrow> nd_report d' = nd_report d"
  by (induction ps arbitrary: d) (auto split: option.splits)

lemma init_report: "init_step L d = Inl d' \<or> init_step L d = Inr d' \<Longrightarrow> nd_report d' = nd_report d"
  by (auto simp: init_step_def Let_def split: option.splits if_splits)

lemma handle_report:
  "handle_step L d = Inl d' \<Longrightarrow> nd_report d' = nd_report d"
  "handle_step L d = Inr (dev, d') \<Longrightarrow>
     nd_report d' = nd_report d \<and>
     (\<exists>f. first_symbol L ''nvmlDeviceGetHandleByIndex_v2'' ''nvmlDeviceGetHandleByIndex'' = Some f \<and> nl_handle L f 0 = (0, dev))"
  by (auto simp: handle_step_def Let_def split: option.splits if_splits prod.splits)

lemma report_step_report:
  assumes "nd_report (report_step H L dev h d) \<noteq> nd_report d"
  shows "\<exists>f nonce n buf. first_symbol L ''nvmlDeviceGetConfComputeGpuAttestationReport''
             ''nvmlDeviceGetConfidentialComputeGpuAttestationReport'' = Some f \<and> hex_decode h = Some nonce
      \<and> nl_report L f dev (nonce_field nonce) = (0, n, buf) \<and> 0 < n
      \<and> nd_report (report_step H L dev h d) = b64_encode (take (min 8192 n) (ubyte_field 8192 buf))
      \<and> nd_cc (report_step H L dev h d)
      \<and> nd_calls (report_step H L dev h d) = nd_calls d @ [GetReport f dev (nonce_field nonce)]"
  using assms by (auto simp: report_step_def Let_def split: option.splits prod.splits if_splits)

text \<open>The bytes that device \<open>dev\<close> of the library answers to a nonce.\<close>

definition device_report :: "nvml_lib \<Rightarrow> nat \<Rightarrow> bytes \<Rightarrow> bytes option" where
  "device_report L dev nonce =
     (case first_symbol L ''nvmlDeviceGetConfComputeGpuAttestationReport''
             ''nvmlDeviceGetConfidentialComputeGpuAttestationReport'' of
        None \<Rightarrow> None
      | Some f \<Rightarrow>
          (let (ret, n, buf) = nl_report L f dev nonce
           in if ret = 0 \<and> 0 < n then Some (take (min 8192 n) (ubyte_field 8192 buf)) else None))"

definition first_device :: "nvml_lib \<Rightarrow> nat option" where
  "first_device L =
     (case first_symbol L ''nvmlDeviceGetHandleByIndex_v2'' ''nvmlDeviceGetHandleByIndex'' of
        None \<Rightarrow> None
      | Some f \<Rightarrow> (if fst (nl_handle L f 0) = 0 then Some (snd (nl_handle L f 0)) else None))"

lemma script_report:
  assumes "nd_report (nvmlQueryScript H h) \<noteq> ''''"
  shows "\<exists>p L dev nonce raw. p \<in> set lib_paths \<and> nh_load H p = Some L \<and> first_device L = Some dev
      \<and> hex_decode h = Some nonce \<and> device_report L dev (nonce_field nonce) = Some raw
      \<and> nd_report (nvmlQueryScript H h) = b64_encode raw"
proof -
  have z: "nd_report new_dict = ''''" by (simp add: new_dict_def)
  obtain r d0 where o: "open_library (nh_load H) lib_paths new_dict = (r, d0)" by fastforce
  with assms obtain L where L: "open_library (nh_load H) lib_paths new_dict = (Some L, d0)"
    using open_library_none [of "nh_load H" lib_paths new_dict d0] by (cases r) (auto simp: nvmlQueryScript_def z)
  note L' = open_library_found [OF L]
  obtain d1 where d1: "init_step L d0 = Inr d1"
    using assms L L' init_report [of L d0] by (cases "init_step L d0") (auto simp: nvmlQueryScript_def z)
  obtain dev d2 where d2: "handle_step L d1 = Inr (dev, d2)"
    using assms L L' d1 init_report [of L d0] handle_report(1) [of L d1]
    by (cases "handle_step L d1") (auto simp: nvmlQueryScript_def z)
  define d3 where "d3 = certificate_step L dev (state_step L (ready_step L d2))"
  have s: "nvmlQueryScript H h = report_step H L dev h d3" by (simp add: nvmlQueryScript_def L d1 d2 d3_def)
  have "nd_report d3 = ''''"
    using handle_report(2) [OF d2] init_report [of L d0 d1] d1 L' by (simp add: d3_def z)
  then have r: "nd_report (report_step H L dev h d3) \<noteq> nd_report d3" using assms s by simp
  from report_step_report [OF this] handle_report(2) [OF d2] L' show ?thesis
    unfolding s by (fastforce simp: device_report_def first_device_def)
qed

text \<open>
  C12: A report in the evidence is one that the first GPU gave, through the library that the script
  loaded, for exactly the nonce that the evidence was collected for: it decodes to the bytes of that
  answer, and these bytes, with the certificate chain, are what the user data commits to.
\<close>

theorem gpu_report_genuine:
  fixes H M nonce
  defines "ev \<equiv> CollectGPUEvidence (nvml_process H) M nonce"
  assumes report: "ge_report ev \<noteq> ''''" and nonce: "length nonce = 32"
  shows "\<exists>p L dev raw. p \<in> set lib_paths \<and> nh_load H p = Some L \<and> first_device L = Some dev
      \<and> device_report L dev nonce = Some raw
      \<and> ge_cc_enabled ev \<and> ge_nonce ev = hex_encode nonce \<and> b64_decode (ge_report ev) = Some raw
      \<and> gpu_digest sha (Some ev) = sha (bytes_of (b64_encode raw) @ bytes_of (ge_chain ev))"
proof -
  note q = gpu_evidence_from_query [where nvml = "nvml_process H" and M = M and nonce = nonce and sha = sha and tls = "[]"
      and hpke = "[]" and n = "[]" and auth = "[]", folded ev_def, unfolded Let_def]
  have cc: "ge_cc_enabled ev" "ge_nonce ev = hex_encode nonce"
      and g: "ge_report ev = nv_report (queryHardwareNVIDIACC (nvml_process H) nonce)"
    using q report by (simp_all split: if_splits)
  have r: "nd_report (nvmlQueryScript H (hex_encode nonce)) = ge_report ev"
    using g report by (simp add: query_reads_script Let_def no_nvml_def split: if_splits)
  have n: "nonce_field nonce = nonce" using nonce by (simp add: nonce_field_def)
  from script_report [of H "hex_encode nonce"] r report n obtain p L dev raw where
      "p \<in> set lib_paths" "nh_load H p = Some L" "first_device L = Some dev" "device_report L dev nonce = Some raw"
      and e: "ge_report ev = b64_encode raw" by auto
  then show ?thesis using report cc by (intro exI [of _ p] exI [of _ L] exI [of _ dev] exI [of _ raw]) (simp add: gpu_digest_def)
qed

definition demo_gpu :: "nat \<Rightarrow> nvml_lib" where
  "demo_gpu mode = \<lparr> nl_has = (\<lambda>s. s \<noteq> ''nvmlErrorString''), nl_error = (\<lambda>_. None), nl_init = (\<lambda>_. 0),
     nl_handle = (\<lambda>_ i. (0, 7 + i)), nl_state = (0, 2, 1, mode), nl_certificate = (\<lambda>_ _. (3, 0, 0, [], [])),
     nl_report = (\<lambda>_ dev n. (0, 2, [word_of_nat dev, hd n, 9])) \<rparr>"

definition demo_host :: "nvml_lib \<Rightarrow> nvml_host" where
  "demo_host L = \<lparr> nh_load = (\<lambda>p. if p = ''/lib64/libnvidia-ml.so.1'' then Some L else None),
     nh_value_error = (\<lambda>_. []), nh_finishes = True \<rparr>"

definition demo_gpu_machine :: machine where
  "demo_gpu_machine = \<lparr> m_exists = (\<lambda>_. False), m_read = (\<lambda>_. None),
     m_glob = (\<lambda>p. if p = ''/dev/nvidia[0-9]*'' then [''/dev/nvidia0''] else []) \<rparr>"

lemma demo_script:
  "hex_decode h = Some n \<Longrightarrow>
     nd_cc (nvmlQueryScript (demo_host (demo_gpu m)) h)
     \<and> nd_report (nvmlQueryScript (demo_host (demo_gpu m)) h) = b64_encode [7, hd (nonce_field n)]"
  by (simp add: nvmlQueryScript_def lib_paths_def demo_host_def demo_gpu_def new_dict_def init_step_def handle_step_def
      first_symbol_def ready_step_def state_step_def certificate_step_def report_step_def ubyte_field_def called_def)

lemma demo_gpu_report:
  "ge_report (CollectGPUEvidence (nvml_process (demo_host (demo_gpu 0))) demo_gpu_machine (replicate 32 5)) = b64_encode [7, 5]"
  by (simp add: CollectGPUEvidence_def demo_gpu_machine_def procfs_model_def driver_version_def read_text_def
      query_reads_script Let_def demo_script nonce_field_def) (simp add: demo_host_def)

lemma gpu_report_genuine_witness:
  "\<exists>p L dev raw. p \<in> set lib_paths \<and> nh_load (demo_host (demo_gpu 0)) p = Some L \<and> first_device L = Some dev
      \<and> device_report L dev (replicate 32 5) = Some raw
      \<and> b64_decode (ge_report (CollectGPUEvidence (nvml_process (demo_host (demo_gpu 0))) demo_gpu_machine (replicate 32 5))) = Some raw"
  using gpu_report_genuine [where H = "demo_host (demo_gpu 0)" and M = demo_gpu_machine and nonce = "replicate 32 5" and sha = id]
  by (auto simp: demo_gpu_report)

text \<open>The mode of the developer tools, in which the GPU protects nothing, does not change the result.\<close>

theorem developer_mode_ignored:
  "state_step (L\<lparr> nl_state := (r, e, f, m) \<rparr>) d = state_step (L\<lparr> nl_state := (r, e', f, m') \<rparr>) d"
  by (simp add: state_step_def called_def)

lemma developer_mode_accepted:
  "nd_cc (nvmlQueryScript (demo_host (demo_gpu 1)) (hex_encode (replicate 32 5)))"
  by (simp add: demo_script)

section \<open>The calls of the script\<close>

lemma open_calls: "open_library ld ps d = (r, d') \<Longrightarrow> \<exists>qs. nd_calls d' = nd_calls d @ map OpenLibrary qs"
proof (induction ps arbitrary: d)
  case (Cons p ps)
  show ?case
  proof (cases "ld p")
    case None
    then obtain qs where "nd_calls d' = nd_calls (called (OpenLibrary p) d) @ map OpenLibrary qs"
      using Cons.IH [of "called (OpenLibrary p) d"] Cons.prems by auto
    then show ?thesis by (intro exI [of _ "p # qs"]) simp
  next
    case (Some L)
    then show ?thesis using Cons.prems by (intro exI [of _ "[p]"]) auto
  qed
qed simp

definition ready_calls :: "nvml_lib \<Rightarrow> nvml_call list" where
  "ready_calls L = RunSmi [''nvidia-smi'', ''conf-compute'', ''-srs'', ''1''] #
     (if nl_has L ''nvmlSystemSetConfComputeGpusReadyState'' then [SetReady 1] else [])"

definition state_calls :: "nvml_lib \<Rightarrow> nvml_call list" where
  "state_calls L = (if nl_has L ''nvmlSystemGetConfComputeState'' then [GetState] else [])"

definition evidence_calls :: "nvml_lib \<Rightarrow> nat \<Rightarrow> bytes \<Rightarrow> nvml_call list" where
  "evidence_calls L dev nonce =
     (case first_symbol L ''nvmlDeviceGetConfComputeGpuCertificate'' ''nvmlDeviceGetConfidentialComputeGpuCertificate'' of
        None \<Rightarrow> [] | Some f \<Rightarrow> [GetCertificate f dev])
     @ (case first_symbol L ''nvmlDeviceGetConfComputeGpuAttestationReport''
               ''nvmlDeviceGetConfidentialComputeGpuAttestationReport'' of
        None \<Rightarrow> [] | Some f \<Rightarrow> [GetReport f dev nonce])"

lemma step_calls:
  "nd_calls (ready_step L d) = nd_calls d @ ready_calls L"
  "nd_calls (state_step L d) = nd_calls d @ state_calls L"
  "hex_decode h = Some n \<Longrightarrow>
     nd_calls (report_step H L dev h (certificate_step L dev d)) = nd_calls d @ evidence_calls L dev (nonce_field n)"
  by (simp_all add: ready_step_def state_step_def certificate_step_def report_step_def ready_calls_def state_calls_def
      evidence_calls_def Let_def split: option.split prod.split)

lemma init_calls:
  "init_step L d = Inl d' \<Longrightarrow> nd_calls d' = nd_calls d \<or> (\<exists>f. nd_calls d' = nd_calls d @ [CallInit f])"
  "init_step L d = Inr d' \<Longrightarrow> \<exists>f. nd_calls d' = nd_calls d @ [CallInit f]"
  by (auto simp: init_step_def Let_def split: option.splits if_splits)

lemma handle_calls:
  "handle_step L d = Inl d' \<Longrightarrow> nd_calls d' = nd_calls d \<or> (\<exists>f. nd_calls d' = nd_calls d @ [GetHandle f 0])"
  "handle_step L d = Inr (dev, d') \<Longrightarrow> \<exists>f. nd_calls d' = nd_calls d @ [GetHandle f 0]"
  by (auto simp: handle_step_def Let_def split: option.splits if_splits prod.splits)

text \<open>
  The script stops while it opens, initializes or asks for the first device, or goes on in one order:
  the ready state is requested before the state is read, and both before the certificate and the
  report. No other device is ever asked.
\<close>

theorem script_calls:
  assumes "hex_decode h = Some nonce"
  shows "\<exists>qs f g L dev. nd_calls (nvmlQueryScript H h) \<in>
     {map OpenLibrary qs, map OpenLibrary qs @ [CallInit f], map OpenLibrary qs @ [CallInit f, GetHandle g 0],
      map OpenLibrary qs @ [CallInit f, GetHandle g 0] @ ready_calls L @ state_calls L
        @ evidence_calls L dev (nonce_field nonce)}"
proof -
  obtain r d0 where o: "open_library (nh_load H) lib_paths new_dict = (r, d0)" by fastforce
  obtain qs where d0: "nd_calls d0 = map OpenLibrary qs" using open_calls [OF o] by (auto simp: new_dict_def)
  show ?thesis
  proof (cases r)
    case None
    then show ?thesis using o d0 by (auto simp: nvmlQueryScript_def)
  next
    case (Some L)
    show ?thesis
    proof (cases "init_step L d0")
      case (Inl d)
      then show ?thesis using init_calls(1) [OF Inl] o d0 Some by (auto simp: nvmlQueryScript_def)
    next
      case (Inr d1)
      obtain f where d1: "nd_calls d1 = map OpenLibrary qs @ [CallInit f]" using init_calls(2) [OF Inr] d0 by auto
      show ?thesis
      proof (cases "handle_step L d1")
        case (Inl d)
        then show ?thesis using handle_calls(1) [OF Inl] o d1 Some Inr by (auto simp: nvmlQueryScript_def)
      next
        case (Inr x)
        then obtain dev d2 where x: "handle_step L d1 = Inr (dev, d2)" by (cases x) auto
        then obtain g where "nd_calls d2 = map OpenLibrary qs @ [CallInit f, GetHandle g 0]"
          using handle_calls(2) [OF x] d1 by auto
        then have "nd_calls (nvmlQueryScript H h) = map OpenLibrary qs @ [CallInit f, GetHandle g 0] @ ready_calls L @ state_calls L
            @ evidence_calls L dev (nonce_field nonce)"
          using o Some \<open>init_step L d0 = Inr d1\<close> x step_calls(3) [OF assms] by (simp add: nvmlQueryScript_def step_calls)
        then show ?thesis by blast
      qed
    qed
  qed
qed

end
