(* ===== verification/AttestedClient.thy ===== *)
theory AttestedClient
  imports NvmlSafety GatewaySafety
begin

text \<open>
  The exchange that the program exists for, end to end: a client sends a nonce to the attestation
  endpoint, decodes the JSON of the answer and checks it. The check of the client is a definition over
  the bytes it receives; the theorem says that every answer with status 200 passes it, and where its
  hardware and GPU reports come from.
\<close>

section \<open>The check of a client\<close>

definition client_predicate :: "bytes \<Rightarrow> (string \<times> json) list option" where
  "client_predicate body = (case json_decode body of Some (JObj ms) \<Rightarrow> obj_at ''predicate'' ms | _ \<Rightarrow> None)"

definition client_evidence :: "(string \<times> json) list \<Rightarrow> string \<times> string" where
  "client_evidence p =
     (case obj_at ''gpu_evidence'' p of
        None \<Rightarrow> ('''', '''') | Some g \<Rightarrow> (str_at ''evidence_report'' g, str_at ''certificate_chain'' g))"

definition client_key :: "(string \<times> json) list \<Rightarrow> bytes option" where
  "client_key p =
     (let k = str_at ''authorized_public_key'' p in if k = '''' then Some zero32 else hex_decode k)"

text \<open>
  The client knows the nonce it sent; it takes the fingerprint, the key of the envelopes, the tenant
  key and the GPU evidence from the document and recomputes the user data that the quote commits to.
\<close>

definition client_verifies :: "(bytes \<Rightarrow> bytes) \<Rightarrow> bytes \<Rightarrow> (string \<times> json) list \<Rightarrow> bool" where
  "client_verifies sha nonce p \<longleftrightarrow>
     (case (hex_decode (str_at ''user_data'' p), hex_decode (str_at ''tls_fingerprint'' p),
            hex_decode (str_at ''hpke_public_key'' p), client_key p) of
        (Some ud, Some tls, Some hpke, Some key) \<Rightarrow>
          (let (report, chain) = client_evidence p;
               digest = (if report = '''' then zero32 else sha (bytes_of (report @ chain)))
           in hex_decode (str_at ''nonce'' p) = Some nonce \<and> ud = tls @ sha (hpke @ nonce @ digest @ key))
      | _ \<Rightarrow> False)"

section \<open>The document as JSON\<close>

lemma nat_dec_zero: "nat_dec n = CHR ''0'' # cs \<Longrightarrow> cs = []"
proof (induction n arbitrary: cs rule: less_induct)
  case (less n)
  show ?case
  proof (cases "n < 10")
    case True
    then show ?thesis using less.prems by (subst (asm) nat_dec.simps) simp
  next
    case False
    then obtain c ds where d: "nat_dec (n div 10) = c # ds" by (cases "nat_dec (n div 10)") auto
    have e: "nat_dec n = c # ds @ [digit_char (n mod 10)]" using False d by (subst nat_dec.simps) simp
    have "nat_dec 0 = [CHR ''0'']" by (subst nat_dec.simps) (simp add: digit_char_def)
    then have "nat_dec (n div 10) = nat_dec 0"
      using less.IH [of "n div 10" ds] less.prems False d e by (simp del: nat_dec.simps)
    then show ?thesis using False by (simp only: nat_dec_inj)
  qed
qed

lemma number_ok_nat_dec: "number_ok (nat_dec n)"
proof -
  obtain c cs where c: "nat_dec n = c # cs" by (cases "nat_dec n") auto
  have d: "is_digit c" "list_all is_digit cs" using nat_dec_digits [of n] by (simp_all add: c)
  then have "\<not> HasPrefix (c # cs) ''-''" by (auto simp: HasPrefix_def is_digit_def)
  moreover have "scan_int_part (c # cs) = Some (c # cs, '''')"
    using nat_dec_zero [of n cs] c d
    by (auto simp: scan_int_part_def scan_digits_def list_all_iff takeWhile_eq_all_conv dropWhile_eq_Nil_conv)
  ultimately show ?thesis by (simp add: number_ok_def c scan_number_def scan_fraction_def scan_exponent_def)
qed

lemma json_ok_omit [simp]: "list_all (\<lambda>m. json_ok (snd m)) (omit_empty k s)"
  by (simp add: omit_empty_def)

lemma doc_json_ok: "json_ok (doc_json d)"
proof -
  have s: "list_all json_ok (map JStr xs)" for xs by (induction xs) simp_all
  have "json_ok (evidence_json g)" for g
    by (simp add: evidence_json_def JNat_def number_ok_nat_dec s)
  moreover have "list_all json_ok (map (\<lambda>s. JObj [(''name'', JStr (sj_name s)), (''digest'', JObj [(''sha256'', JStr (sj_sha256 s))])]) xs)"
      for xs :: "in_toto_subject list"
    by (induction xs) simp_all
  ultimately show ?thesis by (simp add: doc_json_def Let_def split: option.split)
qed

text \<open>The document is four levels deep.\<close>

lemma depth_le:
  "json_depth (JArr vs) \<le> Suc k \<longleftrightarrow> (\<forall>v\<in>set vs. json_depth v \<le> k)"
  "json_depth (JObj ms) \<le> Suc k \<longleftrightarrow> (\<forall>m\<in>set ms. json_depth (snd m) \<le> k)"
proof -
  have f: "foldr max xs 0 \<le> k \<longleftrightarrow> (\<forall>x\<in>set xs. x \<le> k)" for xs :: "nat list" by (induction xs) auto
  show "json_depth (JArr vs) \<le> Suc k \<longleftrightarrow> (\<forall>v\<in>set vs. json_depth v \<le> k)"
    "json_depth (JObj ms) \<le> Suc k \<longleftrightarrow> (\<forall>m\<in>set ms. json_depth (snd m) \<le> k)"
    by (auto simp: f)
qed

lemma doc_json_depth: "json_depth (doc_json d) \<le> max_nesting"
proof -
  have s: "(a, v) \<in> set (omit_empty k t) \<Longrightarrow> json_depth v \<le> n" for a v k t n by (simp add: omit_empty_def split: if_splits)
  have e: "json_depth (evidence_json g) \<le> Suc (Suc 0)" for g
    unfolding evidence_json_def by (simp only: depth_le) (auto simp: s JNat_def simp del: json_depth.simps(1,2) simp: depth_le)
  have "json_depth (doc_json d) \<le> Suc (Suc (Suc (Suc 0)))"
    unfolding doc_json_def Let_def
    by (simp only: depth_le) (use e in \<open>auto simp: s depth_le simp del: json_depth.simps(1,2) split: option.split\<close>)
  then show ?thesis by (simp add: max_nesting_def)
qed

text \<open>Members that are left out when they are empty read as empty.\<close>

lemma str_at_simps [simp]:
  "str_at k [] = ''''"
  "str_at k ((k', v) # ms) = (if k = k' then (case v of JStr s \<Rightarrow> s | _ \<Rightarrow> '''') else str_at k ms)"
  "str_at k (omit_empty k' s @ ms) = (if k = k' \<and> s \<noteq> '''' then s else str_at k ms)"
  "str_at k (omit_empty k' s) = (if k = k' then s else '''')"
  by (auto simp: str_at_def omit_empty_def)

lemma obj_at_simps [simp]:
  "obj_at k [] = None"
  "obj_at k ((k', v) # ms) = (if k = k' then (case v of JObj ms \<Rightarrow> Some ms | _ \<Rightarrow> None) else obj_at k ms)"
  "k \<noteq> k' \<Longrightarrow> obj_at k (omit_empty k' s @ ms) = obj_at k ms"
  by (auto simp: obj_at_def omit_empty_def)

text \<open>What is read from members whose texts were made valid.\<close>

abbreviation valid_members :: "(string \<times> json) list \<Rightarrow> (string \<times> json) list" where
  "valid_members \<equiv> map (map_prod to_valid valid_json)"

abbreviation plain_keys :: "(string \<times> json) list \<Rightarrow> bool" where
  "plain_keys \<equiv> list_all (\<lambda>m. to_valid (fst m) = fst m)"

lemma plain_omit [simp]: "plain_keys (omit_empty k s) \<longleftrightarrow> to_valid k = k \<or> s = ''''"
  by (auto simp: omit_empty_def)

lemma map_of_valid: "plain_keys ms \<Longrightarrow> map_of (valid_members ms) k = map_option valid_json (map_of ms k)"
  by (induction ms) auto

lemma str_at_valid: "plain_keys ms \<Longrightarrow> str_at k (valid_members ms) = to_valid (str_at k ms)"
  by (auto simp: str_at_def map_of_valid split: option.split json.split)

lemma obj_at_valid: "plain_keys ms \<Longrightarrow> obj_at k (valid_members ms) = map_option valid_members (obj_at k ms)"
  by (auto simp: obj_at_def map_of_valid split: option.split json.split)

lemma client_reads_document:
  fixes d
  defines "pr \<equiv> ad_predicate d"
  shows "\<exists>p. client_predicate (bytes_of (json_encode (doc_json d) @ [CHR 0x0A])) = Some p
     \<and> str_at ''user_data'' p = to_valid (cp_user_data pr) \<and> str_at ''tls_fingerprint'' p = to_valid (cp_tls_fingerprint pr)
     \<and> str_at ''hpke_public_key'' p = to_valid (cp_hpke_public_key pr)
     \<and> str_at ''authorized_public_key'' p = to_valid (cp_authorized_public_key pr) \<and> str_at ''nonce'' p = to_valid (cp_nonce pr)
     \<and> str_at ''raw_quote'' p = to_valid (cp_raw_quote pr) \<and> str_at ''platform'' p = to_valid (cp_platform pr)
     \<and> client_evidence p = (case cp_gpu_evidence pr of None \<Rightarrow> ('''', '''') | Some g \<Rightarrow> (to_valid (ge_report g), to_valid (ge_chain g)))"
proof -
  define written where "written = bytes_of (json_encode (doc_json d) @ [CHR 0x0A])"
  have j: "json_decode written = Some (valid_json (doc_json d))"
    unfolding written_def by (rule json_round_trip [OF doc_json_ok _ doc_json_depth]) (simp add: json_space_def)
  obtain ms where ms: "doc_json d = JObj ms" and k: "plain_keys ms" by (simp add: doc_json_def Let_def)
  define q where "q = the (obj_at ''predicate'' ms)"
  have q: "obj_at ''predicate'' ms = Some q" using ms by (auto simp: q_def doc_json_def Let_def)
  then have c: "client_predicate written = Some (valid_members q)"
    using j unfolding client_predicate_def ms by (simp add: obj_at_valid [OF k])
  have "plain_keys q \<and> str_at ''user_data'' q = cp_user_data pr \<and> str_at ''tls_fingerprint'' q = cp_tls_fingerprint pr
     \<and> str_at ''hpke_public_key'' q = cp_hpke_public_key pr
     \<and> str_at ''authorized_public_key'' q = cp_authorized_public_key pr \<and> str_at ''nonce'' q = cp_nonce pr
     \<and> str_at ''raw_quote'' q = cp_raw_quote pr \<and> str_at ''platform'' q = cp_platform pr
     \<and> obj_at ''gpu_evidence'' q = map_option (\<lambda>g. case evidence_json g of JObj ms \<Rightarrow> ms) (cp_gpu_evidence pr)"
    using ms q by (auto simp: doc_json_def Let_def evidence_json_def pr_def split: option.split)
  moreover have "plain_keys (case evidence_json g of JObj ms \<Rightarrow> ms) \<and> str_at ''evidence_report'' (case evidence_json g of JObj ms \<Rightarrow> ms) = ge_report g
     \<and> str_at ''certificate_chain'' (case evidence_json g of JObj ms \<Rightarrow> ms) = ge_chain g" for g
    by (simp add: evidence_json_def)
  ultimately show ?thesis
    using c unfolding written_def by (intro exI [of _ "valid_members q"]) (auto simp: str_at_valid obj_at_valid client_evidence_def split: option.split)
qed

section \<open>The exchange\<close>

text \<open>The texts that the client checks are UTF-8, so it reads them as they were written.\<close>

lemma hex_digit_ascii: "n < 16 \<Longrightarrow> (of_char (hex_digit n) :: nat) < 0x80"
  using hex_digit_props(1) [of n] by (auto simp: hex_val_def Let_def split: if_splits)

lemma valid_hex_encode [simp]: "to_valid (hex_encode b) = hex_encode b"
  by (rule to_valid_plain) (use hex_encode_chars hex_digit_ascii in \<open>fastforce simp: list_all_iff\<close>)

lemma valid_b64_encode [simp]: "to_valid (b64_encode b) = b64_encode b"
  by (rule to_valid_plain) (simp add: list_all_iff b64_ascii)

lemma hex_val_ascii: "hex_val c = Some x \<Longrightarrow> (of_char c :: nat) < 0x80"
  by (auto simp: hex_val_def Let_def split: if_splits)

lemma valid_hex_text: "hex_decode s = Some b \<Longrightarrow> to_valid s = s"
  by (induction s arbitrary: b rule: hex_decode.induct) (auto split: option.splits simp: hex_val_ascii)

lemma valid_query:
  "to_valid (nv_report (queryHardwareNVIDIACC nvml nonce)) = nv_report (queryHardwareNVIDIACC nvml nonce)"
  "to_valid (nv_chain (queryHardwareNVIDIACC nvml nonce)) = nv_chain (queryHardwareNVIDIACC nvml nonce)"
proof -
  have m: "as_members j = Some ms \<Longrightarrow> valid_json j = j \<Longrightarrow> valid_members ms = ms" for j ms by (cases j) auto
  have f: "get_field as_string '''' k ms = (t, ok) \<Longrightarrow> valid_members ms = ms \<Longrightarrow> to_valid t = t" for k ms t ok
    using get_string_valid [of ms k] by simp
  show "to_valid (nv_report (queryHardwareNVIDIACC nvml nonce)) = nv_report (queryHardwareNVIDIACC nvml nonce)"
    "to_valid (nv_chain (queryHardwareNVIDIACC nvml nonce)) = nv_chain (queryHardwareNVIDIACC nvml nonce)"
    using f m decoded_valid
    by (auto simp: queryHardwareNVIDIACC_def no_nvml_def Let_def split: option.split prod.split bind_splits)
qed

lemma valid_evidence:
  "to_valid (ge_report (CollectGPUEvidence nvml M nonce)) = ge_report (CollectGPUEvidence nvml M nonce)"
  "to_valid (ge_chain (CollectGPUEvidence nvml M nonce)) = ge_chain (CollectGPUEvidence nvml M nonce)"
  using gpu_evidence_from_query [of nvml M nonce "\<lambda>b. b" "[]" "[]" "[]" "[]"]
  by (auto simp: Let_def valid_query split: if_splits)

text \<open>The parts of a document made for a nonce, as they are handed to the hardware.\<close>

lemma fresh_document_parts:
  fixes G W nd n
  defines "sha \<equiv> sha256 (gw_crypto G)" and "ev \<equiv> CollectGPUEvidence (gw_nvml G) (w_machine W) n"
    and "key \<equiv> fst (GetPublicKeyBytes (nd_verifier nd))" and "tls \<equiv> TLSKeyFP (gw_keys G)" and "hpke \<equiv> HPKEPubKey (gw_keys G)"
  defines "ud \<equiv> ComputeCompositeUserData sha tls hpke n (Some ev) key"
  assumes f: "fresh_document G W nd n = Inr d"
  shows "\<exists>rep chain. FetchHardwareReport (gw_x509 G) (gw_chains G) (gw_sev G) (gw_tsm G) (w_machine W) ud
           = Inr (rep, chain, cp_platform (ad_predicate d))
     \<and> cp_user_data (ad_predicate d) = hex_encode ud \<and> cp_tls_fingerprint (ad_predicate d) = hex_encode tls
     \<and> cp_hpke_public_key (ad_predicate d) = hex_encode hpke
     \<and> cp_authorized_public_key (ad_predicate d) = (if key \<noteq> zero32 then hex_encode key else '''')
     \<and> cp_nonce (ad_predicate d) = w_nonce_param W
     \<and> cp_raw_quote (ad_predicate d) = (if rep \<noteq> [] then b64_encode rep else '''')
     \<and> cp_gpu_evidence (ad_predicate d) = Some ev"
  using f unfolding fresh_document_def Let_def assms(1-6)
  by (auto simp: BuildAttestationDocumentWithEvidence_def split: sum.splits)

text \<open>An answer of the endpoint to a nonce.\<close>

lemma attestation_answer:
  assumes ep: "endpoint_of (r_path r) = AttestationEP" and nonce: "w_nonce_param W \<noteq> ''''"
    and r: "route G W r nd = (w, nd', effs)" and ok: "o_status w = Some 200"
  shows "\<exists>n d. hex_decode (w_nonce_param W) = Some n \<and> length n = 32 \<and> fresh_document G W nd' n = Inr d
    \<and> concat (o_body w) = bytes_of (json_encode (doc_json d) @ [CHR 0x0A])"
proof -
  have handled: ?thesis if "attestation_handler G W r' fresh_response nd1 = (w, nd', effs)" for r' nd1
    using that nonce ok attestation_frame [OF that]
    by (auto simp: attestation_handler_def Let_def write_json_def out_write_def out_write_header_def fresh_response_def
        set_json_def set_header_def json_error_def http_error_def split: option.splits sum.splits if_splits)
  have "GuardNonCritical G ''attestation'' (attestation_handler G) W r fresh_response nd = (w, nd', effs)"
    using r ep by (simp add: route_def handler_of_def)
  then show ?thesis
  proof (cases rule: guard_cases)
    case passed
    show ?thesis by (rule handled [OF passed(1)])
  next
    case (authenticated body nd1)
    show ?thesis by (rule handled [OF authenticated(4)])
  qed (use ok in auto)
qed

text \<open>
  C3: Every answer with status 200 to a nonce passes the client's check: it decodes, it holds the keys
  of this node and the key it is locked to, its user data is the one that these, the nonce and the GPU
  evidence give, and its quote is a hardware report that was made for exactly this user data.
\<close>

theorem attested_exchange:
  assumes ep: "endpoint_of (r_path r) = AttestationEP" and nonce: "w_nonce_param W \<noteq> ''''"
    and r: "route G W r nd = (w, nd', effs)" and ok: "o_status w = Some 200"
  shows "\<exists>p n ud rep. client_predicate (concat (o_body w)) = Some p
    \<and> hex_decode (w_nonce_param W) = Some n \<and> length n = 32 \<and> client_verifies (sha256 (gw_crypto G)) n p
    \<and> hex_decode (str_at ''tls_fingerprint'' p) = Some (TLSKeyFP (gw_keys G))
    \<and> hex_decode (str_at ''hpke_public_key'' p) = Some (HPKEPubKey (gw_keys G))
    \<and> client_key p = Some (fst (GetPublicKeyBytes (nd_verifier nd')))
    \<and> hex_decode (str_at ''user_data'' p) = Some ud \<and> b64_decode (str_at ''raw_quote'' p) = Some rep \<and> rep \<noteq> []
    \<and> (str_at ''platform'' p = PlatformSEVSNP \<and> sev_report (gw_sev G) ud rep
       \<or> str_at ''platform'' p = PlatformTDX \<and> tdx_quote (gw_tsm G) (w_machine W) ud rep)"
proof -
  obtain n d where n: "hex_decode (w_nonce_param W) = Some n" "length n = 32" and d: "fresh_document G W nd' n = Inr d"
      and b: "concat (o_body w) = bytes_of (json_encode (doc_json d) @ [CHR 0x0A])"
    using attestation_answer [OF assms] by blast
  define key where "key = fst (GetPublicKeyBytes (nd_verifier nd'))"
  define ev where "ev = CollectGPUEvidence (gw_nvml G) (w_machine W) n"
  define ud where "ud = ComputeCompositeUserData (sha256 (gw_crypto G)) (TLSKeyFP (gw_keys G)) (HPKEPubKey (gw_keys G)) n (Some ev) key"
  obtain rep chain where f: "FetchHardwareReport (gw_x509 G) (gw_chains G) (gw_sev G) (gw_tsm G) (w_machine W) ud
        = Inr (rep, chain, cp_platform (ad_predicate d))"
      and c: "cp_user_data (ad_predicate d) = hex_encode ud" "cp_tls_fingerprint (ad_predicate d) = hex_encode (TLSKeyFP (gw_keys G))"
        "cp_hpke_public_key (ad_predicate d) = hex_encode (HPKEPubKey (gw_keys G))"
        "cp_authorized_public_key (ad_predicate d) = (if key \<noteq> zero32 then hex_encode key else '''')"
        "cp_nonce (ad_predicate d) = w_nonce_param W" "cp_raw_quote (ad_predicate d) = (if rep \<noteq> [] then b64_encode rep else '''')"
        "cp_gpu_evidence (ad_predicate d) = Some ev"
    using fresh_document_parts [OF d] unfolding ev_def key_def ud_def by blast
  have s: "rep \<noteq> []" "cp_platform (ad_predicate d) = PlatformSEVSNP \<and> sev_report (gw_sev G) ud rep
       \<or> cp_platform (ad_predicate d) = PlatformTDX \<and> tdx_quote (gw_tsm G) (w_machine W) ud rep"
    using hardware_report_source [OF f] by auto
  then have v: "to_valid (cp_platform (ad_predicate d)) = cp_platform (ad_predicate d)"
      "to_valid (ge_report ev) = ge_report ev" "to_valid (ge_chain ev) = ge_chain ev" "to_valid (w_nonce_param W) = w_nonce_param W"
    by (auto simp: ev_def valid_evidence valid_hex_text [OF n(1)] PlatformSEVSNP_def PlatformTDX_def)
  have e: "to_valid (if key \<noteq> zero32 then hex_encode key else '''') = (if key \<noteq> zero32 then hex_encode key else '''')"
      "to_valid (if rep \<noteq> [] then b64_encode rep else '''') = (if rep \<noteq> [] then b64_encode rep else '''')"
    by simp_all
  obtain p where p: "client_predicate (concat (o_body w)) = Some p" and q: "str_at ''user_data'' p = hex_encode ud"
      "str_at ''tls_fingerprint'' p = hex_encode (TLSKeyFP (gw_keys G))" "str_at ''hpke_public_key'' p = hex_encode (HPKEPubKey (gw_keys G))"
      "str_at ''authorized_public_key'' p = (if key \<noteq> zero32 then hex_encode key else '''')" "str_at ''nonce'' p = w_nonce_param W"
      "str_at ''raw_quote'' p = (if rep \<noteq> [] then b64_encode rep else '''')" "str_at ''platform'' p = cp_platform (ad_predicate d)"
      "client_evidence p = (ge_report ev, ge_chain ev)"
    using client_reads_document [of d] unfolding b c e v valid_hex_encode by (auto simp: v)
  have "length key = 32" by (auto simp: key_def GetPublicKeyBytes_def PublicKeySize_def)
  then have k: "client_key p = Some key" by (auto simp: client_key_def q(4))
  have "client_verifies (sha256 (gw_crypto G)) n p"
    using n by (simp add: client_verifies_def q k) (simp add: ud_def ComputeCompositeUserData_def gpu_digest_def bytes_of_append)
  then show ?thesis using p n k s q by (intro exI [of _ p] exI [of _ n] exI [of _ ud] exI [of _ rep]) (simp add: key_def)
qed

section \<open>A sample exchange\<close>

definition demo_query :: world where
  "demo_query = (demo_world 0)\<lparr> w_nonce_param := hex_encode (replicate 32 5), w_machine := sample_machine [''/dev/sev-guest''] \<rparr>"

definition demo_get :: request where
  "demo_get = \<lparr> r_method = ''GET'', r_path = ''/v1/attestation'', r_headers = [], r_body = BodyNil, r_content_length = 0 \<rparr>"

lemma demo_answer:
  obtains w where "route demo_gateway demo_query demo_get ((demo_node False)\<lparr> nd_verifier := sample_verifier\<lparr> isEnrolled := False \<rparr> \<rparr>)
      = (w, (demo_node False)\<lparr> nd_verifier := sample_verifier\<lparr> isEnrolled := False \<rparr> \<rparr>, [])" "o_status w = Some 200"
proof -
  let ?nd = "(demo_node False)\<lparr> nd_verifier := sample_verifier\<lparr> isEnrolled := False \<rparr> \<rparr>"
  have "\<exists>d. fresh_document demo_gateway demo_query ?nd (replicate 32 5) = Inr d"
    by (auto simp: fresh_document_def Let_def demo_gateway_def demo_query_def demo_world_def FetchHardwareReport_def FetchAMDReport_def
        sample_machine_def sample_sev_def ComputeCompositeUserData_def sample_crypto_def)
  then obtain d where d: "fresh_document demo_gateway demo_query ?nd (replicate 32 5) = Inr d" by blast
  have n: "w_nonce_param demo_query = hex_encode (replicate 32 5)" "w_slot_free demo_query"
    by (simp_all add: demo_query_def demo_world_def)
  show thesis
    by (rule that [where w = "write_json 200 (doc_json d) (set_json fresh_response)"])
      (use d n in \<open>simp_all add: route_def demo_get_def endpoint_of_def handler_of_def GuardNonCritical_def IsEnrolled_def demo_node_def
         attestation_handler_def\<close>)
qed

theorem attested_exchange_witness:
  "\<exists>w p n. fst (route demo_gateway demo_query demo_get ((demo_node False)\<lparr> nd_verifier := sample_verifier\<lparr> isEnrolled := False \<rparr> \<rparr>)) = w
     \<and> client_predicate (concat (o_body w)) = Some p \<and> client_verifies (sha256 sample_crypto) n p"
proof -
  obtain w where w: "route demo_gateway demo_query demo_get ((demo_node False)\<lparr> nd_verifier := sample_verifier\<lparr> isEnrolled := False \<rparr> \<rparr>)
      = (w, (demo_node False)\<lparr> nd_verifier := sample_verifier\<lparr> isEnrolled := False \<rparr> \<rparr>, [])" "o_status w = Some 200"
    by (rule demo_answer)
  have "endpoint_of (r_path demo_get) = AttestationEP" "w_nonce_param demo_query \<noteq> ''''"
    by (simp_all add: demo_get_def demo_query_def endpoint_of_def)
  from attested_exchange [OF this w] show ?thesis using w by (auto simp: demo_gateway_def)
qed

end
