(* ===== verification/Initrd.thy ===== *)
theory Initrd
  imports GoJson Hardening
begin

text \<open>
  The first program of the machine (crates/cevell-initrd/src/main.rs, in Rust): it activates dm-verity over the
  root partition with the root hash of the kernel's command line, mounts the result read-only, and hands over
  to the node. A step takes the calls made so far to its result and the calls after it; what the system would
  answer is a function of the calls so far. Device names and the command line are ASCII; a structure has the
  layout of a little-endian machine.
\<close>

unbundle bit_operations_syntax

section \<open>Calls and answers\<close>

datatype initrd_call =
    CreateDirAll string
  | MountAt string string "string option" "64 word" "string option"
  | InitModule bytes
  | MknodAt string nat "64 word"
  | DmControl "32 word" bytes
  | RemoveAt string
  | ChangeDir string
  | ChangeRoot string
  | Execve string "string list" "string list"
  | SleepFor int
  | Report string string

text \<open>
  What is asked of the system at one moment: the text of a file, the names in a directory, whether a path
  exists, the whole contents of a module, the bytes that can be read of a device that opens, whether a file
  opens for writing, whether a call succeeds, the buffer that an ioctl of the device mapper gives back, and
  the clock in nanoseconds.
\<close>

record initrd_env =
  ir_text :: "string \<Rightarrow> string option"
  ir_dir :: "string \<Rightarrow> string list option"
  ir_exists :: "string \<Rightarrow> bool"
  ir_module :: "string \<Rightarrow> bytes option"
  ir_device :: "string \<Rightarrow> bytes option"
  ir_opens :: "string \<Rightarrow> bool"
  ir_ok :: "initrd_call \<Rightarrow> bool"
  ir_answer :: "32 word \<Rightarrow> bytes \<Rightarrow> bytes option"
  ir_now :: int

datatype initrd_error =
    MissingRoothash
  | BadRoothash nat
  | NoPartitions
  | DeviceClosed string
  | SuperblockUnread
  | BadMagic
  | BadSaltSize nat
  | NoDeviceNumber string
  | NoControl
  | DmFailed "32 word"
  | NodeFailed
  | NoSysroot
  | MountFailed
  | ChangeFailed string
  | ExecFailed

type_synonym initrd = "initrd_call list \<Rightarrow> initrd_env"
type_synonym 'a step = "initrd_call list \<Rightarrow> (initrd_error + 'a) \<times> initrd_call list"

definition ret :: "'a \<Rightarrow> 'a step" where "ret x = (\<lambda>t. (Inr x, t))"

definition and_then :: "'a step \<Rightarrow> ('a \<Rightarrow> 'b step) \<Rightarrow> 'b step" where
  "and_then m f = (\<lambda>t. case m t of (Inl e, t) \<Rightarrow> (Inl e, t) | (Inr x, t) \<Rightarrow> f x t)"

text \<open>A question, a call whose failure is an error, and a call whose result is not looked at.\<close>

definition asking :: "initrd \<Rightarrow> (initrd_env \<Rightarrow> initrd_error + 'a) \<Rightarrow> 'a step" where
  "asking M f = (\<lambda>t. (f (M t), t))"

definition calling :: "initrd \<Rightarrow> initrd_error \<Rightarrow> initrd_call \<Rightarrow> unit step" where
  "calling M e c = (\<lambda>t. (if ir_ok (M t) c then Inr () else Inl e, t @ [c]))"

definition trying :: "initrd_call list \<Rightarrow> unit step" where
  "trying cs = (\<lambda>t. (Inr (), t @ cs))"

section \<open>The command line and the log\<close>

definition extract_cmdline_param :: "initrd_env \<Rightarrow> string \<Rightarrow> string option" where
  "extract_cmdline_param E name =
     Option.bind (ir_text E ''/proc/cmdline'')
       (\<lambda>content. map_option (drop (length name + 1)) (find (\<lambda>token. HasPrefix token (name @ ''='')) (Fields content)))"

definition is_debug_active :: "initrd_env \<Rightarrow> bool" where
  "is_debug_active E =
     (case extract_cmdline_param E ''debug'' of Some debug \<Rightarrow> debug = ''on'' \<or> debug = ''1'' \<or> debug = ''true'' | None \<Rightarrow> False)"

definition log_line :: "string \<Rightarrow> string" where "log_line msg = ''cevell-initrd: '' @ msg @ [CHR 0x0A]"

definition report_to :: "initrd \<Rightarrow> string \<Rightarrow> string \<Rightarrow> initrd_call list \<Rightarrow> initrd_call list" where
  "report_to M msg p t =
     (if ir_opens (M t) p then t @ [Report p (if p = ''/dev/kmsg'' then ''<6>'' @ log_line msg else log_line msg)] else t)"

definition initrd_log :: "initrd \<Rightarrow> string \<Rightarrow> initrd_call list \<Rightarrow> initrd_call list" where
  "initrd_log M msg t =
     (if \<not> is_debug_active (M t) then t
      else fold (report_to M msg) [''/dev/kmsg'', ''/dev/ttyS0'', ''/dev/console''] (t @ [Report ''stdout'' (log_line msg)]))"

definition logging :: "initrd \<Rightarrow> string \<Rightarrow> unit step" where
  "logging M msg = (\<lambda>t. (Inr (), initrd_log M msg t))"

section \<open>Early file systems and drivers\<close>

definition early_mounts :: "(string \<times> string \<times> string \<times> 64 word \<times> string option) list" where
  "early_mounts =
     [(''devtmpfs'', ''/dev'', ''devtmpfs'', MS_NOSUID, Some ''mode=0755''),
      (''proc'', ''/proc'', ''proc'', MS_NOSUID OR MS_NODEV OR MS_NOEXEC, None),
      (''sysfs'', ''/sys'', ''sysfs'', MS_NOSUID OR MS_NODEV OR MS_NOEXEC, None),
      (''tmpfs'', ''/run'', ''tmpfs'', MS_NOSUID OR MS_NODEV, Some ''mode=0755'')]"

text \<open>The first mount that fails ends the loop; main goes on all the same.\<close>

fun mount_each :: "initrd \<Rightarrow> (string \<times> string \<times> string \<times> 64 word \<times> string option) list \<Rightarrow> initrd_call list \<Rightarrow> initrd_call list" where
  "mount_each M [] t = t"
| "mount_each M ((dev, target, fstype, flags, opts) # rest) t =
     (let t = t @ [CreateDirAll target]; c = MountAt dev target (Some fstype) flags opts
      in if ir_ok (M t) c then mount_each M rest (t @ [c]) else t @ [c])"

definition mount_early_filesystems :: "initrd \<Rightarrow> initrd_call list \<Rightarrow> initrd_call list" where
  "mount_early_filesystems M t = mount_each M early_mounts t"

text \<open>Paths in the order of their bytes; Path::extension of a name.\<close>

fun insert_path :: "string \<Rightarrow> string list \<Rightarrow> string list" where
  "insert_path x [] = [x]"
| "insert_path x (y # ys) = (if str_less y x then y # insert_path x ys else x # y # ys)"

definition sort_paths :: "string list \<Rightarrow> string list" where
  "sort_paths ps = foldr insert_path ps []"

definition path_extension :: "string \<Rightarrow> string option" where
  "path_extension name =
     (let rest = dropWhile (\<lambda>c. c \<noteq> CHR ''.'') (rev name)
      in if length rest \<le> 1 then None else Some (rev (takeWhile (\<lambda>c. c \<noteq> CHR ''.'') (rev name))))"

definition is_module :: "string \<Rightarrow> bool" where
  "is_module name \<longleftrightarrow> path_extension name = Some ''ko'' \<or> path_extension name = Some ''zst''"

definition load_one :: "initrd \<Rightarrow> string \<Rightarrow> initrd_call list \<Rightarrow> initrd_call list" where
  "load_one M name t =
     (case ir_module (M t) (''/lib/modules/'' @ name) of
        None \<Rightarrow> t
      | Some buf \<Rightarrow>
          if ir_ok (M t) (InitModule buf) then initrd_log M (''Loaded driver: '' @ name) (t @ [InitModule buf])
          else t @ [InitModule buf])"

definition load_kernel_modules :: "initrd \<Rightarrow> initrd_call list \<Rightarrow> initrd_call list" where
  "load_kernel_modules M t =
     (case ir_dir (M t) ''/lib/modules'' of
        None \<Rightarrow> t
      | Some entries \<Rightarrow> fold (load_one M) (sort_paths (filter is_module entries)) t)"

section \<open>The partitions\<close>

text \<open>str::parse::<i32> and str::parse::<u32>.\<close>

definition parse_i32 :: "string \<Rightarrow> int option" where
  "parse_i32 s =
     (case ParseInt64 s of Some n \<Rightarrow> if - (2 ^ 31) \<le> n \<and> n < 2 ^ 31 then Some n else None | None \<Rightarrow> None)"

definition parse_u32 :: "string \<Rightarrow> 32 word option" where
  "parse_u32 s =
     (if HasPrefix s ''-'' then None
      else case ParseInt64 s of Some n \<Rightarrow> if n < 2 ^ 32 then Some (word_of_int n) else None | None \<Rightarrow> None)"

definition add_partition :: "initrd_env \<Rightarrow> string \<Rightarrow> string \<Rightarrow> (int \<times> string) list \<Rightarrow> (int \<times> string) list" where
  "add_partition E disk_dir entry part_map =
     (let part_file = disk_dir @ ''/'' @ entry @ ''/partition'' in
      if \<not> ir_exists E part_file then part_map
      else
        (case Option.bind (ir_text E part_file) (\<lambda>data. parse_i32 (TrimSpace data)) of
           None \<Rightarrow> part_map
         | Some p_num \<Rightarrow> AList.update p_num (''/dev/'' @ entry) part_map))"

definition partitions_of :: "initrd_env \<Rightarrow> string \<Rightarrow> (int \<times> string) list" where
  "partitions_of E disk_dir =
     (case ir_dir E disk_dir of None \<Rightarrow> [] | Some entries \<Rightarrow> fold (add_partition E disk_dir) entries [])"

text \<open>The second and third of three partitions, else the first and second.\<close>

definition pick_pair :: "(int \<times> string) list \<Rightarrow> int \<Rightarrow> (string \<times> string) option" where
  "pick_pair part_map i =
     (case (map_of part_map i, map_of part_map (i + 1)) of (Some r, Some v) \<Rightarrow> Some (r, v) | _ \<Rightarrow> None)"

definition pick_partitions :: "(int \<times> string) list \<Rightarrow> (string \<times> string) option" where
  "pick_partitions part_map =
     (case (if 3 \<le> length part_map then pick_pair part_map 2 else None) of
        Some rv \<Rightarrow> Some rv
      | None \<Rightarrow> pick_pair part_map 1)"

definition is_disk :: "string \<Rightarrow> bool" where
  "is_disk name \<longleftrightarrow> HasPrefix name ''nvme'' \<or> HasPrefix name ''vd'' \<or> HasPrefix name ''sd''"

definition find_partitions :: "initrd_env \<Rightarrow> (string \<times> string) option" where
  "find_partitions E =
     (let disks = (case ir_dir E ''/sys/block'' of None \<Rightarrow> [] | Some names \<Rightarrow> sort_paths (filter is_disk names))
      in case List.map_filter (\<lambda>name. pick_partitions (partitions_of E (''/sys/block/'' @ name))) disks of
           [] \<Rightarrow> None
         | rv # _ \<Rightarrow> Some rv)"

text \<open>The loop until the deadline; it may never end on a clock that stands still.\<close>

definition poll_pause :: int where "poll_pause = 150 * 1000000"

partial_function (option) discover_root_partitions ::
  "initrd \<Rightarrow> int \<Rightarrow> initrd_call list \<Rightarrow> ((initrd_error + string \<times> string) \<times> initrd_call list) option" where
  "discover_root_partitions M deadline t =
     (if ir_now (M t) < deadline
      then (case find_partitions (M t) of
              Some rv \<Rightarrow> Some (Inr rv, t)
            | None \<Rightarrow> discover_root_partitions M deadline (t @ [SleepFor poll_pause]))
      else Some (Inl NoPartitions, t))"

declare discover_root_partitions.simps [code]

section \<open>The superblock of the hash partition\<close>

definition le_nat :: "bytes \<Rightarrow> nat" where
  "le_nat b = foldr (\<lambda>x n. unat x + 256 * n) b 0"

definition field :: "bytes \<Rightarrow> nat \<Rightarrow> nat \<Rightarrow> bytes" where
  "field b i n = take n (drop i b)"

record verity_superblock =
  sb_version :: "32 word"
  sb_algorithm :: bytes
  sb_data_block_size :: "32 word"
  sb_hash_block_size :: "32 word"
  sb_data_blocks :: "64 word"
  sb_salt_size :: nat
  sb_salt :: bytes

definition verity_magic :: bytes where "verity_magic = bytes_of ''verity'' @ [0, 0]"

definition superblock_of :: "bytes \<Rightarrow> verity_superblock" where
  "superblock_of buf =
     \<lparr> sb_version = word_of_nat (le_nat (field buf 8 4)), sb_algorithm = field buf 32 32,
       sb_data_block_size = word_of_nat (le_nat (field buf 64 4)), sb_hash_block_size = word_of_nat (le_nat (field buf 68 4)),
       sb_data_blocks = word_of_nat (le_nat (field buf 72 8)), sb_salt_size = le_nat (field buf 80 2), sb_salt = field buf 88 256 \<rparr>"

definition read_verity_superblock :: "string \<Rightarrow> initrd_env \<Rightarrow> initrd_error + verity_superblock" where
  "read_verity_superblock dev_path E =
     (case ir_device E dev_path of
        None \<Rightarrow> Inl (DeviceClosed dev_path)
      | Some content \<Rightarrow>
          if length content < 512 then Inl SuperblockUnread
          else
            (let buf = take 512 content in
             if take 8 buf \<noteq> verity_magic then Inl BadMagic
             else if 256 < sb_salt_size (superblock_of buf) then Inl (BadSaltSize (sb_salt_size (superblock_of buf)))
             else Inr (superblock_of buf)))"

function trim_starts :: "string \<Rightarrow> string \<Rightarrow> string" where
  "trim_starts p s = (if p \<noteq> '''' \<and> s \<noteq> '''' \<and> HasPrefix s p then trim_starts p (drop (length p) s) else s)"
  by pat_completeness auto

termination by (relation "measure (\<lambda>(p, s). length s)") auto

declare trim_starts.simps [simp del]

definition get_block_dev_number :: "string \<Rightarrow> initrd_env \<Rightarrow> initrd_error + string" where
  "get_block_dev_number path E =
     (let sys_path = ''/sys/class/block/'' @ trim_starts ''/dev/'' path @ ''/dev'' in
      case ir_text E sys_path of None \<Rightarrow> Inl (NoDeviceNumber sys_path) | Some s \<Rightarrow> Inr (TrimSpace s))"

text \<open>The table of dm-verity: the algorithm is what is left of its field without the zeros at its ends.\<close>

definition algorithm_text :: "verity_superblock \<Rightarrow> string" where
  "algorithm_text sb =
     (let s = string_of (sb_algorithm sb) in trim_char (CHR 0x00) (if to_valid s = s then s else ''sha256''))"

definition salt_text :: "verity_superblock \<Rightarrow> string" where
  "salt_text sb = (let h = hex_encode (take (sb_salt_size sb) (sb_salt sb)) in if h = '''' then ''-'' else h)"

definition verity_arguments :: "verity_superblock \<Rightarrow> string \<Rightarrow> string \<Rightarrow> string \<Rightarrow> string list" where
  "verity_arguments sb data_num verity_num roothash =
     [nat_dec (unat (sb_version sb)), data_num, verity_num, nat_dec (unat (sb_data_block_size sb)),
      nat_dec (unat (sb_hash_block_size sb)), nat_dec (unat (sb_data_blocks sb)), ''1'', algorithm_text sb, roothash, salt_text sb]"

definition verity_params :: "verity_superblock \<Rightarrow> string \<Rightarrow> string \<Rightarrow> string \<Rightarrow> string" where
  "verity_params sb data_num verity_num roothash = Join (verity_arguments sb data_num verity_num roothash) '' ''"

text \<open>A product of 64 bits that wraps, as the release build computes it.\<close>

definition verity_sectors :: "verity_superblock \<Rightarrow> 64 word" where
  "verity_sectors sb = sb_data_blocks sb * (ucast (sb_data_block_size sb) div 512)"

section \<open>The device mapper\<close>

record dm_ioctl =
  di_version :: "32 word list"
  di_data_size :: "32 word"
  di_data_start :: "32 word"
  di_target_count :: "32 word"
  di_open_count :: "32 word"
  di_flags :: "32 word"
  di_event_nr :: "32 word"
  di_padding :: "32 word"
  di_dev :: "64 word"
  di_name :: bytes
  di_uuid :: bytes
  di_data :: bytes

definition DM_CMD_CREATE :: "32 word" where "DM_CMD_CREATE = 3"
definition DM_CMD_SUSPEND :: "32 word" where "DM_CMD_SUSPEND = 6"
definition DM_CMD_STATUS :: "32 word" where "DM_CMD_STATUS = 7"
definition DM_CMD_TABLE :: "32 word" where "DM_CMD_TABLE = 9"
definition DM_FLAG_READONLY :: "32 word" where "DM_FLAG_READONLY = 1"
definition DM_FLAG_EXISTS :: "32 word" where "DM_FLAG_EXISTS = 4"

definition put_le32 :: "32 word \<Rightarrow> bytes" where "put_le32 w = rev (put_u32 w)"
definition put_le64 :: "64 word \<Rightarrow> bytes" where "put_le64 w = rev (put_u64 w)"

definition header_bytes :: "dm_ioctl \<Rightarrow> bytes" where
  "header_bytes h =
     concat (map put_le32 (di_version h @ [di_data_size h, di_data_start h, di_target_count h, di_open_count h, di_flags h,
       di_event_nr h, di_padding h])) @ put_le64 (di_dev h) @ di_name h @ di_uuid h @ di_data h"

definition get_le32 :: "bytes \<Rightarrow> nat \<Rightarrow> 32 word" where "get_le32 b i = word_of_nat (le_nat (field b i 4))"

definition header_of :: "bytes \<Rightarrow> dm_ioctl" where
  "header_of b =
     \<lparr> di_version = [get_le32 b 0, get_le32 b 4, get_le32 b 8], di_data_size = get_le32 b 12, di_data_start = get_le32 b 16,
       di_target_count = get_le32 b 20, di_open_count = get_le32 b 24, di_flags = get_le32 b 28, di_event_nr = get_le32 b 32,
       di_padding = get_le32 b 36, di_dev = word_of_nat (le_nat (field b 40 8)), di_name = field b 48 128,
       di_uuid = field b 176 129, di_data = field b 305 7 \<rparr>"

definition new_dm_ioctl_header :: "string \<Rightarrow> 32 word \<Rightarrow> dm_ioctl" where
  "new_dm_ioctl_header name flags =
     (let n = take 127 (bytes_of name) in
      \<lparr> di_version = [4, 0, 0], di_data_size = 312, di_data_start = 312, di_target_count = 0, di_open_count = 0,
        di_flags = flags, di_event_nr = 0, di_padding = 0, di_dev = 0, di_name = n @ replicate (128 - length n) 0,
        di_uuid = replicate 129 0, di_data = replicate 7 0 \<rparr>)"

definition dm_request :: "32 word \<Rightarrow> nat \<Rightarrow> 32 word" where
  "dm_request cmd total_size = push_bit 30 3 OR push_bit 16 (word_of_nat total_size) OR push_bit 8 0xFD OR cmd"

definition dm_buffer :: "dm_ioctl \<Rightarrow> bytes \<Rightarrow> bytes" where
  "dm_buffer h payload = header_bytes (h\<lparr> di_data_size := word_of_nat (312 + length payload) \<rparr>) @ payload"

definition dm_call :: "32 word \<Rightarrow> dm_ioctl \<Rightarrow> bytes \<Rightarrow> initrd_call" where
  "dm_call cmd h payload = DmControl (dm_request cmd (312 + length payload)) (dm_buffer h payload)"

text \<open>The header that comes back; of the rest of the buffer nothing is read.\<close>

definition send_dm_ioctl :: "initrd \<Rightarrow> 32 word \<Rightarrow> dm_ioctl \<Rightarrow> bytes \<Rightarrow> dm_ioctl step" where
  "send_dm_ioctl M cmd h payload =
     (\<lambda>t. (case ir_answer (M t) (dm_request cmd (312 + length payload)) (dm_buffer h payload) of
             None \<Rightarrow> Inl (DmFailed cmd) | Some b \<Rightarrow> Inr (header_of (take 312 b)),
           t @ [dm_call cmd h payload]))"

text \<open>One target of type verity, its parameters as a string with a zero, padded to eight bytes.\<close>

definition pad8 :: "bytes \<Rightarrow> bytes" where
  "pad8 b = b @ replicate ((8 - length b mod 8) mod 8) 0"

definition target_size :: "string \<Rightarrow> nat" where
  "target_size params = (40 + length params + 1 + 7) div 8 * 8"

definition target_spec :: "64 word \<Rightarrow> string \<Rightarrow> bytes" where
  "target_spec sectors params =
     put_le64 0 @ put_le64 sectors @ put_le32 0 @ put_le32 (word_of_nat (target_size params))
     @ bytes_of ''verity'' @ replicate 10 0"

definition table_payload :: "64 word \<Rightarrow> string \<Rightarrow> bytes" where
  "table_payload sectors params = pad8 (target_spec sectors params @ bytes_of params @ [0])"

definition makedev :: "32 word \<Rightarrow> 32 word \<Rightarrow> 64 word" where
  "makedev major minor =
     (let major = ucast major; minor = ucast minor
      in push_bit 8 (major AND 0xFFF) OR push_bit 32 (major AND 0xFFFFF000) OR (minor AND 0xFF) OR push_bit 12 (minor AND 0xFFFFFF00))"

text \<open>The type bits and 0600 of a node.\<close>

definition char_node :: nat where "char_node = 8192 + 384"
definition block_node :: nat where "block_node = 24576 + 384"

definition control_node :: "initrd_env \<Rightarrow> initrd_call list" where
  "control_node E =
     (case ir_text E ''/sys/class/misc/device-mapper/dev'' of
        None \<Rightarrow> []
      | Some dev_str \<Rightarrow>
          (case map parse_u32 (split_on (CHR '':'') (TrimSpace dev_str)) of
             [Some maj, Some min'] \<Rightarrow> [MknodAt ''/dev/mapper/control'' char_node (makedev maj min')]
           | _ \<Rightarrow> []))"

definition mapping_header :: "string \<Rightarrow> dm_ioctl" where
  "mapping_header name = new_dm_ioctl_header name (DM_FLAG_READONLY OR DM_FLAG_EXISTS)"

definition open_control :: "initrd \<Rightarrow> unit step" where
  "open_control M =
     (\<lambda>t. let t = t @ [CreateDirAll ''/dev/mapper'']; t = t @ control_node (M t)
          in (if ir_opens (M t) ''/dev/mapper/control'' then Inr () else Inl NoControl, t))"

definition activate_dm_verity :: "initrd \<Rightarrow> string \<Rightarrow> 64 word \<Rightarrow> string \<Rightarrow> unit step" where
  "activate_dm_verity M name sectors params =
     and_then (open_control M) (\<lambda>_.
     and_then (send_dm_ioctl M DM_CMD_CREATE (mapping_header name) []) (\<lambda>_.
     and_then (send_dm_ioctl M DM_CMD_TABLE ((mapping_header name)\<lparr> di_target_count := 1 \<rparr>) (table_payload sectors params)) (\<lambda>_.
     and_then (send_dm_ioctl M DM_CMD_SUSPEND (mapping_header name) []) (\<lambda>_.
     and_then (send_dm_ioctl M DM_CMD_STATUS (new_dm_ioctl_header name DM_FLAG_EXISTS) []) (\<lambda>status.
     and_then (trying [RemoveAt (''/dev/mapper/'' @ name)]) (\<lambda>_.
     calling M NodeFailed (MknodAt (''/dev/mapper/'' @ name) block_node (di_dev status))))))))"

section \<open>The verified root\<close>

definition MS_RDONLY :: "64 word" where "MS_RDONLY = 1"
definition MS_MOVE :: "64 word" where "MS_MOVE = 0x2000"
definition MS_REC :: "64 word" where "MS_REC = 0x4000"
definition MS_PRIVATE :: "64 word" where "MS_PRIVATE = 0x40000"

definition moved_mounts :: "string \<Rightarrow> initrd_call list" where
  "moved_mounts target_root =
     concat (map (\<lambda>mnt. [CreateDirAll (target_root @ ''/'' @ mnt),
         MountAt (''/'' @ mnt) (target_root @ ''/'' @ mnt) None MS_MOVE None]) [''dev'', ''proc'', ''sys'', ''run''])"

definition init_environment :: "string list" where
  "init_environment = [''PATH=/usr/bin:/usr/sbin:/bin:/sbin'', ''HOME=/root'']"

definition handoff_to_verified_root :: "initrd \<Rightarrow> string \<Rightarrow> string \<Rightarrow> unit step" where
  "handoff_to_verified_root M target_root init_bin =
     and_then (trying (MountAt '''' ''/'' None (MS_REC OR MS_PRIVATE) None # moved_mounts target_root)) (\<lambda>_.
     and_then (calling M (ChangeFailed ''chdir target_root'') (ChangeDir target_root)) (\<lambda>_.
     and_then (trying [MountAt target_root ''/'' None MS_MOVE None]) (\<lambda>_.
     and_then (calling M (ChangeFailed ''chroot'') (ChangeRoot ''.'')) (\<lambda>_.
     and_then (calling M (ChangeFailed ''chdir /'') (ChangeDir ''/'')) (\<lambda>_.
     calling M ExecFailed (Execve init_bin [init_bin] init_environment))))))"

definition root_mount :: initrd_call where
  "root_mount = MountAt ''/dev/mapper/root'' ''/sysroot'' (Some ''ext4'') (MS_RDONLY OR MS_NOSUID OR MS_NODEV) None"

definition read_roothash :: "initrd \<Rightarrow> string step" where
  "read_roothash M =
     and_then (asking M (\<lambda>E. case extract_cmdline_param E ''roothash'' of
         None \<Rightarrow> Inl MissingRoothash
       | Some r \<Rightarrow> if length (ToLower r) = 64 then Inr (ToLower r) else Inl (BadRoothash (length (ToLower r))))) (\<lambda>roothash.
     and_then (logging M (''Enforcing immutable root hash: '' @ roothash)) (\<lambda>_.
     ret roothash))"

definition boot_root :: "initrd \<Rightarrow> string \<Rightarrow> string \<times> string \<Rightarrow> unit step" where
  "boot_root M roothash = (\<lambda>(data_dev, verity_dev).
     and_then (logging M (''Discovered partitions: root='' @ data_dev @ '', verity='' @ verity_dev)) (\<lambda>_.
     and_then (asking M (read_verity_superblock verity_dev)) (\<lambda>sb.
     and_then (asking M (get_block_dev_number data_dev)) (\<lambda>data_num.
     and_then (asking M (get_block_dev_number verity_dev)) (\<lambda>verity_num.
     and_then (logging M (''Activating dm-verity device: length='' @ nat_dec (unat (verity_sectors sb)) @ '' sectors'')) (\<lambda>_.
     and_then (activate_dm_verity M ''root'' (verity_sectors sb) (verity_params sb data_num verity_num roothash)) (\<lambda>_.
     and_then (logging M ''Mounting verified rootfs (/dev/mapper/root -> /sysroot)...'') (\<lambda>_.
     and_then (calling M NoSysroot (CreateDirAll ''/sysroot'')) (\<lambda>_.
     and_then (calling M MountFailed root_mount) (\<lambda>_.
     and_then (logging M ''Handing over execution to node supervisor (/usr/bin/cevell-node)...'') (\<lambda>_.
     handoff_to_verified_root M ''/sysroot'' ''/usr/bin/cevell-node'')))))))))))"

definition run_initrd :: "initrd \<Rightarrow> initrd_call list \<Rightarrow> ((initrd_error + unit) \<times> initrd_call list) option" where
  "run_initrd M t =
     (case read_roothash M (load_kernel_modules M t) of
        (Inl e, t) \<Rightarrow> Some (Inl e, t)
      | (Inr roothash, t) \<Rightarrow>
          (case discover_root_partitions M (ir_now (M t) + 10 * second) t of
             None \<Rightarrow> None
           | Some (Inl e, t) \<Rightarrow> Some (Inl e, t)
           | Some (Inr devices, t) \<Rightarrow> Some (boot_root M roothash devices t)))"

text \<open>
  The whole program, with the wording of its errors: the node runs in its place, or it reports the error and
  sleeps for ever.
\<close>

datatype initrd_end = NodeRuns | Halted initrd_error

definition initrd_main :: "(initrd_error \<Rightarrow> string) \<Rightarrow> initrd \<Rightarrow> (initrd_end \<times> initrd_call list) option" where
  "initrd_main wording M =
     (case run_initrd M (initrd_log M ''Cevell OS Stage 1 Rust Initrd Engine initializing...'' (mount_early_filesystems M [])) of
        None \<Rightarrow> None
      | Some (Inr _, t) \<Rightarrow> Some (NodeRuns, t)
      | Some (Inl e, t) \<Rightarrow> Some (Halted e, initrd_log M (''FATAL initrd error: '' @ wording e) t))"

end
