(* ===== verification/InitrdRuns.thy ===== *)
theory InitrdRuns
  imports Initrd
begin

text \<open>
  Lemmas on the runs of the first program: its steps, the calls before and after the mapping, the shape of a run
  that hands over, and how every run ends.
\<close>

section \<open>Steps\<close>

lemma and_then_Inr: "and_then m f t = (Inr y, t') \<longleftrightarrow> (\<exists>x s. m t = (Inr x, s) \<and> f x s = (Inr y, t'))"
  by (auto simp: and_then_def split: prod.split sum.split)

lemma and_then_Inl:
  "and_then m f t = (Inl e, t') \<longleftrightarrow> m t = (Inl e, t') \<or> (\<exists>x s. m t = (Inr x, s) \<and> f x s = (Inl e, t'))"
  by (auto simp: and_then_def split: prod.split sum.split)

lemma asking_Inr: "asking M f t = (Inr x, t') \<longleftrightarrow> f (M t) = Inr x \<and> t' = t"
  by (auto simp: asking_def)

lemma calling_Inr: "calling M e c t = (Inr u, t') \<longleftrightarrow> ir_ok (M t) c \<and> t' = t @ [c]"
  by (auto simp: calling_def)

lemma trying_Inr: "trying cs t = (Inr u, t') \<longleftrightarrow> t' = t @ cs"
  by (auto simp: trying_def)

lemma send_Inr: "send_dm_ioctl M cmd h p t = (Inr d, t') \<longleftrightarrow>
    (\<exists>b. ir_answer (M t) (dm_request cmd (312 + length p)) (dm_buffer h p) = Some b \<and> d = header_of (take 312 b)) \<and>
    t' = t @ [dm_call cmd h p]"
  by (auto simp: send_dm_ioctl_def split: option.split)

fun is_report :: "initrd_call \<Rightarrow> bool" where
  "is_report (Report p s) = True"
| "is_report _ = False"

definition log_part :: "initrd \<Rightarrow> string \<Rightarrow> initrd_call list \<Rightarrow> initrd_call list" where
  "log_part M msg t = drop (length t) (initrd_log M msg t)"

lemma report_to_adds: "\<exists>l. report_to M msg p t = t @ l \<and> list_all is_report l"
proof (cases "ir_opens (M t) p")
  case True
  then show ?thesis by (simp add: report_to_def)
next
  case False
  then show ?thesis by (intro exI [of _ "[]"]) (simp add: report_to_def)
qed

lemma reports_fold: "\<exists>ls. fold (report_to M msg) ps t = t @ ls \<and> list_all is_report ls"
proof (induction ps arbitrary: t)
  case (Cons p ps)
  obtain l where l: "report_to M msg p t = t @ l" "list_all is_report l" using report_to_adds by blast
  obtain ls where "fold (report_to M msg) ps (t @ l) = (t @ l) @ ls" "list_all is_report ls" using Cons by blast
  then have "fold (report_to M msg) (p # ps) t = t @ (l @ ls)" "list_all is_report (l @ ls)" using l by simp_all
  then show ?case by blast
qed simp

lemma log_is: "initrd_log M msg t = t @ log_part M msg t" "list_all is_report (log_part M msg t)"
proof -
  obtain ls where "initrd_log M msg t = t @ ls" "list_all is_report ls"
  proof (cases "is_debug_active (M t)")
    case True
    obtain ls where "fold (report_to M msg) [''/dev/kmsg'', ''/dev/ttyS0'', ''/dev/console''] (t @ [Report ''stdout'' (log_line msg)])
        = (t @ [Report ''stdout'' (log_line msg)]) @ ls" "list_all is_report ls" using reports_fold by blast
    then show thesis using that [of "Report ''stdout'' (log_line msg) # ls"] True by (simp add: initrd_log_def)
  next
    case False
    then show thesis using that [of "[]"] by (simp add: initrd_log_def)
  qed
  then show "initrd_log M msg t = t @ log_part M msg t" "list_all is_report (log_part M msg t)" by (simp_all add: log_part_def)
qed

lemma logging_Inr: "logging M msg t = (Inr u, t') \<longleftrightarrow> t' = t @ log_part M msg t"
  using log_is(1) [of M msg t] by (auto simp: logging_def)

lemmas step_Inr = and_then_Inr asking_Inr calling_Inr trying_Inr send_Inr logging_Inr

section \<open>What precedes the mapping\<close>

text \<open>The calls that the program makes before it knows its root: it mounts, loads drivers, waits and reports.\<close>

fun preparatory :: "initrd_call \<Rightarrow> bool" where
  "preparatory (CreateDirAll p) = (p \<in> {''/dev'', ''/proc'', ''/sys'', ''/run'', ''/dev/mapper''})"
| "preparatory (MountAt dev target fstype flags opts) = (target \<in> {''/dev'', ''/proc'', ''/sys'', ''/run''})"
| "preparatory (InitModule b) = True"
| "preparatory (MknodAt p m d) = (p = ''/dev/mapper/control'')"
| "preparatory (SleepFor n) = True"
| "preparatory (Report p s) = True"
| "preparatory _ = False"

lemma is_report_Report: "is_report c \<longleftrightarrow> (\<exists>p s. c = Report p s)"
  by (cases c) simp_all

lemma report_prepares: "list_all is_report ls \<Longrightarrow> list_all preparatory ls"
  by (induction ls) (auto simp: is_report_Report)

lemma log_prepares [simp]: "list_all preparatory (initrd_log M msg t) = list_all preparatory t"
  using log_is [of M msg t] report_prepares by (metis list_all_append)

lemma mounts_prepare:
  "list_all (\<lambda>(dev, target, r). target \<in> {''/dev'', ''/proc'', ''/sys'', ''/run''}) ms \<Longrightarrow> list_all preparatory t \<Longrightarrow>
     list_all preparatory (mount_each M ms t)"
  by (induction M ms t rule: mount_each.induct) (auto simp: Let_def)

lemma early_prepares: "list_all preparatory (mount_early_filesystems M [])"
  unfolding mount_early_filesystems_def by (rule mounts_prepare) (simp_all add: early_mounts_def)

lemma load_prepares: "list_all preparatory t \<Longrightarrow> list_all preparatory (load_one M n t)"
  by (simp add: load_one_def split: option.split)

lemma modules_prepare: "list_all preparatory t \<Longrightarrow> list_all preparatory (load_kernel_modules M t)"
proof -
  have "list_all preparatory t \<Longrightarrow> list_all preparatory (fold (load_one M) ps t)" for ps
    by (induction ps arbitrary: t) (simp_all add: load_prepares)
  then show "list_all preparatory t \<Longrightarrow> list_all preparatory (load_kernel_modules M t)"
    by (simp add: load_kernel_modules_def split: option.split)
qed

text \<open>The discovery adds pauses only, and gives a pair that was found at its last moment.\<close>

definition discovery :: "initrd \<Rightarrow> initrd_call list \<Rightarrow> (initrd_error + string \<times> string) \<times> initrd_call list \<Rightarrow> bool" where
  "discovery M t = (\<lambda>(r, t'). (\<exists>n. t' = t @ replicate n (SleepFor poll_pause)) \<and>
     (\<forall>rv. r = Inr rv \<longrightarrow> find_partitions (M t') = Some rv))"

lemma discovery_pause: "discovery M (t @ [SleepFor poll_pause]) y \<Longrightarrow> discovery M t y"
  unfolding discovery_def by (auto simp: replicate_Suc [symmetric] simp del: replicate_Suc)

lemma discovery_ends_here: "(\<And>rv. r = Inr rv \<Longrightarrow> find_partitions (M t) = Some rv) \<Longrightarrow> discovery M t (r, t)"
  unfolding discovery_def by (auto intro: exI [of _ 0])

lemma discovered: "discover_root_partitions M deadline t = Some y \<Longrightarrow> discovery M t y"
  by (rule discover_root_partitions.raw_induct [where P = "\<lambda>M deadline t y. discovery M t y"])
    (auto split: if_splits option.splits intro: discovery_pause discovery_ends_here)

section \<open>Calls that must succeed\<close>

text \<open>
  The calls whose failure is an error: those of the device mapper, the node of the mapping, the directory and the
  mount of the root, the change of the directory and of the root, and the execution. Each succeeded at its moment.
\<close>

fun essential :: "initrd_call \<Rightarrow> bool" where
  "essential (DmControl r b) = True"
| "essential (MknodAt p m d) = (p \<noteq> ''/dev/mapper/control'')"
| "essential (CreateDirAll p) = (p = ''/sysroot'')"
| "essential (MountAt dev target fstype flags opts) = (target = ''/sysroot'')"
| "essential (ChangeDir p) = True"
| "essential (ChangeRoot p) = True"
| "essential (Execve p args env) = True"
| "essential _ = False"

definition went_well :: "initrd_env \<Rightarrow> initrd_call \<Rightarrow> bool" where
  "went_well E c = (case c of DmControl r b \<Rightarrow> ir_answer E r b \<noteq> None | _ \<Rightarrow> ir_ok E c)"

definition all_well :: "initrd \<Rightarrow> initrd_call list \<Rightarrow> bool" where
  "all_well M t \<longleftrightarrow> (\<forall>s c u. t = s @ c # u \<longrightarrow> essential c \<longrightarrow> went_well (M s) c)"

lemma all_well_Nil [simp]: "all_well M []" by (simp add: all_well_def)

lemma all_well_snoc [simp]: "all_well M (t @ [c]) \<longleftrightarrow> all_well M t \<and> (essential c \<longrightarrow> went_well (M t) c)"
proof -
  have "t @ [c] = s @ d # u \<longleftrightarrow> u = [] \<and> s = t \<and> d = c \<or> (\<exists>v. u = v @ [c] \<and> t = s @ d # v)" for s d u
    by (cases u rule: rev_cases) auto
  then show ?thesis unfolding all_well_def by metis
qed

lemma all_well_idle: "list_all (\<lambda>c. \<not> essential c) l \<Longrightarrow> all_well M (t @ l) = all_well M t"
proof (induction l arbitrary: t)
  case (Cons c l)
  then show ?case using Cons.IH [of "t @ [c]"] by simp
qed simp

lemma preparatory_idle: "preparatory c \<Longrightarrow> \<not> essential c"
  by (cases c) auto

text \<open>A step that succeeds only when its own essential calls do.\<close>

definition strict :: "initrd \<Rightarrow> 'a step \<Rightarrow> bool" where
  "strict M m \<longleftrightarrow> (\<forall>t x t'. m t = (Inr x, t') \<longrightarrow> all_well M t \<longrightarrow> all_well M t')"

named_theorems strictness

lemma strict_asking [strictness]: "strict M (asking M f)"
  by (auto simp: strict_def asking_Inr)

lemma strict_calling [strictness]: "(\<And>r b. c \<noteq> DmControl r b) \<Longrightarrow> strict M (calling M e c)"
  by (cases c) (auto simp: strict_def calling_Inr went_well_def)

lemma strict_trying [strictness]: "list_all (\<lambda>c. \<not> essential c) cs \<Longrightarrow> strict M (trying cs)"
  by (simp add: strict_def trying_Inr all_well_idle)

lemma strict_logging [strictness]: "strict M (logging M msg)"
proof -
  have "list_all (\<lambda>c. \<not> essential c) (log_part M msg t)" for t
    using log_is(2) [of M msg t] by (auto simp: list_all_iff is_report_Report)
  then show ?thesis by (simp add: strict_def logging_Inr all_well_idle)
qed

lemma strict_send [strictness]: "strict M (send_dm_ioctl M cmd h p)"
  by (auto simp: strict_def send_Inr went_well_def dm_call_def)

lemma control_prepares: "list_all preparatory (control_node E)"
  by (simp add: control_node_def split: option.split list.split)

lemma strict_open_control [strictness]: "strict M (open_control M)"
proof -
  have "list_all (\<lambda>c. \<not> essential c) (control_node E)" for E
    using control_prepares [of E] preparatory_idle by (auto simp: list_all_iff)
  then show ?thesis by (auto simp: strict_def open_control_def Let_def all_well_idle)
qed

lemma strict_and_then [strictness]: "strict M m \<Longrightarrow> (\<And>x. strict M (f x)) \<Longrightarrow> strict M (and_then m f)"
  unfolding strict_def and_then_Inr by blast

lemma strict_boot: "strict M (boot_root M h rv)"
  unfolding boot_root_def activate_dm_verity_def handoff_to_verified_root_def
  by (cases rv) (auto simp: root_mount_def moved_mounts_def intro!: strictness)

section \<open>The mapping\<close>

definition mapping_calls :: "64 word \<Rightarrow> string \<Rightarrow> 64 word \<Rightarrow> initrd_call list" where
  "mapping_calls sectors params dev =
     [dm_call DM_CMD_CREATE (mapping_header ''root'') [],
      dm_call DM_CMD_TABLE ((mapping_header ''root'')\<lparr> di_target_count := 1 \<rparr>) (table_payload sectors params),
      dm_call DM_CMD_SUSPEND (mapping_header ''root'') [],
      dm_call DM_CMD_STATUS (new_dm_ioctl_header ''root'' DM_FLAG_EXISTS) [],
      RemoveAt ''/dev/mapper/root'',
      MknodAt ''/dev/mapper/root'' block_node dev]"

text \<open>The device number is the one of the status that the device mapper gave back.\<close>

definition status_at :: "initrd_env \<Rightarrow> 64 word \<Rightarrow> bool" where
  "status_at E dev \<longleftrightarrow>
     (\<exists>b. ir_answer E (dm_request DM_CMD_STATUS 312) (dm_buffer (new_dm_ioctl_header ''root'' DM_FLAG_EXISTS) []) = Some b \<and>
          dev = di_dev (header_of (take 312 b)))"

lemma activated:
  assumes "activate_dm_verity M ''root'' sectors params t = (Inr u, t')"
  shows "\<exists>pre dev. t' = t @ pre @ mapping_calls sectors params dev \<and> list_all preparatory pre \<and>
    ir_opens (M (t @ pre)) ''/dev/mapper/control'' \<and> status_at (M (t @ pre @ take 3 (mapping_calls sectors params dev))) dev"
proof -
  define pre where "pre = CreateDirAll ''/dev/mapper'' # control_node (M (t @ [CreateDirAll ''/dev/mapper'']))"
  have pre: "list_all preparatory pre" by (simp add: pre_def control_prepares)
  have opened: "open_control M t = (Inr v, s) \<Longrightarrow> s = t @ pre \<and> ir_opens (M (t @ pre)) ''/dev/mapper/control''" for v s
    by (auto simp: open_control_def pre_def Let_def split: if_splits)
  then have "ir_opens (M (t @ pre)) ''/dev/mapper/control''"
    using assms unfolding activate_dm_verity_def and_then_Inr by blast
  moreover have "\<exists>dev. t' = t @ pre @ mapping_calls sectors params dev \<and>
      status_at (M (t @ pre @ take 3 (mapping_calls sectors params dev))) dev"
    using assms opened unfolding activate_dm_verity_def step_Inr mapping_calls_def status_at_def by fastforce
  ultimately show ?thesis using pre by blast
qed

definition handoff_calls :: "string \<Rightarrow> string \<Rightarrow> initrd_call list" where
  "handoff_calls target_root init_bin =
     MountAt '''' ''/'' None (MS_REC OR MS_PRIVATE) None # moved_mounts target_root @
     [ChangeDir target_root, MountAt target_root ''/'' None MS_MOVE None, ChangeRoot ''.'', ChangeDir ''/'',
      Execve init_bin [init_bin] init_environment]"

lemma handed_over:
  "handoff_to_verified_root M target_root init_bin t = (Inr u, t') \<Longrightarrow> t' = t @ handoff_calls target_root init_bin"
  by (auto simp: handoff_to_verified_root_def step_Inr handoff_calls_def)

section \<open>The run\<close>

text \<open>Something that the program saw after a part of the calls.\<close>

definition seen :: "initrd \<Rightarrow> initrd_call list \<Rightarrow> (initrd_env \<Rightarrow> bool) \<Rightarrow> bool" where
  "seen M t Q \<longleftrightarrow> (\<exists>s u. t = s @ u \<and> Q (M s))"

lemma seen_here: "Q (M t) \<Longrightarrow> seen M (t @ u) Q"
  by (auto simp: seen_def)

lemma seen_append: "seen M t Q \<Longrightarrow> seen M (t @ u) Q"
  using seen_here append_assoc unfolding seen_def by metis

definition shown_hash :: "string \<Rightarrow> initrd_env \<Rightarrow> bool" where
  "shown_hash h E \<longleftrightarrow> map_option ToLower (extract_cmdline_param E ''roothash'') = Some h"

definition shown_table :: "string \<times> string \<Rightarrow> verity_superblock \<Rightarrow> string \<Rightarrow> string \<Rightarrow> initrd_env \<Rightarrow> bool" where
  "shown_table rv sb data_num verity_num E \<longleftrightarrow> read_verity_superblock (snd rv) E = Inr sb \<and>
     get_block_dev_number (fst rv) E = Inr data_num \<and> get_block_dev_number (snd rv) E = Inr verity_num"

text \<open>What a run does after it has made the mapping.\<close>

definition mounted_and_left :: "initrd_call list \<Rightarrow> initrd_call list \<Rightarrow> initrd_call list" where
  "mounted_and_left l l' = l @ [CreateDirAll ''/sysroot'', root_mount] @ l' @ handoff_calls ''/sysroot'' ''/usr/bin/cevell-node''"

definition mount_root :: "initrd \<Rightarrow> string \<Rightarrow> string \<Rightarrow> unit step" where
  "mount_root M a b = and_then (logging M a) (\<lambda>_. and_then (calling M NoSysroot (CreateDirAll ''/sysroot'')) (\<lambda>_.
     and_then (calling M MountFailed root_mount) (\<lambda>_. and_then (logging M b) (\<lambda>_.
     handoff_to_verified_root M ''/sysroot'' ''/usr/bin/cevell-node''))))"

lemma mounted:
  assumes "mount_root M a b s = (Inr u, t')"
  shows "\<exists>l l'. t' = s @ mounted_and_left l l' \<and> list_all is_report (l @ l')"
proof -
  define l where "l = log_part M a s"
  define s2 where "s2 = s @ l @ [CreateDirAll ''/sysroot'', root_mount]"
  define l' where "l' = log_part M b s2"
  have hand: "handoff_to_verified_root M ''/sysroot'' ''/usr/bin/cevell-node'' (s2 @ l') = (Inr u, t')"
    using assms unfolding mount_root_def step_Inr l_def s2_def l'_def by auto
  have t': "t' = s @ mounted_and_left l l'" using handed_over [OF hand] by (simp add: s2_def mounted_and_left_def)
  have "list_all is_report (l @ l')" by (simp add: l_def l'_def log_is(2))
  then show ?thesis using t' by blast
qed

lemma booted:
  assumes "boot_root M h rv t = (Inr u, t')"
  shows "\<exists>pre sb dn vn dev l l'. let maps = mapping_calls (verity_sectors sb) (verity_params sb dn vn h) dev in
    t' = t @ pre @ maps @ mounted_and_left l l' \<and> list_all preparatory pre \<and> list_all is_report (l @ l') \<and>
    seen M (t @ pre) (shown_table rv sb dn vn) \<and> ir_opens (M (t @ pre)) ''/dev/mapper/control'' \<and>
    status_at (M (t @ pre @ take 3 maps)) dev"
proof -
  obtain d v where rv: "rv = (d, v)" by (cases rv)
  obtain m m' a b where boot: "boot_root M h (d, v) =
     and_then (logging M m) (\<lambda>_.
     and_then (asking M (read_verity_superblock v)) (\<lambda>sb.
     and_then (asking M (get_block_dev_number d)) (\<lambda>dn.
     and_then (asking M (get_block_dev_number v)) (\<lambda>vn.
     and_then (logging M (m' sb)) (\<lambda>_.
     and_then (activate_dm_verity M ''root'' (verity_sectors sb) (verity_params sb dn vn h)) (\<lambda>_. mount_root M a b))))))"
    by (rule that) (unfold boot_root_def prod.case mount_root_def, rule refl)
  define l1 where "l1 = log_part M m t"
  obtain sb dn vn s where tab: "shown_table rv sb dn vn (M (t @ l1))"
    and map: "activate_dm_verity M ''root'' (verity_sectors sb) (verity_params sb dn vn h)
      (t @ l1 @ log_part M (m' sb) (t @ l1)) = (Inr (), s)"
    and rest: "mount_root M a b s = (Inr u, t')"
    using assms unfolding rv boot and_then_Inr logging_Inr asking_Inr shown_table_def l1_def by auto
  define l2 where "l2 = log_part M (m' sb) (t @ l1)"
  have l1: "list_all is_report l1" and l2: "list_all is_report l2" by (simp_all add: l1_def l2_def log_is(2))
  obtain p dev where s: "s = (t @ l1 @ l2) @ p @ mapping_calls (verity_sectors sb) (verity_params sb dn vn h) dev"
    and p: "list_all preparatory p" and op: "ir_opens (M ((t @ l1 @ l2) @ p)) ''/dev/mapper/control''"
    and st: "status_at (M ((t @ l1 @ l2) @ p @ take 3 (mapping_calls (verity_sectors sb) (verity_params sb dn vn h) dev))) dev"
    using activated [OF map, folded l2_def] by blast
  define pre where "pre = l1 @ l2 @ p"
  have "list_all preparatory pre" using l1 l2 p by (simp add: pre_def report_prepares)
  moreover have "seen M (t @ pre) (shown_table rv sb dn vn)"    using seen_here [of "shown_table rv sb dn vn" M "t @ l1" "l2 @ p"] tab by (simp add: pre_def)
  moreover have "ir_opens (M (t @ pre)) ''/dev/mapper/control''" using op by (simp add: pre_def)
  moreover have s': "s = t @ pre @ mapping_calls (verity_sectors sb) (verity_params sb dn vn h) dev" by (simp add: s pre_def)
  moreover have "status_at (M (t @ pre @ take 3 (mapping_calls (verity_sectors sb) (verity_params sb dn vn h) dev))) dev"
    using st by (simp add: pre_def)
  ultimately show ?thesis using mounted [OF rest] unfolding Let_def s' by (metis append_assoc)
qed

section \<open>The node runs on the verified root\<close>

lemma found_pair: "discover_root_partitions M deadline t = Some (Inr rv, s) \<Longrightarrow>
    (\<exists>n. s = t @ replicate n (SleepFor poll_pause)) \<and> seen M (s @ u) (\<lambda>E. find_partitions E = Some rv)"
  using discovered [of M deadline t "(Inr rv, s)"] seen_here [of "\<lambda>E. find_partitions E = Some rv" M s u]
  by (cases rv) (auto simp: discovery_def)

lemma hash_read:
  "read_roothash M t = (Inr h, s) \<Longrightarrow>
     s = t @ log_part M (''Enforcing immutable root hash: '' @ h) t \<and> shown_hash h (M t) \<and> length h = 64"
  by (auto simp: read_roothash_def and_then_Inr asking_Inr logging_Inr ret_def shown_hash_def split: option.splits if_splits)

lemma pauses_prepare: "list_all preparatory (replicate n (SleepFor k))"
  by (induction n) simp_all

text \<open>The calls and answers of a run that hands over, from what it saw before the mapping.\<close>

definition verified_run :: "initrd \<Rightarrow> initrd_call list \<Rightarrow> initrd_call list \<Rightarrow> string \<Rightarrow> string \<times> string \<Rightarrow>
    verity_superblock \<Rightarrow> string \<Rightarrow> string \<Rightarrow> 64 word \<Rightarrow> initrd_call list \<Rightarrow> initrd_call list \<Rightarrow> bool" where
  "verified_run M t pre h rv sb dn vn dev l l' \<longleftrightarrow> (let maps = mapping_calls (verity_sectors sb) (verity_params sb dn vn h) dev in
     t = pre @ maps @ mounted_and_left l l' \<and> list_all preparatory pre \<and> list_all is_report (l @ l') \<and>
     length h = 64 \<and> seen M pre (shown_hash h) \<and> seen M pre (\<lambda>E. find_partitions E = Some rv) \<and>
     seen M pre (shown_table rv sb dn vn) \<and> ir_opens (M pre) ''/dev/mapper/control'' \<and>
     status_at (M (pre @ take 3 maps)) dev \<and> all_well M t)"

lemma run_verified:
  assumes run: "run_initrd M t0 = Some (Inr u, t)" and t0: "list_all preparatory t0"
  shows "\<exists>pre h rv sb dn vn dev l l'. verified_run M t pre h rv sb dn vn dev l l'"
proof -
  let ?t1 = "load_kernel_modules M t0"
  obtain h s1 rv s2 where h: "read_roothash M ?t1 = (Inr h, s1)"
    and d: "discover_root_partitions M (ir_now (M s1) + 10 * second) s1 = Some (Inr rv, s2)"
    and b: "boot_root M h rv s2 = (Inr u, t)"
    using run by (auto simp: run_initrd_def split: prod.splits sum.splits option.splits)
  note hash = hash_read [OF h]
  obtain p sb dn vn dev l l' where r: "let maps = mapping_calls (verity_sectors sb) (verity_params sb dn vn h) dev in
    t = s2 @ p @ maps @ mounted_and_left l l' \<and> list_all preparatory p \<and> list_all is_report (l @ l') \<and>
    seen M (s2 @ p) (shown_table rv sb dn vn) \<and> ir_opens (M (s2 @ p)) ''/dev/mapper/control'' \<and>
    status_at (M (s2 @ p @ take 3 maps)) dev"
    using booted [OF b] by blast
  obtain n where s2: "s2 = s1 @ replicate n (SleepFor poll_pause)" using found_pair [OF d] by blast
  have "list_all preparatory (s2 @ p)"
    using hash r modules_prepare [OF t0] by (simp add: s2 Let_def pauses_prepare log_is(2) report_prepares)
  moreover have "all_well M t"
  proof -
    have "list_all preparatory s2"
      using hash modules_prepare [OF t0] by (simp add: s2 pauses_prepare log_is(2) report_prepares)
    then have "all_well M s2" using all_well_idle [of s2 M "[]"] preparatory_idle by (auto simp: list_all_iff)
    then show ?thesis using strict_boot [of M h rv] b unfolding strict_def by blast
  qed
  moreover have "seen M (s2 @ p) (\<lambda>E. find_partitions E = Some rv)" using found_pair [OF d] by blast
  moreover have "seen M (s2 @ p) (shown_hash h)"
    using hash seen_here [of "shown_hash h" M ?t1] by (simp add: s2)
  ultimately have "verified_run M t (s2 @ p) h rv sb dn vn dev l l'"
    using r hash unfolding verified_run_def Let_def by (metis append_assoc)
  then show ?thesis by blast
qed

lemma main_verified:
  assumes "initrd_main wording M = Some (NodeRuns, t)"
  shows "\<exists>pre h rv sb dn vn dev l l'. verified_run M t pre h rv sb dn vn dev l l'"
proof -
  obtain u where "run_initrd M (initrd_log M ''Cevell OS Stage 1 Rust Initrd Engine initializing...'' (mount_early_filesystems M []))
      = Some (Inr u, t)"
    using assms by (auto simp: initrd_main_def split: option.splits prod.splits sum.splits)
  then show ?thesis by (rule run_verified) (simp add: early_prepares)
qed


section \<open>Ends\<close>

text \<open>A step whose calls, success or not, all have a property.\<close>

definition adds :: "(initrd_call \<Rightarrow> bool) \<Rightarrow> 'a step \<Rightarrow> bool" where
  "adds Q m \<longleftrightarrow> (\<forall>t. \<exists>l. snd (m t) = t @ l \<and> list_all Q l)"

lemma addsI: "(\<And>t. snd (m t) = t @ l t \<and> list_all Q (l t)) \<Longrightarrow> adds Q m"
  unfolding adds_def by blast

named_theorems adding

lemma adds_ret [adding]: "adds Q (ret x)" by (rule addsI [of _ "\<lambda>t. []"]) (simp add: ret_def)
lemma adds_asking [adding]: "adds Q (asking M f)" by (rule addsI [of _ "\<lambda>t. []"]) (simp add: asking_def)
lemma adds_calling [adding]: "Q c \<Longrightarrow> adds Q (calling M e c)" by (rule addsI [of _ "\<lambda>t. [c]"]) (simp add: calling_def)
lemma adds_trying [adding]: "list_all Q cs \<Longrightarrow> adds Q (trying cs)" by (rule addsI [of _ "\<lambda>t. cs"]) (simp add: trying_def)

lemma adds_logging [adding]: "(\<And>p s. Q (Report p s)) \<Longrightarrow> adds Q (logging M m)"
proof (rule addsI [of _ "log_part M m"])
  fix t assume "\<And>p s. Q (Report p s)"
  then have "is_report c \<Longrightarrow> Q c" for c by (auto simp: is_report_Report)
  then have "list_all Q (log_part M m t)" using log_is(2) [of M m t] by (auto simp: list_all_iff)
  then show "snd (logging M m t) = t @ log_part M m t \<and> list_all Q (log_part M m t)" by (simp add: logging_def log_is(1))
qed

lemma adds_send [adding]: "(\<And>r b. Q (DmControl r b)) \<Longrightarrow> adds Q (send_dm_ioctl M cmd h p)"
  by (rule addsI [of _ "\<lambda>t. [dm_call cmd h p]"]) (simp add: send_dm_ioctl_def dm_call_def)

lemma adds_and_then [adding]:
  assumes "adds Q m" "\<And>x. adds Q (f x)"
  shows "adds Q (and_then m f)"
  unfolding adds_def
proof
  fix t
  obtain r s where m: "m t = (r, s)" by (cases "m t")
  obtain l where l: "s = t @ l" "list_all Q l" using assms(1) m unfolding adds_def by (metis snd_conv)
  show "\<exists>l. snd (and_then m f t) = t @ l \<and> list_all Q l"
  proof (cases r)
    case (Inr x)
    obtain l' where "snd (f x s) = s @ l'" "list_all Q l'" using assms(2) unfolding adds_def by blast
    then have "snd (and_then m f t) = t @ (l @ l')" "list_all Q (l @ l')" using l by (simp_all add: and_then_def m Inr)
    then show ?thesis by blast
  qed (use l in \<open>auto simp: and_then_def m\<close>)
qed

definition is_pause :: "initrd_call \<Rightarrow> bool" where
  "is_pause c = (case c of SleepFor n \<Rightarrow> True | _ \<Rightarrow> False)"

definition runs_nothing :: "initrd_call \<Rightarrow> bool" where
  "runs_nothing c = (case c of Execve p a v \<Rightarrow> False | _ \<Rightarrow> True)"

lemma runs_nothing_calls [simp]: "runs_nothing (CreateDirAll p)" "runs_nothing (MountAt a b c d e)"
  "runs_nothing (MknodAt p m n)" "runs_nothing (DmControl r x)" "runs_nothing (RemoveAt p)" "runs_nothing (ChangeDir p)"
  "runs_nothing (ChangeRoot p)" "runs_nothing (SleepFor k)" "runs_nothing (Report p s)"
  by (simp_all add: runs_nothing_def)

lemma prepares_run_nothing: "preparatory c \<Longrightarrow> runs_nothing c"
  by (cases c) (simp_all add: runs_nothing_def)

lemma adds_open_control: "(\<And>c. preparatory c \<Longrightarrow> \<not> is_pause c \<Longrightarrow> Q c) \<Longrightarrow> adds Q (open_control M)"
  by (rule addsI [of _ "\<lambda>t. CreateDirAll ''/dev/mapper'' # control_node (M (t @ [CreateDirAll ''/dev/mapper'']))"])
    (simp add: open_control_def Let_def control_node_def is_pause_def split: option.split list.split)

lemma adds_activate:
  "(\<And>c. preparatory c \<Longrightarrow> \<not> is_pause c \<Longrightarrow> Q c) \<Longrightarrow> (\<And>r b. Q (DmControl r b)) \<Longrightarrow> (\<And>p. Q (RemoveAt p)) \<Longrightarrow>
     (\<And>p m d. Q (MknodAt p m d)) \<Longrightarrow> adds Q (activate_dm_verity M n s p)"
  unfolding activate_dm_verity_def by (intro adding adds_open_control) simp_all

text \<open>A step that runs a program only as its last call, and either succeeds then or fails with ExecFailed.\<close>

definition guarded :: "'a step \<Rightarrow> bool" where
  "guarded m \<longleftrightarrow> (\<forall>t. \<exists>l. snd (m t) = t @ l \<and>
     (list_all runs_nothing l \<or> (\<exists>x. fst (m t) = Inr x) \<or> fst (m t) = Inl ExecFailed))"

lemma guarded_and_then:
  assumes "adds runs_nothing m" "\<And>x. guarded (f x)"
  shows "guarded (and_then m f)"
  unfolding guarded_def
proof
  fix t
  obtain r s where m: "m t = (r, s)" by (cases "m t")
  obtain l where l: "s = t @ l" "list_all runs_nothing l" using assms(1) m unfolding adds_def by (metis snd_conv)
  show "\<exists>l. snd (and_then m f t) = t @ l \<and>
     (list_all runs_nothing l \<or> (\<exists>x. fst (and_then m f t) = Inr x) \<or> fst (and_then m f t) = Inl ExecFailed)"
  proof (cases r)
    case (Inr x)
    obtain l' where l': "snd (f x s) = s @ l'"
      "list_all runs_nothing l' \<or> (\<exists>x'. fst (f x s) = Inr x') \<or> fst (f x s) = Inl ExecFailed"
      using assms(2) unfolding guarded_def by blast
    have "snd (and_then m f t) = t @ (l @ l')" using l l' by (simp add: and_then_def m Inr)
    moreover have "fst (and_then m f t) = fst (f x s)" by (simp add: and_then_def m Inr)
    ultimately show ?thesis using l(2) l'(2) by (metis list_all_append)
  qed (use l in \<open>auto simp: and_then_def m\<close>)
qed

lemma guarded_exec: "guarded (calling M ExecFailed c)"
  unfolding guarded_def by (auto simp: calling_def)

lemma boot_guarded: "guarded (boot_root M h rv)"
  unfolding boot_root_def handoff_to_verified_root_def
  by (cases rv) (auto simp: moved_mounts_def root_mount_def prepares_run_nothing
    intro!: guarded_and_then guarded_exec adding adds_activate)

lemma boot_no_pause: "adds (\<lambda>c. \<not> is_pause c) (boot_root M h rv)"
  unfolding boot_root_def handoff_to_verified_root_def
  by (cases rv) (auto simp: is_pause_def moved_mounts_def root_mount_def intro!: adding adds_activate)


text \<open>On a clock that counts the pauses, the discovery ends within its ten seconds.\<close>

lemma discovery_returns:
  assumes clock: "\<And>t. ir_now (M t) + poll_pause \<le> ir_now (M (t @ [SleepFor poll_pause]))"
  shows "\<exists>r n. discover_root_partitions M deadline t = Some (r, t @ replicate n (SleepFor poll_pause)) \<and>
    (0 < n \<longrightarrow> int (n - 1) * poll_pause < deadline - ir_now (M t))"
proof (induction "nat (deadline - ir_now (M t))" arbitrary: t rule: less_induct)
  case less
  let ?t = "t @ [SleepFor poll_pause]"
  show ?case
  proof (cases "ir_now (M t) < deadline \<and> find_partitions (M t) = None")
    case True
    then have "nat (deadline - ir_now (M ?t)) < nat (deadline - ir_now (M t))"
      using clock [of t] by (simp add: poll_pause_def)
    then obtain r n where d: "discover_root_partitions M deadline ?t = Some (r, ?t @ replicate n (SleepFor poll_pause))"
      and n: "0 < n \<longrightarrow> int (n - 1) * poll_pause < deadline - ir_now (M ?t)"
      using less by blast
    have "discover_root_partitions M deadline t = Some (r, t @ replicate (Suc n) (SleepFor poll_pause))"
      using True d by (simp add: discover_root_partitions.simps [of M deadline t])
    moreover have "int (Suc n - 1) * poll_pause < deadline - ir_now (M t)"
      using n clock [of t] True by (cases n) (simp_all add: algebra_simps)
    ultimately show ?thesis by blast
  next
    case False
    then have "\<exists>r. discover_root_partitions M deadline t = Some (r, t @ replicate 0 (SleepFor poll_pause))"
      by (auto simp: discover_root_partitions.simps [of M deadline t])
    then show ?thesis by blast
  qed
qed

definition quiet_call :: "initrd_call \<Rightarrow> bool" where "quiet_call c \<longleftrightarrow> \<not> is_pause c \<and> runs_nothing c"

lemma report_quiet: "is_report c \<Longrightarrow> quiet_call c"
  by (auto simp: is_report_Report quiet_call_def is_pause_def runs_nothing_def)

lemma logs_quiet: "list_all quiet_call (initrd_log M m t) = list_all quiet_call t"
  using log_is [of M m t] report_quiet by (metis list_all_append list.pred_mono_strong)

lemma mounts_quiet: "list_all quiet_call t \<Longrightarrow> list_all quiet_call (mount_each M ms t)"
  by (induction M ms t rule: mount_each.induct) (auto simp: Let_def quiet_call_def is_pause_def runs_nothing_def)

lemma modules_quiet: "list_all quiet_call t \<Longrightarrow> list_all quiet_call (load_kernel_modules M t)"
proof -
  have one: "list_all quiet_call t \<Longrightarrow> list_all quiet_call (load_one M n t)" for n t
    by (simp add: load_one_def logs_quiet quiet_call_def is_pause_def runs_nothing_def split: option.split)
  have "list_all quiet_call t \<Longrightarrow> list_all quiet_call (fold (load_one M) ps t)" for ps
    by (induction ps arbitrary: t) (simp_all add: one)
  then show "list_all quiet_call t \<Longrightarrow> list_all quiet_call (load_kernel_modules M t)"
    by (simp add: load_kernel_modules_def split: option.split)
qed

lemma hash_quiet: "list_all quiet_call t \<Longrightarrow> list_all quiet_call (snd (read_roothash M t))"
  by (simp add: read_roothash_def and_then_def asking_def logging_def ret_def logs_quiet split: option.split)

lemma quiet_no_pause: "list_all quiet_call t \<Longrightarrow> filter is_pause t = []"
  by (induction t) (simp_all add: quiet_call_def)

lemma quiet_runs_nothing: "list_all quiet_call t \<Longrightarrow> list_all runs_nothing t"
  by (induction t) (simp_all add: quiet_call_def)

text \<open>How a run may end: with few pauses, and with a program run only if it hands over or execve itself fails.\<close>

definition ends_well :: "initrd_error option \<Rightarrow> initrd_call list \<Rightarrow> bool" where
  "ends_well e t \<longleftrightarrow> length (filter is_pause t) \<le> 67 \<and> (e = None \<or> e = Some ExecFailed \<or> list_all runs_nothing t)"

lemma run_ends:
  assumes clock: "\<And>t. ir_now (M t) + poll_pause \<le> ir_now (M (t @ [SleepFor poll_pause]))" and t0: "list_all quiet_call t0"
  shows "\<exists>r t. run_initrd M t0 = Some (r, t) \<and> ends_well (case r of Inl e \<Rightarrow> Some e | Inr u \<Rightarrow> None) t"
proof -
  obtain r1 s1 where h: "read_roothash M (load_kernel_modules M t0) = (r1, s1)" by fastforce
  have s1: "list_all quiet_call s1" using hash_quiet [OF modules_quiet [OF t0], of M M] h by simp
  show ?thesis
  proof (cases r1)
    case (Inl e)
    then show ?thesis using h s1 by (simp add: run_initrd_def ends_well_def quiet_no_pause quiet_runs_nothing)
  next
    case (Inr hash)
    obtain r2 n where d: "discover_root_partitions M (ir_now (M s1) + 10 * second) s1 = Some (r2, s1 @ replicate n (SleepFor poll_pause))"
      and n: "0 < n \<longrightarrow> int (n - 1) * poll_pause < 10 * second"
      using discovery_returns [of M "ir_now (M s1) + 10 * second" s1, OF clock] by auto
    have few: "n \<le> 67" using n by (cases n) (simp_all add: poll_pause_def second_def)
    let ?s = "s1 @ replicate n (SleepFor poll_pause)"
    have ps: "length (filter is_pause ?s) = n" using s1 by (simp add: quiet_no_pause is_pause_def)
    have rs: "list_all runs_nothing ?s"
      using s1 by (auto simp: list_all_iff quiet_call_def runs_nothing_def)
    show ?thesis
    proof (cases r2)
      case (Inl e)
      then show ?thesis using h d Inr few ps rs by (simp add: run_initrd_def ends_well_def)
    next
      case (Inr rv)
      obtain r t where b: "boot_root M hash rv ?s = (r, t)" by fastforce
      obtain l where l: "t = ?s @ l" "list_all runs_nothing l \<or> (\<exists>x. r = Inr x) \<or> r = Inl ExecFailed"
        using boot_guarded [of M hash rv] b unfolding guarded_def by (metis fst_conv snd_conv)
      obtain l2 where l2: "t = ?s @ l2" "list_all (\<lambda>c. \<not> is_pause c) l2"
        using boot_no_pause [of M hash rv] b unfolding adds_def by (metis snd_conv)
      have "length (filter is_pause t) \<le> 67" using l2 ps few by (simp add: list_all_iff filter_empty_conv)
      then have "ends_well (case r of Inl e \<Rightarrow> Some e | Inr u \<Rightarrow> None) t"
        using l rs by (auto simp: ends_well_def split: sum.splits)
      moreover have "run_initrd M t0 = Some (r, t)" using h d b \<open>r1 = Inr hash\<close> Inr by (simp add: run_initrd_def)
      ultimately show ?thesis by blast
    qed
  qed
qed

lemma log_ends_well: "ends_well e t \<Longrightarrow> ends_well e (initrd_log M m t)"
proof -
  have q: "list_all quiet_call (log_part M m t)" using log_is(2) report_quiet by (metis list.pred_mono_strong)
  show "ends_well e t \<Longrightarrow> ends_well e (initrd_log M m t)"
    using quiet_no_pause [OF q] quiet_runs_nothing [OF q] by (simp add: ends_well_def log_is(1))
qed

lemma main_ends:
  assumes clock: "\<And>t. ir_now (M t) + poll_pause \<le> ir_now (M (t @ [SleepFor poll_pause]))"
  shows "\<exists>e t. initrd_main wording M = Some (e, t) \<and> ends_well (case e of NodeRuns \<Rightarrow> None | Halted x \<Rightarrow> Some x) t"
proof -
  let ?t0 = "initrd_log M ''Cevell OS Stage 1 Rust Initrd Engine initializing...'' (mount_early_filesystems M [])"
  have "list_all quiet_call ?t0" by (simp add: logs_quiet mount_early_filesystems_def mounts_quiet)
  then obtain r t where
    r: "run_initrd M ?t0 = Some (r, t)" "ends_well (case r of Inl e \<Rightarrow> Some e | Inr u \<Rightarrow> None) t"
    using run_ends [of M ?t0] clock by blast
  show ?thesis
  proof (cases r)
    case (Inl e)
    then show ?thesis using r log_ends_well by (simp add: initrd_main_def)
  next
    case (Inr u)
    then show ?thesis using r by (simp add: initrd_main_def)
  qed
qed

end
