(* ===== verification/InitrdSafety.thy ===== *)
theory InitrdSafety
  imports InitrdRuns
begin

text \<open>
  Properties of the first program: the node runs only on the mapping that carries the root hash of the command
  line; the program ends, and runs nothing if it fails before; the device mapper gets the table that was built.
  The superblock goes into the table unchecked, and its algorithm field can put another digest in the place of
  the root hash.
\<close>

section \<open>The words of the table\<close>

lemma split_on_plain: "c \<notin> set w \<Longrightarrow> split_on c w = [w]"
  by (induction w) auto

lemma split_on_word: "c \<notin> set w \<Longrightarrow> split_on c (w @ c # r) = w # split_on c r"
  by (induction w) auto

lemma split_on_Join: "ws \<noteq> [] \<Longrightarrow> (\<And>w. w \<in> set ws \<Longrightarrow> c \<notin> set w) \<Longrightarrow> split_on c (Join ws [c]) = ws"
  by (induction ws "[c]" rule: Join.induct) (simp_all add: split_on_plain split_on_word)

lemma fields_no_space:
  "(\<And>c. c \<in> set acc \<Longrightarrow> \<not> is_space c) \<Longrightarrow> w \<in> set (fields_aux acc s) \<Longrightarrow> c \<in> set w \<Longrightarrow> \<not> is_space c"
  by (induction acc s rule: fields_aux.induct) (auto split: if_splits)

lemma lower_no_space: "(CHR '' '') \<notin> set s \<Longrightarrow> (CHR '' '') \<notin> set (ToLower s)"
proof -
  have "lower_char c = CHR '' '' \<Longrightarrow> c = CHR '' ''" for c
    by (cases c) (auto simp: lower_char_def of_char_def of_bool_def split: if_splits)
  then show "(CHR '' '') \<notin> set s \<Longrightarrow> (CHR '' '') \<notin> set (ToLower s)" by (auto simp: ToLower_def) metis
qed

lemma shown_hash_no_space: "shown_hash h E \<Longrightarrow> (CHR '' '') \<notin> set h"
proof -
  assume "shown_hash h E"
  then obtain content token where h: "h = ToLower (drop 9 token)" and tok: "token \<in> set (Fields content)"
    by (auto simp: shown_hash_def extract_cmdline_param_def bind_eq_Some_conv find_Some_iff eval_nat_numeral intro!: that nth_mem)
  have "(CHR '' '') \<notin> set token" using tok fields_no_space [of "[]" token content] by (auto simp: Fields_def is_space_def)
  then show ?thesis unfolding h by (intro lower_no_space) (meson in_set_dropD)
qed

lemma hex_no_space: "(CHR '' '') \<notin> set (hex_encode b)"
proof
  assume "(CHR '' '') \<in> set (hex_encode b)"
  then obtain n where "n < 16" "CHR '' '' = hex_digit n" using hex_encode_chars by blast
  then show False by (auto simp: hex_digit_def less_Suc_eq numeral_eq_Suc)
qed

lemma salt_no_space: "(CHR '' '') \<notin> set (salt_text sb)"
  using hex_no_space by (simp add: salt_text_def Let_def)

lemma nat_dec_no_space: "(CHR '' '') \<notin> set (nat_dec n)"
  using nat_dec_digits [of n] by (auto simp: list_all_iff is_digit_def)

lemma table_words:
  assumes "(CHR '' '') \<notin> set (algorithm_text sb)" "(CHR '' '') \<notin> set dn" "(CHR '' '') \<notin> set vn" "(CHR '' '') \<notin> set h"
  shows "split_on (CHR '' '') (verity_params sb dn vn h) = verity_arguments sb dn vn h"
  unfolding verity_params_def
proof (rule split_on_Join)
  fix w assume "w \<in> set (verity_arguments sb dn vn h)"
  then show "(CHR '' '') \<notin> set w"
    using assms nat_dec_no_space salt_no_space by (auto simp: verity_arguments_def)
qed (simp add: verity_arguments_def)

text \<open>
  The field of the algorithm is not checked for spaces. A hash partition whose superblock has the following
  algorithm gives a table whose eighth and ninth words, which the device mapper takes for the algorithm and the
  root digest, are the superblock's own; its salt and an empty list of options follow, and the root hash of the
  command line comes after what is read.
\<close>

lemma smuggled_algorithm:
  assumes alg: "sb_algorithm sb = bytes_of ''crc32c deadbeef - 0'' @ replicate 13 0"
    and sp: "(CHR '' '') \<notin> set dn" "(CHR '' '') \<notin> set vn" "(CHR '' '') \<notin> set h"
  shows "take 5 (drop 7 (split_on (CHR '' '') (verity_params sb dn vn h))) = [''crc32c'', ''deadbeef'', ''-'', ''0'', h]"
proof -
  have "string_of (sb_algorithm sb) = ''crc32c deadbeef - 0'' @ replicate 13 (CHR 0x00)"
    unfolding alg by code_simp
  moreover have "trim_char (CHR 0x00) (if to_valid s = s then s else ''sha256'') = ''crc32c deadbeef - 0''"
    if "s = ''crc32c deadbeef - 0'' @ replicate 13 (CHR 0x00)" for s unfolding that by code_simp
  ultimately have a: "algorithm_text sb = ''crc32c deadbeef - 0''" by (simp add: algorithm_text_def)
  let ?ws = "[nat_dec (unat (sb_version sb)), dn, vn, nat_dec (unat (sb_data_block_size sb)), nat_dec (unat (sb_hash_block_size sb)),
    nat_dec (unat (sb_data_blocks sb)), ''1'', ''crc32c'', ''deadbeef'', ''-'', ''0'', h, salt_text sb]"
  have "verity_params sb dn vn h = Join ?ws '' ''" by (simp add: verity_params_def verity_arguments_def a)
  moreover have "split_on (CHR '' '') (Join ?ws '' '') = ?ws"
  proof (rule split_on_Join)
    fix w assume "w \<in> set ?ws"
    then show "(CHR '' '') \<notin> set w" using sp nat_dec_no_space salt_no_space by auto
  qed simp
  ultimately show ?thesis by simp
qed

section \<open>The bytes of the table\<close>

lemma le_nat_Cons: "le_nat (x # b) = unat x + 256 * le_nat b" by (simp add: le_nat_def)

lemma unat_byte_of: "unat (ucast (drop_bit k (w :: 'a::len word)) :: byte) = unat w div 2 ^ k mod 256"
proof -
  have "unat (drop_bit k w) = unat w div 2 ^ k"     using take_bit_nat_eq_self [OF unsigned_less [of w]] by (simp add: unsigned_drop_bit_eq flip: drop_bit_eq_div)
  then show ?thesis by (simp add: unsigned_ucast_eq take_bit_eq_mod)
qed

text \<open>The bytes of a number, the lowest first, give its remainder.\<close>

lemma le_nat_digits:
  "list_all2 (\<lambda>x k. unat x = m div 2 ^ (8 * k) mod 256) b [i..<i + n] \<Longrightarrow> le_nat b = m div 2 ^ (8 * i) mod 2 ^ (8 * n)"
proof (induction n arbitrary: b i)
  case (Suc n)
  have "[i..<i + Suc n] = i # [Suc i..<Suc i + n]" by (subst upt_rec) simp
  with Suc.prems obtain x c where b: "b = x # c" and x: "unat x = m div 2 ^ (8 * i) mod 256"
    and c: "list_all2 (\<lambda>x k. unat x = m div 2 ^ (8 * k) mod 256) c [Suc i..<Suc i + n]"
    by (auto simp only: list_all2_Cons2)
  let ?q = "m div 2 ^ (8 * i)"
  have "(2 :: nat) ^ (8 * Suc i) = 2 ^ (8 * i) * 256" by (simp add: power_add)
  then have "m div 2 ^ (8 * Suc i) = ?q div 256" by (simp only: div_mult2_eq)
  then have "le_nat b = ?q mod 256 + 256 * (?q div 256 mod 2 ^ (8 * n))" using Suc.IH [OF c] x by (simp add: b le_nat_Cons)
  also have "\<dots> = ?q mod (256 * 2 ^ (8 * n))" by (simp add: mod_mult2_eq)
  also have "(256 :: nat) * 2 ^ (8 * n) = 2 ^ (8 * Suc n)" by (simp add: power_add)
  finally show ?case .
qed (simp add: le_nat_def)

lemma le_nat_put_le32 [simp]: "le_nat (put_le32 w) = unat w"
proof -
  have "list_all2 (\<lambda>x k. unat x = unat w div 2 ^ (8 * k) mod 256) (put_le32 w) [0..<0 + 4]"
    using unat_byte_of [of 0 w] by (simp add: put_le32_def put_u32_def unat_byte_of upt_rec)
  from le_nat_digits [OF this] show ?thesis using unsigned_less [of w, where 'a = nat] by simp
qed

lemma le_nat_put_le64 [simp]: "le_nat (put_le64 w) = unat w"
proof -
  have "list_all2 (\<lambda>x k. unat x = unat w div 2 ^ (8 * k) mod 256) (put_le64 w) [0..<0 + 8]"
    using unat_byte_of [of 0 w] by (simp add: put_le64_def put_u64_def unat_byte_of upt_rec)
  from le_nat_digits [OF this] show ?thesis using unsigned_less [of w, where 'a = nat] by simp
qed

lemma length_put_le [simp]: "length (put_le32 v) = 4" "length (put_le64 w) = 8"
  by (simp_all add: put_le32_def put_le64_def put_u64_def)

lemma length_bytes_of_text: "length (bytes_of s) = length s" by (simp add: bytes_of_def)

lemma pad_to_eight: "(n :: nat) + (8 - n mod 8) mod 8 = (n + 7) div 8 * 8"
proof -
  obtain q r where n: "n = 8 * q + r" and r: "r < 8" by (metis mult_div_mod_eq mod_less_divisor zero_less_numeral)
  from r have "r = 0 \<or> r = 1 \<or> r = 2 \<or> r = 3 \<or> r = 4 \<or> r = 5 \<or> r = 6 \<or> r = 7" by auto
  then have "n + (8 - r) mod 8 = (q + (r + 7) div 8) * 8" by (elim disjE) (simp_all add: n)
  moreover have "n mod 8 = r" using r by (simp add: n)
  moreover have "(n + 7) div 8 = q + (r + 7) div 8" using div_mult_self4 [of 8 q "r + 7"] by (simp add: n add.assoc)
  ultimately show ?thesis by simp
qed

text \<open>What the device mapper reads of the table: the sectors, the size of the target, its type and its parameters.\<close>

lemma table_layout:
  assumes "0 \<notin> set (bytes_of params)" "target_size params < 2 ^ 32"
  shows "length (table_payload sectors params) = target_size params" "target_size params mod 8 = 0"
    "le_nat (field (table_payload sectors params) 0 8) = 0"
    "le_nat (field (table_payload sectors params) 8 8) = unat sectors"
    "le_nat (field (table_payload sectors params) 20 4) = target_size params"
    "field (table_payload sectors params) 24 16 = bytes_of ''verity'' @ replicate 10 0"
    "takeWhile (\<lambda>x. x \<noteq> 0) (drop 40 (table_payload sectors params)) = bytes_of params"
proof -
  have spec: "length (target_spec sectors params) = 40" by (simp add: target_spec_def length_bytes_of_text)
  define pad where "pad = replicate ((8 - (40 + length params + 1) mod 8) mod 8) (0 :: byte)"
  have p: "table_payload sectors params = target_spec sectors params @ bytes_of params @ [0] @ pad"
    by (simp add: table_payload_def pad8_def pad_def spec length_bytes_of_text)
  show "length (table_payload sectors params) = target_size params"
    using pad_to_eight [of "40 + length params + 1"] by (simp add: p spec pad_def length_bytes_of_text target_size_def)
  show "target_size params mod 8 = 0" by (simp add: target_size_def)
  show "le_nat (field (table_payload sectors params) 0 8) = 0"
    "le_nat (field (table_payload sectors params) 8 8) = unat sectors"
    "field (table_payload sectors params) 24 16 = bytes_of ''verity'' @ replicate 10 0"
    by (simp_all add: p target_spec_def field_def length_bytes_of_text)
  show "le_nat (field (table_payload sectors params) 20 4) = target_size params"
    using assms(2) by (simp add: p target_spec_def field_def unat_of_nat take_bit_eq_mod)
  show "takeWhile (\<lambda>x. x \<noteq> 0) (drop 40 (table_payload sectors params)) = bytes_of params"
  proof -
    have "takeWhile (\<lambda>x. x \<noteq> 0) (bytes_of params @ 0 # pad) = bytes_of params @ takeWhile (\<lambda>x. x \<noteq> 0) (0 # pad)"
      using assms(1) by (intro takeWhile_append2) auto
    then show ?thesis by (simp add: p spec)
  qed
qed

section \<open>A sample machine\<close>

definition sample_hash :: string where "sample_hash = replicate 64 (CHR ''A'')"

definition sample_initrd :: initrd where
  "sample_initrd t =
     \<lparr> ir_text = map_of [(''/proc/cmdline'', ''quiet roothash='' @ sample_hash), (''/sys/block/sda/sda1/partition'', ''1''),
         (''/sys/block/sda/sda2/partition'', ''2''), (''/sys/class/block/sda1/dev'', ''8:1''), (''/sys/class/block/sda2/dev'', ''8:2'')],
       ir_dir = map_of [(''/sys/block'', [''sda'', ''loop0'']), (''/sys/block/sda'', [''sda1'', ''sda2''])],
       ir_exists = (\<lambda>p. p \<in> {''/sys/block/sda/sda1/partition'', ''/sys/block/sda/sda2/partition''}),
       ir_module = (\<lambda>p. None),
       ir_device = map_of [(''/dev/sda2'', verity_magic @ replicate 24 0 @ bytes_of ''sha256'' @ replicate 474 0)],
       ir_opens = (\<lambda>p. True), ir_ok = (\<lambda>c. True), ir_answer = (\<lambda>r b. Some b),
       ir_now = poll_pause * int (length (filter is_pause t)) \<rparr>"

lemma find_partitions_clock: "find_partitions (E\<lparr> ir_now := n \<rparr>) = find_partitions E"
proof -
  have "add_partition (E\<lparr> ir_now := n \<rparr>) = add_partition E" by (intro ext) (simp add: add_partition_def Let_def)
  then have "partitions_of (E\<lparr> ir_now := n \<rparr>) = partitions_of E"
    by (intro ext) (simp add: partitions_of_def cong: option.case_cong)
  then show ?thesis by (simp add: find_partitions_def)
qed

lemma sample_discovery:
  "discover_root_partitions sample_initrd (ir_now (sample_initrd t) + 10 * second) t = Some (Inr (''/dev/sda1'', ''/dev/sda2''), t)"
proof -
  have f: "find_partitions (sample_initrd []) = Some (''/dev/sda1'', ''/dev/sda2'')" by code_simp
  have "sample_initrd t = (sample_initrd [])\<lparr> ir_now := ir_now (sample_initrd t) \<rparr>" by (simp add: sample_initrd_def)
  then have "find_partitions (sample_initrd t) = Some (''/dev/sda1'', ''/dev/sda2'')"
    using f by (metis find_partitions_clock)
  then show ?thesis by (subst discover_root_partitions.simps) (simp add: second_def)
qed

definition succeeds :: "'a step \<Rightarrow> bool" where "succeeds m \<longleftrightarrow> (\<forall>t. \<exists>x s. m t = (Inr x, s))"

lemma succeeds_and_then: "succeeds m \<Longrightarrow> (\<And>x. succeeds (f x)) \<Longrightarrow> succeeds (and_then m f)"
  unfolding succeeds_def and_then_def by (metis (mono_tags, lifting) case_prod_conv sum.case(2))

lemma sample_steps:
  "succeeds (calling sample_initrd e c)" "succeeds (trying cs)" "succeeds (logging sample_initrd m)"
  "succeeds (send_dm_ioctl sample_initrd cmd h p)" "succeeds (open_control sample_initrd)"
  by (simp_all add: succeeds_def calling_def trying_def logging_def send_dm_ioctl_def open_control_def sample_initrd_def Let_def)

lemma le_nat_zeros: "le_nat (replicate n 0) = 0"
  by (induction n) (simp_all add: le_nat_def)

lemma superblock_read:
  assumes "ir_device E p = Some (verity_magic @ replicate 24 0 @ bytes_of ''sha256'' @ replicate n 0)" "474 \<le> n"
  shows "\<exists>sb. read_verity_superblock p E = Inr sb"
proof -
  let ?c = "verity_magic @ replicate 24 0 @ bytes_of ''sha256'' @ replicate n 0"
  have len: "length verity_magic = 8" "length (bytes_of ''sha256'') = 6" by (simp_all add: verity_magic_def bytes_of_def)
  have "field (take 512 ?c) 80 2 = replicate 2 0"
    using assms(2) by (simp add: field_def len take_append drop_append take_replicate drop_replicate min_def)
  then have "sb_salt_size (superblock_of (take 512 ?c)) = 0" by (simp add: superblock_of_def le_nat_zeros)
  moreover have "take 8 ?c = verity_magic" by (simp add: len)
  ultimately show ?thesis
    using assms by (simp add: read_verity_superblock_def len Let_def min_def)
qed

lemma sample_asks:
  "succeeds (asking sample_initrd (get_block_dev_number ''/dev/sda1''))"
  "succeeds (asking sample_initrd (get_block_dev_number ''/dev/sda2''))"
  "succeeds (asking sample_initrd (read_verity_superblock ''/dev/sda2''))"
proof -
  have d: "get_block_dev_number p (sample_initrd t) = get_block_dev_number p (sample_initrd [])" for p t
    by (simp add: get_block_dev_number_def sample_initrd_def)
  have s: "read_verity_superblock p (sample_initrd t) = read_verity_superblock p (sample_initrd [])" for p t
    by (simp add: read_verity_superblock_def sample_initrd_def)
  have n: "get_block_dev_number ''/dev/sda1'' (sample_initrd t) = Inr ''8:1''"
    "get_block_dev_number ''/dev/sda2'' (sample_initrd t) = Inr ''8:2''" for t
    by (subst d, code_simp)+
  have "\<exists>sb. read_verity_superblock ''/dev/sda2'' (sample_initrd []) = Inr sb"
    by (rule superblock_read [of _ _ 474]) (simp_all add: sample_initrd_def)
  then obtain sb where "read_verity_superblock ''/dev/sda2'' (sample_initrd t) = Inr sb" for t using s by metis
  then show "succeeds (asking sample_initrd (get_block_dev_number ''/dev/sda1''))"
    "succeeds (asking sample_initrd (get_block_dev_number ''/dev/sda2''))"
    "succeeds (asking sample_initrd (read_verity_superblock ''/dev/sda2''))"
    by (simp_all add: succeeds_def asking_def n)
qed

lemma sample_boots: "\<exists>t. initrd_main (\<lambda>e. '''') sample_initrd = Some (NodeRuns, t)"
proof -
  have start: "read_roothash sample_initrd (load_kernel_modules sample_initrd
     (initrd_log sample_initrd ''Cevell OS Stage 1 Rust Initrd Engine initializing...'' (mount_early_filesystems sample_initrd []))) =
     (Inr (ToLower sample_hash), mount_early_filesystems sample_initrd [])" by code_simp
  have "succeeds (boot_root sample_initrd h (''/dev/sda1'', ''/dev/sda2''))" for h
    unfolding boot_root_def activate_dm_verity_def handoff_to_verified_root_def prod.case
    by (intro succeeds_and_then sample_steps sample_asks)
  then obtain t where "boot_root sample_initrd (ToLower sample_hash) (''/dev/sda1'', ''/dev/sda2'') (mount_early_filesystems sample_initrd [])
      = (Inr (), t)" unfolding succeeds_def by (metis old.unit.exhaust)
  then show ?thesis by (simp add: initrd_main_def run_initrd_def start sample_discovery)
qed

section \<open>Properties\<close>

text \<open>
  C25: Whenever the first program hands over to the node, it has created the mapping of dm-verity from a table
  that it read from the discovered disk and that carries the 64 characters of the command line's root hash, made
  its device node with the number that the device mapper gave, and mounted that device read-only. Each of the four
  calls of the device mapper, the making of the node, of the directory and of the mount of the root, both changes
  of directory, the change of the root and the execution succeeded at its moment. Before the mapping it only
  mounted the system directories, loaded drivers, waited and reported; after it nothing but the mount and the
  hand-over ran, up to the execution of the node itself. If the superblock's algorithm and the device numbers have
  no spaces, the word of the table that the device mapper takes for the root digest is that root hash.
\<close>

theorem verified_handoff:
  assumes "initrd_main wording M = Some (NodeRuns, t)"
  shows "\<exists>pre h rv sb dn vn dev l l'. verified_run M t pre h rv sb dn vn dev l l' \<and>
    ((CHR '' '') \<notin> set (algorithm_text sb @ dn @ vn) \<longrightarrow> split_on (CHR '' '') (verity_params sb dn vn h) ! 8 = h)"
proof -
  obtain pre h rv sb dn vn dev l l' where run: "verified_run M t pre h rv sb dn vn dev l l'"
    using main_verified [OF assms] by blast
  then obtain E where "shown_hash h E" unfolding verified_run_def Let_def seen_def by blast
  then have "split_on (CHR '' '') (verity_params sb dn vn h) ! 8 = h" if "(CHR '' '') \<notin> set (algorithm_text sb @ dn @ vn)"
    using that table_words [of sb dn vn h] shown_hash_no_space by (simp add: verity_arguments_def)
  then show ?thesis using run by blast
qed

theorem verified_handoff_witness:
  "\<exists>t pre h rv sb dn vn dev l l'. initrd_main (\<lambda>e. '''') sample_initrd = Some (NodeRuns, t) \<and>
     verified_run sample_initrd t pre h rv sb dn vn dev l l'"
proof -
  obtain t where run: "initrd_main (\<lambda>e. '''') sample_initrd = Some (NodeRuns, t)" using sample_boots by blast
  show ?thesis using run verified_handoff [OF run] by blast
qed

text \<open>
  C32: On a clock that counts the pauses the first program ends: it waits for the disk at most 67 times, and then
  the node runs in its place or it halts with an error; unless the node runs, or its execution itself failed, no
  program was executed at all.
\<close>

theorem initrd_ends:
  assumes "\<And>t. ir_now (M t) + poll_pause \<le> ir_now (M (t @ [SleepFor poll_pause]))"
  shows "\<exists>e t. initrd_main wording M = Some (e, t) \<and> length (filter is_pause t) \<le> 67 \<and>
    (e = NodeRuns \<or> e = Halted ExecFailed \<or> list_all runs_nothing t)"
proof -
  obtain e t where run: "initrd_main wording M = Some (e, t)"
    and e: "ends_well (case e of NodeRuns \<Rightarrow> None | Halted x \<Rightarrow> Some x) t"
    using main_ends [of M wording, OF assms] by blast
  have "length (filter is_pause t) \<le> 67 \<and> (e = NodeRuns \<or> e = Halted ExecFailed \<or> list_all runs_nothing t)"
    using e by (cases e) (auto simp: ends_well_def)
  then show ?thesis using run by blast
qed

theorem initrd_ends_witness:
  "\<exists>e t. initrd_main (\<lambda>e. ''halted'') sample_initrd = Some (e, t) \<and> length (filter is_pause t) \<le> 67"
proof -
  have "ir_now (sample_initrd t) + poll_pause \<le> ir_now (sample_initrd (t @ [SleepFor poll_pause]))" for t
    by (simp add: sample_initrd_def is_pause_def algebra_simps)
  from initrd_ends [of sample_initrd "\<lambda>e. ''halted''", OF this] show ?thesis by blast
qed

end
