(* ===== verification/Spec2Isabelle.thy ===== *)
theory Spec2Isabelle
  imports SealedNode StreamText SizingSafety EngineService RuntimeSafety ConsoleSafety HardeningSafety ModulesSafety NodeLife AttestedClient InitrdSafety
begin

text \<open>
  A verification development for the Cevell node (private-ai): the program that runs as process 1 of a
  confidential virtual machine, proves to its tenant what it is, and serves a language model to that tenant
  alone. Paths are relative to src/.

  The program and its theories. The node boots (cmd/cevell-node), locks its console, its kernel modules and its
  network (pkg/system, pkg/network), generates its keys and its certificate (pkg/crypto), binds them and the
  key of the tenant into a hardware report (pkg/attestation), and serves the gateway (pkg/proxy). The gateway
  authenticates each request (pkg/auth), opens its encrypted envelope (pkg/crypto), passes it to the engine
  that the supervisor runs (pkg/inference, sized for the machine that pkg/hardware found), and encrypts the
  answer, converted between two APIs where the request asks for it.

  Each component has one theory with its state and operations, under the names of the source, and one with its
  properties (Safety). Records are the structs and what an operation reads of the world; errors are values of
  a datatype or of a sum; a handler maps the state to the response, the new state and its effects.

  Foundations. GoPrelude: the functions of strings, strconv, hex, base64, path and time that the code calls, on
  texts as lists of bytes, with their laws. GoHttp: requests, bodies with a limit, header maps, the response
  of a handler. GoJson: decoding and encoding as encoding/json does it. GoFloat: float64 products rounded to
  nearest, ties to even, without overflow, which the values never reach. JsonRoundTrip: what the encoder writes,
  the decoder reads back. Contracts: the interfaces.

  Interfaces, as locales. replay_guard (Contracts) is a cache that consumes each nonce once within its lifetime
  and capacity; it is interpreted on the verifier (Auth, vg), and on the whole node as it forwards requests
  (GatewaySafety, gr). frame_channel (Contracts) is a sender and a receiver that stay linked while frames arrive
  in order; it is interpreted on the binary frames (Hpke, bf), on the protobuf frames (Hpke, pf) and on the
  encrypted writer (SseSafety, wf). model_loader (SupervisorSafety) is what the load endpoint relies on of a
  supervisor, interpreted on LoadModel (sl). device_invariant (ModulesSafety) is what a property of the device
  state has to keep, interpreted on the owners of nodes, the held files and the absence of nodes (owned, no_leak,
  phantom).

  Authentication. Auth: pkg/auth/ed25519.go, metadata.go, registration.go. The verifier record is
  Ed25519Verifier; seenNonces and nonceOrder are its map and slice. AuthSafety: what acceptance guarantees,
  that no nonce passes twice whatever runs in between, the bound of the cache, the finality of an enrolled key,
  the exact window of freshness, the formats of keys and canonical texts.

  Envelopes. Hpke: pkg/crypto/hpke.go, hpke_proto.go, keys.go (envelopes, sessions, frames, key pairs). HpkeSafety:
  round trips of requests and frames, no nonce used twice, refusal at the last number. SseWriter and SseSafety:
  pkg/proxy/hpke_middleware.go; the writer buffers the stream of the engine into events, and the client
  decrypts exactly those events, however the stream was cut. NodeCert: pkg/crypto/cert.go.

  Attestation. Attestation: pkg/attestation (binding, document, platform, amd, tdx, certs, gpu).
  AttestationSafety: the user data commits to the keys, a built document verifies, where a report comes from.
  NvmlScript: the Python program embedded in gpu.go, step by step, with the calls it makes and the JSON it
  prints; NvmlSafety: its output is read back exactly, and a GPU report answers the nonce of the evidence.
  AttestedClient: the exchange of the attestation endpoint with the check of a client over the bytes it receives.

  Gateway. Translator and TranslatorSafety: pkg/proxy/messages_translator.go; the conversion of Messages
  requests and of the streamed answer, whose events form one well-formed message. StreamText: which answers keep
  their text, the thinking between its tags apart from the rest, and which do not. Gateway: pkg/proxy/visibility.go, enrollment.go, seal_handler.go, server.go; route is the mux, and node the state that
  the handlers share. GatewaySafety: what reaches the engine was authenticated, is forwarded once, and each
  endpoint touches only its part. GatewayRuns: runs in which model loads are under way; the seal is final, and
  the request that sets it succeeded.

  Inference. Topology: pkg/hardware/topology.go. ContextSizing: pkg/inference/context_sizing.go. SizingSafety:
  consistency of the topology, the optimality of the aligned context and of the tensor parallel size, and the
  soundness of the budget, whose bound grows with the number of GPUs (several_gpus_overcommitted). EngineArgs, Supervisor and EngineRuntime: pkg/inference/supervisor.go (command lines
  and environments; state, loads, prober and watcher; processes, caches, links, provisioning and patch).
  SupervisorSafety: the invariant of all interleavings (sup_step), LoadModel as a run of its stages, the
  liveness prober, and the load endpoint over this supervisor. EngineService: the abstract service that rests,
  checks, launches and offers a model (service_step), and that every step of the supervisor refines it through
  service_of. RuntimeSafety: termination of process groups,
  the sandbox, the wait for the memory, provisioning.

  Network. Dhcp and Interfaces: pkg/network/interface.go, from bytes of packets to the address. Firewall:
  pkg/network/firewall.go and egress_lockdown.go; the chains are data whose text is that of the code, and whose
  meaning is that of nft(8). NetworkSafety: the lease that an acknowledgement states (said_mask, said_router,
  said_server), frames, checksums, no byte out of range, what a sealed chain lets through. SealedNode: a request
  that seals the node leaves the kernel with the sealed chain, unless an older file could not be replaced.

  System and boot. Config: pkg/config. Console: pkg/system/console.go as a relation (console_step) of loggers,
  writer, lockdown and the standard error of log.Printf; ConsoleSafety: silence in production. Hardening: pkg/system/hardening.go, its system calls
  in order, and the reaper as a relation; HardeningSafety: no mount hides another, no zombie is forgotten and
  the work of the reaper ends. KernelModules: pkg/system/modules.go, where what is read of the machine is a
  function of the calls made so far; ModulesSafety: nodes and their owners, held files, device numbers. Boot:
  cmd/cevell-node/main.go, with the operations of all packages, and StartProxyServer; BootSafety: nothing is
  online before the lockdown, the document and the certificate of a node that came up. NodeLife: from the boot
  through every run of the gateway.

  The first program. Initrd: crates/cevell-initrd/src/main.rs (in Rust), which runs before the node: steps over
  the calls made so far (and_then, asking, calling, trying) that end in a value or an error of initrd_error, the
  structures of dm-verity and the device mapper as bytes, and the discovery of the disk as a partial function,
  since its loop ends by the clock. InitrdRuns: the shape of a run that hands over, with the success of each call
  that must succeed (all_well), and that every run ends.
  InitrdSafety: the node runs only on the mapping with the root hash of the command line, what the device mapper
  reads of the table, and how the superblock can put its own digest there (smuggled_algorithm).

  Parameters and their laws. Code outside src/ is an argument: SHA-256, Ed25519, X25519, HKDF, AES-GCM and the
  protobuf codec (auth_crypto, hpke_prims), X.509 and PEM (x509_prims, cert_prims), the SEV guest library and the
  TSM and ioctl interfaces (sev_prims, tsm_prims), the NVIDIA management library (nvml_lib), nft (nft), the text of a
  float64 (float_prims), the YAML library, the engine, the metadata server, files and programs. Where a theorem needs a law it is a named
  hypothesis: aead_ok (what was sealed opens under the same key, nonce and data), dh_ok (both ends agree),
  codec_ok (a marshalled message unmarshals), nft_replaces (a text that flushes and defines a chain leaves the kernel with
  that chain), the length of digests and keys. Every such theorem has a witness in which the law holds.

  Bounds. The decoder of JSON runs on fuel of twice the length of the text and one, which is enough since
  every second step consumes a character. Loops over input are structural; the counters of sessions are 32 bits
  and refuse at the end, durations are saturated 64 bits, sizes of memory wrap at 64 bits where the code
  could overflow; the first program waits for its disk for ten seconds, at most 67 times. Timers and goroutines are steps of the relations; no fairness is assumed, so
  termination is by measures on the steps of one component (the reaper), and liveness says which step is
  enabled.

  Not modelled: the generated protobuf code (its codec is a parameter); the PEM texts embedded in
  pkg/attestation/certs.go (data passed to a library, of which the model keeps the names); scripts, images and clients (build and test material); log texts, flushing, and the transport settings of
  the reverse proxy, which have no state in the model; what net/http does around a handler (redirects of unclean
  paths, hop-by-hop headers); NVSwitch evidence, which the code does not implement.
\<close>

end
